(* ===== verification/Prelude.thy ===== *)
theory Prelude imports Main "HOL-Library.Sublist" "HOL-Library.Char_ord" "HOL-Library.List_Lexorder" "HOL-Library.Product_Lexorder" begin

text \<open>
  The shared prelude of the development: the collections of facts the component theories fill,
  the errors of the program as one datatype, and the generic lemmas on lists that several
  components use.

  Go's \<open>error\<close> is an interface whose values are compared with \<open>errors.Is\<close>. The sentinel errors of
  the modelled packages are values of \<open>err\<close>; \<open>fmt.Errorf("...: %w", e)\<close> is \<open>Wrapped\<close>, an
  \<open>errors.Join\<close> is \<open>Joined\<close>, an error made by \<open>errors.New\<close> on the spot is \<open>ErrNew\<close> with its text, and an error the database
  driver returns is \<open>DriverError\<close> with the driver's message.
\<close>

section \<open>Collections of facts\<close>

named_theorems prog_simps \<open>evaluation of the program combinators\<close>
named_theorems prog_iff \<open>when a program returns a given outcome\<close>
named_theorems read_only \<open>programs that leave the database unchanged\<close>
named_theorems stable_progs \<open>programs whose every outcome keeps a property of the database\<close>

section \<open>Errors\<close>

text \<open>The sentinel errors, one datatype per group of packages; an abbreviation gives each its Go name.\<close>

datatype auth_error = DeniedE | IdentityUnknownE
datatype dao_error = IdentityNotFoundE | IdentityConflictE | InvalidPaginationE
datatype model_error = ImmutableSystemGroupE | PersistedDefaultMembershipE | InvalidTokenPresetE | InvalidPersonalAccessTokenE | InvalidUserE | InvalidNamespaceE | InvalidSystemGroupE | InvalidTeamMembershipE | InvalidTeamInvitationE | InvalidAPIKeyPepperE
datatype credential_error = MalformedAPIKeyE | MalformedAPIKeyIndexE | WeakAPIKeyPepperE | InvalidCredentialsE | InvalidJWTE
datatype team_error = InvalidTeamInputE | TeamNotFoundE | TeamForbiddenE | TeamConflictE
datatype user_error = InvalidUserInputE | UserNotFoundE | UserAuthorizationE | UserConflictE | UserOperationDeniedE
datatype token_error = InvalidTokenInputE | TokenNotFoundE | TokenAuthorizationE
datatype bootstrap_error = BootstrapAdminPasswordRequiredE | BootstrapAdminPasswordReservedE
datatype plugin_error = InvalidScopeE | NotFoundE | AlreadyExistsE | VersionNotAvailableE | ForbiddenE | ConflictE | GoneE | InvalidInputE | UnavailableE
datatype git_error = RepositoryNotProvisionedE | RepositoryUnavailableE | RepositoryNotFoundE | InvalidRepositoryIDE | InvalidSlugE | UnsupportedServiceE | RevisionNotFoundE | PathNotFoundE | PathNotTextE | BlobTooLargeE | InvalidBrowseInputE
datatype receive_error = ReceiveUnavailableE | RejectedE | ManualRequiredE
datatype recovery_error = InvalidOptionsE | RecoveryUnavailableE
datatype distribution_error = DistributionNotFoundE | DistributionGoneE | DistributionUnavailableE | MarketplacePublicKeyConflictE | UserMarketplaceNotFoundE

datatype err =
    AuthError auth_error
  | DaoError dao_error
  | ModelError model_error
  | CredentialError credential_error
  | TeamError team_error
  | UserError user_error
  | TokenError token_error
  | BootstrapError bootstrap_error
  | PluginError plugin_error
  | GitError git_error
  | ReceiveError receive_error
  | RecoveryError recovery_error
  | DistributionError distribution_error
  | ErrRecordNotFound
  | DriverError string
  | ErrNew string
  | Wrapped string err
  | Joined err err

abbreviation ErrDenied :: err where "ErrDenied \<equiv> AuthError DeniedE"
abbreviation ErrIdentityUnknown :: err where "ErrIdentityUnknown \<equiv> AuthError IdentityUnknownE"
abbreviation ErrIdentityNotFound :: err where "ErrIdentityNotFound \<equiv> DaoError IdentityNotFoundE"
abbreviation ErrIdentityConflict :: err where "ErrIdentityConflict \<equiv> DaoError IdentityConflictE"
abbreviation ErrInvalidPagination :: err where "ErrInvalidPagination \<equiv> DaoError InvalidPaginationE"
abbreviation ErrImmutableSystemGroup :: err where "ErrImmutableSystemGroup \<equiv> ModelError ImmutableSystemGroupE"
abbreviation ErrPersistedDefaultMembership :: err where "ErrPersistedDefaultMembership \<equiv> ModelError PersistedDefaultMembershipE"
abbreviation ErrInvalidTokenPreset :: err where "ErrInvalidTokenPreset \<equiv> ModelError InvalidTokenPresetE"
abbreviation ErrInvalidPersonalAccessToken :: err where "ErrInvalidPersonalAccessToken \<equiv> ModelError InvalidPersonalAccessTokenE"
abbreviation ErrInvalidUser :: err where "ErrInvalidUser \<equiv> ModelError InvalidUserE"
abbreviation ErrInvalidNamespace :: err where "ErrInvalidNamespace \<equiv> ModelError InvalidNamespaceE"
abbreviation ErrInvalidSystemGroup :: err where "ErrInvalidSystemGroup \<equiv> ModelError InvalidSystemGroupE"
abbreviation ErrInvalidTeamMembership :: err where "ErrInvalidTeamMembership \<equiv> ModelError InvalidTeamMembershipE"
abbreviation ErrInvalidTeamInvitation :: err where "ErrInvalidTeamInvitation \<equiv> ModelError InvalidTeamInvitationE"
abbreviation ErrInvalidAPIKeyPepper :: err where "ErrInvalidAPIKeyPepper \<equiv> ModelError InvalidAPIKeyPepperE"
abbreviation ErrMalformedAPIKey :: err where "ErrMalformedAPIKey \<equiv> CredentialError MalformedAPIKeyE"
abbreviation ErrMalformedAPIKeyIndex :: err where "ErrMalformedAPIKeyIndex \<equiv> CredentialError MalformedAPIKeyIndexE"
abbreviation ErrWeakAPIKeyPepper :: err where "ErrWeakAPIKeyPepper \<equiv> CredentialError WeakAPIKeyPepperE"
abbreviation ErrInvalidCredentials :: err where "ErrInvalidCredentials \<equiv> CredentialError InvalidCredentialsE"
abbreviation ErrInvalidJWT :: err where "ErrInvalidJWT \<equiv> CredentialError InvalidJWTE"
abbreviation ErrInvalidTeamInput :: err where "ErrInvalidTeamInput \<equiv> TeamError InvalidTeamInputE"
abbreviation ErrTeamNotFound :: err where "ErrTeamNotFound \<equiv> TeamError TeamNotFoundE"
abbreviation ErrTeamForbidden :: err where "ErrTeamForbidden \<equiv> TeamError TeamForbiddenE"
abbreviation ErrTeamConflict :: err where "ErrTeamConflict \<equiv> TeamError TeamConflictE"
abbreviation ErrInvalidUserInput :: err where "ErrInvalidUserInput \<equiv> UserError InvalidUserInputE"
abbreviation ErrUserNotFound :: err where "ErrUserNotFound \<equiv> UserError UserNotFoundE"
abbreviation ErrUserAuthorization :: err where "ErrUserAuthorization \<equiv> UserError UserAuthorizationE"
abbreviation ErrUserConflict :: err where "ErrUserConflict \<equiv> UserError UserConflictE"
abbreviation ErrUserOperationDenied :: err where "ErrUserOperationDenied \<equiv> UserError UserOperationDeniedE"
abbreviation ErrInvalidTokenInput :: err where "ErrInvalidTokenInput \<equiv> TokenError InvalidTokenInputE"
abbreviation ErrTokenNotFound :: err where "ErrTokenNotFound \<equiv> TokenError TokenNotFoundE"
abbreviation ErrTokenAuthorization :: err where "ErrTokenAuthorization \<equiv> TokenError TokenAuthorizationE"
abbreviation ErrBootstrapAdminPasswordRequired :: err where "ErrBootstrapAdminPasswordRequired \<equiv> BootstrapError BootstrapAdminPasswordRequiredE"
abbreviation ErrBootstrapAdminPasswordReserved :: err where "ErrBootstrapAdminPasswordReserved \<equiv> BootstrapError BootstrapAdminPasswordReservedE"
abbreviation ErrInvalidScope :: err where "ErrInvalidScope \<equiv> PluginError InvalidScopeE"
abbreviation ErrNotFound :: err where "ErrNotFound \<equiv> PluginError NotFoundE"
abbreviation ErrAlreadyExists :: err where "ErrAlreadyExists \<equiv> PluginError AlreadyExistsE"
abbreviation ErrVersionNotAvailable :: err where "ErrVersionNotAvailable \<equiv> PluginError VersionNotAvailableE"
abbreviation ErrForbidden :: err where "ErrForbidden \<equiv> PluginError ForbiddenE"
abbreviation ErrConflict :: err where "ErrConflict \<equiv> PluginError ConflictE"
abbreviation ErrGone :: err where "ErrGone \<equiv> PluginError GoneE"
abbreviation ErrInvalidInput :: err where "ErrInvalidInput \<equiv> PluginError InvalidInputE"
abbreviation ErrUnavailable :: err where "ErrUnavailable \<equiv> PluginError UnavailableE"
abbreviation ErrRepositoryNotProvisioned :: err where "ErrRepositoryNotProvisioned \<equiv> GitError RepositoryNotProvisionedE"
abbreviation ErrRepositoryUnavailable :: err where "ErrRepositoryUnavailable \<equiv> GitError RepositoryUnavailableE"

abbreviation ErrRepositoryNotFound :: err where "ErrRepositoryNotFound \<equiv> GitError RepositoryNotFoundE"
abbreviation ErrInvalidRepositoryID :: err where "ErrInvalidRepositoryID \<equiv> GitError InvalidRepositoryIDE"
abbreviation ErrInvalidSlug :: err where "ErrInvalidSlug \<equiv> GitError InvalidSlugE"
abbreviation ErrUnsupportedService :: err where "ErrUnsupportedService \<equiv> GitError UnsupportedServiceE"
abbreviation ErrReceiveUnavailable :: err where "ErrReceiveUnavailable \<equiv> ReceiveError ReceiveUnavailableE"
abbreviation ErrRejected :: err where "ErrRejected \<equiv> ReceiveError RejectedE"
abbreviation ErrManualRequired :: err where "ErrManualRequired \<equiv> ReceiveError ManualRequiredE"
abbreviation ErrInvalidOptions :: err where "ErrInvalidOptions \<equiv> RecoveryError InvalidOptionsE"
abbreviation ErrRecoveryUnavailable :: err where "ErrRecoveryUnavailable \<equiv> RecoveryError RecoveryUnavailableE"
abbreviation ErrDistributionNotFound :: err where "ErrDistributionNotFound \<equiv> DistributionError DistributionNotFoundE"
abbreviation ErrDistributionGone :: err where "ErrDistributionGone \<equiv> DistributionError DistributionGoneE"
abbreviation ErrDistributionUnavailable :: err where "ErrDistributionUnavailable \<equiv> DistributionError DistributionUnavailableE"
abbreviation ErrMarketplacePublicKeyConflict :: err where "ErrMarketplacePublicKeyConflict \<equiv> DistributionError MarketplacePublicKeyConflictE"

text \<open>
  \<open>errors.Is(e, target)\<close>: \<open>e\<close> is the target, or it wraps an error that is; \<open>errors.Join\<close> wraps two.
\<close>

fun errors_Is :: "err \<Rightarrow> err \<Rightarrow> bool" where
  "errors_Is (Wrapped msg e) target = (Wrapped msg e = target \<or> errors_Is e target)"
| "errors_Is (Joined e f) target = (Joined e f = target \<or> errors_Is e target \<or> errors_Is f target)"
| "errors_Is e target = (e = target)"

lemma errors_Is_refl [simp]: "errors_Is e e"
  by (cases e) auto

section \<open>Lists as tables\<close>

text \<open>A query with \<open>Take\<close> reads one matching row; the tables keep their keys unique.\<close>

lemma find_Some_iff_hd: "List.find P xs = Some x \<Longrightarrow> x \<in> set xs \<and> P x"
  by (induction xs) (auto split: if_splits)

lemma find_None_iff2: "List.find P xs = None \<longleftrightarrow> (\<forall>x \<in> set xs. \<not> P x)"
  by (induction xs) auto

lemma find_unique:
  assumes "x \<in> set xs" "P x" "\<And>y. y \<in> set xs \<Longrightarrow> P y \<Longrightarrow> y = x"
  shows "List.find P xs = Some x"
proof (cases "List.find P xs")
  case None
  with assms(1,2) show ?thesis by (auto simp: find_None_iff2)
next
  case (Some y)
  then show ?thesis using assms(3) find_Some_iff_hd [OF Some] by auto
qed

definition update_where :: "('r \<Rightarrow> bool) \<Rightarrow> ('r \<Rightarrow> 'r) \<Rightarrow> 'r list \<Rightarrow> 'r list" where
  "update_where P f rows = map (\<lambda>r. if P r then f r else r) rows"

definition delete_where :: "('r \<Rightarrow> bool) \<Rightarrow> 'r list \<Rightarrow> 'r list" where
  "delete_where P rows = filter (\<lambda>r. \<not> P r) rows"

definition count_where :: "('r \<Rightarrow> bool) \<Rightarrow> 'r list \<Rightarrow> nat" where
  "count_where P rows = length (filter P rows)"

lemma length_update_where [simp]: "length (update_where P f rows) = length rows"
  by (simp add: update_where_def)

lemma update_where_Nil [simp]: "update_where P f [] = []"
  by (simp add: update_where_def)

lemma set_update_where: "set (update_where P f rows) = (\<lambda>r. if P r then f r else r) ` set rows"
  by (simp add: update_where_def)

lemma map_update_where:
  "(\<And>r. P r \<Longrightarrow> k (f r) = k r) \<Longrightarrow> map k (update_where P f rows) = map k rows"
  by (auto simp: update_where_def)

lemma set_delete_where [simp]: "set (delete_where P rows) = {r \<in> set rows. \<not> P r}"
  by (auto simp: delete_where_def)

lemma distinct_map_delete_where: "distinct (map k rows) \<Longrightarrow> distinct (map k (delete_where P rows))"
  by (induction rows) (auto simp: delete_where_def)

lemma count_where_0_iff [simp]: "count_where P rows = 0 \<longleftrightarrow> (\<forall>r \<in> set rows. \<not> P r)"
  by (auto simp: count_where_def filter_empty_conv)

lemma count_where_pos_iff: "0 < count_where P rows \<longleftrightarrow> (\<exists>r \<in> set rows. P r)"
  by (metis count_where_0_iff not_gr0)

lemma distinct_map_same: "distinct (map k rows) \<Longrightarrow> x \<in> set rows \<Longrightarrow> y \<in> set rows \<Longrightarrow> k x = k y \<Longrightarrow> x = y"
  by (meson distinct_map inj_on_def)

text \<open>Two different elements that satisfy \<open>P\<close> make the count at least two.\<close>

lemma count_where_two:
  assumes "x \<in> set rows" "y \<in> set rows" "P x" "P y" "x \<noteq> y"
  shows "2 \<le> count_where P rows"
proof -
  have "{x, y} \<subseteq> set (filter P rows)" using assms by auto
  then have "card {x, y} \<le> length (filter P rows)"
    by (meson card_length card_mono finite_set le_trans)
  with assms(5) show ?thesis by (simp add: count_where_def)
qed

lemma count_where_two_other:
  assumes "2 \<le> count_where P rows" "distinct rows"
  shows "\<exists>y \<in> set rows. P y \<and> y \<noteq> x"
proof (rule ccontr)
  assume "\<not> ?thesis"
  then have "set (filter P rows) \<subseteq> {x}" by auto
  then have "card (set (filter P rows)) \<le> 1"
    by (metis card.empty card_insert_disjoint card_mono empty_iff finite.emptyI finite.insertI One_nat_def)
  moreover have "card (set (filter P rows)) = length (filter P rows)"
    using assms(2) distinct_card [OF distinct_filter] by blast
  ultimately show False using assms(1) by (simp add: count_where_def)
qed

section \<open>Pages\<close>

text \<open>
  Go's \<open>int\<close> has 64 bits on the supported platforms: \<open>wrap64\<close> is the value an arithmetic result
  takes, \<open>max_int\<close> is \<open>math.MaxInt\<close>. GORM writes the \<open>OFFSET\<close> clause of a query only for a
  positive offset and the \<open>LIMIT\<close> clause for the given size.
\<close>

definition max_int :: int where
  "max_int = 9223372036854775807"

definition wrap64 :: "int \<Rightarrow> int" where
  "wrap64 x = (x + 9223372036854775808) mod 18446744073709551616 - 9223372036854775808"

definition limit_offset :: "int \<Rightarrow> int \<Rightarrow> 'r list \<Rightarrow> 'r list" where
  "limit_offset sz off rows = take (nat sz) (drop (nat off) rows)"

lemma wrap64_id: "- 9223372036854775808 \<le> x \<Longrightarrow> x \<le> max_int \<Longrightarrow> wrap64 x = x"
  by (simp add: wrap64_def max_int_def)

lemma set_limit_offset: "set (limit_offset sz off rows) \<subseteq> set rows"
  unfolding limit_offset_def by (meson set_drop_subset set_take_subset subset_trans)

lemma length_limit_offset: "length (limit_offset sz off rows) \<le> nat sz"
  by (simp add: limit_offset_def)

text \<open>
  Pagination guard of the data access objects: \<open>page < 1\<close>, \<open>size < 1\<close> or a product that would
  overflow is refused; Go's integer division truncates, and both operands are positive here.
\<close>

definition page_overflows :: "int \<Rightarrow> int \<Rightarrow> bool" where
  "page_overflows page sz \<longleftrightarrow> page < 1 \<or> sz < 1 \<or> page - 1 > max_int div sz"

lemma page_product_bounds:
  assumes "\<not> page_overflows page sz"
  shows "0 \<le> (page - 1) * sz" and "(page - 1) * sz \<le> max_int"
proof -
  from assms have p: "1 \<le> page" "1 \<le> sz" and le: "page - 1 \<le> max_int div sz"
    by (auto simp: page_overflows_def)
  show "0 \<le> (page - 1) * sz" using p by simp
  have "(page - 1) * sz \<le> (max_int div sz) * sz"
    using le p by (intro mult_right_mono) auto
  also have "\<dots> \<le> max_int"
  proof -
    have "(max_int div sz) * sz + max_int mod sz = max_int" by simp
    moreover have "0 \<le> max_int mod sz" using p by simp
    ultimately show ?thesis by linarith
  qed
  finally show "(page - 1) * sz \<le> max_int" .
qed

section \<open>Evaluation of characters\<close>

text \<open>
  Code equations for the conversions between bytes and numbers that do without the type classes of
  bit operations: concrete runs evaluate several times faster with them.
\<close>

definition byte_char :: "nat \<Rightarrow> char" where
  "byte_char n = Char (n mod 2 = 1) (n div 2 mod 2 = 1) (n div 4 mod 2 = 1) (n div 8 mod 2 = 1)
     (n div 16 mod 2 = 1) (n div 32 mod 2 = 1) (n div 64 mod 2 = 1) (n div 128 mod 2 = 1)"

fun char_byte :: "char \<Rightarrow> nat" where
  "char_byte (Char b0 b1 b2 b3 b4 b5 b6 b7) =
     (if b0 then 1 else 0) + (if b1 then 2 else 0) + (if b2 then 4 else 0) + (if b3 then 8 else 0) +
     (if b4 then 16 else 0) + (if b5 then 32 else 0) + (if b6 then 64 else 0) + (if b7 then 128 else 0)"

lemma char_of_byte_char [code_unfold]: "char_of = byte_char"
  by (rule ext) (simp add: byte_char_def char_of_def bit_iff_odd odd_iff_mod_2_eq_one)

lemma of_char_char_byte [code_unfold]: "of_char = char_byte"
proof (rule ext)
  show "of_char c = char_byte c" for c by (cases c) (simp add: of_char_def)
qed

end
