(* ===== verification/GoStrings.thy ===== *)
theory GoStrings imports Prelude begin

text \<open>
  The functions of Go's \<open>strings\<close>, \<open>strconv\<close> and \<open>unicode/utf8\<close> packages the program uses, on
  byte strings: a \<open>string\<close> is its list of bytes, as in Go. Only \<open>strings.ToLower\<close> on a string
  with bytes outside ASCII needs the Unicode case tables, which are not part of the repository:
  it takes the table as a parameter.
\<close>

section \<open>Bytes and trimming\<close>

definition byte :: "char \<Rightarrow> nat" where
  "byte c = of_char c"

definition is_ascii :: "string \<Rightarrow> bool" where
  "is_ascii s \<longleftrightarrow> list_all (\<lambda>c. byte c < 128) s"

text \<open>The UTF-8 encodings of the characters that \<open>unicode.IsSpace\<close> accepts.\<close>

definition space_encodings :: "string list" where
  "space_encodings =
     [[CHR 0x09], [CHR 0x0A], [CHR 0x0B], [CHR 0x0C], [CHR 0x0D], [CHR 0x20],
      [CHR 0xC2, CHR 0x85], [CHR 0xC2, CHR 0xA0], [CHR 0xE1, CHR 0x9A, CHR 0x80],
      [CHR 0xE2, CHR 0x80, CHR 0x80], [CHR 0xE2, CHR 0x80, CHR 0x81], [CHR 0xE2, CHR 0x80, CHR 0x82],
      [CHR 0xE2, CHR 0x80, CHR 0x83], [CHR 0xE2, CHR 0x80, CHR 0x84], [CHR 0xE2, CHR 0x80, CHR 0x85],
      [CHR 0xE2, CHR 0x80, CHR 0x86], [CHR 0xE2, CHR 0x80, CHR 0x87], [CHR 0xE2, CHR 0x80, CHR 0x88],
      [CHR 0xE2, CHR 0x80, CHR 0x89], [CHR 0xE2, CHR 0x80, CHR 0x8A], [CHR 0xE2, CHR 0x80, CHR 0xA8],
      [CHR 0xE2, CHR 0x80, CHR 0xA9], [CHR 0xE2, CHR 0x80, CHR 0xAF], [CHR 0xE2, CHR 0x81, CHR 0x9F],
      [CHR 0xE3, CHR 0x80, CHR 0x80]]"

function strip_prefixes :: "string list \<Rightarrow> string \<Rightarrow> string" where
  "strip_prefixes encs s =
     (case List.find (\<lambda>e. e \<noteq> [] \<and> prefix e s) encs of
        None \<Rightarrow> s
      | Some e \<Rightarrow> strip_prefixes encs (drop (length e) s))"
  by pat_completeness auto
termination
proof (relation "measure (\<lambda>(encs, s). length s)", simp)
  fix encs :: "string list" and s e :: string
  assume "List.find (\<lambda>e. e \<noteq> [] \<and> prefix e s) encs = Some e"
  then have "e \<noteq> []" "prefix e s" by (auto dest: find_Some_iff_hd)
  then show "((encs, drop (length e) s), encs, s) \<in> measure (\<lambda>(encs, s). length s)"
    by (cases e; cases s) auto
qed

declare strip_prefixes.simps [simp del]

definition strings_TrimSpace :: "string \<Rightarrow> string" where
  "strings_TrimSpace s =
     rev (strip_prefixes (map rev space_encodings) (rev (strip_prefixes space_encodings s)))"

lemma strip_prefixes_suffix: "suffix (strip_prefixes encs s) s"
proof (induction encs s rule: strip_prefixes.induct)
  case (1 encs s)
  show ?case
  proof (cases "List.find (\<lambda>e. e \<noteq> [] \<and> prefix e s) encs")
    case None
    then show ?thesis by (subst strip_prefixes.simps) simp
  next
    case (Some e)
    with "1.IH" have "suffix (strip_prefixes encs (drop (length e) s)) (drop (length e) s)" by blast
    with Some show ?thesis
      by (subst strip_prefixes.simps) (auto intro: suffix_order.trans suffix_drop)
  qed
qed

lemma strip_prefixes_done:
  "e \<in> set encs \<Longrightarrow> e \<noteq> [] \<Longrightarrow> \<not> prefix e (strip_prefixes encs s)"
proof (induction encs s rule: strip_prefixes.induct)
  case (1 encs s)
  show ?case
  proof (cases "List.find (\<lambda>e. e \<noteq> [] \<and> prefix e s) encs")
    case None
    then have "strip_prefixes encs s = s" by (subst strip_prefixes.simps) simp
    with None "1.prems" show ?thesis by (auto simp: find_None_iff2)
  next
    case (Some e')
    with "1.IH" "1.prems" have "\<not> prefix e (strip_prefixes encs (drop (length e') s))" by blast
    with Some show ?thesis by (subst strip_prefixes.simps) simp
  qed
qed

lemma strip_prefixes_idle:
  "(\<And>e. e \<in> set encs \<Longrightarrow> e \<noteq> [] \<Longrightarrow> \<not> prefix e s) \<Longrightarrow> strip_prefixes encs s = s"
  by (subst strip_prefixes.simps) (auto simp: find_None_iff2 split: option.splits dest: find_Some_iff_hd)

lemma strings_TrimSpace_idem [simp]: "strings_TrimSpace (strings_TrimSpace s) = strings_TrimSpace s"
proof -
  let ?l = "strip_prefixes space_encodings s"
  let ?r = "strip_prefixes (map rev space_encodings) (rev ?l)"
  have suf: "prefix (rev ?r) ?l"
    using strip_prefixes_suffix [of "map rev space_encodings" "rev ?l"]
    by (simp add: suffix_to_prefix)
  have "strip_prefixes space_encodings (rev ?r) = rev ?r"
  proof (rule strip_prefixes_idle)
    fix e assume "e \<in> set space_encodings" "e \<noteq> []"
    then have "\<not> prefix e ?l" by (rule strip_prefixes_done)
    then show "\<not> prefix e (rev ?r)" using suf by (meson prefix_order.trans)
  qed
  moreover have "strip_prefixes (map rev space_encodings) ?r = ?r"
    by (rule strip_prefixes_idle) (rule strip_prefixes_done)
  ultimately show ?thesis by (simp add: strings_TrimSpace_def)
qed

section \<open>Case folding, prefixes, splitting\<close>

definition lower_byte :: "char \<Rightarrow> char" where
  "lower_byte c = (if 65 \<le> byte c \<and> byte c \<le> 90 then char_of (byte c + 32) else c)"

text \<open>
  \<open>strings.ToLower\<close>: an ASCII string byte by byte, any other by the Unicode tables \<open>lw\<close>.
\<close>

definition strings_ToLower :: "(string \<Rightarrow> string) \<Rightarrow> string \<Rightarrow> string" where
  "strings_ToLower lw s = (if is_ascii s then map lower_byte s else lw s)"

definition strings_Contains :: "string \<Rightarrow> string \<Rightarrow> bool" where
  "strings_Contains s sub = list_ex (prefix sub) (suffixes s)"

definition strings_TrimPrefix :: "string \<Rightarrow> string \<Rightarrow> string" where
  "strings_TrimPrefix s p = (if prefix p s then drop (length p) s else s)"

fun strings_Split :: "char \<Rightarrow> string \<Rightarrow> string list" where
  "strings_Split sep [] = [[]]"
| "strings_Split sep (c # s) =
     (if c = sep then [] # strings_Split sep s
      else (case strings_Split sep s of [] \<Rightarrow> [[c]] | p # ps \<Rightarrow> (c # p) # ps))"

lemma strings_Split_nonempty [simp]: "strings_Split sep s \<noteq> []"
  by (induction s) (auto split: list.splits)

lemma strings_Split_no_sep: "p \<in> set (strings_Split sep s) \<Longrightarrow> sep \<notin> set p"
  by (induction s arbitrary: p) (auto split: if_splits list.splits)

lemma strings_Split_single: "sep \<notin> set s \<Longrightarrow> strings_Split sep s = [s]"
  by (induction s) auto

lemma strings_Split_append:
  "sep \<notin> set a \<Longrightarrow> strings_Split sep (a @ sep # b) = a # strings_Split sep b"
  by (induction a) auto

section \<open>Runes\<close>

text \<open>
  The number of bytes that \<open>utf8.DecodeRune\<close> consumes at the start of a non-empty string: the
  length of a valid encoding, or one byte for an invalid one.
\<close>

definition cont :: "nat \<Rightarrow> bool" where
  "cont b \<longleftrightarrow> 128 \<le> b \<and> b \<le> 191"

fun rune_size :: "nat list \<Rightarrow> nat" where
  "rune_size (b0 # b1 # b2 # b3 # r) =
     (if 194 \<le> b0 \<and> b0 \<le> 223 \<and> cont b1 then 2
      else if (b0 = 224 \<and> 160 \<le> b1 \<and> b1 \<le> 191 \<or> (225 \<le> b0 \<and> b0 \<le> 236 \<or> b0 = 238 \<or> b0 = 239) \<and> cont b1
               \<or> b0 = 237 \<and> 128 \<le> b1 \<and> b1 \<le> 159) \<and> cont b2 then 3
      else if (b0 = 240 \<and> 144 \<le> b1 \<and> b1 \<le> 191 \<or> 241 \<le> b0 \<and> b0 \<le> 243 \<and> cont b1
               \<or> b0 = 244 \<and> 128 \<le> b1 \<and> b1 \<le> 143) \<and> cont b2 \<and> cont b3 then 4
      else 1)"
| "rune_size [b0, b1, b2] =
     (if 194 \<le> b0 \<and> b0 \<le> 223 \<and> cont b1 then 2
      else if (b0 = 224 \<and> 160 \<le> b1 \<and> b1 \<le> 191 \<or> (225 \<le> b0 \<and> b0 \<le> 236 \<or> b0 = 238 \<or> b0 = 239) \<and> cont b1
               \<or> b0 = 237 \<and> 128 \<le> b1 \<and> b1 \<le> 159) \<and> cont b2 then 3
      else 1)"
| "rune_size [b0, b1] = (if 194 \<le> b0 \<and> b0 \<le> 223 \<and> cont b1 then 2 else 1)"
| "rune_size [b0] = 1"
| "rune_size [] = 0"

lemma rune_size_pos: "bs \<noteq> [] \<Longrightarrow> 0 < rune_size bs"
  by (cases bs rule: rune_size.cases) auto

function rune_count :: "nat list \<Rightarrow> nat" where
  "rune_count bs = (if bs = [] then 0 else Suc (rune_count (drop (rune_size bs) bs)))"
  by pat_completeness auto
termination
  by (relation "measure length") (auto simp: rune_size_pos)

declare rune_count.simps [simp del]

definition utf8_RuneCountInString :: "string \<Rightarrow> nat" where
  "utf8_RuneCountInString s = rune_count (map byte s)"

lemma rune_count_le_length: "rune_count bs \<le> length bs"
proof (induction bs rule: rune_count.induct)
  case (1 bs)
  show ?case
  proof (cases "bs = []")
    case True
    then show ?thesis by (subst rune_count.simps) simp
  next
    case False
    with "1.IH" rune_size_pos [OF False] show ?thesis
      by (subst rune_count.simps) (auto simp: Suc_le_eq le_less_trans)
  qed
qed

lemma rune_count_ascii: "list_all (\<lambda>b. b < 128) bs \<Longrightarrow> rune_count bs = length bs"
proof (induction bs)
  case Nil
  then show ?case by (subst rune_count.simps) simp
next
  case (Cons b bs)
  then have "rune_size (b # bs) = 1" by (cases "b # bs" rule: rune_size.cases) auto
  with Cons show ?case by (subst rune_count.simps) simp
qed

lemma utf8_RuneCountInString_le: "utf8_RuneCountInString s \<le> length s"
  using rune_count_le_length [of "map byte s"] by (simp add: utf8_RuneCountInString_def)

lemma utf8_RuneCountInString_ascii: "is_ascii s \<Longrightarrow> utf8_RuneCountInString s = length s"
  using rune_count_ascii [of "map byte s"]
  by (simp add: utf8_RuneCountInString_def is_ascii_def list.pred_map comp_def)

section \<open>Decimal numbers\<close>

fun dec_digits :: "nat \<Rightarrow> string" where
  "dec_digits n = (if n < 10 then [char_of (48 + n)] else dec_digits (n div 10) @ [char_of (48 + n mod 10)])"

declare dec_digits.simps [simp del]

definition is_digit :: "char \<Rightarrow> bool" where
  "is_digit c \<longleftrightarrow> 48 \<le> byte c \<and> byte c \<le> 57"

definition digits_value :: "string \<Rightarrow> nat" where
  "digits_value s = foldl (\<lambda>n c. 10 * n + (byte c - 48)) 0 s"

text \<open>
  \<open>strconv.ParseUint(s, 10, bits)\<close>: digits only (base ten takes no sign, prefix or underscore)
  and a value that fits.
\<close>

definition strconv_ParseUint :: "string \<Rightarrow> nat \<Rightarrow> nat option" where
  "strconv_ParseUint s bits =
     (if s \<noteq> [] \<and> list_all is_digit s \<and> digits_value s < 2 ^ bits then Some (digits_value s) else None)"

lemma byte_char_of_digit: "n < 10 \<Longrightarrow> byte (char_of (48 + n)) = 48 + n"
  by (simp add: byte_def)

lemma dec_digits_nonempty [simp]: "dec_digits n \<noteq> []"
  by (subst dec_digits.simps) simp

lemma dec_digits_digit: "list_all is_digit (dec_digits n)"
proof (induction n rule: dec_digits.induct)
  case (1 n)
  have "is_digit (char_of (48 + k))" if "k < 10" for k :: nat
    using that by (simp add: is_digit_def byte_char_of_digit)
  with 1 show ?case by (subst dec_digits.simps) simp
qed

lemma digits_value_dec_digits: "digits_value (dec_digits n) = n"
proof (induction n rule: dec_digits.induct)
  case (1 n)
  show ?case
  proof (cases "n < 10")
    case True
    then show ?thesis
      by (subst dec_digits.simps) (simp add: digits_value_def byte_char_of_digit)
  next
    case False
    with 1 have IH: "foldl (\<lambda>n c. 10 * n + (byte c - 48)) 0 (dec_digits (n div 10)) = n div 10"
      by (simp add: digits_value_def)
    have "byte (char_of (48 + n mod 10)) = 48 + n mod 10"
      by (rule byte_char_of_digit) simp
    with False IH show ?thesis
      by (subst dec_digits.simps) (simp add: digits_value_def)
  qed
qed

lemma ParseUint_dec_digits: "n < 2 ^ bits \<Longrightarrow> strconv_ParseUint (dec_digits n) bits = Some n"
  by (simp add: strconv_ParseUint_def dec_digits_digit digits_value_dec_digits)

section \<open>Slugs\<close>

text \<open>The regular expression \<open>^[a-z0-9]+(?:-[a-z0-9]+)*$\<close>, as an inductive language and as its matcher.\<close>

definition slug_char :: "char \<Rightarrow> bool" where
  "slug_char c \<longleftrightarrow> 97 \<le> byte c \<and> byte c \<le> 122 \<or> 48 \<le> byte c \<and> byte c \<le> 57"

definition slug_word :: "string \<Rightarrow> bool" where
  "slug_word s \<longleftrightarrow> s \<noteq> [] \<and> list_all slug_char s"

inductive slug_language :: "string \<Rightarrow> bool" where
  word: "slug_word w \<Longrightarrow> slug_language w"
| more: "slug_word w \<Longrightarrow> slug_language s \<Longrightarrow> slug_language (w @ CHR ''-'' # s)"

definition canonical_slug :: "string \<Rightarrow> bool" where
  "canonical_slug s \<longleftrightarrow> list_all slug_word (strings_Split CHR ''-'' s)"

lemma slug_char_not_dash: "slug_char c \<Longrightarrow> c \<noteq> CHR ''-''"
  by (auto simp: slug_char_def byte_def)

lemma slug_word_no_dash: "slug_word w \<Longrightarrow> CHR ''-'' \<notin> set w"
  using slug_char_not_dash by (auto simp: slug_word_def list_all_iff)

lemma slug_language_canonical: "slug_language s \<Longrightarrow> canonical_slug s"
  by (induction rule: slug_language.induct)
    (simp_all add: canonical_slug_def strings_Split_single strings_Split_append slug_word_no_dash)

lemma strings_Split_dash_cases:
  "strings_Split sep s = p # ps \<Longrightarrow> (ps = [] \<and> s = p) \<or> (ps \<noteq> [] \<and> (\<exists>t. s = p @ sep # t \<and> strings_Split sep t = ps))"
proof (induction s arbitrary: p ps)
  case Nil
  then show ?case by auto
next
  case (Cons c s)
  show ?case
  proof (cases "c = sep")
    case True
    with Cons.prems show ?thesis by (intro disjI2) auto
  next
    case False
    obtain q qs where q: "strings_Split sep s = q # qs" by (cases "strings_Split sep s") auto
    with False Cons.prems have p: "p = c # q" "ps = qs" by auto
    from Cons.IH [OF q] p show ?thesis by auto
  qed
qed

lemma canonical_slug_language: "canonical_slug s \<Longrightarrow> slug_language s"
proof (induction "strings_Split CHR ''-'' s" arbitrary: s)
  case Nil
  then show ?case by (metis strings_Split_nonempty)
next
  case (Cons p ps)
  have w: "slug_word p" and rest: "list_all slug_word ps"
    using Cons.prems Cons.hyps(2) [symmetric] by (simp_all add: canonical_slug_def)
  from strings_Split_dash_cases [OF Cons.hyps(2) [symmetric]]
  show ?case
  proof
    assume "ps = [] \<and> s = p"
    with w show ?thesis by (simp add: slug_language.word)
  next
    assume "ps \<noteq> [] \<and> (\<exists>t. s = p @ CHR ''-'' # t \<and> strings_Split CHR ''-'' t = ps)"
    then obtain t where t: "s = p @ CHR ''-'' # t" "strings_Split CHR ''-'' t = ps" by blast
    then have "slug_language t" using Cons.hyps(1) [of t] rest by (simp add: canonical_slug_def)
    with w t(1) show ?thesis by (simp add: slug_language.more)
  qed
qed

lemma canonical_slug_iff_language: "canonical_slug s \<longleftrightarrow> slug_language s"
  using slug_language_canonical canonical_slug_language by blast

text \<open>Go's loop \<open>identitySlug\<close> looks at every byte with its neighbours; the first index is \<open>i = 0\<close>.\<close>

fun identity_slug_from :: "char option \<Rightarrow> string \<Rightarrow> bool" where
  "identity_slug_from prev [] = True"
| "identity_slug_from prev (c # s) =
     (if slug_char c then identity_slug_from (Some c) s
      else if c = CHR ''-'' \<and> prev \<noteq> None \<and> s \<noteq> [] \<and> prev \<noteq> Some CHR ''-'' \<and> hd s \<noteq> CHR ''-''
      then identity_slug_from (Some c) s
      else False)"

definition identitySlug :: "string \<Rightarrow> bool" where
  "identitySlug value = identity_slug_from None value"

lemma identitySlug_Nil: "identitySlug []"
  by (simp add: identitySlug_def)

lemma identity_slug_from_after_word:
  "identity_slug_from (Some p) s \<longleftrightarrow>
     (case strings_Split CHR ''-'' s of
        [] \<Rightarrow> False
      | w # ws \<Rightarrow> list_all slug_char w \<and> list_all slug_word ws \<and> (p = CHR ''-'' \<longrightarrow> s = [] \<or> w \<noteq> [] ))"
  if "p = CHR ''-'' \<or> slug_char p"
  using that
proof (induction s arbitrary: p)
  case Nil
  then show ?case by simp
next
  case (Cons c s)
  obtain w ws where sp: "strings_Split CHR ''-'' s = w # ws" by (cases "strings_Split CHR ''-'' s") auto
  show ?case
  proof (cases "c = CHR ''-''")
    case True
    then have nc: "\<not> slug_char c" using slug_char_not_dash by blast
    have IH: "identity_slug_from (Some CHR ''-'') s \<longleftrightarrow> list_all slug_char w \<and> list_all slug_word ws \<and> (s = [] \<or> w \<noteq> [])"
      using Cons.IH [of "CHR ''-''"] sp by simp
    have hd: "s \<noteq> [] \<Longrightarrow> (hd s \<noteq> CHR ''-'') = (w \<noteq> [])"
      using sp by (cases s) (auto split: if_splits list.splits)
    have "s = [] \<Longrightarrow> w = []" using sp by auto
    with True nc IH hd sp show ?thesis by (auto simp: slug_word_def)
  next
    case False
    show ?thesis
    proof (cases "slug_char c")
      case True
      with False sp Cons.IH [of c] show ?thesis by simp
    next
      case False': False
      with False sp show ?thesis by simp
    qed
  qed
qed

lemma identitySlug_canonical: "value \<noteq> [] \<Longrightarrow> identitySlug value \<longleftrightarrow> canonical_slug value"
proof (cases "value")
  case (Cons c s)
  obtain w ws where sp: "strings_Split CHR ''-'' s = w # ws" by (cases "strings_Split CHR ''-'' s") auto
  show ?thesis
  proof (cases "slug_char c")
    case True
    then have "c \<noteq> CHR ''-''" using slug_char_not_dash by blast
    with True Cons sp show ?thesis
      using identity_slug_from_after_word [of c s]
      by (simp add: identitySlug_def canonical_slug_def slug_word_def)
  next
    case False
    then show ?thesis using Cons sp
      by (auto simp: identitySlug_def canonical_slug_def slug_word_def)
  qed
qed simp

section \<open>Strings that normalisation leaves alone\<close>

definition graphic :: "char \<Rightarrow> bool" where
  "graphic c \<longleftrightarrow> 33 \<le> byte c \<and> byte c \<le> 126"

lemma space_encodings_not_graphic:
  "list_all (\<lambda>e. e \<noteq> [] \<and> \<not> graphic (hd e) \<and> \<not> graphic (last e)) space_encodings"
  by code_simp

lemma strings_TrimSpace_graphic:
  assumes "list_all graphic s"
  shows "strings_TrimSpace s = s"
proof -
  have np: "\<not> prefix e t" if "e \<noteq> []" "list_all graphic t" "\<not> graphic (hd e)" for e t
    using that by (cases e; cases t) auto
  have id: "strip_prefixes encs t = t"
    if "list_all graphic t" "\<forall>e \<in> set encs. e \<noteq> [] \<longrightarrow> \<not> graphic (hd e)" for encs t
    using that np by (intro strip_prefixes_idle) blast
  have "strip_prefixes space_encodings s = s"
    using assms space_encodings_not_graphic by (intro id) (auto simp: list_all_iff)
  moreover have "strip_prefixes (map rev space_encodings) (rev s) = rev s"
    using assms space_encodings_not_graphic by (intro id) (auto simp: list_all_iff hd_rev)
  ultimately show ?thesis by (simp add: strings_TrimSpace_def)
qed

lemma canonical_slug_chars: "canonical_slug s \<Longrightarrow> c \<in> set s \<Longrightarrow> slug_char c \<or> c = CHR ''-''"
  unfolding canonical_slug_iff_language
  by (induction rule: slug_language.induct) (auto simp: slug_word_def list_all_iff)

lemma slug_char_graphic: "slug_char c \<or> c = CHR ''-'' \<Longrightarrow> graphic c \<and> byte c < 128 \<and> lower_byte c = c"
  by (auto simp: slug_char_def graphic_def lower_byte_def byte_def)

lemma canonical_slug_normal:
  assumes "canonical_slug s"
  shows "strings_ToLower lw (strings_TrimSpace s) = s"
proof -
  have "\<forall>c \<in> set s. graphic c \<and> byte c < 128 \<and> lower_byte c = c"
    using canonical_slug_chars [OF assms] slug_char_graphic by blast
  then show ?thesis
    by (simp add: strings_ToLower_def strings_TrimSpace_graphic is_ascii_def list_all_iff map_idI)
qed

end
