(* ===== verification/GoBase64.thy ===== *)
theory GoBase64 imports GoStrings begin

text \<open>
  The encodings of Go's \<open>encoding/base64\<close> the program uses: \<open>RawStdEncoding\<close> (password hashes),
  \<open>RawURLEncoding\<close> (API keys, JWT segments) and the padded \<open>StdEncoding\<close> (the pepper). A decoder
  skips carriage returns and line feeds and does not check the unused bits of the last digit.
\<close>

definition std_alphabet :: string where
  "std_alphabet = ''ABCDEFGHIJKLMNOPQRSTUVWXYZabcdefghijklmnopqrstuvwxyz0123456789+/''"

definition url_alphabet :: string where
  "url_alphabet = ''ABCDEFGHIJKLMNOPQRSTUVWXYZabcdefghijklmnopqrstuvwxyz0123456789-_''"

section \<open>Digits\<close>

fun b64_digits :: "nat list \<Rightarrow> nat list" where
  "b64_digits [] = []"
| "b64_digits [a] = [a div 4, (a mod 4) * 16]"
| "b64_digits [a, b] = [a div 4, (a mod 4) * 16 + b div 16, (b mod 16) * 4]"
| "b64_digits (a # b # c # r) =
     [a div 4, (a mod 4) * 16 + b div 16, (b mod 16) * 4 + c div 64, c mod 64] @ b64_digits r"

fun b64_bytes :: "nat list \<Rightarrow> nat list option" where
  "b64_bytes [] = Some []"
| "b64_bytes [x] = None"
| "b64_bytes [x, y] = Some [x * 4 + y div 16]"
| "b64_bytes [x, y, z] = Some [x * 4 + y div 16, (y mod 16) * 16 + z div 4]"
| "b64_bytes (x # y # z # w # r) =
     map_option (\<lambda>t. [x * 4 + y div 16, (y mod 16) * 16 + z div 4, (z mod 4) * 64 + w] @ t) (b64_bytes r)"

lemma b64_digits_bound: "list_all (\<lambda>b. b < 256) bs \<Longrightarrow> list_all (\<lambda>d. d < 64) (b64_digits bs)"
  by (induction bs rule: b64_digits.induct) auto

lemma b64_bytes_digits: "list_all (\<lambda>b. b < 256) bs \<Longrightarrow> b64_bytes (b64_digits bs) = Some bs"
proof (induction bs rule: b64_digits.induct)
  case (4 a b c r)
  have "a div 4 * 4 + (a mod 4 * 16 + b div 16) div 16 = a"
    "(a mod 4 * 16 + b div 16) mod 16 * 16 + (b mod 16 * 4 + c div 64) div 4 = b"
    "(b mod 16 * 4 + c div 64) mod 4 * 64 + c mod 64 = c"
    using "4.prems" by auto
  with 4 show ?case by simp
qed auto

lemma length_b64_digits:
  "length (b64_digits bs) = length bs div 3 * 4 + (length bs mod 3 * 8 + 5) div 6"
  by (induction bs rule: b64_digits.induct) (auto simp: div_add_self1 [of 3, simplified])

lemma length_b64_bytes: "b64_bytes ds = Some bs \<Longrightarrow> length bs = length ds * 6 div 8"
proof (induction ds arbitrary: bs rule: b64_bytes.induct)
  case (5 x y z w r)
  then obtain t where t: "b64_bytes r = Some t" "length bs = 3 + length t" by auto
  with "5.IH" have "length t = length r * 6 div 8" by simp
  with t(2) show ?case by simp
qed auto

section \<open>Alphabets\<close>

fun digit_of :: "string \<Rightarrow> char \<Rightarrow> nat option" where
  "digit_of [] c = None"
| "digit_of (x # al) c = (if x = c then Some 0 else map_option Suc (digit_of al c))"

definition good_alphabet :: "string \<Rightarrow> bool" where
  "good_alphabet al \<longleftrightarrow> length al = 64 \<and> distinct al \<and> CHR 0x0A \<notin> set al \<and> CHR 0x0D \<notin> set al \<and> CHR ''='' \<notin> set al"

lemma good_std: "good_alphabet std_alphabet" and good_url: "good_alphabet url_alphabet"
  by code_simp+

lemma digit_of_distinct: "distinct al \<Longrightarrow> d < length al \<Longrightarrow> digit_of al (al ! d) = Some d"
  by (induction al arbitrary: d) (auto simp: nth_Cons split: nat.splits)

lemma digit_of_nth: "good_alphabet al \<Longrightarrow> d < 64 \<Longrightarrow> digit_of al (al ! d) = Some d"
  by (simp add: good_alphabet_def digit_of_distinct)

fun all_digits :: "string \<Rightarrow> string \<Rightarrow> nat list option" where
  "all_digits al [] = Some []"
| "all_digits al (c # s) =
     (case digit_of al c of None \<Rightarrow> None | Some d \<Rightarrow> map_option (Cons d) (all_digits al s))"

lemma all_digits_map_nth:
  "good_alphabet al \<Longrightarrow> list_all (\<lambda>d. d < 64) ds \<Longrightarrow> all_digits al (map ((!) al) ds) = Some ds"
  by (induction ds) (auto simp: digit_of_nth)

lemma length_all_digits: "all_digits al s = Some ds \<Longrightarrow> length ds = length s"
  by (induction s arbitrary: ds) (auto split: option.splits)

section \<open>Unpadded encodings\<close>

definition raw_EncodeToString :: "string \<Rightarrow> string \<Rightarrow> string" where
  "raw_EncodeToString al data = map ((!) al) (b64_digits (map byte data))"

definition skip_newlines :: "string \<Rightarrow> string" where
  "skip_newlines s = filter (\<lambda>c. c \<noteq> CHR 0x0A \<and> c \<noteq> CHR 0x0D) s"

definition raw_DecodeString :: "string \<Rightarrow> string \<Rightarrow> string option" where
  "raw_DecodeString al s =
     (case all_digits al (skip_newlines s) of
        None \<Rightarrow> None
      | Some ds \<Rightarrow> map_option (map char_of) (b64_bytes ds))"

definition raw_EncodedLen :: "nat \<Rightarrow> nat" where
  "raw_EncodedLen n = n div 3 * 4 + (n mod 3 * 8 + 5) div 6"

lemma byte_bound [simp]: "byte c < 256"
  by (simp add: byte_def)

lemma char_of_byte [simp]: "char_of (byte c) = c"
  by (simp add: byte_def)

lemma raw_encode_alphabet:
  assumes "good_alphabet al" "c \<in> set (raw_EncodeToString al data)"
  shows "c \<in> set al"
proof -
  have "list_all (\<lambda>b. b < 256) (map byte data)" by (simp add: list_all_iff)
  then have "list_all (\<lambda>d. d < 64) (b64_digits (map byte data))" by (rule b64_digits_bound)
  with assms show ?thesis by (auto simp: raw_EncodeToString_def list_all_iff good_alphabet_def)
qed

lemma raw_decode_encode:
  assumes "good_alphabet al"
  shows "raw_DecodeString al (raw_EncodeToString al data) = Some data"
proof -
  have b: "list_all (\<lambda>b. b < 256) (map byte data)" by (simp add: list_all_iff)
  have "\<forall>c \<in> set (raw_EncodeToString al data). c \<noteq> CHR 0x0A \<and> c \<noteq> CHR 0x0D"
    using raw_encode_alphabet [OF assms] assms by (auto simp: good_alphabet_def)
  then have "skip_newlines (raw_EncodeToString al data) = raw_EncodeToString al data"
    by (simp add: skip_newlines_def filter_id_conv)
  then show ?thesis
    using all_digits_map_nth [OF assms b64_digits_bound [OF b]] b64_bytes_digits [OF b]
    by (simp add: raw_DecodeString_def raw_EncodeToString_def comp_def)
qed

lemma length_raw_encode: "length (raw_EncodeToString al data) = raw_EncodedLen (length data)"
  by (simp add: raw_EncodeToString_def raw_EncodedLen_def length_b64_digits)

lemma length_raw_decode: "raw_DecodeString al s = Some data \<Longrightarrow> length data \<le> length s * 6 div 8"
proof -
  assume "raw_DecodeString al s = Some data"
  then obtain ds bs where ds: "all_digits al (skip_newlines s) = Some ds" "b64_bytes ds = Some bs"
    and "length data = length bs"
    by (auto simp: raw_DecodeString_def split: option.splits)
  moreover have "length ds \<le> length s"
    using length_all_digits [OF ds(1)] by (simp add: skip_newlines_def)
  ultimately show ?thesis
    using length_b64_bytes [OF ds(2)] by (simp add: div_le_mono)
qed

section \<open>The padded standard encoding\<close>

definition std_EncodeToString :: "string \<Rightarrow> string" where
  "std_EncodeToString data =
     raw_EncodeToString std_alphabet data @ replicate ((3 - length data mod 3) mod 3) CHR ''=''"

definition drop_padding :: "string \<Rightarrow> string" where
  "drop_padding s =
     (if suffix ''=='' s then take (length s - 2) s
      else if suffix ''='' s then take (length s - 1) s else s)"

definition std_DecodeString :: "string \<Rightarrow> string option" where
  "std_DecodeString s =
     (let t = skip_newlines s in
      if length t mod 4 \<noteq> 0 then None else raw_DecodeString std_alphabet (drop_padding t))"

lemma raw_encode_no_pad: "CHR ''='' \<notin> set (raw_EncodeToString std_alphabet data)"
  using raw_encode_alphabet [OF good_std] good_std by (auto simp: good_alphabet_def)

lemma suffix_Cons_last: "suffix [x] s \<longleftrightarrow> s \<noteq> [] \<and> last s = x"
  by (metis append_butlast_last_id last_snoc suffix_def suffix_snoc snoc_eq_iff_butlast)

lemma drop_padding_encode:
  "drop_padding (raw_EncodeToString std_alphabet data @ replicate ((3 - length data mod 3) mod 3) CHR ''='')
     = raw_EncodeToString std_alphabet data" (is "drop_padding (?e @ replicate ?k _) = ?e")
proof -
  have np: "\<not> suffix ''='' ?e"
    using raw_encode_no_pad [of data] by (auto simp: suffix_def)
  then have np2: "\<not> suffix ''=='' ?e"
    by (auto simp: suffix_def)
  have np3: "\<not> suffix ''=='' (?e @ ''='')"
  proof
    assume "suffix ''=='' (?e @ ''='')"
    then obtain z where "?e @ ''='' = z @ ''==''" by (auto simp: suffix_def)
    then have "?e = z @ ''=''" by simp
    with np show False by (auto simp: suffix_def)
  qed
  have "length data mod 3 < 3" by simp
  then have "?k < 3" by simp
  then consider "?k = 0" | "?k = 1" | "?k = 2" by linarith
  then show ?thesis
  proof cases
    case 1
    with np np2 show ?thesis by (simp add: drop_padding_def)
  next
    case 2
    then show ?thesis using np3 by (simp add: drop_padding_def suffix_def)
  next
    case 3
    then have "replicate ?k CHR ''='' = ''==''" by (simp add: numeral_2_eq_2)
    then show ?thesis by (simp add: drop_padding_def suffix_def)
  qed
qed

lemma length_std_encode: "length (std_EncodeToString data) mod 4 = 0"
proof -
  have "raw_EncodedLen n + (3 - n mod 3) mod 3 = 4 * ((n + 2) div 3)" for n
  proof -
    define q r where "q = n div 3" and "r = n mod 3"
    then have n: "n = 3 * q + r" and "r < 3" by simp_all
    then have "r = 0 \<or> r = 1 \<or> r = 2" by linarith
    moreover have "Suc (Suc (3 * q)) div 3 = q" "Suc (Suc (3 * q)) mod 3 = 2" by presburger+
    ultimately show ?thesis
      by (elim disjE) (simp_all add: raw_EncodedLen_def n)
  qed
  then show ?thesis by (simp add: std_EncodeToString_def length_raw_encode)
qed

lemma std_decode_encode: "std_DecodeString (std_EncodeToString data) = Some data"
proof -
  have "\<forall>c \<in> set (raw_EncodeToString std_alphabet data). c \<noteq> CHR 0x0A \<and> c \<noteq> CHR 0x0D"
    using raw_encode_alphabet [OF good_std] good_std by (auto simp: good_alphabet_def)
  then have "skip_newlines (std_EncodeToString data) = std_EncodeToString data"
    by (auto simp: skip_newlines_def std_EncodeToString_def filter_id_conv)
  then show ?thesis
    using drop_padding_encode [of data] raw_decode_encode [OF good_std, of data] length_std_encode [of data]
    by (simp add: std_DecodeString_def std_EncodeToString_def Let_def)
qed

end
