(* ===== verification/Credentials.thy ===== *)
theory Credentials imports GoBase64 begin

text \<open>
  The credential formats: \<open>pkg/auth/api_key.go\<close> (API keys and their keyed index) and
  \<open>pkg/auth/password.go\<close> (Argon2id hashes in PHC form). The random source is the bytes it
  delivered (\<open>None\<close> for a failed read); HMAC-SHA-256 and Argon2 are parameters.
\<close>

section \<open>API keys\<close>

definition APIKeyPrefix :: string where "APIKeyPrefix = ''mpsk_''"
definition APIKeyIndexPrefix :: string where "APIKeyIndexPrefix = ''mpsk_hmac_sha256_''"
definition APIKeyRandomBytes :: nat where "APIKeyRandomBytes = 32"
definition APIKeyEncodedLength :: nat where "APIKeyEncodedLength = 43"
definition MinimumAPIKeyPepperBytes :: nat where "MinimumAPIKeyPepperBytes = 32"

definition GenerateAPIKey :: "string option \<Rightarrow> err + string" where
  "GenerateAPIKey random =
     (case random of
        None \<Rightarrow> Inl (Wrapped ''auth: generate API key'' (ErrNew ''random source''))
      | Some secret \<Rightarrow> Inr (APIKeyPrefix @ raw_EncodeToString url_alphabet secret))"

definition HasAPIKeyPrefix :: "string \<Rightarrow> bool" where
  "HasAPIKeyPrefix plaintext = prefix APIKeyPrefix plaintext"

definition ValidateAPIKey :: "string \<Rightarrow> err option" where
  "ValidateAPIKey plaintext =
     (if \<not> HasAPIKeyPrefix plaintext \<or> length plaintext \<noteq> length APIKeyPrefix + APIKeyEncodedLength
      then Some ErrMalformedAPIKey
      else (case raw_DecodeString url_alphabet (strings_TrimPrefix plaintext APIKeyPrefix) of
              None \<Rightarrow> Some ErrMalformedAPIKey
            | Some decoded \<Rightarrow>
                if length decoded \<noteq> APIKeyRandomBytes then Some ErrMalformedAPIKey else None))"

definition ValidateAPIKeyIndex :: "string \<Rightarrow> err option" where
  "ValidateAPIKeyIndex index =
     (if \<not> prefix APIKeyIndexPrefix index then Some ErrMalformedAPIKeyIndex
      else (let payload = strings_TrimPrefix index APIKeyIndexPrefix in
            (case raw_DecodeString url_alphabet payload of
               None \<Rightarrow> Some ErrMalformedAPIKeyIndex
             | Some decoded \<Rightarrow>
                 if length decoded \<noteq> 32 \<or> raw_EncodeToString url_alphabet decoded \<noteq> payload
                 then Some ErrMalformedAPIKeyIndex else None)))"

text \<open>\<open>hmac pepper message\<close> is the HMAC-SHA-256 tag.\<close>

definition IndexAPIKey :: "(string \<Rightarrow> string \<Rightarrow> string) \<Rightarrow> string \<Rightarrow> string \<Rightarrow> err + string" where
  "IndexAPIKey hmac plaintext pepper =
     (if length pepper < MinimumAPIKeyPepperBytes then Inl ErrWeakAPIKeyPepper
      else (case ValidateAPIKey plaintext of
              Some e \<Rightarrow> Inl e
            | None \<Rightarrow> Inr (APIKeyIndexPrefix @ raw_EncodeToString url_alphabet (hmac pepper plaintext))))"

lemma TrimPrefix_append [simp]: "strings_TrimPrefix (p @ s) p = s"
  by (simp add: strings_TrimPrefix_def)

lemma ValidateAPIKey_generated:
  assumes "length secret = APIKeyRandomBytes"
  shows "ValidateAPIKey (APIKeyPrefix @ raw_EncodeToString url_alphabet secret) = None"
  using assms raw_decode_encode [OF good_url, of secret]
  by (simp add: ValidateAPIKey_def HasAPIKeyPrefix_def length_raw_encode raw_EncodedLen_def
      APIKeyRandomBytes_def APIKeyEncodedLength_def)

lemma ValidateAPIKeyIndex_tag:
  assumes "length tag = 32"
  shows "ValidateAPIKeyIndex (APIKeyIndexPrefix @ raw_EncodeToString url_alphabet tag) = None"
  using assms raw_decode_encode [OF good_url, of tag] by (simp add: ValidateAPIKeyIndex_def Let_def)

lemma ValidateAPIKey_prefix: "ValidateAPIKey k = None \<Longrightarrow> HasAPIKeyPrefix k"
  by (auto simp: ValidateAPIKey_def split: if_splits)

section \<open>Argon2id parameters\<close>

record argon2id_params =
  MemoryKiB :: nat
  Iterations :: nat
  Parallelism :: nat
  SaltLength :: nat
  HashLength :: nat

definition MinArgon2SaltLength :: nat where "MinArgon2SaltLength = 8"
definition MinArgon2HashLength :: nat where "MinArgon2HashLength = 16"
definition MaxArgon2MemoryKiB :: nat where "MaxArgon2MemoryKiB = 65536"
definition MaxArgon2Iterations :: nat where "MaxArgon2Iterations = 3"
definition MaxArgon2Parallelism :: nat where "MaxArgon2Parallelism = 2"
definition MaxArgon2SaltLength :: nat where "MaxArgon2SaltLength = 64"
definition MaxArgon2HashLength :: nat where "MaxArgon2HashLength = 64"
definition MaxArgon2PHCLength :: nat where "MaxArgon2PHCLength = 512"

lemmas argon2_bounds =
  MinArgon2SaltLength_def MinArgon2HashLength_def MaxArgon2MemoryKiB_def MaxArgon2Iterations_def
  MaxArgon2Parallelism_def MaxArgon2SaltLength_def MaxArgon2HashLength_def MaxArgon2PHCLength_def

definition DefaultArgon2idParams :: argon2id_params where
  "DefaultArgon2idParams =
     \<lparr>MemoryKiB = 64 * 1024, Iterations = 3, Parallelism = 2, SaltLength = 16, HashLength = 32\<rparr>"

definition validateArgon2idParams :: "argon2id_params \<Rightarrow> err option" where
  "validateArgon2idParams p =
     (if MemoryKiB p = 0 \<or> MemoryKiB p > MaxArgon2MemoryKiB
      then Some (ErrNew ''auth: Argon2 memory is outside allowed bounds'')
      else if Iterations p = 0 \<or> Iterations p > MaxArgon2Iterations
      then Some (ErrNew ''auth: Argon2 iterations are outside allowed bounds'')
      else if Parallelism p = 0 \<or> Parallelism p > MaxArgon2Parallelism
      then Some (ErrNew ''auth: Argon2 parallelism is outside allowed bounds'')
      else if SaltLength p < MinArgon2SaltLength \<or> SaltLength p > MaxArgon2SaltLength
      then Some (ErrNew ''auth: Argon2 salt length is outside allowed bounds'')
      else if HashLength p < MinArgon2HashLength \<or> HashLength p > MaxArgon2HashLength
      then Some (ErrNew ''auth: Argon2 hash length is outside allowed bounds'')
      else None)"

text \<open>\<open>idkey password salt iterations memory parallelism length\<close> is \<open>argon2.IDKey\<close>.\<close>

type_synonym idkey = "string \<Rightarrow> string \<Rightarrow> nat \<Rightarrow> nat \<Rightarrow> nat \<Rightarrow> nat \<Rightarrow> string"

definition HashPassword ::
  "idkey \<Rightarrow> string option \<Rightarrow> string \<Rightarrow> argon2id_params \<Rightarrow> err + string" where
  "HashPassword idkey random password p =
     (case validateArgon2idParams p of
        Some e \<Rightarrow> Inl e
      | None \<Rightarrow>
        (case random of
           None \<Rightarrow> Inl (Wrapped ''auth: generate password salt'' (ErrNew ''random source''))
         | Some salt \<Rightarrow>
             Inr (''$argon2id$v='' @ dec_digits 19 @ ''$m='' @ dec_digits (MemoryKiB p) @ '',t='' @
                  dec_digits (Iterations p) @ '',p='' @ dec_digits (Parallelism p) @ ''$'' @
                  raw_EncodeToString std_alphabet salt @ ''$'' @
                  raw_EncodeToString std_alphabet
                    (idkey password salt (Iterations p) (MemoryKiB p) (Parallelism p) (HashLength p)))))"

section \<open>Parsing a PHC string\<close>

definition parseBoundedUint :: "string \<Rightarrow> string \<Rightarrow> nat \<Rightarrow> nat \<Rightarrow> err + nat" where
  "parseBoundedUint field pre maximum bits =
     (if \<not> prefix pre field then Inl (ErrNew ''auth: malformed Argon2 parameters'')
      else (let valueText = strings_TrimPrefix field pre in
            if valueText = [] \<or> length valueText > 10 then Inl (ErrNew ''auth: malformed Argon2 parameters'')
            else (case strconv_ParseUint valueText bits of
                    None \<Rightarrow> Inl (ErrNew ''auth: Argon2 parameters are outside allowed bounds'')
                  | Some v \<Rightarrow>
                      if v > maximum then Inl (ErrNew ''auth: Argon2 parameters are outside allowed bounds'')
                      else Inr v)))"

definition parseArgon2idParameterField :: "string \<Rightarrow> err + argon2id_params" where
  "parseArgon2idParameterField field =
     (case strings_Split CHR '','' field of
        [fm, ft, fp] \<Rightarrow>
          (case parseBoundedUint fm ''m='' MaxArgon2MemoryKiB 32 of Inl e \<Rightarrow> Inl e | Inr memory \<Rightarrow>
          (case parseBoundedUint ft ''t='' MaxArgon2Iterations 32 of Inl e \<Rightarrow> Inl e | Inr iterations \<Rightarrow>
          (case parseBoundedUint fp ''p='' MaxArgon2Parallelism 8 of Inl e \<Rightarrow> Inl e | Inr parallelism \<Rightarrow>
             if memory = 0 \<or> iterations = 0 \<or> parallelism = 0
             then Inl (ErrNew ''auth: Argon2 parameters must be positive'')
             else Inr \<lparr>MemoryKiB = memory, Iterations = iterations, Parallelism = parallelism,
                       SaltLength = 0, HashLength = 0\<rparr>)))
      | _ \<Rightarrow> Inl (ErrNew ''auth: malformed Argon2 parameters''))"

definition parse_phc_payload ::
  "argon2id_params \<Rightarrow> string \<Rightarrow> string \<Rightarrow> err + argon2id_params \<times> string \<times> string" where
  "parse_phc_payload params salt64 hash64 =
     (if length salt64 < raw_EncodedLen MinArgon2SaltLength \<or> length salt64 > raw_EncodedLen MaxArgon2SaltLength
      then Inl (ErrNew ''auth: Argon2 salt is outside allowed bounds'')
      else if length hash64 < raw_EncodedLen MinArgon2HashLength \<or> length hash64 > raw_EncodedLen MaxArgon2HashLength
      then Inl (ErrNew ''auth: Argon2 hash is outside allowed bounds'')
      else (case raw_DecodeString std_alphabet salt64 of
              None \<Rightarrow> Inl (ErrNew ''auth: malformed Argon2 salt'')
            | Some salt \<Rightarrow>
                if length salt < MinArgon2SaltLength \<or> length salt > MaxArgon2SaltLength
                then Inl (ErrNew ''auth: malformed Argon2 salt'')
                else (case raw_DecodeString std_alphabet hash64 of
                        None \<Rightarrow> Inl (ErrNew ''auth: malformed Argon2 hash'')
                      | Some expected \<Rightarrow>
                          if length expected < MinArgon2HashLength \<or> length expected > MaxArgon2HashLength
                          then Inl (ErrNew ''auth: malformed Argon2 hash'')
                          else (let ps = params\<lparr>SaltLength := length salt, HashLength := length expected\<rparr> in
                                (case validateArgon2idParams ps of
                                   Some e \<Rightarrow> Inl e
                                 | None \<Rightarrow> Inr (ps, salt, expected))))))"

definition parseArgon2idPHC :: "string \<Rightarrow> err + argon2id_params \<times> string \<times> string" where
  "parseArgon2idPHC encoded =
     (if length encoded = 0 \<or> length encoded > MaxArgon2PHCLength
      then Inl (ErrNew ''auth: malformed Argon2id hash'')
      else (case strings_Split CHR ''$'' encoded of
              [p0, p1, p2, p3, p4, p5] \<Rightarrow>
                if p0 \<noteq> [] \<or> p1 \<noteq> ''argon2id'' \<or> p2 \<noteq> ''v=19''
                then Inl (ErrNew ''auth: malformed Argon2id hash'')
                else (case parseArgon2idParameterField p3 of
                        Inl e \<Rightarrow> Inl e
                      | Inr params \<Rightarrow> parse_phc_payload params p4 p5)
            | _ \<Rightarrow> Inl (ErrNew ''auth: malformed Argon2id hash'')))"

text \<open>\<open>subtle.ConstantTimeCompare(a, b) == 1\<close> is equality of the two byte strings.\<close>

definition VerifyPassword :: "idkey \<Rightarrow> string \<Rightarrow> string \<Rightarrow> err + bool" where
  "VerifyPassword idkey password encoded =
     (case parseArgon2idPHC encoded of
        Inl e \<Rightarrow> Inl e
      | Inr (params, salt, expected) \<Rightarrow>
          Inr (idkey password salt (Iterations params) (MemoryKiB params) (Parallelism params)
                 (length expected) = expected))"

section \<open>The round trip of a PHC string\<close>

lemma parseBoundedUint_dec:
  assumes "n \<le> maximum" "n < 2 ^ bits" "length (dec_digits n) \<le> 10"
  shows "parseBoundedUint (pre @ dec_digits n) pre maximum bits = Inr n"
  using assms ParseUint_dec_digits [OF assms(2)] by (simp add: parseBoundedUint_def Let_def)

lemma dec_digits_no_char: "\<not> is_digit c \<Longrightarrow> c \<notin> set (dec_digits n)"
  using dec_digits_digit [of n] by (auto simp: list_all_iff)

lemma not_digits [simp]: "\<not> is_digit CHR '',''" "\<not> is_digit CHR ''$''"
  by (simp_all add: is_digit_def byte_def)

lemma length_dec_digits_bound: "n < 10 ^ Suc k \<Longrightarrow> length (dec_digits n) \<le> Suc k"
proof (induction k arbitrary: n)
  case 0
  then show ?case by (subst dec_digits.simps) simp
next
  case (Suc k)
  show ?case
  proof (cases "n < 10")
    case True
    then show ?thesis by (subst dec_digits.simps) simp
  next
    case False
    from Suc.prems have "n div 10 < 10 ^ Suc k" by (simp add: div_less_iff_less_mult mult.commute)
    then have "length (dec_digits (n div 10)) \<le> Suc k" by (rule Suc.IH)
    with False show ?thesis by (subst dec_digits.simps) simp
  qed
qed

lemma parseArgon2idParameterField_format:
  assumes "0 < m" "m \<le> MaxArgon2MemoryKiB" "0 < t" "t \<le> MaxArgon2Iterations" "0 < p" "p \<le> MaxArgon2Parallelism"
  shows "parseArgon2idParameterField (''m='' @ dec_digits m @ '',t='' @ dec_digits t @ '',p='' @ dec_digits p)
    = Inr \<lparr>MemoryKiB = m, Iterations = t, Parallelism = p, SaltLength = 0, HashLength = 0\<rparr>"
proof -
  have len: "length (dec_digits m) \<le> 10" "length (dec_digits t) \<le> 10" "length (dec_digits p) \<le> 10"
    using length_dec_digits_bound [of _ 9] assms by (auto simp: argon2_bounds)
  have "strings_Split CHR '','' (''m='' @ dec_digits m @ '',t='' @ dec_digits t @ '',p='' @ dec_digits p)
      = [''m='' @ dec_digits m, ''t='' @ dec_digits t, ''p='' @ dec_digits p]"
    using strings_Split_append [of "CHR '',''" "''m='' @ dec_digits m" "''t='' @ dec_digits t @ '',p='' @ dec_digits p"]
      strings_Split_append [of "CHR '',''" "''t='' @ dec_digits t" "''p='' @ dec_digits p"]
      strings_Split_single [of "CHR '',''" "''p='' @ dec_digits p"]
    by (simp add: dec_digits_no_char)
  moreover have "parseBoundedUint (''m='' @ dec_digits m) ''m='' MaxArgon2MemoryKiB 32 = Inr m"
    "parseBoundedUint (''t='' @ dec_digits t) ''t='' MaxArgon2Iterations 32 = Inr t"
    "parseBoundedUint (''p='' @ dec_digits p) ''p='' MaxArgon2Parallelism 8 = Inr p"
    by (rule parseBoundedUint_dec; use assms len in \<open>simp add: argon2_bounds\<close>)+
  ultimately show ?thesis using assms by (simp add: parseArgon2idParameterField_def)
qed

lemma std_encode_no_dollar: "CHR ''$'' \<notin> set (raw_EncodeToString std_alphabet data)"
proof
  assume "CHR ''$'' \<in> set (raw_EncodeToString std_alphabet data)"
  then have "CHR ''$'' \<in> set std_alphabet" by (rule raw_encode_alphabet [OF good_std])
  then show False by (simp add: std_alphabet_def)
qed

lemma raw_EncodedLen_ceil: "raw_EncodedLen n = (8 * n + 5) div 6"
proof -
  define q r where "q = n div 3" and "r = n mod 3"
  then have "n = 3 * q + r" by simp
  then have "8 * n + 5 = (r * 8 + 5) + 6 * (q * 4)" by simp
  then have "(8 * n + 5) div 6 = q * 4 + (r * 8 + 5) div 6" by (simp only: div_mult_self2)
  then show ?thesis by (simp add: raw_EncodedLen_def q_def r_def)
qed

lemma raw_EncodedLen_mono: "m \<le> n \<Longrightarrow> raw_EncodedLen m \<le> raw_EncodedLen n"
  by (simp add: raw_EncodedLen_ceil div_le_mono)

lemma parse_phc_payload_format:
  assumes "validateArgon2idParams ps = None" "length salt = SaltLength ps" "length hash = HashLength ps"
  shows "parse_phc_payload \<lparr>MemoryKiB = MemoryKiB ps, Iterations = Iterations ps,
           Parallelism = Parallelism ps, SaltLength = 0, HashLength = 0\<rparr>
      (raw_EncodeToString std_alphabet salt) (raw_EncodeToString std_alphabet hash) = Inr (ps, salt, hash)"
proof -
  from assms have b: "MinArgon2SaltLength \<le> length salt" "length salt \<le> MaxArgon2SaltLength"
    "MinArgon2HashLength \<le> length hash" "length hash \<le> MaxArgon2HashLength"
    by (auto simp: validateArgon2idParams_def split: if_splits)
  have "\<lparr>MemoryKiB = MemoryKiB ps, Iterations = Iterations ps, Parallelism = Parallelism ps,
      SaltLength = SaltLength ps, HashLength = HashLength ps\<rparr> = ps"
    by simp
  then have "validateArgon2idParams \<lparr>MemoryKiB = MemoryKiB ps, Iterations = Iterations ps,
      Parallelism = Parallelism ps, SaltLength = SaltLength ps, HashLength = HashLength ps\<rparr> = None"
    using assms(1) by (rule ssubst)
  moreover have "\<not> raw_EncodedLen (length salt) < raw_EncodedLen MinArgon2SaltLength"
    "\<not> raw_EncodedLen MaxArgon2SaltLength < raw_EncodedLen (length salt)"
    "\<not> raw_EncodedLen (length hash) < raw_EncodedLen MinArgon2HashLength"
    "\<not> raw_EncodedLen MaxArgon2HashLength < raw_EncodedLen (length hash)"
    using b by (auto simp: not_less intro: raw_EncodedLen_mono)
  ultimately show ?thesis
    using assms b
    by (simp add: parse_phc_payload_def raw_decode_encode [OF good_std] length_raw_encode Let_def)
qed

lemma parseArgon2idPHC_format:
  assumes ok: "validateArgon2idParams ps = None" and salt: "length salt = SaltLength ps"
    and hash: "length hash = HashLength ps"
  shows "parseArgon2idPHC
    (''$argon2id$v='' @ dec_digits 19 @ ''$m='' @ dec_digits (MemoryKiB ps) @ '',t='' @
     dec_digits (Iterations ps) @ '',p='' @ dec_digits (Parallelism ps) @ ''$'' @
     raw_EncodeToString std_alphabet salt @ ''$'' @ raw_EncodeToString std_alphabet hash)
    = Inr (ps, salt, hash)" (is "parseArgon2idPHC ?s = _")
proof -
  let ?f = "''m='' @ dec_digits (MemoryKiB ps) @ '',t='' @ dec_digits (Iterations ps) @ '',p='' @ dec_digits (Parallelism ps)"
  let ?a = "raw_EncodeToString std_alphabet salt" and ?b = "raw_EncodeToString std_alphabet hash"
  have bnd: "0 < MemoryKiB ps" "MemoryKiB ps \<le> MaxArgon2MemoryKiB" "0 < Iterations ps"
    "Iterations ps \<le> MaxArgon2Iterations" "0 < Parallelism ps" "Parallelism ps \<le> MaxArgon2Parallelism"
    "length salt \<le> MaxArgon2SaltLength" "length hash \<le> MaxArgon2HashLength"
    using ok salt hash by (auto simp: validateArgon2idParams_def split: if_splits)
  have v: "dec_digits 19 = ''19''" by code_simp
  have shape: "?s = ''$argon2id$v=19$'' @ ?f @ CHR ''$'' # ?a @ CHR ''$'' # ?b"
    by (simp add: v)
  have nd: "CHR ''$'' \<notin> set ?f" by (simp add: dec_digits_no_char)
  have "strings_Split CHR ''$'' ?s = [[], ''argon2id'', ''v=19'', ?f, ?a, ?b]"
    unfolding shape using strings_Split_append [OF nd] std_encode_no_dollar
    by (simp add: strings_Split_append strings_Split_single)
  moreover have "length ?s \<le> MaxArgon2PHCLength"
  proof -
    have "length (dec_digits (MemoryKiB ps)) \<le> Suc 9" "length (dec_digits (Iterations ps)) \<le> Suc 9"
      "length (dec_digits (Parallelism ps)) \<le> Suc 9"
      by (rule length_dec_digits_bound; use bnd in \<open>simp add: argon2_bounds\<close>)+
    moreover have "length ?a \<le> 86" "length ?b \<le> 86"
      using raw_EncodedLen_mono [OF bnd(7)] raw_EncodedLen_mono [OF bnd(8)]
      by (simp_all add: length_raw_encode argon2_bounds raw_EncodedLen_def)
    ultimately show ?thesis unfolding shape by (simp add: argon2_bounds)
  qed
  ultimately show ?thesis
    using parseArgon2idParameterField_format [OF bnd(1-6)] parse_phc_payload_format [OF ok salt hash]
    by (simp add: parseArgon2idPHC_def)
qed

end
