(* ===== verification/AuthContracts.thy ===== *)
theory AuthContracts imports GoStrings begin

text \<open>
  \<open>pkg/auth/contracts.go\<close>: actions, resources, scope sets and principals, the vocabulary every
  authorization decision is stated in.

  The string types with a fixed list of constants (\<open>Action\<close>, \<open>CredentialKind\<close>, the resource types,
  the Plugin facts) are datatypes with one constructor per constant and one, \<open>...Other\<close>, for any
  other string a value of the Go type may hold.
\<close>

section \<open>Actions and resources\<close>

datatype credential_kind =
    CredentialNone | CredentialAccountPassword | CredentialJWT | CredentialPAT
  | CredentialOther string

datatype action =
    ActionMarketplaceRead
  | ActionPluginCreate | ActionPluginList | ActionPluginRead | ActionPluginWrite
  | ActionPluginArchive | ActionPluginPublish
  | ActionTokenRead | ActionTokenWrite
  | ActionUserList | ActionUserRead | ActionUserCreate | ActionUserUpdate | ActionUserDisable
  | ActionUserEnable | ActionUserAdminGrant | ActionUserAdminRevoke
  | ActionTeamCreate | ActionTeamList | ActionTeamRead | ActionTeamSettingsWrite
  | ActionTeamMembersRead | ActionTeamMembersManage | ActionTeamInvitationsRead
  | ActionTeamInvitationsManage | ActionTeamInvitationRespond
  | ActionOther string

fun action_name :: "action \<Rightarrow> string" where
  "action_name ActionMarketplaceRead = ''marketplace.read''"
| "action_name ActionPluginCreate = ''plugin.create''"
| "action_name ActionPluginList = ''plugin.list''"
| "action_name ActionPluginRead = ''plugin.read''"
| "action_name ActionPluginWrite = ''plugin.write''"
| "action_name ActionPluginArchive = ''plugin.archive''"
| "action_name ActionPluginPublish = ''plugin.publish''"
| "action_name ActionTokenRead = ''token.read''"
| "action_name ActionTokenWrite = ''token.write''"
| "action_name ActionUserList = ''user.list''"
| "action_name ActionUserRead = ''user.read''"
| "action_name ActionUserCreate = ''user.create''"
| "action_name ActionUserUpdate = ''user.update''"
| "action_name ActionUserDisable = ''user.disable''"
| "action_name ActionUserEnable = ''user.enable''"
| "action_name ActionUserAdminGrant = ''user.admin.grant''"
| "action_name ActionUserAdminRevoke = ''user.admin.revoke''"
| "action_name ActionTeamCreate = ''team.create''"
| "action_name ActionTeamList = ''team.list''"
| "action_name ActionTeamRead = ''team.read''"
| "action_name ActionTeamSettingsWrite = ''team.settings.write''"
| "action_name ActionTeamMembersRead = ''team.members.read''"
| "action_name ActionTeamMembersManage = ''team.members.manage''"
| "action_name ActionTeamInvitationsRead = ''team.invitations.read''"
| "action_name ActionTeamInvitationsManage = ''team.invitations.manage''"
| "action_name ActionTeamInvitationRespond = ''team.invitation.respond''"
| "action_name (ActionOther s) = s"

datatype resource_type =
    ResourceNamespace | ResourcePlugin | ResourceMarketplace | ResourceToken
  | ResourceTokenCollection | ResourceUser | ResourceUserCollection | ResourceTeamMembership
  | ResourceTeamInvitation | ResourceOther string

record resource_ref =
  ref_type :: resource_type
  ref_id :: string
  ref_namespace_id :: string

section \<open>Plugin facts\<close>

datatype visibility = VisibilityPublic | VisibilityPrivate | VisibilityOther string
datatype plugin_status =
  PluginStatusDraft | PluginStatusActive | PluginStatusArchived | PluginStatusOther string
datatype repository_status =
  RepositoryReady | RepositoryReadOnly | RepositoryError | RepositoryStatusOther string

record plugin_facts =
  fact_visibility :: visibility
  fact_status :: plugin_status
  fact_repository_status :: repository_status

text \<open>The zero value of \<open>PluginAuthorizationFacts\<close>: three empty strings.\<close>

definition no_plugin_facts :: plugin_facts where
  "no_plugin_facts =
     \<lparr>fact_visibility = VisibilityOther [], fact_status = PluginStatusOther [],
      fact_repository_status = RepositoryStatusOther []\<rparr>"

section \<open>Actions in their string order\<close>

text \<open>
  \<open>sort.Slice\<close> orders actions by their strings. The constructor \<open>ActionOther\<close> shares its string
  with at most one constant, which a second key tells apart, so the order is linear.
\<close>

definition action_tag :: "action \<Rightarrow> nat" where
  "action_tag a = (case a of ActionOther _ \<Rightarrow> 1 | _ \<Rightarrow> 0)"

definition action_key :: "action \<Rightarrow> string \<times> nat" where
  "action_key a = (action_name a, action_tag a)"

lemma action_key_inject: "action_key a = action_key b \<longleftrightarrow> a = b"
  by (cases a) (cases b; simp add: action_key_def action_tag_def)+

instantiation action :: linorder
begin
definition less_eq_action :: "action \<Rightarrow> action \<Rightarrow> bool" where
  "less_eq_action a b \<longleftrightarrow> action_key a \<le> action_key b"
definition less_action :: "action \<Rightarrow> action \<Rightarrow> bool" where
  "less_action a b \<longleftrightarrow> action_key a < action_key b"
instance
  by standard (auto simp: less_eq_action_def less_action_def action_key_inject [symmetric])
end

section \<open>Scope sets\<close>

record scope_set =
  unrestricted :: bool
  scope_actions :: "action set"

definition UnrestrictedScopes :: scope_set where
  "UnrestrictedScopes = \<lparr>unrestricted = True, scope_actions = {}\<rparr>"

definition RestrictedScopes :: "action list \<Rightarrow> scope_set" where
  "RestrictedScopes actions = \<lparr>unrestricted = False, scope_actions = set actions\<rparr>"

definition scopes_Restricted :: "scope_set \<Rightarrow> bool" where
  "scopes_Restricted s \<longleftrightarrow> \<not> unrestricted s"

definition scopes_Allows :: "scope_set \<Rightarrow> action \<Rightarrow> bool" where
  "scopes_Allows s a \<longleftrightarrow> (if unrestricted s then True else a \<in> scope_actions s)"

definition scopes_Actions :: "scope_set \<Rightarrow> action list" where
  "scopes_Actions s = (if unrestricted s then [] else sorted_list_of_set (scope_actions s))"

definition cloneScopes :: "scope_set \<Rightarrow> scope_set" where
  "cloneScopes s =
     (if unrestricted s then UnrestrictedScopes else RestrictedScopes (scopes_Actions s))"

section \<open>Principals\<close>

datatype principal_kind = principalAnonymous | principalUser

record principal =
  p_kind :: principal_kind
  p_user_id :: string
  p_username :: string
  p_credential :: credential_kind
  p_scopes :: scope_set

definition AnonymousPrincipal :: principal where
  "AnonymousPrincipal =
     \<lparr>p_kind = principalAnonymous, p_user_id = [], p_username = [], p_credential = CredentialNone,
      p_scopes = RestrictedScopes []\<rparr>"

text \<open>The zero value \<open>auth.Principal{}\<close>: anonymous, with the empty string as its credential kind.\<close>

definition zero_principal :: principal where
  "zero_principal =
     \<lparr>p_kind = principalAnonymous, p_user_id = [], p_username = [], p_credential = CredentialOther [],
      p_scopes = RestrictedScopes []\<rparr>"

definition NewUserPrincipal ::
  "string \<Rightarrow> string \<Rightarrow> credential_kind \<Rightarrow> scope_set \<Rightarrow> err + principal" where
  "NewUserPrincipal userID username credential scopes =
     (if userID = [] then Inl (ErrNew ''auth: user ID is required'')
      else if username = [] then Inl (ErrNew ''auth: username is required'')
      else if credential \<notin> {CredentialAccountPassword, CredentialJWT, CredentialPAT}
      then Inl (ErrNew ''auth: invalid user credential kind'')
      else Inr \<lparr>p_kind = principalUser, p_user_id = userID, p_username = username,
                p_credential = credential, p_scopes = cloneScopes scopes\<rparr>)"

definition IsAnonymous :: "principal \<Rightarrow> bool" where
  "IsAnonymous p \<longleftrightarrow> p_kind p = principalAnonymous"

definition IsUser :: "principal \<Rightarrow> bool" where
  "IsUser p \<longleftrightarrow> p_kind p = principalUser"

definition principal_Allows :: "principal \<Rightarrow> action \<Rightarrow> bool" where
  "principal_Allows p a \<longleftrightarrow> IsUser p \<and> scopes_Allows (p_scopes p) a"

section \<open>Properties\<close>

lemma IsUser_not_IsAnonymous: "IsUser p \<longleftrightarrow> \<not> IsAnonymous p"
  by (cases "p_kind p") (simp_all add: IsUser_def IsAnonymous_def)

lemma IsAnonymous_AnonymousPrincipal [simp]: "IsAnonymous AnonymousPrincipal"
  by (simp add: IsAnonymous_def AnonymousPrincipal_def)

text \<open>
  A copied scope set allows exactly the actions of its source; Go's map is finite, which the
  hypothesis states for the set.
\<close>

lemma cloneScopes_Allows:
  "finite (scope_actions s) \<Longrightarrow> scopes_Allows (cloneScopes s) a = scopes_Allows s a"
  by (simp add: cloneScopes_def scopes_Allows_def UnrestrictedScopes_def RestrictedScopes_def scopes_Actions_def)

lemma cloneScopes_RestrictedScopes: "cloneScopes (RestrictedScopes as) = RestrictedScopes as"
  by (simp add: cloneScopes_def RestrictedScopes_def scopes_Actions_def)

lemma cloneScopes_UnrestrictedScopes: "cloneScopes UnrestrictedScopes = UnrestrictedScopes"
  by (simp add: cloneScopes_def UnrestrictedScopes_def)

lemma NewUserPrincipal_Inr:
  "NewUserPrincipal uid un c s = Inr p \<longleftrightarrow>
     uid \<noteq> [] \<and> un \<noteq> [] \<and> c \<in> {CredentialAccountPassword, CredentialJWT, CredentialPAT} \<and>
     p = \<lparr>p_kind = principalUser, p_user_id = uid, p_username = un, p_credential = c,
          p_scopes = cloneScopes s\<rparr>"
  by (auto simp: NewUserPrincipal_def)

lemma scopes_Actions_sorted: "sorted (scopes_Actions s) \<and> distinct (scopes_Actions s)"
  by (simp add: scopes_Actions_def)

end
