(* ===== verification/IdentityModel.thy ===== *)
theory IdentityModel imports Credentials AuthContracts begin

text \<open>
  \<open>mod/backend/domain/identity/model\<close>: the persisted identity records and the GORM hooks that
  guard their creation. A record of a table is a HOL record with the columns of the Go struct;
  times are nanoseconds since the Unix epoch, a nullable column is an \<open>option\<close>. The associations
  GORM adds for foreign keys (\<open>User\<close>, \<open>Namespace\<close>, \<open>Group\<close>) hold no data of their own.

  Parameters: \<open>lw\<close>, the Unicode case table of \<open>strings.ToLower\<close>, and \<open>uuid\<close>, which decides whether
  \<open>uuid.Parse\<close> accepts a string and prints it back unchanged.
\<close>

section \<open>Columns with a fixed set of values\<close>

datatype user_status = UserStatusActive | UserStatusDisabled | UserStatusOther string

datatype token_preset =
  TokenPresetSubscriptionRead | TokenPresetGitClone | TokenPresetGitWrite | TokenPresetOther string

datatype namespace_kind = NamespaceKindUser | NamespaceKindTeam | NamespaceKindOther string

datatype team_role =
    TeamRoleOwner | TeamRoleAdmin | TeamRoleMaintainer | TeamRoleDeveloper | TeamRoleViewer
  | TeamRoleOther string

text \<open>The empty string stands for "no role" wherever the code reads a role that may be missing.\<close>

abbreviation no_role :: team_role where "no_role \<equiv> TeamRoleOther []"

section \<open>Records\<close>

record user_row =
  user_ID :: string
  user_Username :: string
  user_Email :: "string option"
  user_DisplayName :: string
  user_Status :: user_status
  user_PasswordHash :: string
  user_CreatedAt :: int
  user_UpdatedAt :: int

record namespace_row =
  ns_ID :: string
  ns_Kind :: namespace_kind
  ns_Slug :: string
  ns_DisplayName :: string
  ns_OwnerUserID :: "string option"
  ns_CreatedAt :: int
  ns_UpdatedAt :: int

record system_group_row =
  group_ID :: string
  group_Name :: string
  group_Description :: string
  group_CreatedAt :: int
  group_UpdatedAt :: int

record group_membership_row =
  gm_UserID :: string
  gm_GroupID :: string
  gm_CreatedAt :: int

record token_row =
  tok_ID :: string
  tok_UserID :: string
  tok_Name :: string
  tok_Preset :: token_preset
  tok_SecretPlaintext :: string
  tok_SecretHMAC :: string
  tok_ExpiresAt :: "int option"
  tok_LastUsedAt :: "int option"
  tok_RevokedAt :: "int option"
  tok_CreatedAt :: int
  tok_UpdatedAt :: int

record team_membership_row =
  tm_NamespaceID :: string
  tm_UserID :: string
  tm_Role :: team_role
  tm_CreatedAt :: int
  tm_UpdatedAt :: int

record team_invitation_row =
  inv_ID :: string
  inv_NamespaceID :: string
  inv_UserID :: string
  inv_Role :: team_role
  inv_InvitedByUserID :: string
  inv_ExpiresAt :: int
  inv_AcceptedAt :: "int option"
  inv_RejectedAt :: "int option"
  inv_RevokedAt :: "int option"
  inv_CreatedAt :: int
  inv_UpdatedAt :: int

section \<open>Fixed groups, roles and presets\<close>

definition AdminSystemGroupID :: string where
  "AdminSystemGroupID = ''00000000-0000-4000-8000-000000000001''"

definition DefaultSystemGroupID :: string where
  "DefaultSystemGroupID = ''00000000-0000-4000-8000-000000000002''"

lemma group_ids_differ [simp]:
  "AdminSystemGroupID \<noteq> DefaultSystemGroupID" "DefaultSystemGroupID \<noteq> AdminSystemGroupID"
  by (simp_all add: AdminSystemGroupID_def DefaultSystemGroupID_def)

definition IsFixedSystemGroup :: "string \<Rightarrow> bool" where
  "IsFixedSystemGroup gid \<longleftrightarrow> gid = AdminSystemGroupID \<or> gid = DefaultSystemGroupID"

definition isFixedSystemGroupDefinition :: "system_group_row \<Rightarrow> bool" where
  "isFixedSystemGroupDefinition g \<longleftrightarrow>
     (if group_ID g = AdminSystemGroupID
      then group_Name g = ''admin'' \<and> group_Description g = ''Global system administrators''
      else if group_ID g = DefaultSystemGroupID
      then group_Name g = ''default'' \<and> group_Description g = ''All active users''
      else False)"

definition IsSupportedPreset :: "token_preset \<Rightarrow> bool" where
  "IsSupportedPreset p \<longleftrightarrow>
     (case p of TokenPresetSubscriptionRead \<Rightarrow> True | TokenPresetGitClone \<Rightarrow> True
      | TokenPresetGitWrite \<Rightarrow> True | TokenPresetOther _ \<Rightarrow> False)"

definition IsTeamRole :: "team_role \<Rightarrow> bool" where
  "IsTeamRole r \<longleftrightarrow>
     (case r of TeamRoleOwner \<Rightarrow> True | TeamRoleAdmin \<Rightarrow> True | TeamRoleMaintainer \<Rightarrow> True
      | TeamRoleDeveloper \<Rightarrow> True | TeamRoleViewer \<Rightarrow> True | TeamRoleOther _ \<Rightarrow> False)"

definition NormalizeUsername :: "(string \<Rightarrow> string) \<Rightarrow> string \<Rightarrow> string" where
  "NormalizeUsername lw username = strings_ToLower lw (strings_TrimSpace username)"

section \<open>Hooks\<close>

definition User_BeforeCreate :: "(string \<Rightarrow> string) \<Rightarrow> user_row \<Rightarrow> err option" where
  "User_BeforeCreate lw u =
     (if user_Username u \<noteq> NormalizeUsername lw (user_Username u) \<or> length (user_Username u) > 64 \<or>
         \<not> canonical_slug (user_Username u)
      then Some ErrInvalidUser
      else if user_Status u \<noteq> UserStatusActive \<and> user_Status u \<noteq> UserStatusDisabled
      then Some ErrInvalidUser
      else (case user_Email u of
              None \<Rightarrow> None
            | Some email \<Rightarrow>
                (let normalized = strings_ToLower lw (strings_TrimSpace email) in
                 if normalized = [] \<or> normalized \<noteq> email then Some ErrInvalidUser else None)))"

definition Namespace_BeforeCreate :: "(string \<Rightarrow> string) \<Rightarrow> namespace_row \<Rightarrow> err option" where
  "Namespace_BeforeCreate lw n =
     (if ns_Slug n \<noteq> NormalizeUsername lw (ns_Slug n) \<or> length (ns_Slug n) > 128 \<or>
         \<not> canonical_slug (ns_Slug n)
      then Some ErrInvalidNamespace
      else (case ns_Kind n of
              NamespaceKindUser \<Rightarrow>
                (case ns_OwnerUserID n of None \<Rightarrow> Some ErrInvalidNamespace
                 | Some owner \<Rightarrow> if owner = [] then Some ErrInvalidNamespace else None)
            | NamespaceKindTeam \<Rightarrow>
                (case ns_OwnerUserID n of None \<Rightarrow> None | Some _ \<Rightarrow> Some ErrInvalidNamespace)
            | NamespaceKindOther _ \<Rightarrow> Some ErrInvalidNamespace))"

definition SystemGroup_BeforeCreate :: "system_group_row \<Rightarrow> err option" where
  "SystemGroup_BeforeCreate g =
     (if \<not> isFixedSystemGroupDefinition g then Some ErrInvalidSystemGroup else None)"

definition SystemGroup_BeforeUpdate :: "system_group_row \<Rightarrow> err option" where
  "SystemGroup_BeforeUpdate g =
     (if IsFixedSystemGroup (group_ID g) then Some ErrImmutableSystemGroup else None)"

definition SystemGroup_BeforeDelete :: "system_group_row \<Rightarrow> err option" where
  "SystemGroup_BeforeDelete g =
     (if IsFixedSystemGroup (group_ID g) then Some ErrImmutableSystemGroup else None)"

definition GroupMembership_BeforeCreate :: "group_membership_row \<Rightarrow> err option" where
  "GroupMembership_BeforeCreate m =
     (if gm_GroupID m = DefaultSystemGroupID then Some ErrPersistedDefaultMembership else None)"

definition PersonalAccessToken_BeforeCreate :: "(string \<Rightarrow> bool) \<Rightarrow> token_row \<Rightarrow> err option" where
  "PersonalAccessToken_BeforeCreate uuid t =
     (if \<not> uuid (tok_ID t) \<or> \<not> uuid (tok_UserID t) \<or>
         ValidateAPIKey (tok_SecretPlaintext t) \<noteq> None \<or> ValidateAPIKeyIndex (tok_SecretHMAC t) \<noteq> None
      then Some ErrInvalidPersonalAccessToken
      else if \<not> IsSupportedPreset (tok_Preset t) then Some ErrInvalidTokenPreset
      else (case tok_ExpiresAt t of
              None \<Rightarrow> None
            | Some e \<Rightarrow> if \<not> e > tok_CreatedAt t then Some ErrInvalidPersonalAccessToken else None))"

definition TeamMembership_BeforeCreate :: "(string \<Rightarrow> bool) \<Rightarrow> team_membership_row \<Rightarrow> err option" where
  "TeamMembership_BeforeCreate uuid m =
     (if \<not> uuid (tm_NamespaceID m) \<or> \<not> uuid (tm_UserID m) \<or> \<not> IsTeamRole (tm_Role m)
      then Some ErrInvalidTeamMembership else None)"

definition TeamInvitation_BeforeCreate :: "(string \<Rightarrow> bool) \<Rightarrow> team_invitation_row \<Rightarrow> err option" where
  "TeamInvitation_BeforeCreate uuid i =
     (if \<not> uuid (inv_ID i) \<or> \<not> uuid (inv_NamespaceID i) \<or> \<not> uuid (inv_UserID i) \<or>
         \<not> uuid (inv_InvitedByUserID i) \<or> \<not> IsTeamRole (inv_Role i) \<or> \<not> inv_ExpiresAt i > inv_CreatedAt i
      then Some ErrInvalidTeamInvitation else None)"

section \<open>Invitation states\<close>

text \<open>The terminal timestamps of an invitation; the partial unique index counts the rows with none.\<close>

definition inv_open :: "team_invitation_row \<Rightarrow> bool" where
  "inv_open i \<longleftrightarrow> inv_AcceptedAt i = None \<and> inv_RejectedAt i = None \<and> inv_RevokedAt i = None"

section \<open>The pepper of the API-key index\<close>

text \<open>An environment is the lookup of \<open>LookupEnv\<close>.\<close>

type_synonym environment = "string \<rightharpoonup> string"

definition BootstrapAdminPasswordEnvironment :: string where
  "BootstrapAdminPasswordEnvironment = ''MARKETPLACE_BOOTSTRAP_ADMIN_PASSWORD''"

definition APIKeyPepperEnvironment :: string where
  "APIKeyPepperEnvironment = ''MARKETPLACE_API_KEY_PEPPER''"

definition JWTSecretEnvironment :: string where
  "JWTSecretEnvironment = ''MARKETPLACE_JWT_SECRET''"

definition APIKeyPepper :: "environment option \<Rightarrow> err + string" where
  "APIKeyPepper environment =
     (case environment of
        None \<Rightarrow> Inl ErrInvalidAPIKeyPepper
      | Some env \<Rightarrow>
          (case env APIKeyPepperEnvironment of
             None \<Rightarrow> Inl ErrInvalidAPIKeyPepper
           | Some encoded \<Rightarrow>
               if strings_TrimSpace encoded = [] then Inl ErrInvalidAPIKeyPepper
               else (case std_DecodeString encoded of
                       None \<Rightarrow> Inl ErrInvalidAPIKeyPepper
                     | Some pepper \<Rightarrow>
                         if length pepper < MinimumAPIKeyPepperBytes then Inl ErrInvalidAPIKeyPepper
                         else Inr pepper)))"

definition EncodeAPIKeyPepper :: "string \<Rightarrow> string" where
  "EncodeAPIKeyPepper pepper = std_EncodeToString pepper"

section \<open>Facts about the hooks\<close>

lemma User_BeforeCreate_None:
  "User_BeforeCreate lw u = None \<Longrightarrow>
     canonical_slug (user_Username u) \<and> length (user_Username u) \<le> 64 \<and>
     user_Status u \<in> {UserStatusActive, UserStatusDisabled}"
  by (auto simp: User_BeforeCreate_def Let_def split: if_splits option.splits)

lemma Namespace_BeforeCreate_None:
  "Namespace_BeforeCreate lw n = None \<Longrightarrow>
     canonical_slug (ns_Slug n) \<and>
     (ns_Kind n = NamespaceKindUser \<and> ns_OwnerUserID n \<noteq> None \<or>
      ns_Kind n = NamespaceKindTeam \<and> ns_OwnerUserID n = None)"
  by (auto simp: Namespace_BeforeCreate_def split: if_splits option.splits namespace_kind.splits)

lemma TeamMembership_BeforeCreate_None:
  "TeamMembership_BeforeCreate uuid m = None \<Longrightarrow> IsTeamRole (tm_Role m)"
  by (auto simp: TeamMembership_BeforeCreate_def split: if_splits)

lemma canonical_slug_Nil [simp]: "\<not> canonical_slug []"
  by (simp add: canonical_slug_def slug_word_def)

lemma Namespace_BeforeCreate_empty_slug:
  "ns_Slug n = [] \<Longrightarrow> Namespace_BeforeCreate lw n = Some ErrInvalidNamespace"
  by (simp add: Namespace_BeforeCreate_def)

lemma IsTeamRole_iff:
  "IsTeamRole r \<longleftrightarrow> r \<in> {TeamRoleOwner, TeamRoleAdmin, TeamRoleMaintainer, TeamRoleDeveloper, TeamRoleViewer}"
  by (cases r) (simp_all add: IsTeamRole_def)

lemma NormalizeUsername_slug: "canonical_slug s \<Longrightarrow> NormalizeUsername lw s = s"
  by (simp add: NormalizeUsername_def canonical_slug_normal)

lemma std_encode_graphic: "list_all graphic (std_EncodeToString data)"
proof -
  have "list_all graphic std_alphabet" by code_simp
  then have "list_all graphic (raw_EncodeToString std_alphabet data)"
    using raw_encode_alphabet [OF good_std] by (auto simp: list_all_iff)
  moreover have "graphic CHR ''=''" by (simp add: graphic_def byte_def)
  ultimately show ?thesis by (auto simp: std_EncodeToString_def list_all_iff)
qed

lemma std_encode_Nil_iff: "std_EncodeToString data = [] \<longleftrightarrow> data = []"
  by (cases "map byte data" rule: b64_digits.cases) (auto simp: std_EncodeToString_def raw_EncodeToString_def)

end
