(* ===== verification/PluginModel.thy ===== *)
theory PluginModel imports AuthContracts "HOL-Library.Word" begin

text \<open>
  \<open>mod/backend/domain/plugin/model.go\<close>: the persisted Plugin aggregate (a Plugin and its hidden
  repository share one ID), its versions with their append-only history, the cleanup records of
  orphaned repositories, the batches and intents of a Git receive, and the projections of a
  version into the published marketplace revisions. A \<open>NULL\<close> snapshot is \<open>None\<close>. Generations
  are the 64-bit words of the code; attempts only ever count up from zero and are natural numbers.
\<close>

datatype version_status = VersionStatusAvailable | VersionStatusDeleted | VersionStatusOther string

datatype history_operation =
  VersionHistoryOperationPublish | VersionHistoryOperationMove | VersionHistoryOperationDelete
| VersionHistoryOperationRestore

datatype orphan_state =
  OrphanCleanupStatePending | OrphanCleanupStateRunning | OrphanCleanupStateCompleted
| OrphanCleanupStateManualRequired

datatype receive_state =
  ReceiveBatchStatePrepared | ReceiveBatchStateFinalizing | ReceiveBatchStateCompleted
| ReceiveBatchStateAborted | ReceiveBatchStateManualRequired

datatype receive_operation = ReceiveOperationMove | ReceiveOperationDelete

datatype artifact_kind = ArtifactKindPlugin | ArtifactKindMarketplace

datatype artifact_state = ArtifactStateStaged | ArtifactStateReady | ArtifactStateFailed

datatype transition_state =
  ProjectionTransitionStatePrepared | ProjectionTransitionStatePending
| ProjectionTransitionStateCompleted | ProjectionTransitionStateAborted
| ProjectionTransitionStateManualRequired

datatype gc_state =
  ProjectionGCStatePending | ProjectionGCStateRunning | ProjectionGCStateCompleted
| ProjectionGCStateManualRequired

record plugin_row =
  plg_ID :: string
  plg_NamespaceID :: string
  plg_Slug :: string
  plg_Description :: string
  plg_Visibility :: visibility
  plg_Status :: plugin_status
  plg_ArchivedFrom :: "plugin_status option"
  plg_DefaultVersionTag :: "string option"
  plg_CreatedAt :: int
  plg_UpdatedAt :: int

record repository_row =
  repo_ID :: string
  repo_StorageKey :: string
  repo_Status :: repository_status
  repo_CreatedAt :: int
  repo_UpdatedAt :: int

record version_row =
  ver_ID :: string
  ver_PluginID :: string
  ver_Tag :: string
  ver_Status :: version_status
  ver_RawTagObjectID :: "string option"
  ver_CommitSHA :: "string option"
  ver_ManifestDigest :: "string option"
  ver_ManifestSnapshot :: "string option"
  ver_PublishedAt :: int
  ver_UpdatedAt :: int
  ver_DeletedAt :: "int option"
  ver_CreatedAt :: int

record version_history_row =
  hist_ID :: string
  hist_PluginID :: string
  hist_Tag :: string
  hist_Operation :: history_operation
  hist_OldCommitSHA :: "string option"
  hist_NewCommitSHA :: "string option"
  hist_IntentID :: "string option"
  hist_CorrelationID :: string
  hist_CreatedAt :: int

record orphan_cleanup_row =
  orphan_ID :: string
  orphan_PluginID :: string
  orphan_StorageKey :: string
  orphan_State :: orphan_state
  orphan_Attempts :: nat
  orphan_SafeError :: string
  orphan_NextAttemptAt :: "int option"
  orphan_CreatedAt :: int
  orphan_UpdatedAt :: int
  orphan_CompletedAt :: "int option"

record receive_intent_row =
  intent_ID :: string
  intent_BatchID :: string
  intent_PluginID :: string
  intent_Operation :: receive_operation
  intent_Tag :: string
  intent_ExpectedOldObjectID :: string
  intent_ProposedNewObjectID :: "string option"
  intent_ExpectedOldCommitSHA :: string
  intent_ProposedNewCommitSHA :: "string option"
  intent_ProposedManifestDigest :: "string option"
  intent_ProposedManifestSnapshot :: "string option"
  intent_ExpectedVersionStatus :: version_status
  intent_State :: receive_state
  intent_Attempts :: nat
  intent_SafeError :: string
  intent_CreatedAt :: int
  intent_UpdatedAt :: int
  intent_CompletedAt :: "int option"

record receive_batch_row =
  batch_ID :: string
  batch_PluginID :: string
  batch_State :: receive_state
  batch_CorrelationID :: string
  batch_Attempts :: nat
  batch_SafeError :: string
  batch_CreatedAt :: int
  batch_UpdatedAt :: int
  batch_CompletedAt :: "int option"

record artifact_row =
  art_ID :: string
  art_Kind :: artifact_kind
  art_PluginID :: string
  art_Tag :: string
  art_SourceObjectID :: string
  art_SourceCommitSHA :: string
  art_SourceTreeSHA :: string
  art_RevisionID :: "string option"
  art_ContentDigest :: string
  art_DistributionSHA :: string
  art_StorageKey :: string
  art_State :: artifact_state
  art_SafeError :: string
  art_CreatedAt :: int
  art_UpdatedAt :: int
  art_ReadyAt :: "int option"

record pointer_row =
  ptr_ID :: string
  ptr_RevisionID :: string
  ptr_PluginID :: string
  ptr_Tag :: string
  ptr_ArtifactID :: "string option"
  ptr_Generation :: "64 word"
  ptr_Available :: bool
  ptr_UpdatedAt :: int

record transition_row =
  trn_ID :: string
  trn_IntentID :: string
  trn_RevisionID :: string
  trn_PointerID :: string
  trn_ExpectedGeneration :: "64 word"
  trn_CurrentArtifactID :: "string option"
  trn_StagedArtifactID :: "string option"
  trn_State :: transition_state
  trn_SafeError :: string
  trn_CreatedAt :: int
  trn_UpdatedAt :: int
  trn_CompletedAt :: "int option"

record gc_job_row =
  job_ID :: string
  job_ArtifactID :: string
  job_State :: gc_state
  job_Attempts :: nat
  job_SafeError :: string
  job_NextAttemptAt :: "int option"
  job_CreatedAt :: int
  job_UpdatedAt :: int
  job_CompletedAt :: "int option"

section \<open>The lifecycle constraints of the tables\<close>

text \<open>\<open>chk_plugins_lifecycle\<close> and \<open>chk_plugins_visibility\<close>.\<close>

definition chk_plugin :: "plugin_row \<Rightarrow> bool" where
  "chk_plugin p \<longleftrightarrow>
     plg_Visibility p \<in> {VisibilityPublic, VisibilityPrivate} \<and>
     plg_Status p \<in> {PluginStatusDraft, PluginStatusActive, PluginStatusArchived} \<and>
     (if plg_Status p = PluginStatusArchived
      then plg_ArchivedFrom p \<in> {Some PluginStatusDraft, Some PluginStatusActive}
      else plg_ArchivedFrom p = None)"

definition chk_repository :: "repository_row \<Rightarrow> bool" where
  "chk_repository r \<longleftrightarrow> repo_Status r \<in> {RepositoryReady, RepositoryReadOnly, RepositoryError}"

text \<open>\<open>chk_plugin_versions_lifecycle\<close>.\<close>

definition chk_version :: "version_row \<Rightarrow> bool" where
  "chk_version v \<longleftrightarrow>
     ver_Status v = VersionStatusAvailable \<and> ver_RawTagObjectID v \<noteq> None \<and> ver_CommitSHA v \<noteq> None \<and>
       ver_ManifestDigest v \<noteq> None \<and> ver_ManifestSnapshot v \<noteq> None \<and> ver_DeletedAt v = None \<or>
     ver_Status v = VersionStatusDeleted \<and> ver_RawTagObjectID v = None \<and> ver_CommitSHA v = None \<and>
       ver_ManifestDigest v = None \<and> ver_ManifestSnapshot v = None \<and> ver_DeletedAt v \<noteq> None"

end
