(* ===== verification/DistributionModel.thy ===== *)
theory DistributionModel imports AuthContracts "HOL-Library.Word" begin

text \<open>
  \<open>mod/backend/domain/distribution/model.go\<close>: marketplace templates, their immutable numbered
  revisions with the Plugin versions they contain, and the distributions that serve them.
\<close>

datatype distribution_status = StatusActive | StatusBuilding | StatusRevoked | StatusOther string

record template_row =
  tmpl_ID :: string
  tmpl_NamespaceID :: string
  tmpl_Slug :: string
  tmpl_Name :: string
  tmpl_Description :: string
  tmpl_Visibility :: visibility
  tmpl_Status :: distribution_status
  tmpl_PublishedRevisionID :: "string option"
  tmpl_CreatedAt :: int
  tmpl_UpdatedAt :: int

record revision_row =
  rev_ID :: string
  rev_TemplateID :: string
  rev_Revision :: "64 word"
  rev_ContentJSON :: string
  rev_ContentDigest :: string
  rev_Status :: distribution_status
  rev_PublishedAt :: int
  rev_CreatedAt :: int

record revision_item_row =
  item_ID :: string
  item_RevisionID :: string
  item_PluginID :: string
  item_PluginTag :: string
  item_PluginDistributionID :: string
  item_SourceURL :: string
  item_DistributionSHA :: string
  item_Position :: int
  item_CreatedAt :: int

record marketplace_distribution_row =
  mdist_ID :: string
  mdist_TemplateID :: string
  mdist_PublicKey :: string
  mdist_CurrentProjectionID :: "string option"
  mdist_Status :: distribution_status
  mdist_CreatedAt :: int
  mdist_UpdatedAt :: int
  mdist_RevokedAt :: "int option"

record distribution_projection_row =
  proj_ID :: string
  proj_MarketplaceDistributionID :: string
  proj_RevisionID :: string
  proj_StorageKey :: string
  proj_DistributionSHA :: string
  proj_ContentDigest :: string
  proj_Status :: distribution_status
  proj_CreatedAt :: int

record plugin_distribution_row =
  pdist_ID :: string
  pdist_TemplateID :: string
  pdist_PluginID :: string
  pdist_PluginTag :: string
  pdist_RepositoryID :: string
  pdist_TagName :: string
  pdist_SourceTagType :: string
  pdist_SourceTagObjectID :: string
  pdist_SourceCommitSHA :: string
  pdist_SourceTreeSHA :: string
  pdist_DistributionSHA :: string
  pdist_StorageKey :: string
  pdist_ContentDigest :: string
  pdist_Status :: distribution_status
  pdist_CreatedAt :: int
  pdist_UpdatedAt :: int
  pdist_RevokedAt :: "int option"

end
