(* ===== verification/World.thy ===== *)
theory World imports IdentityModel PluginModel DistributionModel begin

text \<open>
  The state the services run on and the programs over it.

  The database \<open>db\<close> is one list of records per table, in insertion order. A program is a function
  from the world to an outcome (an error or a value) and the world after it. Every statement sent
  to the database consults a schedule of faults: \<open>w_faults\<close> says, statement by statement, whether
  the driver fails; an empty schedule never fails. A theorem that holds for every schedule
  therefore covers every way the database may fail in the middle of an operation.

  \<open>time.Now\<close> and \<open>uuid.NewString\<close> read the streams \<open>w_clock\<close> and \<open>w_ids\<close>; \<open>w_lower\<close> is the
  Unicode case table and \<open>w_uuid\<close> the test for canonical UUIDs of \<open>google/uuid\<close>. \<open>w_clock\<close>,
  \<open>w_ids\<close>, \<open>w_lower\<close> and \<open>w_uuid\<close> are parameters of the model that no program changes.
\<close>

section \<open>Database and world\<close>

record db =
  users :: "user_row list"
  namespaces :: "namespace_row list"
  system_groups :: "system_group_row list"
  group_memberships :: "group_membership_row list"
  tokens :: "token_row list"
  team_memberships :: "team_membership_row list"
  team_invitations :: "team_invitation_row list"
  plugins :: "plugin_row list"
  repositories :: "repository_row list"
  versions :: "version_row list"
  version_history :: "version_history_row list"
  orphan_cleanups :: "orphan_cleanup_row list"
  receive_batches :: "receive_batch_row list"
  receive_intents :: "receive_intent_row list"
  artifacts :: "artifact_row list"
  pointers :: "pointer_row list"
  transitions :: "transition_row list"
  gc_jobs :: "gc_job_row list"
  marketplace_templates :: "template_row list"
  marketplace_revisions :: "revision_row list"
  revision_items :: "revision_item_row list"
  marketplace_distributions :: "marketplace_distribution_row list"
  distribution_projections :: "distribution_projection_row list"
  plugin_distributions :: "plugin_distribution_row list"

definition empty_db :: db where
  "empty_db =
     \<lparr>users = [], namespaces = [], system_groups = [], group_memberships = [], tokens = [],
      team_memberships = [], team_invitations = [], plugins = [], repositories = [], versions = [],
      version_history = [], orphan_cleanups = [], receive_batches = [], receive_intents = [],
      artifacts = [], pointers = [], transitions = [], gc_jobs = [], marketplace_templates = [],
      marketplace_revisions = [], revision_items = [], marketplace_distributions = [],
      distribution_projections = [], plugin_distributions = []\<rparr>"

text \<open>
  The storage root of the Git service: the storage keys that have a bare repository, each with the
  modification time of its directory, the refs of the repositories by repository and name, the
  receipts of the repositories the running process created, and the projections on disk. Each call of the
  file system or of the \<open>git\<close> binary takes its outcome from the schedule \<open>w_io\<close>; a call that
  fails may leave its directory behind. An empty schedule never fails.
\<close>

datatype io_outcome = IoOk | IoFail | IoFailPartial

record receipt =
  rcpt_identity :: "string \<times> string"
  rcpt_removed :: bool

record storage =
  bare_repositories :: "(string \<times> int) list"
  git_refs :: "(string \<times> string) \<Rightarrow> string option"
  receipts :: "(string \<times> receipt) list"
  projections_on_disk :: "(artifact_kind \<times> string) list"

definition empty_storage :: storage where
  "empty_storage =
     \<lparr>bare_repositories = [], git_refs = Map.empty, receipts = [], projections_on_disk = []\<rparr>"

record world =
  w_db :: db
  w_faults :: "bool list"
  w_clock :: "nat \<Rightarrow> int"
  w_ticks :: nat
  w_ids :: "nat \<Rightarrow> string"
  w_next_id :: nat
  w_lower :: "string \<Rightarrow> string"
  w_uuid :: "string \<Rightarrow> bool"
  w_storage :: storage
  w_io :: "io_outcome list"

type_synonym 'a prog = "world \<Rightarrow> (err + 'a) \<times> world"

section \<open>Program combinators\<close>

definition return :: "'a \<Rightarrow> 'a prog" where
  "return x w = (Inr x, w)"

definition fail :: "err \<Rightarrow> 'a prog" where
  "fail e w = (Inl e, w)"

definition bindE :: "'a prog \<Rightarrow> ('a \<Rightarrow> 'b prog) \<Rightarrow> 'b prog" where
  "bindE m f w = (case m w of (Inl e, w') \<Rightarrow> (Inl e, w') | (Inr x, w') \<Rightarrow> f x w')"

text \<open>\<open>attempt m k\<close> hands the outcome of \<open>m\<close>, error or value, to \<open>k\<close>: \<open>x, err := m(); ...\<close>.\<close>

definition attempt :: "'a prog \<Rightarrow> (err + 'a \<Rightarrow> 'b prog) \<Rightarrow> 'b prog" where
  "attempt m k w = (case m w of (r, w') \<Rightarrow> k r w')"

text \<open>Return an error mapped by \<open>h\<close>.\<close>

definition map_error :: "(err \<Rightarrow> err) \<Rightarrow> 'a prog \<Rightarrow> 'a prog" where
  "map_error h m w = (case m w of (Inl e, w') \<Rightarrow> (Inl (h e), w') | (Inr x, w') \<Rightarrow> (Inr x, w'))"

definition guardE :: "bool \<Rightarrow> err \<Rightarrow> unit prog" where
  "guardE b e = (if b then return () else fail e)"

definition of_sum :: "err + 'a \<Rightarrow> 'a prog" where
  "of_sum r = (case r of Inl e \<Rightarrow> fail e | Inr x \<Rightarrow> return x)"

definition gets :: "(world \<Rightarrow> 'a) \<Rightarrow> 'a prog" where
  "gets f w = (Inr (f w), w)"

definition now :: "int prog" where
  "now w = (Inr (w_clock w (w_ticks w)), w\<lparr>w_ticks := Suc (w_ticks w)\<rparr>)"

definition new_id :: "string prog" where
  "new_id w = (Inr (w_ids w (w_next_id w)), w\<lparr>w_next_id := Suc (w_next_id w)\<rparr>)"

section \<open>Database access\<close>

definition driver_failure :: err where
  "driver_failure = DriverError ''driver: bad connection''"

definition unique_violation :: err where
  "unique_violation = DriverError ''UNIQUE constraint failed''"

definition constraint_violation :: err where
  "constraint_violation = DriverError ''FOREIGN KEY constraint failed''"

fun next_fault :: "bool list \<Rightarrow> bool" where
  "next_fault [] = False"
| "next_fault (b # bs) = b"

definition statement :: "(db \<Rightarrow> (err + 'a) \<times> db) \<Rightarrow> 'a prog" where
  "statement f w =
     (if next_fault (w_faults w) then (Inl driver_failure, w\<lparr>w_faults := tl (w_faults w)\<rparr>)
      else (case f (w_db w) of (r, d) \<Rightarrow> (r, w\<lparr>w_db := d, w_faults := tl (w_faults w)\<rparr>)))"

definition query :: "(db \<Rightarrow> 'a) \<Rightarrow> 'a prog" where
  "query f = statement (\<lambda>d. (Inr (f d), d))"

text \<open>\<open>Take\<close>: a row or \<open>gorm.ErrRecordNotFound\<close>.\<close>

definition take_row :: "(db \<Rightarrow> 'a option) \<Rightarrow> 'a prog" where
  "take_row f = statement (\<lambda>d. (case f d of None \<Rightarrow> Inl ErrRecordNotFound | Some x \<Rightarrow> Inr x, d))"

definition exec :: "(db \<Rightarrow> db) \<Rightarrow> unit prog" where
  "exec f = statement (\<lambda>d. (Inr (), f d))"

text \<open>
  An insertion that the constraints of the table may reject: \<open>refs\<close> are its foreign keys and
  triggers, \<open>uniq\<close> its unique indexes.
\<close>

definition insert_row :: "(db \<Rightarrow> bool) \<Rightarrow> (db \<Rightarrow> bool) \<Rightarrow> (db \<Rightarrow> db) \<Rightarrow> unit prog" where
  "insert_row refs uniq f =
     statement (\<lambda>d. if \<not> refs d then (Inl constraint_violation, d)
                    else if \<not> uniq d then (Inl unique_violation, d) else (Inr (), f d))"

text \<open>An update that a check constraint or a trigger may reject, and one that reports \<open>RowsAffected\<close>.\<close>

definition exec_checked :: "(db \<Rightarrow> bool) \<Rightarrow> (db \<Rightarrow> db) \<Rightarrow> unit prog" where
  "exec_checked chk f = insert_row chk (\<lambda>_. True) f"

definition exec_count :: "(db \<Rightarrow> nat) \<Rightarrow> (db \<Rightarrow> db) \<Rightarrow> nat prog" where
  "exec_count n f = statement (\<lambda>d. (Inr (n d), f d))"

text \<open>A creation hook refuses the record before the statement is sent.\<close>

definition hook :: "err option \<Rightarrow> unit prog" where
  "hook r = (case r of None \<Rightarrow> return () | Some e \<Rightarrow> fail e)"

text \<open>
  \<open>time.Time{}\<close> in nanoseconds since the epoch. GORM replaces a zero \<open>CreatedAt\<close> or \<open>UpdatedAt\<close> by
  the current time when it creates a record.
\<close>

definition zero_time :: int where
  "zero_time = - 62135596800000000000"

definition stamp :: "int \<Rightarrow> int \<Rightarrow> int" where
  "stamp n t = (if t = zero_time then n else t)"

text \<open>
  \<open>db.Transaction\<close>: begin, run the body, commit; an error of the body or of the commit rolls the
  database back to the state before the transaction and is returned.
\<close>

definition transaction :: "'a prog \<Rightarrow> 'a prog" where
  "transaction m w =
     (case exec id w of
        (Inl e, w1) \<Rightarrow> (Inl e, w1)
      | (Inr _, w1) \<Rightarrow>
          (case m w1 of
             (Inl e, w2) \<Rightarrow> (Inl e, w2\<lparr>w_db := w_db w\<rparr>)
           | (Inr x, w2) \<Rightarrow>
               (case exec id w2 of
                  (Inl e, w3) \<Rightarrow> (Inl e, w3\<lparr>w_db := w_db w\<rparr>)
                | (Inr _, w3) \<Rightarrow> (Inr x, w3))))"

text \<open>
  \<open>isUniqueConstraintError\<close> looks for two phrases in the lower-cased message. The texts of the
  sentinel errors and of the wrapping prefixes contain neither, so only a driver error can match.
\<close>

definition isUniqueConstraintError :: "err \<Rightarrow> bool" where
  "isUniqueConstraintError e =
     (case e of
        DriverError msg \<Rightarrow>
          (let m = map lower_byte msg in
           strings_Contains m ''unique constraint'' \<or> strings_Contains m ''duplicate key'')
      | _ \<Rightarrow> False)"

lemma unique_violation_detected [simp]: "isUniqueConstraintError unique_violation"
  by code_simp

lemma other_failures_not_unique [simp]:
  "\<not> isUniqueConstraintError driver_failure" "\<not> isUniqueConstraintError constraint_violation"
  by code_simp+

lemma not_driver_not_unique [simp]:
  "\<not> isUniqueConstraintError (ModelError e)" "\<not> isUniqueConstraintError ErrRecordNotFound"
  "\<not> isUniqueConstraintError (DaoError e')" "\<not> isUniqueConstraintError (PluginError e'')"
  by (simp_all add: isUniqueConstraintError_def)

lemma failure_neq [simp]:
  "driver_failure \<noteq> ErrRecordNotFound" "driver_failure \<noteq> DaoError x" "driver_failure \<noteq> PluginError y"
  "unique_violation \<noteq> DaoError x" "constraint_violation \<noteq> DaoError x"
  "unique_violation \<noteq> PluginError y" "constraint_violation \<noteq> PluginError y"
  by (simp_all add: driver_failure_def unique_violation_def constraint_violation_def)

lemma errors_Is_failure [simp]:
  "errors_Is driver_failure t \<longleftrightarrow> t = driver_failure"
  "errors_Is unique_violation t \<longleftrightarrow> t = unique_violation"
  "errors_Is constraint_violation t \<longleftrightarrow> t = constraint_violation"
  by (auto simp: driver_failure_def unique_violation_def constraint_violation_def)

lemma failure_neq_sym [simp]:
  "ErrRecordNotFound \<noteq> driver_failure" "DaoError x \<noteq> driver_failure" "PluginError y \<noteq> driver_failure"
  "ErrRecordNotFound \<noteq> unique_violation" "DaoError x \<noteq> unique_violation" "PluginError y \<noteq> unique_violation"
  "ErrRecordNotFound \<noteq> constraint_violation" "DaoError x \<noteq> constraint_violation" "PluginError y \<noteq> constraint_violation"
  by (simp_all add: driver_failure_def unique_violation_def constraint_violation_def)

section \<open>Outcomes of programs\<close>

lemma return_iff [prog_iff]: "return x w = (r, w') \<longleftrightarrow> r = Inr x \<and> w' = w"
  by (auto simp: return_def)

lemma fail_iff [prog_iff]: "fail e w = (r, w') \<longleftrightarrow> r = Inl e \<and> w' = w"
  by (auto simp: fail_def)

lemma bindE_Inr_iff [prog_iff]:
  "bindE m f w = (Inr y, w') \<longleftrightarrow> (\<exists>x w1. m w = (Inr x, w1) \<and> f x w1 = (Inr y, w'))"
  by (auto simp: bindE_def split: prod.splits sum.splits)

lemma bindE_Inl_iff [prog_iff]:
  "bindE m f w = (Inl e, w') \<longleftrightarrow>
     m w = (Inl e, w') \<or> (\<exists>x w1. m w = (Inr x, w1) \<and> f x w1 = (Inl e, w'))"
  by (auto simp: bindE_def split: prod.splits sum.splits)

lemma attempt_iff [prog_iff]:
  "attempt m k w = (r, w') \<longleftrightarrow>
     (\<exists>e w1. m w = (Inl e, w1) \<and> k (Inl e) w1 = (r, w')) \<or>
     (\<exists>x w1. m w = (Inr x, w1) \<and> k (Inr x) w1 = (r, w'))"
  by (cases "m w"; cases "fst (m w)") (auto simp: attempt_def)

lemma map_error_Inr_iff [prog_iff]: "map_error h m w = (Inr x, w') \<longleftrightarrow> m w = (Inr x, w')"
  by (auto simp: map_error_def split: prod.splits sum.splits)

lemma map_error_Inl_iff [prog_iff]:
  "map_error h m w = (Inl e, w') \<longleftrightarrow> (\<exists>e'. m w = (Inl e', w') \<and> e = h e')"
  by (auto simp: map_error_def split: prod.splits sum.splits)

lemma guardE_Inr_iff [prog_iff]: "guardE b e w = (Inr x, w') \<longleftrightarrow> b \<and> w' = w"
  by (auto simp: guardE_def return_def fail_def)

lemma guardE_Inl_iff [prog_iff]: "guardE b e w = (Inl e', w') \<longleftrightarrow> \<not> b \<and> e' = e \<and> w' = w"
  by (auto simp: guardE_def return_def fail_def)

lemma of_sum_iff [prog_iff]: "of_sum r w = (r', w') \<longleftrightarrow> r' = r \<and> w' = w"
  by (cases r) (auto simp: of_sum_def return_def fail_def)

lemma gets_iff [prog_iff]: "gets f w = (r, w') \<longleftrightarrow> r = Inr (f w) \<and> w' = w"
  by (auto simp: gets_def)

lemma now_iff [prog_iff]:
  "now w = (r, w') \<longleftrightarrow> r = Inr (w_clock w (w_ticks w)) \<and> w' = w\<lparr>w_ticks := Suc (w_ticks w)\<rparr>"
  by (auto simp: now_def)

lemma new_id_iff [prog_iff]:
  "new_id w = (r, w') \<longleftrightarrow> r = Inr (w_ids w (w_next_id w)) \<and> w' = w\<lparr>w_next_id := Suc (w_next_id w)\<rparr>"
  by (auto simp: new_id_def)

lemma query_Inr_iff [prog_iff]:
  "query f w = (Inr x, w') \<longleftrightarrow>
     \<not> next_fault (w_faults w) \<and> x = f (w_db w) \<and> w' = w\<lparr>w_faults := tl (w_faults w)\<rparr>"
  by (auto simp: query_def statement_def)

lemma query_Inl_iff [prog_iff]:
  "query f w = (Inl e, w') \<longleftrightarrow>
     next_fault (w_faults w) \<and> e = driver_failure \<and> w' = w\<lparr>w_faults := tl (w_faults w)\<rparr>"
  by (auto simp: query_def statement_def)

lemma take_row_Inr_iff [prog_iff]:
  "take_row f w = (Inr x, w') \<longleftrightarrow>
     \<not> next_fault (w_faults w) \<and> f (w_db w) = Some x \<and> w' = w\<lparr>w_faults := tl (w_faults w)\<rparr>"
  by (auto simp: take_row_def statement_def split: option.splits)

lemma take_row_Inl_iff [prog_iff]:
  "take_row f w = (Inl e, w') \<longleftrightarrow>
     w' = w\<lparr>w_faults := tl (w_faults w)\<rparr> \<and>
     (if next_fault (w_faults w) then e = driver_failure
      else f (w_db w) = None \<and> e = ErrRecordNotFound)"
  by (auto simp: take_row_def statement_def split: option.splits)

lemma exec_Inr_iff [prog_iff]:
  "exec f w = (Inr x, w') \<longleftrightarrow>
     \<not> next_fault (w_faults w) \<and> w' = w\<lparr>w_db := f (w_db w), w_faults := tl (w_faults w)\<rparr>"
  by (auto simp: exec_def statement_def)

lemma exec_Inl_iff [prog_iff]:
  "exec f w = (Inl e, w') \<longleftrightarrow>
     next_fault (w_faults w) \<and> e = driver_failure \<and> w' = w\<lparr>w_faults := tl (w_faults w)\<rparr>"
  by (auto simp: exec_def statement_def)

lemma insert_row_Inr_iff [prog_iff]:
  "insert_row refs uniq f w = (Inr x, w') \<longleftrightarrow>
     \<not> next_fault (w_faults w) \<and> refs (w_db w) \<and> uniq (w_db w) \<and>
     w' = w\<lparr>w_db := f (w_db w), w_faults := tl (w_faults w)\<rparr>"
  by (auto simp: insert_row_def statement_def)

lemma insert_row_Inl_iff [prog_iff]:
  "insert_row refs uniq f w = (Inl e, w') \<longleftrightarrow>
     w' = w\<lparr>w_faults := tl (w_faults w)\<rparr> \<and>
     (if next_fault (w_faults w) then e = driver_failure
      else if \<not> refs (w_db w) then e = constraint_violation
      else \<not> uniq (w_db w) \<and> e = unique_violation)"
  by (auto simp: insert_row_def statement_def)

lemma exec_checked_Inr_iff [prog_iff]:
  "exec_checked chk f w = (Inr x, w') \<longleftrightarrow>
     \<not> next_fault (w_faults w) \<and> chk (w_db w) \<and>
     w' = w\<lparr>w_db := f (w_db w), w_faults := tl (w_faults w)\<rparr>"
  by (auto simp: exec_checked_def insert_row_Inr_iff)

lemma exec_checked_Inl_iff [prog_iff]:
  "exec_checked chk f w = (Inl e, w') \<longleftrightarrow>
     w' = w\<lparr>w_faults := tl (w_faults w)\<rparr> \<and>
     (if next_fault (w_faults w) then e = driver_failure
      else \<not> chk (w_db w) \<and> e = constraint_violation)"
  by (auto simp: exec_checked_def insert_row_Inl_iff)

lemma exec_count_Inr_iff [prog_iff]:
  "exec_count n f w = (Inr x, w') \<longleftrightarrow>
     \<not> next_fault (w_faults w) \<and> x = n (w_db w) \<and>
     w' = w\<lparr>w_db := f (w_db w), w_faults := tl (w_faults w)\<rparr>"
  by (auto simp: exec_count_def statement_def)

lemma exec_count_Inl_iff [prog_iff]:
  "exec_count n f w = (Inl e, w') \<longleftrightarrow>
     next_fault (w_faults w) \<and> e = driver_failure \<and> w' = w\<lparr>w_faults := tl (w_faults w)\<rparr>"
  by (auto simp: exec_count_def statement_def)

lemma hook_Inr_iff [prog_iff]: "hook r w = (Inr x, w') \<longleftrightarrow> r = None \<and> w' = w"
  by (auto simp: hook_def return_def fail_def split: option.splits)

lemma hook_Inl_iff [prog_iff]: "hook r w = (Inl e, w') \<longleftrightarrow> r = Some e \<and> w' = w"
  by (auto simp: hook_def return_def fail_def split: option.splits)

lemma transaction_Inr_iff [prog_iff]:
  "transaction m w = (Inr x, w') \<longleftrightarrow>
     (\<exists>w2. \<not> next_fault (w_faults w) \<and> m (w\<lparr>w_faults := tl (w_faults w)\<rparr>) = (Inr x, w2) \<and>
           \<not> next_fault (w_faults w2) \<and> w' = w2\<lparr>w_faults := tl (w_faults w2)\<rparr>)"
  by (auto simp: transaction_def exec_def statement_def split: prod.splits sum.splits)

text \<open>A failed transaction leaves the database as it found it.\<close>

lemma transaction_Inl_db: "transaction m w = (Inl e, w') \<Longrightarrow> w_db w' = w_db w"
  by (auto simp: transaction_def exec_def statement_def split: prod.splits sum.splits if_splits)

lemma transaction_Inl_cases:
  assumes "transaction m w = (Inl e, w')"
  obtains "e = driver_failure"
  | w2 where "m (w\<lparr>w_faults := tl (w_faults w)\<rparr>) = (Inl e, w2)" "w' = w2\<lparr>w_db := w_db w\<rparr>"
  using assms
  by (auto simp: transaction_def exec_def statement_def split: prod.splits sum.splits if_splits)

section \<open>Frames\<close>

text \<open>\<open>io_step f g\<close> runs a call that changes the storage by \<open>f\<close>, or by \<open>g\<close> when it fails half way.\<close>

definition io_failure :: err where
  "io_failure = ErrNew ''git storage failure''"

fun next_io :: "io_outcome list \<Rightarrow> io_outcome" where
  "next_io [] = IoOk"
| "next_io (b # bs) = b"

definition io_step :: "(storage \<Rightarrow> storage) \<Rightarrow> (storage \<Rightarrow> storage) \<Rightarrow> unit prog" where
  "io_step f g w =
     (case next_io (w_io w) of
        IoOk \<Rightarrow> (Inr (), w\<lparr>w_storage := f (w_storage w), w_io := tl (w_io w)\<rparr>)
      | IoFail \<Rightarrow> (Inl io_failure, w\<lparr>w_io := tl (w_io w)\<rparr>)
      | IoFailPartial \<Rightarrow> (Inl io_failure, w\<lparr>w_storage := g (w_storage w), w_io := tl (w_io w)\<rparr>))"

text \<open>A change of the memory of the process, which does not fail.\<close>

definition modify_storage :: "(storage \<Rightarrow> storage) \<Rightarrow> unit prog" where
  "modify_storage f w = (Inr (), w\<lparr>w_storage := f (w_storage w)\<rparr>)"

lemma io_step_Inr_iff [prog_iff]:
  "io_step f g w = (Inr x, w') \<longleftrightarrow>
     next_io (w_io w) = IoOk \<and> w' = w\<lparr>w_storage := f (w_storage w), w_io := tl (w_io w)\<rparr>"
  by (auto simp: io_step_def split: io_outcome.splits)

lemma modify_storage_iff [prog_iff]:
  "modify_storage f w = (r, w') \<longleftrightarrow> r = Inr () \<and> w' = w\<lparr>w_storage := f (w_storage w)\<rparr>"
  by (auto simp: modify_storage_def)

text \<open>\<open>reads m\<close>: whatever its outcome, \<open>m\<close> leaves the database unchanged.\<close>

definition reads :: "'a prog \<Rightarrow> bool" where
  "reads m \<longleftrightarrow> (\<forall>w. w_db (snd (m w)) = w_db w)"

text \<open>\<open>keeps I m\<close>: whatever its outcome, \<open>m\<close> keeps the property \<open>I\<close> of the database.\<close>

definition keeps :: "(db \<Rightarrow> bool) \<Rightarrow> 'a prog \<Rightarrow> bool" where
  "keeps I m \<longleftrightarrow> (\<forall>w. I (w_db w) \<longrightarrow> I (w_db (snd (m w))))"

lemma readsI: "(\<And>w r w'. m w = (r, w') \<Longrightarrow> w_db w' = w_db w) \<Longrightarrow> reads m"
  unfolding reads_def by (metis prod.collapse)

lemma readsD: "reads m \<Longrightarrow> m w = (r, w') \<Longrightarrow> w_db w' = w_db w"
  unfolding reads_def by (metis snd_conv)

lemma keepsI: "(\<And>w r w'. m w = (r, w') \<Longrightarrow> I (w_db w) \<Longrightarrow> I (w_db w')) \<Longrightarrow> keeps I m"
  unfolding keeps_def by (metis prod.collapse)

lemma keepsD: "keeps I m \<Longrightarrow> m w = (r, w') \<Longrightarrow> I (w_db w) \<Longrightarrow> I (w_db w')"
  unfolding keeps_def by (metis snd_conv)

lemma keeps_iff: "keeps I m \<longleftrightarrow> (\<forall>w r w'. m w = (r, w') \<longrightarrow> I (w_db w) \<longrightarrow> I (w_db w'))"
  using keepsI keepsD by metis

lemma reads_return [read_only]: "reads (return x)"
  by (simp add: reads_def return_def)

lemma reads_fail [read_only]: "reads (fail e)"
  by (simp add: reads_def fail_def)

lemma reads_guardE [read_only]: "reads (guardE b e)"
  by (simp add: guardE_def reads_return reads_fail)

lemma reads_of_sum [read_only]: "reads (of_sum r)"
  by (cases r) (simp_all add: of_sum_def reads_return reads_fail)

lemma reads_gets [read_only]: "reads (gets f)"
  by (simp add: reads_def gets_def)

lemma reads_now [read_only]: "reads now"
  by (simp add: reads_def now_def)

lemma reads_new_id [read_only]: "reads new_id"
  by (simp add: reads_def new_id_def)

lemma reads_hook [read_only]: "reads (hook r)"
  by (cases r) (simp_all add: hook_def reads_return reads_fail)

lemma reads_io_step [read_only]: "reads (io_step f g)"
  by (simp add: reads_def io_step_def split: io_outcome.splits)

lemma reads_modify_storage [read_only]: "reads (modify_storage f)"
  by (simp add: reads_def modify_storage_def)

lemma reads_query [read_only]: "reads (query f)"
  by (simp add: reads_def query_def statement_def)

lemma reads_take_row [read_only]: "reads (take_row f)"
  by (simp add: reads_def take_row_def statement_def split: option.splits)

lemma reads_bindE [read_only]: "reads m \<Longrightarrow> (\<And>x. reads (f x)) \<Longrightarrow> reads (bindE m f)"
  by (rule readsI) (auto simp: bindE_def split: prod.splits sum.splits dest: readsD, metis readsD)

lemma reads_attempt [read_only]: "reads m \<Longrightarrow> (\<And>r. reads (k r)) \<Longrightarrow> reads (attempt m k)"
  by (rule readsI) (simp add: attempt_def split: prod.splits, metis readsD)

lemma reads_map_error [read_only]: "reads m \<Longrightarrow> reads (map_error h m)"
  by (rule readsI) (auto simp: map_error_def split: prod.splits sum.splits dest!: readsD)

lemma reads_if [read_only]: "reads m \<Longrightarrow> reads m' \<Longrightarrow> reads (if b then m else m')"
  by simp

lemma reads_case_sum [read_only]:
  "(\<And>e. reads (f e)) \<Longrightarrow> (\<And>x. reads (g x)) \<Longrightarrow> reads (case r of Inl e \<Rightarrow> f e | Inr x \<Rightarrow> g x)"
  by (simp split: sum.splits)

lemma reads_case_option [read_only]:
  "reads f \<Longrightarrow> (\<And>x. reads (g x)) \<Longrightarrow> reads (case r of None \<Rightarrow> f | Some x \<Rightarrow> g x)"
  by (simp split: option.splits)

lemma reads_case_prod [read_only]: "(\<And>x y. reads (f x y)) \<Longrightarrow> reads (case p of (x, y) \<Rightarrow> f x y)"
  by (simp split: prod.splits)

lemma reads_Let [read_only]: "(\<And>x. reads (f x)) \<Longrightarrow> reads (let x = t in f x)"
  by simp

lemma keeps_reads: "reads m \<Longrightarrow> keeps I m"
  by (rule keepsI) (auto dest: readsD)

lemma keeps_bindE [stable_progs]: "keeps I m \<Longrightarrow> (\<And>x. keeps I (f x)) \<Longrightarrow> keeps I (bindE m f)"
  by (rule keepsI) (auto simp: bindE_def split: prod.splits sum.splits dest: keepsD)

lemma keeps_attempt [stable_progs]: "keeps I m \<Longrightarrow> (\<And>r. keeps I (k r)) \<Longrightarrow> keeps I (attempt m k)"
  by (rule keepsI) (auto simp: attempt_def split: prod.splits dest: keepsD)

lemma keeps_map_error [stable_progs]: "keeps I m \<Longrightarrow> keeps I (map_error h m)"
  by (rule keepsI) (auto simp: map_error_def split: prod.splits sum.splits dest: keepsD)

lemma keeps_if [stable_progs]: "keeps I m \<Longrightarrow> keeps I m' \<Longrightarrow> keeps I (if b then m else m')"
  by simp

lemma keeps_case_sum [stable_progs]:
  "(\<And>e. keeps I (f e)) \<Longrightarrow> (\<And>x. keeps I (g x)) \<Longrightarrow> keeps I (case r of Inl e \<Rightarrow> f e | Inr x \<Rightarrow> g x)"
  by (simp split: sum.splits)

lemma keeps_case_option [stable_progs]:
  "keeps I f \<Longrightarrow> (\<And>x. keeps I (g x)) \<Longrightarrow> keeps I (case r of None \<Rightarrow> f | Some x \<Rightarrow> g x)"
  by (simp split: option.splits)

lemma keeps_case_prod [stable_progs]:
  "(\<And>x y. keeps I (f x y)) \<Longrightarrow> keeps I (case p of (x, y) \<Rightarrow> f x y)"
  by (simp split: prod.splits)

lemma keeps_Let [stable_progs]: "(\<And>x. keeps I (f x)) \<Longrightarrow> keeps I (let x = t in f x)"
  by simp

lemma keeps_exec: "(\<And>d. I d \<Longrightarrow> I (f d)) \<Longrightarrow> keeps I (exec f)"
  by (simp add: keeps_def exec_def statement_def)

lemma keeps_exec_count: "(\<And>d. I d \<Longrightarrow> I (f d)) \<Longrightarrow> keeps I (exec_count n f)"
  by (simp add: keeps_def exec_count_def statement_def)

lemma keeps_insert_row:
  "(\<And>d. I d \<Longrightarrow> refs d \<Longrightarrow> uniq d \<Longrightarrow> I (f d)) \<Longrightarrow> keeps I (insert_row refs uniq f)"
  by (simp add: keeps_def insert_row_def statement_def)

lemma keeps_exec_checked: "(\<And>d. I d \<Longrightarrow> chk d \<Longrightarrow> I (f d)) \<Longrightarrow> keeps I (exec_checked chk f)"
  by (simp add: exec_checked_def keeps_insert_row)

text \<open>A transaction keeps \<open>I\<close> when a body that succeeds keeps it; a failing body is rolled back.\<close>

lemma keeps_transaction:
  assumes "\<And>w x w'. m w = (Inr x, w') \<Longrightarrow> I (w_db w) \<Longrightarrow> I (w_db w')"
  shows "keeps I (transaction m)"
proof (rule keepsI)
  fix w r w' assume run: "transaction m w = (r, w')" and i: "I (w_db w)"
  show "I (w_db w')"
  proof (cases r)
    case (Inl e)
    with run i show ?thesis by (auto dest: transaction_Inl_db)
  next
    case (Inr x)
    with run obtain w2 where "m (w\<lparr>w_faults := tl (w_faults w)\<rparr>) = (Inr x, w2)"
      "w' = w2\<lparr>w_faults := tl (w_faults w2)\<rparr>"
      by (auto simp: transaction_Inr_iff)
    with assms [of "w\<lparr>w_faults := tl (w_faults w)\<rparr>" x w2] i show ?thesis by simp
  qed
qed

lemmas run_iff = prog_iff

end
