(* ===== verification/IdentityDao.thy ===== *)
theory IdentityDao imports World begin

text \<open>
  \<open>mod/backend/domain/identity/dao/repository.go\<close> and \<open>bootstrap.go\<close>: users, system administrators,
  personal access tokens and the bootstrap of the first administrator.

  The constraints of the tables are those of the struct tags of \<open>identity/model\<close> and of
  \<open>dao/migrate.go\<close>: primary keys, unique indexes, foreign keys, checks and triggers. A statement
  of a row lock or an advisory lock has no effect on the data; it can only fail. Transactions run
  one after the other: the advisory lock (PostgreSQL) or the writer lock (SQLite) each of them
  takes first is what the code relies on for this.
\<close>

section \<open>Rows of a query\<close>

definition first_row :: "'r list \<Rightarrow> 'r option" where
  "first_row rows = (case rows of [] \<Rightarrow> None | r # _ \<Rightarrow> Some r)"

definition order_desc :: "('r \<Rightarrow> 'k::linorder) \<Rightarrow> 'r list \<Rightarrow> 'r list" where
  "order_desc k rows = rev (sort_key k rows)"

lemma set_order_desc [simp]: "set (order_desc k rows) = set rows"
  by (simp add: order_desc_def)

lemma first_row_Some: "first_row rows = Some r \<Longrightarrow> r \<in> set rows"
  by (auto simp: first_row_def split: list.splits)

text \<open>\<open>fmt.Errorf("...: %w", err)\<close>, with a missing record reported as \<open>ErrIdentityNotFound\<close>.\<close>

definition not_found_or :: "string \<Rightarrow> err \<Rightarrow> err" where
  "not_found_or msg e = (if errors_Is e ErrRecordNotFound then ErrIdentityNotFound else Wrapped msg e)"

definition conflict_or :: "string \<Rightarrow> err \<Rightarrow> err" where
  "conflict_or msg e = (if isUniqueConstraintError e then ErrIdentityConflict else Wrapped msg e)"

section \<open>Constraints of the tables\<close>

definition user_exists :: "db \<Rightarrow> string \<Rightarrow> bool" where
  "user_exists d uid \<longleftrightarrow> (\<exists>u \<in> set (users d). user_ID u = uid)"

definition namespace_exists :: "db \<Rightarrow> string \<Rightarrow> bool" where
  "namespace_exists d nid \<longleftrightarrow> (\<exists>n \<in> set (namespaces d). ns_ID n = nid)"

definition group_exists :: "db \<Rightarrow> string \<Rightarrow> bool" where
  "group_exists d gid \<longleftrightarrow> (\<exists>g \<in> set (system_groups d). group_ID g = gid)"

definition user_unique :: "db \<Rightarrow> user_row \<Rightarrow> bool" where
  "user_unique d u \<longleftrightarrow>
     (\<forall>v \<in> set (users d). user_ID v \<noteq> user_ID u \<and> user_Username v \<noteq> user_Username u \<and>
        (user_Email u \<noteq> None \<longrightarrow> user_Email v \<noteq> user_Email u))"

definition namespace_unique :: "db \<Rightarrow> namespace_row \<Rightarrow> bool" where
  "namespace_unique d n \<longleftrightarrow>
     (\<forall>m \<in> set (namespaces d). ns_ID m \<noteq> ns_ID n \<and> ns_Slug m \<noteq> ns_Slug n \<and>
        (ns_OwnerUserID n \<noteq> None \<longrightarrow> ns_OwnerUserID m \<noteq> ns_OwnerUserID n))"

definition namespace_refs :: "db \<Rightarrow> namespace_row \<Rightarrow> bool" where
  "namespace_refs d n \<longleftrightarrow> (case ns_OwnerUserID n of None \<Rightarrow> True | Some owner \<Rightarrow> user_exists d owner)"

definition valid_user_status :: "user_status \<Rightarrow> bool" where
  "valid_user_status s \<longleftrightarrow> s = UserStatusActive \<or> s = UserStatusDisabled"

section \<open>Creation of records\<close>

definition create_user :: "user_row \<Rightarrow> unit prog" where
  "create_user u =
     bindE (gets w_lower) (\<lambda>lw.
     bindE (hook (User_BeforeCreate lw u)) (\<lambda>_.
     bindE now (\<lambda>t.
     insert_row (\<lambda>_. True) (\<lambda>d. user_unique d u)
       (\<lambda>d. d\<lparr>users := users d @
          [u\<lparr>user_CreatedAt := stamp t (user_CreatedAt u), user_UpdatedAt := stamp t (user_UpdatedAt u)\<rparr>]\<rparr>))))"

definition create_namespace :: "namespace_row \<Rightarrow> unit prog" where
  "create_namespace n =
     bindE (gets w_lower) (\<lambda>lw.
     bindE (hook (Namespace_BeforeCreate lw n)) (\<lambda>_.
     bindE now (\<lambda>t.
     insert_row (\<lambda>d. namespace_refs d n) (\<lambda>d. namespace_unique d n)
       (\<lambda>d. d\<lparr>namespaces := namespaces d @
          [n\<lparr>ns_CreatedAt := stamp t (ns_CreatedAt n), ns_UpdatedAt := stamp t (ns_UpdatedAt n)\<rparr>]\<rparr>))))"

text \<open>\<open>clause.OnConflict{DoNothing: true}\<close>: a row that a unique index rejects is skipped.\<close>

definition create_group_membership :: "bool \<Rightarrow> group_membership_row \<Rightarrow> unit prog" where
  "create_group_membership do_nothing m =
     bindE (hook (GroupMembership_BeforeCreate m)) (\<lambda>_.
     bindE now (\<lambda>t.
     (let present = (\<lambda>d. \<exists>m' \<in> set (group_memberships d).
                         gm_UserID m' = gm_UserID m \<and> gm_GroupID m' = gm_GroupID m);
          refs = (\<lambda>d. user_exists d (gm_UserID m) \<and> group_exists d (gm_GroupID m));
          add = (\<lambda>d. d\<lparr>group_memberships := group_memberships d @
                       [m\<lparr>gm_CreatedAt := stamp t (gm_CreatedAt m)\<rparr>]\<rparr>)
      in if do_nothing
         then exec_checked (\<lambda>d. present d \<or> refs d) (\<lambda>d. if present d then d else add d)
         else insert_row refs (\<lambda>d. \<not> present d) add)))"

definition create_system_group :: "system_group_row \<Rightarrow> unit prog" where
  "create_system_group g =
     bindE (hook (SystemGroup_BeforeCreate g)) (\<lambda>_.
     bindE now (\<lambda>t.
     exec (\<lambda>d. if \<exists>h \<in> set (system_groups d). group_ID h = group_ID g \<or> group_Name h = group_Name g
               then d
               else d\<lparr>system_groups := system_groups d @
                  [g\<lparr>group_CreatedAt := stamp t (group_CreatedAt g), group_UpdatedAt := stamp t (group_UpdatedAt g)\<rparr>]\<rparr>)))"

definition create_token :: "token_row \<Rightarrow> unit prog" where
  "create_token tk =
     bindE (gets w_uuid) (\<lambda>uuid.
     bindE (hook (PersonalAccessToken_BeforeCreate uuid tk)) (\<lambda>_.
     bindE now (\<lambda>t.
     insert_row (\<lambda>d. user_exists d (tok_UserID tk))
       (\<lambda>d. \<forall>k \<in> set (tokens d). tok_ID k \<noteq> tok_ID tk \<and> tok_SecretHMAC k \<noteq> tok_SecretHMAC tk)
       (\<lambda>d. d\<lparr>tokens := tokens d @
          [tk\<lparr>tok_CreatedAt := stamp t (tok_CreatedAt tk), tok_UpdatedAt := stamp t (tok_UpdatedAt tk)\<rparr>]\<rparr>))))"

section \<open>Users\<close>

definition CountUsers :: "nat prog" where
  "CountUsers = map_error (Wrapped ''count users'') (query (\<lambda>d. length (users d)))"

definition FindUserByUsername :: "string \<Rightarrow> user_row prog" where
  "FindUserByUsername username =
     bindE (gets w_lower) (\<lambda>lw.
     map_error (not_found_or ''find user by username'')
       (take_row (\<lambda>d. List.find (\<lambda>u. user_Username u = NormalizeUsername lw username) (users d))))"

definition FindUserByID :: "string \<Rightarrow> user_row prog" where
  "FindUserByID uid =
     map_error (not_found_or ''find user by ID'')
       (take_row (\<lambda>d. List.find (\<lambda>u. user_ID u = uid) (users d)))"

definition CreateUserWithPersonalNamespace :: "user_row \<Rightarrow> namespace_row \<Rightarrow> unit prog" where
  "CreateUserWithPersonalNamespace user namespace =
     transaction
       (bindE (map_error (conflict_or ''create user'') (create_user user)) (\<lambda>_.
        map_error (conflict_or ''create personal namespace'') (create_namespace namespace)))"

text \<open>An empty \<open>status\<close> selects every user.\<close>

definition ListUsers :: "int \<Rightarrow> int \<Rightarrow> user_status \<Rightarrow> (user_row list \<times> nat) prog" where
  "ListUsers page sz status =
     (if page_overflows page sz then fail ErrInvalidPagination
      else (let base = (\<lambda>d. filter (\<lambda>u. status = UserStatusOther [] \<or> user_Status u = status) (users d)) in
        bindE (map_error (Wrapped ''count users'') (query (\<lambda>d. length (base d)))) (\<lambda>total.
        bindE (map_error (Wrapped ''list users'')
                 (query (\<lambda>d. limit_offset sz (wrap64 ((page - 1) * sz))
                               (order_desc (\<lambda>u. (user_CreatedAt u, user_ID u)) (base d))))) (\<lambda>rows.
        return (rows, total)))))"

definition UpdateUserDisplayName :: "string \<Rightarrow> string \<Rightarrow> int \<Rightarrow> user_row prog" where
  "UpdateUserDisplayName uid displayName updatedAt =
     bindE (map_error (Wrapped ''update user display name'')
              (exec_count (\<lambda>d. count_where (\<lambda>u. user_ID u = uid) (users d))
                 (\<lambda>d. d\<lparr>users := update_where (\<lambda>u. user_ID u = uid)
                          (\<lambda>u. u\<lparr>user_DisplayName := displayName, user_UpdatedAt := updatedAt\<rparr>) (users d)\<rparr>)))
       (\<lambda>affected. if affected = 0 then fail ErrIdentityNotFound else FindUserByID uid)"

section \<open>System administrators\<close>

definition lockSystemAdministrators :: "string \<Rightarrow> unit prog" where
  "lockSystemAdministrators targetUserID = exec id"

definition is_admin_row :: "group_membership_row \<Rightarrow> bool" where
  "is_admin_row m \<longleftrightarrow> gm_GroupID m = AdminSystemGroupID"

text \<open>The join of the memberships of the admin group with the active users, as a count.\<close>

definition active_admin_count :: "db \<Rightarrow> nat" where
  "active_admin_count d =
     count_where (\<lambda>(m, u). is_admin_row m \<and> user_ID u = gm_UserID m \<and> user_Status u = UserStatusActive)
       (List.product (group_memberships d) (users d))"

definition admin_membership_count :: "db \<Rightarrow> string \<Rightarrow> nat" where
  "admin_membership_count d uid =
     count_where (\<lambda>m. gm_UserID m = uid \<and> is_admin_row m) (group_memberships d)"

definition SetUserStatus :: "string \<Rightarrow> string \<Rightarrow> user_status \<Rightarrow> int \<Rightarrow> unit prog" where
  "SetUserStatus actorID uid status updatedAt =
     transaction
       (bindE (map_error (Wrapped ''lock administrator state'') (lockSystemAdministrators uid)) (\<lambda>_.
        bindE (map_error (not_found_or ''find user for status update'')
                 (take_row (\<lambda>d. List.find (\<lambda>u. user_ID u = uid) (users d)))) (\<lambda>user.
        if user_Status user = status then return ()
        else
          bindE (if status = UserStatusDisabled
                 then bindE (map_error (Wrapped ''count active administrators'') (query active_admin_count)) (\<lambda>activeAdmins.
                      bindE (map_error (Wrapped ''read administrator membership'')
                               (query (\<lambda>d. admin_membership_count d uid))) (\<lambda>targetAdmin.
                      guardE (\<not> (targetAdmin > 0 \<and> activeAdmins \<le> 1)) ErrIdentityConflict))
                 else return ()) (\<lambda>_.
          map_error (Wrapped ''set user status'')
            (exec_checked (\<lambda>d. valid_user_status status)
               (\<lambda>d. d\<lparr>users := update_where (\<lambda>u. user_ID u = uid \<and> user_Status u = user_Status user)
                        (\<lambda>u. u\<lparr>user_Status := status, user_UpdatedAt := updatedAt\<rparr>) (users d)\<rparr>))))))"

definition SetSystemAdmin :: "string \<Rightarrow> string \<Rightarrow> bool \<Rightarrow> unit prog" where
  "SetSystemAdmin actorID uid enabled =
     transaction
       (bindE (map_error (Wrapped ''lock administrator state'') (lockSystemAdministrators uid)) (\<lambda>_.
        bindE (map_error (not_found_or ''find user for admin update'')
                 (take_row (\<lambda>d. List.find (\<lambda>u. user_ID u = uid) (users d)))) (\<lambda>user.
        if enabled
        then map_error (Wrapped ''grant administrator membership'')
               (create_group_membership True
                  \<lparr>gm_UserID = uid, gm_GroupID = AdminSystemGroupID, gm_CreatedAt = zero_time\<rparr>)
        else
          bindE (map_error (Wrapped ''count active administrators'') (query active_admin_count)) (\<lambda>activeAdmins.
          bindE (guardE (\<not> (user_Status user = UserStatusActive \<and> activeAdmins \<le> 1)) ErrIdentityConflict) (\<lambda>_.
          map_error (Wrapped ''revoke administrator membership'')
            (exec (\<lambda>d. d\<lparr>group_memberships :=
               delete_where (\<lambda>m. gm_UserID m = uid \<and> gm_GroupID m = AdminSystemGroupID) (group_memberships d)\<rparr>)))))))"

definition IsSystemAdmin :: "string \<Rightarrow> bool prog" where
  "IsSystemAdmin uid =
     bindE (map_error (Wrapped ''read admin membership'') (query (\<lambda>d. admin_membership_count d uid)))
       (\<lambda>count. return (count > 0))"

definition IsDefaultMember :: "string \<Rightarrow> bool prog" where
  "IsDefaultMember uid = bindE (FindUserByID uid) (\<lambda>user. return (user_Status user = UserStatusActive))"

text \<open>
  The triggers of \<open>system_groups\<close> reject an update or deletion of any row; a statement that
  matches no row succeeds.
\<close>

definition UpdateSystemGroup :: "string \<Rightarrow> unit prog" where
  "UpdateSystemGroup gid =
     (if IsFixedSystemGroup gid then fail ErrImmutableSystemGroup
      else map_error (Wrapped ''update system group'') (exec_checked (\<lambda>d. \<not> group_exists d gid) id))"

definition DeleteSystemGroup :: "string \<Rightarrow> unit prog" where
  "DeleteSystemGroup gid =
     (if IsFixedSystemGroup gid then fail ErrImmutableSystemGroup
      else map_error (Wrapped ''delete system group'') (exec_checked (\<lambda>d. \<not> group_exists d gid) id))"

section \<open>Personal access tokens\<close>

record token_metadata =
  tmd_ID :: string
  tmd_UserID :: string
  tmd_Name :: string
  tmd_Preset :: token_preset
  tmd_ExpiresAt :: "int option"
  tmd_LastUsedAt :: "int option"
  tmd_RevokedAt :: "int option"
  tmd_CreatedAt :: int

record token_reveal = token_metadata +
  trv_SecretPlaintext :: string

record token_credential =
  tcr_ID :: string
  tcr_UserID :: string
  tcr_Username :: string
  tcr_UserStatus :: user_status
  tcr_Preset :: token_preset
  tcr_ExpiresAt :: "int option"
  tcr_RevokedAt :: "int option"

definition tokenMetadataColumns :: "token_row \<Rightarrow> token_metadata" where
  "tokenMetadataColumns k =
     \<lparr>tmd_ID = tok_ID k, tmd_UserID = tok_UserID k, tmd_Name = tok_Name k, tmd_Preset = tok_Preset k,
      tmd_ExpiresAt = tok_ExpiresAt k, tmd_LastUsedAt = tok_LastUsedAt k,
      tmd_RevokedAt = tok_RevokedAt k, tmd_CreatedAt = tok_CreatedAt k\<rparr>"

definition FindTokenCredentialBySecretHMAC :: "string \<Rightarrow> token_credential prog" where
  "FindTokenCredentialBySecretHMAC secretHMAC =
     map_error (not_found_or ''find personal access token credential'')
       (take_row (\<lambda>d. first_row
          [\<lparr>tcr_ID = tok_ID k, tcr_UserID = tok_UserID k, tcr_Username = user_Username u,
            tcr_UserStatus = user_Status u, tcr_Preset = tok_Preset k, tcr_ExpiresAt = tok_ExpiresAt k,
            tcr_RevokedAt = tok_RevokedAt k\<rparr>.
           k \<leftarrow> tokens d, u \<leftarrow> users d, user_ID u = tok_UserID k \<and> tok_SecretHMAC k = secretHMAC]))"

definition CreateToken :: "token_row \<Rightarrow> unit prog" where
  "CreateToken token = map_error (Wrapped ''create personal access token'') (create_token token)"

definition ListTokenMetadata :: "string \<Rightarrow> int \<Rightarrow> int \<Rightarrow> (token_metadata list \<times> nat) prog" where
  "ListTokenMetadata userID page sz =
     (if page_overflows page sz then fail ErrInvalidPagination
      else (let base = (\<lambda>d. filter (\<lambda>k. tok_UserID k = userID) (tokens d)) in
        bindE (map_error (Wrapped ''count personal access tokens'') (query (\<lambda>d. length (base d)))) (\<lambda>total.
        bindE (map_error (Wrapped ''list personal access tokens'')
                 (query (\<lambda>d. map tokenMetadataColumns (limit_offset sz (wrap64 ((page - 1) * sz))
                               (order_desc (\<lambda>k. (tok_CreatedAt k, tok_ID k)) (base d)))))) (\<lambda>rows.
        return (rows, total)))))"

definition FindTokenMetadataByIDAndUserID :: "string \<Rightarrow> string \<Rightarrow> token_metadata prog" where
  "FindTokenMetadataByIDAndUserID tid userID =
     map_error (not_found_or ''find owned personal access token'')
       (take_row (\<lambda>d. map_option tokenMetadataColumns
          (List.find (\<lambda>k. tok_ID k = tid \<and> tok_UserID k = userID) (tokens d))))"

definition FindTokenRevealByIDAndUserID :: "string \<Rightarrow> string \<Rightarrow> token_reveal prog" where
  "FindTokenRevealByIDAndUserID tid userID =
     map_error (not_found_or ''reveal owned personal access token'')
       (take_row (\<lambda>d. map_option
          (\<lambda>k. token_metadata.extend (tokenMetadataColumns k) (token_reveal.fields (tok_SecretPlaintext k)))
          (List.find (\<lambda>k. tok_ID k = tid \<and> tok_UserID k = userID) (tokens d))))"

definition RevokeToken :: "string \<Rightarrow> string \<Rightarrow> int \<Rightarrow> unit prog" where
  "RevokeToken tid userID revokedAt =
     map_error (Wrapped ''revoke personal access token'')
       (exec (\<lambda>d. d\<lparr>tokens := update_where
          (\<lambda>k. tok_ID k = tid \<and> tok_UserID k = userID \<and> tok_RevokedAt k = None)
          (\<lambda>k. k\<lparr>tok_RevokedAt := Some revokedAt, tok_UpdatedAt := revokedAt\<rparr>) (tokens d)\<rparr>))"

text \<open>A token that may still be used at time \<open>t\<close>: neither revoked nor expired.\<close>

definition token_usable :: "token_row \<Rightarrow> int \<Rightarrow> bool" where
  "token_usable k t \<longleftrightarrow>
     tok_RevokedAt k = None \<and> (case tok_ExpiresAt k of None \<Rightarrow> True | Some e \<Rightarrow> e > t)"

text \<open>GORM also sets \<open>updated_at\<close> to the current time in an update of a model that has the column.\<close>

definition touchTokenUpdate :: "string \<Rightarrow> int \<Rightarrow> nat prog" where
  "touchTokenUpdate tid usedAt =
     (let matches = (\<lambda>k. tok_ID k = tid \<and> token_usable k usedAt \<and>
                       (case tok_LastUsedAt k of None \<Rightarrow> True | Some l \<Rightarrow> l < usedAt)) in
      bindE now (\<lambda>t.
      exec_count (\<lambda>d. count_where matches (tokens d))
        (\<lambda>d. d\<lparr>tokens := update_where matches
                  (\<lambda>k. k\<lparr>tok_LastUsedAt := Some usedAt, tok_UpdatedAt := t\<rparr>) (tokens d)\<rparr>)))"

definition validateTouchedToken :: "string \<Rightarrow> int \<Rightarrow> bool prog" where
  "validateTouchedToken tid usedAt =
     attempt (take_row (\<lambda>d. List.find
        (\<lambda>k. tok_ID k = tid \<and> token_usable k usedAt \<and>
             (case tok_LastUsedAt k of None \<Rightarrow> False | Some l \<Rightarrow> l \<ge> usedAt)) (tokens d)))
       (\<lambda>r. case r of
          Inl e \<Rightarrow> if errors_Is e ErrRecordNotFound then return False else fail e
        | Inr _ \<Rightarrow> return True)"

definition TouchToken :: "string \<Rightarrow> int \<Rightarrow> unit prog" where
  "TouchToken tid usedAt =
     transaction
       (bindE (map_error (Wrapped ''update personal access token use'') (touchTokenUpdate tid usedAt)) (\<lambda>affected.
        if affected = 1 then return ()
        else bindE (map_error (Wrapped ''validate personal access token use'')
                      (validateTouchedToken tid usedAt)) (\<lambda>active.
             guardE active ErrIdentityNotFound)))"

section \<open>Bootstrap\<close>

definition BootstrapAdminUsername :: string where
  "BootstrapAdminUsername = ''admin''"

definition fixed_groups :: "system_group_row list" where
  "fixed_groups =
     [\<lparr>group_ID = AdminSystemGroupID, group_Name = ''admin'', group_Description = ''Global system administrators'',
       group_CreatedAt = zero_time, group_UpdatedAt = zero_time\<rparr>,
      \<lparr>group_ID = DefaultSystemGroupID, group_Name = ''default'', group_Description = ''All active users'',
       group_CreatedAt = zero_time, group_UpdatedAt = zero_time\<rparr>]"

fun create_groups :: "system_group_row list \<Rightarrow> unit prog" where
  "create_groups [] = return ()"
| "create_groups (g # gs) =
     bindE (map_error (Wrapped (''ensure system group '' @ group_Name g)) (create_system_group g)) (\<lambda>_.
     create_groups gs)"

fun verify_groups :: "system_group_row list \<Rightarrow> (string \<rightharpoonup> system_group_row) \<Rightarrow> unit prog" where
  "verify_groups [] byID = return ()"
| "verify_groups (g # gs) byID =
     (case byID (group_ID g) of
        None \<Rightarrow> fail (ErrNew (''identity: fixed system group '' @ group_Name g @ '' does not match''))
      | Some actual \<Rightarrow>
          if group_Name actual \<noteq> group_Name g \<or> group_Description actual \<noteq> group_Description g
          then fail (ErrNew (''identity: fixed system group '' @ group_Name g @ '' does not match''))
          else verify_groups gs byID)"

definition ensureSystemGroups :: "unit prog" where
  "ensureSystemGroups =
     bindE (create_groups fixed_groups) (\<lambda>_.
     bindE (map_error (Wrapped ''verify system groups'')
              (query (\<lambda>d. filter (\<lambda>g. group_ID g = AdminSystemGroupID \<or> group_ID g = DefaultSystemGroupID)
                            (system_groups d)))) (\<lambda>persisted.
     verify_groups fixed_groups (map_of (rev (map (\<lambda>g. (group_ID g, g)) persisted)))))"

definition lockBootstrapTransaction :: "unit prog" where
  "lockBootstrapTransaction = exec id"

text \<open>
  \<open>hash\<close> is the password hasher with its parameters applied; \<open>auth.HashPassword\<close> draws a random
  salt, so the caller supplies the hasher. \<open>bootstrap_admin\<close> is the part of the transaction that
  runs when there is no user and the password is accepted.
\<close>

definition bootstrap_admin :: "(string \<Rightarrow> err + string) \<Rightarrow> string \<Rightarrow> unit prog" where
  "bootstrap_admin hash password =
     bindE (map_error (Wrapped ''hash bootstrap administrator password'') (of_sum (hash password))) (\<lambda>passwordHash.
     bindE new_id (\<lambda>userID.
     bindE (map_error (Wrapped ''create bootstrap administrator'')
       (create_user
         \<lparr>user_ID = userID, user_Username = BootstrapAdminUsername, user_Email = None,
          user_DisplayName = ''Administrator'', user_Status = UserStatusActive,
          user_PasswordHash = passwordHash, user_CreatedAt = zero_time, user_UpdatedAt = zero_time\<rparr>)) (\<lambda>_.
     bindE new_id (\<lambda>namespaceID.
     bindE (map_error (Wrapped ''create bootstrap administrator namespace'')
       (create_namespace
         \<lparr>ns_ID = namespaceID, ns_Kind = NamespaceKindUser, ns_Slug = BootstrapAdminUsername,
          ns_DisplayName = ''Administrator'', ns_OwnerUserID = Some userID,
          ns_CreatedAt = zero_time, ns_UpdatedAt = zero_time\<rparr>)) (\<lambda>_.
     map_error (Wrapped ''create bootstrap administrator membership'')
       (create_group_membership False
         \<lparr>gm_UserID = userID, gm_GroupID = AdminSystemGroupID, gm_CreatedAt = zero_time\<rparr>))))))"

definition Bootstrap :: "environment \<Rightarrow> (string \<Rightarrow> err + string) \<Rightarrow> unit prog" where
  "Bootstrap env hash =
     bindE (map_error (Wrapped (''configure '' @ APIKeyPepperEnvironment)) (of_sum (APIKeyPepper (Some env)))) (\<lambda>_.
     transaction
       (bindE (map_error (Wrapped ''serialize identity bootstrap'') lockBootstrapTransaction) (\<lambda>_.
        bindE ensureSystemGroups (\<lambda>_.
        bindE (map_error (Wrapped ''count bootstrap users'') (query (\<lambda>d. length (users d)))) (\<lambda>count.
        if count > 0 then return ()
        else
          (case env BootstrapAdminPasswordEnvironment of
             None \<Rightarrow> fail ErrBootstrapAdminPasswordRequired
           | Some password \<Rightarrow>
               if password = [] then fail ErrBootstrapAdminPasswordRequired
               else if HasAPIKeyPrefix password then fail ErrBootstrapAdminPasswordReserved
               else bootstrap_admin hash password))))))"

section \<open>Reading operations leave the database unchanged\<close>

lemma reads_CountUsers [read_only]: "reads CountUsers"
  unfolding CountUsers_def by (intro read_only)

lemma reads_FindUserByUsername [read_only]: "reads (FindUserByUsername username)"
  unfolding FindUserByUsername_def by (intro read_only)

lemma reads_FindUserByID [read_only]: "reads (FindUserByID uid)"
  unfolding FindUserByID_def by (intro read_only)

lemma reads_ListUsers [read_only]: "reads (ListUsers page sz status)"
  unfolding ListUsers_def by (intro read_only)

lemma reads_IsSystemAdmin [read_only]: "reads (IsSystemAdmin uid)"
  unfolding IsSystemAdmin_def by (intro read_only)

lemma reads_IsDefaultMember [read_only]: "reads (IsDefaultMember uid)"
  unfolding IsDefaultMember_def by (intro read_only)

lemma reads_FindTokenCredentialBySecretHMAC [read_only]: "reads (FindTokenCredentialBySecretHMAC h)"
  unfolding FindTokenCredentialBySecretHMAC_def by (intro read_only)

lemma reads_ListTokenMetadata [read_only]: "reads (ListTokenMetadata uid page sz)"
  unfolding ListTokenMetadata_def by (intro read_only)

lemma reads_FindTokenMetadata [read_only]: "reads (FindTokenMetadataByIDAndUserID tid uid)"
  unfolding FindTokenMetadataByIDAndUserID_def by (intro read_only)

lemma reads_FindTokenReveal [read_only]: "reads (FindTokenRevealByIDAndUserID tid uid)"
  unfolding FindTokenRevealByIDAndUserID_def by (intro read_only)

lemma reads_validateTouchedToken [read_only]: "reads (validateTouchedToken tid t)"
  unfolding validateTouchedToken_def by (intro read_only)

lemma reads_verify_groups [read_only]: "reads (verify_groups gs byID)"
  by (induction gs) (auto intro: read_only split: option.splits)

end
