(* ===== verification/Policy.thy ===== *)
theory Policy imports IdentityDao begin

text \<open>
  \<open>mod/backend/domain/authorization\<close>: the authorization policy (\<open>policy.go\<close>) and the reader that
  resolves the facts it decides on (\<open>identity_state_reader.go\<close>).

  The policy depends on its reader only through one operation. The locale \<open>state_reader\<close> states the
  contract of that operation (it does not write, and it needs no identity for an anonymous
  principal) and proves what the policy promises for every such reader; it is interpreted on
  \<open>ReadAuthorizationState\<close>.
\<close>

section \<open>Facts of a decision\<close>

record identity_state =
  st_Active :: bool
  st_SystemAdmin :: bool
  st_OwnsPersonalNamespace :: bool
  st_OwnsResource :: bool
  st_TeamRole :: team_role
  st_InvitationTarget :: bool
  st_Plugin :: plugin_facts

definition no_identity_state :: identity_state where
  "no_identity_state =
     \<lparr>st_Active = False, st_SystemAdmin = False, st_OwnsPersonalNamespace = False,
      st_OwnsResource = False, st_TeamRole = no_role, st_InvitationTarget = False,
      st_Plugin = no_plugin_facts\<rparr>"

section \<open>The action matrix\<close>

definition isKnownAction :: "action \<Rightarrow> bool" where
  "isKnownAction a \<longleftrightarrow> (case a of ActionOther _ \<Rightarrow> False | _ \<Rightarrow> True)"

definition supportsResource :: "action \<Rightarrow> resource_ref \<Rightarrow> bool" where
  "supportsResource a r \<longleftrightarrow>
     (if a \<in> {ActionPluginCreate, ActionPluginList}
      then ref_type r = ResourceNamespace \<and> ref_id r \<noteq> [] \<and> ref_namespace_id r = []
      else if a \<in> {ActionPluginRead, ActionPluginWrite, ActionPluginArchive, ActionPluginPublish}
      then ref_type r = ResourcePlugin \<and> ref_id r \<noteq> [] \<and> ref_namespace_id r \<noteq> []
      else if a = ActionMarketplaceRead
      then ref_type r = ResourceMarketplace \<or> ref_type r = ResourceUser
      else if a \<in> {ActionTokenRead, ActionTokenWrite}
      then ref_type r = ResourceToken \<or> ref_type r = ResourceTokenCollection
      else if a \<in> {ActionUserList, ActionUserCreate}
      then ref_type r = ResourceUserCollection \<and> ref_id r \<noteq> []
      else if a \<in> {ActionUserRead, ActionUserUpdate, ActionUserDisable, ActionUserEnable,
                   ActionUserAdminGrant, ActionUserAdminRevoke}
      then ref_type r = ResourceUser \<and> ref_id r \<noteq> []
      else if a \<in> {ActionTeamCreate, ActionTeamList, ActionTeamRead, ActionTeamSettingsWrite,
                   ActionTeamMembersRead, ActionTeamInvitationsRead, ActionTeamInvitationsManage}
      then ref_type r = ResourceNamespace \<and> ref_id r \<noteq> [] \<and> ref_namespace_id r = []
      else if a = ActionTeamMembersManage
      then ref_type r = ResourceTeamMembership \<and> ref_id r \<noteq> [] \<and> ref_namespace_id r \<noteq> []
      else if a = ActionTeamInvitationRespond
      then ref_type r = ResourceTeamInvitation \<and> ref_id r \<noteq> [] \<and> ref_namespace_id r \<noteq> []
      else False)"

definition isTeamAction :: "action \<Rightarrow> bool" where
  "isTeamAction a \<longleftrightarrow>
     a \<in> {ActionTeamRead, ActionTeamSettingsWrite, ActionTeamMembersRead, ActionTeamMembersManage,
          ActionTeamInvitationsRead, ActionTeamInvitationsManage, ActionTeamInvitationRespond}"

definition validTeamRole :: "team_role \<Rightarrow> bool" where
  "validTeamRole r \<longleftrightarrow>
     r = TeamRoleOwner \<or> r = TeamRoleAdmin \<or> r = TeamRoleMaintainer \<or> r = TeamRoleDeveloper \<or>
     r = TeamRoleViewer"

definition allowsTeamAction :: "action \<Rightarrow> team_role \<Rightarrow> bool" where
  "allowsTeamAction a role \<longleftrightarrow>
     (if a \<in> {ActionTeamRead, ActionTeamMembersRead, ActionTeamInvitationsRead} then validTeamRole role
      else if a \<in> {ActionTeamSettingsWrite, ActionTeamMembersManage, ActionTeamInvitationsManage}
      then role = TeamRoleOwner \<or> role = TeamRoleAdmin
      else False)"

definition allowsTeamPluginAction :: "action \<Rightarrow> team_role \<Rightarrow> bool" where
  "allowsTeamPluginAction a role \<longleftrightarrow>
     (if a \<in> {ActionPluginList, ActionPluginRead} then validTeamRole role
      else if a \<in> {ActionPluginCreate, ActionPluginWrite}
      then role = TeamRoleOwner \<or> role = TeamRoleAdmin \<or> role = TeamRoleMaintainer \<or> role = TeamRoleDeveloper
      else if a \<in> {ActionPluginArchive, ActionPluginPublish}
      then role = TeamRoleOwner \<or> role = TeamRoleAdmin \<or> role = TeamRoleMaintainer
      else False)"

definition isPluginNamespaceAction :: "action \<Rightarrow> bool" where
  "isPluginNamespaceAction a \<longleftrightarrow> a = ActionPluginCreate \<or> a = ActionPluginList"

definition isPluginAction :: "action \<Rightarrow> bool" where
  "isPluginAction a \<longleftrightarrow>
     a \<in> {ActionPluginRead, ActionPluginWrite, ActionPluginArchive, ActionPluginPublish}"

definition isSelfAction :: "action \<Rightarrow> bool" where
  "isSelfAction a \<longleftrightarrow> a = ActionTokenRead \<or> a = ActionTokenWrite"

definition validPluginFacts :: "plugin_facts \<Rightarrow> bool" where
  "validPluginFacts f \<longleftrightarrow>
     (if fact_visibility f \<noteq> VisibilityPublic \<and> fact_visibility f \<noteq> VisibilityPrivate then False
      else if fact_status f \<noteq> PluginStatusDraft \<and> fact_status f \<noteq> PluginStatusActive \<and>
              fact_status f \<noteq> PluginStatusArchived then False
      else fact_repository_status f = RepositoryReady \<or>
           fact_repository_status f = RepositoryReadOnly \<or> fact_repository_status f = RepositoryError)"

definition allowsPublicPluginRead :: "plugin_facts \<Rightarrow> bool" where
  "allowsPublicPluginRead f \<longleftrightarrow>
     validPluginFacts f \<and> fact_visibility f = VisibilityPublic \<and>
     (fact_status f = PluginStatusActive \<or> fact_status f = PluginStatusArchived) \<and>
     fact_repository_status f \<noteq> RepositoryError"

definition allowsAnonymousPluginRead :: "plugin_facts \<Rightarrow> bool" where
  "allowsAnonymousPluginRead f = allowsPublicPluginRead f"

definition allowsPluginAction :: "action \<Rightarrow> plugin_facts \<Rightarrow> bool" where
  "allowsPluginAction a f \<longleftrightarrow>
     (if \<not> validPluginFacts f then False
      else if a = ActionPluginRead \<and> fact_repository_status f = RepositoryError then False
      else if (a = ActionPluginWrite \<or> a = ActionPluginPublish) \<and> fact_repository_status f \<noteq> RepositoryReady
      then False
      else if fact_status f = PluginStatusArchived \<and> (a = ActionPluginWrite \<or> a = ActionPluginPublish)
      then False
      else True)"

section \<open>The decision\<close>

text \<open>The part of \<open>Authorize\<close> after the facts of an active user are read.\<close>

definition allows_state :: "action \<Rightarrow> identity_state \<Rightarrow> bool" where
  "allows_state a st \<longleftrightarrow>
     (if a = ActionTeamCreate \<or> a = ActionTeamList then True
      else if isTeamAction a
      then st_SystemAdmin st \<or> a = ActionTeamInvitationRespond \<and> st_InvitationTarget st \<or>
           allowsTeamAction a (st_TeamRole st)
      else if isPluginNamespaceAction a
      then st_SystemAdmin st \<or> st_OwnsPersonalNamespace st \<or> allowsTeamPluginAction a (st_TeamRole st)
      else if isPluginAction a
      then (if \<not> allowsPluginAction a (st_Plugin st) then False
            else if a = ActionPluginRead \<and> allowsPublicPluginRead (st_Plugin st) then True
            else st_SystemAdmin st \<or> st_OwnsPersonalNamespace st \<or> allowsTeamPluginAction a (st_TeamRole st))
      else if st_SystemAdmin st then True
      else if st_OwnsResource st \<and> isSelfAction a then True
      else if st_OwnsPersonalNamespace st \<and> a = ActionMarketplaceRead then True
      else False)"

type_synonym reader = "principal \<Rightarrow> resource_ref \<Rightarrow> identity_state prog"

text \<open>\<open>None\<close> is the nil reader.\<close>

definition Authorize :: "reader option \<Rightarrow> principal \<Rightarrow> action \<Rightarrow> resource_ref \<Rightarrow> unit prog" where
  "Authorize identities p a r =
     (case identities of
        None \<Rightarrow> fail ErrDenied
      | Some read_state \<Rightarrow>
          if \<not> isKnownAction a \<or> \<not> supportsResource a r then fail ErrDenied
          else if IsAnonymous p
          then (if a \<noteq> ActionPluginRead then fail ErrDenied
                else attempt (read_state p r) (\<lambda>res.
                  case res of
                    Inl _ \<Rightarrow> fail ErrDenied
                  | Inr st \<Rightarrow> if allowsAnonymousPluginRead (st_Plugin st) then return () else fail ErrDenied))
          else if \<not> IsUser p \<or> p_user_id p = [] \<or> \<not> principal_Allows p a then fail ErrDenied
          else attempt (read_state p r) (\<lambda>res.
                 case res of
                   Inl _ \<Rightarrow> fail ErrDenied
                 | Inr st \<Rightarrow>
                     if \<not> st_Active st then fail ErrDenied
                     else if allows_state a st then return () else fail ErrDenied))"

section \<open>Reading the facts\<close>

record resource_state =
  rs_ownerNamespaceID :: string
  rs_ownerUserID :: string
  rs_teamNamespaceID :: string
  rs_invitedUserID :: string
  rs_plugin :: plugin_facts

definition no_resource_state :: resource_state where
  "no_resource_state =
     \<lparr>rs_ownerNamespaceID = [], rs_ownerUserID = [], rs_teamNamespaceID = [], rs_invitedUserID = [],
      rs_plugin = no_plugin_facts\<rparr>"

definition mapResourceError :: "err \<Rightarrow> err" where
  "mapResourceError e =
     (if errors_Is e ErrRecordNotFound then ErrIdentityUnknown
      else Wrapped ''resolve authorization resource'' e)"

definition personalNamespaceID :: "string \<Rightarrow> string prog" where
  "personalNamespaceID userID =
     map_error mapResourceError
       (take_row (\<lambda>d. map_option ns_ID (List.find
          (\<lambda>n. ns_Kind n = NamespaceKindUser \<and> ns_OwnerUserID n = Some userID) (namespaces d))))"

definition pluginState :: "resource_ref \<Rightarrow> resource_state prog" where
  "pluginState r =
     (if ref_id r = [] \<or> ref_namespace_id r = [] then fail ErrIdentityUnknown
      else map_error mapResourceError
        (take_row (\<lambda>d. first_row
           [no_resource_state
              \<lparr>rs_ownerNamespaceID := plg_NamespaceID p, rs_teamNamespaceID := plg_NamespaceID p,
               rs_plugin := \<lparr>fact_visibility = plg_Visibility p, fact_status = plg_Status p,
                             fact_repository_status = repo_Status rep\<rparr>\<rparr>.
            p \<leftarrow> plugins d, rep \<leftarrow> repositories d,
            repo_ID rep = plg_ID p \<and> plg_ID p = ref_id r \<and> plg_NamespaceID p = ref_namespace_id r])))"

definition resourceState :: "resource_ref \<Rightarrow> resource_state prog" where
  "resourceState r =
     (case ref_type r of
        ResourceUser \<Rightarrow> return (no_resource_state\<lparr>rs_ownerUserID := ref_id r\<rparr>)
      | ResourceUserCollection \<Rightarrow> return no_resource_state
      | ResourceNamespace \<Rightarrow>
          return (no_resource_state\<lparr>rs_ownerNamespaceID := ref_id r, rs_teamNamespaceID := ref_id r\<rparr>)
      | ResourceTeamMembership \<Rightarrow>
          return (no_resource_state\<lparr>rs_ownerNamespaceID := ref_namespace_id r, rs_teamNamespaceID := ref_namespace_id r\<rparr>)
      | ResourceTeamInvitation \<Rightarrow>
          bindE (map_error mapResourceError (take_row (\<lambda>d. List.find
                   (\<lambda>i. inv_ID i = ref_id r \<and> inv_NamespaceID i = ref_namespace_id r) (team_invitations d))))
            (\<lambda>i. return (no_resource_state\<lparr>rs_ownerNamespaceID := inv_NamespaceID i,
                            rs_teamNamespaceID := inv_NamespaceID i, rs_invitedUserID := inv_UserID i\<rparr>))
      | ResourcePlugin \<Rightarrow> pluginState r
      | ResourceMarketplace \<Rightarrow>
          bindE (map_error mapResourceError (take_row (\<lambda>d. List.find (\<lambda>m. tmpl_ID m = ref_id r) (marketplace_templates d))))
            (\<lambda>m. return (no_resource_state\<lparr>rs_ownerNamespaceID := tmpl_NamespaceID m\<rparr>))
      | ResourceTokenCollection \<Rightarrow>
          bindE (personalNamespaceID (ref_id r))
            (\<lambda>nid. return (no_resource_state\<lparr>rs_ownerNamespaceID := nid, rs_ownerUserID := ref_id r\<rparr>))
      | ResourceToken \<Rightarrow>
          bindE (map_error mapResourceError (take_row (\<lambda>d. List.find (\<lambda>k. tok_ID k = ref_id r) (tokens d))))
            (\<lambda>k. bindE (personalNamespaceID (tok_UserID k))
            (\<lambda>nid. return (no_resource_state\<lparr>rs_ownerNamespaceID := nid, rs_ownerUserID := tok_UserID k\<rparr>)))
      | ResourceOther _ \<Rightarrow> fail ErrIdentityUnknown)"

text \<open>The three joined lookups of \<open>ReadAuthorizationState\<close> after the user is known to be active.\<close>

definition owns_namespace :: "string \<Rightarrow> string \<Rightarrow> bool prog" where
  "owns_namespace nid uid =
     (if nid = [] then return False
      else bindE (map_error (\<lambda>e. if errors_Is e ErrRecordNotFound then ErrIdentityUnknown
                                 else Wrapped ''resolve authorization namespace'' e)
                    (take_row (\<lambda>d. List.find (\<lambda>n. ns_ID n = nid) (namespaces d))))
             (\<lambda>n. return (ns_Kind n = NamespaceKindUser \<and> ns_OwnerUserID n = Some uid)))"

definition role_in :: "string \<Rightarrow> string \<Rightarrow> team_role prog" where
  "role_in nid uid =
     (if nid = [] then return no_role
      else attempt (take_row (\<lambda>d. List.find (\<lambda>m. tm_NamespaceID m = nid \<and> tm_UserID m = uid) (team_memberships d)))
             (\<lambda>r. case r of
                Inr m \<Rightarrow> return (tm_Role m)
              | Inl e \<Rightarrow> if errors_Is e ErrRecordNotFound then return no_role
                         else fail (Wrapped ''resolve Team membership'' e)))"

definition ReadAuthorizationState :: reader where
  "ReadAuthorizationState p r =
     bindE (resourceState r) (\<lambda>rs.
     (let st = no_identity_state\<lparr>st_Plugin := rs_plugin rs\<rparr> in
      if IsAnonymous p then return st
      else if \<not> IsUser p \<or> p_user_id p = [] then fail ErrIdentityUnknown
      else
        bindE (map_error (\<lambda>e. if errors_Is e ErrIdentityNotFound then ErrIdentityUnknown else e)
                 (FindUserByID (p_user_id p))) (\<lambda>user.
        if user_Status user \<noteq> UserStatusActive then return st
        else
          bindE (IsSystemAdmin (user_ID user)) (\<lambda>admin.
          bindE (owns_namespace (rs_ownerNamespaceID rs) (user_ID user)) (\<lambda>owns.
          bindE (role_in (rs_teamNamespaceID rs) (user_ID user)) (\<lambda>role.
          return (st\<lparr>st_Active := True, st_SystemAdmin := admin, st_OwnsPersonalNamespace := owns,
                     st_OwnsResource := (rs_ownerUserID rs = user_ID user), st_TeamRole := role,
                     st_InvitationTarget := (rs_invitedUserID rs = user_ID user)\<rparr>)))))))"

definition authorize :: "principal \<Rightarrow> action \<Rightarrow> resource_ref \<Rightarrow> unit prog" where
  "authorize p a r = Authorize (Some ReadAuthorizationState) p a r"

section \<open>What the policy is to allow\<close>

text \<open>
  The access rules of \<open>policy.go\<close>, one rule per way to be allowed: \<open>granted a st\<close> says that an active
  user with the facts \<open>st\<close> may do \<open>a\<close>. They are the documented role matrix but for
  \<open>marketplace.read\<close>, which the documents grant to every Team role and the policy does not.
\<close>

inductive granted :: "action \<Rightarrow> identity_state \<Rightarrow> bool" where
  any_user: "a \<in> {ActionTeamCreate, ActionTeamList} \<Longrightarrow> granted a st"
| administrator:
    "st_SystemAdmin st \<Longrightarrow> a \<notin> {ActionPluginRead, ActionPluginWrite, ActionPluginArchive, ActionPluginPublish} \<Longrightarrow>
     granted a st"
| invited: "st_InvitationTarget st \<Longrightarrow> granted ActionTeamInvitationRespond st"
| team_member:
    "validTeamRole (st_TeamRole st) \<Longrightarrow>
     a \<in> {ActionTeamRead, ActionTeamMembersRead, ActionTeamInvitationsRead, ActionPluginList} \<Longrightarrow> granted a st"
| team_manager:
    "st_TeamRole st \<in> {TeamRoleOwner, TeamRoleAdmin} \<Longrightarrow>
     a \<in> {ActionTeamSettingsWrite, ActionTeamMembersManage, ActionTeamInvitationsManage} \<Longrightarrow> granted a st"
| team_author:
    "st_TeamRole st \<in> {TeamRoleOwner, TeamRoleAdmin, TeamRoleMaintainer, TeamRoleDeveloper} \<Longrightarrow>
     granted ActionPluginCreate st"
| personal_namespace:
    "st_OwnsPersonalNamespace st \<Longrightarrow> a \<in> {ActionPluginCreate, ActionPluginList, ActionMarketplaceRead} \<Longrightarrow>
     granted a st"
| self_service: "st_OwnsResource st \<Longrightarrow> a \<in> {ActionTokenRead, ActionTokenWrite} \<Longrightarrow> granted a st"
| public_read: "allowsPublicPluginRead (st_Plugin st) \<Longrightarrow> granted ActionPluginRead st"
| plugin_holder:
    "st_SystemAdmin st \<or> st_OwnsPersonalNamespace st \<Longrightarrow> allowsPluginAction a (st_Plugin st) \<Longrightarrow>
     a \<in> {ActionPluginRead, ActionPluginWrite, ActionPluginArchive, ActionPluginPublish} \<Longrightarrow> granted a st"
| plugin_reader:
    "validTeamRole (st_TeamRole st) \<Longrightarrow> allowsPluginAction ActionPluginRead (st_Plugin st) \<Longrightarrow>
     granted ActionPluginRead st"
| plugin_writer:
    "st_TeamRole st \<in> {TeamRoleOwner, TeamRoleAdmin, TeamRoleMaintainer, TeamRoleDeveloper} \<Longrightarrow>
     allowsPluginAction ActionPluginWrite (st_Plugin st) \<Longrightarrow> granted ActionPluginWrite st"
| plugin_maintainer:
    "st_TeamRole st \<in> {TeamRoleOwner, TeamRoleAdmin, TeamRoleMaintainer} \<Longrightarrow>
     allowsPluginAction a (st_Plugin st) \<Longrightarrow> a \<in> {ActionPluginArchive, ActionPluginPublish} \<Longrightarrow> granted a st"

lemmas matrix_defs =
  isTeamAction_def isPluginNamespaceAction_def isPluginAction_def isSelfAction_def
  allowsTeamAction_def allowsTeamPluginAction_def

lemma public_read_allows:
  "allowsPublicPluginRead f \<Longrightarrow> allowsPluginAction ActionPluginRead f"
  by (simp add: allowsPublicPluginRead_def allowsPluginAction_def)

lemma granted_allows: "granted a st \<Longrightarrow> allows_state a st"
  by (induction rule: granted.induct) (auto simp: allows_state_def matrix_defs public_read_allows validTeamRole_def)

lemma allows_granted_team:
  "allows_state a st \<Longrightarrow> isTeamAction a \<Longrightarrow> granted a st"
  by (auto simp: allows_state_def matrix_defs intro: granted.intros split: if_splits)

lemma allows_granted_plugin:
  assumes "allows_state a st" "isPluginAction a"
  shows "granted a st"
proof -
  from assms have ok: "allowsPluginAction a (st_Plugin st)"
    by (auto simp: allows_state_def matrix_defs split: if_splits)
  from assms consider "a = ActionPluginRead \<and> allowsPublicPluginRead (st_Plugin st)"
    | "st_SystemAdmin st \<or> st_OwnsPersonalNamespace st" | "allowsTeamPluginAction a (st_TeamRole st)"
    by (auto simp: allows_state_def matrix_defs split: if_splits)
  then show ?thesis
  proof cases
    case 1 then show ?thesis by (auto intro: public_read)
  next
    case 2 with ok assms(2) show ?thesis by (auto simp: isPluginAction_def intro: plugin_holder)
  next
    case 3 with ok assms(2) show ?thesis
      by (auto simp: isPluginAction_def allowsTeamPluginAction_def
            intro: plugin_reader plugin_writer plugin_maintainer split: if_splits)
  qed
qed

lemma allows_granted_other:
  "allows_state a st \<Longrightarrow> \<not> isTeamAction a \<Longrightarrow> \<not> isPluginAction a \<Longrightarrow> granted a st"
  by (auto simp: allows_state_def matrix_defs
        intro: any_user administrator personal_namespace self_service team_member team_author split: if_splits)

lemma allows_state_iff_granted: "allows_state a st \<longleftrightarrow> granted a st"
  using granted_allows allows_granted_team allows_granted_plugin allows_granted_other by blast

section \<open>The contract of a reader\<close>

locale state_reader =
  fixes read_state :: reader
  assumes reader_reads: "reads (read_state p r)"
    and anonymous_facts:
      "IsAnonymous p \<Longrightarrow> read_state p r w = (Inr st, w') \<Longrightarrow> \<not> st_Active st \<and> \<not> st_SystemAdmin st"
begin

lemma Authorize_reads: "reads (Authorize (Some read_state) p a r)"
  unfolding Authorize_def by (auto intro!: read_only reader_reads)

lemma Authorize_error: "Authorize (Some read_state) p a r w = (Inl e, w') \<Longrightarrow> e = ErrDenied"
  by (cases "fst (read_state p r w)"; cases "read_state p r w")
    (auto simp: Authorize_def attempt_def return_def fail_def split: if_splits)

text \<open>
  The decision, once and for all: a request is allowed when the action is known and fits the
  resource, the credential's scopes include it, the reader returns facts, the user is active and
  the rules grant the action.
\<close>

lemma Authorize_user:
  "IsUser p \<Longrightarrow> fst (Authorize (Some read_state) p a r w) = Inr () \<longleftrightarrow>
     isKnownAction a \<and> supportsResource a r \<and> p_user_id p \<noteq> [] \<and> scopes_Allows (p_scopes p) a \<and>
     (\<exists>st. fst (read_state p r w) = Inr st \<and> st_Active st \<and> granted a st)"
  by (cases "read_state p r w")
    (auto simp: Authorize_def IsUser_not_IsAnonymous principal_Allows_def attempt_def return_def fail_def
       allows_state_iff_granted split: sum.splits)

lemma Authorize_anonymous:
  "IsAnonymous p \<Longrightarrow> fst (Authorize (Some read_state) p a r w) = Inr () \<longleftrightarrow>
     a = ActionPluginRead \<and> supportsResource a r \<and>
     (\<exists>st. fst (read_state p r w) = Inr st \<and> allowsPublicPluginRead (st_Plugin st))"
  by (cases "read_state p r w")
    (auto simp: Authorize_def attempt_def return_def fail_def isKnownAction_def
       allowsAnonymousPluginRead_def split: sum.splits)

end

section \<open>The reader of the program\<close>

lemma reads_pluginState [read_only]: "reads (pluginState r)"
  unfolding pluginState_def by (intro read_only)

lemma reads_personalNamespaceID [read_only]: "reads (personalNamespaceID uid)"
  unfolding personalNamespaceID_def by (intro read_only)

lemma reads_resourceState [read_only]: "reads (resourceState r)"
  unfolding resourceState_def by (cases "ref_type r") (auto intro!: read_only)

lemma reads_owns_namespace [read_only]: "reads (owns_namespace nid uid)"
  unfolding owns_namespace_def by (intro read_only)

lemma reads_role_in [read_only]: "reads (role_in nid uid)"
  unfolding role_in_def by (intro read_only)

lemma reads_ReadAuthorizationState [read_only]: "reads (ReadAuthorizationState p r)"
  unfolding ReadAuthorizationState_def by (intro read_only)

lemma ReadAuthorizationState_anonymous:
  "IsAnonymous p \<Longrightarrow> ReadAuthorizationState p r w = (Inr st, w') \<Longrightarrow>
     \<exists>rs. resourceState r w = (Inr rs, w') \<and> st = no_identity_state\<lparr>st_Plugin := rs_plugin rs\<rparr>"
  by (auto simp: ReadAuthorizationState_def prog_iff Let_def)

interpretation policy: state_reader ReadAuthorizationState
proof
  show "reads (ReadAuthorizationState p r)" for p r by (rule reads_ReadAuthorizationState)
  show "\<not> st_Active st \<and> \<not> st_SystemAdmin st"
    if "IsAnonymous p" "ReadAuthorizationState p r w = (Inr st, w')" for p r w st w'
    using ReadAuthorizationState_anonymous [OF that] by (auto simp: no_identity_state_def)
qed

lemma reads_authorize [read_only]: "reads (authorize p a r)"
  unfolding authorize_def by (rule policy.Authorize_reads)

lemma authorize_error: "authorize p a r w = (Inl e, w') \<Longrightarrow> e = ErrDenied"
  unfolding authorize_def by (rule policy.Authorize_error)

end
