(* ===== verification/UserService.thy ===== *)
theory UserService imports Policy begin

text \<open>
  \<open>mod/backend/domain/identity/service/user_service.go\<close>: registration and the administration of
  users. The log entries of \<open>logMutation\<close> are not modelled. \<open>hash\<close> is the password hasher with its
  parameters applied (\<open>auth.HashPassword\<close> draws a random salt).
\<close>

section \<open>Inputs and results\<close>

record create_user_input =
  cu_Username :: string
  cu_DisplayName :: string
  cu_Email :: "string option"
  cu_Password :: string
  cu_Status :: user_status

record user_profile =
  up_ID :: string
  up_Username :: string
  up_Email :: "string option"
  up_DisplayName :: string
  up_Status :: user_status
  up_CreatedAt :: int
  up_UpdatedAt :: int
  up_SystemAdmin :: bool

record user_page =
  upg_Items :: "user_profile list"
  upg_Page :: int
  upg_Size :: int
  upg_Total :: nat

definition MaximumUserListSize :: int where
  "MaximumUserListSize = 100"

definition profileFromUser :: "user_row \<Rightarrow> bool \<Rightarrow> user_profile" where
  "profileFromUser u admin =
     \<lparr>up_ID = user_ID u, up_Username = user_Username u, up_Email = user_Email u,
      up_DisplayName = user_DisplayName u, up_Status = user_Status u, up_CreatedAt = user_CreatedAt u,
      up_UpdatedAt = user_UpdatedAt u, up_SystemAdmin = admin\<rparr>"

definition userResource :: "string \<Rightarrow> resource_ref" where
  "userResource uid = \<lparr>ref_type = ResourceUser, ref_id = uid, ref_namespace_id = []\<rparr>"

definition usersResource :: resource_ref where
  "usersResource = \<lparr>ref_type = ResourceUserCollection, ref_id = ''users'', ref_namespace_id = []\<rparr>"

section \<open>Validation\<close>

text \<open>The empty status stands for \<open>active\<close>.\<close>

definition validateCreateUser ::
  "(string \<Rightarrow> string) \<Rightarrow> create_user_input \<Rightarrow> err + (string \<times> string \<times> string option \<times> string \<times> user_status)" where
  "validateCreateUser lw input =
     (let username = NormalizeUsername lw (cu_Username input);
          displayName = strings_TrimSpace (cu_DisplayName input);
          password = cu_Password input;
          status = (if cu_Status input = UserStatusOther [] then UserStatusActive else cu_Status input)
      in if length username = 0 \<or> length username > 64 \<or> \<not> identitySlug username \<or> displayName = [] \<or>
            utf8_RuneCountInString displayName > 255 \<or> utf8_RuneCountInString password < 12 \<or>
            utf8_RuneCountInString password > 1024 \<or> HasAPIKeyPrefix password \<or>
            (status \<noteq> UserStatusActive \<and> status \<noteq> UserStatusDisabled)
         then Inl ErrInvalidUserInput
         else (case cu_Email input of
                 None \<Rightarrow> Inr (username, displayName, None, password, status)
               | Some e \<Rightarrow>
                   (let normalized = strings_ToLower lw (strings_TrimSpace e) in
                    if normalized = [] \<or> length normalized > 320 \<or> \<not> strings_Contains normalized ''@''
                    then Inl ErrInvalidUserInput
                    else Inr (username, displayName, Some normalized, password, status))))"

section \<open>Operations\<close>

definition user_authorize :: "principal \<Rightarrow> action \<Rightarrow> resource_ref \<Rightarrow> unit prog" where
  "user_authorize p a r =
     (if \<not> IsUser p \<or> p_credential p \<noteq> CredentialJWT then fail ErrUserAuthorization
      else map_error (\<lambda>_. ErrUserAuthorization) (authorize p a r))"

definition UserService_create ::
  "(string \<Rightarrow> err + string) \<Rightarrow> principal \<Rightarrow> create_user_input \<Rightarrow> bool \<Rightarrow> user_profile prog" where
  "UserService_create hash p input requireAuthorization =
     bindE (if requireAuthorization then user_authorize p ActionUserCreate usersResource else return ()) (\<lambda>_.
     bindE (gets w_lower) (\<lambda>lw.
     bindE (of_sum (validateCreateUser lw input)) (\<lambda>(username, displayName, email, password, status).
     bindE (map_error (Wrapped ''hash user password'') (of_sum (hash password))) (\<lambda>passwordHash.
     bindE now (\<lambda>t.
     bindE new_id (\<lambda>userID.
     bindE new_id (\<lambda>namespaceID.
     let user = \<lparr>user_ID = userID, user_Username = username, user_Email = email, user_DisplayName = displayName,
                 user_Status = status, user_PasswordHash = passwordHash, user_CreatedAt = t, user_UpdatedAt = t\<rparr>;
         namespace = \<lparr>ns_ID = namespaceID, ns_Kind = NamespaceKindUser, ns_Slug = username,
                      ns_DisplayName = displayName, ns_OwnerUserID = Some userID, ns_CreatedAt = t, ns_UpdatedAt = t\<rparr>
     in bindE (map_error (\<lambda>e. if errors_Is e ErrIdentityConflict then ErrUserConflict else Wrapped ''create user'' e)
                (CreateUserWithPersonalNamespace user namespace)) (\<lambda>_.
        return (profileFromUser user False)))))))))"

definition UserService_Register :: "(string \<Rightarrow> err + string) \<Rightarrow> create_user_input \<Rightarrow> user_profile prog" where
  "UserService_Register hash input =
     UserService_create hash zero_principal (input\<lparr>cu_Status := UserStatusActive\<rparr>) False"

definition UserService_Create ::
  "(string \<Rightarrow> err + string) \<Rightarrow> principal \<Rightarrow> create_user_input \<Rightarrow> user_profile prog" where
  "UserService_Create hash p input = UserService_create hash p input True"

definition user_not_found_or :: "string \<Rightarrow> err \<Rightarrow> err" where
  "user_not_found_or msg e = (if errors_Is e ErrIdentityNotFound then ErrUserNotFound else Wrapped msg e)"

definition UserService_Me :: "principal \<Rightarrow> user_profile prog" where
  "UserService_Me p =
     (if \<not> IsUser p \<or> p_credential p \<noteq> CredentialJWT then fail ErrUserAuthorization
      else
        bindE (map_error (user_not_found_or ''read current user'') (FindUserByID (p_user_id p))) (\<lambda>user.
        bindE (map_error (Wrapped ''read current user admin'') (IsSystemAdmin (user_ID user))) (\<lambda>admin.
        return (profileFromUser user admin))))"

fun list_profiles :: "user_row list \<Rightarrow> user_profile list prog" where
  "list_profiles [] = return []"
| "list_profiles (u # us) =
     bindE (map_error (Wrapped ''read user admin'') (IsSystemAdmin (user_ID u))) (\<lambda>admin.
     bindE (list_profiles us) (\<lambda>items.
     return (profileFromUser u admin # items)))"

definition UserService_List :: "principal \<Rightarrow> int \<Rightarrow> int \<Rightarrow> user_status \<Rightarrow> user_page prog" where
  "UserService_List p page sz status =
     bindE (user_authorize p ActionUserList usersResource) (\<lambda>_.
     if page < 1 \<or> sz < 1 \<or> sz > MaximumUserListSize \<or>
        (status \<noteq> UserStatusOther [] \<and> status \<noteq> UserStatusActive \<and> status \<noteq> UserStatusDisabled)
     then fail ErrInvalidUserInput
     else
       bindE (map_error (Wrapped ''list users'') (ListUsers page sz status)) (\<lambda>(rows, total).
       bindE (list_profiles rows) (\<lambda>items.
       return \<lparr>upg_Items = items, upg_Page = page, upg_Size = sz, upg_Total = total\<rparr>)))"

definition getProfile :: "string \<Rightarrow> user_profile prog" where
  "getProfile uid =
     bindE (map_error (user_not_found_or ''read user'') (FindUserByID uid)) (\<lambda>user.
     bindE (map_error (Wrapped ''read user admin'') (IsSystemAdmin uid)) (\<lambda>admin.
     return (profileFromUser user admin)))"

definition UserService_Get :: "principal \<Rightarrow> string \<Rightarrow> user_profile prog" where
  "UserService_Get p uid =
     bindE (user_authorize p ActionUserRead (userResource uid)) (\<lambda>_. getProfile uid)"

definition UserService_UpdateDisplayName :: "principal \<Rightarrow> string \<Rightarrow> string \<Rightarrow> user_profile prog" where
  "UserService_UpdateDisplayName p uid displayName0 =
     bindE (user_authorize p ActionUserUpdate (userResource uid)) (\<lambda>_.
     let displayName = strings_TrimSpace displayName0 in
     if displayName = [] \<or> utf8_RuneCountInString displayName > 255 then fail ErrInvalidUserInput
     else
       bindE now (\<lambda>t.
       bindE (map_error (user_not_found_or ''update user display name'') (UpdateUserDisplayName uid displayName t)) (\<lambda>user.
       bindE (map_error (Wrapped ''read user admin'') (IsSystemAdmin uid)) (\<lambda>admin.
       return (profileFromUser user admin)))))"

definition user_operation_error :: "string \<Rightarrow> err \<Rightarrow> err" where
  "user_operation_error msg e =
     (if errors_Is e ErrIdentityNotFound then ErrUserNotFound
      else if errors_Is e ErrIdentityConflict then ErrUserOperationDenied
      else Wrapped msg e)"

definition UserService_SetEnabled :: "principal \<Rightarrow> string \<Rightarrow> bool \<Rightarrow> unit prog" where
  "UserService_SetEnabled p uid enabled =
     (let a = (if enabled then ActionUserEnable else ActionUserDisable);
          status = (if enabled then UserStatusActive else UserStatusDisabled)
      in bindE (user_authorize p a (userResource uid)) (\<lambda>_.
         if p_user_id p = uid then fail ErrUserOperationDenied
         else bindE now (\<lambda>t.
              map_error (user_operation_error ''set user status'') (SetUserStatus (p_user_id p) uid status t))))"

definition UserService_SetSystemAdmin :: "principal \<Rightarrow> string \<Rightarrow> bool \<Rightarrow> unit prog" where
  "UserService_SetSystemAdmin p uid enabled =
     (let a = (if enabled then ActionUserAdminGrant else ActionUserAdminRevoke)
      in bindE (user_authorize p a (userResource uid)) (\<lambda>_.
         if p_user_id p = uid then fail ErrUserOperationDenied
         else map_error (user_operation_error ''set system admin'') (SetSystemAdmin (p_user_id p) uid enabled)))"

section \<open>Reading operations\<close>

lemma reads_user_authorize [read_only]: "reads (user_authorize p a r)"
  unfolding user_authorize_def by (intro read_only)

lemma reads_UserService_Me [read_only]: "reads (UserService_Me p)"
  unfolding UserService_Me_def by (intro read_only)

lemma reads_list_profiles [read_only]: "reads (list_profiles us)"
  by (induction us) (auto intro!: read_only)

lemma reads_getProfile [read_only]: "reads (getProfile uid)"
  unfolding getProfile_def by (intro read_only)

lemma reads_UserService_Get [read_only]: "reads (UserService_Get p uid)"
  unfolding UserService_Get_def by (intro read_only)

lemma reads_UserService_List [read_only]: "reads (UserService_List p page sz status)"
  unfolding UserService_List_def by (intro read_only)

end
