(* ===== verification/TeamDao.thy ===== *)
theory TeamDao imports IdentityDao begin

text \<open>
  \<open>mod/backend/domain/identity/dao/team_repository.go\<close>: Teams, their members and their invitations.

  A Team is a namespace of kind \<open>team\<close>. The triggers of \<open>dao/migrate.go\<close> reject a membership or an
  invitation of any other namespace, and the partial unique index \<open>uidx_team_invitations_pending\<close>
  admits one open invitation per Team and user.
\<close>

section \<open>Records\<close>

record team_record =
  tr_ID :: string
  tr_Slug :: string
  tr_DisplayName :: string
  tr_CurrentUserRole :: team_role
  tr_CreatedAt :: int
  tr_UpdatedAt :: int

record team_member_record =
  mr_UserID :: string
  mr_Username :: string
  mr_DisplayName :: string
  mr_UserStatus :: user_status
  mr_Role :: team_role
  mr_CreatedAt :: int
  mr_UpdatedAt :: int

record invitation_record =
  ir_ID :: string
  ir_NamespaceID :: string
  ir_TeamSlug :: string
  ir_TeamDisplayName :: string
  ir_UserID :: string
  ir_Username :: string
  ir_UserDisplayName :: string
  ir_Role :: team_role
  ir_InvitedByUserID :: string
  ir_InviterUsername :: string
  ir_ExpiresAt :: int
  ir_AcceptedAt :: "int option"
  ir_RejectedAt :: "int option"
  ir_RevokedAt :: "int option"
  ir_CreatedAt :: int
  ir_UpdatedAt :: int

section \<open>Constraints\<close>

definition is_team_namespace :: "db \<Rightarrow> string \<Rightarrow> bool" where
  "is_team_namespace d nid \<longleftrightarrow> (\<exists>n \<in> set (namespaces d). ns_ID n = nid \<and> ns_Kind n = NamespaceKindTeam)"

definition membership_key :: "team_membership_row \<Rightarrow> string \<times> string" where
  "membership_key m = (tm_NamespaceID m, tm_UserID m)"

definition pending_for :: "string \<Rightarrow> string \<Rightarrow> team_invitation_row \<Rightarrow> bool" where
  "pending_for nid uid i \<longleftrightarrow> inv_NamespaceID i = nid \<and> inv_UserID i = uid \<and> inv_open i"

definition create_team_membership :: "team_membership_row \<Rightarrow> unit prog" where
  "create_team_membership m =
     bindE (gets w_uuid) (\<lambda>uuid.
     bindE (hook (TeamMembership_BeforeCreate uuid m)) (\<lambda>_.
     bindE now (\<lambda>t.
     insert_row (\<lambda>d. is_team_namespace d (tm_NamespaceID m) \<and> user_exists d (tm_UserID m))
       (\<lambda>d. \<forall>m' \<in> set (team_memberships d). membership_key m' \<noteq> membership_key m)
       (\<lambda>d. d\<lparr>team_memberships := team_memberships d @
          [m\<lparr>tm_CreatedAt := stamp t (tm_CreatedAt m), tm_UpdatedAt := stamp t (tm_UpdatedAt m)\<rparr>]\<rparr>))))"

definition create_team_invitation :: "team_invitation_row \<Rightarrow> unit prog" where
  "create_team_invitation i =
     bindE (gets w_uuid) (\<lambda>uuid.
     bindE (hook (TeamInvitation_BeforeCreate uuid i)) (\<lambda>_.
     bindE now (\<lambda>t.
     insert_row
       (\<lambda>d. is_team_namespace d (inv_NamespaceID i) \<and> user_exists d (inv_UserID i) \<and>
            user_exists d (inv_InvitedByUserID i))
       (\<lambda>d. \<forall>j \<in> set (team_invitations d). inv_ID j \<noteq> inv_ID i \<and>
            \<not> (inv_open i \<and> pending_for (inv_NamespaceID i) (inv_UserID i) j))
       (\<lambda>d. d\<lparr>team_invitations := team_invitations d @
          [i\<lparr>inv_CreatedAt := stamp t (inv_CreatedAt i), inv_UpdatedAt := stamp t (inv_UpdatedAt i)\<rparr>]\<rparr>))))"

section \<open>Teams\<close>

definition CreateTeam :: "namespace_row \<Rightarrow> team_membership_row \<Rightarrow> unit prog" where
  "CreateTeam namespace owner =
     transaction
       (bindE (map_error (conflict_or ''create team namespace'') (create_namespace namespace)) (\<lambda>_.
        map_error (Wrapped ''create team owner'') (create_team_membership owner)))"

text \<open>The selected columns; the left join finds at most one membership, since its key is unique.\<close>

definition teamSelect :: "db \<Rightarrow> string \<Rightarrow> namespace_row \<Rightarrow> team_record" where
  "teamSelect d uid n =
     \<lparr>tr_ID = ns_ID n, tr_Slug = ns_Slug n, tr_DisplayName = ns_DisplayName n,
      tr_CurrentUserRole =
        (case List.find (\<lambda>m. tm_NamespaceID m = ns_ID n \<and> tm_UserID m = uid) (team_memberships d) of
           None \<Rightarrow> no_role | Some m \<Rightarrow> tm_Role m),
      tr_CreatedAt = ns_CreatedAt n, tr_UpdatedAt = ns_UpdatedAt n\<rparr>"

definition FindTeamBySlug :: "string \<Rightarrow> string \<Rightarrow> team_record prog" where
  "FindTeamBySlug slug userID =
     map_error (not_found_or ''find team'')
       (take_row (\<lambda>d. map_option (teamSelect d userID)
          (List.find (\<lambda>n. ns_Kind n = NamespaceKindTeam \<and> ns_Slug n = slug) (namespaces d))))"

definition team_scope :: "db \<Rightarrow> string \<Rightarrow> bool \<Rightarrow> namespace_row list" where
  "team_scope d userID all =
     filter (\<lambda>n. ns_Kind n = NamespaceKindTeam \<and>
                 (all \<or> (\<exists>m \<in> set (team_memberships d). tm_NamespaceID m = ns_ID n \<and> tm_UserID m = userID)))
       (namespaces d)"

definition ListTeams :: "string \<Rightarrow> bool \<Rightarrow> int \<Rightarrow> int \<Rightarrow> (team_record list \<times> nat) prog" where
  "ListTeams userID all page sz =
     (if page_overflows page sz then fail ErrInvalidPagination
      else
        bindE (map_error (Wrapped ''count teams'') (query (\<lambda>d. length (team_scope d userID all)))) (\<lambda>total.
        bindE (map_error (Wrapped ''list teams'')
                 (query (\<lambda>d. map (teamSelect d userID) (limit_offset sz (wrap64 ((page - 1) * sz))
                    (order_desc (\<lambda>n. (ns_CreatedAt n, ns_ID n)) (team_scope d userID all)))))) (\<lambda>rows.
        return (rows, total))))"

definition UpdateTeamDisplayName :: "string \<Rightarrow> string \<Rightarrow> int \<Rightarrow> unit prog" where
  "UpdateTeamDisplayName namespaceID displayName t =
     (let matches = (\<lambda>n. ns_ID n = namespaceID \<and> ns_Kind n = NamespaceKindTeam) in
      bindE (map_error (Wrapped ''update team'')
               (exec_count (\<lambda>d. count_where matches (namespaces d))
                  (\<lambda>d. d\<lparr>namespaces := update_where matches
                           (\<lambda>n. n\<lparr>ns_DisplayName := displayName, ns_UpdatedAt := t\<rparr>) (namespaces d)\<rparr>)))
        (\<lambda>affected. guardE (affected \<noteq> 0) ErrIdentityNotFound))"

definition TeamRole :: "string \<Rightarrow> string \<Rightarrow> team_role prog" where
  "TeamRole namespaceID userID =
     map_error (not_found_or ''find team membership'')
       (take_row (\<lambda>d. map_option tm_Role
          (List.find (\<lambda>m. tm_NamespaceID m = namespaceID \<and> tm_UserID m = userID) (team_memberships d))))"

section \<open>Members\<close>

definition ListTeamMembers :: "string \<Rightarrow> int \<Rightarrow> int \<Rightarrow> (team_member_record list \<times> nat) prog" where
  "ListTeamMembers namespaceID page sz =
     (if page_overflows page sz then fail ErrInvalidPagination
      else
        bindE (query (\<lambda>d. count_where (\<lambda>m. tm_NamespaceID m = namespaceID) (team_memberships d))) (\<lambda>total.
        bindE (query (\<lambda>d. limit_offset sz (wrap64 ((page - 1) * sz))
                 (map snd (sort_key fst
                   [((tm_CreatedAt m, tm_UserID m),
                     \<lparr>mr_UserID = user_ID u, mr_Username = user_Username u, mr_DisplayName = user_DisplayName u,
                      mr_UserStatus = user_Status u, mr_Role = tm_Role m, mr_CreatedAt = tm_CreatedAt m,
                      mr_UpdatedAt = tm_UpdatedAt m\<rparr>).
                    m \<leftarrow> team_memberships d, u \<leftarrow> users d,
                    tm_NamespaceID m = namespaceID \<and> user_ID u = tm_UserID m])))) (\<lambda>rows.
        return (rows, total))))"

definition lockTeamMemberships :: "string \<Rightarrow> unit prog" where
  "lockTeamMemberships namespaceID = exec id"

definition ensureOtherOwner :: "string \<Rightarrow> string \<Rightarrow> unit prog" where
  "ensureOtherOwner namespaceID excludedUserID =
     bindE (query (\<lambda>d. count_where (\<lambda>m. tm_NamespaceID m = namespaceID \<and> tm_Role m = TeamRoleOwner \<and>
                                        tm_UserID m \<noteq> excludedUserID) (team_memberships d)))
       (\<lambda>count. if count = 0 then fail ErrIdentityConflict else return ())"

definition set_member_role :: "string \<Rightarrow> string \<Rightarrow> team_role \<Rightarrow> int \<Rightarrow> unit prog" where
  "set_member_role namespaceID userID role t =
     exec_checked (\<lambda>d. IsTeamRole role \<and> is_team_namespace d namespaceID)
       (\<lambda>d. d\<lparr>team_memberships := update_where (\<lambda>m. tm_NamespaceID m = namespaceID \<and> tm_UserID m = userID)
                (\<lambda>m. m\<lparr>tm_Role := role, tm_UpdatedAt := t\<rparr>) (team_memberships d)\<rparr>)"

definition PutTeamMember :: "string \<Rightarrow> string \<Rightarrow> team_role \<Rightarrow> int \<Rightarrow> unit prog" where
  "PutTeamMember namespaceID userID role t =
     transaction
       (bindE (lockTeamMemberships namespaceID) (\<lambda>_.
        bindE (map_error (\<lambda>e. if errors_Is e ErrRecordNotFound then ErrIdentityNotFound else e)
                 (take_row (\<lambda>d. List.find (\<lambda>u. user_ID u = userID \<and> user_Status u = UserStatusActive) (users d)))) (\<lambda>user.
        attempt (take_row (\<lambda>d. List.find (\<lambda>m. tm_NamespaceID m = namespaceID \<and> tm_UserID m = userID) (team_memberships d)))
          (\<lambda>r. case r of
             Inl e \<Rightarrow>
               if errors_Is e ErrRecordNotFound
               then create_team_membership
                      \<lparr>tm_NamespaceID = namespaceID, tm_UserID = userID, tm_Role = role, tm_CreatedAt = t, tm_UpdatedAt = t\<rparr>
               else fail e
           | Inr current \<Rightarrow>
               if tm_Role current = role then return ()
               else
                 bindE (if tm_Role current = TeamRoleOwner \<and> role \<noteq> TeamRoleOwner
                        then ensureOtherOwner namespaceID userID else return ()) (\<lambda>_.
                 set_member_role namespaceID userID role t)))))"

definition RemoveTeamMember :: "string \<Rightarrow> string \<Rightarrow> unit prog" where
  "RemoveTeamMember namespaceID userID =
     transaction
       (bindE (lockTeamMemberships namespaceID) (\<lambda>_.
        bindE (map_error (\<lambda>e. if errors_Is e ErrRecordNotFound then ErrIdentityNotFound else e)
                 (take_row (\<lambda>d. List.find (\<lambda>m. tm_NamespaceID m = namespaceID \<and> tm_UserID m = userID) (team_memberships d)))) (\<lambda>current.
        bindE (if tm_Role current = TeamRoleOwner then ensureOtherOwner namespaceID userID else return ()) (\<lambda>_.
        exec (\<lambda>d. d\<lparr>team_memberships :=
          delete_where (\<lambda>m. tm_NamespaceID m = namespaceID \<and> tm_UserID m = userID) (team_memberships d)\<rparr>)))))"

section \<open>Invitations\<close>

definition inv_terminate :: "int \<Rightarrow> team_invitation_row \<Rightarrow> team_invitation_row" where
  "inv_terminate t i = i\<lparr>inv_RevokedAt := Some t, inv_UpdatedAt := t\<rparr>"

definition CreateTeamInvitation :: "team_invitation_row \<Rightarrow> unit prog" where
  "CreateTeamInvitation i =
     transaction
       (bindE (map_error (Wrapped ''terminalize expired invitation'')
          (exec (\<lambda>d. d\<lparr>team_invitations := update_where
             (\<lambda>j. pending_for (inv_NamespaceID i) (inv_UserID i) j \<and> inv_ExpiresAt j \<le> inv_CreatedAt i)
             (inv_terminate (inv_CreatedAt i)) (team_invitations d)\<rparr>))) (\<lambda>_.
        map_error (conflict_or ''create invitation'') (create_team_invitation i)))"

text \<open>The joins of \<open>invitationQuery\<close> with the Team, the invited user and the inviter.\<close>

definition invitationSelect ::
  "team_invitation_row \<Rightarrow> namespace_row \<Rightarrow> user_row \<Rightarrow> user_row \<Rightarrow> invitation_record" where
  "invitationSelect i n u b =
     \<lparr>ir_ID = inv_ID i, ir_NamespaceID = inv_NamespaceID i, ir_TeamSlug = ns_Slug n,
      ir_TeamDisplayName = ns_DisplayName n, ir_UserID = inv_UserID i, ir_Username = user_Username u,
      ir_UserDisplayName = user_DisplayName u, ir_Role = inv_Role i,
      ir_InvitedByUserID = inv_InvitedByUserID i, ir_InviterUsername = user_Username b,
      ir_ExpiresAt = inv_ExpiresAt i, ir_AcceptedAt = inv_AcceptedAt i, ir_RejectedAt = inv_RejectedAt i,
      ir_RevokedAt = inv_RevokedAt i, ir_CreatedAt = inv_CreatedAt i, ir_UpdatedAt = inv_UpdatedAt i\<rparr>"

definition invitationQuery :: "db \<Rightarrow> invitation_record list" where
  "invitationQuery d =
     [invitationSelect i n u b.
      i \<leftarrow> team_invitations d, n \<leftarrow> namespaces d, u \<leftarrow> users d, b \<leftarrow> users d,
      ns_ID n = inv_NamespaceID i \<and> user_ID u = inv_UserID i \<and> user_ID b = inv_InvitedByUserID i]"

definition ListTeamInvitations :: "string \<Rightarrow> int \<Rightarrow> int \<Rightarrow> (invitation_record list \<times> nat) prog" where
  "ListTeamInvitations namespaceID page sz =
     (if page_overflows page sz then fail ErrInvalidPagination
      else
        bindE (query (\<lambda>d. count_where (\<lambda>i. inv_NamespaceID i = namespaceID) (team_invitations d))) (\<lambda>total.
        bindE (query (\<lambda>d. limit_offset sz (wrap64 ((page - 1) * sz))
                 (order_desc (\<lambda>r. (ir_CreatedAt r, ir_ID r))
                    (filter (\<lambda>r. ir_NamespaceID r = namespaceID) (invitationQuery d))))) (\<lambda>rows.
        return (rows, total))))"

text \<open>Ordered by \<open>created_at\<close> only; rows created at the same instant come in the order of the table.\<close>

definition ListUserPendingInvitations :: "string \<Rightarrow> int \<Rightarrow> int \<Rightarrow> int \<Rightarrow> (invitation_record list \<times> nat) prog" where
  "ListUserPendingInvitations userID t page sz =
     (if page_overflows page sz then fail ErrInvalidPagination
      else
        bindE (query (\<lambda>d. count_where (\<lambda>i. inv_UserID i = userID \<and> inv_open i \<and> inv_ExpiresAt i > t) (team_invitations d))) (\<lambda>total.
        bindE (query (\<lambda>d. limit_offset sz (wrap64 ((page - 1) * sz))
                 (sort_key (\<lambda>r. - ir_CreatedAt r)
                    (filter (\<lambda>r. ir_UserID r = userID \<and> ir_AcceptedAt r = None \<and> ir_RejectedAt r = None \<and>
                                 ir_RevokedAt r = None \<and> ir_ExpiresAt r > t) (invitationQuery d))))) (\<lambda>rows.
        return (rows, total))))"

definition FindInvitation :: "string \<Rightarrow> string \<Rightarrow> invitation_record prog" where
  "FindInvitation namespaceID iid =
     map_error (\<lambda>e. if errors_Is e ErrRecordNotFound then ErrIdentityNotFound else e)
       (take_row (\<lambda>d. List.find (\<lambda>r. ir_NamespaceID r = namespaceID \<and> ir_ID r = iid) (invitationQuery d)))"

definition update_invitation :: "string \<Rightarrow> (team_invitation_row \<Rightarrow> team_invitation_row) \<Rightarrow> unit prog" where
  "update_invitation iid f =
     exec (\<lambda>d. d\<lparr>team_invitations := update_where (\<lambda>j. inv_ID j = iid) f (team_invitations d)\<rparr>)"

text \<open>The namespace that the code also returns beside an error is not part of an error outcome here.\<close>

definition RespondInvitation :: "string \<Rightarrow> string \<Rightarrow> bool \<Rightarrow> int \<Rightarrow> string prog" where
  "RespondInvitation iid userID accept t =
     transaction
       (bindE (map_error (\<lambda>e. if errors_Is e ErrRecordNotFound then ErrIdentityNotFound else e)
                 (take_row (\<lambda>d. List.find (\<lambda>i. inv_ID i = iid \<and> inv_UserID i = userID) (team_invitations d)))) (\<lambda>i.
        bindE (guardE (inv_open i \<and> inv_ExpiresAt i > t) ErrIdentityConflict) (\<lambda>_.
        bindE (query (\<lambda>d. count_where (\<lambda>u. user_ID u = userID \<and> user_Status u = UserStatusActive) (users d))) (\<lambda>activeUsers.
        bindE (guardE (activeUsers = 1) ErrIdentityConflict) (\<lambda>_.
        bindE (if accept
               then bindE (map_error (\<lambda>_. ErrIdentityConflict)
                      (create_team_membership
                         \<lparr>tm_NamespaceID = inv_NamespaceID i, tm_UserID = userID, tm_Role = inv_Role i,
                          tm_CreatedAt = t, tm_UpdatedAt = t\<rparr>)) (\<lambda>_.
                    update_invitation (inv_ID i) (\<lambda>j. j\<lparr>inv_AcceptedAt := Some t, inv_UpdatedAt := t\<rparr>))
               else update_invitation (inv_ID i) (\<lambda>j. j\<lparr>inv_RejectedAt := Some t, inv_UpdatedAt := t\<rparr>)) (\<lambda>_.
        return (inv_NamespaceID i)))))))"

definition RevokeInvitation :: "string \<Rightarrow> string \<Rightarrow> int \<Rightarrow> unit prog" where
  "RevokeInvitation namespaceID iid t =
     (let matches = (\<lambda>i. inv_NamespaceID i = namespaceID \<and> inv_ID i = iid \<and> inv_open i) in
      bindE (exec_count (\<lambda>d. count_where matches (team_invitations d))
               (\<lambda>d. d\<lparr>team_invitations := update_where matches (inv_terminate t) (team_invitations d)\<rparr>)) (\<lambda>affected.
      if affected = 0
      then bindE (query (\<lambda>d. count_where (\<lambda>i. inv_NamespaceID i = namespaceID \<and> inv_ID i = iid) (team_invitations d)))
             (\<lambda>count. if count = 0 then fail ErrIdentityNotFound else return ())
      else return ()))"

definition ReissueInvitation ::
  "string \<Rightarrow> string \<Rightarrow> string \<Rightarrow> int \<Rightarrow> int \<Rightarrow> team_invitation_row prog" where
  "ReissueInvitation namespaceID iid newID t expiresAt =
     transaction
       (bindE (map_error (\<lambda>e. if errors_Is e ErrRecordNotFound then ErrIdentityNotFound else e)
                 (take_row (\<lambda>d. List.find (\<lambda>i. inv_NamespaceID i = namespaceID \<and> inv_ID i = iid) (team_invitations d)))) (\<lambda>old.
        bindE (map_error (\<lambda>_. ErrIdentityConflict)
                 (take_row (\<lambda>d. List.find (\<lambda>u. user_ID u = inv_UserID old \<and> user_Status u = UserStatusActive) (users d)))) (\<lambda>user.
        bindE (query (\<lambda>d. count_where (\<lambda>m. tm_NamespaceID m = namespaceID \<and> tm_UserID m = inv_UserID old) (team_memberships d))) (\<lambda>membership.
        bindE (guardE (\<not> membership > 0) ErrIdentityConflict) (\<lambda>_.
        bindE (if inv_open old then update_invitation (inv_ID old) (inv_terminate t) else return ()) (\<lambda>_.
        let replacement =
          \<lparr>inv_ID = newID, inv_NamespaceID = namespaceID, inv_UserID = inv_UserID old, inv_Role = inv_Role old,
           inv_InvitedByUserID = inv_InvitedByUserID old, inv_ExpiresAt = expiresAt, inv_AcceptedAt = None,
           inv_RejectedAt = None, inv_RevokedAt = None, inv_CreatedAt = t, inv_UpdatedAt = t\<rparr>
        in bindE (map_error (\<lambda>e. if isUniqueConstraintError e then ErrIdentityConflict else e)
                    (create_team_invitation replacement)) (\<lambda>_.
           return replacement)))))))"

section \<open>Reading operations\<close>

lemma reads_FindTeamBySlug [read_only]: "reads (FindTeamBySlug slug uid)"
  unfolding FindTeamBySlug_def by (intro read_only)

lemma reads_ListTeams [read_only]: "reads (ListTeams uid all page sz)"
  unfolding ListTeams_def by (intro read_only)

lemma reads_TeamRole [read_only]: "reads (TeamRole nid uid)"
  unfolding TeamRole_def by (intro read_only)

lemma reads_ListTeamMembers [read_only]: "reads (ListTeamMembers nid page sz)"
  unfolding ListTeamMembers_def by (intro read_only)

lemma reads_ensureOtherOwner [read_only]: "reads (ensureOtherOwner nid uid)"
  unfolding ensureOtherOwner_def by (intro read_only)

lemma reads_ListTeamInvitations [read_only]: "reads (ListTeamInvitations nid page sz)"
  unfolding ListTeamInvitations_def by (intro read_only)

lemma reads_ListUserPendingInvitations [read_only]: "reads (ListUserPendingInvitations uid t page sz)"
  unfolding ListUserPendingInvitations_def by (intro read_only)

lemma reads_FindInvitation [read_only]: "reads (FindInvitation nid iid)"
  unfolding FindInvitation_def by (intro read_only)

end
