(* ===== verification/TeamService.thy ===== *)
theory TeamService imports TeamDao begin

text \<open>
  \<open>mod/backend/domain/identity/service/team_service.go\<close>: Teams, membership management and the
  life of an invitation. The service makes its own permission decisions from the Team role and the
  administrator membership of the caller; it does not consult the policy. The log entries of
  \<open>logMutation\<close> are not modelled.
\<close>

section \<open>Results\<close>

record team_permissions =
  tp_ReadMembers :: bool
  tp_ManageMembers :: bool
  tp_UpdateSettings :: bool
  tp_ManageOwners :: bool

record team =
  team_ID :: string
  team_Slug :: string
  team_DisplayName :: string
  team_CurrentUserRole :: "team_role option"
  team_Permissions :: team_permissions
  team_CreatedAt :: int
  team_UpdatedAt :: int

record team_page =
  tpg_Items :: "team list"
  tpg_Page :: int
  tpg_Size :: int
  tpg_Total :: nat

record team_member_page =
  mpg_Items :: "team_member_record list"
  mpg_Page :: int
  mpg_Size :: int
  mpg_Total :: nat

datatype invitation_status = StatusPending | StatusAccepted | StatusRejected | StatusRevoked | StatusExpired

record team_invitation = invitation_record +
  ti_Status :: invitation_status

record team_invitation_page =
  ipg_Items :: "team_invitation list"
  ipg_Page :: int
  ipg_Size :: int
  ipg_Total :: nat

section \<open>Checks\<close>

text \<open>\<open>7 * 24 * time.Hour\<close> in nanoseconds.\<close>

definition invitationLifetime :: int where
  "invitationLifetime = 604800000000000"

definition team_principal :: "principal \<Rightarrow> err option" where
  "team_principal p =
     (if \<not> IsUser p \<or> p_credential p \<noteq> CredentialJWT \<or> p_user_id p = [] then Some ErrTeamForbidden else None)"

definition validPage :: "int \<Rightarrow> int \<Rightarrow> bool" where
  "validPage page sz \<longleftrightarrow> page > 0 \<and> sz > 0 \<and> sz \<le> 100"

definition normalizeTeamSlug :: "(string \<Rightarrow> string) \<Rightarrow> string \<Rightarrow> string" where
  "normalizeTeamSlug lw v = NormalizeUsername lw v"

definition validTeamText :: "string \<Rightarrow> nat \<Rightarrow> bool" where
  "validTeamText v mx \<longleftrightarrow> strings_TrimSpace v \<noteq> [] \<and> utf8_RuneCountInString (strings_TrimSpace v) \<le> mx"

definition permissions :: "team_role \<Rightarrow> bool \<Rightarrow> team_permissions" where
  "permissions role admin =
     (if admin
      then \<lparr>tp_ReadMembers = True, tp_ManageMembers = True, tp_UpdateSettings = True, tp_ManageOwners = True\<rparr>
      else \<lparr>tp_ReadMembers = (role \<noteq> no_role),
            tp_ManageMembers = (role = TeamRoleOwner \<or> role = TeamRoleAdmin),
            tp_UpdateSettings = (role = TeamRoleOwner \<or> role = TeamRoleAdmin),
            tp_ManageOwners = (role = TeamRoleOwner)\<rparr>)"

definition teamFromRecord :: "team_record \<Rightarrow> bool \<Rightarrow> team" where
  "teamFromRecord r admin =
     \<lparr>team_ID = tr_ID r, team_Slug = tr_Slug r, team_DisplayName = tr_DisplayName r,
      team_CurrentUserRole = (if tr_CurrentUserRole r \<noteq> no_role then Some (tr_CurrentUserRole r) else None),
      team_Permissions = permissions (tr_CurrentUserRole r) admin,
      team_CreatedAt = tr_CreatedAt r, team_UpdatedAt = tr_UpdatedAt r\<rparr>"

definition canManageRole :: "team_role \<Rightarrow> bool \<Rightarrow> team_role \<Rightarrow> bool" where
  "canManageRole actor system target =
     (if system then True
      else if actor = TeamRoleOwner then True
      else actor = TeamRoleAdmin \<and> target \<noteq> TeamRoleOwner)"

definition mapTeamError :: "err \<Rightarrow> err" where
  "mapTeamError e =
     (if errors_Is e ErrIdentityNotFound then ErrTeamNotFound
      else if errors_Is e ErrIdentityConflict then ErrTeamConflict
      else e)"

definition team_guard :: "principal \<Rightarrow> unit prog" where
  "team_guard p = (case team_principal p of None \<Rightarrow> return () | Some _ \<Rightarrow> fail ErrTeamForbidden)"

section \<open>Teams\<close>

definition TeamService_Create :: "principal \<Rightarrow> string \<Rightarrow> string \<Rightarrow> team prog" where
  "TeamService_Create p slug0 displayName0 =
     bindE (team_guard p) (\<lambda>_.
     bindE (gets w_lower) (\<lambda>lw.
     let slug = normalizeTeamSlug lw slug0; displayName = strings_TrimSpace displayName0 in
     if \<not> identitySlug slug \<or> length slug > 128 \<or> \<not> validTeamText displayName 255 then fail ErrInvalidTeamInput
     else
       bindE now (\<lambda>t.
       bindE new_id (\<lambda>nid.
       bindE (map_error (\<lambda>e. if errors_Is e ErrIdentityConflict then ErrTeamConflict else Wrapped ''create team'' e)
                (CreateTeam
                   \<lparr>ns_ID = nid, ns_Kind = NamespaceKindTeam, ns_Slug = slug, ns_DisplayName = displayName,
                    ns_OwnerUserID = None, ns_CreatedAt = t, ns_UpdatedAt = t\<rparr>
                   \<lparr>tm_NamespaceID = nid, tm_UserID = p_user_id p, tm_Role = TeamRoleOwner,
                    tm_CreatedAt = t, tm_UpdatedAt = t\<rparr>)) (\<lambda>_.
       return \<lparr>team_ID = nid, team_Slug = slug, team_DisplayName = displayName,
               team_CurrentUserRole = Some TeamRoleOwner, team_Permissions = permissions TeamRoleOwner False,
               team_CreatedAt = t, team_UpdatedAt = t\<rparr>)))))"

definition TeamService_List :: "principal \<Rightarrow> int \<Rightarrow> int \<Rightarrow> bool \<Rightarrow> team_page prog" where
  "TeamService_List p page sz all =
     bindE (team_guard p) (\<lambda>_.
     if \<not> validPage page sz then fail ErrInvalidTeamInput
     else
       bindE (IsSystemAdmin (p_user_id p)) (\<lambda>admin.
       if all \<and> \<not> admin then fail ErrTeamForbidden
       else
         bindE (ListTeams (p_user_id p) all page sz) (\<lambda>(rows, total).
         return \<lparr>tpg_Items = map (\<lambda>r. teamFromRecord r admin) rows, tpg_Page = page, tpg_Size = sz,
                 tpg_Total = total\<rparr>)))"

definition resolve :: "principal \<Rightarrow> string \<Rightarrow> (team_record \<times> bool) prog" where
  "resolve p slug0 =
     bindE (team_guard p) (\<lambda>_.
     bindE (gets w_lower) (\<lambda>lw.
     let slug = normalizeTeamSlug lw slug0 in
     if \<not> identitySlug slug then fail ErrTeamNotFound
     else
       bindE (map_error (\<lambda>e. if errors_Is e ErrIdentityNotFound then ErrTeamNotFound else e)
                (FindTeamBySlug slug (p_user_id p))) (\<lambda>r.
       bindE (IsSystemAdmin (p_user_id p)) (\<lambda>admin.
       return (r, admin)))))"

definition TeamService_Get :: "principal \<Rightarrow> string \<Rightarrow> team prog" where
  "TeamService_Get p slug =
     bindE (resolve p slug) (\<lambda>(r, admin).
     if tr_CurrentUserRole r = no_role \<and> \<not> admin then fail ErrTeamNotFound
     else return (teamFromRecord r admin))"

definition TeamService_Update :: "principal \<Rightarrow> string \<Rightarrow> string \<Rightarrow> team prog" where
  "TeamService_Update p slug displayName0 =
     bindE (resolve p slug) (\<lambda>(r, admin).
     if \<not> admin \<and> tr_CurrentUserRole r \<noteq> TeamRoleOwner \<and> tr_CurrentUserRole r \<noteq> TeamRoleAdmin
     then fail ErrTeamForbidden
     else
       (let displayName = strings_TrimSpace displayName0 in
        if \<not> validTeamText displayName 255 then fail ErrInvalidTeamInput
        else
          bindE now (\<lambda>t.
          bindE (UpdateTeamDisplayName (tr_ID r) displayName t) (\<lambda>_.
          return (teamFromRecord (r\<lparr>tr_DisplayName := displayName, tr_UpdatedAt := t\<rparr>) admin)))))"

section \<open>Members\<close>

definition TeamService_ListMembers :: "principal \<Rightarrow> string \<Rightarrow> int \<Rightarrow> int \<Rightarrow> team_member_page prog" where
  "TeamService_ListMembers p slug page sz =
     bindE (resolve p slug) (\<lambda>(r, admin).
     if tr_CurrentUserRole r = no_role \<and> \<not> admin then fail ErrTeamForbidden
     else if \<not> validPage page sz then fail ErrInvalidTeamInput
     else
       bindE (ListTeamMembers (tr_ID r) page sz) (\<lambda>(rows, total).
       return \<lparr>mpg_Items = rows, mpg_Page = page, mpg_Size = sz, mpg_Total = total\<rparr>))"

definition TeamService_PutMember :: "principal \<Rightarrow> string \<Rightarrow> string \<Rightarrow> team_role \<Rightarrow> team_member_record prog" where
  "TeamService_PutMember p slug userID role =
     bindE (resolve p slug) (\<lambda>(r, admin).
     if \<not> IsTeamRole role then fail ErrInvalidTeamInput
     else if \<not> canManageRole (tr_CurrentUserRole r) admin role then fail ErrTeamForbidden
     else
       attempt (TeamRole (tr_ID r) userID) (\<lambda>res.
       bindE (case res of
                Inr current \<Rightarrow> guardE (canManageRole (tr_CurrentUserRole r) admin current) ErrTeamForbidden
              | Inl _ \<Rightarrow> return ()) (\<lambda>_.
       bindE now (\<lambda>t.
       bindE (map_error mapTeamError (PutTeamMember (tr_ID r) userID role t)) (\<lambda>_.
       bindE (map_error mapTeamError (FindUserByID userID)) (\<lambda>u.
       return \<lparr>mr_UserID = user_ID u, mr_Username = user_Username u, mr_DisplayName = user_DisplayName u,
               mr_UserStatus = user_Status u, mr_Role = role, mr_CreatedAt = t, mr_UpdatedAt = t\<rparr>))))))"

definition TeamService_RemoveMember :: "principal \<Rightarrow> string \<Rightarrow> string \<Rightarrow> unit prog" where
  "TeamService_RemoveMember p slug userID =
     bindE (resolve p slug) (\<lambda>(r, admin).
     bindE (map_error mapTeamError (TeamRole (tr_ID r) userID)) (\<lambda>role.
     if \<not> canManageRole (tr_CurrentUserRole r) admin role then fail ErrTeamForbidden
     else map_error mapTeamError (RemoveTeamMember (tr_ID r) userID)))"

section \<open>Invitations\<close>

definition no_user :: user_row where
  "no_user =
     \<lparr>user_ID = [], user_Username = [], user_Email = None, user_DisplayName = [], user_Status = UserStatusOther [],
      user_PasswordHash = [], user_CreatedAt = zero_time, user_UpdatedAt = zero_time\<rparr>"

definition invitationFromModel ::
  "team_invitation_row \<Rightarrow> team_record \<Rightarrow> user_row \<Rightarrow> user_row \<Rightarrow> team_invitation" where
  "invitationFromModel m r u i =
     \<lparr>ir_ID = inv_ID m, ir_NamespaceID = tr_ID r, ir_TeamSlug = tr_Slug r, ir_TeamDisplayName = tr_DisplayName r,
      ir_UserID = user_ID u, ir_Username = user_Username u, ir_UserDisplayName = user_DisplayName u,
      ir_Role = inv_Role m, ir_InvitedByUserID = user_ID i, ir_InviterUsername = user_Username i,
      ir_ExpiresAt = inv_ExpiresAt m, ir_AcceptedAt = None, ir_RejectedAt = None, ir_RevokedAt = None,
      ir_CreatedAt = inv_CreatedAt m, ir_UpdatedAt = inv_UpdatedAt m, ti_Status = StatusPending\<rparr>"

definition invitation_status_at :: "invitation_record \<Rightarrow> int \<Rightarrow> invitation_status" where
  "invitation_status_at r t =
     (if ir_AcceptedAt r \<noteq> None then StatusAccepted
      else if ir_RejectedAt r \<noteq> None then StatusRejected
      else if ir_RevokedAt r \<noteq> None then StatusRevoked
      else if \<not> ir_ExpiresAt r > t then StatusExpired
      else StatusPending)"

definition invitationPage :: "invitation_record list \<Rightarrow> int \<Rightarrow> int \<Rightarrow> nat \<Rightarrow> int \<Rightarrow> team_invitation_page" where
  "invitationPage rows page sz tot t =
     \<lparr>ipg_Items = map (\<lambda>r. invitation_record.extend r (team_invitation.fields (invitation_status_at r t))) rows,
      ipg_Page = page, ipg_Size = sz, ipg_Total = tot\<rparr>"

text \<open>\<open>x, _ := FindUserByID(...)\<close>: an error leaves the zero user.\<close>

definition find_user_or_zero :: "string \<Rightarrow> user_row prog" where
  "find_user_or_zero uid =
     attempt (FindUserByID uid) (\<lambda>res. case res of Inl _ \<Rightarrow> return no_user | Inr u \<Rightarrow> return u)"

definition TeamService_Invite :: "principal \<Rightarrow> string \<Rightarrow> string \<Rightarrow> team_role \<Rightarrow> team_invitation prog" where
  "TeamService_Invite p slug username role =
     bindE (resolve p slug) (\<lambda>(r, admin).
     if \<not> IsTeamRole role then fail ErrInvalidTeamInput
     else if \<not> canManageRole (tr_CurrentUserRole r) admin role then fail ErrTeamForbidden
     else
       bindE (map_error (\<lambda>_. ErrTeamNotFound) (FindUserByUsername username)) (\<lambda>user.
       if user_Status user \<noteq> UserStatusActive then fail ErrTeamNotFound
       else
         attempt (TeamRole (tr_ID r) (user_ID user)) (\<lambda>res.
         case res of
           Inr _ \<Rightarrow> fail ErrTeamConflict
         | Inl e \<Rightarrow>
             if \<not> errors_Is e ErrIdentityNotFound then fail e
             else
               bindE now (\<lambda>t.
               bindE new_id (\<lambda>iid.
               let m = \<lparr>inv_ID = iid, inv_NamespaceID = tr_ID r, inv_UserID = user_ID user, inv_Role = role,
                        inv_InvitedByUserID = p_user_id p, inv_ExpiresAt = t + invitationLifetime,
                        inv_AcceptedAt = None, inv_RejectedAt = None, inv_RevokedAt = None,
                        inv_CreatedAt = t, inv_UpdatedAt = t\<rparr>
               in bindE (map_error mapTeamError (CreateTeamInvitation m)) (\<lambda>_.
                  bindE (find_user_or_zero (p_user_id p)) (\<lambda>inviter.
                  return (invitationFromModel m r user inviter))))))))"

definition manages_invitations :: "team_record \<Rightarrow> bool \<Rightarrow> bool" where
  "manages_invitations r admin \<longleftrightarrow>
     \<not> (tr_CurrentUserRole r \<noteq> TeamRoleOwner \<and> tr_CurrentUserRole r \<noteq> TeamRoleAdmin \<and> \<not> admin)"

text \<open>
  The page is built before the error is looked at, so the clock is read on both paths; an error
  outcome drops the page.
\<close>

definition TeamService_ListInvitations :: "principal \<Rightarrow> string \<Rightarrow> int \<Rightarrow> int \<Rightarrow> team_invitation_page prog" where
  "TeamService_ListInvitations p slug page sz =
     bindE (resolve p slug) (\<lambda>(r, admin).
     if \<not> manages_invitations r admin then fail ErrTeamForbidden
     else if \<not> validPage page sz then fail ErrInvalidTeamInput
     else
       attempt (ListTeamInvitations (tr_ID r) page sz) (\<lambda>res.
       bindE now (\<lambda>t.
       bindE (of_sum res) (\<lambda>(rows, total).
       return (invitationPage rows page sz total t)))))"

definition TeamService_Inbox :: "principal \<Rightarrow> int \<Rightarrow> int \<Rightarrow> team_invitation_page prog" where
  "TeamService_Inbox p page sz =
     bindE (team_guard p) (\<lambda>_.
     if \<not> validPage page sz then fail ErrInvalidTeamInput
     else
       bindE now (\<lambda>t.
       bindE (ListUserPendingInvitations (p_user_id p) t page sz) (\<lambda>(rows, total).
       return (invitationPage rows page sz total t))))"

definition TeamService_Respond :: "principal \<Rightarrow> string \<Rightarrow> bool \<Rightarrow> team option prog" where
  "TeamService_Respond p iid accept =
     bindE (team_guard p) (\<lambda>_.
     bindE (gets w_uuid) (\<lambda>canonicalUUID.
     if \<not> canonicalUUID iid then fail ErrTeamNotFound
     else
       bindE now (\<lambda>t.
       bindE (map_error mapTeamError (RespondInvitation iid (p_user_id p) accept t)) (\<lambda>namespaceID.
       if \<not> accept then return None
       else
         bindE (ListTeams (p_user_id p) False 1 100) (\<lambda>(rows, total).
         case List.find (\<lambda>r. tr_ID r = namespaceID) rows of
           Some r \<Rightarrow> return (Some (teamFromRecord r False))
         | None \<Rightarrow> fail ErrTeamNotFound)))))"

definition TeamService_Revoke :: "principal \<Rightarrow> string \<Rightarrow> string \<Rightarrow> unit prog" where
  "TeamService_Revoke p slug iid =
     bindE (resolve p slug) (\<lambda>(r, admin).
     if \<not> manages_invitations r admin then fail ErrTeamForbidden
     else
       bindE (map_error mapTeamError (FindInvitation (tr_ID r) iid)) (\<lambda>invitation.
       if \<not> canManageRole (tr_CurrentUserRole r) admin (ir_Role invitation) then fail ErrTeamForbidden
       else
         bindE now (\<lambda>t. map_error mapTeamError (RevokeInvitation (tr_ID r) iid t))))"

definition TeamService_Reissue :: "principal \<Rightarrow> string \<Rightarrow> string \<Rightarrow> team_invitation prog" where
  "TeamService_Reissue p slug iid =
     bindE (resolve p slug) (\<lambda>(r, admin).
     if \<not> manages_invitations r admin then fail ErrTeamForbidden
     else
       bindE (map_error mapTeamError (FindInvitation (tr_ID r) iid)) (\<lambda>invitation.
       if \<not> canManageRole (tr_CurrentUserRole r) admin (ir_Role invitation) then fail ErrTeamForbidden
       else
         bindE now (\<lambda>t.
         bindE new_id (\<lambda>newID.
         bindE (map_error mapTeamError (ReissueInvitation (tr_ID r) iid newID t (t + invitationLifetime))) (\<lambda>m.
         bindE (find_user_or_zero (inv_UserID m)) (\<lambda>user.
         bindE (find_user_or_zero (inv_InvitedByUserID m)) (\<lambda>inviter.
         return (invitationFromModel m r user inviter))))))))"

section \<open>Reading operations\<close>

lemma reads_team_guard [read_only]: "reads (team_guard p)"
  unfolding team_guard_def by (intro read_only)

lemma reads_resolve [read_only]: "reads (resolve p slug)"
  unfolding resolve_def by (intro read_only)

lemma reads_TeamService_List [read_only]: "reads (TeamService_List p page sz all)"
  unfolding TeamService_List_def by (intro read_only)

lemma reads_TeamService_Get [read_only]: "reads (TeamService_Get p slug)"
  unfolding TeamService_Get_def by (intro read_only)

lemma reads_TeamService_ListMembers [read_only]: "reads (TeamService_ListMembers p slug page sz)"
  unfolding TeamService_ListMembers_def by (intro read_only)

lemma reads_find_user_or_zero [read_only]: "reads (find_user_or_zero uid)"
  unfolding find_user_or_zero_def by (intro read_only)

lemma reads_TeamService_ListInvitations [read_only]: "reads (TeamService_ListInvitations p slug page sz)"
  unfolding TeamService_ListInvitations_def by (intro read_only)

lemma reads_TeamService_Inbox [read_only]: "reads (TeamService_Inbox p page sz)"
  unfolding TeamService_Inbox_def by (intro read_only)

end
