(* ===== verification/TokenService.thy ===== *)
theory TokenService imports Policy begin

text \<open>
  \<open>identity/service\<close>: personal access tokens (\<open>token_service.go\<close>), password accounts
  (\<open>account_service.go\<close>) and the authenticator of tokens (\<open>authenticator.go\<close>).

  Parameters: \<open>idkey\<close>, the Argon2id key derivation, \<open>hmac\<close>, HMAC-SHA256, and \<open>random\<close>, the bytes
  \<open>crypto/rand\<close> returns (or no bytes when it fails).
\<close>

section \<open>Accounts\<close>

definition dummyPasswordHash :: string where
  "dummyPasswordHash =
     ''$argon2id$v=19$m=65536,t=3,p=2$bWFya2V0cGxhY2UtZHVtbXk$k7Ts/CF78xXP2lka6aDYD6QmLPmoeWqksbOOOAVlsCI''"

definition AuthenticatePassword :: "idkey \<Rightarrow> string \<Rightarrow> string \<Rightarrow> user_row prog" where
  "AuthenticatePassword idkey username password =
     attempt (FindUserByUsername username) (\<lambda>res.
     case res of
       Inl e \<Rightarrow>
         if \<not> errors_Is e ErrIdentityNotFound then fail (Wrapped ''authenticate password'' e)
         else (let _ = VerifyPassword idkey password dummyPasswordHash in fail ErrInvalidCredentials)
     | Inr user \<Rightarrow>
         (let eligible = (user_Status user = UserStatusActive);
              passwordHash = (if eligible then user_PasswordHash user else dummyPasswordHash)
          in case VerifyPassword idkey password passwordHash of
               Inl _ \<Rightarrow> fail ErrInvalidCredentials
             | Inr valid \<Rightarrow> if \<not> valid \<or> \<not> eligible then fail ErrInvalidCredentials else return user))"

definition AccountService_VerifyPassword :: "idkey \<Rightarrow> string \<Rightarrow> string \<Rightarrow> unit prog" where
  "AccountService_VerifyPassword idkey username password =
     bindE (AuthenticatePassword idkey username password) (\<lambda>_. return ())"

definition ResolveJWTPrincipal :: "string \<Rightarrow> principal prog" where
  "ResolveJWTPrincipal username =
     bindE (map_error (\<lambda>_. ErrInvalidCredentials) (FindUserByUsername username)) (\<lambda>user.
     map_error (\<lambda>_. ErrInvalidCredentials)
       (of_sum (NewUserPrincipal (user_ID user) (user_Username user) CredentialJWT UnrestrictedScopes)))"

section \<open>Tokens of the current user\<close>

definition MaximumTokenListSize :: int where
  "MaximumTokenListSize = 100"

definition maximumTokenNameBytes :: nat where
  "maximumTokenNameBytes = 128"

datatype token_status = TokenStatusActive | TokenStatusExpired | TokenStatusRevoked

record create_token_input =
  ct_Name :: string
  ct_Preset :: token_preset
  ct_ExpiresAt :: "int option"

record token_view =
  tv_ID :: string
  tv_Name :: string
  tv_Preset :: token_preset
  tv_Status :: token_status
  tv_ExpiresAt :: "int option"
  tv_LastUsedAt :: "int option"
  tv_RevokedAt :: "int option"
  tv_CreatedAt :: int

record created_token = token_view +
  crt_Token :: string

record token_page =
  tkp_Items :: "token_view list"
  tkp_Page :: int
  tkp_Size :: int
  tkp_Total :: nat

definition metadataFromRecord :: "token_metadata \<Rightarrow> int \<Rightarrow> token_view" where
  "metadataFromRecord r t =
     \<lparr>tv_ID = tmd_ID r, tv_Name = tmd_Name r, tv_Preset = tmd_Preset r,
      tv_Status = (if tmd_RevokedAt r \<noteq> None then TokenStatusRevoked
                   else (case tmd_ExpiresAt r of
                           Some e \<Rightarrow> if \<not> e > t then TokenStatusExpired else TokenStatusActive
                         | None \<Rightarrow> TokenStatusActive)),
      tv_ExpiresAt = tmd_ExpiresAt r, tv_LastUsedAt = tmd_LastUsedAt r, tv_RevokedAt = tmd_RevokedAt r,
      tv_CreatedAt = tmd_CreatedAt r\<rparr>"

definition with_secret :: "token_view \<Rightarrow> string \<Rightarrow> created_token" where
  "with_secret v secret = token_view.extend v (created_token.fields secret)"

definition validateCreateTokenInput :: "create_token_input \<Rightarrow> int \<Rightarrow> err + (string \<times> int option)" where
  "validateCreateTokenInput input t =
     (let name = strings_TrimSpace (ct_Name input) in
      if name = [] \<or> length name > maximumTokenNameBytes \<or> \<not> IsSupportedPreset (ct_Preset input)
      then Inl ErrInvalidTokenInput
      else (case ct_ExpiresAt input of
              None \<Rightarrow> Inr (name, None)
            | Some e \<Rightarrow> if \<not> e > t then Inl ErrInvalidTokenInput else Inr (name, Some e)))"

definition token_ref :: "string \<Rightarrow> resource_ref" where
  "token_ref tid = \<lparr>ref_type = ResourceToken, ref_id = tid, ref_namespace_id = []\<rparr>"

definition authorizeCurrentUser :: "principal \<Rightarrow> action \<Rightarrow> unit prog" where
  "authorizeCurrentUser p a =
     (if \<not> IsUser p \<or> p_user_id p = [] \<or> p_credential p \<noteq> CredentialJWT then fail ErrTokenAuthorization
      else map_error (\<lambda>_. ErrTokenAuthorization)
             (authorize p a \<lparr>ref_type = ResourceTokenCollection, ref_id = p_user_id p, ref_namespace_id = []\<rparr>))"

definition TokenService_Create ::
  "(string \<Rightarrow> string \<Rightarrow> string) \<Rightarrow> string \<Rightarrow> string option \<Rightarrow> principal \<Rightarrow> create_token_input \<Rightarrow> created_token prog" where
  "TokenService_Create hmac pepper random p input =
     bindE (authorizeCurrentUser p ActionTokenWrite) (\<lambda>_.
     bindE now (\<lambda>t.
     bindE (of_sum (validateCreateTokenInput input t)) (\<lambda>(name, expiresAt).
     bindE (map_error (Wrapped ''generate personal access token'') (of_sum (GenerateAPIKey random))) (\<lambda>plaintext.
     bindE (map_error (Wrapped ''index personal access token'') (of_sum (IndexAPIKey hmac plaintext pepper))) (\<lambda>secretHMAC.
     bindE new_id (\<lambda>tid.
     let token = \<lparr>tok_ID = tid, tok_UserID = p_user_id p, tok_Name = name, tok_Preset = ct_Preset input,
                  tok_SecretPlaintext = plaintext, tok_SecretHMAC = secretHMAC, tok_ExpiresAt = expiresAt,
                  tok_LastUsedAt = None, tok_RevokedAt = None, tok_CreatedAt = t, tok_UpdatedAt = t\<rparr>
     in bindE (map_error (Wrapped ''create personal access token'') (CreateToken token)) (\<lambda>_.
        return (with_secret (metadataFromRecord (tokenMetadataColumns token) t) plaintext))))))))"

definition TokenService_List :: "principal \<Rightarrow> int \<Rightarrow> int \<Rightarrow> token_page prog" where
  "TokenService_List p page sz =
     bindE (authorizeCurrentUser p ActionTokenRead) (\<lambda>_.
     if page < 1 \<or> sz < 1 \<or> sz > MaximumTokenListSize \<or> page - 1 > max_int div sz then fail ErrInvalidTokenInput
     else
       bindE (map_error (\<lambda>e. if errors_Is e ErrInvalidPagination then ErrInvalidTokenInput
                             else Wrapped ''list personal access tokens'' e)
                (ListTokenMetadata (p_user_id p) page sz)) (\<lambda>(records, total).
       bindE now (\<lambda>t.
       return \<lparr>tkp_Items = map (\<lambda>r. metadataFromRecord r t) records, tkp_Page = page, tkp_Size = sz,
               tkp_Total = total\<rparr>)))"

definition token_not_found_or :: "string \<Rightarrow> err \<Rightarrow> err" where
  "token_not_found_or msg e = (if errors_Is e ErrIdentityNotFound then ErrTokenNotFound else Wrapped msg e)"

definition TokenService_Reveal :: "idkey \<Rightarrow> principal \<Rightarrow> string \<Rightarrow> string \<Rightarrow> created_token prog" where
  "TokenService_Reveal idkey p tokenID password =
     bindE (authorizeCurrentUser p ActionTokenRead) (\<lambda>_.
     if strings_TrimSpace tokenID = [] then fail ErrTokenNotFound
     else
       bindE (map_error (\<lambda>_. ErrInvalidCredentials) (AccountService_VerifyPassword idkey (p_username p) password)) (\<lambda>_.
       bindE (map_error (token_not_found_or ''find personal access token'')
                (FindTokenRevealByIDAndUserID tokenID (p_user_id p))) (\<lambda>r.
       bindE (map_error (\<lambda>_. ErrTokenAuthorization) (authorize p ActionTokenRead (token_ref (tmd_ID r)))) (\<lambda>_.
       bindE now (\<lambda>t.
       return (with_secret (metadataFromRecord (token_metadata.truncate r) t) (trv_SecretPlaintext r)))))))"

definition TokenService_Revoke :: "principal \<Rightarrow> string \<Rightarrow> unit prog" where
  "TokenService_Revoke p tokenID =
     bindE (authorizeCurrentUser p ActionTokenWrite) (\<lambda>_.
     if strings_TrimSpace tokenID = [] then fail ErrTokenNotFound
     else
       bindE (map_error (token_not_found_or ''find personal access token'')
                (FindTokenMetadataByIDAndUserID tokenID (p_user_id p))) (\<lambda>r.
       bindE (map_error (\<lambda>_. ErrTokenAuthorization) (authorize p ActionTokenWrite (token_ref (tmd_ID r)))) (\<lambda>_.
       if tmd_RevokedAt r \<noteq> None then return ()
       else
         bindE now (\<lambda>t.
         map_error (Wrapped ''revoke personal access token'') (RevokeToken (tmd_ID r) (p_user_id p) t)))))"

section \<open>Authentication by token\<close>

datatype git_operation = GitOperationRead | GitOperationWrite | GitOperationOther string

definition pat_authenticate ::
  "(string \<Rightarrow> string \<Rightarrow> string) \<Rightarrow> string \<Rightarrow> string \<Rightarrow> string \<Rightarrow> token_credential prog" where
  "pat_authenticate hmac pepper username plaintext =
     bindE (map_error (\<lambda>_. ErrInvalidCredentials) (of_sum (IndexAPIKey hmac plaintext pepper))) (\<lambda>secretHMAC.
     bindE (map_error (\<lambda>_. ErrInvalidCredentials) (FindTokenCredentialBySecretHMAC secretHMAC)) (\<lambda>r.
     bindE (gets w_lower) (\<lambda>lw.
     if tcr_UserStatus r \<noteq> UserStatusActive \<or> tcr_Username r \<noteq> NormalizeUsername lw username \<or>
        \<not> IsSupportedPreset (tcr_Preset r)
     then fail ErrInvalidCredentials
     else
       bindE now (\<lambda>t.
       if tcr_RevokedAt r \<noteq> None \<or> (case tcr_ExpiresAt r of None \<Rightarrow> False | Some e \<Rightarrow> \<not> e > t)
       then fail ErrInvalidCredentials
       else return r))))"

definition principalForPAT :: "token_credential \<Rightarrow> err + principal" where
  "principalForPAT r =
     (let actions = [ActionMarketplaceRead, ActionPluginRead] @
                    (if tcr_Preset r = TokenPresetGitWrite then [ActionPluginWrite] else [])
      in case NewUserPrincipal (tcr_UserID r) (tcr_Username r) CredentialPAT (RestrictedScopes actions) of
           Inl _ \<Rightarrow> Inl ErrInvalidCredentials
         | Inr p \<Rightarrow> Inr p)"

definition pat_finish :: "token_credential \<Rightarrow> principal prog" where
  "pat_finish r =
     bindE (map_error (\<lambda>_. ErrInvalidCredentials) (of_sum (principalForPAT r))) (\<lambda>p.
     bindE now (\<lambda>t.
     bindE (map_error (\<lambda>_. ErrInvalidCredentials) (TouchToken (tcr_ID r) t)) (\<lambda>_.
     return p)))"

definition AuthenticateGitPAT ::
  "(string \<Rightarrow> string \<Rightarrow> string) \<Rightarrow> string \<Rightarrow> string \<Rightarrow> string \<Rightarrow> git_operation \<Rightarrow> principal prog" where
  "AuthenticateGitPAT hmac pepper username plaintext operation =
     bindE (pat_authenticate hmac pepper username plaintext) (\<lambda>r.
     if operation = GitOperationRead \<and> tcr_Preset r \<noteq> TokenPresetGitClone \<and> tcr_Preset r \<noteq> TokenPresetGitWrite \<or>
        operation = GitOperationWrite \<and> tcr_Preset r \<noteq> TokenPresetGitWrite
     then fail ErrInvalidCredentials
     else if operation \<noteq> GitOperationRead \<and> operation \<noteq> GitOperationWrite then fail ErrInvalidCredentials
     else pat_finish r)"

definition AuthenticateSubscriptionPAT ::
  "(string \<Rightarrow> string \<Rightarrow> string) \<Rightarrow> string \<Rightarrow> string \<Rightarrow> string \<Rightarrow> principal prog" where
  "AuthenticateSubscriptionPAT hmac pepper username plaintext =
     bindE (pat_authenticate hmac pepper username plaintext) pat_finish"

section \<open>Reading operations\<close>

lemma reads_AuthenticatePassword [read_only]: "reads (AuthenticatePassword idkey username password)"
  unfolding AuthenticatePassword_def by (intro read_only)

lemma reads_AccountService_VerifyPassword [read_only]:
  "reads (AccountService_VerifyPassword idkey username password)"
  unfolding AccountService_VerifyPassword_def by (intro read_only)

lemma reads_ResolveJWTPrincipal [read_only]: "reads (ResolveJWTPrincipal username)"
  unfolding ResolveJWTPrincipal_def by (intro read_only)

lemma reads_authorizeCurrentUser [read_only]: "reads (authorizeCurrentUser p a)"
  unfolding authorizeCurrentUser_def by (intro read_only)

lemma reads_TokenService_List [read_only]: "reads (TokenService_List p page sz)"
  unfolding TokenService_List_def by (intro read_only)

lemma reads_TokenService_Reveal [read_only]: "reads (TokenService_Reveal idkey p tokenID password)"
  unfolding TokenService_Reveal_def by (intro read_only)

lemma reads_pat_authenticate [read_only]: "reads (pat_authenticate hmac pepper username plaintext)"
  unfolding pat_authenticate_def by (intro read_only)

end
