(* ===== verification/IdentityInvariant.thy ===== *)
theory IdentityInvariant imports UserService TeamService TokenService begin

text \<open>
  The invariants of the identity tables. \<open>identity_ok\<close> collects what the constraints and the hooks
  keep row by row: keys are unique, references resolve, columns with a fixed set of values hold one
  of them, an invitation has at most one terminal time and a Team and user at most one open
  invitation. \<open>active_admin\<close> and \<open>teams_owned\<close> are the promises no constraint of the database
  gives: there is always an active administrator, and every Team has an owner. Each operation is
  proved to keep them for every schedule of database failures.
\<close>

section \<open>Predicates\<close>

definition users_ok :: "db \<Rightarrow> bool" where
  "users_ok d \<longleftrightarrow>
     distinct (map user_ID (users d)) \<and> distinct (map user_Username (users d)) \<and>
     (\<forall>u \<in> set (users d). valid_user_status (user_Status u) \<and> canonical_slug (user_Username u))"

definition namespaces_ok :: "db \<Rightarrow> bool" where
  "namespaces_ok d \<longleftrightarrow>
     distinct (map ns_ID (namespaces d)) \<and> distinct (map ns_Slug (namespaces d)) \<and>
     (\<forall>n \<in> set (namespaces d). canonical_slug (ns_Slug n) \<and> namespace_refs d n \<and>
        (ns_Kind n = NamespaceKindUser \<and> ns_OwnerUserID n \<noteq> None \<or>
         ns_Kind n = NamespaceKindTeam \<and> ns_OwnerUserID n = None)) \<and>
     (\<forall>n \<in> set (namespaces d). \<forall>m \<in> set (namespaces d).
        ns_OwnerUserID n = ns_OwnerUserID m \<longrightarrow> ns_OwnerUserID n \<noteq> None \<longrightarrow> n = m)"

definition groups_ok :: "db \<Rightarrow> bool" where
  "groups_ok d \<longleftrightarrow>
     distinct (map (\<lambda>m. (gm_UserID m, gm_GroupID m)) (group_memberships d)) \<and>
     (\<forall>m \<in> set (group_memberships d). gm_GroupID m \<noteq> DefaultSystemGroupID \<and> user_exists d (gm_UserID m))"

definition members_ok :: "db \<Rightarrow> bool" where
  "members_ok d \<longleftrightarrow>
     distinct (map membership_key (team_memberships d)) \<and>
     (\<forall>m \<in> set (team_memberships d).
        is_team_namespace d (tm_NamespaceID m) \<and> user_exists d (tm_UserID m) \<and> IsTeamRole (tm_Role m))"

definition tokens_ok :: "db \<Rightarrow> bool" where
  "tokens_ok d \<longleftrightarrow>
     distinct (map tok_ID (tokens d)) \<and> distinct (map tok_SecretHMAC (tokens d)) \<and>
     (\<forall>k \<in> set (tokens d). user_exists d (tok_UserID k) \<and> IsSupportedPreset (tok_Preset k))"

definition inv_terminal_count :: "team_invitation_row \<Rightarrow> nat" where
  "inv_terminal_count i =
     (if inv_AcceptedAt i = None then 0 else 1) + (if inv_RejectedAt i = None then 0 else 1) +
     (if inv_RevokedAt i = None then 0 else 1)"

definition invitations_ok :: "db \<Rightarrow> bool" where
  "invitations_ok d \<longleftrightarrow>
     distinct (map inv_ID (team_invitations d)) \<and>
     (\<forall>i \<in> set (team_invitations d).
        is_team_namespace d (inv_NamespaceID i) \<and> user_exists d (inv_UserID i) \<and> IsTeamRole (inv_Role i) \<and>
        inv_terminal_count i \<le> 1) \<and>
     (\<forall>i \<in> set (team_invitations d). \<forall>j \<in> set (team_invitations d).
        inv_open i \<longrightarrow> inv_open j \<longrightarrow> inv_NamespaceID i = inv_NamespaceID j \<longrightarrow> inv_UserID i = inv_UserID j \<longrightarrow> i = j)"

definition identity_ok :: "db \<Rightarrow> bool" where
  "identity_ok d \<longleftrightarrow>
     users_ok d \<and> namespaces_ok d \<and> groups_ok d \<and> members_ok d \<and> tokens_ok d \<and> invitations_ok d"

lemmas identity_ok_defs =
  identity_ok_def users_ok_def namespaces_ok_def groups_ok_def members_ok_def tokens_ok_def invitations_ok_def

text \<open>An administrator who is active.\<close>

definition active_admin :: "db \<Rightarrow> bool" where
  "active_admin d \<longleftrightarrow>
     (\<exists>m \<in> set (group_memberships d). \<exists>u \<in> set (users d).
        is_admin_row m \<and> user_ID u = gm_UserID m \<and> user_Status u = UserStatusActive)"

definition teams_owned :: "db \<Rightarrow> bool" where
  "teams_owned d \<longleftrightarrow>
     (\<forall>n \<in> set (namespaces d). ns_Kind n = NamespaceKindTeam \<longrightarrow>
        (\<exists>m \<in> set (team_memberships d). tm_NamespaceID m = ns_ID n \<and> tm_Role m = TeamRoleOwner))"

section \<open>Existence is stable\<close>

lemma user_exists_iff: "user_exists d uid \<longleftrightarrow> uid \<in> user_ID ` set (users d)"
  by (auto simp: user_exists_def)

lemma is_team_namespace_iff:
  "is_team_namespace d nid \<longleftrightarrow> (nid, NamespaceKindTeam) \<in> (\<lambda>n. (ns_ID n, ns_Kind n)) ` set (namespaces d)"
  by (auto simp: is_team_namespace_def)

lemma namespace_refs_iff: "namespace_refs d n \<longleftrightarrow> (\<forall>uid. ns_OwnerUserID n = Some uid \<longrightarrow> user_exists d uid)"
  by (auto simp: namespace_refs_def split: option.splits)

text \<open>\<open>grows d d'\<close>: \<open>d'\<close> has at least the users and Teams of \<open>d\<close>.\<close>

definition grows :: "db \<Rightarrow> db \<Rightarrow> bool" where
  "grows d d' \<longleftrightarrow>
     (\<forall>uid. user_exists d uid \<longrightarrow> user_exists d' uid) \<and>
     (\<forall>nid. is_team_namespace d nid \<longrightarrow> is_team_namespace d' nid)"

lemma groups_ok_grows:
  "groups_ok d \<Longrightarrow> grows d d' \<Longrightarrow> group_memberships d' = group_memberships d \<Longrightarrow> groups_ok d'"
  by (auto simp: groups_ok_def grows_def)

lemma members_ok_grows:
  "members_ok d \<Longrightarrow> grows d d' \<Longrightarrow> team_memberships d' = team_memberships d \<Longrightarrow> members_ok d'"
  by (auto simp: members_ok_def grows_def)

lemma tokens_ok_grows: "tokens_ok d \<Longrightarrow> grows d d' \<Longrightarrow> tokens d' = tokens d \<Longrightarrow> tokens_ok d'"
  by (auto simp: tokens_ok_def grows_def)

lemma invitations_ok_grows:
  "invitations_ok d \<Longrightarrow> grows d d' \<Longrightarrow> team_invitations d' = team_invitations d \<Longrightarrow> invitations_ok d'"
  by (auto simp: invitations_ok_def grows_def)

lemma namespaces_ok_grows:
  "namespaces_ok d \<Longrightarrow> grows d d' \<Longrightarrow> namespaces d' = namespaces d \<Longrightarrow> namespaces_ok d'"
  unfolding namespaces_ok_def namespace_refs_iff grows_def by metis

lemmas grows_rules =
  groups_ok_grows members_ok_grows tokens_ok_grows invitations_ok_grows namespaces_ok_grows

section \<open>Changes of one table\<close>

lemma image_update_where:
  "(\<And>r. P r \<Longrightarrow> k (f r) = k r) \<Longrightarrow> k ` set (update_where P f rows) = k ` set rows"
  by (metis list.set_map map_update_where)

lemma users_ok_add:
  "users_ok d \<Longrightarrow> user_unique d u \<Longrightarrow> User_BeforeCreate lw u = None \<Longrightarrow>
   user_ID u' = user_ID u \<Longrightarrow> user_Username u' = user_Username u \<Longrightarrow> user_Status u' = user_Status u \<Longrightarrow>
   users_ok (d\<lparr>users := users d @ [u']\<rparr>)"
  by (auto simp: users_ok_def user_unique_def valid_user_status_def dest!: User_BeforeCreate_None)

lemma identity_ok_add_user:
  assumes ok: "identity_ok d" and u: "user_unique d u" "User_BeforeCreate lw u = None"
    "user_ID u' = user_ID u" "user_Username u' = user_Username u" "user_Status u' = user_Status u"
  shows "identity_ok (d\<lparr>users := users d @ [u']\<rparr>)"
proof -
  let ?d = "d\<lparr>users := users d @ [u']\<rparr>"
  have g: "grows d ?d" by (auto simp: grows_def user_exists_iff is_team_namespace_iff)
  show ?thesis
    using ok users_ok_add [OF _ u] g by (auto simp: identity_ok_def intro: grows_rules)
qed

lemma identity_ok_change_users:
  assumes ok: "identity_ok d"
    and f: "\<And>u. P u \<Longrightarrow> user_ID (f u) = user_ID u \<and> user_Username (f u) = user_Username u \<and>
                  (valid_user_status (user_Status u) \<longrightarrow> valid_user_status (user_Status (f u)))"
  shows "identity_ok (d\<lparr>users := update_where P f (users d)\<rparr>)"
proof -
  let ?d = "d\<lparr>users := update_where P f (users d)\<rparr>"
  have "user_ID ` set (users ?d) = user_ID ` set (users d)"
    using image_update_where [of P user_ID f] f by simp
  then have g: "grows d ?d" by (simp add: grows_def user_exists_iff is_team_namespace_iff)
  have "users_ok ?d"
    using ok f by (auto simp: identity_ok_def users_ok_def map_update_where set_update_where)
  then show ?thesis using ok g by (auto simp: identity_ok_def intro: grows_rules)
qed

lemma namespaces_ok_add:
  assumes ok: "namespaces_ok d" and n: "namespace_unique d n" "namespace_refs d n" "Namespace_BeforeCreate lw n = None"
    "ns_ID n' = ns_ID n" "ns_Slug n' = ns_Slug n" "ns_Kind n' = ns_Kind n" "ns_OwnerUserID n' = ns_OwnerUserID n"
  shows "namespaces_ok (d\<lparr>namespaces := namespaces d @ [n']\<rparr>)"
proof -
  have refs: "namespace_refs (d\<lparr>namespaces := namespaces d @ [n']\<rparr>) m = namespace_refs d m" for m
    by (simp add: namespace_refs_iff user_exists_def)
  have refs': "namespace_refs d n'" using n by (simp add: namespace_refs_iff)
  from n(3) have shape: "canonical_slug (ns_Slug n)"
    "ns_Kind n = NamespaceKindUser \<and> ns_OwnerUserID n \<noteq> None \<or> ns_Kind n = NamespaceKindTeam \<and> ns_OwnerUserID n = None"
    by (auto dest!: Namespace_BeforeCreate_None)
  show ?thesis
    using ok n(1,4,5,6,7) refs' shape
    unfolding namespaces_ok_def refs namespace_unique_def
    by (simp, intro conjI ballI impI) (auto; metis)+
qed

lemma identity_ok_add_namespace:
  assumes ok: "identity_ok d" and n: "namespace_unique d n" "namespace_refs d n" "Namespace_BeforeCreate lw n = None"
    "ns_ID n' = ns_ID n" "ns_Slug n' = ns_Slug n" "ns_Kind n' = ns_Kind n" "ns_OwnerUserID n' = ns_OwnerUserID n"
  shows "identity_ok (d\<lparr>namespaces := namespaces d @ [n']\<rparr>)"
proof -
  let ?d = "d\<lparr>namespaces := namespaces d @ [n']\<rparr>"
  have g: "grows d ?d" by (auto simp: grows_def user_exists_iff is_team_namespace_iff)
  have "users_ok ?d" using ok by (simp add: identity_ok_def users_ok_def)
  then show ?thesis using ok namespaces_ok_add [OF _ n] g by (auto simp: identity_ok_def intro: grows_rules)
qed

lemma identity_ok_rename_namespaces:
  assumes ok: "identity_ok d"
  shows "identity_ok (d\<lparr>namespaces := update_where P (\<lambda>n. n\<lparr>ns_DisplayName := x, ns_UpdatedAt := t\<rparr>) (namespaces d)\<rparr>)"
proof -
  let ?f = "\<lambda>n. n\<lparr>ns_DisplayName := x, ns_UpdatedAt := t\<rparr>"
  let ?d = "d\<lparr>namespaces := update_where P ?f (namespaces d)\<rparr>"
  have "(\<lambda>n. (ns_ID n, ns_Kind n)) ` set (namespaces ?d) = (\<lambda>n. (ns_ID n, ns_Kind n)) ` set (namespaces d)"
    using image_update_where [of P "\<lambda>n. (ns_ID n, ns_Kind n)" ?f] by simp
  then have g: "grows d ?d" by (simp add: grows_def user_exists_iff is_team_namespace_iff)
  have refs: "namespace_refs ?d m = namespace_refs d m" for m by (simp add: namespace_refs_iff user_exists_def)
  have "users_ok ?d" using ok by (simp add: identity_ok_def users_ok_def)
  moreover have "namespaces_ok ?d"
  proof -
    let ?g = "\<lambda>n. if P n then ?f n else n"
    have s: "set (namespaces ?d) = ?g ` set (namespaces d)" by (simp add: set_update_where)
    have k: "ns_Slug (?g n) = ns_Slug n" "ns_Kind (?g n) = ns_Kind n" "ns_OwnerUserID (?g n) = ns_OwnerUserID n"
      "namespace_refs d (?g n) = namespace_refs d n" for n by (auto simp: namespace_refs_def)
    have m: "map ns_ID (namespaces ?d) = map ns_ID (namespaces d)" "map ns_Slug (namespaces ?d) = map ns_Slug (namespaces d)"
      by (simp_all add: map_update_where)
    from ok have o: "\<forall>n \<in> set (namespaces d). \<forall>m \<in> set (namespaces d).
        ns_OwnerUserID n = ns_OwnerUserID m \<longrightarrow> ns_OwnerUserID n \<noteq> None \<longrightarrow> ?g n = ?g m"
      unfolding identity_ok_def namespaces_ok_def by metis
    show ?thesis using ok o unfolding identity_ok_def namespaces_ok_def refs m s ball_simps k by blast
  qed
  ultimately show ?thesis using ok g by (auto simp: identity_ok_def intro: grows_rules)
qed

lemma same_tables:
  "users d' = users d \<Longrightarrow> namespaces d' = namespaces d \<Longrightarrow>
   grows d d' \<and> users_ok d' = users_ok d \<and> namespaces_ok d' = namespaces_ok d"
  by (auto simp: grows_def users_ok_def namespaces_ok_def user_exists_def is_team_namespace_def namespace_refs_iff)

lemma identity_ok_groups:
  assumes ok: "identity_ok d" and g: "groups_ok (d\<lparr>group_memberships := ms\<rparr>)"
  shows "identity_ok (d\<lparr>group_memberships := ms\<rparr>)"
  using ok g same_tables [of "d\<lparr>group_memberships := ms\<rparr>" d]
  by (auto simp: identity_ok_def intro: grows_rules)

lemma identity_ok_members:
  assumes ok: "identity_ok d" and g: "members_ok (d\<lparr>team_memberships := ms\<rparr>)"
  shows "identity_ok (d\<lparr>team_memberships := ms\<rparr>)"
  using ok g same_tables [of "d\<lparr>team_memberships := ms\<rparr>" d]
  by (auto simp: identity_ok_def intro: grows_rules)

lemma identity_ok_tokens:
  assumes ok: "identity_ok d" and g: "tokens_ok (d\<lparr>tokens := ks\<rparr>)"
  shows "identity_ok (d\<lparr>tokens := ks\<rparr>)"
  using ok g same_tables [of "d\<lparr>tokens := ks\<rparr>" d]
  by (auto simp: identity_ok_def intro: grows_rules)

lemma identity_ok_invitations:
  assumes ok: "identity_ok d" and g: "invitations_ok (d\<lparr>team_invitations := is\<rparr>)"
  shows "identity_ok (d\<lparr>team_invitations := is\<rparr>)"
  using ok g same_tables [of "d\<lparr>team_invitations := is\<rparr>" d]
  by (auto simp: identity_ok_def intro: grows_rules)

lemma identity_ok_system_groups: "identity_ok d \<Longrightarrow> identity_ok (d\<lparr>system_groups := gs\<rparr>)"
  using same_tables [of "d\<lparr>system_groups := gs\<rparr>" d]
  by (auto simp: identity_ok_def intro: grows_rules)

lemma exists_other_tables [simp]:
  "user_exists (d\<lparr>group_memberships := a\<rparr>) = user_exists d" "user_exists (d\<lparr>team_memberships := b\<rparr>) = user_exists d"
  "user_exists (d\<lparr>tokens := c\<rparr>) = user_exists d" "user_exists (d\<lparr>team_invitations := e\<rparr>) = user_exists d"
  "is_team_namespace (d\<lparr>team_memberships := b\<rparr>) = is_team_namespace d"
  "is_team_namespace (d\<lparr>team_invitations := e\<rparr>) = is_team_namespace d"
  "is_team_namespace (d\<lparr>users := h\<rparr>) = is_team_namespace d"
  by (auto simp: user_exists_def is_team_namespace_def fun_eq_iff)

lemma groups_ok_add:
  "groups_ok d \<Longrightarrow> user_exists d (gm_UserID m) \<Longrightarrow> gm_GroupID m \<noteq> DefaultSystemGroupID \<Longrightarrow>
   \<forall>m' \<in> set (group_memberships d). \<not> (gm_UserID m' = gm_UserID m \<and> gm_GroupID m' = gm_GroupID m) \<Longrightarrow>
   groups_ok (d\<lparr>group_memberships := group_memberships d @ [m]\<rparr>)"
  by (auto simp: groups_ok_def)

lemma groups_ok_delete:
  "groups_ok d \<Longrightarrow> groups_ok (d\<lparr>group_memberships := delete_where P (group_memberships d)\<rparr>)"
  by (auto simp: groups_ok_def distinct_map_delete_where)

lemma members_ok_add:
  "members_ok d \<Longrightarrow> is_team_namespace d (tm_NamespaceID m) \<Longrightarrow> user_exists d (tm_UserID m) \<Longrightarrow>
   IsTeamRole (tm_Role m) \<Longrightarrow> \<forall>m' \<in> set (team_memberships d). membership_key m' \<noteq> membership_key m \<Longrightarrow>
   members_ok (d\<lparr>team_memberships := team_memberships d @ [m]\<rparr>)"
  by (auto simp: members_ok_def)

lemma members_ok_delete:
  "members_ok d \<Longrightarrow> members_ok (d\<lparr>team_memberships := delete_where P (team_memberships d)\<rparr>)"
  by (auto simp: members_ok_def distinct_map_delete_where)

lemma members_ok_role:
  "members_ok d \<Longrightarrow> IsTeamRole role \<Longrightarrow>
   members_ok (d\<lparr>team_memberships := update_where P (\<lambda>m. m\<lparr>tm_Role := role, tm_UpdatedAt := t\<rparr>) (team_memberships d)\<rparr>)"
  by (auto simp: members_ok_def map_update_where set_update_where membership_key_def)

lemma tokens_ok_add:
  "tokens_ok d \<Longrightarrow> user_exists d (tok_UserID k) \<Longrightarrow> IsSupportedPreset (tok_Preset k) \<Longrightarrow>
   \<forall>k' \<in> set (tokens d). tok_ID k' \<noteq> tok_ID k \<and> tok_SecretHMAC k' \<noteq> tok_SecretHMAC k \<Longrightarrow>
   tokens_ok (d\<lparr>tokens := tokens d @ [k]\<rparr>)"
  by (auto simp: tokens_ok_def)

lemma tokens_ok_update:
  "tokens_ok d \<Longrightarrow>
   (\<And>k. P k \<Longrightarrow> tok_ID (f k) = tok_ID k \<and> tok_SecretHMAC (f k) = tok_SecretHMAC k \<and>
                tok_UserID (f k) = tok_UserID k \<and> tok_Preset (f k) = tok_Preset k) \<Longrightarrow>
   tokens_ok (d\<lparr>tokens := update_where P f (tokens d)\<rparr>)"
  by (auto simp: tokens_ok_def map_update_where set_update_where)


lemma invitations_ok_add:
  "invitations_ok d \<Longrightarrow> is_team_namespace d (inv_NamespaceID i) \<Longrightarrow> user_exists d (inv_UserID i) \<Longrightarrow>
   IsTeamRole (inv_Role i) \<Longrightarrow> inv_open i \<Longrightarrow>
   \<forall>j \<in> set (team_invitations d). inv_ID j \<noteq> inv_ID i \<and> \<not> pending_for (inv_NamespaceID i) (inv_UserID i) j \<Longrightarrow>
   invitations_ok (d\<lparr>team_invitations := team_invitations d @ [i]\<rparr>)"
  by (auto simp: invitations_ok_def pending_for_def inv_terminal_count_def inv_open_def)

definition closes :: "(team_invitation_row \<Rightarrow> team_invitation_row) \<Rightarrow> bool" where
  "closes f \<longleftrightarrow>
     (\<forall>i. inv_ID (f i) = inv_ID i \<and> inv_NamespaceID (f i) = inv_NamespaceID i \<and> inv_UserID (f i) = inv_UserID i \<and>
          inv_Role (f i) = inv_Role i \<and> \<not> inv_open (f i) \<and>
          (inv_open i \<longrightarrow> inv_terminal_count (f i) = 1))"

lemma closes_terminate [simp]: "closes (inv_terminate t)"
  by (simp add: closes_def inv_terminate_def inv_open_def inv_terminal_count_def)

lemma closes_answer [simp]:
  "closes (\<lambda>j. j\<lparr>inv_AcceptedAt := Some t, inv_UpdatedAt := t\<rparr>)"
  "closes (\<lambda>j. j\<lparr>inv_RejectedAt := Some t, inv_UpdatedAt := t\<rparr>)"
  by (simp_all add: closes_def inv_open_def inv_terminal_count_def)

lemma invitations_ok_close:
  assumes ok: "invitations_ok d" and f: "closes f" and P: "\<And>i. i \<in> set (team_invitations d) \<Longrightarrow> P i \<Longrightarrow> inv_open i"
  shows "invitations_ok (d\<lparr>team_invitations := update_where P f (team_invitations d)\<rparr>)"
proof -
  let ?g = "\<lambda>i. if P i then f i else i"
  let ?is = "team_invitations d"
  let ?d = "d\<lparr>team_invitations := update_where P f ?is\<rparr>"
  have m: "map inv_ID (team_invitations ?d) = map inv_ID ?is"
    using f by (simp add: map_update_where closes_def)
  have s: "set (team_invitations ?d) = ?g ` set ?is" by (simp add: set_update_where)
  have rows: "\<forall>i \<in> set ?is. is_team_namespace d (inv_NamespaceID (?g i)) \<and> user_exists d (inv_UserID (?g i)) \<and>
      IsTeamRole (inv_Role (?g i)) \<and> inv_terminal_count (?g i) \<le> 1"
    using ok f P by (auto simp: invitations_ok_def closes_def)
  have "inv_open (?g i) \<Longrightarrow> ?g i = i" for i using f by (auto simp: closes_def)
  then have uniq: "\<forall>i \<in> set ?is. \<forall>j \<in> set ?is. inv_open (?g i) \<longrightarrow> inv_open (?g j) \<longrightarrow>
      inv_NamespaceID (?g i) = inv_NamespaceID (?g j) \<longrightarrow> inv_UserID (?g i) = inv_UserID (?g j) \<longrightarrow> ?g i = ?g j"
    using ok unfolding invitations_ok_def by metis
  show ?thesis
    using ok rows uniq unfolding invitations_ok_def m s ball_simps exists_other_tables by blast
qed

section \<open>Administrators and owners\<close>

text \<open>What the services keep: the rows, an active administrator and an owner of every Team.\<close>

definition sys_ok :: "db \<Rightarrow> bool" where
  "sys_ok d \<longleftrightarrow> identity_ok d \<and> active_admin d \<and> teams_owned d"

lemma other_tables [simp]:
  "active_admin (d\<lparr>tokens := a\<rparr>) = active_admin d" "teams_owned (d\<lparr>tokens := a\<rparr>) = teams_owned d"
  "active_admin (d\<lparr>team_invitations := b\<rparr>) = active_admin d" "teams_owned (d\<lparr>team_invitations := b\<rparr>) = teams_owned d"
  "active_admin (d\<lparr>team_memberships := c\<rparr>) = active_admin d" "active_admin (d\<lparr>namespaces := e\<rparr>) = active_admin d"
  "teams_owned (d\<lparr>users := g\<rparr>) = teams_owned d" "teams_owned (d\<lparr>group_memberships := h\<rparr>) = teams_owned d"
  by (simp_all add: active_admin_def teams_owned_def)

lemma identity_ok_usersD:
  "identity_ok d \<Longrightarrow> distinct (map user_ID (users d))"
  "identity_ok d \<Longrightarrow> distinct (map (\<lambda>m. (gm_UserID m, gm_GroupID m)) (group_memberships d))"
  "identity_ok d \<Longrightarrow> distinct (map membership_key (team_memberships d))"
  "identity_ok d \<Longrightarrow> distinct (map inv_ID (team_invitations d))"
  by (simp_all add: identity_ok_defs)

abbreviation admin_pair :: "group_membership_row \<times> user_row \<Rightarrow> bool" where
  "admin_pair \<equiv> \<lambda>(m, u). is_admin_row m \<and> user_ID u = gm_UserID m \<and> user_Status u = UserStatusActive"

lemma admin_pair_unique:
  assumes "identity_ok d" "m \<in> set (group_memberships d)" "u \<in> set (users d)" "m' \<in> set (group_memberships d)"
    "u' \<in> set (users d)" "admin_pair (m, u)" "admin_pair (m', u')" "gm_UserID m = gm_UserID m'"
  shows "(m, u) = (m', u')"
proof -
  have "m = m'"
    by (rule distinct_map_same [OF identity_ok_usersD(2) [OF assms(1)] assms(2,4)])
      (use assms in \<open>simp add: is_admin_row_def\<close>)
  moreover have "u = u'"
    by (rule distinct_map_same [OF identity_ok_usersD(1) [OF assms(1)] assms(3,5)]) (use assms in simp)
  ultimately show ?thesis by simp
qed

text \<open>With two active administrators there is one apart from any given user.\<close>

lemma other_active_admin:
  assumes ok: "identity_ok d" and two: "\<not> active_admin_count d \<le> 1"
  shows "\<exists>m \<in> set (group_memberships d). \<exists>u \<in> set (users d). admin_pair (m, u) \<and> gm_UserID m \<noteq> uid"
proof (cases "\<exists>m \<in> set (group_memberships d). \<exists>u \<in> set (users d). admin_pair (m, u) \<and> gm_UserID m = uid")
  case False
  have "0 < active_admin_count d" using two by simp
  then show ?thesis using False unfolding active_admin_count_def count_where_pos_iff by auto
next
  case True
  then obtain m u where mu: "m \<in> set (group_memberships d)" "u \<in> set (users d)" "admin_pair (m, u)" "gm_UserID m = uid"
    by blast
  have "distinct (List.product (group_memberships d) (users d))"
    using identity_ok_usersD(1,2) [OF ok] by (auto simp: distinct_product distinct_map)
  moreover have "2 \<le> count_where admin_pair (List.product (group_memberships d) (users d))"
    using two by (simp add: active_admin_count_def)
  ultimately obtain y where "y \<in> set (List.product (group_memberships d) (users d))" "admin_pair y" "y \<noteq> (m, u)"
    using count_where_two_other [of admin_pair _ "(m, u)"] by blast
  note y0 = this
  obtain m' u' where "y = (m', u')" by (cases y)
  with y0 have y: "m' \<in> set (group_memberships d)" "u' \<in> set (users d)" "admin_pair (m', u')" "(m', u') \<noteq> (m, u)"
    by simp_all
  have "gm_UserID m' \<noteq> uid"
  proof
    assume "gm_UserID m' = uid"
    with mu(4) have eq: "gm_UserID m' = gm_UserID m" by simp
    from admin_pair_unique [OF ok y(1,2) mu(1,2) y(3) mu(3) eq] y(4) show False by contradiction
  qed
  with y show ?thesis by blast
qed

lemma active_admin_add_user: "active_admin d \<Longrightarrow> active_admin (d\<lparr>users := users d @ [u]\<rparr>)"
  by (auto simp: active_admin_def)

lemma active_admin_add_membership:
  "active_admin d \<Longrightarrow> active_admin (d\<lparr>group_memberships := group_memberships d @ [m]\<rparr>)"
  by (auto simp: active_admin_def)

lemma active_admin_update_users:
  assumes "active_admin d" "\<And>u. user_ID (f u) = user_ID u" "\<And>u. user_Status (f u) = user_Status u"
  shows "active_admin (d\<lparr>users := update_where P f (users d)\<rparr>)"
proof -
  from assms(1) obtain m u where m: "m \<in> set (group_memberships d)" "u \<in> set (users d)" "admin_pair (m, u)"
    by (auto simp: active_admin_def)
  have "(if P u then f u else u) \<in> set (update_where P f (users d))" using m by (auto simp: set_update_where)
  moreover have "admin_pair (m, if P u then f u else u)" using m(3) assms(2,3) by auto
  ultimately show ?thesis using m(1) unfolding active_admin_def by auto
qed

lemma active_admin_keep_other:
  assumes "m \<in> set (group_memberships d)" "u \<in> set (users d)" "admin_pair (m, u)" "\<not> P u"
  shows "active_admin (d\<lparr>users := update_where P f (users d)\<rparr>)"
proof -
  have "u \<in> set (update_where P f (users d))" using assms by (force simp: set_update_where)
  then show ?thesis using assms unfolding active_admin_def by auto
qed

lemma active_admin_enable:
  assumes "active_admin d" "\<And>u. user_ID (f u) = user_ID u" "\<And>u. user_Status (f u) = UserStatusActive"
  shows "active_admin (d\<lparr>users := update_where P f (users d)\<rparr>)"
proof -
  from assms(1) obtain m u where m: "m \<in> set (group_memberships d)" "u \<in> set (users d)" "admin_pair (m, u)"
    by (auto simp: active_admin_def)
  have "(if P u then f u else u) \<in> set (update_where P f (users d))" using m by (auto simp: set_update_where)
  moreover have "admin_pair (m, if P u then f u else u)" using m(3) assms(2,3) by auto
  ultimately show ?thesis using m(1) unfolding active_admin_def by auto
qed

lemma teams_owned_add_membership:
  "teams_owned d \<Longrightarrow> teams_owned (d\<lparr>team_memberships := team_memberships d @ [m]\<rparr>)"
  by (auto simp: teams_owned_def)

lemma teams_owned_add_user_namespace:
  "teams_owned d \<Longrightarrow> ns_Kind n \<noteq> NamespaceKindTeam \<Longrightarrow> teams_owned (d\<lparr>namespaces := namespaces d @ [n]\<rparr>)"
  by (auto simp: teams_owned_def)

lemma teams_owned_rename:
  "teams_owned d \<Longrightarrow>
   teams_owned (d\<lparr>namespaces := update_where P (\<lambda>n. n\<lparr>ns_DisplayName := x, ns_UpdatedAt := t\<rparr>) (namespaces d)\<rparr>)"
  by (auto simp: teams_owned_def set_update_where)

text \<open>Taking the owner role from one member keeps every Team owned when another owner is left.\<close>

lemma teams_owned_change:
  assumes own: "teams_owned d"
    and rest: "\<And>m. m \<in> set (team_memberships d) \<Longrightarrow> tm_Role m = TeamRoleOwner \<Longrightarrow> membership_key m \<noteq> (nid, uid) \<Longrightarrow>
                  m \<in> set ms"
    and other: "(\<exists>m \<in> set (team_memberships d). tm_NamespaceID m = nid \<and> tm_Role m = TeamRoleOwner \<and> tm_UserID m \<noteq> uid) \<or>
                (\<exists>m \<in> set ms. tm_NamespaceID m = nid \<and> tm_Role m = TeamRoleOwner) \<or>
                (\<forall>m \<in> set (team_memberships d). membership_key m = (nid, uid) \<longrightarrow> tm_Role m \<noteq> TeamRoleOwner)"
  shows "teams_owned (d\<lparr>team_memberships := ms\<rparr>)"
  unfolding teams_owned_def
proof (intro ballI impI)
  fix n assume n: "n \<in> set (namespaces (d\<lparr>team_memberships := ms\<rparr>))" "ns_Kind n = NamespaceKindTeam"
  with own obtain m where m: "m \<in> set (team_memberships d)" "tm_NamespaceID m = ns_ID n" "tm_Role m = TeamRoleOwner"
    by (auto simp: teams_owned_def)
  show "\<exists>m \<in> set (team_memberships (d\<lparr>team_memberships := ms\<rparr>)). tm_NamespaceID m = ns_ID n \<and> tm_Role m = TeamRoleOwner"
  proof (cases "membership_key m = (nid, uid)")
    case False
    with rest [OF m(1,3)] m show ?thesis by auto
  next
    case True
    then have "ns_ID n = nid" using m by (simp add: membership_key_def)
    with other m True rest show ?thesis by (fastforce simp: membership_key_def)
  qed
qed

end
