(* ===== verification/ServiceContract.thy ===== *)
theory ServiceContract imports UserService TeamService TokenService begin

text \<open>
  The interface between the identity services and their store. The services change the database
  only through the sixteen operations of the data access objects; the locale \<open>identity_invariant\<close>
  states what a property of the database has to satisfy to be an invariant of the domain, namely
  that each of those operations keeps it for the arguments a service may pass, and proves once that
  then every operation of every service keeps it, and so does every step of the state machine.

  A step is one operation of a service with any arguments and any outcome; between the operations
  the database may start or stop failing (\<open>change_faults\<close>).
\<close>

section \<open>Steps\<close>

inductive identity_step :: "world \<Rightarrow> world \<Rightarrow> bool" where
  change_faults: "identity_step w (w\<lparr>w_faults := fs\<rparr>)"
| restart: "identity_step w (snd (Bootstrap env hash w))"
| register: "identity_step w (snd (UserService_Register hash input w))"
| create_user: "identity_step w (snd (UserService_Create hash p input w))"
| update_user: "identity_step w (snd (UserService_UpdateDisplayName p uid x w))"
| set_enabled: "identity_step w (snd (UserService_SetEnabled p uid b w))"
| set_admin: "identity_step w (snd (UserService_SetSystemAdmin p uid b w))"
| create_team: "identity_step w (snd (TeamService_Create p slug x w))"
| update_team: "identity_step w (snd (TeamService_Update p slug x w))"
| put_member: "identity_step w (snd (TeamService_PutMember p slug uid role w))"
| remove_member: "identity_step w (snd (TeamService_RemoveMember p slug uid w))"
| invite: "identity_step w (snd (TeamService_Invite p slug username role w))"
| respond: "identity_step w (snd (TeamService_Respond p iid accept w))"
| revoke_invitation: "identity_step w (snd (TeamService_Revoke p slug iid w))"
| reissue_invitation: "identity_step w (snd (TeamService_Reissue p slug iid w))"
| create_token: "identity_step w (snd (TokenService_Create hmac pepper random p token w))"
| revoke_token: "identity_step w (snd (TokenService_Revoke p tid w))"
| use_git_token: "identity_step w (snd (AuthenticateGitPAT hmac pepper username plaintext operation w))"
| use_subscription_token: "identity_step w (snd (AuthenticateSubscriptionPAT hmac pepper username plaintext w))"

lemma keeps_snd: "keeps I m \<Longrightarrow> I (w_db w) \<Longrightarrow> I (w_db (snd (m w)))"
  by (simp add: keeps_def)

section \<open>Invariants of the store\<close>

locale identity_invariant =
  fixes I :: "db \<Rightarrow> bool"
  assumes I_CreateUser:
      "ns_Kind n = NamespaceKindUser \<Longrightarrow> keeps I (CreateUserWithPersonalNamespace u n)"
    and I_UpdateUserDisplayName: "keeps I (UpdateUserDisplayName uid x t)"
    and I_SetUserStatus: "keeps I (SetUserStatus actor uid status t)"
    and I_SetSystemAdmin: "keeps I (SetSystemAdmin actor uid enabled)"
    and I_CreateTeam:
      "ns_Kind n = NamespaceKindTeam \<Longrightarrow> tm_NamespaceID m = ns_ID n \<Longrightarrow> tm_Role m = TeamRoleOwner \<Longrightarrow>
       keeps I (CreateTeam n m)"
    and I_UpdateTeamDisplayName: "keeps I (UpdateTeamDisplayName nid x t)"
    and I_PutTeamMember: "keeps I (PutTeamMember nid uid role t)"
    and I_RemoveTeamMember: "keeps I (RemoveTeamMember nid uid)"
    and I_CreateTeamInvitation: "inv_open i \<Longrightarrow> keeps I (CreateTeamInvitation i)"
    and I_RespondInvitation: "keeps I (RespondInvitation iid uid accept t)"
    and I_RevokeInvitation: "keeps I (RevokeInvitation nid iid t)"
    and I_ReissueInvitation: "keeps I (ReissueInvitation nid iid newID t expiresAt)"
    and I_CreateToken: "keeps I (CreateToken k)"
    and I_RevokeToken: "keeps I (RevokeToken tid uid t)"
    and I_TouchToken: "keeps I (TouchToken tid t)"
    and I_Bootstrap: "keeps I (Bootstrap env hash)"
begin

lemma keeps_UserService_create: "keeps I (UserService_create hash p input req)"
  unfolding UserService_create_def Let_def
  by (intro keeps_bindE keeps_if keeps_map_error keeps_case_prod I_CreateUser keeps_reads read_only) simp

lemma keeps_UserService_UpdateDisplayName: "keeps I (UserService_UpdateDisplayName p uid x)"
  unfolding UserService_UpdateDisplayName_def Let_def
  by (intro keeps_bindE keeps_if keeps_map_error I_UpdateUserDisplayName keeps_reads read_only)

lemma keeps_UserService_SetEnabled: "keeps I (UserService_SetEnabled p uid b)"
  unfolding UserService_SetEnabled_def Let_def
  by (intro keeps_bindE keeps_if keeps_map_error I_SetUserStatus keeps_reads read_only)

lemma keeps_UserService_SetSystemAdmin: "keeps I (UserService_SetSystemAdmin p uid b)"
  unfolding UserService_SetSystemAdmin_def Let_def
  by (intro keeps_bindE keeps_if keeps_map_error I_SetSystemAdmin keeps_reads read_only)

lemma keeps_TeamService_Create: "keeps I (TeamService_Create p slug x)"
  unfolding TeamService_Create_def Let_def
  by (intro keeps_bindE keeps_if keeps_map_error I_CreateTeam keeps_reads read_only) simp_all

lemma keeps_TeamService_Update: "keeps I (TeamService_Update p slug x)"
  unfolding TeamService_Update_def Let_def
  by (intro keeps_bindE keeps_if keeps_map_error keeps_case_prod I_UpdateTeamDisplayName keeps_reads read_only)

lemma keeps_TeamService_PutMember: "keeps I (TeamService_PutMember p slug uid role)"
  unfolding TeamService_PutMember_def Let_def
  by (intro keeps_attempt keeps_bindE keeps_if keeps_map_error keeps_case_prod keeps_case_sum I_PutTeamMember keeps_reads read_only)

lemma keeps_TeamService_RemoveMember: "keeps I (TeamService_RemoveMember p slug uid)"
  unfolding TeamService_RemoveMember_def
  by (intro keeps_bindE keeps_if keeps_map_error keeps_case_prod I_RemoveTeamMember keeps_reads read_only)

lemma keeps_TeamService_Invite: "keeps I (TeamService_Invite p slug username role)"
  unfolding TeamService_Invite_def Let_def
  by (intro keeps_attempt keeps_bindE keeps_if keeps_map_error keeps_case_prod keeps_case_sum
        I_CreateTeamInvitation keeps_reads read_only) (simp add: inv_open_def)

lemma keeps_TeamService_Respond: "keeps I (TeamService_Respond p iid accept)"
  unfolding TeamService_Respond_def
  by (intro keeps_bindE keeps_if keeps_map_error keeps_case_prod keeps_case_option I_RespondInvitation keeps_reads read_only)

lemma keeps_TeamService_Revoke: "keeps I (TeamService_Revoke p slug iid)"
  unfolding TeamService_Revoke_def
  by (intro keeps_bindE keeps_if keeps_map_error keeps_case_prod I_RevokeInvitation keeps_reads read_only)

lemma keeps_TeamService_Reissue: "keeps I (TeamService_Reissue p slug iid)"
  unfolding TeamService_Reissue_def
  by (intro keeps_bindE keeps_if keeps_map_error keeps_case_prod I_ReissueInvitation keeps_reads read_only)

lemma keeps_TokenService_Create: "keeps I (TokenService_Create hmac pepper random p input)"
  unfolding TokenService_Create_def Let_def
  by (intro keeps_bindE keeps_if keeps_map_error keeps_case_prod I_CreateToken keeps_reads read_only)

lemma keeps_TokenService_Revoke: "keeps I (TokenService_Revoke p tid)"
  unfolding TokenService_Revoke_def
  by (intro keeps_bindE keeps_if keeps_map_error I_RevokeToken keeps_reads read_only)

lemma keeps_pat_finish: "keeps I (pat_finish r)"
  unfolding pat_finish_def by (intro keeps_bindE keeps_map_error I_TouchToken keeps_reads read_only)

lemma keeps_AuthenticateGitPAT: "keeps I (AuthenticateGitPAT hmac pepper username plaintext operation)"
  unfolding AuthenticateGitPAT_def by (intro keeps_bindE keeps_if keeps_pat_finish keeps_reads read_only)

lemma keeps_AuthenticateSubscriptionPAT: "keeps I (AuthenticateSubscriptionPAT hmac pepper username plaintext)"
  unfolding AuthenticateSubscriptionPAT_def by (intro keeps_bindE keeps_pat_finish keeps_reads read_only)

lemma keeps_UserService_Register: "keeps I (UserService_Register hash input)"
  unfolding UserService_Register_def by (rule keeps_UserService_create)

lemma keeps_UserService_Create: "keeps I (UserService_Create hash p input)"
  unfolding UserService_Create_def by (rule keeps_UserService_create)

lemmas keeps_services =
  I_Bootstrap keeps_UserService_Register keeps_UserService_Create keeps_UserService_UpdateDisplayName
  keeps_UserService_SetEnabled keeps_UserService_SetSystemAdmin keeps_TeamService_Create keeps_TeamService_Update
  keeps_TeamService_PutMember keeps_TeamService_RemoveMember keeps_TeamService_Invite keeps_TeamService_Respond
  keeps_TeamService_Revoke keeps_TeamService_Reissue keeps_TokenService_Create keeps_TokenService_Revoke
  keeps_AuthenticateGitPAT keeps_AuthenticateSubscriptionPAT

lemma step: "identity_step w w' \<Longrightarrow> I (w_db w) \<Longrightarrow> I (w_db w')"
  by (induction rule: identity_step.induct) (simp_all add: keeps_services [THEN keeps_snd])

lemma steps: "identity_step\<^sup>*\<^sup>* w w' \<Longrightarrow> I (w_db w) \<Longrightarrow> I (w_db w')"
  by (induction rule: rtranclp_induct) (auto intro: step)

end

end
