(* ===== verification/IdentitySystem.thy ===== *)
theory IdentitySystem imports IdentityInvariant ServiceContract begin

text \<open>
  The store keeps the invariants: every operation of the data access objects keeps \<open>sys_ok\<close> for
  every outcome and every schedule of database failures, a bootstrap of an empty database
  establishes it, and so the contract \<open>identity_invariant\<close> holds of it.
\<close>

section \<open>Rules for checked steps\<close>

lemma keeps_hook [stable_progs]:
  "(r = None \<Longrightarrow> keeps I (f ())) \<Longrightarrow> keeps I (bindE (hook r) f)"
  by (cases r) (auto simp: keeps_iff prog_iff hook_def bindE_def return_def fail_def)

lemma keeps_guardE [stable_progs]:
  "(b \<Longrightarrow> keeps I (f ())) \<Longrightarrow> keeps I (bindE (guardE b e) f)"
  by (cases b) (auto simp: keeps_iff guardE_def bindE_def return_def fail_def)

lemma keeps_if_cases [stable_progs]:
  "(b \<Longrightarrow> keeps I m) \<Longrightarrow> (\<not> b \<Longrightarrow> keeps I m') \<Longrightarrow> keeps I (if b then m else m')"
  by simp

lemma keeps_transaction_body: "keeps I m \<Longrightarrow> keeps I (transaction m)"
  by (rule keeps_transaction) (rule keepsD)

lemmas keeps_intros =
  keeps_hook keeps_guardE keeps_bindE keeps_attempt keeps_map_error keeps_if_cases keeps_case_sum
  keeps_case_option keeps_case_prod keeps_Let

lemma sys_okI: "identity_ok d \<Longrightarrow> active_admin d \<Longrightarrow> teams_owned d \<Longrightarrow> sys_ok d"
  by (simp add: sys_ok_def)

lemma identity_ok_parts:
  "identity_ok d \<Longrightarrow> groups_ok d" "identity_ok d \<Longrightarrow> members_ok d" "identity_ok d \<Longrightarrow> tokens_ok d"
  "identity_ok d \<Longrightarrow> invitations_ok d"
  by (simp_all add: identity_ok_def)

text \<open>Elimination rules that follow a successful run statement by statement.\<close>

lemma bindE_InrE:
  assumes "bindE m f w = (Inr y, w')"
  obtains x w1 where "m w = (Inr x, w1)" "f x w1 = (Inr y, w')"
  using assms by (auto simp: bindE_Inr_iff)

lemma attempt_InrE:
  assumes "attempt m k w = (Inr y, w')"
  obtains e w1 where "m w = (Inl e, w1)" "k (Inl e) w1 = (Inr y, w')"
  | x w1 where "m w = (Inr x, w1)" "k (Inr x) w1 = (Inr y, w')"
  using assms by (auto simp: attempt_iff)

lemma map_error_InrD: "map_error h m w = (Inr x, w') \<Longrightarrow> m w = (Inr x, w')"
  by (simp add: map_error_Inr_iff)

lemma take_row_InrD: "take_row f w = (Inr x, w') \<Longrightarrow> f (w_db w) = Some x \<and> w_db w' = w_db w"
  by (simp add: take_row_Inr_iff)

lemma take_row_InlD:
  "take_row f w = (Inl e, w') \<Longrightarrow> (e = driver_failure \<or> e = ErrRecordNotFound \<and> f (w_db w) = None) \<and> w_db w' = w_db w"
  by (auto simp: take_row_Inl_iff split: if_splits)

lemma query_InrD: "query f w = (Inr x, w') \<Longrightarrow> x = f (w_db w) \<and> w_db w' = w_db w"
  by (simp add: query_Inr_iff)

lemma exec_InrD: "exec f w = (Inr x, w') \<Longrightarrow> w_db w' = f (w_db w)"
  by (simp add: exec_Inr_iff)

lemma exec_checked_InrD: "exec_checked c f w = (Inr x, w') \<Longrightarrow> c (w_db w) \<and> w_db w' = f (w_db w)"
  by (simp add: exec_checked_Inr_iff)

lemma return_InrD: "return y w = (Inr x, w') \<Longrightarrow> x = y \<and> w' = w"
  by (simp add: return_iff)

lemma guardE_InrD: "guardE b e w = (Inr x, w') \<Longrightarrow> b \<and> w' = w"
  by (simp add: guardE_Inr_iff)

lemma fail_InrD: "fail e w = (Inr x, w') \<Longrightarrow> False"
  by (simp add: fail_iff)

lemma lockTeamMemberships_InrD: "lockTeamMemberships nid w = (Inr x, w') \<Longrightarrow> w_db w' = w_db w"
  by (simp add: lockTeamMemberships_def exec_Inr_iff)

lemmas run_elims = bindE_InrE attempt_InrE
lemmas run_dests =
  map_error_InrD take_row_InrD take_row_InlD query_InrD exec_InrD exec_checked_InrD return_InrD guardE_InrD
  fail_InrD lockTeamMemberships_InrD

section \<open>Creation of records\<close>

lemma sys_create_user: "keeps sys_ok (create_user u)"
  unfolding create_user_def
  by (intro keeps_intros keeps_insert_row keeps_reads read_only)
    (auto simp: sys_ok_def intro!: identity_ok_add_user active_admin_add_user)

lemma sys_create_user_namespace: "ns_Kind n = NamespaceKindUser \<Longrightarrow> keeps sys_ok (create_namespace n)"
  unfolding create_namespace_def
  by (intro keeps_intros keeps_insert_row keeps_reads read_only)
    (auto simp: sys_ok_def intro!: identity_ok_add_namespace teams_owned_add_user_namespace)

lemma sys_create_token: "keeps sys_ok (create_token k)"
  unfolding create_token_def
  by (intro keeps_intros keeps_insert_row keeps_reads read_only)
    (auto simp: sys_ok_def PersonalAccessToken_BeforeCreate_def identity_ok_parts
       intro!: identity_ok_tokens tokens_ok_add split: if_splits)

lemma sys_create_team_membership: "keeps sys_ok (create_team_membership m)"
  unfolding create_team_membership_def
  by (intro keeps_intros keeps_insert_row keeps_reads read_only)
    (auto simp: sys_ok_def identity_ok_parts membership_key_def dest!: TeamMembership_BeforeCreate_None
       intro!: identity_ok_members members_ok_add teams_owned_add_membership)

lemma sys_create_team_invitation:
  "inv_open i \<Longrightarrow> keeps sys_ok (create_team_invitation i)"
  unfolding create_team_invitation_def
  by (intro keeps_intros keeps_insert_row keeps_reads read_only)
    (auto simp: sys_ok_def identity_ok_parts TeamInvitation_BeforeCreate_def inv_open_def
       intro!: identity_ok_invitations invitations_ok_add split: if_splits)

lemma sys_create_group_membership: "keeps sys_ok (create_group_membership dn m)"
  unfolding create_group_membership_def Let_def
  by (intro keeps_intros keeps_insert_row keeps_exec_checked keeps_reads read_only)
    (auto simp: sys_ok_def identity_ok_parts GroupMembership_BeforeCreate_def
       intro!: identity_ok_groups groups_ok_add active_admin_add_membership split: if_splits)


section \<open>Users, administrators and tokens\<close>

lemma sys_CreateUser:
  "ns_Kind n = NamespaceKindUser \<Longrightarrow> keeps sys_ok (CreateUserWithPersonalNamespace u n)"
  unfolding CreateUserWithPersonalNamespace_def
  by (intro keeps_transaction_body keeps_intros sys_create_user sys_create_user_namespace)

lemma sys_UpdateUserDisplayName: "keeps sys_ok (UpdateUserDisplayName uid x t)"
  unfolding UpdateUserDisplayName_def
  by (intro keeps_intros keeps_exec_count keeps_reads read_only)
    (auto simp: sys_ok_def intro!: identity_ok_change_users active_admin_update_users)

text \<open>The two ways an administrator could be lost: being disabled, and losing the membership.\<close>

lemma sys_disable_user:
  assumes ok: "sys_ok d" and guard: "\<not> (admin_membership_count d uid > 0 \<and> active_admin_count d \<le> 1)"
  shows "sys_ok (d\<lparr>users := update_where (\<lambda>u. user_ID u = uid \<and> user_Status u = s)
                   (\<lambda>u. u\<lparr>user_Status := UserStatusDisabled, user_UpdatedAt := t\<rparr>) (users d)\<rparr>)"
proof -
  from ok have i: "identity_ok d" by (simp add: sys_ok_def)
  have "\<exists>m \<in> set (group_memberships d). \<exists>u \<in> set (users d). admin_pair (m, u) \<and> gm_UserID m \<noteq> uid"
  proof (cases "admin_membership_count d uid > 0")
    case True
    with guard other_active_admin [OF i] show ?thesis by blast
  next
    case False
    then have "\<forall>m \<in> set (group_memberships d). \<not> (gm_UserID m = uid \<and> is_admin_row m)"
      by (simp add: admin_membership_count_def)
    moreover have "active_admin d" using ok by (simp add: sys_ok_def)
    ultimately show ?thesis unfolding active_admin_def by blast
  qed
  then obtain m u where mu: "m \<in> set (group_memberships d)" "u \<in> set (users d)" "admin_pair (m, u)" "gm_UserID m \<noteq> uid"
    by blast
  have "active_admin (d\<lparr>users := update_where (\<lambda>u. user_ID u = uid \<and> user_Status u = s)
                   (\<lambda>u. u\<lparr>user_Status := UserStatusDisabled, user_UpdatedAt := t\<rparr>) (users d)\<rparr>)"
    by (rule active_admin_keep_other [OF mu(1,2,3)]) (use mu in auto)
  with ok i show ?thesis
    by (auto simp: sys_ok_def valid_user_status_def intro!: identity_ok_change_users)
qed

lemma sys_enable_user:
  assumes ok: "sys_ok d"
  shows "sys_ok (d\<lparr>users := update_where P (\<lambda>u. u\<lparr>user_Status := UserStatusActive, user_UpdatedAt := t\<rparr>) (users d)\<rparr>)"
  using ok by (auto simp: sys_ok_def valid_user_status_def intro!: identity_ok_change_users active_admin_enable)

lemma sys_SetUserStatus: "keeps sys_ok (SetUserStatus actor uid status t)"
  unfolding SetUserStatus_def
proof (rule keeps_transaction, goal_cases)
  case (1 w x w')
  then show ?case
    by (cases status)
      (auto simp: prog_iff lockSystemAdministrators_def valid_user_status_def sys_disable_user sys_enable_user
         split: if_splits)
qed

lemma sys_revoke_admin:
  assumes ok: "sys_ok d" and u: "u \<in> set (users d)" "user_ID u = uid"
    and guard: "\<not> (user_Status u = UserStatusActive \<and> active_admin_count d \<le> 1)"
  shows "sys_ok (d\<lparr>group_memberships :=
           delete_where (\<lambda>m. gm_UserID m = uid \<and> gm_GroupID m = AdminSystemGroupID) (group_memberships d)\<rparr>)"
proof -
  from ok have i: "identity_ok d" by (simp add: sys_ok_def)
  have "\<exists>m \<in> set (group_memberships d). \<exists>v \<in> set (users d). admin_pair (m, v) \<and> gm_UserID m \<noteq> uid"
  proof (cases "user_Status u = UserStatusActive")
    case True
    with guard other_active_admin [OF i] show ?thesis by blast
  next
    case False
    from ok obtain m v where mv: "m \<in> set (group_memberships d)" "v \<in> set (users d)" "admin_pair (m, v)"
      by (auto simp: sys_ok_def active_admin_def)
    have "gm_UserID m \<noteq> uid"
    proof
      assume "gm_UserID m = uid"
      with mv u have "user_ID v = user_ID u" by simp
      then have "v = u" using distinct_map_same [OF identity_ok_usersD(1) [OF i] mv(2) u(1)] by simp
      with False mv(3) show False by simp
    qed
    with mv show ?thesis by blast
  qed
  then obtain m v where "m \<in> set (group_memberships d)" "v \<in> set (users d)" "admin_pair (m, v)" "gm_UserID m \<noteq> uid"
    by blast
  then have "active_admin (d\<lparr>group_memberships :=
      delete_where (\<lambda>m. gm_UserID m = uid \<and> gm_GroupID m = AdminSystemGroupID) (group_memberships d)\<rparr>)"
    unfolding active_admin_def by auto
  with ok i show ?thesis
    by (auto simp: sys_ok_def identity_ok_parts intro!: identity_ok_groups groups_ok_delete)
qed

lemma sys_SetSystemAdmin: "keeps sys_ok (SetSystemAdmin actor uid enabled)"
  unfolding SetSystemAdmin_def
proof (rule keeps_transaction, goal_cases)
  case (1 w x w')
  show ?case
  proof (cases enabled)
    case True
    with 1 obtain w1 where "create_group_membership True
        \<lparr>gm_UserID = uid, gm_GroupID = AdminSystemGroupID, gm_CreatedAt = zero_time\<rparr> w1 = (Inr x, w')"
      "w_db w1 = w_db w"
      by (auto simp: prog_iff lockSystemAdministrators_def)
    with 1 keepsD [OF sys_create_group_membership] show ?thesis by metis
  next
    case False
    with 1 show ?thesis
      by (auto simp: prog_iff lockSystemAdministrators_def dest!: find_Some_iff_hd intro!: sys_revoke_admin)
  qed
qed

lemma sys_tokens:
  assumes "sys_ok d"
    "\<And>k. P k \<Longrightarrow> tok_ID (f k) = tok_ID k \<and> tok_SecretHMAC (f k) = tok_SecretHMAC k \<and>
                tok_UserID (f k) = tok_UserID k \<and> tok_Preset (f k) = tok_Preset k"
  shows "sys_ok (d\<lparr>tokens := update_where P f (tokens d)\<rparr>)"
  using assms by (auto simp: sys_ok_def identity_ok_parts intro!: identity_ok_tokens tokens_ok_update)

lemma sys_RevokeToken: "keeps sys_ok (RevokeToken tid uid t)"
  unfolding RevokeToken_def by (intro keeps_intros keeps_exec sys_tokens) auto

lemma sys_touchTokenUpdate: "keeps sys_ok (touchTokenUpdate tid t)"
  unfolding touchTokenUpdate_def Let_def
  by (intro keeps_intros keeps_exec_count sys_tokens keeps_reads read_only) auto

lemma sys_TouchToken: "keeps sys_ok (TouchToken tid t)"
  unfolding TouchToken_def
  by (intro keeps_transaction_body keeps_intros sys_touchTokenUpdate keeps_reads read_only)

lemma sys_CreateToken: "keeps sys_ok (CreateToken k)"
  unfolding CreateToken_def by (intro keeps_intros sys_create_token)


section \<open>Teams and members\<close>

lemma create_namespace_Inr:
  assumes "create_namespace n w = (Inr x, w')"
  obtains lw n' where "namespace_unique (w_db w) n" "namespace_refs (w_db w) n" "Namespace_BeforeCreate lw n = None"
    "ns_ID n' = ns_ID n" "ns_Slug n' = ns_Slug n" "ns_Kind n' = ns_Kind n" "ns_OwnerUserID n' = ns_OwnerUserID n"
    "w_db w' = (w_db w)\<lparr>namespaces := namespaces (w_db w) @ [n']\<rparr>"
proof -
  from assms obtain t where "w_db w' = (w_db w)\<lparr>namespaces := namespaces (w_db w) @
      [n\<lparr>ns_CreatedAt := stamp t (ns_CreatedAt n), ns_UpdatedAt := stamp t (ns_UpdatedAt n)\<rparr>]\<rparr>"
    "namespace_unique (w_db w) n" "namespace_refs (w_db w) n" "Namespace_BeforeCreate (w_lower w) n = None"
    by (auto simp: create_namespace_def prog_iff)
  then show thesis by (intro that) auto
qed

lemma create_team_membership_Inr:
  assumes "create_team_membership m w = (Inr x, w')"
  obtains m' where "is_team_namespace (w_db w) (tm_NamespaceID m)" "user_exists (w_db w) (tm_UserID m)"
    "\<forall>m' \<in> set (team_memberships (w_db w)). membership_key m' \<noteq> membership_key m" "IsTeamRole (tm_Role m)"
    "tm_NamespaceID m' = tm_NamespaceID m" "tm_UserID m' = tm_UserID m" "tm_Role m' = tm_Role m"
    "w_db w' = (w_db w)\<lparr>team_memberships := team_memberships (w_db w) @ [m']\<rparr>"
proof -
  let ?t = "w_clock w (w_ticks w)"
  have "TeamMembership_BeforeCreate (w_uuid w) m = None \<and>
    w_db w' = (w_db w)\<lparr>team_memberships := team_memberships (w_db w) @
      [m\<lparr>tm_CreatedAt := stamp ?t (tm_CreatedAt m), tm_UpdatedAt := stamp ?t (tm_UpdatedAt m)\<rparr>]\<rparr> \<and>
    is_team_namespace (w_db w) (tm_NamespaceID m) \<and> user_exists (w_db w) (tm_UserID m) \<and>
    (\<forall>m' \<in> set (team_memberships (w_db w)). membership_key m' \<noteq> membership_key m)"
    using assms by (simp add: create_team_membership_def prog_iff)
  then show thesis by (intro that) (auto dest: TeamMembership_BeforeCreate_None)
qed

lemma sys_CreateTeam:
  assumes "ns_Kind n = NamespaceKindTeam" "tm_NamespaceID m = ns_ID n" "tm_Role m = TeamRoleOwner"
  shows "keeps sys_ok (CreateTeam n m)"
  unfolding CreateTeam_def
proof (rule keeps_transaction, goal_cases)
  case (1 w x w')
  then obtain u w1 where ns: "create_namespace n w = (Inr u, w1)" and mem: "create_team_membership m w1 = (Inr x, w')"
    by (auto simp: prog_iff)
  from ns obtain lw n' where n: "namespace_unique (w_db w) n" "namespace_refs (w_db w) n"
    "Namespace_BeforeCreate lw n = None" "ns_ID n' = ns_ID n" "ns_Slug n' = ns_Slug n" "ns_Kind n' = ns_Kind n"
    "ns_OwnerUserID n' = ns_OwnerUserID n" and d1: "w_db w1 = (w_db w)\<lparr>namespaces := namespaces (w_db w) @ [n']\<rparr>"
    by (rule create_namespace_Inr)
  from mem obtain m' where m: "is_team_namespace (w_db w1) (tm_NamespaceID m)" "user_exists (w_db w1) (tm_UserID m)"
    "\<forall>m' \<in> set (team_memberships (w_db w1)). membership_key m' \<noteq> membership_key m" "IsTeamRole (tm_Role m)"
    "tm_NamespaceID m' = tm_NamespaceID m" "tm_UserID m' = tm_UserID m" "tm_Role m' = tm_Role m"
    and d2: "w_db w' = (w_db w1)\<lparr>team_memberships := team_memberships (w_db w1) @ [m']\<rparr>"
    by (rule create_team_membership_Inr)
  have i1: "identity_ok (w_db w1)"
    unfolding d1 by (rule identity_ok_add_namespace [OF _ n]) (use 1 in \<open>simp add: sys_ok_def\<close>)
  then have "identity_ok (w_db w')"
    unfolding d2 using m by (intro identity_ok_members members_ok_add) (auto simp: identity_ok_parts membership_key_def)
  moreover have "active_admin (w_db w')" using 1 d1 d2 by (simp add: sys_ok_def)
  moreover have "teams_owned (w_db w')"
  proof -
    have "teams_owned (w_db w)" using 1 by (simp add: sys_ok_def)
    moreover have "tm_NamespaceID m' = ns_ID n'" "tm_Role m' = TeamRoleOwner" using m(5,7) n(4) assms by simp_all
    ultimately show ?thesis by (auto simp: teams_owned_def d1 d2)
  qed
  ultimately show ?case by (rule sys_okI)
qed

lemma sys_UpdateTeamDisplayName: "keeps sys_ok (UpdateTeamDisplayName nid x t)"
  unfolding UpdateTeamDisplayName_def Let_def
  by (intro keeps_intros keeps_exec_count keeps_reads read_only)
    (auto simp: sys_ok_def active_admin_def intro!: identity_ok_rename_namespaces teams_owned_rename)

lemma ensureOtherOwner_Inr:
  "ensureOtherOwner nid uid w = (Inr x, w') \<Longrightarrow>
     w_db w' = w_db w \<and>
     (\<exists>m \<in> set (team_memberships (w_db w)). tm_NamespaceID m = nid \<and> tm_Role m = TeamRoleOwner \<and> tm_UserID m \<noteq> uid)"
  by (auto simp: ensureOtherOwner_def prog_iff split: if_splits)

lemma member_found:
  "List.find (\<lambda>m. tm_NamespaceID m = nid \<and> tm_UserID m = uid) ms = Some m \<Longrightarrow>
     m \<in> set ms \<and> membership_key m = (nid, uid)"
  by (auto simp: membership_key_def dest!: find_Some_iff_hd)

lemma only_member:
  assumes "identity_ok d" "m \<in> set (team_memberships d)" "m' \<in> set (team_memberships d)"
    "membership_key m = k" "membership_key m' = k"
  shows "m' = m"
  using distinct_map_same [OF identity_ok_usersD(3) [OF assms(1)] assms(3,2)] assms(4,5) by simp

text \<open>
  \<open>owner_safe d nid uid\<close>: changing or removing the membership of \<open>uid\<close> cannot leave the Team without
  an owner, because the member is not one or because there is another.
\<close>

definition owner_safe :: "db \<Rightarrow> string \<Rightarrow> string \<Rightarrow> bool" where
  "owner_safe d nid uid \<longleftrightarrow>
     (\<exists>m \<in> set (team_memberships d). tm_NamespaceID m = nid \<and> tm_Role m = TeamRoleOwner \<and> tm_UserID m \<noteq> uid) \<or>
     (\<forall>m \<in> set (team_memberships d). membership_key m = (nid, uid) \<longrightarrow> tm_Role m \<noteq> TeamRoleOwner)"

lemma sys_remove_member:
  assumes ok: "sys_ok d" and safe: "owner_safe d nid uid"
  shows "sys_ok (d\<lparr>team_memberships :=
           delete_where (\<lambda>m. tm_NamespaceID m = nid \<and> tm_UserID m = uid) (team_memberships d)\<rparr>)"
proof -
  have "teams_owned (d\<lparr>team_memberships :=
           delete_where (\<lambda>m. tm_NamespaceID m = nid \<and> tm_UserID m = uid) (team_memberships d)\<rparr>)"
    by (rule teams_owned_change [where nid = nid and uid = uid])
      (use ok safe in \<open>auto simp: sys_ok_def owner_safe_def membership_key_def\<close>)
  with ok show ?thesis
    by (auto simp: sys_ok_def identity_ok_parts intro!: identity_ok_members members_ok_delete)
qed

lemma sys_change_role:
  assumes ok: "sys_ok d" and role: "IsTeamRole role"
    and safe: "role = TeamRoleOwner \<or> owner_safe d nid uid"
  shows "sys_ok (d\<lparr>team_memberships := update_where (\<lambda>m. tm_NamespaceID m = nid \<and> tm_UserID m = uid)
           (\<lambda>m. m\<lparr>tm_Role := role, tm_UpdatedAt := t\<rparr>) (team_memberships d)\<rparr>)"
proof -
  let ?ms = "update_where (\<lambda>m. tm_NamespaceID m = nid \<and> tm_UserID m = uid)
           (\<lambda>m. m\<lparr>tm_Role := role, tm_UpdatedAt := t\<rparr>) (team_memberships d)"
  have "(\<exists>m \<in> set (team_memberships d). tm_NamespaceID m = nid \<and> tm_Role m = TeamRoleOwner \<and> tm_UserID m \<noteq> uid) \<or>
        (\<exists>m \<in> set ?ms. tm_NamespaceID m = nid \<and> tm_Role m = TeamRoleOwner) \<or>
        (\<forall>m \<in> set (team_memberships d). membership_key m = (nid, uid) \<longrightarrow> tm_Role m \<noteq> TeamRoleOwner)"
  proof (cases "role = TeamRoleOwner \<and> (\<exists>m \<in> set (team_memberships d). membership_key m = (nid, uid))")
    case True
    then obtain m where "m \<in> set (team_memberships d)" "membership_key m = (nid, uid)" by blast
    then have "m\<lparr>tm_Role := role, tm_UpdatedAt := t\<rparr> \<in> set ?ms"
      by (force simp: set_update_where membership_key_def)
    moreover have "tm_NamespaceID (m\<lparr>tm_Role := role, tm_UpdatedAt := t\<rparr>) = nid"
      using \<open>membership_key m = (nid, uid)\<close> by (simp add: membership_key_def)
    moreover have "tm_Role (m\<lparr>tm_Role := role, tm_UpdatedAt := t\<rparr>) = TeamRoleOwner" using True by simp
    ultimately show ?thesis by blast
  next
    case False
    with safe show ?thesis by (auto simp: owner_safe_def)
  qed
  then have "teams_owned (d\<lparr>team_memberships := ?ms\<rparr>)"
    by (rule teams_owned_change [rotated 2])
      (use ok in \<open>force simp: sys_ok_def set_update_where membership_key_def\<close>)+
  with ok role show ?thesis
    by (auto simp: sys_ok_def identity_ok_parts intro!: identity_ok_members members_ok_role)
qed

definition other_owner :: "db \<Rightarrow> string \<Rightarrow> string \<Rightarrow> bool" where
  "other_owner d nid uid \<longleftrightarrow>
     (\<exists>v \<in> set (team_memberships d). tm_NamespaceID v = nid \<and> tm_Role v = TeamRoleOwner \<and> tm_UserID v \<noteq> uid)"

lemma owner_safeI:
  assumes i: "identity_ok d" and m: "m \<in> set (team_memberships d)" "membership_key m = (nid, uid)"
    and other: "tm_Role m = TeamRoleOwner \<longrightarrow>
      other_owner d nid uid"
  shows "owner_safe d nid uid"
  using other only_member [OF i m(1) _ m(2)] unfolding owner_safe_def other_owner_def by metis

lemma owner_guard_InrD:
  "(if b then ensureOtherOwner nid uid else return ()) w = (Inr x, w') \<Longrightarrow>
     w_db w' = w_db w \<and>
     (b \<longrightarrow> other_owner (w_db w) nid uid)"
  using ensureOtherOwner_Inr [of nid uid w x w'] by (cases b) (auto simp: return_iff other_owner_def)

lemma sys_RemoveTeamMember: "keeps sys_ok (RemoveTeamMember nid uid)"
  unfolding RemoveTeamMember_def
proof (rule keeps_transaction, goal_cases)
  case (1 w x w')
  from 1(1) obtain m where m: "m \<in> set (team_memberships (w_db w))" "membership_key m = (nid, uid)"
    and other: "tm_Role m = TeamRoleOwner \<longrightarrow> other_owner (w_db w) nid uid"
    and d: "w_db w' = (w_db w)\<lparr>team_memberships :=
        delete_where (\<lambda>m. tm_NamespaceID m = nid \<and> tm_UserID m = uid) (team_memberships (w_db w))\<rparr>"
    by (elim run_elims, drule_tac owner_guard_InrD) (auto dest!: run_dests member_found)
  from 1(2) have "identity_ok (w_db w)" by (simp add: sys_ok_def)
  from owner_safeI [OF this m other] 1(2) show ?case by (simp add: d sys_remove_member)
qed

lemma sys_PutTeamMember: "keeps sys_ok (PutTeamMember nid uid role t)"
  unfolding PutTeamMember_def
proof (rule keeps_transaction, goal_cases)
  case (1 w x w')
  let ?find = "List.find (\<lambda>m. tm_NamespaceID m = nid \<and> tm_UserID m = uid) (team_memberships (w_db w))"
  from 1(1) obtain w1 r w2 where d1: "w_db w1 = w_db w"
    and find: "take_row (\<lambda>d. List.find (\<lambda>m. tm_NamespaceID m = nid \<and> tm_UserID m = uid) (team_memberships d)) w1 = (r, w2)"
    and rest: "(case r of
             Inl e \<Rightarrow>
               if errors_Is e ErrRecordNotFound
               then create_team_membership
                      \<lparr>tm_NamespaceID = nid, tm_UserID = uid, tm_Role = role, tm_CreatedAt = t, tm_UpdatedAt = t\<rparr>
               else fail e
           | Inr current \<Rightarrow>
               if tm_Role current = role then return ()
               else
                 bindE (if tm_Role current = TeamRoleOwner \<and> role \<noteq> TeamRoleOwner
                        then ensureOtherOwner nid uid else return ()) (\<lambda>_.
                 set_member_role nid uid role t)) w2 = (Inr x, w')"
    by (auto simp: attempt_def split: prod.splits elim!: bindE_InrE dest!: run_dests)
  have d2: "w_db w2 = w_db w" using readsD [OF reads_take_row find] d1 by simp
  show ?case
  proof (cases r)
    case (Inl e)
    with rest have "create_team_membership
        \<lparr>tm_NamespaceID = nid, tm_UserID = uid, tm_Role = role, tm_CreatedAt = t, tm_UpdatedAt = t\<rparr> w2 = (Inr x, w')"
      by (auto simp: fail_iff split: if_splits)
    from keepsD [OF sys_create_team_membership this] d2 1(2) show ?thesis by simp
  next
    case (Inr m)
    with find d1 have m: "m \<in> set (team_memberships (w_db w))" "membership_key m = (nid, uid)"
      by (auto dest!: run_dests member_found)
    from 1(2) have i: "identity_ok (w_db w)" by (simp add: sys_ok_def)
    show ?thesis
    proof (cases "tm_Role m = role")
      case True
      with rest Inr d2 1(2) show ?thesis by (simp add: return_iff)
    next
      case False
      with rest Inr obtain w3 where g: "(if tm_Role m = TeamRoleOwner \<and> role \<noteq> TeamRoleOwner
          then ensureOtherOwner nid uid else return ()) w2 = (Inr (), w3)" and u: "set_member_role nid uid role t w3 = (Inr x, w')"
        by (auto simp del: if_split elim: bindE_InrE)
      from owner_guard_InrD [OF g] d2 have d3: "w_db w3 = w_db w"
        and other: "tm_Role m = TeamRoleOwner \<and> role \<noteq> TeamRoleOwner \<longrightarrow> other_owner (w_db w) nid uid" by auto
      have "role = TeamRoleOwner \<or> owner_safe (w_db w) nid uid"
        using owner_safeI [OF i m] other by blast
      moreover from u d3 have "IsTeamRole role" and "w_db w' = (w_db w)\<lparr>team_memberships :=
          update_where (\<lambda>m. tm_NamespaceID m = nid \<and> tm_UserID m = uid)
           (\<lambda>m. m\<lparr>tm_Role := role, tm_UpdatedAt := t\<rparr>) (team_memberships (w_db w))\<rparr>"
        by (auto simp: set_member_role_def dest!: run_dests)
      ultimately show ?thesis using 1(2) by (simp add: sys_change_role)
    qed
  qed
qed


section \<open>Invitations\<close>

lemma sys_close:
  assumes "sys_ok d" "closes f" "\<And>i. i \<in> set (team_invitations d) \<Longrightarrow> P i \<Longrightarrow> inv_open i"
  shows "sys_ok (d\<lparr>team_invitations := update_where P f (team_invitations d)\<rparr>)"
  using assms invitations_ok_close [of d f P]
  by (auto simp: sys_ok_def identity_ok_parts intro!: identity_ok_invitations)

lemma sys_CreateTeamInvitation: "inv_open i \<Longrightarrow> keeps sys_ok (CreateTeamInvitation i)"
  unfolding CreateTeamInvitation_def
  by (intro keeps_transaction_body keeps_intros keeps_exec sys_close sys_create_team_invitation)
    (auto simp: pending_for_def)

lemma sys_close_one:
  assumes ok: "sys_ok d" and i: "i \<in> set (team_invitations d)" "inv_open i" and f: "closes f"
  shows "sys_ok (d\<lparr>team_invitations := update_where (\<lambda>j. inv_ID j = inv_ID i) f (team_invitations d)\<rparr>)"
proof (rule sys_close [OF ok f])
  fix j assume j: "j \<in> set (team_invitations d)" "inv_ID j = inv_ID i"
  from ok have "identity_ok d" by (simp add: sys_ok_def)
  from distinct_map_same [OF identity_ok_usersD(4) [OF this] j(1) i(1) j(2)] i(2) show "inv_open j" by simp
qed

lemma update_invitation_InrD:
  "update_invitation iid f w = (Inr x, w') \<Longrightarrow>
     w_db w' = (w_db w)\<lparr>team_invitations := update_where (\<lambda>j. inv_ID j = iid) f (team_invitations (w_db w))\<rparr>"
  by (simp add: update_invitation_def exec_Inr_iff)

lemma sys_update_invitation:
  assumes "sys_ok (w_db w)" "i \<in> set (team_invitations (w_db w))" "inv_open i" "closes f"
    "update_invitation (inv_ID i) f w = (Inr x, w')"
  shows "sys_ok (w_db w')"
  using sys_close_one [OF assms(1-4)] update_invitation_InrD [OF assms(5)] by simp

lemma create_team_membership_invitations:
  "create_team_membership m w = (Inr x, w') \<Longrightarrow> team_invitations (w_db w') = team_invitations (w_db w)"
  by (auto elim!: create_team_membership_Inr)

lemma sys_RespondInvitation: "keeps sys_ok (RespondInvitation iid uid accept t)"
  unfolding RespondInvitation_def
proof (rule keeps_transaction, goal_cases)
  case (1 w x w')
  let ?member = "\<lambda>i. \<lparr>tm_NamespaceID = inv_NamespaceID i, tm_UserID = uid, tm_Role = inv_Role i,
                       tm_CreatedAt = t, tm_UpdatedAt = t\<rparr>"
  from 1(1) obtain i w1 where i: "i \<in> set (team_invitations (w_db w))" "inv_open i"
    and d1: "w_db w1 = w_db w"
    and act: "(if accept
               then bindE (map_error (\<lambda>_. ErrIdentityConflict) (create_team_membership (?member i))) (\<lambda>_.
                    update_invitation (inv_ID i) (\<lambda>j. j\<lparr>inv_AcceptedAt := Some t, inv_UpdatedAt := t\<rparr>))
               else update_invitation (inv_ID i) (\<lambda>j. j\<lparr>inv_RejectedAt := Some t, inv_UpdatedAt := t\<rparr>)) w1 = (Inr (), w')"
    by (auto simp del: if_split elim!: bindE_InrE dest!: run_dests find_Some_iff_hd)
  from d1 1(2) have s1: "sys_ok (w_db w1)" and i1: "i \<in> set (team_invitations (w_db w1))" using i by simp_all
  show ?case
  proof (cases accept)
    case False
    with act show ?thesis using sys_update_invitation [OF s1 i1 i(2) closes_answer(2)] by simp
  next
    case True
    with act obtain u w2 where m: "create_team_membership (?member i) w1 = (Inr u, w2)"
      and r: "update_invitation (inv_ID i) (\<lambda>j. j\<lparr>inv_AcceptedAt := Some t, inv_UpdatedAt := t\<rparr>) w2 = (Inr (), w')"
      by (auto elim!: bindE_InrE dest!: map_error_InrD)
    from keepsD [OF sys_create_team_membership m s1] have s2: "sys_ok (w_db w2)" .
    from i1 create_team_membership_invitations [OF m] have i2: "i \<in> set (team_invitations (w_db w2))" by simp
    show ?thesis by (rule sys_update_invitation [OF s2 i2 i(2) closes_answer(1) r])
  qed
qed

lemma sys_RevokeInvitation: "keeps sys_ok (RevokeInvitation nid iid t)"
  unfolding RevokeInvitation_def Let_def
  by (intro keeps_intros keeps_exec_count keeps_reads read_only sys_close) auto

lemma sys_ReissueInvitation: "keeps sys_ok (ReissueInvitation nid iid newID t expiresAt)"
  unfolding ReissueInvitation_def
proof (rule keeps_transaction, goal_cases)
  case (1 w x w')
  let ?new = "\<lambda>old. \<lparr>inv_ID = newID, inv_NamespaceID = nid, inv_UserID = inv_UserID old, inv_Role = inv_Role old,
           inv_InvitedByUserID = inv_InvitedByUserID old, inv_ExpiresAt = expiresAt, inv_AcceptedAt = None,
           inv_RejectedAt = None, inv_RevokedAt = None, inv_CreatedAt = t, inv_UpdatedAt = t\<rparr>"
  from 1(1) obtain old w1 w2 where old: "old \<in> set (team_invitations (w_db w))" and d1: "w_db w1 = w_db w"
    and u: "(if inv_open old then update_invitation (inv_ID old) (inv_terminate t) else return ()) w1 = (Inr (), w2)"
    and c: "create_team_invitation (?new old) w2 = (Inr (), w')"
    by (auto simp: Let_def simp del: if_split elim!: bindE_InrE dest!: run_dests find_Some_iff_hd)
  from d1 1(2) old have s1: "sys_ok (w_db w1)" and o1: "old \<in> set (team_invitations (w_db w1))" by simp_all
  have "sys_ok (w_db w2)"
    using u s1 sys_update_invitation [OF s1 o1 _ closes_terminate] by (auto simp: return_iff split: if_splits)
  then show ?case
    using keepsD [OF sys_create_team_invitation c] by (simp add: inv_open_def)
qed

section \<open>Bootstrap\<close>

definition erase_groups :: "db \<Rightarrow> db" where
  "erase_groups d = d\<lparr>system_groups := []\<rparr>"

lemma create_system_group_InrD:
  "create_system_group g w = (Inr x, w') \<Longrightarrow> erase_groups (w_db w') = erase_groups (w_db w)"
  by (simp add: create_system_group_def erase_groups_def prog_iff)

lemma create_groups_InrD:
  "create_groups gs w = (Inr x, w') \<Longrightarrow> erase_groups (w_db w') = erase_groups (w_db w)"
  by (induction gs arbitrary: w)
    (auto simp: return_iff elim!: bindE_InrE dest!: map_error_InrD create_system_group_InrD)

lemma ensureSystemGroups_InrD:
  "ensureSystemGroups w = (Inr x, w') \<Longrightarrow> erase_groups (w_db w') = erase_groups (w_db w)"
  by (auto simp: ensureSystemGroups_def elim!: bindE_InrE
       dest!: create_groups_InrD map_error_InrD query_InrD readsD [OF reads_verify_groups])

lemma erase_groups_empty: "erase_groups d = erase_groups empty_db \<Longrightarrow> d = empty_db\<lparr>system_groups := system_groups d\<rparr>"
  by (cases d) (simp add: erase_groups_def empty_db_def)

lemma transaction_InrE:
  assumes "transaction m w = (Inr x, w')"
  obtains w1 w2 where "w_db w1 = w_db w" "m w1 = (Inr x, w2)" "w_db w' = w_db w2"
proof -
  from assms obtain w2 where "m (w\<lparr>w_faults := tl (w_faults w)\<rparr>) = (Inr x, w2)" "w' = w2\<lparr>w_faults := tl (w_faults w2)\<rparr>"
    by (auto simp: transaction_Inr_iff)
  then show thesis by (intro that [of "w\<lparr>w_faults := tl (w_faults w)\<rparr>" w2]) simp_all
qed

lemma identity_ok_empty: "identity_ok (empty_db\<lparr>system_groups := rows\<rparr>)"
  by (simp add: identity_ok_defs empty_db_def)

lemma create_user_Inr:
  assumes "create_user u w = (Inr x, w')"
  obtains u' where "user_unique (w_db w) u" "User_BeforeCreate (w_lower w) u = None" "user_ID u' = user_ID u"
    "user_Username u' = user_Username u" "user_Status u' = user_Status u"
    "w_db w' = (w_db w)\<lparr>users := users (w_db w) @ [u']\<rparr>"
proof -
  let ?t = "w_clock w (w_ticks w)"
  from assms have "w_db w' = (w_db w)\<lparr>users := users (w_db w) @
      [u\<lparr>user_CreatedAt := stamp ?t (user_CreatedAt u), user_UpdatedAt := stamp ?t (user_UpdatedAt u)\<rparr>]\<rparr>"
    "user_unique (w_db w) u" "User_BeforeCreate (w_lower w) u = None"
    by (simp_all add: create_user_def prog_iff)
  then show thesis by (intro that) auto
qed

lemma create_group_membership_Inr:
  assumes "create_group_membership False m w = (Inr x, w')"
  obtains m' where "gm_GroupID m \<noteq> DefaultSystemGroupID" "user_exists (w_db w) (gm_UserID m)"
    "\<forall>m' \<in> set (group_memberships (w_db w)). \<not> (gm_UserID m' = gm_UserID m \<and> gm_GroupID m' = gm_GroupID m)"
    "gm_UserID m' = gm_UserID m" "gm_GroupID m' = gm_GroupID m"
    "w_db w' = (w_db w)\<lparr>group_memberships := group_memberships (w_db w) @ [m']\<rparr>"
proof -
  let ?t = "w_clock w (w_ticks w)"
  from assms have "w_db w' = (w_db w)\<lparr>group_memberships := group_memberships (w_db w) @
      [m\<lparr>gm_CreatedAt := stamp ?t (gm_CreatedAt m)\<rparr>]\<rparr>"
    "gm_GroupID m \<noteq> DefaultSystemGroupID" "user_exists (w_db w) (gm_UserID m)"
    "\<forall>m' \<in> set (group_memberships (w_db w)). \<not> (gm_UserID m' = gm_UserID m \<and> gm_GroupID m' = gm_GroupID m)"
    by (simp_all add: create_group_membership_def GroupMembership_BeforeCreate_def prog_iff split: if_splits)
  then show thesis by (intro that) auto
qed

text \<open>A successful bootstrap of an empty database establishes the invariants.\<close>

lemma sys_first_admin:
  assumes d: "d1 = empty_db\<lparr>system_groups := rows\<rparr>"
    and u: "user_unique d1 u" "User_BeforeCreate lw u = None" "user_ID u' = user_ID u"
      "user_Username u' = user_Username u" "user_Status u' = user_Status u" "user_Status u = UserStatusActive"
    and d2: "d2 = d1\<lparr>users := users d1 @ [u']\<rparr>"
    and n: "namespace_unique d2 n" "namespace_refs d2 n" "Namespace_BeforeCreate lw' n = None" "ns_ID n' = ns_ID n"
      "ns_Slug n' = ns_Slug n" "ns_Kind n' = ns_Kind n" "ns_OwnerUserID n' = ns_OwnerUserID n" "ns_Kind n = NamespaceKindUser"
    and d3: "d3 = d2\<lparr>namespaces := namespaces d2 @ [n']\<rparr>"
    and g: "gm_GroupID m' = AdminSystemGroupID" "gm_UserID m' = user_ID u"
    and d4: "d4 = d3\<lparr>group_memberships := group_memberships d3 @ [m']\<rparr>"
  shows "sys_ok d4"
proof (rule sys_okI)
  have "identity_ok d1" unfolding d by (rule identity_ok_empty)
  then have "identity_ok d2" unfolding d2 by (rule identity_ok_add_user [OF _ u(1-5)])
  then have i3: "identity_ok d3" unfolding d3 by (rule identity_ok_add_namespace [OF _ n(1-7)])
  have "user_exists d3 (gm_UserID m')" using u(3) g by (simp add: d3 d2 user_exists_def)
  then show "identity_ok d4"
    unfolding d4 using i3 g by (intro identity_ok_groups groups_ok_add)
      (auto simp: identity_ok_parts d3 d2 d empty_db_def)
  show "active_admin d4" using g u by (auto simp: active_admin_def d4 d3 d2 is_admin_row_def)
  show "teams_owned d4" using n by (simp add: teams_owned_def d4 d3 d2 d empty_db_def)
qed

lemma sys_bootstrap_admin:
  assumes d: "w_db w = empty_db\<lparr>system_groups := rows\<rparr>" and run: "bootstrap_admin hash password w = (Inr (), w')"
  shows "sys_ok (w_db w')"
proof -
  let ?user = "\<lambda>uid h. \<lparr>user_ID = uid, user_Username = BootstrapAdminUsername, user_Email = None,
                      user_DisplayName = ''Administrator'', user_Status = UserStatusActive,
                      user_PasswordHash = h, user_CreatedAt = zero_time, user_UpdatedAt = zero_time\<rparr>"
  let ?ns = "\<lambda>nid uid. \<lparr>ns_ID = nid, ns_Kind = NamespaceKindUser, ns_Slug = BootstrapAdminUsername,
                      ns_DisplayName = ''Administrator'', ns_OwnerUserID = Some uid,
                      ns_CreatedAt = zero_time, ns_UpdatedAt = zero_time\<rparr>"
  let ?gm = "\<lambda>uid. \<lparr>gm_UserID = uid, gm_GroupID = AdminSystemGroupID, gm_CreatedAt = zero_time\<rparr>"
  from run obtain uid h nid w2 w3 w4 w5 where
    u: "create_user (?user uid h) w2 = (Inr (), w3)" and d1: "w_db w2 = w_db w" and
    n: "create_namespace (?ns nid uid) w4 = (Inr (), w5)" and d4: "w_db w4 = w_db w3" and
    g: "create_group_membership False (?gm uid) w5 = (Inr (), w')"
    by (auto simp: bootstrap_admin_def elim!: bindE_InrE
        dest!: map_error_InrD readsD [OF reads_new_id] readsD [OF reads_of_sum])
  have d2: "w_db w2 = empty_db\<lparr>system_groups := rows\<rparr>" using d d1 by simp
  from u obtain u' where u': "user_unique (w_db w2) (?user uid h)" "User_BeforeCreate (w_lower w2) (?user uid h) = None"
    "user_ID u' = user_ID (?user uid h)" "user_Username u' = user_Username (?user uid h)"
    "user_Status u' = user_Status (?user uid h)" "w_db w3 = (w_db w2)\<lparr>users := users (w_db w2) @ [u']\<rparr>"
    by (rule create_user_Inr)
  from n obtain lw n' where n': "namespace_unique (w_db w4) (?ns nid uid)" "namespace_refs (w_db w4) (?ns nid uid)"
    "Namespace_BeforeCreate lw (?ns nid uid) = None" "ns_ID n' = ns_ID (?ns nid uid)" "ns_Slug n' = ns_Slug (?ns nid uid)"
    "ns_Kind n' = ns_Kind (?ns nid uid)" "ns_OwnerUserID n' = ns_OwnerUserID (?ns nid uid)"
    "w_db w5 = (w_db w4)\<lparr>namespaces := namespaces (w_db w4) @ [n']\<rparr>"
    by (rule create_namespace_Inr)
  from g obtain m' where m': "gm_UserID m' = gm_UserID (?gm uid)" "gm_GroupID m' = gm_GroupID (?gm uid)"
    "w_db w' = (w_db w5)\<lparr>group_memberships := group_memberships (w_db w5) @ [m']\<rparr>"
    by (rule create_group_membership_Inr)
  have d4': "w_db w4 = (w_db w2)\<lparr>users := users (w_db w2) @ [u']\<rparr>" using d4 u'(6) by simp
  show ?thesis
    by (rule sys_first_admin [OF d2 u'(1-5) _ d4' n'(1-7) _ n'(8) _ _ m'(3)]) (use m'(1,2) in simp_all)
qed

lemma Bootstrap_Inr:
  assumes "Bootstrap env hash w = (Inr (), w')"
  obtains (present) "erase_groups (w_db w') = erase_groups (w_db w)" "users (w_db w') \<noteq> []"
  | (created) w1 password where "erase_groups (w_db w1) = erase_groups (w_db w)"
      "\<exists>w2. bootstrap_admin hash password w1 = (Inr (), w2) \<and> w_db w' = w_db w2"
proof -
  from assms obtain d1 w1 w2 where d1: "w_db w1 = d1" "erase_groups d1 = erase_groups (w_db w)" and d2: "w_db w' = w_db w2"
    and r: "(if length (users d1) > 0 then return ()
        else
          (case env BootstrapAdminPasswordEnvironment of
             None \<Rightarrow> fail ErrBootstrapAdminPasswordRequired
           | Some password \<Rightarrow>
               if password = [] then fail ErrBootstrapAdminPasswordRequired
               else if HasAPIKeyPrefix password then fail ErrBootstrapAdminPasswordReserved
               else bootstrap_admin hash password)) w1 = (Inr (), w2)"
    by (auto simp: Bootstrap_def lockBootstrapTransaction_def simp del: if_split length_greater_0_conv
        elim!: bindE_InrE transaction_InrE
        dest!: map_error_InrD exec_InrD ensureSystemGroups_InrD query_InrD readsD [OF reads_of_sum])
  note b = d1 d2
  show thesis
  proof (cases "users d1 = []")
    case False
    with r b show ?thesis by (intro present) (auto simp: return_iff)
  next
    case True
    with r obtain password where "bootstrap_admin hash password w1 = (Inr (), w2)"
      by (auto simp: fail_iff split: option.splits if_splits)
    with b show ?thesis by (intro created [of w1 password]) auto
  qed
qed

lemma Bootstrap_establishes:
  assumes empty: "w_db w = empty_db" and run: "Bootstrap env hash w = (Inr (), w')"
  shows "sys_ok (w_db w')"
proof (rule Bootstrap_Inr [OF run])
  assume e: "erase_groups (w_db w') = erase_groups (w_db w)" and "users (w_db w') \<noteq> []"
  moreover have "users (w_db w') = []"
    using erase_groups_empty [of "w_db w'"] e empty by (simp add: empty_db_def erase_groups_def) (metis db.select_convs(1))
  ultimately show ?thesis by simp
next
  fix w1 password assume e: "erase_groups (w_db w1) = erase_groups (w_db w)"
    and "\<exists>w2. bootstrap_admin hash password w1 = (Inr (), w2) \<and> w_db w' = w_db w2"
  moreover have "w_db w1 = empty_db\<lparr>system_groups := system_groups (w_db w1)\<rparr>"
    using erase_groups_empty [of "w_db w1"] e empty by simp
  ultimately show ?thesis using sys_bootstrap_admin by metis
qed


text \<open>A later start finds users and changes nothing but the fixed groups.\<close>

lemma sys_ok_erase: "sys_ok (erase_groups d) = sys_ok d"
  by (simp add: sys_ok_def identity_ok_defs erase_groups_def active_admin_def teams_owned_def user_exists_def
      is_team_namespace_def namespace_refs_iff)

lemma sys_Bootstrap: "keeps sys_ok (Bootstrap env hash)"
proof (rule keepsI)
  fix w r w' assume run: "Bootstrap env hash w = (r, w')" and ok: "sys_ok (w_db w)"
  show "sys_ok (w_db w')"
  proof (cases r)
    case (Inl e)
    with run have "w_db w' = w_db w"
      by (auto simp: Bootstrap_def bindE_Inl_iff map_error_Inl_iff of_sum_iff map_error_Inr_iff
          dest!: transaction_Inl_db)
    with ok show ?thesis by simp
  next
    case (Inr x)
    then have "Bootstrap env hash w = (Inr (), w')" using run by simp
    then show ?thesis
    proof (rule Bootstrap_Inr)
      assume "erase_groups (w_db w') = erase_groups (w_db w)"
      with ok show ?thesis by (metis sys_ok_erase)
    next
      fix w1 password assume e: "erase_groups (w_db w1) = erase_groups (w_db w)"
        and r: "\<exists>w2. bootstrap_admin hash password w1 = (Inr (), w2) \<and> w_db w' = w_db w2"
      have "sys_ok (w_db w1)" using ok e by (metis sys_ok_erase)
      moreover have "keeps sys_ok (bootstrap_admin hash password)"
        unfolding bootstrap_admin_def
        by (intro keeps_intros sys_create_user sys_create_user_namespace sys_create_group_membership
              keeps_reads read_only) simp
      ultimately show ?thesis using r by (metis keepsD)
    qed
  qed
qed

interpretation sys: identity_invariant sys_ok
  by unfold_locales
    (rule sys_CreateUser sys_UpdateUserDisplayName sys_SetUserStatus sys_SetSystemAdmin sys_CreateTeam
       sys_UpdateTeamDisplayName sys_PutTeamMember sys_RemoveTeamMember sys_CreateTeamInvitation
       sys_RespondInvitation sys_RevokeInvitation sys_ReissueInvitation sys_CreateToken sys_RevokeToken
       sys_TouchToken sys_Bootstrap; assumption)+

end
