(* ===== verification/IdentityRuns.thy ===== *)
theory IdentityRuns imports IdentitySystem begin

text \<open>
  The runs of the identity domain: they start with a successful bootstrap of an empty database and
  go on with the steps of \<open>ServiceContract\<close>.
\<close>

section \<open>Runs\<close>

inductive identity_run :: "world \<Rightarrow> bool" where
  started: "w_db w = empty_db \<Longrightarrow> Bootstrap env hash w = (Inr (), w') \<Longrightarrow> identity_run w'"
| stepped: "identity_run w \<Longrightarrow> identity_step w w' \<Longrightarrow> identity_run w'"

lemma sys_run: "identity_run w \<Longrightarrow> sys_ok (w_db w)"
  by (induction rule: identity_run.induct) (auto intro: Bootstrap_establishes sys.step)

section \<open>A concrete run\<close>

definition demo_world :: world where
  "demo_world =
     \<lparr>w_db = empty_db, w_faults = [], w_clock = (\<lambda>n. 1000000000 * int n), w_ticks = 0,
      w_ids = (\<lambda>n. ''id-'' @ dec_digits n), w_next_id = 0, w_lower = id, w_uuid = (\<lambda>_. True),
      w_storage = empty_storage, w_io = []\<rparr>"

definition demo_env :: environment where
  "demo_env = [APIKeyPepperEnvironment \<mapsto> ''MDEyMzQ1Njc4OTAxMjM0NTY3ODkwMTIzNDU2Nzg5MDE='',
               BootstrapAdminPasswordEnvironment \<mapsto> ''first password'']"

definition demo_hash :: "string \<Rightarrow> err + string" where
  "demo_hash password = Inr (''hash of '' @ password)"

definition demo_start :: world where
  "demo_start = snd (Bootstrap demo_env demo_hash demo_world)"

definition demo_admin :: principal where
  "demo_admin = \<lparr>p_kind = principalUser, p_user_id = ''id-0'', p_username = ''admin'',
                 p_credential = CredentialJWT, p_scopes = UnrestrictedScopes\<rparr>"

definition demo_input :: create_user_input where
  "demo_input = \<lparr>cu_Username = ''Alice'', cu_DisplayName = ''Alice A'', cu_Email = None,
                 cu_Password = ''a long password'', cu_Status = UserStatusOther []\<rparr>"

text \<open>Alice registers, the administrator creates a Team and invites her.\<close>

definition demo_registered :: world where
  "demo_registered = snd (UserService_Register demo_hash demo_input demo_start)"

definition demo_team :: world where
  "demo_team = snd (TeamService_Create demo_admin ''platform'' ''Platform'' demo_registered)"

definition demo_invited :: world where
  "demo_invited = snd (TeamService_Invite demo_admin ''platform'' ''alice'' TeamRoleViewer demo_team)"

lemma demo_bootstrap: "fst (Bootstrap demo_env demo_hash demo_world) = Inr ()"
  by code_simp

lemma demo_run_start: "identity_run demo_start"
  using demo_bootstrap started [of demo_world demo_env demo_hash demo_start]
  by (metis demo_start_def demo_world_def prod.collapse world.select_convs(1))

lemma demo_run_invited: "identity_run demo_invited"
  unfolding demo_invited_def demo_team_def demo_registered_def
  by (intro stepped [OF _ invite] stepped [OF _ create_team] stepped [OF _ register] demo_run_start)

end
