(* ===== verification/PolicyFacts.thy ===== *)
theory PolicyFacts imports Policy begin

text \<open>
  What an authorization decision of the program says about the rows of the database at the moment
  it is taken: who the caller is, which membership or ownership the decision rests on, and in which
  state the Plugin is.
\<close>

section \<open>The facts and their rows\<close>

definition row_of_user :: "db \<Rightarrow> string \<Rightarrow> user_row option" where
  "row_of_user d uid = List.find (\<lambda>u. user_ID u = uid) (users d)"

definition role_of :: "db \<Rightarrow> string \<Rightarrow> string \<Rightarrow> team_role" where
  "role_of d nid uid =
     (case List.find (\<lambda>m. tm_NamespaceID m = nid \<and> tm_UserID m = uid) (team_memberships d) of
        None \<Rightarrow> no_role | Some m \<Rightarrow> tm_Role m)"

definition owns_in :: "db \<Rightarrow> string \<Rightarrow> string \<Rightarrow> bool" where
  "owns_in d nid uid \<longleftrightarrow>
     (\<exists>n \<in> set (namespaces d). ns_ID n = nid \<and> ns_Kind n = NamespaceKindUser \<and> ns_OwnerUserID n = Some uid)"

lemma row_of_user_Some: "row_of_user d uid = Some u \<Longrightarrow> u \<in> set (users d) \<and> user_ID u = uid"
  unfolding row_of_user_def using find_Some_iff_hd by fastforce

lemma FindUserByID_Inr:
  "FindUserByID uid w = (Inr u, w') \<Longrightarrow> row_of_user (w_db w) uid = Some u \<and> w_db w' = w_db w"
  by (auto simp: FindUserByID_def prog_iff row_of_user_def)

lemma IsSystemAdmin_Inr:
  "IsSystemAdmin uid w = (Inr b, w') \<Longrightarrow>
     b = (admin_membership_count (w_db w) uid > 0) \<and> w_db w' = w_db w"
  by (auto simp: IsSystemAdmin_def prog_iff)

lemma owns_namespace_Inr:
  assumes "owns_namespace nid uid w = (Inr b, w')"
  shows "(b \<longrightarrow> nid \<noteq> [] \<and> owns_in (w_db w) nid uid) \<and> w_db w' = w_db w"
  using assms
  by (auto simp: owns_namespace_def prog_iff owns_in_def dest!: find_Some_iff_hd split: if_splits)

lemma role_in_Inr:
  "role_in nid uid w = (Inr r, w') \<Longrightarrow>
     r = (if nid = [] then no_role else role_of (w_db w) nid uid) \<and> w_db w' = w_db w"
  by (auto simp: role_in_def role_of_def prog_iff split: if_splits sum.splits option.splits)

text \<open>The facts of an active user, as a function of the rows.\<close>

lemma ReadAuthorizationState_Inr:
  assumes run: "ReadAuthorizationState p r w = (Inr st, w')" and user: "IsUser p" and active: "st_Active st"
  obtains rs w1 u where "resourceState r w = (Inr rs, w1)"
    "row_of_user (w_db w) (p_user_id p) = Some u" "user_Status u = UserStatusActive" "p_user_id p \<noteq> []"
    "st_SystemAdmin st = (admin_membership_count (w_db w) (p_user_id p) > 0)"
    "st_OwnsPersonalNamespace st \<longrightarrow>
       rs_ownerNamespaceID rs \<noteq> [] \<and> owns_in (w_db w) (rs_ownerNamespaceID rs) (p_user_id p)"
    "st_OwnsResource st = (rs_ownerUserID rs = p_user_id p)"
    "st_TeamRole st = (if rs_teamNamespaceID rs = [] then no_role
                       else role_of (w_db w) (rs_teamNamespaceID rs) (p_user_id p))"
    "st_InvitationTarget st = (rs_invitedUserID rs = p_user_id p)"
    "st_Plugin st = rs_plugin rs"
proof -
  from run obtain rs w1 where rs: "resourceState r w = (Inr rs, w1)"
    and rest: "bindE (map_error (\<lambda>e. if errors_Is e ErrIdentityNotFound then ErrIdentityUnknown else e)
                 (FindUserByID (p_user_id p))) (\<lambda>user.
        if user_Status user \<noteq> UserStatusActive then return (no_identity_state\<lparr>st_Plugin := rs_plugin rs\<rparr>)
        else
          bindE (IsSystemAdmin (user_ID user)) (\<lambda>admin.
          bindE (owns_namespace (rs_ownerNamespaceID rs) (user_ID user)) (\<lambda>owns.
          bindE (role_in (rs_teamNamespaceID rs) (user_ID user)) (\<lambda>role.
          return (no_identity_state\<lparr>st_Plugin := rs_plugin rs, st_Active := True, st_SystemAdmin := admin,
                     st_OwnsPersonalNamespace := owns,
                     st_OwnsResource := (rs_ownerUserID rs = user_ID user), st_TeamRole := role,
                     st_InvitationTarget := (rs_invitedUserID rs = user_ID user)\<rparr>))))) w1 = (Inr st, w')"
    and ne: "p_user_id p \<noteq> []"
    using user by (auto simp: ReadAuthorizationState_def Let_def bindE_Inr_iff IsUser_not_IsAnonymous fail_iff
        split: if_splits)
  have d1: "w_db w1 = w_db w" using readsD [OF reads_resourceState rs] .
  from rest obtain u w2 where u: "FindUserByID (p_user_id p) w1 = (Inr u, w2)"
    and act: "user_Status u = UserStatusActive"
    and rest2: "bindE (IsSystemAdmin (user_ID u)) (\<lambda>admin.
          bindE (owns_namespace (rs_ownerNamespaceID rs) (user_ID u)) (\<lambda>owns.
          bindE (role_in (rs_teamNamespaceID rs) (user_ID u)) (\<lambda>role.
          return (no_identity_state\<lparr>st_Plugin := rs_plugin rs, st_Active := True, st_SystemAdmin := admin,
                     st_OwnsPersonalNamespace := owns,
                     st_OwnsResource := (rs_ownerUserID rs = user_ID u), st_TeamRole := role,
                     st_InvitationTarget := (rs_invitedUserID rs = user_ID u)\<rparr>)))) w2 = (Inr st, w')"
    using active by (auto simp: bindE_Inr_iff map_error_Inr_iff return_iff no_identity_state_def split: if_splits)
  from FindUserByID_Inr [OF u] d1 have row: "row_of_user (w_db w) (p_user_id p) = Some u"
    and d2: "w_db w2 = w_db w" by auto
  from row_of_user_Some [OF row] have uid: "user_ID u = p_user_id p" by simp
  from rest2 obtain admin w3 owns w4 role w5 where
    adm: "IsSystemAdmin (user_ID u) w2 = (Inr admin, w3)" and
    own: "owns_namespace (rs_ownerNamespaceID rs) (user_ID u) w3 = (Inr owns, w4)" and
    rol: "role_in (rs_teamNamespaceID rs) (user_ID u) w4 = (Inr role, w5)" and
    st: "st = no_identity_state\<lparr>st_Plugin := rs_plugin rs, st_Active := True, st_SystemAdmin := admin,
                     st_OwnsPersonalNamespace := owns,
                     st_OwnsResource := (rs_ownerUserID rs = user_ID u), st_TeamRole := role,
                     st_InvitationTarget := (rs_invitedUserID rs = user_ID u)\<rparr>"
    by (auto simp: bindE_Inr_iff return_iff)
  note a = IsSystemAdmin_Inr [OF adm] and o = owns_namespace_Inr [OF own] and r = role_in_Inr [OF rol]
  show thesis
    by (rule that [OF rs row act ne]) (use a o r d2 uid st in auto)
qed

lemma pluginState_Inr:
  assumes "pluginState r w = (Inr rs, w')"
  obtains p rep where "p \<in> set (plugins (w_db w))" "rep \<in> set (repositories (w_db w))"
    "plg_ID p = ref_id r" "plg_NamespaceID p = ref_namespace_id r" "repo_ID rep = ref_id r"
    "rs_ownerNamespaceID rs = ref_namespace_id r" "rs_teamNamespaceID rs = ref_namespace_id r"
    "rs_plugin rs = \<lparr>fact_visibility = plg_Visibility p, fact_status = plg_Status p,
                     fact_repository_status = repo_Status rep\<rparr>"
  using assms
  by (fastforce simp: pluginState_def prog_iff dest!: first_row_Some split: if_splits)

section \<open>Authorized users\<close>

lemma authorize_Inr_user:
  assumes run: "authorize p a r w = (Inr (), w')" and user: "IsUser p"
  obtains st w1 where "ReadAuthorizationState p r w = (Inr st, w1)" "st_Active st" "granted a st"
    "isKnownAction a" "supportsResource a r" "scopes_Allows (p_scopes p) a"
proof -
  from run have "fst (Authorize (Some ReadAuthorizationState) p a r w) = Inr ()"
    by (simp add: authorize_def)
  with that policy.Authorize_user [OF user] show thesis by (metis fst_conv surj_pair)
qed

text \<open>C14. Complete description of the decision of \<open>policy.go\<close>, for any reader of the facts: without a reader
  nothing is allowed; an anonymous caller may only read a Plugin whose facts are publicly readable; a
  user is allowed exactly when the action is known and fits the resource, the scopes of the credential
  include it, the reader finds the user active, and one of the access rules (\<open>granted\<close>) applies.\<close>
theorem Authorize_iff:
  "fst (Authorize identities p a r w) = Inr () \<longleftrightarrow>
     supportsResource a r \<and>
     (\<exists>read_state st. identities = Some read_state \<and> fst (read_state p r w) = Inr st \<and>
        (if IsAnonymous p then a = ActionPluginRead \<and> allowsPublicPluginRead (st_Plugin st)
         else isKnownAction a \<and> p_user_id p \<noteq> [] \<and> scopes_Allows (p_scopes p) a \<and> st_Active st \<and> granted a st))"
proof (cases identities)
  case None
  then show ?thesis by (simp add: Authorize_def fail_def)
next
  case (Some read_state)
  show ?thesis
    by (cases "read_state p r w"; cases "fst (read_state p r w)")
      (auto simp: Some Authorize_def IsUser_not_IsAnonymous principal_Allows_def attempt_def return_def fail_def isKnownAction_def
         allowsAnonymousPluginRead_def allows_state_iff_granted split: if_splits)
qed

text \<open>C28. Only an active user is ever authorized: whatever the action, scopes and resource, a user request
  that is allowed belongs to a user whose row exists and is active when the decision is taken.\<close>
theorem authorized_user_is_active:
  assumes "IsUser p" "authorize p a r w = (Inr (), w')"
  shows "\<exists>u \<in> set (users (w_db w)). user_ID u = p_user_id p \<and> user_Status u = UserStatusActive"
proof -
  from assms obtain st w1 where "ReadAuthorizationState p r w = (Inr st, w1)" "st_Active st"
    by (metis authorize_Inr_user)
  then show ?thesis
    using row_of_user_Some by (metis ReadAuthorizationState_Inr assms(1))
qed

text \<open>C27. An archived Plugin, or one whose repository is not ready, is never written or published to, by
  anybody: when the decision is positive, the Plugin row is a draft or active one and its repository row is
  ready.\<close>
theorem authorized_change_of_live_plugin:
  assumes "a \<in> {ActionPluginWrite, ActionPluginPublish}" "authorize p a r w = (Inr (), w')"
  shows "\<exists>q \<in> set (plugins (w_db w)). \<exists>rep \<in> set (repositories (w_db w)).
           plg_ID q = ref_id r \<and> plg_NamespaceID q = ref_namespace_id r \<and> repo_ID rep = ref_id r \<and>
           plg_Status q \<in> {PluginStatusDraft, PluginStatusActive} \<and> repo_Status rep = RepositoryReady"
proof -
  have user: "IsUser p"
  proof (rule ccontr)
    assume "\<not> IsUser p"
    then have "IsAnonymous p" by (simp add: IsUser_not_IsAnonymous)
    with assms(2) policy.Authorize_anonymous [of p a r w] assms(1) show False
      by (auto simp: authorize_def)
  qed
  from assms(2) user obtain st w1 where st: "ReadAuthorizationState p r w = (Inr st, w1)" "st_Active st"
    and g: "granted a st" and sup: "supportsResource a r" by (metis authorize_Inr_user)
  have ok: "allowsPluginAction a (st_Plugin st)" using g assms(1) by (cases rule: granted.cases) auto
  from sup assms(1) have ty: "ref_type r = ResourcePlugin" by (auto simp: supportsResource_def)
  from st(1) user st(2) obtain rs w2 where "resourceState r w = (Inr rs, w2)" and pl: "st_Plugin st = rs_plugin rs"
    by (rule ReadAuthorizationState_Inr)
  with ty have "pluginState r w = (Inr rs, w2)" by (simp add: resourceState_def)
  then obtain q rep where q: "q \<in> set (plugins (w_db w))" "rep \<in> set (repositories (w_db w))"
    "plg_ID q = ref_id r" "plg_NamespaceID q = ref_namespace_id r" "repo_ID rep = ref_id r"
    and facts: "rs_plugin rs = \<lparr>fact_visibility = plg_Visibility q, fact_status = plg_Status q,
                     fact_repository_status = repo_Status rep\<rparr>"
    by (rule pluginState_Inr)
  from ok pl facts assms(1) have "plg_Status q \<in> {PluginStatusDraft, PluginStatusActive} \<and> repo_Status rep = RepositoryReady"
    by (auto simp: allowsPluginAction_def validPluginFacts_def split: if_splits)
  with q show ?thesis by blast
qed

section \<open>Roles\<close>

fun role_rank :: "team_role \<Rightarrow> nat" where
  "role_rank TeamRoleOwner = 5"
| "role_rank TeamRoleAdmin = 4"
| "role_rank TeamRoleMaintainer = 3"
| "role_rank TeamRoleDeveloper = 2"
| "role_rank TeamRoleViewer = 1"
| "role_rank (TeamRoleOther s) = 0"

lemma role_rank_simps:
  "validTeamRole r \<longleftrightarrow> 1 \<le> role_rank r"
  "r \<in> {TeamRoleOwner, TeamRoleAdmin, TeamRoleMaintainer, TeamRoleDeveloper} \<longleftrightarrow> 2 \<le> role_rank r"
  "r \<in> {TeamRoleOwner, TeamRoleAdmin, TeamRoleMaintainer} \<longleftrightarrow> 3 \<le> role_rank r"
  "r \<in> {TeamRoleOwner, TeamRoleAdmin} \<longleftrightarrow> 4 \<le> role_rank r"
  by (cases r; simp add: validTeamRole_def)+

lemma allowsTeamAction_mono:
  "role_rank r \<le> role_rank r' \<Longrightarrow> allowsTeamAction a r \<Longrightarrow> allowsTeamAction a r'"
  by (cases r; cases r') (auto simp: allowsTeamAction_def validTeamRole_def split: if_splits)

lemma allowsTeamPluginAction_mono:
  "role_rank r \<le> role_rank r' \<Longrightarrow> allowsTeamPluginAction a r \<Longrightarrow> allowsTeamPluginAction a r'"
  by (cases r; cases r') (auto simp: allowsTeamPluginAction_def validTeamRole_def split: if_splits)

text \<open>Roles are ordered: whatever a Team role allows, every higher role allows too, all other facts being
  equal.\<close>
theorem higher_role_allows_more:
  assumes "role_rank (st_TeamRole st) \<le> role_rank role" "allows_state a st"
  shows "allows_state a (st\<lparr>st_TeamRole := role\<rparr>)"
proof -
  note team = allowsTeamAction_mono [OF assms(1), of a] and plugin = allowsTeamPluginAction_mono [OF assms(1), of a]
  show ?thesis using assms(2) team plugin by (auto simp: allows_state_def split: if_splits)
qed

text \<open>A Team operation is only allowed on the strength of a row of the database: an administrator
  membership, an invitation addressed to the caller, or a membership in that Team whose role covers the
  operation.\<close>
theorem authorized_team_action:
  assumes "IsUser p" "isTeamAction a" "authorize p a r w = (Inr (), w')"
  shows "admin_membership_count (w_db w) (p_user_id p) > 0 \<or>
         (a = ActionTeamInvitationRespond \<and>
          (\<exists>i \<in> set (team_invitations (w_db w)). inv_ID i = ref_id r \<and> inv_UserID i = p_user_id p)) \<or>
         (let nid = if ref_type r = ResourceNamespace then ref_id r else ref_namespace_id r in
          allowsTeamAction a (role_of (w_db w) nid (p_user_id p)))"
proof -
  from assms(1,3) obtain st w1 where st: "ReadAuthorizationState p r w = (Inr st, w1)" "st_Active st"
    and g: "granted a st" and sup: "supportsResource a r" by (metis authorize_Inr_user)
  from st(1) assms(1) st(2) obtain rs w2 where rs: "resourceState r w = (Inr rs, w2)"
    and adm: "st_SystemAdmin st = (admin_membership_count (w_db w) (p_user_id p) > 0)"
    and role: "st_TeamRole st = (if rs_teamNamespaceID rs = [] then no_role
                       else role_of (w_db w) (rs_teamNamespaceID rs) (p_user_id p))"
    and inv: "st_InvitationTarget st = (rs_invitedUserID rs = p_user_id p)"
    by (rule ReadAuthorizationState_Inr)
  from sup assms(2) have ty: "ref_type r \<in> {ResourceNamespace, ResourceTeamMembership, ResourceTeamInvitation}"
    and ne: "ref_type r = ResourceNamespace \<longrightarrow> ref_id r \<noteq> []" "ref_type r \<noteq> ResourceNamespace \<longrightarrow> ref_namespace_id r \<noteq> []"
    and resp: "a = ActionTeamInvitationRespond \<longrightarrow> ref_type r = ResourceTeamInvitation"
    by (auto simp: supportsResource_def isTeamAction_def)
  from g assms(2) have "st_SystemAdmin st \<or> a = ActionTeamInvitationRespond \<and> st_InvitationTarget st \<or>
       allowsTeamAction a (st_TeamRole st)"
    using allows_state_iff_granted [of a st] by (auto simp: allows_state_def isTeamAction_def split: if_splits)
  then consider "st_SystemAdmin st" | "a = ActionTeamInvitationRespond" "st_InvitationTarget st"
    | "allowsTeamAction a (st_TeamRole st)" by blast
  then show ?thesis
  proof cases
    case 1 with adm show ?thesis by simp
  next
    case 2
    with resp rs inv show ?thesis
      by (auto simp: resourceState_def prog_iff dest!: find_Some_iff_hd)
  next
    case 3
    have "rs_teamNamespaceID rs = (if ref_type r = ResourceNamespace then ref_id r else ref_namespace_id r)"
      using rs ty by (auto simp: resourceState_def prog_iff dest!: find_Some_iff_hd)
    with 3 role ne show ?thesis
      by (auto simp: Let_def allowsTeamAction_def validTeamRole_def split: if_splits)
  qed
qed


section \<open>Concrete decisions\<close>

text \<open>A user with a personal namespace who owns a Team, and a Plugin in the personal namespace.\<close>

definition sample_db :: db where
  "sample_db = empty_db
     \<lparr>users := [\<lparr>user_ID = ''u1'', user_Username = ''ann'', user_Email = None, user_DisplayName = ''Ann'',
                 user_Status = UserStatusActive, user_PasswordHash = [], user_CreatedAt = 0, user_UpdatedAt = 0\<rparr>],
      namespaces :=
        [\<lparr>ns_ID = ''n1'', ns_Kind = NamespaceKindUser, ns_Slug = ''ann'', ns_DisplayName = ''Ann'',
          ns_OwnerUserID = Some ''u1'', ns_CreatedAt = 0, ns_UpdatedAt = 0\<rparr>,
         \<lparr>ns_ID = ''t1'', ns_Kind = NamespaceKindTeam, ns_Slug = ''core'', ns_DisplayName = ''Core'',
          ns_OwnerUserID = None, ns_CreatedAt = 0, ns_UpdatedAt = 0\<rparr>],
      team_memberships :=
        [\<lparr>tm_NamespaceID = ''t1'', tm_UserID = ''u1'', tm_Role = TeamRoleOwner, tm_CreatedAt = 0, tm_UpdatedAt = 0\<rparr>],
      plugins :=
        [\<lparr>plg_ID = ''p1'', plg_NamespaceID = ''n1'', plg_Slug = ''tool'', plg_Description = [],
          plg_Visibility = VisibilityPrivate, plg_Status = PluginStatusDraft, plg_ArchivedFrom = None,
          plg_DefaultVersionTag = None, plg_CreatedAt = 0, plg_UpdatedAt = 0\<rparr>],
      repositories :=
        [\<lparr>repo_ID = ''p1'', repo_StorageKey = ''plugins/p1.git'', repo_Status = RepositoryReady,
          repo_CreatedAt = 0, repo_UpdatedAt = 0\<rparr>]\<rparr>"

definition sample_world :: world where
  "sample_world =
     \<lparr>w_db = sample_db, w_faults = [], w_clock = int, w_ticks = 0, w_ids = dec_digits, w_next_id = 0,
      w_lower = id, w_uuid = (\<lambda>_. True),
      w_storage = empty_storage, w_io = []\<rparr>"

definition sample_user :: principal where
  "sample_user = \<lparr>p_kind = principalUser, p_user_id = ''u1'', p_username = ''ann'',
                  p_credential = CredentialJWT, p_scopes = UnrestrictedScopes\<rparr>"

definition sample_plugin :: resource_ref where
  "sample_plugin = \<lparr>ref_type = ResourcePlugin, ref_id = ''p1'', ref_namespace_id = ''n1''\<rparr>"

definition sample_team :: resource_ref where
  "sample_team = \<lparr>ref_type = ResourceNamespace, ref_id = ''t1'', ref_namespace_id = []\<rparr>"

lemma sample_write: "fst (authorize sample_user ActionPluginWrite sample_plugin sample_world) = Inr ()"
  by code_simp

lemma sample_settings: "fst (authorize sample_user ActionTeamSettingsWrite sample_team sample_world) = Inr ()"
  by code_simp

lemma sample_user_IsUser: "IsUser sample_user"
  by code_simp

theorem authorized_user_is_active_witness:
  "\<exists>u \<in> set (users sample_db). user_ID u = ''u1'' \<and> user_Status u = UserStatusActive"
  using authorized_user_is_active [OF sample_user_IsUser, of ActionPluginWrite sample_plugin sample_world
      "snd (authorize sample_user ActionPluginWrite sample_plugin sample_world)"] sample_write
  by (simp add: prod_eq_iff sample_world_def sample_user_def)

theorem authorized_change_of_live_plugin_witness:
  "\<exists>q \<in> set (plugins sample_db). \<exists>rep \<in> set (repositories sample_db).
     plg_ID q = ''p1'' \<and> plg_NamespaceID q = ''n1'' \<and> repo_ID rep = ''p1'' \<and>
     plg_Status q \<in> {PluginStatusDraft, PluginStatusActive} \<and> repo_Status rep = RepositoryReady"
  using authorized_change_of_live_plugin [of ActionPluginWrite sample_user sample_plugin sample_world
      "snd (authorize sample_user ActionPluginWrite sample_plugin sample_world)"] sample_write
  by (simp add: prod_eq_iff sample_world_def sample_plugin_def)

theorem higher_role_allows_more_witness:
  "allows_state ActionPluginCreate (no_identity_state\<lparr>st_TeamRole := TeamRoleAdmin\<rparr>)"
  using higher_role_allows_more [of "no_identity_state\<lparr>st_TeamRole := TeamRoleDeveloper\<rparr>" TeamRoleAdmin ActionPluginCreate]
  by (simp add: allows_state_def matrix_defs)

theorem authorized_team_action_witness:
  "allowsTeamAction ActionTeamSettingsWrite (role_of sample_db ''t1'' ''u1'')"
proof -
  have "isTeamAction ActionTeamSettingsWrite" and "admin_membership_count sample_db ''u1'' = 0"
    by code_simp+
  with authorized_team_action [OF sample_user_IsUser, of ActionTeamSettingsWrite sample_team sample_world
      "snd (authorize sample_user ActionTeamSettingsWrite sample_team sample_world)"] sample_settings
  show ?thesis by (simp add: prod_eq_iff sample_world_def sample_user_def sample_team_def Let_def)
qed

section \<open>Reading marketplaces\<close>

text \<open>
  Only an administrator or the owner of the personal namespace reads a marketplace: no Team role is
  enough, although \<open>docs\<close> lists \<open>marketplace.read\<close> for every role of a Team.
\<close>

lemma marketplace_read_ignores_team_roles:
  "allows_state ActionMarketplaceRead st \<longleftrightarrow> st_SystemAdmin st \<or> st_OwnsPersonalNamespace st"
  by (auto simp: allows_state_def matrix_defs)

end
