(* ===== verification/IdentityProps.thy ===== *)
theory IdentityProps imports IdentityRuns PolicyFacts begin

text \<open>
  The properties of the identity services: the invariants of every run, atomicity of the operations
  under database failures, the life of an invitation, and what a successful authentication says.
\<close>

section \<open>Invariants of every run\<close>

text \<open>C3. The last administrator cannot be lost: after any run, whatever the operations, their arguments and
  the failures of the database, some member of the admin group is an active user.\<close>
theorem always_an_active_admin:
  assumes "identity_run w"
  shows "\<exists>m \<in> set (group_memberships (w_db w)). \<exists>u \<in> set (users (w_db w)).
           gm_GroupID m = AdminSystemGroupID \<and> user_ID u = gm_UserID m \<and> user_Status u = UserStatusActive"
  using sys_run [OF assms] by (auto simp: sys_ok_def active_admin_def is_admin_row_def)

theorem always_an_active_admin_witness:
  "\<exists>m \<in> set (group_memberships (w_db demo_invited)). \<exists>u \<in> set (users (w_db demo_invited)).
     gm_GroupID m = AdminSystemGroupID \<and> user_ID u = gm_UserID m \<and> user_Status u = UserStatusActive"
  by (rule always_an_active_admin [OF demo_run_invited])

text \<open>C21. No Team is ever without an owner: after any run each namespace of kind Team has a member whose role
  is owner, although members can be demoted and removed.\<close>
theorem every_team_has_an_owner:
  assumes "identity_run w" "n \<in> set (namespaces (w_db w))" "ns_Kind n = NamespaceKindTeam"
  shows "\<exists>m \<in> set (team_memberships (w_db w)). tm_NamespaceID m = ns_ID n \<and> tm_Role m = TeamRoleOwner"
  using sys_run [OF assms(1)] assms(2,3) by (auto simp: sys_ok_def teams_owned_def)

lemma demo_invited_team:
  "\<exists>n \<in> set (namespaces (w_db demo_invited)). ns_Kind n = NamespaceKindTeam"
  by code_simp

theorem every_team_has_an_owner_witness:
  "\<exists>n \<in> set (namespaces (w_db demo_invited)). ns_Kind n = NamespaceKindTeam \<and>
     (\<exists>m \<in> set (team_memberships (w_db demo_invited)). tm_NamespaceID m = ns_ID n \<and> tm_Role m = TeamRoleOwner)"
  using demo_invited_team every_team_has_an_owner [OF demo_run_invited] by blast

text \<open>C29. The identity tables stay well formed in every run: IDs, usernames, slugs and token indexes are
  unique, references resolve, members and invitations belong to Teams, every invitation has at most one
  terminal time and a user has at most one open invitation per Team.\<close>
theorem identity_tables_well_formed:
  assumes "identity_run w"
  shows "identity_ok (w_db w)"
  using sys_run [OF assms] by (simp add: sys_ok_def)

theorem identity_tables_well_formed_witness: "identity_ok (w_db demo_invited)"
  by (rule identity_tables_well_formed [OF demo_run_invited])

section \<open>Failed operations\<close>

definition atomic :: "'a prog \<Rightarrow> bool" where
  "atomic m \<longleftrightarrow> (\<forall>w e w'. m w = (Inl e, w') \<longrightarrow> w_db w' = w_db w)"

definition never_fails :: "'a prog \<Rightarrow> bool" where
  "never_fails m \<longleftrightarrow> (\<forall>w e w'. m w \<noteq> (Inl e, w'))"

lemma atomic_reads: "reads m \<Longrightarrow> atomic m"
  by (auto simp: atomic_def dest: readsD)

lemma atomic_transaction: "atomic (transaction m)"
  by (auto simp: atomic_def dest: transaction_Inl_db)

lemma atomic_map_error: "atomic m \<Longrightarrow> atomic (map_error h m)"
  by (auto simp: atomic_def map_error_Inl_iff)

lemma atomic_bindE_reads: "reads m \<Longrightarrow> (\<And>x. atomic (f x)) \<Longrightarrow> atomic (bindE m f)"
  unfolding atomic_def bindE_Inl_iff by (metis readsD)

lemma atomic_bindE_never: "atomic m \<Longrightarrow> (\<And>x. never_fails (f x)) \<Longrightarrow> atomic (bindE m f)"
  unfolding atomic_def bindE_Inl_iff never_fails_def by metis

lemma atomic_attempt: "reads m \<Longrightarrow> (\<And>x. atomic (k x)) \<Longrightarrow> atomic (attempt m k)"
  unfolding atomic_def attempt_iff by (metis readsD)

lemma atomic_if: "atomic m \<Longrightarrow> atomic m' \<Longrightarrow> atomic (if b then m else m')"
  by simp

lemma atomic_case_prod: "(\<And>x y. atomic (f x y)) \<Longrightarrow> atomic (case p of (x, y) \<Rightarrow> f x y)"
  by (cases p) simp

lemma atomic_case_sum: "(\<And>x. atomic (f x)) \<Longrightarrow> (\<And>x. atomic (g x)) \<Longrightarrow> atomic (case r of Inl x \<Rightarrow> f x | Inr x \<Rightarrow> g x)"
  by (cases r) simp_all

lemma atomic_insert_row: "atomic (insert_row refs uniq f)"
  by (auto simp: atomic_def insert_row_Inl_iff)

lemma atomic_exec: "atomic (exec f)"
  by (auto simp: atomic_def exec_Inl_iff)

lemma never_fails_return: "never_fails (return x)"
  by (simp add: never_fails_def return_iff)

lemma never_fails_bindE: "never_fails m \<Longrightarrow> (\<And>x. never_fails (f x)) \<Longrightarrow> never_fails (bindE m f)"
  by (auto simp: never_fails_def bindE_Inl_iff)

lemma never_fails_find_user: "never_fails (find_user_or_zero uid)"
  by (auto simp: never_fails_def find_user_or_zero_def attempt_iff return_iff)

lemmas atomic_intros =
  atomic_bindE_reads atomic_if atomic_case_prod atomic_case_sum atomic_attempt atomic_map_error
  atomic_transaction atomic_reads

lemmas never_intros = never_fails_bindE never_fails_find_user never_fails_return

lemma atomic_UserService_create: "atomic (UserService_create hash p input req)"
  unfolding UserService_create_def CreateUserWithPersonalNamespace_def Let_def
  by (intro atomic_bindE_reads atomic_if atomic_case_prod atomic_reads
        atomic_bindE_never [OF atomic_map_error [OF atomic_transaction]] never_intros read_only)

lemma atomic_UserService_SetEnabled: "atomic (UserService_SetEnabled p uid b)"
  unfolding UserService_SetEnabled_def SetUserStatus_def Let_def
  by (intro atomic_bindE_reads atomic_if atomic_map_error atomic_transaction atomic_reads read_only)

lemma atomic_UserService_SetSystemAdmin: "atomic (UserService_SetSystemAdmin p uid b)"
  unfolding UserService_SetSystemAdmin_def SetSystemAdmin_def Let_def
  by (intro atomic_bindE_reads atomic_if atomic_map_error atomic_transaction atomic_reads read_only)

lemma atomic_TeamService_Create: "atomic (TeamService_Create p slug x)"
  unfolding TeamService_Create_def CreateTeam_def Let_def
  by (intro atomic_bindE_reads atomic_if atomic_reads
        atomic_bindE_never [OF atomic_map_error [OF atomic_transaction]] never_intros read_only)

lemma atomic_TeamService_RemoveMember: "atomic (TeamService_RemoveMember p slug uid)"
  unfolding TeamService_RemoveMember_def RemoveTeamMember_def
  by (intro atomic_bindE_reads atomic_if atomic_case_prod atomic_map_error atomic_transaction atomic_reads read_only)

lemma atomic_TeamService_Invite: "atomic (TeamService_Invite p slug username role)"
  unfolding TeamService_Invite_def CreateTeamInvitation_def Let_def
  by (intro atomic_bindE_reads atomic_if atomic_case_prod atomic_case_sum atomic_attempt atomic_reads
        atomic_bindE_never [OF atomic_map_error [OF atomic_transaction]] never_intros read_only)

lemma atomic_TeamService_Reissue: "atomic (TeamService_Reissue p slug iid)"
  unfolding TeamService_Reissue_def ReissueInvitation_def Let_def
  by (intro atomic_bindE_reads atomic_if atomic_case_prod atomic_reads
        atomic_bindE_never [OF atomic_map_error [OF atomic_transaction]] never_intros read_only)

lemma atomic_create_token: "atomic (create_token k)"
  unfolding create_token_def by (intro atomic_bindE_reads atomic_insert_row read_only)

lemma atomic_TokenService_Create: "atomic (TokenService_Create hmac pepper random p input)"
  unfolding TokenService_Create_def CreateToken_def Let_def
  by (intro atomic_bindE_reads atomic_case_prod
        atomic_bindE_never [OF atomic_map_error [OF atomic_map_error [OF atomic_create_token]]] never_intros read_only)

lemma atomic_TokenService_Revoke: "atomic (TokenService_Revoke p tid)"
  unfolding TokenService_Revoke_def RevokeToken_def
  by (intro atomic_bindE_reads atomic_if atomic_map_error atomic_exec atomic_reads read_only)

lemma update_where_none: "count_where P rows = 0 \<Longrightarrow> update_where P f rows = rows"
  by (auto simp: update_where_def intro!: map_idI)

lemma atomic_RevokeInvitation: "atomic (RevokeInvitation nid iid t)"
  unfolding atomic_def RevokeInvitation_def Let_def
  by (auto simp: bindE_Inl_iff exec_count_Inl_iff exec_count_Inr_iff query_Inl_iff query_Inr_iff return_iff fail_iff
      update_where_none [unfolded count_where_0_iff] split: if_splits)

lemma atomic_TeamService_Revoke: "atomic (TeamService_Revoke p slug iid)"
  unfolding TeamService_Revoke_def
  by (intro atomic_bindE_reads atomic_if atomic_case_prod atomic_map_error atomic_RevokeInvitation atomic_reads read_only)

text \<open>C31. Eleven operations of the User, Team and token services are atomic under database failures: whenever one
  of them returns an error, whichever statement of it failed and for whatever reason, the database is exactly
  as before the call. Responding to an invitation is not among them: it reads the Team again after its
  commit and reports a failure of that (\<open>accept_commits_before_error\<close>).\<close>
theorem failed_operations_change_nothing:
  "atomic (UserService_Register hash input) \<and> atomic (UserService_Create hash p input) \<and>
   atomic (UserService_SetEnabled p uid enabled) \<and> atomic (UserService_SetSystemAdmin p uid enabled) \<and>
   atomic (TeamService_Create p slug displayName) \<and> atomic (TeamService_RemoveMember p slug uid) \<and>
   atomic (TeamService_Invite p slug username role) \<and> atomic (TeamService_Revoke p slug iid) \<and>
   atomic (TeamService_Reissue p slug iid) \<and>
   atomic (TokenService_Create hmac pepper random p token) \<and> atomic (TokenService_Revoke p tid)"
  unfolding UserService_Register_def UserService_Create_def
  by (intro conjI atomic_UserService_create atomic_UserService_SetEnabled atomic_UserService_SetSystemAdmin
        atomic_TeamService_Create atomic_TeamService_RemoveMember atomic_TeamService_Invite atomic_TeamService_Revoke
        atomic_TeamService_Reissue atomic_TokenService_Create atomic_TokenService_Revoke)

end
