(* ===== verification/TeamProps.thy ===== *)
theory TeamProps imports IdentityRuns PolicyFacts begin

text \<open>
  The decisions and effects of the Team service: who may change whom, what answering an invitation
  does, and three behaviours that differ from what the documentation promises.
\<close>

section \<open>The caller and the Team\<close>

definition team_of_slug :: "(string \<Rightarrow> string) \<Rightarrow> db \<Rightarrow> string \<Rightarrow> namespace_row option" where
  "team_of_slug lw d slug =
     List.find (\<lambda>n. ns_Kind n = NamespaceKindTeam \<and> ns_Slug n = normalizeTeamSlug lw slug) (namespaces d)"

lemma teamSelect_role: "tr_CurrentUserRole (teamSelect d uid n) = role_of d (ns_ID n) uid"
  by (simp add: teamSelect_def role_of_def)

lemma teamSelect_ID: "tr_ID (teamSelect d uid n) = ns_ID n"
  by (simp add: teamSelect_def)

text \<open>\<open>calm w\<close>: the database is not failing.\<close>

definition calm :: "world \<Rightarrow> bool" where
  "calm w \<longleftrightarrow> w_faults w = []"

lemma resolve_Inr:
  assumes "resolve p slug w = (Inr (r, admin), w')"
  obtains n where "team_of_slug (w_lower w) (w_db w) slug = Some n" "r = teamSelect (w_db w) (p_user_id p) n"
    "admin = (admin_membership_count (w_db w) (p_user_id p) > 0)" "w_db w' = w_db w" "calm w \<longrightarrow> calm w'"
    "IsUser p" "p_credential p = CredentialJWT"
proof -
  from assms obtain n where "team_of_slug (w_lower w) (w_db w) slug = Some n \<and> r = teamSelect (w_db w) (p_user_id p) n \<and>
    admin = (admin_membership_count (w_db w) (p_user_id p) > 0) \<and> w_db w' = w_db w \<and> (calm w \<longrightarrow> calm w') \<and>
    IsUser p \<and> p_credential p = CredentialJWT"
    by (auto simp: resolve_def team_guard_def team_principal_def FindTeamBySlug_def IsSystemAdmin_def team_of_slug_def calm_def
        Let_def prog_iff split: if_splits option.splits)
  then show thesis by (intro that) auto
qed

lemma TeamRole_calm:
  assumes "TeamRole nid uid w = (res, w1)" "calm w"
  shows "w_db w1 = w_db w \<and> calm w1 \<and>
         (case res of Inr role \<Rightarrow> role = role_of (w_db w) nid uid | Inl _ \<Rightarrow> role_of (w_db w) nid uid = no_role)"
  using assms
  by (cases res)
    (auto simp: TeamRole_def role_of_def calm_def prog_iff not_found_or_def split: if_splits option.splits)

section \<open>Managing members\<close>

text \<open>C40. While the database answers, members are managed by rank: a change of a member's role succeeds only
  for a system administrator, for an owner of the Team, or for an admin of the Team who neither grants the
  owner role nor touches an owner.\<close>
theorem only_owners_manage_owners:
  assumes "calm w" "TeamService_PutMember p slug uid role w = (Inr m, w')"
  shows "\<exists>n \<in> set (namespaces (w_db w)).
           ns_Kind n = NamespaceKindTeam \<and> ns_Slug n = normalizeTeamSlug (w_lower w) slug \<and>
           (admin_membership_count (w_db w) (p_user_id p) > 0 \<or>
            role_of (w_db w) (ns_ID n) (p_user_id p) = TeamRoleOwner \<or>
            role_of (w_db w) (ns_ID n) (p_user_id p) = TeamRoleAdmin \<and> role \<noteq> TeamRoleOwner \<and>
            role_of (w_db w) (ns_ID n) uid \<noteq> TeamRoleOwner)"
proof -
  from assms(2) obtain r admin w1 res w2 where rs: "resolve p slug w = (Inr (r, admin), w1)"
    and can: "canManageRole (tr_CurrentUserRole r) admin role"
    and tr: "TeamRole (tr_ID r) uid w1 = (res, w2)"
    and cur: "case res of Inr current \<Rightarrow> canManageRole (tr_CurrentUserRole r) admin current | Inl _ \<Rightarrow> True"
    by (auto simp: TeamService_PutMember_def bindE_Inr_iff attempt_iff fail_iff guardE_Inr_iff return_iff split: if_splits)
  from rs obtain n where n: "team_of_slug (w_lower w) (w_db w) slug = Some n" "r = teamSelect (w_db w) (p_user_id p) n"
    "admin = (admin_membership_count (w_db w) (p_user_id p) > 0)" "w_db w1 = w_db w" "calm w \<longrightarrow> calm w1"
    by (rule resolve_Inr)
  from n(1) have "n \<in> set (namespaces (w_db w)) \<and> ns_Kind n = NamespaceKindTeam \<and>
      ns_Slug n = normalizeTeamSlug (w_lower w) slug"
    unfolding team_of_slug_def using find_Some_iff_hd by fastforce
  moreover have "case res of Inr current \<Rightarrow> current = role_of (w_db w) (ns_ID n) uid | Inl _ \<Rightarrow> role_of (w_db w) (ns_ID n) uid = no_role"
    using TeamRole_calm [OF tr] n assms(1) by (cases res) (simp_all add: teamSelect_ID)
  moreover have "canManageRole (role_of (w_db w) (ns_ID n) (p_user_id p)) admin role"
    using can n(2) by (simp add: teamSelect_role)
  moreover have "case res of Inr current \<Rightarrow> canManageRole (role_of (w_db w) (ns_ID n) (p_user_id p)) admin current | Inl _ \<Rightarrow> True"
    using cur n(2) by (cases res) (simp_all add: teamSelect_role)
  ultimately show ?thesis
    using n(3) by (intro bexI [of _ n]) (auto simp: canManageRole_def split: if_splits sum.splits)
qed

definition team_world :: "db \<Rightarrow> bool list \<Rightarrow> world" where
  "team_world d faults = sample_world\<lparr>w_db := d, w_faults := faults\<rparr>"

text \<open>The sample Team with a second owner and an admin.\<close>

definition staff_db :: db where
  "staff_db = sample_db
     \<lparr>users := users sample_db @
        map (\<lambda>i. \<lparr>user_ID = i, user_Username = i, user_Email = None, user_DisplayName = i,
                  user_Status = UserStatusActive, user_PasswordHash = [], user_CreatedAt = 0, user_UpdatedAt = 0\<rparr>)
          [''u2'', ''u3''],
      team_memberships := team_memberships sample_db @
        [\<lparr>tm_NamespaceID = ''t1'', tm_UserID = ''u2'', tm_Role = TeamRoleOwner, tm_CreatedAt = 0, tm_UpdatedAt = 0\<rparr>,
         \<lparr>tm_NamespaceID = ''t1'', tm_UserID = ''u3'', tm_Role = TeamRoleAdmin, tm_CreatedAt = 0, tm_UpdatedAt = 0\<rparr>]\<rparr>"

definition staff_admin :: principal where
  "staff_admin = sample_user\<lparr>p_user_id := ''u3'', p_username := ''u3''\<rparr>"

lemma owner_demotes: "\<not> isl (fst (TeamService_PutMember sample_user ''core'' ''u2'' TeamRoleViewer (team_world staff_db [])))"
  by code_simp

theorem only_owners_manage_owners_witness:
  "\<exists>n \<in> set (namespaces staff_db).
     admin_membership_count staff_db ''u1'' > 0 \<or> role_of staff_db (ns_ID n) ''u1'' = TeamRoleOwner \<or>
     role_of staff_db (ns_ID n) ''u1'' = TeamRoleAdmin"
proof -
  obtain m where "fst (TeamService_PutMember sample_user ''core'' ''u2'' TeamRoleViewer (team_world staff_db [])) = Inr m"
    using owner_demotes by (metis sum.collapse(2))
  then have run: "TeamService_PutMember sample_user ''core'' ''u2'' TeamRoleViewer (team_world staff_db []) =
      (Inr m, snd (TeamService_PutMember sample_user ''core'' ''u2'' TeamRoleViewer (team_world staff_db [])))"
    by (simp add: prod_eq_iff)
  have "calm (team_world staff_db [])" by (simp add: calm_def team_world_def)
  from only_owners_manage_owners [OF this run] show ?thesis
    by (auto simp: team_world_def sample_user_def)
qed

section \<open>Answering an invitation\<close>

text \<open>C37. Accepting an invitation makes its addressee a member of the Team with exactly the invited role, and
  only an open invitation that has not expired, addressed to the active caller, can be accepted.\<close>
theorem accepting_joins_the_team:
  assumes "TeamService_Respond p iid True w = (Inr answer, w')"
  shows "\<exists>i \<in> set (team_invitations (w_db w)).
           inv_ID i = iid \<and> inv_UserID i = p_user_id p \<and> inv_open i \<and> inv_ExpiresAt i > w_clock w (w_ticks w) \<and>
           (\<exists>u \<in> set (users (w_db w)). user_ID u = p_user_id p \<and> user_Status u = UserStatusActive) \<and>
           (\<forall>m \<in> set (team_memberships (w_db w)). membership_key m \<noteq> (inv_NamespaceID i, p_user_id p)) \<and>
           (\<exists>m \<in> set (team_memberships (w_db w')).
              membership_key m = (inv_NamespaceID i, p_user_id p) \<and> tm_Role m = inv_Role i) \<and>
           (\<exists>j \<in> set (team_invitations (w_db w')). inv_ID j = iid \<and> inv_AcceptedAt j = Some (w_clock w (w_ticks w)))"
proof -
  let ?t = "w_clock w (w_ticks w)"
  let ?member = "\<lambda>i. \<lparr>tm_NamespaceID = inv_NamespaceID i, tm_UserID = p_user_id p, tm_Role = inv_Role i,
                       tm_CreatedAt = ?t, tm_UpdatedAt = ?t\<rparr>"
  from assms obtain w1 nid w2 where r: "RespondInvitation iid (p_user_id p) True ?t w1 = (Inr nid, w2)"
    and d1: "w_db w1 = w_db w" and d2: "w_db w' = w_db w2"
    by (auto simp: TeamService_Respond_def team_guard_def prog_iff split: if_splits option.splits
        dest!: readsD [OF reads_ListTeams])
  from r obtain i w3 w4 w5 where i: "i \<in> set (team_invitations (w_db w))" "inv_ID i = iid" "inv_UserID i = p_user_id p"
      "inv_open i" "inv_ExpiresAt i > ?t"
    and act: "count_where (\<lambda>u. user_ID u = p_user_id p \<and> user_Status u = UserStatusActive) (users (w_db w)) = 1"
    and d3: "w_db w3 = w_db w" and m: "create_team_membership (?member i) w3 = (Inr (), w4)"
    and u: "update_invitation (inv_ID i) (\<lambda>j. j\<lparr>inv_AcceptedAt := Some ?t, inv_UpdatedAt := ?t\<rparr>) w4 = (Inr (), w5)"
    and d5: "w_db w2 = w_db w5"
    by (auto simp: RespondInvitation_def d1 elim!: bindE_InrE transaction_InrE dest!: run_dests find_Some_iff_hd)
  from m obtain m' where m': "\<forall>m' \<in> set (team_memberships (w_db w3)). membership_key m' \<noteq> membership_key (?member i)"
    "tm_NamespaceID m' = tm_NamespaceID (?member i)" "tm_UserID m' = tm_UserID (?member i)" "tm_Role m' = tm_Role (?member i)"
    "w_db w4 = (w_db w3)\<lparr>team_memberships := team_memberships (w_db w3) @ [m']\<rparr>"
    by (rule create_team_membership_Inr)
  note u' = update_invitation_InrD [OF u]
  have "\<exists>v \<in> set (users (w_db w)). user_ID v = p_user_id p \<and> user_Status v = UserStatusActive"
    using act count_where_pos_iff [of "\<lambda>u. user_ID u = p_user_id p \<and> user_Status u = UserStatusActive" "users (w_db w)"] by simp
  moreover have "\<forall>m \<in> set (team_memberships (w_db w)). membership_key m \<noteq> (inv_NamespaceID i, p_user_id p)"
    using m'(1) d3 by (simp add: membership_key_def)
  moreover have "m' \<in> set (team_memberships (w_db w'))" "membership_key m' = (inv_NamespaceID i, p_user_id p)" "tm_Role m' = inv_Role i"
    using d2 d5 u' m' by (simp_all add: membership_key_def)
  moreover have "i\<lparr>inv_AcceptedAt := Some ?t, inv_UpdatedAt := ?t\<rparr> \<in> set (team_invitations (w_db w'))"
    using i d2 d3 d5 u' m'(5) by (force simp: set_update_where)
  then have "\<exists>j \<in> set (team_invitations (w_db w')). inv_ID j = iid \<and> inv_AcceptedAt j = Some ?t"
    using i(2) by (intro bexI [of _ "i\<lparr>inv_AcceptedAt := Some ?t, inv_UpdatedAt := ?t\<rparr>"]) simp_all
  ultimately show ?thesis using i by blast
qed


definition invited_db :: db where
  "invited_db = staff_db
     \<lparr>users := users staff_db @
        [\<lparr>user_ID = ''u4'', user_Username = ''u4'', user_Email = None, user_DisplayName = ''u4'',
          user_Status = UserStatusActive, user_PasswordHash = [], user_CreatedAt = 0, user_UpdatedAt = 0\<rparr>],
      team_invitations :=
        [\<lparr>inv_ID = ''i1'', inv_NamespaceID = ''t1'', inv_UserID = ''u4'', inv_Role = TeamRoleDeveloper,
          inv_InvitedByUserID = ''u1'', inv_ExpiresAt = 100, inv_AcceptedAt = None, inv_RejectedAt = None,
          inv_RevokedAt = None, inv_CreatedAt = 0, inv_UpdatedAt = 0\<rparr>]\<rparr>"

definition invited_user :: principal where
  "invited_user = sample_user\<lparr>p_user_id := ''u4'', p_username := ''u4''\<rparr>"

lemma invited_accepts: "\<not> isl (fst (TeamService_Respond invited_user ''i1'' True (team_world invited_db [])))"
  by code_simp

theorem accepting_joins_the_team_witness:
  "\<exists>m \<in> set (team_memberships (w_db (snd (TeamService_Respond invited_user ''i1'' True (team_world invited_db []))))).
     tm_UserID m = ''u4'' \<and> tm_Role m = TeamRoleDeveloper"
proof -
  obtain a where "fst (TeamService_Respond invited_user ''i1'' True (team_world invited_db [])) = Inr a"
    using invited_accepts by (metis sum.collapse(2))
  then have "TeamService_Respond invited_user ''i1'' True (team_world invited_db []) =
      (Inr a, snd (TeamService_Respond invited_user ''i1'' True (team_world invited_db [])))"
    by (simp add: prod_eq_iff)
  from accepting_joins_the_team [OF this] show ?thesis
    by (auto simp: team_world_def invited_db_def invited_user_def membership_key_def)
qed

section \<open>Behaviour beside the documentation\<close>

text \<open>
  The documentation requires that a disabled user is refused at once. The Team service checks the
  credential and the administrator membership but not the status of the caller: a disabled user
  whose JWT has not expired creates a Team, and a disabled administrator renames any Team.
\<close>

definition disabled_db :: db where
  "disabled_db = sample_db
     \<lparr>users := map (\<lambda>u. u\<lparr>user_Status := UserStatusDisabled\<rparr>) (users sample_db) @
        [\<lparr>user_ID = ''u5'', user_Username = ''root'', user_Email = None, user_DisplayName = ''root'',
          user_Status = UserStatusDisabled, user_PasswordHash = [], user_CreatedAt = 0, user_UpdatedAt = 0\<rparr>],
      group_memberships := [\<lparr>gm_UserID = ''u5'', gm_GroupID = AdminSystemGroupID, gm_CreatedAt = 0\<rparr>]\<rparr>"

definition disabled_admin :: principal where
  "disabled_admin = sample_user\<lparr>p_user_id := ''u5'', p_username := ''root''\<rparr>"

lemma disabled_user_creates_team:
  "\<not> isl (fst (TeamService_Create sample_user ''new-team'' ''New'' (team_world disabled_db [])))"
  by code_simp

lemma disabled_admin_updates_team:
  "\<not> isl (fst (TeamService_Update disabled_admin ''core'' ''Renamed'' (team_world disabled_db [])))"
  by code_simp

lemma disabled_jwt_is_resolved:
  "\<not> isl (fst (ResolveJWTPrincipal ''ann'' (team_world disabled_db [])))"
  by code_simp

text \<open>
  The check that protects an owner from a Team admin is skipped when the lookup of the current role
  fails: with one failing statement, the third, the admin demotes an owner.
\<close>

lemma admin_demotes_owner_on_fault:
  "\<not> isl (fst (TeamService_PutMember staff_admin ''core'' ''u2'' TeamRoleViewer
                 (team_world staff_db [False, False, True]))) \<and>
   role_of (w_db (snd (TeamService_PutMember staff_admin ''core'' ''u2'' TeamRoleViewer
                 (team_world staff_db [False, False, True])))) ''t1'' ''u2'' = TeamRoleViewer \<and>
   isl (fst (TeamService_PutMember staff_admin ''core'' ''u2'' TeamRoleViewer (team_world staff_db [])))"
  by code_simp

text \<open>
  Accepting commits before the Team is looked up for the answer: when that lookup fails the caller
  gets an error although the membership exists.
\<close>

lemma accept_commits_before_error:
  "isl (fst (TeamService_Respond invited_user ''i1'' True
              (team_world invited_db [False, False, False, False, False, False, True]))) \<and>
   role_of (w_db (snd (TeamService_Respond invited_user ''i1'' True
              (team_world invited_db [False, False, False, False, False, False, True])))) ''t1'' ''u4'' = TeamRoleDeveloper"
  by code_simp

text \<open>A blank slug passes the check of the service and is refused only by the creation hook.\<close>

lemma blank_team_slug:
  "identitySlug (normalizeTeamSlug id []) \<and>
   (case fst (TeamService_Create sample_user [] ''Name'' sample_world) of
      Inl e \<Rightarrow> e \<noteq> ErrInvalidTeamInput | Inr _ \<Rightarrow> False)"
  by code_simp

end
