(* ===== verification/Lifecycles.thy ===== *)
theory Lifecycles imports IdentityRuns begin

text \<open>
  Records that never change again: an invitation that was accepted, rejected or revoked, and a token
  that was revoked. Both are invariants in the sense of \<open>identity_invariant\<close>, so the contract gives
  them for every step of the services.
\<close>

section \<open>Frames\<close>

lemma frame_create_user: "(\<And>d us. P (d\<lparr>users := us\<rparr>) = P d) \<Longrightarrow> keeps P (create_user u)"
  unfolding create_user_def by (intro keeps_intros keeps_insert_row keeps_reads read_only) simp_all

lemma frame_create_namespace: "(\<And>d ns. P (d\<lparr>namespaces := ns\<rparr>) = P d) \<Longrightarrow> keeps P (create_namespace n)"
  unfolding create_namespace_def by (intro keeps_intros keeps_insert_row keeps_reads read_only) simp_all

lemma frame_create_team_membership:
  "(\<And>d ms. P (d\<lparr>team_memberships := ms\<rparr>) = P d) \<Longrightarrow> keeps P (create_team_membership m)"
  unfolding create_team_membership_def by (intro keeps_intros keeps_insert_row keeps_reads read_only) simp_all

lemma frame_create_group_membership:
  "(\<And>d ms. P (d\<lparr>group_memberships := ms\<rparr>) = P d) \<Longrightarrow> keeps P (create_group_membership dn m)"
  unfolding create_group_membership_def Let_def
  by (intro keeps_intros keeps_insert_row keeps_exec_checked keeps_reads read_only) simp_all

lemma frame_create_groups:
  assumes "\<And>d gs. P (d\<lparr>system_groups := gs\<rparr>) = P d"
  shows "keeps P (create_groups gs)"
proof (induction gs)
  case Nil
  then show ?case by (simp add: keeps_reads reads_return)
next
  case (Cons g gs)
  have "keeps P (create_system_group g)"
    unfolding create_system_group_def by (intro keeps_intros keeps_exec keeps_reads read_only) (simp add: assms)
  with Cons show ?case by (simp, intro keeps_intros)
qed

text \<open>A property of invitations and tokens only is kept by every operation on the other tables.\<close>

locale other_tables_frame =
  fixes P :: "db \<Rightarrow> bool"
  assumes users [simp]: "P (d\<lparr>users := us\<rparr>) = P d"
    and namespaces [simp]: "P (d\<lparr>namespaces := ns\<rparr>) = P d"
    and groups [simp]: "P (d\<lparr>system_groups := gs\<rparr>) = P d"
    and admins [simp]: "P (d\<lparr>group_memberships := gms\<rparr>) = P d"
    and members [simp]: "P (d\<lparr>team_memberships := ms\<rparr>) = P d"
begin

lemmas creates =
  frame_create_user [of P] frame_create_namespace [of P] frame_create_team_membership [of P]
  frame_create_group_membership [of P] frame_create_groups [of P]

lemmas frame_intros =
  keeps_transaction_body keeps_intros creates keeps_exec keeps_exec_count keeps_exec_checked keeps_reads read_only

lemma CreateUser: "keeps P (CreateUserWithPersonalNamespace u n)"
  unfolding CreateUserWithPersonalNamespace_def by (intro frame_intros) simp_all

lemma UpdateUserDisplayName: "keeps P (UpdateUserDisplayName uid x t)"
  unfolding UpdateUserDisplayName_def by (intro frame_intros) simp_all

lemma SetUserStatus: "keeps P (SetUserStatus actor uid status t)"
  unfolding SetUserStatus_def lockSystemAdministrators_def by (intro frame_intros) simp_all

lemma SetSystemAdmin: "keeps P (SetSystemAdmin actor uid enabled)"
  unfolding SetSystemAdmin_def lockSystemAdministrators_def by (intro frame_intros) simp_all

lemma CreateTeam: "keeps P (CreateTeam n m)"
  unfolding CreateTeam_def by (intro frame_intros) simp_all

lemma UpdateTeamDisplayName: "keeps P (UpdateTeamDisplayName nid x t)"
  unfolding UpdateTeamDisplayName_def Let_def by (intro frame_intros) simp_all

lemma PutTeamMember: "keeps P (PutTeamMember nid uid role t)"
  unfolding PutTeamMember_def lockTeamMemberships_def set_member_role_def by (intro frame_intros) simp_all

lemma RemoveTeamMember: "keeps P (RemoveTeamMember nid uid)"
  unfolding RemoveTeamMember_def lockTeamMemberships_def by (intro frame_intros) simp_all

lemma Bootstrap: "keeps P (Bootstrap env hash)"
  unfolding Bootstrap_def lockBootstrapTransaction_def ensureSystemGroups_def bootstrap_admin_def
  by (intro frame_intros) simp_all

end

interpretation invitations_frame: other_tables_frame "\<lambda>d. Q (team_invitations d) (tokens d)" for Q
  by unfold_locales simp_all

section \<open>Closed invitations\<close>

definition settled :: "team_invitation_row \<Rightarrow> db \<Rightarrow> bool" where
  "settled i d \<longleftrightarrow> sys_ok d \<and> i \<in> set (team_invitations d) \<and> \<not> inv_open i"

lemma keeps_settled:
  "keeps sys_ok m \<Longrightarrow> (\<not> inv_open i \<Longrightarrow> keeps (\<lambda>d. i \<in> set (team_invitations d)) m) \<Longrightarrow> keeps (settled i) m"
  by (auto simp: settled_def keeps_def)

lemma settled_frame:
  "keeps sys_ok m \<Longrightarrow> (\<And>Q. keeps (\<lambda>d. Q (team_invitations d) (tokens d)) m) \<Longrightarrow> keeps (settled i) m"
  by (rule keeps_settled)

lemma in_update_where: "x \<in> set rows \<Longrightarrow> \<not> P x \<Longrightarrow> x \<in> set (update_where P f rows)"
  by (force simp: set_update_where)

lemma keeps_invitation_create_membership: "keeps (\<lambda>d. i \<in> set (team_invitations d)) (create_team_membership m)"
  by (rule frame_create_team_membership) simp

lemma keeps_invitation_create: "keeps (\<lambda>d. i \<in> set (team_invitations d)) (create_team_invitation j)"
  unfolding create_team_invitation_def by (intro keeps_intros keeps_insert_row keeps_reads read_only) auto

lemma settled_CreateTeamInvitation: "inv_open j \<Longrightarrow> keeps (settled i) (CreateTeamInvitation j)"
  unfolding CreateTeamInvitation_def
  by (rule keeps_settled [OF sys_CreateTeamInvitation [unfolded CreateTeamInvitation_def]])
    (auto intro!: keeps_transaction_body keeps_intros keeps_exec keeps_invitation_create in_update_where
       simp: pending_for_def)

lemma settled_RevokeInvitation: "keeps (settled i) (RevokeInvitation nid iid t)"
  by (rule keeps_settled [OF sys_RevokeInvitation], unfold RevokeInvitation_def Let_def,
      intro keeps_intros keeps_exec_count keeps_reads read_only) (auto intro: in_update_where)

text \<open>Only the row of an open invitation is changed, so a closed one is another row.\<close>

lemma settled_update_invitation:
  assumes "settled i (w_db w)" "j \<in> set (team_invitations (w_db w))" "inv_open j"
    "update_invitation (inv_ID j) f w = (Inr x, w')"
  shows "i \<in> set (team_invitations (w_db w'))"
proof -
  from assms(1) have d: "distinct (map inv_ID (team_invitations (w_db w)))" and i: "i \<in> set (team_invitations (w_db w))"
    and c: "\<not> inv_open i"
    by (auto simp: settled_def sys_ok_def identity_ok_usersD)
  have "inv_ID i \<noteq> inv_ID j"
    using distinct_map_same [OF d i assms(2)] c assms(3) by blast
  with i show ?thesis by (simp add: update_invitation_InrD [OF assms(4)] in_update_where)
qed

lemma settled_RespondInvitation: "keeps (settled i) (RespondInvitation iid uid accept t)"
proof (rule keepsI)
  fix w r w' assume run: "RespondInvitation iid uid accept t w = (r, w')" and st: "settled i (w_db w)"
  have ok: "sys_ok (w_db w')" using keepsD [OF sys_RespondInvitation run] st by (simp add: settled_def)
  show "settled i (w_db w')"
  proof (cases r)
    case (Inl e)
    with run st show ?thesis by (auto simp: RespondInvitation_def dest!: transaction_Inl_db)
  next
    case (Inr nid)
    let ?member = "\<lambda>i. \<lparr>tm_NamespaceID = inv_NamespaceID i, tm_UserID = uid, tm_Role = inv_Role i,
                         tm_CreatedAt = t, tm_UpdatedAt = t\<rparr>"
    from run Inr obtain j w1 w2 where j: "j \<in> set (team_invitations (w_db w))" "inv_open j"
      and d1: "w_db w1 = w_db w" and d2: "w_db w' = w_db w2"
      and act: "(if accept
               then bindE (map_error (\<lambda>_. ErrIdentityConflict) (create_team_membership (?member j))) (\<lambda>_.
                    update_invitation (inv_ID j) (\<lambda>k. k\<lparr>inv_AcceptedAt := Some t, inv_UpdatedAt := t\<rparr>))
               else update_invitation (inv_ID j) (\<lambda>k. k\<lparr>inv_RejectedAt := Some t, inv_UpdatedAt := t\<rparr>)) w1 = (Inr (), w2)"
      by (auto simp: RespondInvitation_def simp del: if_split elim!: bindE_InrE transaction_InrE
          dest!: run_dests find_Some_iff_hd)
    have "i \<in> set (team_invitations (w_db w2))"
    proof (cases accept)
      case False
      with act settled_update_invitation [of i w1 j] st j d1 show ?thesis by simp
    next
      case True
      with act obtain u w3 where m: "create_team_membership (?member j) w1 = (Inr u, w3)"
        and r: "update_invitation (inv_ID j) (\<lambda>k. k\<lparr>inv_AcceptedAt := Some t, inv_UpdatedAt := t\<rparr>) w3 = (Inr (), w2)"
        by (auto elim!: bindE_InrE dest!: map_error_InrD)
      have s1: "sys_ok (w_db w1)" using st d1 by (simp add: settled_def)
      have "settled i (w_db w3)"
        using st d1 create_team_membership_invitations [OF m] keepsD [OF sys_create_team_membership m s1]
        by (simp add: settled_def)
      moreover have "j \<in> set (team_invitations (w_db w3))"
        using j d1 create_team_membership_invitations [OF m] by simp
      ultimately show ?thesis using settled_update_invitation [OF _ _ j(2) r] by blast
    qed
    with ok d2 st show ?thesis by (simp add: settled_def)
  qed
qed

lemma settled_ReissueInvitation: "keeps (settled i) (ReissueInvitation nid iid newID t expiresAt)"
proof (rule keepsI)
  fix w r w' assume run: "ReissueInvitation nid iid newID t expiresAt w = (r, w')" and st: "settled i (w_db w)"
  have ok: "sys_ok (w_db w')" using keepsD [OF sys_ReissueInvitation run] st by (simp add: settled_def)
  show "settled i (w_db w')"
  proof (cases r)
    case (Inl e)
    with run st show ?thesis by (auto simp: ReissueInvitation_def dest!: transaction_Inl_db)
  next
    case (Inr new)
    from run Inr obtain old j w1 w2 w3 where old: "old \<in> set (team_invitations (w_db w))" and d1: "w_db w1 = w_db w"
      and u: "(if inv_open old then update_invitation (inv_ID old) (inv_terminate t) else return ()) w1 = (Inr (), w2)"
      and c: "create_team_invitation j w2 = (Inr (), w3)" and d3: "w_db w' = w_db w3"
      by (auto simp: ReissueInvitation_def Let_def simp del: if_split elim!: bindE_InrE transaction_InrE
          dest!: run_dests find_Some_iff_hd)
    have "i \<in> set (team_invitations (w_db w2))"
    proof (cases "inv_open old")
      case True
      with u settled_update_invitation [of i w1 old] st old d1 show ?thesis by simp
    next
      case False
      with u st d1 show ?thesis by (simp add: return_iff settled_def)
    qed
    then have "i \<in> set (team_invitations (w_db w3))" using keepsD [OF keeps_invitation_create c] by blast
    with ok d3 st show ?thesis by (simp add: settled_def)
  qed
qed

lemma keeps_invitation_tokens:
  "keeps (\<lambda>d. i \<in> set (team_invitations d)) (CreateToken k)"
  "keeps (\<lambda>d. i \<in> set (team_invitations d)) (RevokeToken tid uid t)"
  "keeps (\<lambda>d. i \<in> set (team_invitations d)) (TouchToken tid t)"
  unfolding CreateToken_def create_token_def RevokeToken_def TouchToken_def touchTokenUpdate_def Let_def
  by (intro keeps_transaction_body keeps_intros keeps_insert_row keeps_exec keeps_exec_count keeps_reads read_only; simp)+

lemmas invitations_framed =
  invitations_frame.CreateUser invitations_frame.UpdateUserDisplayName invitations_frame.SetUserStatus
  invitations_frame.SetSystemAdmin invitations_frame.CreateTeam invitations_frame.UpdateTeamDisplayName
  invitations_frame.PutTeamMember invitations_frame.RemoveTeamMember invitations_frame.Bootstrap

interpretation settled: identity_invariant "settled i" for i
proof
qed (intro settled_frame keeps_settled invitations_framed sys.I_CreateUser sys.I_UpdateUserDisplayName
       sys.I_SetUserStatus sys.I_SetSystemAdmin sys.I_CreateTeam sys.I_UpdateTeamDisplayName sys.I_PutTeamMember
       sys.I_RemoveTeamMember sys.I_CreateToken sys.I_RevokeToken sys.I_TouchToken sys.I_Bootstrap
       settled_CreateTeamInvitation settled_RespondInvitation settled_RevokeInvitation settled_ReissueInvitation
       keeps_invitation_tokens; assumption)+


text \<open>C35. An answered or revoked invitation is final: no later operation of any service, successful or not,
  changes or removes it, so it can never be accepted again.\<close>
theorem closed_invitation_is_final:
  assumes "identity_run w" "i \<in> set (team_invitations (w_db w))" "\<not> inv_open i" "identity_step\<^sup>*\<^sup>* w w'"
  shows "i \<in> set (team_invitations (w_db w'))"
  using settled.steps [OF assms(4), of i] sys_run [OF assms(1)] assms(2,3) by (simp add: settled_def)

definition demo_alice :: principal where
  "demo_alice = demo_admin\<lparr>p_user_id := ''id-2'', p_username := ''alice''\<rparr>"

definition demo_joined :: world where
  "demo_joined = snd (TeamService_Respond demo_alice ''id-5'' True demo_invited)"

lemma demo_run_joined: "identity_run demo_joined"
  unfolding demo_joined_def by (intro stepped [OF _ respond] demo_run_invited)

lemma demo_closed: "\<exists>i \<in> set (team_invitations (w_db demo_joined)). \<not> inv_open i \<and> inv_AcceptedAt i \<noteq> None"
  by code_simp

theorem closed_invitation_is_final_witness:
  "\<exists>i. inv_AcceptedAt i \<noteq> None \<and>
     i \<in> set (team_invitations (w_db (snd (TeamService_Respond demo_alice ''id-5'' False demo_joined))))"
proof -
  obtain i where i: "i \<in> set (team_invitations (w_db demo_joined))" "\<not> inv_open i" "inv_AcceptedAt i \<noteq> None"
    using demo_closed by blast
  have "identity_step\<^sup>*\<^sup>* demo_joined (snd (TeamService_Respond demo_alice ''id-5'' False demo_joined))"
    by (intro r_into_rtranclp identity_step.respond)
  from closed_invitation_is_final [OF demo_run_joined i(1,2) this] i(3) show ?thesis by blast
qed

section \<open>Revoked tokens\<close>

definition revoked_token :: "token_row \<Rightarrow> db \<Rightarrow> bool" where
  "revoked_token k d \<longleftrightarrow> sys_ok d \<and> k \<in> set (tokens d) \<and> tok_RevokedAt k \<noteq> None"

lemma keeps_revoked:
  "keeps sys_ok m \<Longrightarrow> (tok_RevokedAt k \<noteq> None \<Longrightarrow> keeps (\<lambda>d. k \<in> set (tokens d)) m) \<Longrightarrow> keeps (revoked_token k) m"
  by (auto simp: revoked_token_def keeps_def)

lemma keeps_token_row:
  "tok_RevokedAt k \<noteq> None \<Longrightarrow> keeps (\<lambda>d. k \<in> set (tokens d)) (RevokeToken tid uid t)"
  "tok_RevokedAt k \<noteq> None \<Longrightarrow> keeps (\<lambda>d. k \<in> set (tokens d)) (TouchToken tid t)"
  "keeps (\<lambda>d. k \<in> set (tokens d)) (CreateToken k')"
  unfolding CreateToken_def create_token_def RevokeToken_def TouchToken_def touchTokenUpdate_def Let_def
  by (intro keeps_transaction_body keeps_intros keeps_insert_row keeps_exec keeps_exec_count keeps_reads read_only;
      simp add: in_update_where token_usable_def)+

lemma keeps_token_invitations:
  "keeps (\<lambda>d. k \<in> set (tokens d)) (CreateTeamInvitation j)"
  "keeps (\<lambda>d. k \<in> set (tokens d)) (RespondInvitation iid uid accept t)"
  "keeps (\<lambda>d. k \<in> set (tokens d)) (RevokeInvitation nid iid t)"
  "keeps (\<lambda>d. k \<in> set (tokens d)) (ReissueInvitation nid iid newID t e)"
  unfolding CreateTeamInvitation_def RespondInvitation_def RevokeInvitation_def ReissueInvitation_def
    create_team_invitation_def create_team_membership_def update_invitation_def Let_def
  by (intro keeps_transaction_body keeps_intros keeps_insert_row keeps_exec keeps_exec_count keeps_reads read_only; simp)+

interpretation revoked: identity_invariant "revoked_token k" for k
proof
qed (intro keeps_revoked invitations_framed sys.I_CreateUser sys.I_UpdateUserDisplayName
       sys.I_SetUserStatus sys.I_SetSystemAdmin sys.I_CreateTeam sys.I_UpdateTeamDisplayName sys.I_PutTeamMember
       sys.I_RemoveTeamMember sys.I_CreateTeamInvitation sys.I_RespondInvitation sys.I_RevokeInvitation
       sys.I_ReissueInvitation sys.I_CreateToken sys.I_RevokeToken sys.I_TouchToken sys.I_Bootstrap
       keeps_token_row keeps_token_invitations; assumption)+

end
