(* ===== verification/Authentication.thy ===== *)
theory Authentication imports Lifecycles PolicyFacts begin

text \<open>
  What a successful authentication proves about the database, and what it can never be: a revoked or
  expired token, a disabled account, more authority than the preset of the token grants.
\<close>

section \<open>Token credentials\<close>

definition credential_of :: "token_row \<Rightarrow> user_row \<Rightarrow> token_credential" where
  "credential_of k u =
     \<lparr>tcr_ID = tok_ID k, tcr_UserID = tok_UserID k, tcr_Username = user_Username u, tcr_UserStatus = user_Status u,
      tcr_Preset = tok_Preset k, tcr_ExpiresAt = tok_ExpiresAt k, tcr_RevokedAt = tok_RevokedAt k\<rparr>"

lemma FindTokenCredential_Inr:
  assumes "FindTokenCredentialBySecretHMAC h w = (Inr r, w')"
  obtains k u where "k \<in> set (tokens (w_db w))" "u \<in> set (users (w_db w))" "user_ID u = tok_UserID k"
    "tok_SecretHMAC k = h" "r = credential_of k u"
  using assms
  by (auto simp: FindTokenCredentialBySecretHMAC_def credential_of_def map_error_Inr_iff take_row_Inr_iff dest!: first_row_Some)

text \<open>\<open>accepts k u username h t\<close>: the token row \<open>k\<close> of the user row \<open>u\<close> may be used at time \<open>t\<close>.\<close>

definition accepts :: "(string \<Rightarrow> string) \<Rightarrow> token_row \<Rightarrow> user_row \<Rightarrow> string \<Rightarrow> string \<Rightarrow> int \<Rightarrow> bool" where
  "accepts lw k u username h t \<longleftrightarrow>
     tok_SecretHMAC k = h \<and> user_ID u = tok_UserID k \<and> token_usable k t \<and> user_Status u = UserStatusActive \<and>
     user_Username u = NormalizeUsername lw username \<and> IsSupportedPreset (tok_Preset k)"

lemma pat_authenticate_Inr:
  assumes run: "pat_authenticate hmac pepper username plaintext w = (Inr r, w')"
  obtains h k u where "IndexAPIKey hmac plaintext pepper = Inr h" "k \<in> set (tokens (w_db w))" "u \<in> set (users (w_db w))"
    "accepts (w_lower w) k u username h (w_clock w (w_ticks w))" "r = credential_of k u"
proof -
  from run obtain h w1 lw t where h: "IndexAPIKey hmac plaintext pepper = Inr h"
    and f: "FindTokenCredentialBySecretHMAC h w = (Inr r, w1)"
    and ok: "tcr_UserStatus r = UserStatusActive" "tcr_Username r = NormalizeUsername lw username"
      "IsSupportedPreset (tcr_Preset r)" "tcr_RevokedAt r = None"
      "\<not> (case tcr_ExpiresAt r of None \<Rightarrow> False | Some e \<Rightarrow> \<not> e > t)"
    and lw: "lw = w_lower w1" "t = w_clock w1 (w_ticks w1)"
    by (auto simp: pat_authenticate_def bindE_Inr_iff map_error_Inr_iff of_sum_iff gets_iff now_iff fail_iff return_iff
        eq_commute [of "Inr _" "IndexAPIKey hmac plaintext pepper"] split: if_splits)
  from f have w1: "w_lower w1 = w_lower w" "w_clock w1 = w_clock w" "w_ticks w1 = w_ticks w"
    by (auto simp: FindTokenCredentialBySecretHMAC_def map_error_Inr_iff take_row_Inr_iff)
  from f obtain k u where ku: "k \<in> set (tokens (w_db w))" "u \<in> set (users (w_db w))" "user_ID u = tok_UserID k"
    "tok_SecretHMAC k = h" "r = credential_of k u" by (rule FindTokenCredential_Inr)
  have "accepts (w_lower w) k u username h (w_clock w (w_ticks w))"
    using ku ok w1 lw by (auto simp: accepts_def credential_of_def token_usable_def split: option.splits)
  with h ku show thesis by (intro that)
qed

lemma principalForPAT_Inr:
  "principalForPAT r = Inr p \<Longrightarrow>
     p = \<lparr>p_kind = principalUser, p_user_id = tcr_UserID r, p_username = tcr_Username r, p_credential = CredentialPAT,
          p_scopes = RestrictedScopes ([ActionMarketplaceRead, ActionPluginRead] @
            (if tcr_Preset r = TokenPresetGitWrite then [ActionPluginWrite] else []))\<rparr>"
  by (auto simp: principalForPAT_def Let_def NewUserPrincipal_Inr cloneScopes_RestrictedScopes split: sum.splits)

lemma pat_finish_Inr: "pat_finish r w = (Inr p, w') \<Longrightarrow> principalForPAT r = Inr p"
  by (auto simp: pat_finish_def bindE_Inr_iff map_error_Inr_iff of_sum_iff return_iff)

lemma AuthenticateGitPAT_Inr:
  assumes "AuthenticateGitPAT hmac pepper username plaintext operation w = (Inr p, w')"
  obtains r w1 where "pat_authenticate hmac pepper username plaintext w = (Inr r, w1)" "principalForPAT r = Inr p"
    "operation \<in> {GitOperationRead, GitOperationWrite}"
    "operation = GitOperationRead \<longrightarrow> tcr_Preset r \<in> {TokenPresetGitClone, TokenPresetGitWrite}"
    "operation = GitOperationWrite \<longrightarrow> tcr_Preset r = TokenPresetGitWrite"
proof -
  from assms obtain r w1 where "pat_authenticate hmac pepper username plaintext w = (Inr r, w1)"
    and rest: "(if operation = GitOperationRead \<and> tcr_Preset r \<noteq> TokenPresetGitClone \<and> tcr_Preset r \<noteq> TokenPresetGitWrite \<or>
        operation = GitOperationWrite \<and> tcr_Preset r \<noteq> TokenPresetGitWrite
     then fail ErrInvalidCredentials
     else if operation \<noteq> GitOperationRead \<and> operation \<noteq> GitOperationWrite then fail ErrInvalidCredentials
     else pat_finish r) w1 = (Inr p, w')"
    by (auto simp: AuthenticateGitPAT_def bindE_Inr_iff)
  with that [of r w1] show thesis
    by (auto simp: fail_iff dest!: pat_finish_Inr split: if_splits)
qed

text \<open>C15. A Git client is only let in by a token that is stored under the index of the presented key, neither
  revoked nor expired at that moment, supported, owned by an active user of that name, and whose preset
  covers the operation: cloning needs a clone or write token, pushing a write token.\<close>
theorem git_authentication_sound:
  assumes "AuthenticateGitPAT hmac pepper username plaintext operation w = (Inr p, w')"
  shows "\<exists>h. \<exists>k \<in> set (tokens (w_db w)). \<exists>u \<in> set (users (w_db w)).
           IndexAPIKey hmac plaintext pepper = Inr h \<and>
           accepts (w_lower w) k u username h (w_clock w (w_ticks w)) \<and>
           p_user_id p = user_ID u \<and> p_username p = user_Username u \<and>
           (operation = GitOperationRead \<and> tok_Preset k \<in> {TokenPresetGitClone, TokenPresetGitWrite} \<or>
            operation = GitOperationWrite \<and> tok_Preset k = TokenPresetGitWrite)"
proof -
  from assms obtain r w1 where a: "pat_authenticate hmac pepper username plaintext w = (Inr r, w1)"
    and p: "principalForPAT r = Inr p" and op: "operation \<in> {GitOperationRead, GitOperationWrite}"
      "operation = GitOperationRead \<longrightarrow> tcr_Preset r \<in> {TokenPresetGitClone, TokenPresetGitWrite}"
      "operation = GitOperationWrite \<longrightarrow> tcr_Preset r = TokenPresetGitWrite"
    by (rule AuthenticateGitPAT_Inr)
  from a obtain h k u where h: "IndexAPIKey hmac plaintext pepper = Inr h" "k \<in> set (tokens (w_db w))"
    "u \<in> set (users (w_db w))" "accepts (w_lower w) k u username h (w_clock w (w_ticks w))" "r = credential_of k u"
    by (rule pat_authenticate_Inr)
  moreover have "p_user_id p = user_ID u \<and> p_username p = user_Username u"
    using principalForPAT_Inr [OF p] h by (simp add: credential_of_def accepts_def)
  moreover have "operation = GitOperationRead \<and> tok_Preset k \<in> {TokenPresetGitClone, TokenPresetGitWrite} \<or>
            operation = GitOperationWrite \<and> tok_Preset k = TokenPresetGitWrite"
    using op h(5) by (auto simp: credential_of_def)
  ultimately show ?thesis by blast
qed

section \<open>Least privilege\<close>

text \<open>A principal obtained from a token can at most read marketplaces and Plugins, and write Plugins if
  it came from a push: whatever the roles of its owner, administrator included, every other action is
  denied in every state of the database.\<close>
theorem token_least_privilege:
  assumes "AuthenticateGitPAT hmac pepper username plaintext operation w = (Inr p, w')"
    "authorize p a r w2 = (Inr (), w3)"
  shows "a \<in> {ActionMarketplaceRead, ActionPluginRead} \<or>
         a = ActionPluginWrite \<and> (\<exists>k \<in> set (tokens (w_db w)). tok_UserID k = p_user_id p \<and> tok_Preset k = TokenPresetGitWrite)"
proof -
  from assms(1) obtain c w1 where a: "pat_authenticate hmac pepper username plaintext w = (Inr c, w1)"
    and p: "principalForPAT c = Inr p" by (rule AuthenticateGitPAT_Inr)
  from a obtain h k u where k: "k \<in> set (tokens (w_db w))" "c = credential_of k u" by (rule pat_authenticate_Inr)
  note p' = principalForPAT_Inr [OF p]
  then have "IsUser p" by (simp add: IsUser_def)
  with assms(2) have "scopes_Allows (p_scopes p) a" by (metis authorize_Inr_user)
  with p' k show ?thesis
    by (auto simp: scopes_Allows_def RestrictedScopes_def credential_of_def split: if_splits)
qed

section \<open>Revoked tokens\<close>

lemma usable_token_unique:
  assumes ok: "sys_ok d" and k: "k \<in> set (tokens d)" "k' \<in> set (tokens d)" "tok_SecretHMAC k' = tok_SecretHMAC k"
  shows "k' = k"
proof -
  have "distinct (map tok_SecretHMAC (tokens d))" using ok by (simp add: sys_ok_def identity_ok_defs)
  from distinct_map_same [OF this k(2,1,3)] show ?thesis .
qed

lemma revoked_not_authenticated:
  assumes "sys_ok (w_db w)" "k \<in> set (tokens (w_db w))" "tok_RevokedAt k \<noteq> None"
    "IndexAPIKey hmac plaintext pepper = Inr (tok_SecretHMAC k)"
  shows "\<not> (\<exists>r w'. pat_authenticate hmac pepper username plaintext w = (Inr r, w'))"
proof
  assume "\<exists>r w'. pat_authenticate hmac pepper username plaintext w = (Inr r, w')"
  then obtain r w' where "pat_authenticate hmac pepper username plaintext w = (Inr r, w')" by blast
  then obtain h k' u where h: "IndexAPIKey hmac plaintext pepper = Inr h" "k' \<in> set (tokens (w_db w))"
    "accepts (w_lower w) k' u username h (w_clock w (w_ticks w))" by (rule pat_authenticate_Inr)
  then have "k' = k" using usable_token_unique [OF assms(1,2)] assms(4) by (simp add: accepts_def)
  with h(3) assms(3) show False by (simp add: accepts_def token_usable_def)
qed

text \<open>C30. Revocation is final: once a token is revoked, no operation of the services ever makes its key work
  again, neither for Git nor for a subscription.\<close>
theorem revoked_token_never_authenticates:
  assumes "identity_run w" "k \<in> set (tokens (w_db w))" "tok_RevokedAt k \<noteq> None" "identity_step\<^sup>*\<^sup>* w w'"
    "IndexAPIKey hmac plaintext pepper = Inr (tok_SecretHMAC k)"
  shows "\<exists>e e'. fst (AuthenticateGitPAT hmac pepper username plaintext operation w') = Inl e \<and>
                fst (AuthenticateSubscriptionPAT hmac pepper username plaintext w') = Inl e'"
proof -
  have "revoked_token k (w_db w')"
    using revoked.steps [OF assms(4), of k] sys_run [OF assms(1)] assms(2,3) by (simp add: revoked_token_def)
  then have no: "\<not> (\<exists>r w2. pat_authenticate hmac pepper username plaintext w' = (Inr r, w2))"
    using revoked_not_authenticated [of w' k hmac plaintext pepper username] assms(5) by (simp add: revoked_token_def)
  then obtain e w2 where "pat_authenticate hmac pepper username plaintext w' = (Inl e, w2)"
    by (metis sum.exhaust prod.exhaust)
  then show ?thesis by (simp add: AuthenticateGitPAT_def AuthenticateSubscriptionPAT_def bindE_def)
qed

section \<open>Passwords\<close>

text \<open>C36. A password login succeeds only for an active user whose stored hash the password matches; an unknown
  or disabled user is refused with the same error as a wrong password.\<close>
theorem password_authentication_sound:
  "case AuthenticatePassword idkey username password w of
     (Inr u, w') \<Rightarrow>
       u \<in> set (users (w_db w)) \<and> user_Username u = NormalizeUsername (w_lower w) username \<and>
       user_Status u = UserStatusActive \<and> VerifyPassword idkey password (user_PasswordHash u) = Inr True
   | (Inl e, w') \<Rightarrow> e = ErrInvalidCredentials \<or> next_fault (w_faults w)"
proof -
  have f: "FindUserByUsername username w = (Inr u, w1) \<Longrightarrow>
      u \<in> set (users (w_db w)) \<and> user_Username u = NormalizeUsername (w_lower w) username" for u w1
    by (auto simp: FindUserByUsername_def bindE_Inr_iff gets_iff map_error_Inr_iff take_row_Inr_iff dest!: find_Some_iff_hd)
  have g: "FindUserByUsername username w = (Inl e, w1) \<Longrightarrow> e = ErrIdentityNotFound \<or> next_fault (w_faults w)" for e w1
    by (auto simp: FindUserByUsername_def bindE_Inl_iff gets_iff map_error_Inl_iff take_row_Inl_iff not_found_or_def
        split: if_splits)
  show ?thesis
  proof (cases "FindUserByUsername username w")
    case (Pair r w1)
    then show ?thesis
      using f [of _ w1] g [of _ w1]
      by (cases r) (auto simp: AuthenticatePassword_def attempt_def Let_def fail_def return_def split: sum.splits)
  qed
qed


section \<open>A token in use\<close>

text \<open>
  The administrator of the concrete run creates a token for pushing, uses it and revokes it. The
  digest used here keeps the first bytes of the key.
\<close>

definition demo_hmac :: "string \<Rightarrow> string \<Rightarrow> string" where
  "demo_hmac key message = take 32 (message @ key)"

definition demo_pepper :: string where
  "demo_pepper = replicate 32 CHR ''p''"

definition demo_key :: string where
  "demo_key = (case GenerateAPIKey (Some (replicate 32 CHR ''k'')) of Inl _ \<Rightarrow> [] | Inr k \<Rightarrow> k)"

definition demo_token_world :: world where
  "demo_token_world = snd (TokenService_Create demo_hmac demo_pepper (Some (replicate 32 CHR ''k'')) demo_admin
     \<lparr>ct_Name = ''laptop'', ct_Preset = TokenPresetGitWrite, ct_ExpiresAt = None\<rparr> demo_start)"

definition demo_index :: string where
  "demo_index = (case IndexAPIKey demo_hmac demo_key demo_pepper of Inl _ \<Rightarrow> [] | Inr h \<Rightarrow> h)"

definition demo_push :: "(err + principal) \<times> world" where
  "demo_push = AuthenticateGitPAT demo_hmac demo_pepper ''admin'' demo_key GitOperationWrite demo_token_world"

definition demo_revoked :: world where
  "demo_revoked = snd (TokenService_Revoke demo_admin ''id-2'' demo_token_world)"

text \<open>A database in which the pushed principal may read one public Plugin.\<close>

definition public_world :: world where
  "public_world = sample_world
     \<lparr>w_db := sample_db
        \<lparr>users := map (\<lambda>u. u\<lparr>user_ID := ''id-0''\<rparr>) (users sample_db),
         plugins := map (\<lambda>q. q\<lparr>plg_Visibility := VisibilityPublic, plg_Status := PluginStatusActive\<rparr>) (plugins sample_db)\<rparr>\<rparr>"

definition demo_pushed :: principal where
  "demo_pushed =
     \<lparr>p_kind = principalUser, p_user_id = ''id-0'', p_username = ''admin'', p_credential = CredentialPAT,
      p_scopes = RestrictedScopes [ActionMarketplaceRead, ActionPluginRead, ActionPluginWrite]\<rparr>"

lemma demo_push_ok: "fst demo_push = Inr demo_pushed"
  by code_simp

lemma demo_push_reads: "fst (authorize demo_pushed ActionPluginRead sample_plugin public_world) = Inr ()"
  by code_simp

lemma demo_push_run:
  "AuthenticateGitPAT demo_hmac demo_pepper ''admin'' demo_key GitOperationWrite demo_token_world =
     (Inr demo_pushed, snd demo_push)"
  using demo_push_ok by (simp add: demo_push_def prod_eq_iff)

theorem git_authentication_sound_witness:
  "\<exists>k \<in> set (tokens (w_db demo_token_world)). tok_Preset k = TokenPresetGitWrite \<and> tok_RevokedAt k = None"
  using git_authentication_sound [OF demo_push_run] by (auto simp: accepts_def token_usable_def)

theorem token_least_privilege_witness:
  "ActionPluginRead \<in> {ActionMarketplaceRead, ActionPluginRead} \<or>
   ActionPluginRead = ActionPluginWrite \<and>
     (\<exists>k \<in> set (tokens (w_db demo_token_world)). tok_UserID k = ''id-0'' \<and> tok_Preset k = TokenPresetGitWrite)"
proof -
  have "authorize demo_pushed ActionPluginRead sample_plugin public_world =
      (Inr (), snd (authorize demo_pushed ActionPluginRead sample_plugin public_world))"
    using demo_push_reads by (simp add: prod_eq_iff)
  from token_least_privilege [OF demo_push_run this] show ?thesis by (simp add: demo_pushed_def)
qed

lemma demo_run_revoked: "identity_run demo_revoked"
  unfolding demo_revoked_def demo_token_world_def
  by (intro stepped [OF _ identity_step.revoke_token] stepped [OF _ identity_step.create_token] demo_run_start)

lemma demo_revoked_token:
  "\<exists>k \<in> set (tokens (w_db demo_revoked)). tok_RevokedAt k \<noteq> None \<and> tok_SecretHMAC k = demo_index"
  by code_simp

lemma demo_key_index: "IndexAPIKey demo_hmac demo_key demo_pepper = Inr demo_index"
  by code_simp

theorem revoked_token_never_authenticates_witness:
  "\<exists>e. fst (AuthenticateGitPAT demo_hmac demo_pepper ''admin'' demo_key GitOperationWrite demo_revoked) = Inl e"
proof -
  obtain k where "k \<in> set (tokens (w_db demo_revoked))" "tok_RevokedAt k \<noteq> None" "tok_SecretHMAC k = demo_index"
    using demo_revoked_token by blast
  with revoked_token_never_authenticates [OF demo_run_revoked this(1,2) rtranclp.rtrancl_refl, of demo_hmac demo_key demo_pepper]
    demo_key_index show ?thesis by auto
qed

end
