(* ===== verification/PluginDao.thy ===== *)
theory PluginDao imports IdentityDao begin

text \<open>
  \<open>mod/backend/domain/plugin/repository.go\<close>: the Plugin aggregate (a Plugin and its hidden
  repository) and its versions, with the checks, keys and triggers that \<open>model.go\<close> and
  \<open>migrate.go\<close> give the tables. The program only sets the columns its statements name, so the
  hooks and triggers against changes of the identity columns never fire and are not repeated.
\<close>

section \<open>Constraints of the tables\<close>

definition plugin_exists :: "db \<Rightarrow> string \<Rightarrow> bool" where
  "plugin_exists d pid \<longleftrightarrow> (\<exists>p \<in> set (plugins d). plg_ID p = pid)"

text \<open>The trigger \<open>marketplace_plugins_default_available\<close>.\<close>

definition default_available :: "db \<Rightarrow> plugin_row \<Rightarrow> bool" where
  "default_available d p \<longleftrightarrow>
     (case plg_DefaultVersionTag p of None \<Rightarrow> True
      | Some tag \<Rightarrow> \<exists>v \<in> set (versions d). ver_PluginID v = plg_ID p \<and> ver_Tag v = tag \<and> ver_Status v = VersionStatusAvailable)"

text \<open>
  An update that reports \<open>RowsAffected\<close> and that a check constraint or a trigger of the table may
  reject: \<open>chk\<close> is asked of every changed row.
\<close>

definition update_rows ::
  "(db \<Rightarrow> 'r list) \<Rightarrow> ('r list \<Rightarrow> db \<Rightarrow> db) \<Rightarrow> (db \<Rightarrow> 'r \<Rightarrow> bool) \<Rightarrow> ('r \<Rightarrow> bool) \<Rightarrow> ('r \<Rightarrow> 'r) \<Rightarrow> nat prog" where
  "update_rows table set_table chk P f =
     statement (\<lambda>d. if \<forall>r \<in> set (table d). P r \<longrightarrow> chk d (f r)
                    then (Inr (count_where P (table d)), set_table (update_where P f (table d)) d)
                    else (Inl constraint_violation, d))"

definition set_plugins :: "plugin_row list \<Rightarrow> db \<Rightarrow> db" where
  "set_plugins rows d = d\<lparr>plugins := rows\<rparr>"

definition set_versions :: "version_row list \<Rightarrow> db \<Rightarrow> db" where
  "set_versions rows d = d\<lparr>versions := rows\<rparr>"

text \<open>An update of Plugins; only one that names \<open>default_version_tag\<close> fires its trigger.\<close>

definition update_plugins :: "bool \<Rightarrow> (plugin_row \<Rightarrow> bool) \<Rightarrow> (plugin_row \<Rightarrow> plugin_row) \<Rightarrow> nat prog" where
  "update_plugins names_default =
     update_rows plugins set_plugins (\<lambda>d p. chk_plugin p \<and> (names_default \<longrightarrow> default_available d p))"

definition update_versions :: "(version_row \<Rightarrow> bool) \<Rightarrow> (version_row \<Rightarrow> version_row) \<Rightarrow> nat prog" where
  "update_versions = update_rows versions set_versions (\<lambda>_. chk_version)"

section \<open>Creation of records\<close>

definition create_plugin :: "plugin_row \<Rightarrow> unit prog" where
  "create_plugin p =
     bindE now (\<lambda>t.
     insert_row (\<lambda>d. chk_plugin p \<and> default_available d p \<and> namespace_exists d (plg_NamespaceID p))
       (\<lambda>d. \<forall>q \<in> set (plugins d). plg_ID q \<noteq> plg_ID p \<and>
              (plg_NamespaceID q, plg_Slug q) \<noteq> (plg_NamespaceID p, plg_Slug p))
       (\<lambda>d. d\<lparr>plugins := plugins d @
          [p\<lparr>plg_CreatedAt := stamp t (plg_CreatedAt p), plg_UpdatedAt := stamp t (plg_UpdatedAt p)\<rparr>]\<rparr>))"

definition create_repository :: "repository_row \<Rightarrow> unit prog" where
  "create_repository r =
     bindE now (\<lambda>t.
     insert_row (\<lambda>d. chk_repository r \<and> plugin_exists d (repo_ID r))
       (\<lambda>d. \<forall>q \<in> set (repositories d). repo_ID q \<noteq> repo_ID r \<and> repo_StorageKey q \<noteq> repo_StorageKey r)
       (\<lambda>d. d\<lparr>repositories := repositories d @
          [r\<lparr>repo_CreatedAt := stamp t (repo_CreatedAt r), repo_UpdatedAt := stamp t (repo_UpdatedAt r)\<rparr>]\<rparr>))"

definition create_version :: "version_row \<Rightarrow> unit prog" where
  "create_version v =
     bindE now (\<lambda>t.
     insert_row (\<lambda>d. chk_version v \<and> plugin_exists d (ver_PluginID v))
       (\<lambda>d. \<forall>u \<in> set (versions d). ver_ID u \<noteq> ver_ID v \<and>
              (ver_PluginID u, ver_Tag u) \<noteq> (ver_PluginID v, ver_Tag v))
       (\<lambda>d. d\<lparr>versions := versions d @
          [v\<lparr>ver_CreatedAt := stamp t (ver_CreatedAt v), ver_UpdatedAt := stamp t (ver_UpdatedAt v)\<rparr>]\<rparr>))"

definition create_history :: "version_history_row \<Rightarrow> unit prog" where
  "create_history h =
     bindE now (\<lambda>t.
     insert_row (\<lambda>d. plugin_exists d (hist_PluginID h))
       (\<lambda>d. \<forall>g \<in> set (version_history d). hist_ID g \<noteq> hist_ID h)
       (\<lambda>d. d\<lparr>version_history := version_history d @ [h\<lparr>hist_CreatedAt := stamp t (hist_CreatedAt h)\<rparr>]\<rparr>))"

definition create_orphan_cleanup :: "orphan_cleanup_row \<Rightarrow> unit prog" where
  "create_orphan_cleanup c =
     bindE now (\<lambda>t.
     insert_row (\<lambda>_. True) (\<lambda>d. \<forall>b \<in> set (orphan_cleanups d). orphan_ID b \<noteq> orphan_ID c)
       (\<lambda>d. d\<lparr>orphan_cleanups := orphan_cleanups d @
          [c\<lparr>orphan_CreatedAt := stamp t (orphan_CreatedAt c), orphan_UpdatedAt := stamp t (orphan_UpdatedAt c)\<rparr>]\<rparr>))"

section \<open>The aggregate\<close>

record aggregate =
  agg_Plugin :: plugin_row
  agg_Repository :: repository_row

text \<open>A row of the join of \<open>plugins\<close> and \<open>repositories\<close>: both parts carry the ID of the Plugin.\<close>

definition aggregateFromRecord :: "plugin_row \<times> repository_row \<Rightarrow> aggregate" where
  "aggregateFromRecord pr =
     \<lparr>agg_Plugin = fst pr, agg_Repository = (snd pr)\<lparr>repo_ID := plg_ID (fst pr)\<rparr>\<rparr>"

definition plugin_join :: "db \<Rightarrow> (plugin_row \<times> repository_row) list" where
  "plugin_join d = [(p, r). p \<leftarrow> plugins d, r \<leftarrow> repositories d, repo_ID r = plg_ID p]"

definition already_exists_or :: "string \<Rightarrow> err \<Rightarrow> err" where
  "already_exists_or msg e = (if isUniqueConstraintError e then ErrAlreadyExists else Wrapped msg e)"

definition plugin_not_found_or :: "string \<Rightarrow> err \<Rightarrow> err" where
  "plugin_not_found_or msg e = (if errors_Is e ErrRecordNotFound then ErrNotFound else Wrapped msg e)"

definition CreateAggregate :: "aggregate \<Rightarrow> unit prog" where
  "CreateAggregate a =
     (let p = agg_Plugin a; r = agg_Repository a in
      if strings_TrimSpace (plg_NamespaceID p) = [] \<or> strings_TrimSpace (plg_ID p) = [] \<or>
         strings_TrimSpace (plg_Slug p) = [] \<or> repo_ID r \<noteq> plg_ID p \<or> strings_TrimSpace (repo_StorageKey r) = []
      then fail ErrInvalidScope
      else transaction
        (bindE (map_error (already_exists_or ''create scoped Plugin'') (create_plugin p)) (\<lambda>_.
         map_error (already_exists_or ''create shared-ID Repository'') (create_repository r))))"

definition FindBySlug :: "string \<Rightarrow> string \<Rightarrow> aggregate prog" where
  "FindBySlug namespaceID slug =
     (if strings_TrimSpace namespaceID = [] \<or> strings_TrimSpace slug = [] then fail ErrInvalidScope
      else bindE (map_error (plugin_not_found_or ''find scoped Plugin aggregate'')
                    (take_row (\<lambda>d. List.find (\<lambda>(p, r). plg_NamespaceID p = namespaceID \<and> plg_Slug p = slug)
                                    (plugin_join d))))
             (\<lambda>row. return (aggregateFromRecord row)))"

text \<open>The page offset is the plain product of the code, which may wrap; a negative one is ignored.\<close>

definition ListAggregates :: "string \<Rightarrow> int \<Rightarrow> int \<Rightarrow> (aggregate list \<times> nat) prog" where
  "ListAggregates namespaceID page sz =
     (if strings_TrimSpace namespaceID = [] \<or> page < 1 \<or> sz < 1 \<or> sz > 100 then fail ErrInvalidScope
      else bindE (map_error (Wrapped ''count scoped Plugins'')
                    (query (\<lambda>d. count_where (\<lambda>p. plg_NamespaceID p = namespaceID) (plugins d)))) (\<lambda>total.
           bindE (map_error (Wrapped ''list scoped Plugin aggregates'')
                    (query (\<lambda>d. limit_offset sz (wrap64 ((page - 1) * sz))
                       (sort_key (\<lambda>(p, r). (plg_Slug p, plg_ID p))
                          (filter (\<lambda>(p, r). plg_NamespaceID p = namespaceID) (plugin_join d)))))) (\<lambda>rows.
           return (map aggregateFromRecord rows, total))))"

section \<open>Versions\<close>

definition DaoListVersions :: "string \<Rightarrow> int \<Rightarrow> int \<Rightarrow> (version_row list \<times> nat) prog" where
  "DaoListVersions pluginID page sz =
     (if strings_TrimSpace pluginID = [] \<or> page < 1 \<or> sz < 1 \<or> sz > 100 then fail ErrInvalidScope
      else (let scope = (\<lambda>d. filter (\<lambda>v. ver_PluginID v = pluginID \<and> ver_Status v = VersionStatusAvailable) (versions d)) in
           bindE (map_error (Wrapped ''count scoped Plugin Versions'') (query (\<lambda>d. length (scope d)))) (\<lambda>total.
           bindE (map_error (Wrapped ''list scoped Plugin Versions'')
                    (query (\<lambda>d. limit_offset sz (wrap64 ((page - 1) * sz))
                       (sort_key (\<lambda>v. (- ver_PublishedAt v, ver_Tag v)) (scope d))))) (\<lambda>rows.
           return (rows, total)))))"

definition FindVersion :: "string \<Rightarrow> string \<Rightarrow> version_row prog" where
  "FindVersion pluginID tag =
     (if strings_TrimSpace pluginID = [] \<or> strings_TrimSpace tag = [] then fail ErrInvalidScope
      else map_error (plugin_not_found_or ''find scoped Plugin Version'')
             (take_row (\<lambda>d. List.find (\<lambda>v. ver_PluginID v = pluginID \<and> ver_Tag v = tag) (versions d))))"

section \<open>The default version\<close>

definition loadDefaultMutationPlugin :: "string \<Rightarrow> string \<Rightarrow> plugin_row prog" where
  "loadDefaultMutationPlugin namespaceID pluginID =
     map_error (\<lambda>e. if errors_Is e ErrRecordNotFound then ErrNotFound else e)
       (take_row (\<lambda>d. List.find (\<lambda>p. plg_NamespaceID p = namespaceID \<and> plg_ID p = pluginID) (plugins d)))"

text \<open>The shared tail: one row must change, and it must still have the status that was read.\<close>

definition set_default :: "string \<Rightarrow> string \<Rightarrow> string \<Rightarrow> plugin_row \<Rightarrow> string option \<Rightarrow> int \<Rightarrow> unit prog" where
  "set_default msg namespaceID pluginID plugin value t =
     bindE (map_error (Wrapped msg)
              (update_plugins True
                 (\<lambda>p. plg_NamespaceID p = namespaceID \<and> plg_ID p = pluginID \<and> plg_Status p = plg_Status plugin)
                 (\<lambda>p. p\<lparr>plg_DefaultVersionTag := value, plg_UpdatedAt := t\<rparr>)))
       (\<lambda>affected. if affected \<noteq> 1 then fail ErrVersionNotAvailable else return ())"

definition DaoSetDefaultVersion :: "string \<Rightarrow> string \<Rightarrow> string \<Rightarrow> unit prog" where
  "DaoSetDefaultVersion namespaceID pluginID tag =
     (if strings_TrimSpace namespaceID = [] \<or> strings_TrimSpace pluginID = [] \<or> strings_TrimSpace tag = []
      then fail ErrInvalidScope
      else transaction
        (bindE (map_error (Wrapped ''read scoped Plugin for default Version'')
                  (loadDefaultMutationPlugin namespaceID pluginID)) (\<lambda>plugin.
         if plg_Status plugin = PluginStatusArchived then fail ErrVersionNotAvailable
         else bindE (map_error (\<lambda>e. if errors_Is e ErrRecordNotFound then ErrVersionNotAvailable
                                    else Wrapped ''verify scoped default Version'' e)
                       (take_row (\<lambda>d. List.find (\<lambda>v. ver_PluginID v = pluginID \<and> ver_Tag v = tag \<and>
                                                  ver_Status v = VersionStatusAvailable) (versions d)))) (\<lambda>_.
              if plg_DefaultVersionTag plugin = Some tag then return ()
              else bindE now (\<lambda>t.
                   set_default ''set scoped default Version'' namespaceID pluginID plugin (Some tag) t)))))"

definition DaoClearDefaultVersion :: "string \<Rightarrow> string \<Rightarrow> int \<Rightarrow> unit prog" where
  "DaoClearDefaultVersion namespaceID pluginID updatedAt =
     (if strings_TrimSpace namespaceID = [] \<or> strings_TrimSpace pluginID = [] then fail ErrInvalidScope
      else transaction
        (bindE (map_error (Wrapped ''read scoped Plugin for clear default'')
                  (loadDefaultMutationPlugin namespaceID pluginID)) (\<lambda>plugin.
         if plg_Status plugin = PluginStatusArchived then fail ErrVersionNotAvailable
         else if plg_DefaultVersionTag plugin = None then return ()
         else set_default ''clear scoped default Version'' namespaceID pluginID plugin None updatedAt)))"

section \<open>Outcomes\<close>

lemma update_rows_Inr_iff [prog_iff]:
  "update_rows table set_table chk P f w = (Inr n, w') \<longleftrightarrow>
     \<not> next_fault (w_faults w) \<and> n = count_where P (table (w_db w)) \<and>
     (\<forall>r \<in> set (table (w_db w)). P r \<longrightarrow> chk (w_db w) (f r)) \<and>
     w' = w\<lparr>w_db := set_table (update_where P f (table (w_db w))) (w_db w), w_faults := tl (w_faults w)\<rparr>"
  by (auto simp: update_rows_def statement_def)

lemma update_rows_Inl_iff [prog_iff]:
  "update_rows table set_table chk P f w = (Inl e, w') \<longleftrightarrow>
     w' = w\<lparr>w_faults := tl (w_faults w)\<rparr> \<and>
     (if next_fault (w_faults w) then e = driver_failure
      else \<not> (\<forall>r \<in> set (table (w_db w)). P r \<longrightarrow> chk (w_db w) (f r)) \<and> e = constraint_violation)"
  by (auto simp: update_rows_def statement_def)

lemma keeps_update_rows:
  "(\<And>d. I d \<Longrightarrow> \<forall>r \<in> set (table d). P r \<longrightarrow> chk d (f r) \<Longrightarrow> I (set_table (update_where P f (table d)) d)) \<Longrightarrow>
   keeps I (update_rows table set_table chk P f)"
  by (simp add: keeps_def update_rows_def statement_def)

lemma reads_FindBySlug [read_only]: "reads (FindBySlug n s)"
  unfolding FindBySlug_def by (intro read_only)

lemma reads_ListAggregates [read_only]: "reads (ListAggregates n p s)"
  unfolding ListAggregates_def by (intro read_only)

lemma reads_DaoListVersions [read_only]: "reads (DaoListVersions n p s)"
  unfolding DaoListVersions_def by (intro read_only)

lemma reads_FindVersion [read_only]: "reads (FindVersion n t)"
  unfolding FindVersion_def by (intro read_only)

lemma reads_loadDefaultMutationPlugin [read_only]: "reads (loadDefaultMutationPlugin n p)"
  unfolding loadDefaultMutationPlugin_def by (intro read_only)

text \<open>What a found aggregate says of the database.\<close>

lemma plugin_join_iff: "(p, r) \<in> set (plugin_join d) \<longleftrightarrow> p \<in> set (plugins d) \<and> r \<in> set (repositories d) \<and> repo_ID r = plg_ID p"
  by (auto simp: plugin_join_def)

lemma FindBySlug_Inr:
  assumes "FindBySlug n s w = (Inr a, w')"
  shows "agg_Plugin a \<in> set (plugins (w_db w)) \<and> agg_Repository a \<in> set (repositories (w_db w)) \<and>
         repo_ID (agg_Repository a) = plg_ID (agg_Plugin a) \<and>
         plg_NamespaceID (agg_Plugin a) = n \<and> plg_Slug (agg_Plugin a) = s \<and> w_db w' = w_db w"
proof -
  from assms obtain p r w1 where row: "List.find (\<lambda>(p, r). plg_NamespaceID p = n \<and> plg_Slug p = s) (plugin_join (w_db w)) = Some (p, r)"
    and a: "a = aggregateFromRecord (p, r)" and w: "w_db w' = w_db w"
    by (auto simp: FindBySlug_def prog_iff split: if_splits)
  have "r\<lparr>repo_ID := plg_ID p\<rparr> = r" using find_Some_iff_hd [OF row] by (simp add: plugin_join_iff)
  with find_Some_iff_hd [OF row] a w show ?thesis
    by (auto simp: plugin_join_iff aggregateFromRecord_def)
qed

end
