(* ===== verification/GitStorage.thy ===== *)
theory GitStorage imports World begin

text \<open>
  \<open>mod/git/service.go\<close>: the bare repositories of the storage root. A repository is created under
  a storage key and a receipt; only the process that created it may remove it again with that
  receipt, and the recovery removes one that no Plugin refers to. Symbolic-link checks, the file
  system and \<open>git\<close> itself are steps that may fail.
\<close>

record provisioned =
  prov_identity :: "string \<times> string"
  prov_receipt :: string

definition provisioned_Created :: "provisioned \<Rightarrow> bool" where
  "provisioned_Created p \<longleftrightarrow> prov_receipt p \<noteq> []"

definition validateRepositoryIdentity :: "(string \<Rightarrow> bool) \<Rightarrow> string \<times> string \<Rightarrow> err option" where
  "validateRepositoryIdentity uuid ident =
     (if \<not> uuid (fst ident) then Some ErrInvalidRepositoryID
      else if \<not> uuid (snd ident) then Some ErrInvalidRepositoryID else None)"

text \<open>A call of the operating system or of \<open>git\<close> that changes nothing in the storage.\<close>

definition os_call :: "unit prog" where
  "os_call = io_step id id"

text \<open>
  The path of a repository is a function of its storage key, which stands for it here. The checks
  against symbolic links that leave the storage root read the file system and may fail.
\<close>

definition provisioningRepositoryPath :: "string \<times> string \<Rightarrow> string prog" where
  "provisioningRepositoryPath ident =
     bindE (gets w_uuid) (\<lambda>uuid.
     bindE (hook (validateRepositoryIdentity uuid ident)) (\<lambda>_.
     bindE os_call (\<lambda>_. return (snd ident))))"

definition has_repository :: "storage \<Rightarrow> string \<Rightarrow> bool" where
  "has_repository s key \<longleftrightarrow> key \<in> fst ` set (bare_repositories s)"

definition add_repository :: "string \<Rightarrow> int \<Rightarrow> storage \<Rightarrow> storage" where
  "add_repository key t s = s\<lparr>bare_repositories := bare_repositories s @ [(key, t)]\<rparr>"

definition drop_repository :: "string \<Rightarrow> storage \<Rightarrow> storage" where
  "drop_repository key s =
     s\<lparr>bare_repositories := delete_where (\<lambda>e. fst e = key) (bare_repositories s),
       git_refs := (\<lambda>(repo, ref). if repo = key then None else git_refs s (repo, ref))\<rparr>"

text \<open>\<open>os.Stat\<close>; the modelled storage holds directories only.\<close>

definition stat_repository :: "string \<Rightarrow> bool prog" where
  "stat_repository key = bindE os_call (\<lambda>_. gets (\<lambda>w. has_repository (w_storage w) key))"

definition removeRepositoryPath :: "string \<Rightarrow> unit prog" where
  "removeRepositoryPath key =
     bindE os_call (\<lambda>_.
     bindE (stat_repository key) (\<lambda>present.
     if \<not> present then return ()
     else io_step (drop_repository key) id))"

text \<open>A failure after \<open>git init\<close> removes the new repository; a failing cleanup is part of the message.\<close>

definition undo_repository :: "string \<Rightarrow> string \<Rightarrow> err \<Rightarrow> 'a prog" where
  "undo_repository key msg e = attempt (removeRepositoryPath key) (\<lambda>_. fail (Wrapped msg e))"

definition ProvisionRepository :: "string \<times> string \<Rightarrow> provisioned prog" where
  "ProvisionRepository ident =
     bindE (provisioningRepositoryPath ident) (\<lambda>key.
     bindE (stat_repository key) (\<lambda>present.
     if present
     then bindE (map_error (Wrapped ''repair protected receive hooks'') os_call) (\<lambda>_.
          return \<lparr>prov_identity = ident, prov_receipt = []\<rparr>)
     else bindE os_call (\<lambda>_.
          bindE (gets (\<lambda>w. w_clock w (w_ticks w))) (\<lambda>t.
          bindE (io_step (add_repository key t) (add_repository key t)) (\<lambda>_.
          attempt os_call (\<lambda>head. case head of
            Inl e \<Rightarrow> undo_repository key ''set repository HEAD'' e
          | Inr _ \<Rightarrow>
            attempt os_call (\<lambda>hooks. case hooks of
              Inl e \<Rightarrow> undo_repository key ''install protected receive hooks'' e
            | Inr _ \<Rightarrow>
              bindE new_id (\<lambda>token.
              bindE (modify_storage (\<lambda>s. s\<lparr>receipts :=
                       (token, \<lparr>rcpt_identity = ident, rcpt_removed = False\<rparr>) # receipts s\<rparr>)) (\<lambda>_.
              return \<lparr>prov_identity = ident, prov_receipt = token\<rparr>)))))))))"

definition mark_removed :: "string \<Rightarrow> storage \<Rightarrow> storage" where
  "mark_removed token s =
     s\<lparr>receipts := update_where (\<lambda>(k, r). k = token) (\<lambda>(k, r). (k, r\<lparr>rcpt_removed := True\<rparr>)) (receipts s)\<rparr>"

definition RemoveProvisionedRepository :: "provisioned \<Rightarrow> unit prog" where
  "RemoveProvisionedRepository p =
     (if \<not> provisioned_Created p then fail ErrRepositoryNotProvisioned
      else bindE (gets (\<lambda>w. map_of (receipts (w_storage w)) (prov_receipt p))) (\<lambda>r.
        case r of
          None \<Rightarrow> fail ErrRepositoryNotProvisioned
        | Some rc \<Rightarrow>
            if rcpt_identity rc \<noteq> prov_identity p then fail ErrRepositoryNotProvisioned
            else if rcpt_removed rc then return ()
            else bindE (provisioningRepositoryPath (prov_identity p)) (\<lambda>key.
                 bindE (removeRepositoryPath key) (\<lambda>_.
                 modify_storage (mark_removed (prov_receipt p))))))"

definition RemoveOrphanRepository :: "string \<Rightarrow> unit prog" where
  "RemoveOrphanRepository storageKey =
     bindE (provisioningRepositoryPath (storageKey, storageKey)) (\<lambda>key. removeRepositoryPath key)"

record orphan_candidate =
  cand_StorageKey :: string
  cand_CreatedAt :: int

text \<open>
  The directories are read in the order of their names; one that is not named after a canonical
  UUID, or whose path fails the checks, is skipped.
\<close>

fun orphan_candidates :: "(string \<times> int) list \<Rightarrow> int \<Rightarrow> orphan_candidate list prog" where
  "orphan_candidates [] cutoff = return []"
| "orphan_candidates ((key, t) # rest) cutoff =
     attempt (provisioningRepositoryPath (key, key)) (\<lambda>path. case path of
       Inl _ \<Rightarrow> orphan_candidates rest cutoff
     | Inr _ \<Rightarrow>
         bindE os_call (\<lambda>_.
         bindE (orphan_candidates rest cutoff) (\<lambda>more.
         return (if t > cutoff then more else \<lparr>cand_StorageKey = key, cand_CreatedAt = t\<rparr> # more))))"

definition ListRepositoryOrphanCandidates :: "int \<Rightarrow> orphan_candidate list prog" where
  "ListRepositoryOrphanCandidates minimumAge =
     (if minimumAge \<le> 0 then fail (ErrNew ''minimum orphan age must be positive'')
      else bindE os_call (\<lambda>_.
           bindE os_call (\<lambda>_.
           bindE now (\<lambda>t.
           bindE (gets (\<lambda>w. sort_key fst (bare_repositories (w_storage w)))) (\<lambda>entries.
           orphan_candidates entries (t - minimumAge))))))"

section \<open>Projections\<close>

text \<open>\<open>mod/git/projection_path.go\<close> and \<open>RemoveProjection\<close> of \<open>marketplace_projection_builder.go\<close>.\<close>

definition projectionPath :: "artifact_kind \<times> string \<Rightarrow> (artifact_kind \<times> string) prog" where
  "projectionPath p =
     bindE (gets w_uuid) (\<lambda>uuid.
     if \<not> uuid (snd p) then fail (ErrNew ''invalid projection storage key'')
     else bindE os_call (\<lambda>_. return p))"

definition RemoveProjection :: "artifact_kind \<times> string \<Rightarrow> unit prog" where
  "RemoveProjection p =
     bindE (projectionPath p) (\<lambda>path.
     io_step (\<lambda>s. s\<lparr>projections_on_disk := delete_where (\<lambda>q. q = path) (projections_on_disk s)\<rparr>) id)"

definition existingProjectionPath :: "artifact_kind \<times> string \<Rightarrow> (artifact_kind \<times> string) prog" where
  "existingProjectionPath p =
     bindE (projectionPath p) (\<lambda>path.
     bindE os_call (\<lambda>_.
     bindE (gets (\<lambda>w. path \<in> set (projections_on_disk (w_storage w)))) (\<lambda>present.
     if present then return path else fail ErrRepositoryNotFound)))"

section \<open>The database is not touched\<close>

lemma reads_os_call [read_only]: "reads os_call"
  unfolding os_call_def by (intro read_only)

lemma reads_provisioningRepositoryPath [read_only]: "reads (provisioningRepositoryPath i)"
  unfolding provisioningRepositoryPath_def by (intro read_only)

lemma reads_stat_repository [read_only]: "reads (stat_repository k)"
  unfolding stat_repository_def by (intro read_only)

lemma reads_removeRepositoryPath [read_only]: "reads (removeRepositoryPath k)"
  unfolding removeRepositoryPath_def by (intro read_only)

lemma reads_undo_repository [read_only]: "reads (undo_repository k m e)"
  unfolding undo_repository_def by (intro read_only)

lemma reads_ProvisionRepository [read_only]: "reads (ProvisionRepository i)"
  unfolding ProvisionRepository_def by (intro read_only)

lemma reads_RemoveProvisionedRepository [read_only]: "reads (RemoveProvisionedRepository p)"
  unfolding RemoveProvisionedRepository_def by (intro read_only)

lemma reads_RemoveOrphanRepository [read_only]: "reads (RemoveOrphanRepository k)"
  unfolding RemoveOrphanRepository_def by (intro read_only)

lemma reads_orphan_candidates [read_only]: "reads (orphan_candidates es c)"
  by (induction es c rule: orphan_candidates.induct) (simp_all, (intro read_only | assumption)+)

lemma reads_ListRepositoryOrphanCandidates [read_only]: "reads (ListRepositoryOrphanCandidates a)"
  unfolding ListRepositoryOrphanCandidates_def by (intro read_only)

lemma reads_projectionPath [read_only]: "reads (projectionPath p)"
  unfolding projectionPath_def by (intro read_only)

lemma reads_RemoveProjection [read_only]: "reads (RemoveProjection p)"
  unfolding RemoveProjection_def by (intro read_only)

lemma reads_existingProjectionPath [read_only]: "reads (existingProjectionPath p)"
  unfolding existingProjectionPath_def by (intro read_only)

end
