(* ===== verification/Regex.thy ===== *)
theory Regex imports GoStrings begin

text \<open>
  The part of Go's \<open>regexp\<close> the program uses: anchored patterns over bytes, built from character
  classes, concatenation, alternatives, options and repetitions. A pattern of the source is written
  here constructor by constructor; \<open>regex_lang\<close> says which strings it matches, \<open>MatchString\<close>
  decides it by derivatives, and the two agree.
\<close>

datatype regex =
    Nothing
  | Epsilon
  | Class "char \<Rightarrow> bool"
  | Seq regex regex
  | Alt regex regex
  | Star regex

abbreviation Lit :: "char \<Rightarrow> regex" where "Lit c \<equiv> Class (\<lambda>x. x = c)"
abbreviation Plus :: "regex \<Rightarrow> regex" where "Plus r \<equiv> Seq r (Star r)"
abbreviation Opt :: "regex \<Rightarrow> regex" where "Opt r \<equiv> Alt Epsilon r"

text \<open>\<open>r{0,n}\<close>.\<close>

primrec AtMost :: "nat \<Rightarrow> regex \<Rightarrow> regex" where
  "AtMost 0 r = Epsilon"
| "AtMost (Suc n) r = Opt (Seq r (AtMost n r))"

section \<open>The language of a pattern\<close>

inductive regex_lang :: "regex \<Rightarrow> string \<Rightarrow> bool" where
  epsilon: "regex_lang Epsilon []"
| single: "p c \<Longrightarrow> regex_lang (Class p) [c]"
| sequence: "regex_lang r s \<Longrightarrow> regex_lang q t \<Longrightarrow> regex_lang (Seq r q) (s @ t)"
| left: "regex_lang r s \<Longrightarrow> regex_lang (Alt r q) s"
| right: "regex_lang q s \<Longrightarrow> regex_lang (Alt r q) s"
| stop: "regex_lang (Star r) []"
| again: "regex_lang r s \<Longrightarrow> regex_lang (Star r) t \<Longrightarrow> regex_lang (Star r) (s @ t)"

inductive_simps regex_lang_simps:
  "regex_lang Nothing s" "regex_lang Epsilon s" "regex_lang (Class p) s"
  "regex_lang (Seq r q) s" "regex_lang (Alt r q) s"

section \<open>Matching by derivatives\<close>

fun nullable :: "regex \<Rightarrow> bool" where
  "nullable Nothing = False"
| "nullable Epsilon = True"
| "nullable (Class p) = False"
| "nullable (Seq r q) = (nullable r \<and> nullable q)"
| "nullable (Alt r q) = (nullable r \<or> nullable q)"
| "nullable (Star r) = True"

text \<open>Smart constructors keep the derivatives small.\<close>

fun seq :: "regex \<Rightarrow> regex \<Rightarrow> regex" where
  "seq Nothing q = Nothing"
| "seq Epsilon q = q"
| "seq r q = Seq r q"

fun alt :: "regex \<Rightarrow> regex \<Rightarrow> regex" where
  "alt Nothing q = q"
| "alt r Nothing = r"
| "alt r q = Alt r q"

fun deriv :: "char \<Rightarrow> regex \<Rightarrow> regex" where
  "deriv c Nothing = Nothing"
| "deriv c Epsilon = Nothing"
| "deriv c (Class p) = (if p c then Epsilon else Nothing)"
| "deriv c (Seq r q) = (if nullable r then alt (seq (deriv c r) q) (deriv c q) else seq (deriv c r) q)"
| "deriv c (Alt r q) = alt (deriv c r) (deriv c q)"
| "deriv c (Star r) = seq (deriv c r) (Star r)"

definition MatchString :: "regex \<Rightarrow> string \<Rightarrow> bool" where
  "MatchString r s = nullable (foldl (\<lambda>r c. deriv c r) r s)"

lemma nullable_iff: "nullable r \<longleftrightarrow> regex_lang r []"
  by (induction r) (auto simp: regex_lang_simps intro: regex_lang.stop)

lemma seq_lang [simp]: "regex_lang (seq r q) s \<longleftrightarrow> regex_lang (Seq r q) s"
  by (cases r) (auto simp: regex_lang_simps)

lemma alt_lang [simp]: "regex_lang (alt r q) s \<longleftrightarrow> regex_lang (Alt r q) s"
  by (cases "(r, q)" rule: alt.cases) (auto simp: regex_lang_simps)

lemma Star_Cons:
  "regex_lang (Star r) (c # s) \<longleftrightarrow> (\<exists>u v. s = u @ v \<and> regex_lang r (c # u) \<and> regex_lang (Star r) v)"
proof
  assume "regex_lang (Star r) (c # s)"
  then show "\<exists>u v. s = u @ v \<and> regex_lang r (c # u) \<and> regex_lang (Star r) v"
    by (induction "Star r" "c # s" arbitrary: s rule: regex_lang.induct) (auto simp: append_eq_Cons_conv)
next
  assume "\<exists>u v. s = u @ v \<and> regex_lang r (c # u) \<and> regex_lang (Star r) v"
  then obtain u v where "s = u @ v" "regex_lang r (c # u)" "regex_lang (Star r) v" by blast
  then show "regex_lang (Star r) (c # s)" using regex_lang.again [of r "c # u" v] by simp
qed

lemma Seq_Cons:
  "regex_lang (Seq r q) (c # s) \<longleftrightarrow>
     (\<exists>u v. s = u @ v \<and> regex_lang r (c # u) \<and> regex_lang q v) \<or> regex_lang r [] \<and> regex_lang q (c # s)"
  unfolding regex_lang_simps(4) [of r q "c # s"] by (auto simp: Cons_eq_append_conv)

lemma deriv_lang: "regex_lang (deriv c r) s \<longleftrightarrow> regex_lang r (c # s)"
proof (induction r arbitrary: s)
  case (Seq r q)
  have first: "regex_lang (Seq (deriv c r) q) s \<longleftrightarrow> (\<exists>u v. s = u @ v \<and> regex_lang r (c # u) \<and> regex_lang q v)"
    by (simp add: regex_lang_simps(4) Seq.IH(1))
  show ?case
    by (simp add: nullable_iff regex_lang_simps(5) first Seq_Cons Seq.IH(2))
next
  case (Star r)
  then show ?case by (auto simp: Star_Cons regex_lang_simps)
qed (auto simp: regex_lang_simps)

theorem MatchString_iff: "MatchString r s \<longleftrightarrow> regex_lang r s"
  unfolding MatchString_def
  by (induction s arbitrary: r) (auto simp: nullable_iff deriv_lang)

section \<open>Which characters a match may hold\<close>

fun alphabet :: "regex \<Rightarrow> char \<Rightarrow> bool" where
  "alphabet Nothing c = False"
| "alphabet Epsilon c = False"
| "alphabet (Class p) c = p c"
| "alphabet (Seq r q) c = (alphabet r c \<or> alphabet q c)"
| "alphabet (Alt r q) c = (alphabet r c \<or> alphabet q c)"
| "alphabet (Star r) c = alphabet r c"

lemma regex_lang_alphabet: "regex_lang r s \<Longrightarrow> c \<in> set s \<Longrightarrow> alphabet r c"
  by (induction rule: regex_lang.induct) auto

section \<open>The patterns of the program\<close>

definition digit :: "char \<Rightarrow> bool" where
  "digit c \<longleftrightarrow> 48 \<le> byte c \<and> byte c \<le> 57"

definition alnum :: "char \<Rightarrow> bool" where
  "alnum c \<longleftrightarrow> slug_char c \<or> 65 \<le> byte c \<and> byte c \<le> 90"

text \<open>\<open>^[a-z0-9]+(?:-[a-z0-9]+)*$\<close>\<close>

definition slugPattern :: regex where
  "slugPattern = Seq (Plus (Class slug_char)) (Star (Seq (Lit CHR ''-'') (Plus (Class slug_char))))"

text \<open>\<open>0|[1-9][0-9]*\<close>\<close>

definition numeric_identifier :: regex where
  "numeric_identifier = Alt (Lit CHR ''0'') (Seq (Class (\<lambda>c. digit c \<and> c \<noteq> CHR ''0'')) (Star (Class digit)))"

text \<open>\<open>0|[1-9][0-9]*|[0-9]*[A-Za-z-][0-9A-Za-z-]*\<close>\<close>

definition prerelease_identifier :: regex where
  "prerelease_identifier =
     Alt numeric_identifier
       (Seq (Star (Class digit))
          (Seq (Class (\<lambda>c. alnum c \<and> \<not> digit c \<or> c = CHR ''-''))
               (Star (Class (\<lambda>c. alnum c \<or> c = CHR ''-'')))))"

definition build_identifier :: regex where
  "build_identifier = Plus (Class (\<lambda>c. alnum c \<or> c = CHR ''-''))"

text \<open>\<open>x(?:\.x)*\<close>\<close>

definition dotted :: "regex \<Rightarrow> regex" where
  "dotted x = Seq x (Star (Seq (Lit CHR ''.'') x))"

definition canonicalTagPattern :: regex where
  "canonicalTagPattern =
     Seq (Lit CHR ''v'') (Seq numeric_identifier (Seq (Lit CHR ''.'') (Seq numeric_identifier
       (Seq (Lit CHR ''.'') (Seq numeric_identifier
         (Seq (Opt (Seq (Lit CHR ''-'') (dotted prerelease_identifier)))
              (Opt (Seq (Lit CHR ''+'') (dotted build_identifier)))))))))"

text \<open>\<open>^[A-Za-z0-9][A-Za-z0-9._/+\-]{0,254}$\<close>\<close>

definition tagNamePattern :: regex where
  "tagNamePattern = Seq (Class alnum) (AtMost 254 (Class (\<lambda>c. alnum c \<or> c \<in> set ''._/+-'')))"

text \<open>\<open>^[A-Za-z0-9][A-Za-z0-9_-]{1,127}$\<close>\<close>

definition repositoryIDPattern :: regex where
  "repositoryIDPattern =
     (let more = Class (\<lambda>c. alnum c \<or> c \<in> set ''_-'') in Seq (Class alnum) (Seq more (AtMost 126 more)))"

definition tag_char :: "char \<Rightarrow> bool" where
  "tag_char c \<longleftrightarrow> alnum c \<or> c \<in> set ''.-+''"

lemma digit_alnum: "digit c \<Longrightarrow> alnum c"
  by (simp add: digit_def alnum_def slug_char_def)

lemma literal_tag_chars: "tag_char CHR ''v''" "tag_char CHR ''.''" "tag_char CHR ''-''" "tag_char CHR ''+''" "alnum CHR ''0''"
  by code_simp+

lemma identifier_chars:
  "alphabet numeric_identifier c \<Longrightarrow> alnum c"
  "alphabet prerelease_identifier c \<Longrightarrow> alnum c \<or> c = CHR ''-''"
  "alphabet build_identifier c \<Longrightarrow> alnum c \<or> c = CHR ''-''"
  "alphabet (dotted r) c \<Longrightarrow> alphabet r c \<or> c = CHR ''.''"
proof -
  show numeric: "alphabet numeric_identifier c \<Longrightarrow> alnum c" for c
    using literal_tag_chars(5) by (auto simp: numeric_identifier_def digit_alnum)
  show "alphabet prerelease_identifier c \<Longrightarrow> alnum c \<or> c = CHR ''-''"
    using numeric [of c] by (auto simp: prerelease_identifier_def digit_alnum)
qed (auto simp: build_identifier_def dotted_def)

lemma alnum_tag_char: "alnum c \<Longrightarrow> tag_char c"
  by (simp add: tag_char_def)

lemma canonicalTagPattern_chars:
  assumes "MatchString canonicalTagPattern s" "c \<in> set s"
  shows "tag_char c"
proof -
  have "alphabet canonicalTagPattern c"
    using assms regex_lang_alphabet by (simp add: MatchString_iff)
  then have "c = CHR ''v'' \<or> c = CHR ''.'' \<or> c = CHR ''-'' \<or> c = CHR ''+'' \<or> alnum c"
    using identifier_chars(1-3) [where c = c] identifier_chars(4) [where r = prerelease_identifier and c = c]
      identifier_chars(4) [where r = build_identifier and c = c]
    unfolding canonicalTagPattern_def alphabet.simps by blast
  then show ?thesis using literal_tag_chars alnum_tag_char by blast
qed

lemma canonicalTagPattern_starts:
  assumes "MatchString canonicalTagPattern s"
  shows "\<exists>t. s = CHR ''v'' # t \<and> t \<noteq> []"
proof -
  let ?rest = "Seq numeric_identifier (Seq (Lit CHR ''.'') (Seq numeric_identifier
       (Seq (Lit CHR ''.'') (Seq numeric_identifier
         (Seq (Opt (Seq (Lit CHR ''-'') (dotted prerelease_identifier)))
              (Opt (Seq (Lit CHR ''+'') (dotted build_identifier))))))))"
  have "regex_lang (Seq (Lit CHR ''v'') ?rest) s"
    using assms by (simp add: MatchString_iff canonicalTagPattern_def)
  then obtain u t where s: "s = u @ t" "regex_lang (Lit CHR ''v'') u" "regex_lang ?rest t"
    using regex_lang_simps(4) [THEN iffD1] by blast
  have "\<not> nullable ?rest" by simp
  then have "t \<noteq> []" using s(3) by (auto simp only: nullable_iff)
  with s(1,2) show ?thesis by (auto simp: regex_lang_simps(3))
qed

text \<open>The slug pattern is the language of canonical slugs.\<close>

lemma Plus_slug_char: "regex_lang (Plus (Class slug_char)) s \<longleftrightarrow> slug_word s"
proof -
  have star: "regex_lang (Star (Class slug_char)) t \<longleftrightarrow> list_all slug_char t" for t
    by (induction t) (auto simp: Star_Cons regex_lang_simps intro: regex_lang.stop)
  show ?thesis
  proof (cases s)
    case Nil
    then show ?thesis by (simp add: regex_lang_simps(3,4) slug_word_def)
  next
    case (Cons c u)
    then show ?thesis by (simp add: Seq_Cons regex_lang_simps(3) star slug_word_def)
  qed
qed

theorem slugPattern_iff: "MatchString slugPattern s \<longleftrightarrow> canonical_slug s"
proof -
  let ?tail = "Star (Seq (Lit CHR ''-'') (Plus (Class slug_char)))"
  have word: "\<exists>w t. s = w @ t \<and> slug_word w \<and> regex_lang ?tail t" if "slug_language s" for s
    using that
  proof (induction rule: slug_language.induct)
    case (word w)
    then show ?case by (intro exI [of _ w] exI [of _ "[]"]) (auto intro: regex_lang.stop)
  next
    case (more w s)
    then obtain v t where s: "s = v @ t" "slug_word v" "regex_lang ?tail t" by blast
    have "regex_lang (Seq (Lit CHR ''-'') (Plus (Class slug_char))) (CHR ''-'' # v)"
      using regex_lang.sequence [of "Lit CHR ''-''" "''-''"] s(2)
      by (simp add: Plus_slug_char regex_lang_simps(3))
    from regex_lang.again [OF this s(3)] more.hyps(1) s(1) show ?case
      by (intro exI [of _ w] exI [of _ "(CHR ''-'' # v) @ t"]) simp
  qed
  have tail: "regex_lang r t \<Longrightarrow> r = ?tail \<Longrightarrow> slug_word w \<Longrightarrow> slug_language (w @ t)" for r t w
  proof (induction arbitrary: w rule: regex_lang.induct)
    case (stop r)
    then show ?case by (simp add: slug_language.word)
  next
    case (again r s t)
    then obtain v where "s = CHR ''-'' # v" "slug_word v"
      by (auto simp: regex_lang_simps(3) regex_lang_simps(4) [of "Lit CHR ''-''"] Plus_slug_char)
    with again show ?case by (simp add: slug_language.more)
  qed simp_all
  have "regex_lang slugPattern s \<longleftrightarrow> (\<exists>w t. s = w @ t \<and> slug_word w \<and> regex_lang ?tail t)"
    unfolding slugPattern_def regex_lang_simps(4) [of _ ?tail] Plus_slug_char ..
  also have "\<dots> \<longleftrightarrow> slug_language s" using word tail by blast
  finally show ?thesis by (simp add: MatchString_iff canonical_slug_iff_language)
qed

end
