(* ===== verification/PluginService.thy ===== *)
theory PluginService imports Policy PluginDao GitStorage Regex begin

text \<open>
  \<open>mod/backend/domain/plugin/service.go\<close>: creation, lifecycle, visibility, publication and the
  default version of Plugins. The inspector of Plugin sources and the repository browser are
  interfaces of the service: they are arguments of the definitions, absent when the service was
  built without them. The in-process keyed lock of an operation needs no step of its own in a model
  that runs one operation at a time (\<open>KeyedLocks\<close> shows the exclusion it gives); the effect lock
  is a step that may fail.
\<close>

section \<open>Inputs and views\<close>

record create_plugin_input =
  cp_Namespace :: string
  cp_Name :: string
  cp_Visibility :: string

record plugin_view =
  pv_Namespace :: string
  pv_Name :: string
  pv_Status :: plugin_status
  pv_Visibility :: visibility
  pv_RepositoryStatus :: repository_status
  pv_CloneURL :: string
  pv_DefaultVersion :: "string option"
  pv_CreatedAt :: int
  pv_UpdatedAt :: int

record version_view =
  vv_Tag :: string
  vv_Status :: version_status
  vv_CommitSHA :: string
  vv_PublishedAt :: int
  vv_UpdatedAt :: int

record plugin_page =
  pp_Items :: "plugin_view list"
  pp_Page :: int
  pp_Size :: int
  pp_Total :: nat

record version_page =
  vp_Items :: "version_view list"
  vp_Page :: int
  vp_Size :: int
  vp_Total :: nat

text \<open>\<open>pkg/gitservice/plugin_source.go\<close>\<close>

record inspection =
  ins_RawTagObjectID :: string
  ins_CommitObjectID :: string
  ins_ManifestDigest :: string
  ins_ManifestSnapshot :: string

type_synonym inspector = "string \<Rightarrow> string \<Rightarrow> string \<Rightarrow> inspection prog"

definition pluginView :: "string \<Rightarrow> aggregate \<Rightarrow> plugin_view" where
  "pluginView namespaceSlug a =
     (let p = agg_Plugin a; r = agg_Repository a in
      \<lparr>pv_Namespace = namespaceSlug, pv_Name = plg_Slug p, pv_Status = plg_Status p,
       pv_Visibility = plg_Visibility p, pv_RepositoryStatus = repo_Status r,
       pv_CloneURL = ''/git/'' @ namespaceSlug @ ''/'' @ plg_Slug p @ ''.git'',
       pv_DefaultVersion = plg_DefaultVersionTag p,
       pv_CreatedAt = plg_CreatedAt p, pv_UpdatedAt = plg_UpdatedAt p\<rparr>)"

definition versionView :: "version_row \<Rightarrow> version_view" where
  "versionView v =
     \<lparr>vv_Tag = ver_Tag v, vv_Status = ver_Status v,
      vv_CommitSHA = (case ver_CommitSHA v of None \<Rightarrow> [] | Some c \<Rightarrow> c),
      vv_PublishedAt = ver_PublishedAt v, vv_UpdatedAt = ver_UpdatedAt v\<rparr>"

section \<open>Validation\<close>

definition validPluginPage :: "int \<Rightarrow> int \<Rightarrow> bool" where
  "validPluginPage page sz \<longleftrightarrow> page \<ge> 1 \<and> sz \<ge> 1 \<and> sz \<le> 100"

definition validCanonicalTag :: "string \<Rightarrow> bool" where
  "validCanonicalTag tag \<longleftrightarrow> length tag \<le> 255 \<and> MatchString canonicalTagPattern tag"

definition hex_digit :: "char \<Rightarrow> bool" where
  "hex_digit c \<longleftrightarrow> 48 \<le> byte c \<and> byte c \<le> 57 \<or> 97 \<le> byte c \<and> byte c \<le> 102"

definition validObjectID :: "string \<Rightarrow> bool" where
  "validObjectID v \<longleftrightarrow> (length v = 40 \<or> length v = 64) \<and> list_all hex_digit v"

definition validInspection :: "inspection \<Rightarrow> bool" where
  "validInspection i \<longleftrightarrow>
     validObjectID (ins_RawTagObjectID i) \<and> validObjectID (ins_CommitObjectID i) \<and>
     length (ins_ManifestDigest i) = 64 \<and> length (ins_ManifestSnapshot i) > 0"

definition validSlug :: "string \<Rightarrow> bool" where
  "validSlug v \<longleftrightarrow> 1 \<le> length v \<and> length v \<le> 63 \<and> MatchString slugPattern v"

text \<open>The visibility a request spells out; any other text is invalid.\<close>

definition parse_visibility :: "string \<Rightarrow> visibility" where
  "parse_visibility s =
     (if s = ''public'' then VisibilityPublic else if s = ''private'' then VisibilityPrivate
      else VisibilityOther s)"

definition validVisibility :: "visibility \<Rightarrow> bool" where
  "validVisibility v \<longleftrightarrow> v = VisibilityPublic \<or> v = VisibilityPrivate"

section \<open>Shared steps\<close>

definition wrapUnavailable :: "string \<Rightarrow> err \<Rightarrow> err" where
  "wrapUnavailable operation e = Wrapped operation ErrUnavailable"

definition findNamespaceBySlug :: "string \<Rightarrow> namespace_row prog" where
  "findNamespaceBySlug slug =
     map_error (\<lambda>e. if errors_Is e ErrRecordNotFound then ErrForbidden else wrapUnavailable ''find namespace'' e)
       (take_row (\<lambda>d. List.find (\<lambda>n. ns_Slug n = slug) (namespaces d)))"

definition pluginResource :: "aggregate \<Rightarrow> resource_ref" where
  "pluginResource a =
     \<lparr>ref_type = ResourcePlugin, ref_id = plg_ID (agg_Plugin a), ref_namespace_id = plg_NamespaceID (agg_Plugin a)\<rparr>"

definition namespaceResource :: "string \<Rightarrow> resource_ref" where
  "namespaceResource nid = \<lparr>ref_type = ResourceNamespace, ref_id = nid, ref_namespace_id = []\<rparr>"

definition plugin_authorize :: "principal \<Rightarrow> action \<Rightarrow> resource_ref \<Rightarrow> unit prog" where
  "plugin_authorize p a r = map_error (\<lambda>_. ErrForbidden) (authorize p a r)"

definition exactAggregate :: "string \<Rightarrow> string \<Rightarrow> (namespace_row \<times> aggregate) prog" where
  "exactAggregate namespaceSlug pluginSlug =
     (if \<not> validSlug namespaceSlug \<or> \<not> validSlug pluginSlug then fail ErrNotFound
      else bindE (map_error (\<lambda>e. if errors_Is e ErrRecordNotFound then ErrNotFound else ErrUnavailable)
                    (take_row (\<lambda>d. List.find (\<lambda>n. ns_Slug n = namespaceSlug) (namespaces d)))) (\<lambda>n.
           bindE (map_error (\<lambda>e. if errors_Is e ErrNotFound then ErrNotFound else wrapUnavailable ''find Plugin'' e)
                    (FindBySlug (ns_ID n) pluginSlug)) (\<lambda>a.
           return (n, a))))"

definition authorizeExactRead :: "principal \<Rightarrow> aggregate \<Rightarrow> unit prog" where
  "authorizeExactRead p a = map_error (\<lambda>_. ErrNotFound) (authorize p ActionPluginRead (pluginResource a))"

definition authorizeMutation :: "principal \<Rightarrow> action \<Rightarrow> aggregate \<Rightarrow> unit prog" where
  "authorizeMutation p a agg =
     attempt (authorize p a (pluginResource agg)) (\<lambda>res. case res of
       Inr _ \<Rightarrow> return ()
     | Inl _ \<Rightarrow>
         if IsAnonymous p then fail ErrNotFound
         else attempt (authorize p ActionPluginRead (pluginResource agg)) (\<lambda>res. case res of
                Inl _ \<Rightarrow> fail ErrNotFound
              | Inr _ \<Rightarrow> fail ErrForbidden))"

definition mapMutationLookup :: "err \<Rightarrow> err" where
  "mapMutationLookup e = (if errors_Is e ErrNotFound then ErrNotFound else wrapUnavailable ''reload Plugin'' e)"

text \<open>
  \<open>LockPlugin\<close> of \<open>effect_lock.go\<close> asks the database for an advisory lock; the returned unlock
  asks it again, and its error is ignored.
\<close>

definition LockPlugin :: "string \<Rightarrow> unit prog" where
  "LockPlugin pid = (if pid = [] then fail (ErrNew ''invalid plugin effect lock'') else exec id)"

definition locked :: "string \<Rightarrow> 'a prog \<Rightarrow> 'a prog" where
  "locked pid m =
     bindE (map_error (\<lambda>_. ErrUnavailable) (LockPlugin pid)) (\<lambda>_.
     attempt m (\<lambda>r. attempt (exec id) (\<lambda>_. of_sum r)))"

definition one_row :: "nat \<Rightarrow> unit prog" where
  "one_row affected = (if affected \<noteq> 1 then fail ErrConflict else return ())"

definition unresolved_state :: "receive_state \<Rightarrow> bool" where
  "unresolved_state s \<longleftrightarrow>
     s = ReceiveBatchStatePrepared \<or> s = ReceiveBatchStateFinalizing \<or> s = ReceiveBatchStateManualRequired"

definition unresolvedReceiveExists :: "string \<Rightarrow> bool prog" where
  "unresolvedReceiveExists pluginID =
     attempt (query (\<lambda>d. count_where (\<lambda>i. intent_PluginID i = pluginID \<and> unresolved_state (intent_State i)) (receive_intents d)))
       (\<lambda>res. return (case res of Inl _ \<Rightarrow> True | Inr n \<Rightarrow> n \<noteq> 0))"

section \<open>Creation\<close>

definition recordOrphanCleanup :: "aggregate \<Rightarrow> unit prog" where
  "recordOrphanCleanup a =
     bindE now (\<lambda>t.
     bindE new_id (\<lambda>oid.
     create_orphan_cleanup
       \<lparr>orphan_ID = oid, orphan_PluginID = plg_ID (agg_Plugin a),
        orphan_StorageKey = repo_StorageKey (agg_Repository a), orphan_State = OrphanCleanupStatePending,
        orphan_Attempts = 0, orphan_SafeError = [], orphan_NextAttemptAt = None,
        orphan_CreatedAt = t, orphan_UpdatedAt = t, orphan_CompletedAt = None\<rparr>))"

definition new_aggregate :: "string \<Rightarrow> string \<Rightarrow> string \<Rightarrow> visibility \<Rightarrow> string \<Rightarrow> int \<Rightarrow> aggregate" where
  "new_aggregate pluginID namespaceID name vis storageKey t =
     \<lparr>agg_Plugin = \<lparr>plg_ID = pluginID, plg_NamespaceID = namespaceID, plg_Slug = name, plg_Description = [],
        plg_Visibility = vis, plg_Status = PluginStatusDraft, plg_ArchivedFrom = None,
        plg_DefaultVersionTag = None, plg_CreatedAt = t, plg_UpdatedAt = t\<rparr>,
      agg_Repository = \<lparr>repo_ID = pluginID, repo_StorageKey = storageKey, repo_Status = RepositoryReady,
        repo_CreatedAt = t, repo_UpdatedAt = t\<rparr>\<rparr>"

text \<open>The repository is provisioned before the rows are written and removed again when they are not.\<close>

definition compensate_creation :: "provisioned \<Rightarrow> aggregate \<Rightarrow> unit prog" where
  "compensate_creation prov a =
     (if provisioned_Created prov
      then attempt (RemoveProvisionedRepository prov) (\<lambda>res. case res of
             Inl _ \<Rightarrow> attempt (recordOrphanCleanup a) (\<lambda>_. return ())
           | Inr _ \<Rightarrow> return ())
      else return ())"

definition store_aggregate :: "provisioned \<Rightarrow> aggregate \<Rightarrow> unit prog" where
  "store_aggregate prov a =
     attempt (CreateAggregate a) (\<lambda>res. case res of
       Inr _ \<Rightarrow> return ()
     | Inl e \<Rightarrow> bindE (compensate_creation prov a) (\<lambda>_.
                if errors_Is e ErrAlreadyExists then fail ErrConflict else fail ErrUnavailable))"

definition PluginService_Create :: "principal \<Rightarrow> create_plugin_input \<Rightarrow> plugin_view prog" where
  "PluginService_Create p input =
     (let namespaceSlug = strings_TrimSpace (cp_Namespace input);
          name = strings_TrimSpace (cp_Name input);
          text = strings_TrimSpace (cp_Visibility input);
          vis = (if text = [] then VisibilityPublic else parse_visibility text)
      in if \<not> validSlug namespaceSlug \<or> \<not> validSlug name \<or> \<not> validVisibility vis then fail ErrInvalidInput
         else
           bindE (findNamespaceBySlug namespaceSlug) (\<lambda>n.
           bindE (plugin_authorize p ActionPluginCreate (namespaceResource (ns_ID n))) (\<lambda>_.
           attempt (FindBySlug (ns_ID n) name) (\<lambda>found. case found of
             Inr _ \<Rightarrow> fail ErrConflict
           | Inl e \<Rightarrow>
             if \<not> errors_Is e ErrNotFound then fail ErrUnavailable
             else
               bindE new_id (\<lambda>pluginID.
               bindE (map_error (\<lambda>_. ErrUnavailable) (ProvisionRepository (pluginID, pluginID))) (\<lambda>prov.
               bindE now (\<lambda>t.
               let a = new_aggregate pluginID (ns_ID n) name vis (snd (prov_identity prov)) t
               in bindE (store_aggregate prov a) (\<lambda>_. return (pluginView (ns_Slug n) a)))))))))"

section \<open>Reading\<close>

definition PluginService_List :: "principal \<Rightarrow> string \<Rightarrow> int \<Rightarrow> int \<Rightarrow> plugin_page prog" where
  "PluginService_List p namespaceSlug page sz =
     (if \<not> validSlug namespaceSlug \<or> \<not> validPluginPage page sz then fail ErrInvalidInput
      else
        bindE (findNamespaceBySlug namespaceSlug) (\<lambda>n.
        bindE (plugin_authorize p ActionPluginList (namespaceResource (ns_ID n))) (\<lambda>_.
        bindE (map_error (wrapUnavailable ''list Plugins'') (ListAggregates (ns_ID n) page sz)) (\<lambda>(aggregates, total).
        return \<lparr>pp_Items = map (pluginView (ns_Slug n)) aggregates, pp_Page = page, pp_Size = sz, pp_Total = total\<rparr>))))"

definition PluginService_Get :: "principal \<Rightarrow> string \<Rightarrow> string \<Rightarrow> plugin_view prog" where
  "PluginService_Get p namespaceSlug pluginSlug =
     bindE (exactAggregate namespaceSlug pluginSlug) (\<lambda>(n, a).
     bindE (authorizeExactRead p a) (\<lambda>_. return (pluginView (ns_Slug n) a)))"

definition browsableAggregate :: "bool \<Rightarrow> principal \<Rightarrow> string \<Rightarrow> string \<Rightarrow> aggregate prog" where
  "browsableAggregate has_browser p namespaceSlug pluginSlug =
     (if \<not> has_browser then fail ErrUnavailable
      else bindE (exactAggregate namespaceSlug pluginSlug) (\<lambda>(n, a).
           bindE (authorizeExactRead p a) (\<lambda>_.
           if repo_Status (agg_Repository a) \<noteq> RepositoryReady \<and> repo_Status (agg_Repository a) \<noteq> RepositoryReadOnly
           then fail ErrUnavailable else return a)))"

definition ListRepositoryRefs :: "(string \<Rightarrow> 'a prog) option \<Rightarrow> principal \<Rightarrow> string \<Rightarrow> string \<Rightarrow> 'a prog" where
  "ListRepositoryRefs browser p namespaceSlug pluginSlug =
     bindE (browsableAggregate (browser \<noteq> None) p namespaceSlug pluginSlug) (\<lambda>a.
     the browser (repo_ID (agg_Repository a)))"

definition ReadRepositoryTree ::
  "(string \<Rightarrow> string \<Rightarrow> string \<Rightarrow> 'a prog) option \<Rightarrow> principal \<Rightarrow> string \<Rightarrow> string \<Rightarrow> string \<Rightarrow> string \<Rightarrow> 'a prog" where
  "ReadRepositoryTree browser p namespaceSlug pluginSlug revision path =
     bindE (browsableAggregate (browser \<noteq> None) p namespaceSlug pluginSlug) (\<lambda>a.
     the browser (repo_ID (agg_Repository a)) revision path)"

definition ReadRepositoryBlob ::
  "(string \<Rightarrow> string \<Rightarrow> string \<Rightarrow> 'a prog) option \<Rightarrow> principal \<Rightarrow> string \<Rightarrow> string \<Rightarrow> string \<Rightarrow> string \<Rightarrow> 'a prog" where
  "ReadRepositoryBlob browser p namespaceSlug pluginSlug revision path =
     bindE (browsableAggregate (browser \<noteq> None) p namespaceSlug pluginSlug) (\<lambda>a.
     the browser (repo_ID (agg_Repository a)) revision path)"

definition ListRepositoryCommits ::
  "(string \<Rightarrow> string \<Rightarrow> string \<Rightarrow> int \<Rightarrow> int \<Rightarrow> 'a prog) option \<Rightarrow> principal \<Rightarrow> string \<Rightarrow> string \<Rightarrow> string \<Rightarrow> string \<Rightarrow> int \<Rightarrow> int \<Rightarrow> 'a prog" where
  "ListRepositoryCommits browser p namespaceSlug pluginSlug revision path page sz =
     bindE (browsableAggregate (browser \<noteq> None) p namespaceSlug pluginSlug) (\<lambda>a.
     the browser (repo_ID (agg_Repository a)) revision path page sz)"

definition PluginService_ListVersions :: "principal \<Rightarrow> string \<Rightarrow> string \<Rightarrow> int \<Rightarrow> int \<Rightarrow> version_page prog" where
  "PluginService_ListVersions p namespaceSlug pluginSlug page sz =
     (if \<not> validPluginPage page sz then fail ErrInvalidInput
      else
        bindE (exactAggregate namespaceSlug pluginSlug) (\<lambda>(n, a).
        bindE (authorizeExactRead p a) (\<lambda>_.
        bindE (map_error (wrapUnavailable ''list Plugin Versions'') (DaoListVersions (plg_ID (agg_Plugin a)) page sz)) (\<lambda>(rows, total).
        return \<lparr>vp_Items = map versionView rows, vp_Page = page, vp_Size = sz, vp_Total = total\<rparr>))))"

definition PluginService_GetVersion :: "principal \<Rightarrow> string \<Rightarrow> string \<Rightarrow> string \<Rightarrow> version_view prog" where
  "PluginService_GetVersion p namespaceSlug pluginSlug tag =
     (if \<not> validCanonicalTag tag then fail ErrNotFound
      else
        bindE (exactAggregate namespaceSlug pluginSlug) (\<lambda>(n, a).
        bindE (authorizeExactRead p a) (\<lambda>_.
        bindE (map_error (\<lambda>e. if errors_Is e ErrNotFound then ErrNotFound else wrapUnavailable ''get Plugin Version'' e)
                 (FindVersion (plg_ID (agg_Plugin a)) tag)) (\<lambda>v.
        if ver_Status v = VersionStatusDeleted then fail ErrGone
        else if ver_Status v \<noteq> VersionStatusAvailable \<or> ver_CommitSHA v = None then fail ErrUnavailable
        else return (versionView v)))))"

section \<open>Lifecycle\<close>

definition PluginService_Archive :: "principal \<Rightarrow> string \<Rightarrow> string \<Rightarrow> unit prog" where
  "PluginService_Archive p namespaceSlug pluginSlug =
     bindE (exactAggregate namespaceSlug pluginSlug) (\<lambda>(n, a).
     bindE (authorizeMutation p ActionPluginArchive a) (\<lambda>_.
     locked (plg_ID (agg_Plugin a))
       (bindE (map_error mapMutationLookup (FindBySlug (ns_ID n) pluginSlug)) (\<lambda>a.
        let q = agg_Plugin a in
        if plg_Status q = PluginStatusArchived then return ()
        else if plg_Status q \<noteq> PluginStatusDraft \<and> plg_Status q \<noteq> PluginStatusActive then fail ErrConflict
        else bindE now (\<lambda>t.
             bindE (map_error (wrapUnavailable ''archive Plugin'')
                      (update_plugins False
                         (\<lambda>x. plg_NamespaceID x = ns_ID n \<and> plg_ID x = plg_ID q \<and> plg_Status x = plg_Status q)
                         (\<lambda>x. x\<lparr>plg_Status := PluginStatusArchived, plg_ArchivedFrom := Some (plg_Status q),
                                plg_UpdatedAt := t\<rparr>)))
               one_row)))))"

definition PluginService_Restore :: "principal \<Rightarrow> string \<Rightarrow> string \<Rightarrow> unit prog" where
  "PluginService_Restore p namespaceSlug pluginSlug =
     bindE (exactAggregate namespaceSlug pluginSlug) (\<lambda>(n, a).
     bindE (authorizeMutation p ActionPluginArchive a) (\<lambda>_.
     locked (plg_ID (agg_Plugin a))
       (bindE (map_error mapMutationLookup (FindBySlug (ns_ID n) pluginSlug)) (\<lambda>a.
        let q = agg_Plugin a in
        if plg_Status q \<noteq> PluginStatusArchived then fail ErrConflict
        else case plg_ArchivedFrom q of
               None \<Rightarrow> fail ErrConflict
             | Some from_status \<Rightarrow>
                 if from_status \<noteq> PluginStatusDraft \<and> from_status \<noteq> PluginStatusActive then fail ErrConflict
                 else bindE now (\<lambda>t.
                   bindE (map_error (wrapUnavailable ''restore Plugin'')
                            (update_plugins False
                               (\<lambda>x. plg_NamespaceID x = ns_ID n \<and> plg_ID x = plg_ID q \<and>
                                    plg_Status x = PluginStatusArchived \<and> plg_ArchivedFrom x = Some from_status)
                               (\<lambda>x. x\<lparr>plg_Status := from_status, plg_ArchivedFrom := None, plg_UpdatedAt := t\<rparr>)))
                     one_row)))))"

definition PluginService_SetVisibility :: "principal \<Rightarrow> string \<Rightarrow> string \<Rightarrow> visibility \<Rightarrow> unit prog" where
  "PluginService_SetVisibility p namespaceSlug pluginSlug vis =
     (if \<not> validVisibility vis then fail ErrInvalidInput
      else
        bindE (exactAggregate namespaceSlug pluginSlug) (\<lambda>(n, a).
        bindE (authorizeMutation p ActionPluginArchive a) (\<lambda>_.
        locked (plg_ID (agg_Plugin a))
          (bindE (map_error mapMutationLookup (FindBySlug (ns_ID n) pluginSlug)) (\<lambda>a.
           let q = agg_Plugin a in
           if plg_Status q = PluginStatusArchived then fail ErrConflict
           else if plg_Visibility q = vis then return ()
           else bindE now (\<lambda>t.
                bindE (map_error (wrapUnavailable ''set Plugin visibility'')
                         (update_plugins False
                            (\<lambda>x. plg_NamespaceID x = ns_ID n \<and> plg_ID x = plg_ID q \<and> plg_Status x \<noteq> PluginStatusArchived)
                            (\<lambda>x. x\<lparr>plg_Visibility := vis, plg_UpdatedAt := t\<rparr>)))
                  one_row))))))"

end
