(* ===== verification/ProgLoops.thy ===== *)
theory ProgLoops imports World begin

text \<open>
  Loops over a list whose body is a program: they stop at the first error, as the loops of the code
  do. \<open>cas\<close> is the idiom of a conditional update that must change one row.
\<close>

primrec forE :: "('a \<Rightarrow> unit prog) \<Rightarrow> 'a list \<Rightarrow> unit prog" where
  "forE f [] = return ()"
| "forE f (x # xs) = bindE (f x) (\<lambda>_. forE f xs)"

primrec mapE :: "('a \<Rightarrow> 'b prog) \<Rightarrow> 'a list \<Rightarrow> 'b list prog" where
  "mapE f [] = return []"
| "mapE f (x # xs) = bindE (f x) (\<lambda>y. bindE (mapE f xs) (\<lambda>ys. return (y # ys)))"

definition ignore_error :: "'a prog \<Rightarrow> unit prog" where
  "ignore_error m = attempt m (\<lambda>_. return ())"

definition cas :: "err \<Rightarrow> nat prog \<Rightarrow> unit prog" where
  "cas e m = attempt m (\<lambda>res. case res of Inl _ \<Rightarrow> fail e | Inr n \<Rightarrow> if n \<noteq> 1 then fail e else return ())"

lemma reads_forE [read_only]: "(\<And>x. reads (f x)) \<Longrightarrow> reads (forE f xs)"
  by (induction xs) (simp_all add: reads_return reads_bindE)

lemma reads_mapE [read_only]: "(\<And>x. reads (f x)) \<Longrightarrow> reads (mapE f xs)"
  by (induction xs) (simp_all add: reads_return reads_bindE)

lemma reads_ignore_error [read_only]: "reads m \<Longrightarrow> reads (ignore_error m)"
  unfolding ignore_error_def by (intro read_only)

lemma keeps_forE [stable_progs]: "(\<And>x. x \<in> set xs \<Longrightarrow> keeps I (f x)) \<Longrightarrow> keeps I (forE f xs)"
  by (induction xs) (simp_all add: keeps_reads reads_return keeps_bindE)

lemma keeps_ignore_error [stable_progs]: "keeps I m \<Longrightarrow> keeps I (ignore_error m)"
  unfolding ignore_error_def by (rule keeps_attempt) (simp_all add: keeps_reads reads_return)

lemma keeps_cas [stable_progs]: "keeps I m \<Longrightarrow> keeps I (cas e m)"
  unfolding cas_def by (rule keeps_attempt) (simp_all add: keeps_reads reads_return reads_fail split: sum.splits)

lemma cas_Inr_iff [prog_iff]: "cas e m w = (Inr x, w') \<longleftrightarrow> m w = (Inr 1, w')"
  by (auto simp: cas_def attempt_iff prog_iff split: if_splits)

lemma cas_Inl: "cas e m w = (Inl e', w') \<Longrightarrow> e' = e"
  by (auto simp: cas_def attempt_iff prog_iff split: if_splits)

text \<open>A loop that returns has run its body on every element in turn.\<close>

lemma forE_Inr_invariant:
  assumes "forE f xs w = (Inr u, w')" "P [] w"
    and "\<And>ys x w v w1. \<exists>zs. xs = ys @ x # zs \<Longrightarrow> P ys w \<Longrightarrow> f x w = (Inr v, w1) \<Longrightarrow> P (ys @ [x]) w1"
  shows "P xs w'"
proof -
  have "P (ys @ zs) w'" if "forE f zs v = (Inr u, w')" "P ys v" "xs = ys @ zs" for ys zs v
    using that
  proof (induction zs arbitrary: ys v)
    case Nil
    then show ?case by (simp add: return_iff)
  next
    case (Cons x zs)
    from Cons.prems(1) obtain r v1 where step: "f x v = (Inr r, v1)" and rest: "forE f zs v1 = (Inr u, w')"
      by (auto simp: bindE_Inr_iff)
    have "P (ys @ [x]) v1" using assms(3) [OF _ Cons.prems(2) step] Cons.prems(3) by blast
    from Cons.IH [OF rest this] Cons.prems(3) show ?case by simp
  qed
  from this [of xs w "[]"] assms(1,2) show ?thesis by simp
qed

end
