(* ===== verification/ReceiveCommands.thy ===== *)
theory ReceiveCommands imports PluginService ProgLoops begin

text \<open>
  The receive protocol of \<open>mod/git/receive.go\<close> and the data it shares with the backend
  (\<open>pkg/gitservice/receive.go\<close>): ref commands and their text form, canonical tags, pkt-lines, the
  negotiation of \<open>proc-receive\<close>, the transaction handed to \<open>git update-ref\<close>, and the classification
  of the refs that are found afterwards.
\<close>

section \<open>Data shared with the backend\<close>

record receive_plugin =
  rp_ID :: string
  rp_Name :: string

record receive_command =
  rc_OldObjectID :: string
  rc_NewObjectID :: string
  rc_RefName :: string

datatype tag_operation = ReceiveTagCreate | ReceiveTagMove | ReceiveTagDelete

record tag_command =
  tc_Tag :: string
  tc_RefName :: string
  tc_Operation :: tag_operation
  tc_OldObjectID :: string
  tc_NewObjectID :: string
  tc_OldCommitObjectID :: string
  tc_NewCommitObjectID :: string
  tc_NewManifestDigest :: string
  tc_NewManifestSnapshot :: string

record receive_batch =
  rb_SessionID :: string
  rb_Plugin :: receive_plugin
  rb_Commands :: "receive_command list"
  rb_CanonicalTags :: "tag_command list"

record prepared_transition =
  pt_Tag :: string
  pt_RefName :: string
  pt_ExpectedOldObjectID :: string
  pt_ProposedNewObjectID :: string

record prepared_batch =
  pb_ID :: string
  pb_Transitions :: "prepared_transition list"

definition no_batch :: prepared_batch where
  "no_batch = \<lparr>pb_ID = [], pb_Transitions = []\<rparr>"

datatype disposition = ReceiveCompleted | ReceiveAborted | ReceiveManualRequired

record observed_ref =
  or_RefName :: string
  or_ObjectID :: string
  or_Exists :: bool

text \<open>An absent disposition is the empty string of the code.\<close>

record resolution =
  res_Disposition :: "disposition option"
  res_Observed :: "observed_ref list"

section \<open>Ref commands\<close>

datatype object_format = ObjectFormatSHA1 | ObjectFormatSHA256

definition objectIDLength :: "object_format \<Rightarrow> nat" where
  "objectIDLength f = (case f of ObjectFormatSHA1 \<Rightarrow> 40 | ObjectFormatSHA256 \<Rightarrow> 64)"

definition validReceiveObjectID :: "string \<Rightarrow> nat \<Rightarrow> bool" where
  "validReceiveObjectID oid n \<longleftrightarrow> length oid = n \<and> list_all hex_digit oid"

definition strings_ContainsAny :: "string \<Rightarrow> string \<Rightarrow> bool" where
  "strings_ContainsAny s chars \<longleftrightarrow> list_ex (\<lambda>c. c \<in> set chars) s"

text \<open>\<open>validReceiveRefName\<close>: the last test holds for any name with one of the two prefixes.\<close>

definition ref_space :: string where
  "ref_space = [CHR '' '', CHR 0x09, CHR 0x0D, CHR 0x0A, CHR 0x00]"

definition validReceiveRefName :: "string \<Rightarrow> bool" where
  "validReceiveRefName r \<longleftrightarrow>
     \<not> (\<not> prefix ''refs/'' r \<or> strings_ContainsAny r ref_space) \<and>
     (prefix ''refs/heads/'' r \<or> prefix ''refs/tags/'' r) \<and> length (strings_Split CHR ''/'' r) \<ge> 3"

text \<open>
  \<open>bufio.ScanLines\<close>: the text is cut at newlines, one carriage return before a newline is dropped
  and an empty last line is not a line. A line longer than the buffer of one mebibyte is an error.
\<close>

definition drop_cr :: "string \<Rightarrow> string" where
  "drop_cr s = (if s \<noteq> [] \<and> last s = CHR 0x0D then butlast s else s)"

definition scan_lines :: "string \<Rightarrow> string list" where
  "scan_lines s =
     (let ls = strings_Split CHR 0x0A s in if last ls = [] then butlast ls else ls)"

definition scanner_limit :: nat where
  "scanner_limit = 1048576"

fun parse_lines :: "nat \<Rightarrow> string list \<Rightarrow> string list \<Rightarrow> err + receive_command list" where
  "parse_lines n seen [] = Inr []"
| "parse_lines n seen (l # ls) =
     (if length l \<ge> scanner_limit then Inl (ErrNew ''read receive commands'')
      else case strings_Split CHR '' '' (drop_cr l) of
        [old, new, ref] \<Rightarrow>
          if old = [] \<or> new = [] \<or> ref = [] then Inl (ErrNew ''invalid receive command'')
          else if \<not> validReceiveObjectID old n \<or> \<not> validReceiveObjectID new n
          then Inl (ErrNew ''invalid receive object id'')
          else if \<not> validReceiveRefName ref then Inl (ErrNew ''invalid receive ref'')
          else if ref \<in> set seen then Inl (ErrNew ''duplicate receive ref'')
          else (case parse_lines n (ref # seen) ls of
                  Inl e \<Rightarrow> Inl e
                | Inr cs \<Rightarrow> Inr (\<lparr>rc_OldObjectID = old, rc_NewObjectID = new, rc_RefName = ref\<rparr> # cs))
      | _ \<Rightarrow> Inl (ErrNew ''invalid receive command''))"

definition ParseReceiveCommands :: "string \<Rightarrow> object_format \<Rightarrow> err + receive_command list" where
  "ParseReceiveCommands input format =
     (case parse_lines (objectIDLength format) [] (scan_lines input) of
        Inl e \<Rightarrow> Inl e
      | Inr cs \<Rightarrow> if cs = [] then Inl (ErrNew ''empty receive command set'') else Inr cs)"

definition CanonicalTagFromRef :: "string \<Rightarrow> string option" where
  "CanonicalTagFromRef refName =
     (if \<not> prefix ''refs/tags/'' refName then None
      else let tag = strings_TrimPrefix refName ''refs/tags/'' in
           if MatchString canonicalTagPattern tag then Some tag else None)"

text \<open>\<open>strings.Trim(s, "0") == ""\<close>\<close>

definition only_zeros :: "string \<Rightarrow> bool" where
  "only_zeros s \<longleftrightarrow> list_all (\<lambda>c. c = CHR ''0'') s"

definition allZeroObjectID :: "string \<Rightarrow> bool" where
  "allZeroObjectID oid \<longleftrightarrow> oid \<noteq> [] \<and> only_zeros oid"

text \<open>\<open>PeelCommit\<close> runs \<open>git rev-parse\<close>: it is an argument.\<close>

definition classifyTag :: "(string \<Rightarrow> string prog) \<Rightarrow> string \<Rightarrow> receive_command \<Rightarrow> tag_command prog" where
  "classifyTag peel tag c =
     (let zeroOld = allZeroObjectID (rc_OldObjectID c); zeroNew = allZeroObjectID (rc_NewObjectID c) in
      if zeroOld \<and> zeroNew then fail (ErrNew ''invalid no-op command'')
      else
        bindE (if \<not> zeroOld then peel (rc_OldObjectID c) else return []) (\<lambda>oldCommit.
        bindE (if \<not> zeroNew then peel (rc_NewObjectID c) else return []) (\<lambda>newCommit.
        return \<lparr>tc_Tag = tag, tc_RefName = rc_RefName c,
                tc_Operation = (if zeroOld then ReceiveTagCreate else if zeroNew then ReceiveTagDelete else ReceiveTagMove),
                tc_OldObjectID = rc_OldObjectID c, tc_NewObjectID = rc_NewObjectID c,
                tc_OldCommitObjectID = oldCommit, tc_NewCommitObjectID = newCommit,
                tc_NewManifestDigest = [], tc_NewManifestSnapshot = []\<rparr>)))"

section \<open>Packet lines\<close>

definition hex_char :: "nat \<Rightarrow> char" where
  "hex_char n = (if n < 10 then char_of (48 + n) else char_of (87 + n))"

text \<open>\<open>%04x\<close>: at least four digits, and as many as the number needs.\<close>

fun hex_digits :: "nat \<Rightarrow> string" where
  "hex_digits n = (if n < 16 then [hex_char n] else hex_digits (n div 16) @ [hex_char (n mod 16)])"

definition format_04x :: "nat \<Rightarrow> string" where
  "format_04x n = replicate (4 - length (hex_digits n)) CHR ''0'' @ hex_digits n"

definition formatPktLine :: "string \<Rightarrow> string" where
  "formatPktLine payload = format_04x (length payload + 5) @ payload @ [CHR 0x0A]"

definition hex_value :: "char \<Rightarrow> nat option" where
  "hex_value c =
     (let b = byte c in
      if 48 \<le> b \<and> b \<le> 57 then Some (b - 48)
      else if 97 \<le> b \<and> b \<le> 102 then Some (b - 87)
      else if 65 \<le> b \<and> b \<le> 70 then Some (b - 55) else None)"

text \<open>\<open>strconv.ParseUint(s, 16, 16)\<close> of four characters: every value fits, underscores are refused.\<close>

fun parse_hex :: "nat \<Rightarrow> string \<Rightarrow> nat option" where
  "parse_hex n [] = Some n"
| "parse_hex n (c # cs) = (case hex_value c of None \<Rightarrow> None | Some d \<Rightarrow> parse_hex (16 * n + d) cs)"

definition trim_newline :: "string \<Rightarrow> string" where
  "trim_newline s = (if s \<noteq> [] \<and> last s = CHR 0x0A then butlast s else s)"

text \<open>The result: the payload, or \<open>None\<close> for a flush packet, and the rest of the input.\<close>

definition readPktLine :: "string \<Rightarrow> err + (string option \<times> string)" where
  "readPktLine input =
     (if length input < 4 then Inl (ErrNew ''unexpected EOF'')
      else let rest = drop 4 input in
        case parse_hex 0 (take 4 input) of
          None \<Rightarrow> Inl (ErrNew ''invalid pkt-line length'')
        | Some n \<Rightarrow>
            if n = 0 then Inr (None, rest)
            else if n < 4 \<or> n > 65520 then Inl (ErrNew ''invalid pkt-line length'')
            else if length rest < n - 4 then Inl (ErrNew ''unexpected EOF'')
            else Inr (Some (trim_newline (take (n - 4) rest)), drop (n - 4) rest))"

section \<open>The \<open>proc-receive\<close> negotiation\<close>

definition containsProtocolControl :: "string \<Rightarrow> bool" where
  "containsProtocolControl v \<longleftrightarrow> list_ex (\<lambda>c. byte c \<le> 32 \<or> byte c = 127) v"

fun check_features :: "string list \<Rightarrow> string list \<Rightarrow> err + string list" where
  "check_features seen [] = Inr []"
| "check_features seen (f # fs) =
     (if f = [] \<or> containsProtocolControl f \<or> f \<in> set seen then Inl (ErrNew ''invalid proc-receive negotiation'')
      else case check_features (f # seen) fs of
             Inl e \<Rightarrow> Inl e
           | Inr known \<Rightarrow> Inr (if f = ''atomic'' \<or> f = ''push-options'' then f # known else known))"

text \<open>The known features among those the peer offers; the version is always 1.\<close>

definition parseProcReceiveNegotiation :: "string \<Rightarrow> err + string list" where
  "parseProcReceiveNegotiation raw =
     (let payload = trim_newline raw in
      if strings_ContainsAny payload [CHR 0x0D, CHR 0x0A] then Inl (ErrNew ''invalid proc-receive negotiation'')
      else let version = takeWhile (\<lambda>c. c \<noteq> CHR 0x00) payload;
               after = drop (Suc (length version)) payload
           in if version \<noteq> ''version=1'' then Inl (ErrNew ''unsupported proc-receive protocol'')
              else if after = [] then Inr []
              else if CHR 0x00 \<in> set after then Inl (ErrNew ''invalid proc-receive negotiation'')
              else check_features [] (strings_Split CHR '' '' after))"

text \<open>Each packet takes at least its four bytes of header, so the input gets shorter.\<close>

lemma readPktLine_shorter: "readPktLine input = Inr (p, rest) \<Longrightarrow> length rest < length input"
  by (auto simp: readPktLine_def Let_def split: if_splits option.splits)

function consumeProcReceivePushOptions :: "string \<Rightarrow> err + string" where
  "consumeProcReceivePushOptions input =
     (case readPktLine input of
        Inl _ \<Rightarrow> Inl (ErrNew ''read proc-receive push options'')
      | Inr (None, rest) \<Rightarrow> Inr rest
      | Inr (Some option, rest) \<Rightarrow>
          if strings_ContainsAny option [CHR 0x00, CHR 0x0D, CHR 0x0A] then Inl (ErrNew ''invalid proc-receive push option'')
          else consumeProcReceivePushOptions rest)"
  by pat_completeness auto
termination by (relation "measure length") (auto dest: readPktLine_shorter)

text \<open>The command packets up to the flush, joined by newlines.\<close>

function read_command_text :: "string \<Rightarrow> err + (string \<times> string)" where
  "read_command_text input =
     (case readPktLine input of
        Inl _ \<Rightarrow> Inl (ErrNew ''read proc-receive command'')
      | Inr (None, rest) \<Rightarrow> Inr ([], rest)
      | Inr (Some payload, rest) \<Rightarrow>
          if payload = [] \<or> strings_ContainsAny payload [CHR 0x00, CHR 0x0D, CHR 0x0A]
          then Inl (ErrNew ''invalid proc-receive command'')
          else (case read_command_text rest of
                  Inl e \<Rightarrow> Inl e
                | Inr (text, after) \<Rightarrow> Inr (payload @ [CHR 0x0A] @ text, after)))"
  by pat_completeness auto
termination by (relation "measure length") (auto dest: readPktLine_shorter)

declare consumeProcReceivePushOptions.simps [simp del] read_command_text.simps [simp del]

definition detectObjectFormat :: "string \<Rightarrow> err + object_format" where
  "detectObjectFormat commands =
     (case strings_Split CHR '' '' (takeWhile (\<lambda>c. c \<noteq> CHR 0x0A) commands) of
        [a, b, c] \<Rightarrow> if length a = 40 then Inr ObjectFormatSHA1
                     else if length a = 64 then Inr ObjectFormatSHA256
                     else Inl (ErrNew ''unsupported receive object format'')
      | _ \<Rightarrow> Inl (ErrNew ''invalid proc-receive command''))"

definition proc_response :: "string list \<Rightarrow> string" where
  "proc_response features =
     (let offered = filter (\<lambda>f. f \<in> set features) [''push-options'', ''atomic''] in
      ''version=1'' @ (case offered of [] \<Rightarrow> [] | [f] \<Rightarrow> CHR 0x00 # f | f # g # _ \<Rightarrow> CHR 0x00 # f @ '' '' @ g))"

definition writeProcReceiveResults :: "receive_command list \<Rightarrow> bool \<Rightarrow> string" where
  "writeProcReceiveResults commands accepted =
     concat (map (\<lambda>c. formatPktLine ((if accepted then ''ok'' else ''ng'') @ '' '' @ rc_RefName c @
                                     (if accepted then [] else '' receive rejected''))) commands) @ ''0000''"

section \<open>The ref transaction\<close>

fun transaction_lines :: "string list \<Rightarrow> receive_command list \<Rightarrow> err + string" where
  "transaction_lines seen [] = Inr []"
| "transaction_lines seen (c # cs) =
     (let old = rc_OldObjectID c; new = rc_NewObjectID c; ref = rc_RefName c in
      if \<not> validReceiveRefName ref \<or> old = [] \<or> new = [] \<or> length old \<noteq> length new
      then Inl (ErrNew ''invalid update-ref command'')
      else if ref \<in> set seen then Inl (ErrNew ''duplicate update-ref command'')
      else if allZeroObjectID new \<and> allZeroObjectID old then Inl (ErrNew ''invalid update-ref no-op'')
      else case transaction_lines (ref # seen) cs of
             Inl e \<Rightarrow> Inl e
           | Inr rest \<Rightarrow>
               Inr ((if allZeroObjectID new then ''delete '' @ ref @ '' '' @ old
                     else ''update '' @ ref @ '' '' @ new @ '' '' @ old) @ [CHR 0x0A] @ rest))"

definition BuildUpdateRefTransaction :: "receive_command list \<Rightarrow> err + string" where
  "BuildUpdateRefTransaction commands =
     (if commands = [] then Inl (ErrNew ''empty update-ref transaction'')
      else case transaction_lines [] commands of
             Inl e \<Rightarrow> Inl e
           | Inr body \<Rightarrow> Inr (''start'' @ [CHR 0x0A] @ body @ ''prepare'' @ [CHR 0x0A] @ ''commit'' @ [CHR 0x0A]))"

section \<open>Classification of the observed refs\<close>

definition observedObjectIDMatches :: "observed_ref \<Rightarrow> string \<Rightarrow> bool" where
  "observedObjectIDMatches r expected =
     (if allZeroObjectID expected then \<not> or_Exists r else or_Exists r \<and> or_ObjectID r = expected)"

text \<open>The map from ref names to observed refs; an unnamed or repeated ref spoils it.\<close>

fun index_refs :: "observed_ref list \<Rightarrow> (string \<times> observed_ref) list option" where
  "index_refs [] = Some []"
| "index_refs (r # rs) =
     (case index_refs rs of
        None \<Rightarrow> None
      | Some m \<Rightarrow> if or_RefName r = [] \<or> or_RefName r \<in> fst ` set m then None else Some ((or_RefName r, r) # m))"

fun classify_refs ::
  "(observed_ref \<Rightarrow> string \<Rightarrow> bool) \<Rightarrow> (string \<times> observed_ref) list \<Rightarrow> bool \<Rightarrow> bool \<Rightarrow> prepared_transition list \<Rightarrow> disposition" where
  "classify_refs match m allProposed allOld [] =
     (if allProposed then ReceiveCompleted else if allOld then ReceiveAborted else ReceiveManualRequired)"
| "classify_refs match m allProposed allOld (t # ts) =
     (case map_of m (pt_RefName t) of
        None \<Rightarrow> ReceiveManualRequired
      | Some r \<Rightarrow>
          (let proposed = match r (pt_ProposedNewObjectID t); old = match r (pt_ExpectedOldObjectID t) in
           if \<not> proposed \<and> \<not> old then ReceiveManualRequired
           else classify_refs match m (allProposed \<and> proposed) (allOld \<and> old) ts))"

definition ClassifyReceiveResolution :: "prepared_batch \<Rightarrow> observed_ref list \<Rightarrow> resolution" where
  "ClassifyReceiveResolution prepared observed =
     \<lparr>res_Disposition =
        Some (if pb_ID prepared = [] \<or> pb_Transitions prepared = [] \<or>
                 length observed \<noteq> length (pb_Transitions prepared) then ReceiveManualRequired
              else case index_refs observed of
                     None \<Rightarrow> ReceiveManualRequired
                   | Some m \<Rightarrow> classify_refs observedObjectIDMatches m True True (pb_Transitions prepared)),
      res_Observed = observed\<rparr>"

end
