(* ===== verification/ReceiveProtocol.thy ===== *)
theory ReceiveProtocol imports ReceiveCommands begin

text \<open>
  The wire protocol of a receive: what is printed is read back, what is read is well formed, and
  the transaction that is handed to \<open>git update-ref\<close> is the one the commands ask for.
\<close>

section \<open>Hexadecimal numbers\<close>

lemma hex_value_hex_char: "n < 16 \<Longrightarrow> hex_value (hex_char n) = Some n"
  by (auto simp: hex_value_def hex_char_def byte_def Let_def)

lemma parse_hex_append:
  "parse_hex n (s @ t) = (case parse_hex n s of None \<Rightarrow> None | Some m \<Rightarrow> parse_hex m t)"
  by (induction s arbitrary: n) (auto split: option.splits)

lemma parse_hex_zeros: "parse_hex 0 (replicate k CHR ''0'' @ s) = parse_hex 0 s"
proof (induction k)
  case (Suc k)
  have "hex_value CHR ''0'' = Some 0" by code_simp
  with Suc show ?case by simp
qed simp

lemma parse_hex_digits: "parse_hex 0 (hex_digits n) = Some n"
proof (induction n rule: hex_digits.induct)
  case (1 n)
  show ?case
  proof (cases "n < 16")
    case True
    then show ?thesis by (subst hex_digits.simps) (simp add: hex_value_hex_char)
  next
    case False
    have "parse_hex 0 (hex_digits (n div 16) @ [hex_char (n mod 16)]) = Some (16 * (n div 16) + n mod 16)"
      by (simp add: parse_hex_append 1 False hex_value_hex_char del: hex_digits.simps)
    with False show ?thesis by (subst hex_digits.simps) simp
  qed
qed

lemma length_hex_digits: "n < 16 ^ Suc k \<Longrightarrow> length (hex_digits n) \<le> Suc k"
proof (induction k arbitrary: n)
  case 0
  then show ?case by (subst hex_digits.simps) simp
next
  case (Suc k)
  have "n div 16 < 16 ^ Suc k" using Suc.prems by (simp add: less_mult_imp_div_less)
  with Suc.IH [of "n div 16"] show ?case by (subst hex_digits.simps) (simp del: hex_digits.simps)
qed

lemma length_format_04x: "n < 65536 \<Longrightarrow> length (format_04x n) = 4"
  using length_hex_digits [of n 3] by (simp add: format_04x_def del: hex_digits.simps)

lemma parse_hex_format_04x: "parse_hex 0 (format_04x n) = Some n"
  by (simp add: format_04x_def parse_hex_zeros parse_hex_digits del: hex_digits.simps)

section \<open>Packet lines\<close>

text \<open>A printed packet line is read back, whatever follows it.\<close>

lemma readPktLine_formatPktLine:
  assumes "length p \<le> 65515"
  shows "readPktLine (formatPktLine p @ rest) = Inr (Some p, rest)"
proof -
  let ?n = "length p + 5"
  have len: "length (format_04x ?n) = 4" using assms by (simp add: length_format_04x)
  have input: "formatPktLine p @ rest = format_04x ?n @ (p @ [CHR 0x0A]) @ rest"
    by (simp add: formatPktLine_def)
  have body: "take (?n - 4) ((p @ [CHR 0x0A]) @ rest) = p @ [CHR 0x0A]"
    "drop (?n - 4) ((p @ [CHR 0x0A]) @ rest) = rest" by simp_all
  have "length (formatPktLine p @ rest) \<ge> 4" by (simp add: formatPktLine_def len)
  moreover have "take 4 (formatPktLine p @ rest) = format_04x ?n" "drop 4 (formatPktLine p @ rest) = (p @ [CHR 0x0A]) @ rest"
    by (simp_all add: formatPktLine_def len)
  ultimately show ?thesis
    using assms body by (simp add: readPktLine_def Let_def parse_hex_format_04x trim_newline_def)
qed

lemma readPktLine_flush: "readPktLine (''0000'' @ rest) = Inr (None, rest)"
proof -
  have "parse_hex 0 ''0000'' = Some 0" by code_simp
  then show ?thesis by (simp add: readPktLine_def Let_def)
qed

lemma readPktLine_payload: "readPktLine input = Inr (Some p, rest) \<Longrightarrow> length p + 4 + length rest \<le> length input"
  by (auto simp: readPktLine_def Let_def trim_newline_def split: if_splits option.splits)

lemma read_command_text_lines:
  assumes "\<forall>l \<in> set ls. l \<noteq> [] \<and> length l \<le> 65515 \<and> \<not> strings_ContainsAny l [CHR 0x00, CHR 0x0D, CHR 0x0A]"
  shows "read_command_text (concat (map formatPktLine ls) @ ''0000'' @ rest) =
           Inr (concat (map (\<lambda>l. l @ [CHR 0x0A]) ls), rest)"
  using assms
proof (induction ls)
  case Nil
  show ?case using readPktLine_flush [of rest] by (subst read_command_text.simps) simp
next
  case (Cons l ls)
  let ?more = "concat (map formatPktLine ls) @ ''0000'' @ rest"
  have read: "readPktLine (formatPktLine l @ ?more) = Inr (Some l, ?more)"
    using Cons.prems by (simp only: readPktLine_formatPktLine list.set_intros)
  have more: "read_command_text ?more = Inr (concat (map (\<lambda>l. l @ [CHR 0x0A]) ls), rest)"
    using Cons by simp
  have "read_command_text (formatPktLine l @ ?more) = Inr (l @ [CHR 0x0A] @ concat (map (\<lambda>l. l @ [CHR 0x0A]) ls), rest)"
    using Cons.prems by (subst read_command_text.simps) (simp only: read more sum.case option.case prod.case, simp)
  then show ?case by simp
qed

section \<open>Commands\<close>

text \<open>The text form of a command, as \<open>git receive-pack\<close> sends it.\<close>

definition command_line :: "receive_command \<Rightarrow> string" where
  "command_line c = rc_OldObjectID c @ CHR '' '' # rc_NewObjectID c @ CHR '' '' # rc_RefName c"

definition command_ok :: "object_format \<Rightarrow> receive_command \<Rightarrow> bool" where
  "command_ok f c \<longleftrightarrow>
     validReceiveObjectID (rc_OldObjectID c) (objectIDLength f) \<and>
     validReceiveObjectID (rc_NewObjectID c) (objectIDLength f) \<and> validReceiveRefName (rc_RefName c)"

lemma hex_digit_chars: "hex_digit c \<Longrightarrow> c \<noteq> CHR '' '' \<and> c \<noteq> CHR 0x0A \<and> c \<noteq> CHR 0x0D \<and> c \<noteq> CHR 0x00"
  by (auto simp: hex_digit_def byte_def)

lemma validReceiveObjectID_chars:
  "validReceiveObjectID s n \<Longrightarrow> c \<in> set s \<Longrightarrow> c \<noteq> CHR '' '' \<and> c \<noteq> CHR 0x0A \<and> c \<noteq> CHR 0x0D \<and> c \<noteq> CHR 0x00"
  using hex_digit_chars by (auto simp: validReceiveObjectID_def list_all_iff)

lemma validReceiveRefName_chars:
  "validReceiveRefName s \<Longrightarrow> c \<in> set s \<Longrightarrow> c \<noteq> CHR '' '' \<and> c \<noteq> CHR 0x0A \<and> c \<noteq> CHR 0x0D \<and> c \<noteq> CHR 0x00"
  by (auto simp: validReceiveRefName_def strings_ContainsAny_def ref_space_def list_ex_iff)

lemma objectIDLength_pos: "0 < objectIDLength f"
  by (cases f) (simp_all add: objectIDLength_def)

lemma command_ok_parts:
  assumes "command_ok f c"
  shows "rc_OldObjectID c \<noteq> []" "rc_NewObjectID c \<noteq> []" "rc_RefName c \<noteq> []"
    "strings_Split CHR '' '' (command_line c) = [rc_OldObjectID c, rc_NewObjectID c, rc_RefName c]"
    "d \<in> set (command_line c) \<Longrightarrow> d \<noteq> CHR 0x0A \<and> d \<noteq> CHR 0x0D \<and> d \<noteq> CHR 0x00"
proof -
  note v = assms [unfolded command_ok_def]
  have no: "CHR '' '' \<notin> set (rc_OldObjectID c)" "CHR '' '' \<notin> set (rc_NewObjectID c)" "CHR '' '' \<notin> set (rc_RefName c)"
    using v validReceiveObjectID_chars validReceiveRefName_chars by blast+
  show "rc_OldObjectID c \<noteq> []" "rc_NewObjectID c \<noteq> []"
    using v objectIDLength_pos [of f] by (auto simp: validReceiveObjectID_def)
  show "rc_RefName c \<noteq> []" using v by (auto simp: validReceiveRefName_def)
  show "strings_Split CHR '' '' (command_line c) = [rc_OldObjectID c, rc_NewObjectID c, rc_RefName c]"
    using no by (simp add: command_line_def strings_Split_append strings_Split_single)
  show "d \<in> set (command_line c) \<Longrightarrow> d \<noteq> CHR 0x0A \<and> d \<noteq> CHR 0x0D \<and> d \<noteq> CHR 0x00"
    using v validReceiveObjectID_chars [of "rc_OldObjectID c" _ d] validReceiveObjectID_chars [of "rc_NewObjectID c" _ d]
      validReceiveRefName_chars [of "rc_RefName c" d]
    by (auto simp: command_line_def)
qed

lemma drop_cr_idle: "CHR 0x0D \<notin> set s \<Longrightarrow> drop_cr s = s"
  by (auto simp: drop_cr_def dest: last_in_set)

lemma scan_lines_concat:
  assumes "\<forall>l \<in> set ls. CHR 0x0A \<notin> set l"
  shows "scan_lines (concat (map (\<lambda>l. l @ [CHR 0x0A]) ls)) = ls"
proof -
  have "strings_Split CHR 0x0A (concat (map (\<lambda>l. l @ [CHR 0x0A]) ls)) = ls @ [[]]"
    using assms by (induction ls) (simp_all add: strings_Split_append)
  then show ?thesis by (simp add: scan_lines_def Let_def)
qed

lemma parse_lines_commands:
  assumes "\<forall>c \<in> set cs. command_ok f c \<and> length (command_line c) < scanner_limit"
    and "distinct (map rc_RefName cs)" "set seen \<inter> rc_RefName ` set cs = {}"
  shows "parse_lines (objectIDLength f) seen (map command_line cs) = Inr cs"
  using assms
proof (induction cs arbitrary: seen)
  case (Cons c cs)
  have ok: "command_ok f c" using Cons.prems by simp
  have line: "strings_Split CHR '' '' (drop_cr (command_line c)) = [rc_OldObjectID c, rc_NewObjectID c, rc_RefName c]"
    using command_ok_parts(4,5) [OF ok] by (metis drop_cr_idle)
  have "parse_lines (objectIDLength f) (rc_RefName c # seen) (map command_line cs) = Inr cs"
    using Cons.prems by (intro Cons.IH) auto
  then show ?case
    using Cons.prems ok command_ok_parts(1-3) [OF ok] line by (auto simp: command_ok_def)
qed simp

text \<open>What the parser accepts is well formed.\<close>

lemma parse_lines_sound:
  "parse_lines (objectIDLength f) seen ls = Inr cs \<Longrightarrow>
   (\<forall>c \<in> set cs. command_ok f c) \<and> distinct (map rc_RefName cs) \<and> set seen \<inter> rc_RefName ` set cs = {} \<and>
   length cs = length ls"
proof (induction ls arbitrary: seen cs)
  case (Cons l ls)
  from Cons.prems obtain old new ref where line: "strings_Split CHR '' '' (drop_cr l) = [old, new, ref]"
    by (auto split: if_splits list.splits)
  from Cons.prems line obtain cs' where
    tail: "parse_lines (objectIDLength f) (ref # seen) ls = Inr cs'"
    and cs: "cs = \<lparr>rc_OldObjectID = old, rc_NewObjectID = new, rc_RefName = ref\<rparr> # cs'"
    and ok: "validReceiveObjectID old (objectIDLength f)" "validReceiveObjectID new (objectIDLength f)"
      "validReceiveRefName ref" "ref \<notin> set seen"
    by (auto split: if_splits sum.splits)
  from Cons.IH [OF tail] cs ok show ?case by (auto simp: command_ok_def)
qed simp

lemma detectObjectFormat_commands:
  assumes "command_ok f c"
  shows "detectObjectFormat (command_line c @ CHR 0x0A # rest) = Inr f"
proof -
  have "takeWhile (\<lambda>d. d \<noteq> CHR 0x0A) (command_line c @ CHR 0x0A # rest) = command_line c"
    using command_ok_parts(5) [OF assms] by (simp add: takeWhile_tail takeWhile_eq_all_conv)
  moreover have "length (rc_OldObjectID c) = objectIDLength f"
    using assms by (simp add: command_ok_def validReceiveObjectID_def)
  ultimately show ?thesis using command_ok_parts(4) [OF assms]
    by (cases f) (simp_all add: detectObjectFormat_def objectIDLength_def)
qed

lemma ParseReceiveCommands_lines:
  assumes "cs \<noteq> []" "\<forall>c \<in> set cs. command_ok f c \<and> length (command_line c) < scanner_limit"
    and "distinct (map rc_RefName cs)"
  shows "ParseReceiveCommands (concat (map (\<lambda>l. l @ [CHR 0x0A]) (map command_line cs))) f = Inr cs"
proof -
  have "scan_lines (concat (map (\<lambda>l. l @ [CHR 0x0A]) (map command_line cs))) = map command_line cs"
    using assms(2) command_ok_parts(5) by (intro scan_lines_concat) fastforce
  moreover have "parse_lines (objectIDLength f) [] (map command_line cs) = Inr cs"
    using assms by (intro parse_lines_commands) auto
  ultimately show ?thesis using assms(1) by (simp add: ParseReceiveCommands_def)
qed

section \<open>The ref transaction\<close>

definition transaction_line :: "receive_command \<Rightarrow> string" where
  "transaction_line c =
     (if allZeroObjectID (rc_NewObjectID c) then ''delete '' @ rc_RefName c @ '' '' @ rc_OldObjectID c
      else ''update '' @ rc_RefName c @ '' '' @ rc_NewObjectID c @ '' '' @ rc_OldObjectID c) @ [CHR 0x0A]"

definition no_op :: "receive_command \<Rightarrow> bool" where
  "no_op c \<longleftrightarrow> allZeroObjectID (rc_NewObjectID c) \<and> allZeroObjectID (rc_OldObjectID c)"

lemma transaction_lines_ok:
  assumes "\<forall>c \<in> set cs. command_ok f c" "distinct (map rc_RefName cs)" "set seen \<inter> rc_RefName ` set cs = {}"
  shows "transaction_lines seen cs =
           (if \<exists>c \<in> set cs. no_op c then Inl (ErrNew ''invalid update-ref no-op'')
            else Inr (concat (map transaction_line cs)))"
  using assms
proof (induction cs arbitrary: seen)
  case (Cons c cs)
  have ok: "command_ok f c" using Cons.prems by simp
  have len: "length (rc_OldObjectID c) = length (rc_NewObjectID c)"
    using ok by (simp add: command_ok_def validReceiveObjectID_def)
  have tail: "transaction_lines (rc_RefName c # seen) cs =
      (if \<exists>c \<in> set cs. no_op c then Inl (ErrNew ''invalid update-ref no-op'')
       else Inr (concat (map transaction_line cs)))"
    using Cons.prems by (intro Cons.IH) auto
  show ?case
    using Cons.prems ok command_ok_parts(1,2) [OF ok] len tail
    by (auto simp: command_ok_def Let_def no_op_def transaction_line_def)
qed simp


end
