(* ===== verification/ReceiveDao.thy ===== *)
theory ReceiveDao imports ReceiveCommands begin

text \<open>
  The tables a receive works on, with their keys and constraints, and the statements that
  \<open>receive/coordinator.go\<close> and \<open>recovery/recovery.go\<close> share: creation of batches, intents,
  artifacts, transitions and collection jobs, conditional updates, and the reading of a batch.
\<close>

section \<open>Creation of records\<close>

definition create_batch :: "receive_batch_row \<Rightarrow> unit prog" where
  "create_batch b =
     insert_row (\<lambda>d. plugin_exists d (batch_PluginID b))
       (\<lambda>d. \<forall>c \<in> set (receive_batches d). batch_ID c \<noteq> batch_ID b)
       (\<lambda>d. d\<lparr>receive_batches := receive_batches d @ [b]\<rparr>)"

definition create_intent :: "receive_intent_row \<Rightarrow> unit prog" where
  "create_intent i =
     insert_row (\<lambda>d. plugin_exists d (intent_PluginID i) \<and>
                     (\<exists>b \<in> set (receive_batches d). batch_ID b = intent_BatchID i))
       (\<lambda>d. \<forall>j \<in> set (receive_intents d). intent_ID j \<noteq> intent_ID i \<and>
              (intent_BatchID j, intent_Tag j) \<noteq> (intent_BatchID i, intent_Tag i))
       (\<lambda>d. d\<lparr>receive_intents := receive_intents d @ [i]\<rparr>)"

definition create_artifact :: "artifact_row \<Rightarrow> unit prog" where
  "create_artifact a =
     insert_row (\<lambda>d. plugin_exists d (art_PluginID a))
       (\<lambda>d. \<forall>b \<in> set (artifacts d). art_ID b \<noteq> art_ID a \<and> art_StorageKey b \<noteq> art_StorageKey a)
       (\<lambda>d. d\<lparr>artifacts := artifacts d @ [a]\<rparr>)"

definition artifact_exists :: "db \<Rightarrow> string option \<Rightarrow> bool" where
  "artifact_exists d x \<longleftrightarrow> (case x of None \<Rightarrow> True | Some aid \<Rightarrow> \<exists>a \<in> set (artifacts d). art_ID a = aid)"

definition create_transition :: "transition_row \<Rightarrow> unit prog" where
  "create_transition t =
     insert_row (\<lambda>d. (\<exists>i \<in> set (receive_intents d). intent_ID i = trn_IntentID t) \<and>
                     (\<exists>p \<in> set (pointers d). ptr_ID p = trn_PointerID t) \<and>
                     artifact_exists d (trn_StagedArtifactID t))
       (\<lambda>d. \<forall>u \<in> set (transitions d). trn_ID u \<noteq> trn_ID t \<and>
              (trn_IntentID u, trn_RevisionID u) \<noteq> (trn_IntentID t, trn_RevisionID t))
       (\<lambda>d. d\<lparr>transitions := transitions d @ [t]\<rparr>)"

text \<open>\<open>ON CONFLICT (artifact_id) DO NOTHING\<close>.\<close>

definition enqueue_job :: "gc_job_row \<Rightarrow> db \<Rightarrow> db" where
  "enqueue_job j d =
     (if \<exists>k \<in> set (gc_jobs d). job_ArtifactID k = job_ArtifactID j then d
      else d\<lparr>gc_jobs := gc_jobs d @ [j]\<rparr>)"

definition new_job :: "string \<Rightarrow> string \<Rightarrow> int \<Rightarrow> gc_job_row" where
  "new_job jid artifactID t =
     \<lparr>job_ID = jid, job_ArtifactID = artifactID, job_State = ProjectionGCStatePending, job_Attempts = 0,
      job_SafeError = [], job_NextAttemptAt = None, job_CreatedAt = t, job_UpdatedAt = t, job_CompletedAt = None\<rparr>"

definition job_acceptable :: "db \<Rightarrow> gc_job_row \<Rightarrow> bool" where
  "job_acceptable d j \<longleftrightarrow>
     artifact_exists d (Some (job_ArtifactID j)) \<and>
     (\<forall>k \<in> set (gc_jobs d). job_ArtifactID k \<noteq> job_ArtifactID j \<longrightarrow> job_ID k \<noteq> job_ID j)"

definition enqueueGC :: "string \<Rightarrow> int \<Rightarrow> unit prog" where
  "enqueueGC artifactID t =
     bindE new_id (\<lambda>jid.
     exec_checked (\<lambda>d. (\<exists>k \<in> set (gc_jobs d). job_ArtifactID k = artifactID) \<or> job_acceptable d (new_job jid artifactID t))
       (enqueue_job (new_job jid artifactID t)))"

section \<open>Conditional updates\<close>

definition set_batches :: "receive_batch_row list \<Rightarrow> db \<Rightarrow> db" where
  "set_batches rows d = d\<lparr>receive_batches := rows\<rparr>"
definition set_intents :: "receive_intent_row list \<Rightarrow> db \<Rightarrow> db" where
  "set_intents rows d = d\<lparr>receive_intents := rows\<rparr>"
definition set_artifacts :: "artifact_row list \<Rightarrow> db \<Rightarrow> db" where
  "set_artifacts rows d = d\<lparr>artifacts := rows\<rparr>"
definition set_pointers :: "pointer_row list \<Rightarrow> db \<Rightarrow> db" where
  "set_pointers rows d = d\<lparr>pointers := rows\<rparr>"
definition set_transitions :: "transition_row list \<Rightarrow> db \<Rightarrow> db" where
  "set_transitions rows d = d\<lparr>transitions := rows\<rparr>"
definition set_jobs :: "gc_job_row list \<Rightarrow> db \<Rightarrow> db" where
  "set_jobs rows d = d\<lparr>gc_jobs := rows\<rparr>"

definition update_batches :: "(receive_batch_row \<Rightarrow> bool) \<Rightarrow> (receive_batch_row \<Rightarrow> receive_batch_row) \<Rightarrow> nat prog" where
  "update_batches = update_rows receive_batches set_batches (\<lambda>_ _. True)"
definition update_intents :: "(receive_intent_row \<Rightarrow> bool) \<Rightarrow> (receive_intent_row \<Rightarrow> receive_intent_row) \<Rightarrow> nat prog" where
  "update_intents = update_rows receive_intents set_intents (\<lambda>_ _. True)"
definition update_artifacts :: "(artifact_row \<Rightarrow> bool) \<Rightarrow> (artifact_row \<Rightarrow> artifact_row) \<Rightarrow> nat prog" where
  "update_artifacts = update_rows artifacts set_artifacts (\<lambda>_ _. True)"
definition update_pointers :: "(pointer_row \<Rightarrow> bool) \<Rightarrow> (pointer_row \<Rightarrow> pointer_row) \<Rightarrow> nat prog" where
  "update_pointers = update_rows pointers set_pointers (\<lambda>d p. artifact_exists d (ptr_ArtifactID p))"
definition update_transitions :: "(transition_row \<Rightarrow> bool) \<Rightarrow> (transition_row \<Rightarrow> transition_row) \<Rightarrow> nat prog" where
  "update_transitions = update_rows transitions set_transitions (\<lambda>_ _. True)"
definition update_jobs :: "(gc_job_row \<Rightarrow> bool) \<Rightarrow> (gc_job_row \<Rightarrow> gc_job_row) \<Rightarrow> nat prog" where
  "update_jobs = update_rows gc_jobs set_jobs (\<lambda>_ _. True)"

definition open_batch :: "receive_state \<Rightarrow> bool" where
  "open_batch s \<longleftrightarrow> s = ReceiveBatchStatePrepared \<or> s = ReceiveBatchStateFinalizing"

definition closed_batch :: "receive_state \<Rightarrow> bool" where
  "closed_batch s \<longleftrightarrow> s = ReceiveBatchStateCompleted \<or> s = ReceiveBatchStateAborted"

definition open_transition :: "transition_state \<Rightarrow> bool" where
  "open_transition s \<longleftrightarrow> s = ProjectionTransitionStatePrepared \<or> s = ProjectionTransitionStatePending"

definition closed_transition :: "transition_state \<Rightarrow> bool" where
  "closed_transition s \<longleftrightarrow> s = ProjectionTransitionStateCompleted \<or> s = ProjectionTransitionStateAborted"

definition finish_batch :: "err \<Rightarrow> string \<Rightarrow> receive_state \<Rightarrow> int \<Rightarrow> unit prog" where
  "finish_batch e bid st t =
     cas e (update_batches (\<lambda>b. batch_ID b = bid \<and> open_batch (batch_State b))
              (\<lambda>b. b\<lparr>batch_State := st, batch_UpdatedAt := t, batch_CompletedAt := Some t\<rparr>))"

definition finish_intent :: "err \<Rightarrow> string \<Rightarrow> receive_state \<Rightarrow> int \<Rightarrow> unit prog" where
  "finish_intent e iid st t =
     cas e (update_intents (\<lambda>i. intent_ID i = iid \<and> open_batch (intent_State i))
              (\<lambda>i. i\<lparr>intent_State := st, intent_UpdatedAt := t, intent_CompletedAt := Some t\<rparr>))"

text \<open>
  The pointer of a transition is only changed while it is unavailable and still has the generation
  and the artifact the transition started from.
\<close>

definition pointer_untouched :: "transition_row \<Rightarrow> pointer_row \<Rightarrow> bool" where
  "pointer_untouched t p \<longleftrightarrow>
     ptr_ID p = trn_PointerID t \<and> ptr_Generation p = trn_ExpectedGeneration t \<and> \<not> ptr_Available p \<and>
     ptr_ArtifactID p = trn_CurrentArtifactID t"

definition ready_artifact :: "err \<Rightarrow> string \<Rightarrow> int \<Rightarrow> unit prog" where
  "ready_artifact e aid t =
     cas e (update_artifacts (\<lambda>a. art_ID a = aid \<and> art_State a = ArtifactStateStaged)
              (\<lambda>a. a\<lparr>art_State := ArtifactStateReady, art_ReadyAt := Some t, art_UpdatedAt := t\<rparr>))"

section \<open>The version a resolved intent changes\<close>

definition intent_version :: "receive_intent_row \<Rightarrow> version_row \<Rightarrow> bool" where
  "intent_version i v \<longleftrightarrow>
     ver_PluginID v = intent_PluginID i \<and> ver_Tag v = intent_Tag i \<and>
     ver_Status v = intent_ExpectedVersionStatus i \<and>
     ver_RawTagObjectID v = Some (intent_ExpectedOldObjectID i) \<and>
     ver_CommitSHA v = Some (intent_ExpectedOldCommitSHA i)"

definition moves :: "receive_intent_row \<Rightarrow> bool" where
  "moves i \<longleftrightarrow>
     intent_ProposedNewObjectID i \<noteq> None \<and> intent_ProposedNewCommitSHA i \<noteq> None \<and>
     intent_ProposedManifestDigest i \<noteq> None \<and>
     (case intent_ProposedManifestSnapshot i of None \<Rightarrow> False | Some s \<Rightarrow> s \<noteq> [])"

definition move_version :: "err \<Rightarrow> receive_intent_row \<Rightarrow> int \<Rightarrow> unit prog" where
  "move_version e i t =
     cas e (update_versions (intent_version i)
              (\<lambda>v. v\<lparr>ver_RawTagObjectID := intent_ProposedNewObjectID i, ver_CommitSHA := intent_ProposedNewCommitSHA i,
                     ver_ManifestDigest := intent_ProposedManifestDigest i,
                     ver_ManifestSnapshot := intent_ProposedManifestSnapshot i, ver_UpdatedAt := t\<rparr>))"

definition delete_version :: "err \<Rightarrow> receive_intent_row \<Rightarrow> int \<Rightarrow> unit prog" where
  "delete_version e i t =
     bindE (cas e (update_versions (intent_version i)
              (\<lambda>v. v\<lparr>ver_Status := VersionStatusDeleted, ver_RawTagObjectID := None, ver_CommitSHA := None,
                     ver_ManifestDigest := None, ver_ManifestSnapshot := None, ver_DeletedAt := Some t,
                     ver_UpdatedAt := t\<rparr>))) (\<lambda>_.
     bindE (update_plugins True
              (\<lambda>p. plg_ID p = intent_PluginID i \<and> plg_DefaultVersionTag p = Some (intent_Tag i))
              (\<lambda>p. p\<lparr>plg_DefaultVersionTag := None, plg_UpdatedAt := t\<rparr>)) (\<lambda>_. return ()))"

definition receive_history :: "string \<Rightarrow> receive_intent_row \<Rightarrow> history_operation \<Rightarrow> string option \<Rightarrow> string \<Rightarrow> int \<Rightarrow> version_history_row" where
  "receive_history hid i op newCommit correlation t =
     \<lparr>hist_ID = hid, hist_PluginID = intent_PluginID i, hist_Tag = intent_Tag i, hist_Operation = op,
      hist_OldCommitSHA = Some (intent_ExpectedOldCommitSHA i), hist_NewCommitSHA = newCommit,
      hist_IntentID = Some (intent_ID i), hist_CorrelationID = correlation, hist_CreatedAt = t\<rparr>"

end
