(* ===== verification/ReceiveCoordinator.thy ===== *)
theory ReceiveCoordinator imports ReceiveDao begin

text \<open>
  \<open>mod/backend/domain/plugin/receive/coordinator.go\<close>: a receive that moves or deletes the tag of an
  available version is coordinated in two phases. \<open>Prepare\<close> builds the new projections, writes the
  intents and takes the affected projection pointers out of service in one transaction; after Git
  has applied the refs, \<open>Resolve\<close> completes or aborts the batch by the refs that are observed, or
  leaves it for manual recovery. The projection builder is an interface of the coordinator.
\<close>

section \<open>The projection builder\<close>

datatype source_tag_type = SourceTagLightweight | SourceTagAnnotated | SourceTagNone

record build_command =
  bc_ProjectionID :: string
  bc_RepositoryID :: string
  bc_TagName :: string
  bc_SourceObjectID :: string
  bc_PublishedAt :: int

type_synonym projection = "artifact_kind option \<times> string"

record projection_result =
  pr_Projection :: projection
  pr_TagName :: string
  pr_SourceTagType :: source_tag_type
  pr_SourceTagObjectID :: string
  pr_SourceCommitSHA :: string
  pr_SourceTreeSHA :: string
  pr_DistributionSHA :: string
  pr_ContentDigest :: string

text \<open>A build may return an error together with a result, which the coordinator cleans up.\<close>

record builder =
  bld_Build :: "build_command \<Rightarrow> (err option \<times> projection_result) prog"
  bld_Verify :: "projection \<Rightarrow> string \<Rightarrow> unit prog"
  bld_Remove :: "projection \<Rightarrow> unit prog"

section \<open>A coordination session\<close>

record coordination =
  co_pluginID :: string
  co_sessionID :: string

definition Open :: "string \<Rightarrow> string \<Rightarrow> coordination prog" where
  "Open pluginID sessionID =
     (if pluginID = [] \<or> sessionID = [] then fail ErrReceiveUnavailable
      else
        bindE (map_error (\<lambda>_. ErrReceiveUnavailable) (LockPlugin pluginID)) (\<lambda>_.
        attempt (query (\<lambda>d. length [(p, r). (p, r) \<leftarrow> plugin_join d,
                          plg_ID p = pluginID \<and> plg_Status p \<noteq> PluginStatusArchived \<and> repo_Status r = RepositoryReady]))
          (\<lambda>res. case res of
             Inr n \<Rightarrow> if n = 1 then return \<lparr>co_pluginID = pluginID, co_sessionID = sessionID\<rparr>
                      else bindE (ignore_error (exec id)) (\<lambda>_. fail ErrReceiveUnavailable)
           | Inl _ \<Rightarrow> bindE (ignore_error (exec id)) (\<lambda>_. fail ErrReceiveUnavailable))))"

definition Close :: "coordination \<Rightarrow> unit prog" where
  "Close c = exec id"

section \<open>Plans\<close>

record revision_plan =
  rp_revisionID :: string
  rp_publishedAt :: int
  rp_pointer :: pointer_row

record receive_plan =
  pl_command :: tag_command
  pl_version :: version_row
  pl_intentID :: string
  pl_revisions :: "revision_plan list"
  pl_projections :: "(revision_plan \<times> projection_result) list"

definition move_incomplete :: "tag_command \<Rightarrow> bool" where
  "move_incomplete c \<longleftrightarrow>
     tc_Operation c = ReceiveTagMove \<and>
     (tc_NewObjectID c = [] \<or> tc_NewCommitObjectID c = [] \<or> length (tc_NewManifestDigest c) \<noteq> 64 \<or>
      tc_NewManifestSnapshot c = [])"

definition delete_incomplete :: "tag_command \<Rightarrow> bool" where
  "delete_incomplete c \<longleftrightarrow>
     tc_Operation c = ReceiveTagDelete \<and>
     (tc_NewObjectID c = [] \<or> \<not> only_zeros (tc_NewObjectID c) \<or> tc_NewCommitObjectID c \<noteq> [])"

fun classify :: "string \<Rightarrow> string list \<Rightarrow> tag_command list \<Rightarrow> receive_plan list prog" where
  "classify pluginID seen [] = return []"
| "classify pluginID seen (c # cs) =
     (if tc_Tag c = [] \<or> tc_RefName c \<noteq> ''refs/tags/'' @ tc_Tag c then fail ErrRejected
      else if tc_Tag c \<in> set seen then fail ErrRejected
      else attempt (take_row (\<lambda>d. List.find (\<lambda>v. ver_PluginID v = pluginID \<and> ver_Tag v = tc_Tag c \<and>
                                            ver_Status v = VersionStatusAvailable) (versions d))) (\<lambda>res.
        case res of
          Inl e \<Rightarrow> if errors_Is e ErrRecordNotFound then classify pluginID (tc_Tag c # seen) cs else fail ErrRejected
        | Inr v \<Rightarrow>
            if ver_CommitSHA v = None \<or> ver_CommitSHA v = Some [] then fail ErrRejected
            else if tc_Operation c \<noteq> ReceiveTagMove \<and> tc_Operation c \<noteq> ReceiveTagDelete then fail ErrRejected
            else if ver_RawTagObjectID v = None \<or> tc_OldObjectID c = [] \<or>
                    Some (tc_OldObjectID c) \<noteq> ver_RawTagObjectID v \<or>
                    Some (tc_OldCommitObjectID c) \<noteq> ver_CommitSHA v then fail ErrRejected
            else if move_incomplete c then fail ErrRejected
            else if delete_incomplete c then fail ErrRejected
            else bindE new_id (\<lambda>iid.
                 bindE (classify pluginID (tc_Tag c # seen) cs) (\<lambda>plans.
                 return (\<lparr>pl_command = c, pl_version = v, pl_intentID = iid, pl_revisions = [],
                          pl_projections = []\<rparr> # plans)))))"

definition preflight_revision :: "string \<Rightarrow> tag_command \<Rightarrow> string \<times> int \<Rightarrow> revision_plan prog" where
  "preflight_revision pluginID c rv =
     bindE (map_error (\<lambda>_. ErrRejected)
              (take_row (\<lambda>d. List.find (\<lambda>p. ptr_RevisionID p = fst rv \<and> ptr_PluginID p = pluginID \<and>
                                            ptr_Tag p = tc_Tag c) (pointers d)))) (\<lambda>p.
     if \<not> ptr_Available p \<or> ptr_ArtifactID p = None \<or> ptr_ArtifactID p = Some [] then fail ErrRejected
     else bindE (map_error (\<lambda>_. ErrRejected)
                   (take_row (\<lambda>d. List.find (\<lambda>a. Some (art_ID a) = ptr_ArtifactID p \<and> art_PluginID a = pluginID \<and>
                      art_Tag a = tc_Tag c \<and> art_RevisionID a = Some (fst rv) \<and>
                      art_State a = ArtifactStateReady \<and> art_SourceCommitSHA a = tc_OldCommitObjectID c)
                      (artifacts d)))) (\<lambda>_.
          return \<lparr>rp_revisionID = fst rv, rp_publishedAt = snd rv, rp_pointer = p\<rparr>))"

text \<open>The joins of \<open>preflightPlans\<close>.\<close>

definition active_references :: "db \<Rightarrow> string \<Rightarrow> string \<Rightarrow> nat" where
  "active_references d pluginID tag =
     length [i. i \<leftarrow> revision_items d, r \<leftarrow> marketplace_revisions d, t \<leftarrow> marketplace_templates d,
       rev_ID r = item_RevisionID i \<and> tmpl_ID t = rev_TemplateID r \<and> item_PluginID i = pluginID \<and>
       item_PluginTag i = tag \<and> tmpl_PublishedRevisionID t = Some (rev_ID r) \<and>
       tmpl_Status t = StatusActive \<and> rev_Status r = StatusActive]"

definition tag_revisions :: "db \<Rightarrow> string \<Rightarrow> string \<Rightarrow> (string \<times> int) list" where
  "tag_revisions d pluginID tag =
     sort_key fst [(item_RevisionID i, rev_PublishedAt r). i \<leftarrow> revision_items d, r \<leftarrow> marketplace_revisions d,
       rev_ID r = item_RevisionID i \<and> item_PluginID i = pluginID \<and> item_PluginTag i = tag]"

definition count_zero :: "(db \<Rightarrow> nat) \<Rightarrow> unit prog" where
  "count_zero f = attempt (query f) (\<lambda>res. case res of Inl _ \<Rightarrow> fail ErrRejected
                                            | Inr n \<Rightarrow> if n \<noteq> 0 then fail ErrRejected else return ())"

definition preflight_plan :: "string \<Rightarrow> receive_plan \<Rightarrow> receive_plan prog" where
  "preflight_plan pluginID plan =
     (let c = pl_command plan in
      bindE (count_zero (\<lambda>d. count_where (\<lambda>i. intent_PluginID i = pluginID \<and> intent_Tag i = tc_Tag c \<and>
                                     unresolved_state (intent_State i)) (receive_intents d))) (\<lambda>_.
      bindE (if tc_Operation c = ReceiveTagDelete
             then count_zero (\<lambda>d. active_references d pluginID (tc_Tag c)) else return ()) (\<lambda>_.
      bindE (map_error (\<lambda>_. ErrRejected) (query (\<lambda>d. tag_revisions d pluginID (tc_Tag c)))) (\<lambda>revs.
      bindE (mapE (preflight_revision pluginID c) revs) (\<lambda>plans.
      return (plan\<lparr>pl_revisions := pl_revisions plan @ plans\<rparr>))))))"

section \<open>Building the projections\<close>

definition validBuildResult :: "projection_result \<Rightarrow> tag_command \<Rightarrow> bool" where
  "validBuildResult r c \<longleftrightarrow>
     \<not> (fst (pr_Projection r) \<noteq> Some ArtifactKindPlugin \<or> snd (pr_Projection r) = [] \<or>
        strings_ContainsAny (snd (pr_Projection r)) [CHR ''/'', CHR 0x5C] \<or>
        strings_Contains (snd (pr_Projection r)) ''..'' \<or> pr_TagName r \<noteq> tc_Tag c \<or>
        pr_SourceCommitSHA r \<noteq> tc_NewCommitObjectID c \<or> pr_SourceTreeSHA r = [] \<or>
        pr_DistributionSHA r = [] \<or> length (pr_ContentDigest r) \<noteq> 64) \<and>
     (case pr_SourceTagType r of
        SourceTagAnnotated \<Rightarrow> pr_SourceTagObjectID r = tc_NewObjectID c
      | SourceTagLightweight \<Rightarrow> pr_SourceTagObjectID r = [] \<and> tc_NewObjectID c = tc_NewCommitObjectID c
      | SourceTagNone \<Rightarrow> False)"

definition removeBuilt :: "builder \<Rightarrow> projection list \<Rightarrow> unit prog" where
  "removeBuilt B ps = forE (\<lambda>p. ignore_error (bld_Remove B p)) (rev ps)"

fun build_revisions ::
  "builder \<Rightarrow> string \<Rightarrow> tag_command \<Rightarrow> projection list \<Rightarrow> revision_plan list \<Rightarrow>
   (projection list \<times> (revision_plan \<times> projection_result) list) prog" where
  "build_revisions B pluginID c built [] = return (built, [])"
| "build_revisions B pluginID c built (rv # rvs) =
     bindE new_id (\<lambda>projectionID.
     bindE (bld_Build B \<lparr>bc_ProjectionID = projectionID, bc_RepositoryID = pluginID, bc_TagName = tc_Tag c,
              bc_SourceObjectID = tc_NewObjectID c, bc_PublishedAt = rp_publishedAt rv\<rparr>) (\<lambda>(e, r).
     if e \<noteq> None \<or> \<not> validBuildResult r c
     then bindE (removeBuilt B (built @
                   (if fst (pr_Projection r) = Some ArtifactKindPlugin \<and> snd (pr_Projection r) \<noteq> []
                    then [pr_Projection r] else []))) (\<lambda>_.
          fail (Joined ErrRejected (ErrNew ''invalid projection build result'')))
     else bindE (build_revisions B pluginID c (built @ [pr_Projection r]) rvs) (\<lambda>(built', rest).
          return (built', (rv, r) # rest))))"

fun build_plans ::
  "builder \<Rightarrow> string \<Rightarrow> projection list \<Rightarrow> receive_plan list \<Rightarrow> (projection list \<times> receive_plan list) prog" where
  "build_plans B pluginID built [] = return (built, [])"
| "build_plans B pluginID built (plan # plans) =
     (if tc_Operation (pl_command plan) \<noteq> ReceiveTagMove
      then bindE (build_plans B pluginID built plans) (\<lambda>(built', rest). return (built', plan # rest))
      else bindE (build_revisions B pluginID (pl_command plan) built (pl_revisions plan)) (\<lambda>(built1, done).
           bindE (build_plans B pluginID built1 plans) (\<lambda>(built', rest).
           return (built', plan\<lparr>pl_projections := pl_projections plan @ done\<rparr> # rest))))"

section \<open>Persisting a prepared batch\<close>

definition loadPrepared :: "string \<Rightarrow> prepared_batch prog" where
  "loadPrepared batchID =
     bindE (query (\<lambda>d. sort_key intent_Tag (filter (\<lambda>i. intent_BatchID i = batchID) (receive_intents d)))) (\<lambda>intents.
     return \<lparr>pb_ID = batchID, pb_Transitions = map (\<lambda>i.
       \<lparr>pt_Tag = intent_Tag i, pt_RefName = ''refs/tags/'' @ intent_Tag i,
        pt_ExpectedOldObjectID = intent_ExpectedOldObjectID i,
        pt_ProposedNewObjectID =
          (case intent_ProposedNewObjectID i of
             None \<Rightarrow> replicate (length (intent_ExpectedOldObjectID i)) CHR ''0'' | Some oid \<Rightarrow> oid)\<rparr>) intents\<rparr>)"

definition plan_intent :: "string \<Rightarrow> string \<Rightarrow> int \<Rightarrow> receive_plan \<Rightarrow> receive_intent_row" where
  "plan_intent batchID pluginID t plan =
     (let c = pl_command plan; move = (tc_Operation c = ReceiveTagMove) in
      \<lparr>intent_ID = pl_intentID plan, intent_BatchID = batchID, intent_PluginID = pluginID,
       intent_Operation = (if move then ReceiveOperationMove else ReceiveOperationDelete),
       intent_Tag = tc_Tag c, intent_ExpectedOldObjectID = tc_OldObjectID c,
       intent_ProposedNewObjectID = (if move then Some (tc_NewObjectID c) else None),
       intent_ExpectedOldCommitSHA = tc_OldCommitObjectID c,
       intent_ProposedNewCommitSHA = (if move then Some (tc_NewCommitObjectID c) else None),
       intent_ProposedManifestDigest = (if move then Some (tc_NewManifestDigest c) else None),
       intent_ProposedManifestSnapshot = (if move then Some (tc_NewManifestSnapshot c) else None),
       intent_ExpectedVersionStatus = VersionStatusAvailable,
       intent_State = ReceiveBatchStatePrepared, intent_Attempts = 0, intent_SafeError = [],
       intent_CreatedAt = t, intent_UpdatedAt = t, intent_CompletedAt = None\<rparr>)"

definition staged_artifact :: "string \<Rightarrow> string \<Rightarrow> tag_command \<Rightarrow> string \<Rightarrow> projection_result \<Rightarrow> int \<Rightarrow> artifact_row" where
  "staged_artifact aid pluginID c revisionID r t =
     \<lparr>art_ID = aid, art_Kind = ArtifactKindPlugin, art_PluginID = pluginID, art_Tag = tc_Tag c,
      art_SourceObjectID = tc_NewObjectID c, art_SourceCommitSHA = pr_SourceCommitSHA r,
      art_SourceTreeSHA = pr_SourceTreeSHA r, art_RevisionID = Some revisionID,
      art_ContentDigest = pr_ContentDigest r, art_DistributionSHA = pr_DistributionSHA r,
      art_StorageKey = snd (pr_Projection r), art_State = ArtifactStateStaged, art_SafeError = [],
      art_CreatedAt = t, art_UpdatedAt = t, art_ReadyAt = None\<rparr>"

definition stage_projection :: "string \<Rightarrow> receive_plan \<Rightarrow> revision_plan \<Rightarrow> int \<Rightarrow> string option prog" where
  "stage_projection pluginID plan rv t =
     (case List.find (\<lambda>(rv', r). rp_revisionID rv' = rp_revisionID rv) (rev (pl_projections plan)) of
        None \<Rightarrow> return None
      | Some (rv', r) \<Rightarrow>
          bindE new_id (\<lambda>aid.
          bindE (create_artifact (staged_artifact aid pluginID (pl_command plan) (rp_revisionID rv) r t)) (\<lambda>_.
          return (Some aid))))"

definition persist_revision :: "string \<Rightarrow> receive_plan \<Rightarrow> int \<Rightarrow> revision_plan \<Rightarrow> unit prog" where
  "persist_revision pluginID plan t rv =
     (let p = rp_pointer rv in
      bindE (stage_projection pluginID plan rv t) (\<lambda>staged.
      bindE new_id (\<lambda>tid.
      bindE (create_transition
        \<lparr>trn_ID = tid, trn_IntentID = pl_intentID plan, trn_RevisionID = rp_revisionID rv,
         trn_PointerID = ptr_ID p, trn_ExpectedGeneration = ptr_Generation p,
         trn_CurrentArtifactID = ptr_ArtifactID p, trn_StagedArtifactID = staged,
         trn_State = ProjectionTransitionStatePending, trn_SafeError = [], trn_CreatedAt = t,
         trn_UpdatedAt = t, trn_CompletedAt = None\<rparr>) (\<lambda>_.
      cas ErrManualRequired
        (update_pointers (\<lambda>q. ptr_ID q = ptr_ID p \<and> ptr_Generation q = ptr_Generation p \<and> ptr_Available q \<and>
                              ptr_ArtifactID q = ptr_ArtifactID p)
           (\<lambda>q. q\<lparr>ptr_Available := False, ptr_UpdatedAt := t\<rparr>))))))"

definition persist_plan :: "string \<Rightarrow> string \<Rightarrow> int \<Rightarrow> receive_plan \<Rightarrow> unit prog" where
  "persist_plan batchID pluginID t plan =
     bindE (create_intent (plan_intent batchID pluginID t plan)) (\<lambda>_.
     forE (persist_revision pluginID plan t) (pl_revisions plan))"

definition persistPrepared :: "coordination \<Rightarrow> receive_plan list \<Rightarrow> prepared_batch prog" where
  "persistPrepared co plans =
     bindE now (\<lambda>t.
     bindE new_id (\<lambda>batchID.
     bindE (transaction
       (bindE (create_batch
          \<lparr>batch_ID = batchID, batch_PluginID = co_pluginID co, batch_State = ReceiveBatchStatePrepared,
           batch_CorrelationID = co_sessionID co, batch_Attempts = 0, batch_SafeError = [],
           batch_CreatedAt = t, batch_UpdatedAt = t, batch_CompletedAt = None\<rparr>) (\<lambda>_.
        forE (persist_plan batchID (co_pluginID co) t) plans))) (\<lambda>_.
     loadPrepared batchID)))"

definition loadSession :: "coordination \<Rightarrow> prepared_batch option prog" where
  "loadSession co =
     attempt (take_row (\<lambda>d. first_row (sort_key batch_CreatedAt
                (filter (\<lambda>b. batch_PluginID b = co_pluginID co \<and> batch_CorrelationID b = co_sessionID co)
                   (receive_batches d))))) (\<lambda>res. case res of
       Inl e \<Rightarrow> if errors_Is e ErrRecordNotFound then return None else fail e
     | Inr b \<Rightarrow> bindE (loadPrepared (batch_ID b)) (\<lambda>p. return (Some p)))"

definition sanitizeError :: "err \<Rightarrow> err" where
  "sanitizeError e =
     (if errors_Is e ErrManualRequired then ErrManualRequired else ErrNew ''durable receive prepare failed'')"

definition Prepare :: "builder \<Rightarrow> coordination \<Rightarrow> receive_batch \<Rightarrow> prepared_batch prog" where
  "Prepare B co batch =
     (if rp_ID (rb_Plugin batch) \<noteq> co_pluginID co \<or> rb_SessionID batch = [] \<or> rb_SessionID batch \<noteq> co_sessionID co
      then fail ErrRejected
      else bindE (map_error (\<lambda>_. ErrRejected) (loadSession co)) (\<lambda>found. case found of
        Some prepared \<Rightarrow> return prepared
      | None \<Rightarrow>
          bindE (map_error (\<lambda>_. ErrRejected) (classify (co_pluginID co) [] (rb_CanonicalTags batch))) (\<lambda>plans.
          if plans = [] then return no_batch
          else
            bindE (map_error (Joined ErrRejected) (mapE (preflight_plan (co_pluginID co)) plans)) (\<lambda>plans.
            bindE (build_plans B (co_pluginID co) [] plans) (\<lambda>(built, plans).
            attempt (persistPrepared co plans) (\<lambda>res. case res of
              Inr prepared \<Rightarrow> return prepared
            | Inl e \<Rightarrow> bindE (removeBuilt B built) (\<lambda>_. fail (Joined ErrRejected (sanitizeError e)))))))))"

end
