(* ===== verification/ReceiveResolve.thy ===== *)
theory ReceiveResolve imports ReceiveCoordinator begin

text \<open>
  The second phase of \<open>receive/coordinator.go\<close>, and the removal of superseded projections by
  \<open>receive/gc.go\<close>.
\<close>

section \<open>Completing and aborting\<close>

text \<open>\<open>observedMatches\<close> and \<open>classifyResolution\<close>, the coordinator's own classification.\<close>

definition observedMatches :: "observed_ref \<Rightarrow> string \<Rightarrow> bool" where
  "observedMatches r expected =
     (if expected \<noteq> [] \<and> only_zeros expected then \<not> or_Exists r
      else or_Exists r \<and> or_ObjectID r = expected)"

definition classifyResolution :: "prepared_batch \<Rightarrow> observed_ref list \<Rightarrow> disposition" where
  "classifyResolution prepared observed =
     (if pb_ID prepared = [] \<or> pb_Transitions prepared = [] \<or>
         length (pb_Transitions prepared) \<noteq> length observed then ReceiveManualRequired
      else case index_refs observed of
             None \<Rightarrow> ReceiveManualRequired
           | Some m \<Rightarrow> classify_refs observedMatches m True True (pb_Transitions prepared))"

definition isTerminalBatchState :: "receive_state \<Rightarrow> bool" where
  "isTerminalBatchState s \<longleftrightarrow> closed_batch s \<or> s = ReceiveBatchStateManualRequired"

definition finish_transition :: "string \<Rightarrow> transition_state \<Rightarrow> int \<Rightarrow> unit prog" where
  "finish_transition tid st t =
     cas ErrManualRequired
       (update_transitions (\<lambda>x. trn_ID x = tid \<and> open_transition (trn_State x))
          (\<lambda>x. x\<lparr>trn_State := st, trn_UpdatedAt := t, trn_CompletedAt := Some t\<rparr>))"

definition switch_pointer :: "err \<Rightarrow> transition_row \<Rightarrow> string option \<Rightarrow> bool \<Rightarrow> int \<Rightarrow> unit prog" where
  "switch_pointer e x art available t =
     cas e (update_pointers (pointer_untouched x)
              (\<lambda>p. p\<lparr>ptr_Generation := trn_ExpectedGeneration x + 1, ptr_ArtifactID := art,
                     ptr_Available := available, ptr_UpdatedAt := t\<rparr>))"

definition complete_transition :: "receive_operation \<Rightarrow> int \<Rightarrow> transition_row \<Rightarrow> unit prog" where
  "complete_transition op t x =
     bindE (case (op, trn_StagedArtifactID x) of
              (ReceiveOperationMove, Some s) \<Rightarrow>
                bindE (ready_artifact ErrManualRequired s t) (\<lambda>_.
                switch_pointer ErrManualRequired x (Some s) True t)
            | (ReceiveOperationMove, None) \<Rightarrow> fail ErrManualRequired
            | (ReceiveOperationDelete, _) \<Rightarrow> switch_pointer ErrManualRequired x None False t) (\<lambda>_.
     bindE (case trn_CurrentArtifactID x of
              None \<Rightarrow> return ()
            | Some c \<Rightarrow> if trn_StagedArtifactID x = None \<or> trn_StagedArtifactID x \<noteq> Some c
                        then enqueueGC c t else return ()) (\<lambda>_.
     finish_transition (trn_ID x) ProjectionTransitionStateCompleted t))"

definition completeIntent :: "receive_batch_row \<Rightarrow> receive_intent_row \<Rightarrow> transition_row list \<Rightarrow> int \<Rightarrow> unit prog" where
  "completeIntent b i xs t =
     bindE (if intent_Operation i = ReceiveOperationMove \<and> moves i then
              bindE (move_version ErrManualRequired i t) (\<lambda>_.
              return (VersionHistoryOperationMove, intent_ProposedNewCommitSHA i))
            else if intent_Operation i = ReceiveOperationDelete then
              bindE (delete_version ErrManualRequired i t) (\<lambda>_. return (VersionHistoryOperationDelete, None))
            else fail ErrManualRequired) (\<lambda>(op, newCommit).
     bindE new_id (\<lambda>hid.
     bindE (create_history (receive_history hid i op newCommit (batch_CorrelationID b) t)) (\<lambda>_.
     bindE (forE (complete_transition (intent_Operation i) t) xs) (\<lambda>_.
     finish_intent ErrManualRequired (intent_ID i) ReceiveBatchStateCompleted t))))"

definition abort_transition :: "int \<Rightarrow> transition_row \<Rightarrow> unit prog" where
  "abort_transition t x =
     bindE (cas ErrManualRequired (update_pointers (pointer_untouched x)
              (\<lambda>p. p\<lparr>ptr_Available := True, ptr_UpdatedAt := t\<rparr>))) (\<lambda>_.
     bindE (case trn_StagedArtifactID x of None \<Rightarrow> return () | Some s \<Rightarrow> enqueueGC s t) (\<lambda>_.
     finish_transition (trn_ID x) ProjectionTransitionStateAborted t))"

definition abortIntent :: "receive_intent_row \<Rightarrow> transition_row list \<Rightarrow> int \<Rightarrow> unit prog" where
  "abortIntent i xs t =
     bindE (forE (abort_transition t) xs) (\<lambda>_.
     finish_intent ErrManualRequired (intent_ID i) ReceiveBatchStateAborted t)"

definition final_state :: "disposition \<Rightarrow> receive_state" where
  "final_state disp = (if disp = ReceiveAborted then ReceiveBatchStateAborted else ReceiveBatchStateCompleted)"

definition resolve_intent ::
  "receive_batch_row \<Rightarrow> transition_row list \<Rightarrow> disposition \<Rightarrow> int \<Rightarrow> receive_intent_row \<Rightarrow> unit prog" where
  "resolve_intent b xs disp t i =
     (let mine = filter (\<lambda>x. trn_IntentID x = intent_ID i) xs in
      case disp of
        ReceiveCompleted \<Rightarrow> completeIntent b i mine t
      | ReceiveAborted \<Rightarrow> abortIntent i mine t
      | ReceiveManualRequired \<Rightarrow> fail ErrManualRequired)"

definition applyResolution ::
  "receive_batch_row \<Rightarrow> receive_intent_row list \<Rightarrow> transition_row list \<Rightarrow> disposition \<Rightarrow> unit prog" where
  "applyResolution b intents xs disp =
     bindE now (\<lambda>t.
     transaction
       (bindE (take_row (\<lambda>d. List.find (\<lambda>c. batch_ID c = batch_ID b) (receive_batches d))) (\<lambda>current.
        if isTerminalBatchState (batch_State current) then return ()
        else bindE (forE (resolve_intent current xs disp t) intents) (\<lambda>_.
             finish_batch ErrManualRequired (batch_ID b) (final_state disp) t))))"

section \<open>Manual recovery\<close>

definition manual_batch_rows :: "string \<Rightarrow> string \<Rightarrow> int \<Rightarrow> nat prog" where
  "manual_batch_rows bid reason t =
     update_batches (\<lambda>b. batch_ID b = bid \<and> \<not> closed_batch (batch_State b))
       (\<lambda>b. b\<lparr>batch_State := ReceiveBatchStateManualRequired, batch_SafeError := reason, batch_UpdatedAt := t\<rparr>)"

definition manual_intent_rows :: "string \<Rightarrow> string \<Rightarrow> int \<Rightarrow> nat prog" where
  "manual_intent_rows bid reason t =
     update_intents (\<lambda>i. intent_BatchID i = bid \<and> \<not> closed_batch (intent_State i))
       (\<lambda>i. i\<lparr>intent_State := ReceiveBatchStateManualRequired, intent_SafeError := reason, intent_UpdatedAt := t\<rparr>)"

definition withdraw_pointer :: "transition_row \<Rightarrow> int \<Rightarrow> nat prog" where
  "withdraw_pointer x t =
     update_pointers (\<lambda>p. ptr_ID p = trn_PointerID x) (\<lambda>p. p\<lparr>ptr_Available := False, ptr_UpdatedAt := t\<rparr>)"

definition manual_transition :: "string \<Rightarrow> int \<Rightarrow> transition_row \<Rightarrow> unit prog" where
  "manual_transition reason t x =
     bindE (withdraw_pointer x t) (\<lambda>_.
     bindE (update_transitions (\<lambda>y. trn_ID y = trn_ID x \<and> \<not> closed_transition (trn_State y))
              (\<lambda>y. y\<lparr>trn_State := ProjectionTransitionStateManualRequired, trn_SafeError := reason,
                     trn_UpdatedAt := t\<rparr>)) (\<lambda>_. return ()))"

definition markManual :: "string \<Rightarrow> transition_row list \<Rightarrow> string \<Rightarrow> unit prog" where
  "markManual bid xs reason =
     bindE now (\<lambda>t.
     transaction
       (bindE (manual_batch_rows bid reason t) (\<lambda>_.
        bindE (manual_intent_rows bid reason t) (\<lambda>_.
        forE (manual_transition reason t) xs))))"

section \<open>Resolution\<close>

definition loadResolutionState ::
  "string \<Rightarrow> (receive_batch_row \<times> receive_intent_row list \<times> transition_row list \<times> prepared_batch) prog" where
  "loadResolutionState bid =
     bindE (take_row (\<lambda>d. List.find (\<lambda>b. batch_ID b = bid) (receive_batches d))) (\<lambda>b.
     bindE (query (\<lambda>d. sort_key intent_Tag (filter (\<lambda>i. intent_BatchID i = bid) (receive_intents d)))) (\<lambda>intents.
     bindE (if intents = [] then return []
            else query (\<lambda>d. sort_key trn_RevisionID
                   (filter (\<lambda>x. trn_IntentID x \<in> set (map intent_ID intents)) (transitions d)))) (\<lambda>xs.
     bindE (loadPrepared bid) (\<lambda>prepared.
     return (b, intents, xs, prepared)))))"

definition verify_staged :: "builder \<Rightarrow> string \<Rightarrow> transition_row list \<Rightarrow> transition_row \<Rightarrow> unit prog" where
  "verify_staged B bid xs x =
     (case trn_StagedArtifactID x of
        None \<Rightarrow> return ()
      | Some s \<Rightarrow>
          attempt (take_row (\<lambda>d. List.find (\<lambda>a. art_ID a = s) (artifacts d))) (\<lambda>res. case res of
            Inl _ \<Rightarrow> bindE (ignore_error (markManual bid xs ''artifact_missing'')) (\<lambda>_. fail ErrManualRequired)
          | Inr a \<Rightarrow>
              attempt (bld_Verify B (Some ArtifactKindPlugin, art_StorageKey a) (art_ContentDigest a)) (\<lambda>res. case res of
                Inr _ \<Rightarrow> return ()
              | Inl _ \<Rightarrow>
                  bindE now (\<lambda>t.
                  bindE (ignore_error (update_artifacts (\<lambda>c. art_ID c = art_ID a)
                           (\<lambda>c. c\<lparr>art_State := ArtifactStateFailed, art_SafeError := ''digest_verification_failed'',
                                  art_UpdatedAt := t\<rparr>))) (\<lambda>_.
                  bindE (ignore_error (markManual bid xs ''artifact_verification_failed'')) (\<lambda>_.
                  fail ErrManualRequired))))))"

definition Resolve :: "builder \<Rightarrow> coordination \<Rightarrow> prepared_batch \<Rightarrow> resolution \<Rightarrow> unit prog" where
  "Resolve B co prepared res =
     (if pb_ID prepared = [] then fail ErrRejected
      else bindE (map_error (\<lambda>_. ErrRejected) (loadResolutionState (pb_ID prepared))) (\<lambda>(b, intents, xs, authoritative).
        if batch_PluginID b \<noteq> co_pluginID co \<or> batch_CorrelationID b \<noteq> co_sessionID co then fail ErrRejected
        else if isTerminalBatchState (batch_State b) then return ()
        else let disp = classifyResolution authoritative (res_Observed res) in
          if res_Disposition res = Some ReceiveManualRequired \<or> disp = ReceiveManualRequired \<or>
             (res_Disposition res \<noteq> None \<and> res_Disposition res \<noteq> Some disp)
          then map_error (\<lambda>_. ErrManualRequired) (markManual (batch_ID b) xs ''unexpected_ref'')
          else bindE (if disp = ReceiveCompleted then forE (verify_staged B (batch_ID b) xs) xs else return ()) (\<lambda>_.
               attempt (applyResolution b intents xs disp) (\<lambda>res. case res of
                 Inr _ \<Rightarrow> return ()
               | Inl _ \<Rightarrow> bindE (ignore_error (markManual (batch_ID b) xs ''sql_cas_mismatch'')) (\<lambda>_.
                          fail ErrManualRequired)))))"

definition Reconcile :: "builder \<Rightarrow> prepared_batch \<Rightarrow> observed_ref list \<Rightarrow> unit prog" where
  "Reconcile B prepared observed =
     (if pb_ID prepared = [] then fail ErrRejected
      else bindE (map_error (\<lambda>_. ErrRejected)
                    (take_row (\<lambda>d. List.find (\<lambda>b. batch_ID b = pb_ID prepared) (receive_batches d)))) (\<lambda>b.
           bindE (Open (batch_PluginID b) (batch_CorrelationID b)) (\<lambda>co.
           attempt (Resolve B co prepared \<lparr>res_Disposition = None, res_Observed = observed\<rparr>) (\<lambda>r.
           attempt (Close co) (\<lambda>_. of_sum r)))))"

section \<open>Collection of superseded projections\<close>

definition one_minute :: int where
  "one_minute = 60000000000"

definition failJob :: "string \<Rightarrow> string \<Rightarrow> unit prog" where
  "failJob jid reason =
     bindE now (\<lambda>t.
     bindE (update_jobs (\<lambda>j. job_ID j = jid \<and> job_State j = ProjectionGCStateRunning)
              (\<lambda>j. j\<lparr>job_State := ProjectionGCStatePending, job_SafeError := reason,
                     job_NextAttemptAt := Some (t + one_minute), job_UpdatedAt := t\<rparr>)) (\<lambda>_. return ()))"

definition due :: "int \<Rightarrow> gc_job_row \<Rightarrow> bool" where
  "due t j \<longleftrightarrow> (case job_NextAttemptAt j of None \<Rightarrow> True | Some n \<Rightarrow> n \<le> t)"

definition collect_artifact :: "builder \<Rightarrow> gc_job_row \<Rightarrow> bool prog" where
  "collect_artifact B job =
     attempt (take_row (\<lambda>d. List.find (\<lambda>a. art_ID a = job_ArtifactID job) (artifacts d))) (\<lambda>res. case res of
       Inl _ \<Rightarrow> bindE (ignore_error (failJob (job_ID job) ''artifact_missing'')) (\<lambda>_.
                fail (ErrNew ''projection GC artifact unavailable''))
     | Inr a \<Rightarrow>
         if art_StorageKey a = []
         then bindE (ignore_error (failJob (job_ID job) ''artifact_invalid'')) (\<lambda>_.
              fail (ErrNew ''projection GC artifact unavailable''))
         else attempt (bld_Remove B (Some (art_Kind a), art_StorageKey a)) (\<lambda>res. case res of
           Inl _ \<Rightarrow> bindE (ignore_error (failJob (job_ID job) ''remove_failed'')) (\<lambda>_.
                    fail (ErrNew ''remove projection''))
         | Inr _ \<Rightarrow>
             bindE now (\<lambda>t.
             bindE (cas (ErrNew ''complete projection GC job'')
               (update_jobs (\<lambda>j. job_ID j = job_ID job \<and> job_State j = ProjectionGCStateRunning)
                  (\<lambda>j. j\<lparr>job_State := ProjectionGCStateCompleted, job_SafeError := [], job_UpdatedAt := t,
                         job_CompletedAt := Some t\<rparr>))) (\<lambda>_. return True))))"

text \<open>The result says whether a job was taken; the code also reports that beside an error.\<close>

definition RunOnce :: "builder \<Rightarrow> bool prog" where
  "RunOnce B =
     bindE now (\<lambda>t.
     attempt (take_row (\<lambda>d. first_row (sort_key (\<lambda>j. (job_CreatedAt j, job_ID j))
                (filter (\<lambda>j. job_State j = ProjectionGCStatePending \<and> due t j) (gc_jobs d))))) (\<lambda>res. case res of
       Inl e \<Rightarrow> if errors_Is e ErrRecordNotFound then return False else fail (ErrNew ''load projection GC job'')
     | Inr job \<Rightarrow>
         bindE now (\<lambda>t.
         bindE (map_error (\<lambda>_. ErrNew ''claim projection GC job'')
                  (update_jobs (\<lambda>j. job_ID j = job_ID job \<and> job_State j = ProjectionGCStatePending)
                     (\<lambda>j. j\<lparr>job_State := ProjectionGCStateRunning, job_Attempts := job_Attempts j + 1,
                            job_UpdatedAt := t\<rparr>))) (\<lambda>affected.
         if affected \<noteq> 1 then return False else collect_artifact B job))))"

end
