(* ===== verification/Recovery.thy ===== *)
theory Recovery imports ReceiveResolve begin

text \<open>
  \<open>mod/backend/domain/plugin/recovery/recovery.go\<close>: maintenance after a crash. Open receive batches
  are resolved by reading the refs again, aged repositories no row refers to are removed, and
  superseded projections are collected. Refs are read by \<open>ReadPluginRef\<close> of \<open>mod/git/service.go\<close>.
\<close>

section \<open>Reading a ref\<close>

definition validateRepositoryID :: "string \<Rightarrow> err option" where
  "validateRepositoryID rid =
     (if suffix ''.git'' rid \<or> \<not> MatchString repositoryIDPattern rid then Some ErrInvalidRepositoryID else None)"

definition existingRepositoryPath :: "string \<Rightarrow> string prog" where
  "existingRepositoryPath rid =
     bindE (hook (validateRepositoryID rid)) (\<lambda>_.
     bindE os_call (\<lambda>_.
     bindE (stat_repository rid) (\<lambda>present.
     if present then return rid else fail ErrRepositoryNotFound)))"

text \<open>Any failure of \<open>git rev-parse\<close> is taken as the absence of the ref.\<close>

definition ReadPluginRef :: "string \<Rightarrow> string \<Rightarrow> observed_ref prog" where
  "ReadPluginRef rid refName =
     (if \<not> validReceiveRefName refName then fail (ErrNew ''invalid Git ref'')
      else
        bindE (existingRepositoryPath rid) (\<lambda>path.
        attempt os_call (\<lambda>res. case res of
          Inl _ \<Rightarrow> return \<lparr>or_RefName = refName, or_ObjectID = [], or_Exists = False\<rparr>
        | Inr _ \<Rightarrow>
            bindE (gets (\<lambda>w. git_refs (w_storage w) (path, refName))) (\<lambda>found. case found of
              None \<Rightarrow> return \<lparr>or_RefName = refName, or_ObjectID = [], or_Exists = False\<rparr>
            | Some oid \<Rightarrow>
                if \<not> validObjectID oid then fail (ErrNew ''invalid Git ref object'')
                else return \<lparr>or_RefName = refName, or_ObjectID = oid, or_Exists = True\<rparr>))))"

section \<open>Receive batches\<close>

record recovery_options =
  opt_BatchSize :: nat
  opt_MinimumOrphanAge :: int

definition unavailable :: "string \<Rightarrow> err \<Rightarrow> err" where
  "unavailable operation e = Wrapped operation ErrRecoveryUnavailable"

definition matches :: "observed_ref \<Rightarrow> string \<Rightarrow> bool" where
  "matches r want = (if only_zeros want then \<not> or_Exists r else or_Exists r \<and> or_ObjectID r = want)"

definition proposed_object :: "receive_intent_row \<Rightarrow> string" where
  "proposed_object i =
     (case intent_ProposedNewObjectID i of
        None \<Rightarrow> replicate (length (intent_ExpectedOldObjectID i)) CHR ''0'' | Some oid \<Rightarrow> oid)"

fun classify_intents ::
  "(string \<times> observed_ref) list \<Rightarrow> bool \<Rightarrow> bool \<Rightarrow> receive_intent_row list \<Rightarrow> disposition" where
  "classify_intents refs allNew allOld [] =
     (if allNew then ReceiveCompleted else if allOld then ReceiveAborted else ReceiveManualRequired)"
| "classify_intents refs allNew allOld (i # is) =
     (case map_of refs (''refs/tags/'' @ intent_Tag i) of
        None \<Rightarrow> ReceiveManualRequired
      | Some r \<Rightarrow>
          (let new = matches r (proposed_object i); old = matches r (intent_ExpectedOldObjectID i) in
           if \<not> new \<and> \<not> old then ReceiveManualRequired
           else classify_intents refs (allNew \<and> new) (allOld \<and> old) is))"

definition recovery_classify :: "receive_intent_row list \<Rightarrow> observed_ref list \<Rightarrow> disposition" where
  "recovery_classify intents observed =
     (if intents = [] \<or> length intents \<noteq> length observed then ReceiveManualRequired
      else case index_refs observed of
             None \<Rightarrow> ReceiveManualRequired
           | Some refs \<Rightarrow> classify_intents refs True True intents)"

definition manualBatch :: "string \<Rightarrow> string \<Rightarrow> unit prog" where
  "manualBatch bid reason =
     bindE now (\<lambda>t.
     transaction
       (bindE (map_error (unavailable ''mark receive manual'') (manual_batch_rows bid reason t)) (\<lambda>_.
        bindE (map_error (unavailable ''mark receive intent manual'') (manual_intent_rows bid reason t)) (\<lambda>_.
        bindE (map_error (unavailable ''list receive transitions'')
          (query (\<lambda>d. [x. x \<leftarrow> transitions d, i \<leftarrow> receive_intents d,
             intent_ID i = trn_IntentID x \<and> intent_BatchID i = bid \<and> \<not> closed_transition (trn_State x)]))) (\<lambda>xs.
        forE (\<lambda>x.
          bindE (map_error (unavailable ''fail close receive pointer'') (withdraw_pointer x t)) (\<lambda>_.
          bindE (map_error (unavailable ''mark receive transition manual'')
            (update_transitions (\<lambda>y. trn_ID y = trn_ID x)
               (\<lambda>y. y\<lparr>trn_State := ProjectionTransitionStateManualRequired, trn_SafeError := reason,
                      trn_UpdatedAt := t\<rparr>))) (\<lambda>_. return ()))) xs)))))"

definition verifyStaged :: "builder \<Rightarrow> receive_intent_row list \<Rightarrow> unit prog" where
  "verifyStaged B intents =
     bindE (query (\<lambda>d. filter (\<lambda>x. trn_IntentID x \<in> set (map intent_ID intents) \<and> trn_StagedArtifactID x \<noteq> None)
                        (transitions d))) (\<lambda>xs.
     forE (\<lambda>x.
       bindE (take_row (\<lambda>d. List.find (\<lambda>a. Some (art_ID a) = trn_StagedArtifactID x \<and> art_State a = ArtifactStateStaged)
                              (artifacts d))) (\<lambda>a.
       bld_Verify B (Some ArtifactKindPlugin, art_StorageKey a) (art_ContentDigest a))) xs)"

text \<open>\<open>enqueueGC\<close> of the recovery looks for the job first.\<close>

definition recovery_enqueueGC :: "string \<Rightarrow> int \<Rightarrow> unit prog" where
  "recovery_enqueueGC artifactID t =
     attempt (take_row (\<lambda>d. List.find (\<lambda>j. job_ArtifactID j = artifactID) (gc_jobs d))) (\<lambda>res. case res of
       Inr _ \<Rightarrow> return ()
     | Inl e \<Rightarrow>
         if errors_Is e ErrRecordNotFound
         then bindE new_id (\<lambda>jid.
              exec_checked (\<lambda>d. job_acceptable d (new_job jid artifactID t)) (enqueue_job (new_job jid artifactID t)))
         else fail e)"

definition set_transition_state :: "string \<Rightarrow> transition_state \<Rightarrow> int \<Rightarrow> unit prog" where
  "set_transition_state tid st t =
     bindE (update_transitions (\<lambda>y. trn_ID y = tid)
              (\<lambda>y. y\<lparr>trn_State := st, trn_UpdatedAt := t, trn_CompletedAt := Some t\<rparr>)) (\<lambda>_. return ())"

definition completeTransition :: "receive_operation \<Rightarrow> int \<Rightarrow> transition_row \<Rightarrow> unit prog" where
  "completeTransition op t x =
     bindE (case (op, trn_StagedArtifactID x) of
              (ReceiveOperationMove, Some s) \<Rightarrow>
                bindE (ready_artifact (ErrNew ''artifact cas mismatch'') s t) (\<lambda>_.
                switch_pointer (ErrNew ''pointer cas mismatch'') x (Some s) True t)
            | (ReceiveOperationMove, None) \<Rightarrow> fail (ErrNew ''invalid projection transition'')
            | (ReceiveOperationDelete, _) \<Rightarrow> switch_pointer (ErrNew ''pointer cas mismatch'') x None False t) (\<lambda>_.
     bindE (case trn_CurrentArtifactID x of None \<Rightarrow> return () | Some c \<Rightarrow> recovery_enqueueGC c t) (\<lambda>_.
     set_transition_state (trn_ID x) ProjectionTransitionStateCompleted t))"

definition abortTransition :: "int \<Rightarrow> transition_row \<Rightarrow> unit prog" where
  "abortTransition t x =
     bindE (cas (ErrNew ''pointer cas mismatch'') (update_pointers (pointer_untouched x)
              (\<lambda>p. p\<lparr>ptr_Available := True, ptr_UpdatedAt := t\<rparr>))) (\<lambda>_.
     bindE (case trn_StagedArtifactID x of None \<Rightarrow> return () | Some s \<Rightarrow> recovery_enqueueGC s t) (\<lambda>_.
     set_transition_state (trn_ID x) ProjectionTransitionStateAborted t))"

definition apply_version :: "receive_intent_row \<Rightarrow> int \<Rightarrow> (history_operation \<times> string option) prog" where
  "apply_version i t =
     (case intent_Operation i of
        ReceiveOperationMove \<Rightarrow>
          if \<not> moves i then fail (ErrNew ''missing proposed source facts'')
          else bindE (move_version (ErrNew ''version cas mismatch'') i t) (\<lambda>_.
               return (VersionHistoryOperationMove, intent_ProposedNewCommitSHA i))
      | ReceiveOperationDelete \<Rightarrow>
          bindE (delete_version (ErrNew ''version cas mismatch'') i t) (\<lambda>_.
          return (VersionHistoryOperationDelete, None)))"

definition applyIntent :: "receive_batch_row \<Rightarrow> disposition \<Rightarrow> int \<Rightarrow> receive_intent_row \<Rightarrow> unit prog" where
  "applyIntent b disp t i =
     bindE (query (\<lambda>d. filter (\<lambda>x. trn_IntentID x = intent_ID i) (transitions d))) (\<lambda>xs.
     bindE (if disp = ReceiveCompleted
            then bindE (apply_version i t) (\<lambda>(op, newCommit).
                 bindE new_id (\<lambda>hid.
                 bindE (create_history (receive_history hid i op newCommit (batch_CorrelationID b) t)) (\<lambda>_.
                 forE (completeTransition (intent_Operation i) t) xs)))
            else forE (abortTransition t) xs) (\<lambda>_.
     finish_intent (ErrNew ''receive intent cas mismatch'') (intent_ID i) (final_state disp) t))"

definition applyReceive :: "receive_batch_row \<Rightarrow> receive_intent_row list \<Rightarrow> disposition \<Rightarrow> unit prog" where
  "applyReceive b intents disp =
     bindE now (\<lambda>t.
     transaction
       (bindE (take_row (\<lambda>d. List.find (\<lambda>c. batch_ID c = batch_ID b) (receive_batches d))) (\<lambda>current.
        if closed_batch (batch_State current) then return ()
        else bindE (forE (applyIntent current disp t) intents) (\<lambda>_.
             finish_batch (ErrNew ''receive batch cas mismatch'') (batch_ID b) (final_state disp) t))))"

fun observe_intents :: "string \<Rightarrow> receive_intent_row list \<Rightarrow> observed_ref list option prog" where
  "observe_intents rid [] = return (Some [])"
| "observe_intents rid (i # is) =
     bindE (map_error (unavailable ''reread receive ref'') (ReadPluginRef rid (''refs/tags/'' @ intent_Tag i))) (\<lambda>r.
     if or_RefName r \<noteq> ''refs/tags/'' @ intent_Tag i then return None
     else bindE (observe_intents rid is) (\<lambda>rest. return (map_option ((#) r) rest)))"

definition reconcile_locked :: "builder \<Rightarrow> receive_batch_row \<Rightarrow> unit prog" where
  "reconcile_locked B b =
     attempt (take_row (\<lambda>d. List.find (\<lambda>r. repo_ID r = batch_PluginID b) (repositories d))) (\<lambda>res. case res of
       Inl _ \<Rightarrow> manualBatch (batch_ID b) ''repository_missing''
     | Inr repository \<Rightarrow>
         bindE (map_error (unavailable ''list receive intents'')
           (query (\<lambda>d. sort_key intent_Tag (filter (\<lambda>i. intent_BatchID i = batch_ID b) (receive_intents d))))) (\<lambda>intents.
         if intents = [] then manualBatch (batch_ID b) ''intent_missing''
         else bindE (observe_intents (repo_ID repository) intents) (\<lambda>obs. case obs of
           None \<Rightarrow> manualBatch (batch_ID b) ''invalid_ref_read''
         | Some observed \<Rightarrow>
             (let disp = recovery_classify intents observed in
              if disp = ReceiveManualRequired then manualBatch (batch_ID b) ''unexpected_ref''
              else if disp = ReceiveCompleted
              then attempt (verifyStaged B intents) (\<lambda>res. case res of
                     Inl _ \<Rightarrow> manualBatch (batch_ID b) ''artifact_verification_failed''
                   | Inr _ \<Rightarrow> applyReceive b intents disp)
              else applyReceive b intents disp))))"

definition reconcileBatch :: "builder \<Rightarrow> receive_batch_row \<Rightarrow> unit prog" where
  "reconcileBatch B b =
     bindE (map_error (unavailable ''lock receive batch'') (LockPlugin (batch_PluginID b))) (\<lambda>_.
     attempt (reconcile_locked B b) (\<lambda>r. attempt (exec id) (\<lambda>_. of_sum r)))"

text \<open>Beside an error the code also reports how many batches it had done.\<close>

definition ReconcileReceives :: "builder \<Rightarrow> recovery_options \<Rightarrow> nat prog" where
  "ReconcileReceives B opts =
     bindE (map_error (unavailable ''list receive batches'')
       (query (\<lambda>d. take (opt_BatchSize opts) (sort_key batch_CreatedAt
                (filter (\<lambda>b. open_batch (batch_State b)) (receive_batches d)))))) (\<lambda>batches.
     bindE (forE (reconcileBatch B) batches) (\<lambda>_. return (length batches)))"

section \<open>Orphaned repositories\<close>

fun remove_orphans :: "recovery_options \<Rightarrow> nat \<Rightarrow> orphan_candidate list \<Rightarrow> nat prog" where
  "remove_orphans opts processed [] = return processed"
| "remove_orphans opts processed (c # cs) =
     (if processed \<ge> opt_BatchSize opts then return processed
      else bindE (if cand_StorageKey c = [] then return True
                  else bindE now (\<lambda>t. return (cand_CreatedAt c > t - opt_MinimumOrphanAge opts))) (\<lambda>skip.
        if skip then remove_orphans opts processed cs
        else bindE (map_error (unavailable ''check repository aggregate'')
               (query (\<lambda>d. count_where (\<lambda>r. repo_StorageKey r = cand_StorageKey c) (repositories d)))) (\<lambda>n.
          if n \<noteq> 0 then remove_orphans opts processed cs
          else bindE (map_error (unavailable ''remove orphan repository'') (RemoveOrphanRepository (cand_StorageKey c))) (\<lambda>_.
               remove_orphans opts (Suc processed) cs))))"

definition ReconcileOrphans :: "recovery_options \<Rightarrow> nat prog" where
  "ReconcileOrphans opts =
     (if opt_MinimumOrphanAge opts \<le> 0 then fail ErrInvalidOptions
      else bindE (map_error (unavailable ''list orphan candidates'')
                    (ListRepositoryOrphanCandidates (opt_MinimumOrphanAge opts))) (\<lambda>cands.
           remove_orphans opts 0 cands))"

section \<open>Superseded projections\<close>

definition gcManual :: "string \<Rightarrow> string \<Rightarrow> unit prog" where
  "gcManual jid reason =
     bindE now (\<lambda>t.
     bindE (map_error (unavailable ''mark projection gc manual'')
       (update_jobs (\<lambda>j. job_ID j = jid)
          (\<lambda>j. j\<lparr>job_State := ProjectionGCStateManualRequired, job_SafeError := reason, job_UpdatedAt := t\<rparr>))) (\<lambda>_.
     return ()))"

definition gcOne :: "builder \<Rightarrow> gc_job_row \<Rightarrow> unit prog" where
  "gcOne B job =
     bindE now (\<lambda>t.
     attempt (take_row (\<lambda>d. List.find (\<lambda>a. art_ID a = job_ArtifactID job) (artifacts d))) (\<lambda>res. case res of
       Inl _ \<Rightarrow> gcManual (job_ID job) ''artifact_missing''
     | Inr a \<Rightarrow>
         bindE (map_error (unavailable ''claim projection gc'')
           (update_jobs (\<lambda>j. job_ID j = job_ID job \<and> job_State j = job_State job \<and> job_Attempts j = job_Attempts job)
              (\<lambda>j. j\<lparr>job_State := ProjectionGCStateRunning, job_Attempts := job_Attempts job + 1, job_UpdatedAt := t\<rparr>))) (\<lambda>affected.
         if affected \<noteq> 1 then return ()
         else bindE (map_error (unavailable ''check projection references'')
                (query (\<lambda>d. count_where (\<lambda>p. ptr_ArtifactID p = Some (art_ID a)) (pointers d)))) (\<lambda>references.
           if references \<noteq> 0 then gcManual (job_ID job) ''projection_still_referenced''
           else attempt (bld_Remove B (Some (art_Kind a), art_StorageKey a)) (\<lambda>res. case res of
             Inl _ \<Rightarrow> gcManual (job_ID job) ''projection_remove_failed''
           | Inr _ \<Rightarrow>
               bindE (map_error (unavailable ''complete projection gc'')
                 (update_jobs (\<lambda>j. job_ID j = job_ID job)
                    (\<lambda>j. j\<lparr>job_State := ProjectionGCStateCompleted, job_CompletedAt := Some t, job_UpdatedAt := t\<rparr>))) (\<lambda>_.
               return ()))))))"

definition RunProjectionGC :: "builder \<Rightarrow> recovery_options \<Rightarrow> nat prog" where
  "RunProjectionGC B opts =
     bindE now (\<lambda>t.
     bindE (map_error (unavailable ''list projection gc jobs'')
       (query (\<lambda>d. take (opt_BatchSize opts) (sort_key job_CreatedAt
                (filter (\<lambda>j. (job_State j = ProjectionGCStatePending \<or> job_State j = ProjectionGCStateRunning) \<and> due t j)
                   (gc_jobs d)))))) (\<lambda>jobs.
     bindE (forE (gcOne B) jobs) (\<lambda>_. return (length jobs))))"

section \<open>What leaves the database unchanged\<close>

lemma reads_existingRepositoryPath [read_only]: "reads (existingRepositoryPath r)"
  unfolding existingRepositoryPath_def by (intro read_only)

lemma reads_ReadPluginRef [read_only]: "reads (ReadPluginRef r n)"
  unfolding ReadPluginRef_def by (intro read_only)

lemma reads_observe_intents [read_only]: "reads (observe_intents r is)"
  by (induction "is") (simp_all, (intro read_only | assumption)+)

lemma reads_remove_orphans [read_only]: "reads (remove_orphans o' n cs)"
proof (induction cs arbitrary: n)
  case Nil
  show ?case by (simp add: read_only)
next
  case (Cons c cs)
  show ?case unfolding remove_orphans.simps by (intro read_only Cons.IH)
qed

lemma reads_ReconcileOrphans [read_only]: "reads (ReconcileOrphans o')"
  unfolding ReconcileOrphans_def by (intro read_only)

end
