(* ===== verification/ProtocolProps.thy ===== *)
theory ProtocolProps imports ReceiveProtocol Recovery begin

text \<open>
  The properties of the receive protocol: what is printed is read back, what is read is well
  formed, canonical tags are ref names, and the three places that judge the refs after a receive
  judge them alike.
\<close>

section \<open>Classification of the observed refs\<close>

lemma observedMatches_eq: "observedObjectIDMatches = observedMatches"
  by (intro ext) (simp add: observedObjectIDMatches_def observedMatches_def allZeroObjectID_def)

lemma ClassifyReceiveResolution_eq:
  "ClassifyReceiveResolution p obs = \<lparr>res_Disposition = Some (classifyResolution p obs), res_Observed = obs\<rparr>"
  by (auto simp: ClassifyReceiveResolution_def classifyResolution_def observedMatches_eq split: option.splits)

lemma matches_eq: "s \<noteq> [] \<Longrightarrow> matches r s = observedMatches r s"
  by (simp add: matches_def observedMatches_def)

text \<open>The transition that \<open>loadPrepared\<close> makes of an intent.\<close>

definition prepared_of :: "receive_intent_row \<Rightarrow> prepared_transition" where
  "prepared_of i =
     \<lparr>pt_Tag = intent_Tag i, pt_RefName = ''refs/tags/'' @ intent_Tag i,
      pt_ExpectedOldObjectID = intent_ExpectedOldObjectID i, pt_ProposedNewObjectID = proposed_object i\<rparr>"

definition batch_intents :: "db \<Rightarrow> string \<Rightarrow> receive_intent_row list" where
  "batch_intents d bid = sort_key intent_Tag (filter (\<lambda>i. intent_BatchID i = bid) (receive_intents d))"

lemma loadPrepared_Inr:
  "loadPrepared bid w = (Inr p, w') \<Longrightarrow>
     p = \<lparr>pb_ID = bid, pb_Transitions = map prepared_of (batch_intents (w_db w) bid)\<rparr> \<and> w_db w' = w_db w"
  by (auto simp: loadPrepared_def prog_iff prepared_of_def proposed_object_def batch_intents_def)

definition objects_named :: "receive_intent_row \<Rightarrow> bool" where
  "objects_named i \<longleftrightarrow> intent_ExpectedOldObjectID i \<noteq> [] \<and> intent_ProposedNewObjectID i \<noteq> Some []"

lemma proposed_object_nonempty: "objects_named i \<Longrightarrow> proposed_object i \<noteq> []"
  by (auto simp: objects_named_def proposed_object_def split: option.splits)

lemma classify_intents_eq:
  "\<forall>i \<in> set is. objects_named i \<Longrightarrow>
   classify_intents m new old is = classify_refs observedMatches m new old (map prepared_of is)"
proof (induction "is" arbitrary: new old)
  case (Cons i "is")
  then have "objects_named i" by simp
  then have "matches r (proposed_object i) = observedMatches r (proposed_object i)"
    "matches r (intent_ExpectedOldObjectID i) = observedMatches r (intent_ExpectedOldObjectID i)" for r
    using proposed_object_nonempty by (simp_all add: matches_eq objects_named_def)
  with Cons show ?case by (simp add: prepared_of_def Let_def split: option.split)
qed simp

lemma recovery_classify_eq:
  "bid \<noteq> [] \<Longrightarrow> \<forall>i \<in> set is. objects_named i \<Longrightarrow>
   recovery_classify is obs = classifyResolution \<lparr>pb_ID = bid, pb_Transitions = map prepared_of is\<rparr> obs"
  by (auto simp: recovery_classify_def classifyResolution_def classify_intents_eq split: option.split)

section \<open>Canonical tags\<close>

lemma tag_char_plain: "tag_char c \<Longrightarrow> c \<notin> set ref_space \<and> c \<noteq> CHR ''/''"
proof -
  have "list_all (\<lambda>c. \<not> tag_char c) (CHR ''/'' # ref_space)" by code_simp
  then show "tag_char c \<Longrightarrow> c \<notin> set ref_space \<and> c \<noteq> CHR ''/''" by (auto simp: list_all_iff)
qed

lemma canonical_ref_valid:
  assumes "MatchString canonicalTagPattern t"
  shows "validReceiveRefName (''refs/tags/'' @ t)"
proof -
  have plain: "\<forall>c \<in> set t. c \<notin> set ref_space \<and> c \<noteq> CHR ''/''"
    using canonicalTagPattern_chars [OF assms] tag_char_plain by blast
  then have "strings_Split CHR ''/'' t = [t]" by (intro strings_Split_single) blast
  then have "strings_Split CHR ''/'' (''refs/tags/'' @ t) = [''refs'', ''tags'', t]" by simp
  then have "length (strings_Split CHR ''/'' (''refs/tags/'' @ t)) \<ge> 3" by simp
  moreover have "\<not> strings_ContainsAny (''refs/tags/'' @ t) ref_space"
  proof -
    have "\<not> strings_ContainsAny ''refs/tags/'' ref_space" by code_simp
    moreover have "\<not> strings_ContainsAny t ref_space" using plain by (simp add: strings_ContainsAny_def list_ex_iff)
    ultimately show ?thesis unfolding strings_ContainsAny_def list_ex_append by blast
  qed
  moreover have "prefix ''refs/'' (''refs/tags/'' @ t)" "prefix ''refs/tags/'' (''refs/tags/'' @ t)" by simp_all
  ultimately show ?thesis unfolding validReceiveRefName_def by blast
qed

text \<open>Two commands for the witnesses.\<close>

definition demo_create :: receive_command where
  "demo_create = \<lparr>rc_OldObjectID = replicate 40 CHR ''0'', rc_NewObjectID = replicate 40 CHR ''a'', rc_RefName = ''refs/tags/v1.0.0''\<rparr>"

definition demo_delete :: receive_command where
  "demo_delete = \<lparr>rc_OldObjectID = replicate 40 CHR ''b'', rc_NewObjectID = replicate 40 CHR ''0'', rc_RefName = ''refs/tags/v2.0.0''\<rparr>"

lemma demo_commands_ok: "command_ok ObjectFormatSHA1 demo_create" "command_ok ObjectFormatSHA1 demo_delete"
  by code_simp+

section \<open>Properties\<close>

text \<open>C20. The commands of a push survive the wire: a conversation that sends the packet line of each
  command and a flush is read back as exactly these commands, in the right object format, and what
  follows the flush is left for the push options.\<close>

theorem pushed_commands_round_trip:
  assumes "cs \<noteq> []" "\<forall>c \<in> set cs. command_ok f c \<and> length (command_line c) \<le> 65515"
    and "distinct (map rc_RefName cs)"
  shows "\<exists>text. read_command_text (concat (map (formatPktLine \<circ> command_line) cs) @ ''0000'' @ rest) = Inr (text, rest) \<and>
           detectObjectFormat text = Inr f \<and> ParseReceiveCommands text f = Inr cs"
proof -
  let ?ls = "map command_line cs"
  let ?text = "concat (map (\<lambda>l. l @ [CHR 0x0A]) ?ls)"
  have ok: "command_ok f c" if "c \<in> set cs" for c using assms(2) that by blast
  have "read_command_text (concat (map formatPktLine ?ls) @ ''0000'' @ rest) = Inr (?text, rest)"
  proof (rule read_command_text_lines, clarsimp)
    fix c assume c: "c \<in> set cs"
    have "command_line c \<noteq> []" by (simp add: command_line_def)
    moreover have "\<not> strings_ContainsAny (command_line c) [CHR 0x00, CHR 0x0D, CHR 0x0A]"
      using command_ok_parts(5) [OF ok [OF c]] by (auto simp: strings_ContainsAny_def list_ex_iff)
    ultimately show "command_line c \<noteq> [] \<and> length (command_line c) \<le> 65515 \<and>
        \<not> strings_ContainsAny (command_line c) [CHR 0x00, CHR 0x0D, CHR 0x0A]"
      using assms(2) c by blast
  qed
  moreover obtain c cs' where cs: "cs = c # cs'" using assms(1) by (cases cs) auto
  then have "detectObjectFormat ?text = Inr f"
    using detectObjectFormat_commands [OF ok [of c]] by simp
  moreover have "ParseReceiveCommands ?text f = Inr cs"
    using assms by (intro ParseReceiveCommands_lines) (auto simp: scanner_limit_def)
  ultimately show ?thesis by (auto simp: comp_def)
qed

theorem pushed_commands_round_trip_witness:
  "\<exists>text. read_command_text (concat (map (formatPktLine \<circ> command_line) [demo_create, demo_delete]) @ ''0000'' @ ''0000'')
       = Inr (text, ''0000'') \<and>
     detectObjectFormat text = Inr ObjectFormatSHA1 \<and> ParseReceiveCommands text ObjectFormatSHA1 = Inr [demo_create, demo_delete]"
proof (rule pushed_commands_round_trip)
  show "\<forall>c \<in> set [demo_create, demo_delete]. command_ok ObjectFormatSHA1 c \<and> length (command_line c) \<le> 65515"
    by (simp add: demo_commands_ok) (simp add: demo_create_def demo_delete_def command_line_def)
qed (simp_all add: demo_create_def demo_delete_def)

text \<open>C23. Commands that the parser accepts are well formed and name different refs, and the
  transaction built from them deletes or updates exactly those refs from the old object each command
  names; only a command without an old and a new object is refused.\<close>

theorem accepted_commands_make_the_transaction:
  assumes "ParseReceiveCommands input f = Inr cs"
  shows "cs \<noteq> [] \<and> (\<forall>c \<in> set cs. command_ok f c) \<and> distinct (map rc_RefName cs) \<and>
    BuildUpdateRefTransaction cs =
      (if \<exists>c \<in> set cs. no_op c then Inl (ErrNew ''invalid update-ref no-op'')
       else Inr (''start'' @ [CHR 0x0A] @ concat (map transaction_line cs) @ ''prepare'' @ [CHR 0x0A] @ ''commit'' @ [CHR 0x0A]))"
proof -
  from assms have parsed: "parse_lines (objectIDLength f) [] (scan_lines input) = Inr cs" and "cs \<noteq> []"
    by (auto simp: ParseReceiveCommands_def split: sum.splits if_splits)
  with parse_lines_sound [OF parsed] transaction_lines_ok [of cs f "[]"] show ?thesis
    by (simp add: BuildUpdateRefTransaction_def)
qed

theorem accepted_commands_make_the_transaction_witness:
  "BuildUpdateRefTransaction [demo_delete] =
   Inr (''start'' @ [CHR 0x0A] @ ''delete refs/tags/v2.0.0 '' @ replicate 40 CHR ''b'' @ [CHR 0x0A] @
        ''prepare'' @ [CHR 0x0A] @ ''commit'' @ [CHR 0x0A])"
proof -
  have "ParseReceiveCommands (concat (map (\<lambda>l. l @ [CHR 0x0A]) (map command_line [demo_delete]))) ObjectFormatSHA1 = Inr [demo_delete]"
    by (rule ParseReceiveCommands_lines)
      (simp_all add: demo_commands_ok, simp add: demo_delete_def command_line_def scanner_limit_def)
  moreover have "\<not> no_op demo_delete"
    "transaction_line demo_delete = ''delete refs/tags/v2.0.0 '' @ replicate 40 CHR ''b'' @ [CHR 0x0A]"
    by code_simp+
  ultimately show ?thesis using accepted_commands_make_the_transaction by simp
qed

text \<open>C32. A packet line with at most 65515 bytes of payload is read back whatever follows it, the
  reader never takes more than the input holds, and the input gets shorter with each packet, so that
  every loop over packets ends.\<close>

theorem packet_lines_round_trip:
  "(length p \<le> 65515 \<longrightarrow> readPktLine (formatPktLine p @ rest) = Inr (Some p, rest)) \<and>
   readPktLine (''0000'' @ rest) = Inr (None, rest) \<and>
   (readPktLine input = Inr (packet, after) \<longrightarrow>
      length after + 4 + (case packet of None \<Rightarrow> 0 | Some q \<Rightarrow> length q) \<le> length input)"
proof (intro conjI impI)
  show "length p \<le> 65515 \<Longrightarrow> readPktLine (formatPktLine p @ rest) = Inr (Some p, rest)"
    by (rule readPktLine_formatPktLine)
  show "readPktLine (''0000'' @ rest) = Inr (None, rest)" by (rule readPktLine_flush)
  show "readPktLine input = Inr (packet, after) \<Longrightarrow>
      length after + 4 + (case packet of None \<Rightarrow> 0 | Some q \<Rightarrow> length q) \<le> length input"
    by (auto simp: readPktLine_def Let_def trim_newline_def split: if_splits option.splits)
qed

theorem packet_lines_round_trip_witness:
  "readPktLine (formatPktLine ''version=1'' @ ''0000'') = Inr (Some ''version=1'', ''0000'') \<and>
   length ''0000'' + 4 + length ''version=1'' \<le> length (formatPktLine ''version=1'' @ ''0000'')"
  using packet_lines_round_trip [of "''version=1''" "''0000''" "formatPktLine ''version=1'' @ ''0000''" "Some ''version=1''" "''0000''"]
  by simp

text \<open>C22. The finalization of a push, the coordinator and the recovery judge the observed refs of a
  prepared batch alike: all three find the same disposition, for any observation.\<close>

theorem classifications_agree:
  assumes "loadPrepared bid w = (Inr prepared, w')" "bid \<noteq> []"
    and "\<forall>i \<in> set (receive_intents (w_db w)). objects_named i"
  shows "ClassifyReceiveResolution prepared obs = \<lparr>res_Disposition = Some (classifyResolution prepared obs), res_Observed = obs\<rparr> \<and>
    recovery_classify (batch_intents (w_db w) bid) obs = classifyResolution prepared obs"
proof -
  have "\<forall>i \<in> set (batch_intents (w_db w) bid). objects_named i"
    using assms(3) by (simp add: batch_intents_def)
  with loadPrepared_Inr [OF assms(1)] recovery_classify_eq [OF assms(2)] show ?thesis
    by (simp add: ClassifyReceiveResolution_eq)
qed

definition moved_tag :: receive_intent_row where
  "moved_tag =
     \<lparr>intent_ID = ''i1'', intent_BatchID = ''b1'', intent_PluginID = ''p1'', intent_Operation = ReceiveOperationMove,
      intent_Tag = ''v1.0.0'', intent_ExpectedOldObjectID = replicate 40 CHR ''a'',
      intent_ProposedNewObjectID = Some (replicate 40 CHR ''b''), intent_ExpectedOldCommitSHA = replicate 40 CHR ''a'',
      intent_ProposedNewCommitSHA = Some (replicate 40 CHR ''b''), intent_ProposedManifestDigest = Some (replicate 64 CHR ''c''),
      intent_ProposedManifestSnapshot = Some ''{}'', intent_ExpectedVersionStatus = VersionStatusAvailable,
      intent_State = ReceiveBatchStatePrepared, intent_Attempts = 0, intent_SafeError = [],
      intent_CreatedAt = 0, intent_UpdatedAt = 0, intent_CompletedAt = None\<rparr>"

definition moving :: world where
  "moving =
     \<lparr>w_db = empty_db\<lparr>receive_intents := [moved_tag]\<rparr>, w_faults = [], w_clock = int, w_ticks = 0,
      w_ids = (\<lambda>n. ''id-'' @ dec_digits n), w_next_id = 0, w_lower = id, w_uuid = (\<lambda>_. True),
      w_storage = empty_storage, w_io = []\<rparr>"

definition moved_batch :: prepared_batch where
  "moved_batch = \<lparr>pb_ID = ''b1'', pb_Transitions =
     [\<lparr>pt_Tag = ''v1.0.0'', pt_RefName = ''refs/tags/v1.0.0'', pt_ExpectedOldObjectID = replicate 40 CHR ''a'',
       pt_ProposedNewObjectID = replicate 40 CHR ''b''\<rparr>]\<rparr>"

definition moved_ref :: observed_ref where
  "moved_ref = \<lparr>or_RefName = ''refs/tags/v1.0.0'', or_ObjectID = replicate 40 CHR ''b'', or_Exists = True\<rparr>"

lemma moving_loaded: "loadPrepared ''b1'' moving = (Inr moved_batch, moving)"
  by (simp add: loadPrepared_def moving_def moved_tag_def moved_batch_def empty_db_def bindE_def query_def statement_def return_def)

theorem classifications_agree_witness:
  "ClassifyReceiveResolution moved_batch [moved_ref] =
     \<lparr>res_Disposition = Some ReceiveCompleted, res_Observed = [moved_ref]\<rparr> \<and>
   recovery_classify (batch_intents (w_db moving) ''b1'') [moved_ref] = ReceiveCompleted"
proof -
  have "classifyResolution moved_batch [moved_ref] = ReceiveCompleted" by code_simp
  moreover have "\<forall>i \<in> set (receive_intents (w_db moving)). objects_named i"
    by (simp add: moving_def moved_tag_def objects_named_def)
  ultimately show ?thesis using classifications_agree [OF moving_loaded, of "[moved_ref]"] by simp
qed

text \<open>C33. A ref is the ref of a canonical tag exactly when it is \<open>refs/tags/\<close> followed by a string
  of the pattern; such a name is always a ref a push may change, and the tag is not empty.\<close>

theorem canonical_tags_are_refs:
  "(CanonicalTagFromRef r = Some t \<longleftrightarrow> r = ''refs/tags/'' @ t \<and> regex_lang canonicalTagPattern t) \<and>
   (regex_lang canonicalTagPattern t \<longrightarrow> validReceiveRefName (''refs/tags/'' @ t) \<and> t \<noteq> [])"
proof (intro conjI impI)
  show "CanonicalTagFromRef r = Some t \<longleftrightarrow> r = ''refs/tags/'' @ t \<and> regex_lang canonicalTagPattern t"
    by (auto simp: CanonicalTagFromRef_def Let_def strings_TrimPrefix_def prefix_def MatchString_iff split: if_splits)
  assume "regex_lang canonicalTagPattern t"
  then have "MatchString canonicalTagPattern t" by (simp add: MatchString_iff)
  then show "validReceiveRefName (''refs/tags/'' @ t)" "t \<noteq> []"
    using canonical_ref_valid canonicalTagPattern_starts by blast+
qed

theorem canonical_tags_are_refs_witness:
  "validReceiveRefName ''refs/tags/v1.2.3-rc.1'' \<and> CanonicalTagFromRef ''refs/tags/v1.2.3-rc.1'' = Some ''v1.2.3-rc.1''"
proof -
  have "regex_lang canonicalTagPattern ''v1.2.3-rc.1''" unfolding MatchString_iff [symmetric] by code_simp
  with canonical_tags_are_refs [of "''refs/tags/v1.2.3-rc.1''" "''v1.2.3-rc.1''"] show ?thesis by simp
qed

end
