(* ===== verification/KeyedLocks.thy ===== *)
theory KeyedLocks imports Prelude begin

text \<open>
  The locks that serialize the operations on one Plugin inside the process: \<open>keyedLocks\<close> of
  \<open>mod/backend/domain/plugin/service.go\<close> and \<open>effectKeyedLocks\<close> of \<open>effect_lock.go\<close>. A map guarded by
  its own mutex holds one counted entry per key in use; a goroutine registers with the entry, waits
  for the entry's mutex (a semaphore channel with one token in the second variant, where the waiting
  may also be cancelled), and deregisters when it releases it; the last one removes the entry.

  The model is a transition system over the goroutines' positions in the code. Between two
  positions lies at most one access to shared memory or to a mutex.
\<close>

section \<open>State\<close>

datatype lock_pc =
    Outside
  | Entering string
  | InMap string
  | Registered string nat
  | Waiting string nat
  | Holding string nat
  | Leaving string nat
  | InMapAgain string nat
  | Deregistered string nat

text \<open>An entry: who holds its mutex (or its token), and how many goroutines use it.\<close>

record keyed_lock =
  kl_holder :: "nat option"
  kl_refs :: int

text \<open>The map with its mutex, the entries by address, and the position of every goroutine.\<close>

record keyed_locks =
  kls_mu :: "nat option"
  kls_locks :: "string \<rightharpoonup> nat"
  kls_heap :: "nat \<Rightarrow> keyed_lock"
  kls_next :: nat
  kls_pc :: "nat \<Rightarrow> lock_pc"

definition newKeyedLocks :: keyed_locks where
  "newKeyedLocks =
     \<lparr>kls_mu = None, kls_locks = Map.empty, kls_heap = (\<lambda>_. \<lparr>kl_holder = None, kl_refs = 0\<rparr>), kls_next = 0,
      kls_pc = (\<lambda>_. Outside)\<rparr>"

section \<open>Steps of a goroutine\<close>

definition goto :: "nat \<Rightarrow> lock_pc \<Rightarrow> keyed_locks \<Rightarrow> keyed_locks" where
  "goto t p s = s\<lparr>kls_pc := (kls_pc s)(t := p)\<rparr>"

definition update_entry :: "nat \<Rightarrow> (keyed_lock \<Rightarrow> keyed_lock) \<Rightarrow> keyed_locks \<Rightarrow> keyed_locks" where
  "update_entry e f s = s\<lparr>kls_heap := (kls_heap s)(e := f (kls_heap s e))\<rparr>"

definition add_ref :: "int \<Rightarrow> keyed_lock \<Rightarrow> keyed_lock" where
  "add_ref n l = l\<lparr>kl_refs := kl_refs l + n\<rparr>"

text \<open>Look the entry up, or make a new one, and count the goroutine in.\<close>

definition register :: "nat \<Rightarrow> string \<Rightarrow> keyed_locks \<Rightarrow> keyed_locks" where
  "register t k s =
     (case kls_locks s k of
        Some e \<Rightarrow> goto t (Registered k e) (update_entry e (add_ref 1) s)
      | None \<Rightarrow>
          (let e = kls_next s in
           goto t (Registered k e)
             (s\<lparr>kls_heap := (kls_heap s)(e := \<lparr>kl_holder = None, kl_refs = 1\<rparr>),
                kls_locks := (kls_locks s)(k \<mapsto> e), kls_next := Suc e\<rparr>)))"

definition releaseReference :: "nat \<Rightarrow> string \<Rightarrow> nat \<Rightarrow> keyed_locks \<Rightarrow> keyed_locks" where
  "releaseReference t k e s =
     (let s1 = goto t (Deregistered k e) (update_entry e (add_ref (- 1)) s) in
      if kl_refs (kls_heap s1 e) = 0 then s1\<lparr>kls_locks := (kls_locks s1)(k := None)\<rparr> else s1)"

text \<open>The next step of goroutine \<open>t\<close>; \<open>None\<close> when it is blocked or outside.\<close>

definition advance :: "nat \<Rightarrow> keyed_locks \<Rightarrow> keyed_locks option" where
  "advance t s =
     (case kls_pc s t of
        Outside \<Rightarrow> None
      | Entering k \<Rightarrow> if kls_mu s = None then Some (goto t (InMap k) (s\<lparr>kls_mu := Some t\<rparr>)) else None
      | InMap k \<Rightarrow> Some (register t k s)
      | Registered k e \<Rightarrow> Some (goto t (Waiting k e) (s\<lparr>kls_mu := None\<rparr>))
      | Waiting k e \<Rightarrow>
          if kl_holder (kls_heap s e) = None
          then Some (goto t (Holding k e) (update_entry e (\<lambda>l. l\<lparr>kl_holder := Some t\<rparr>) s)) else None
      | Holding k e \<Rightarrow> Some (goto t (Leaving k e) (update_entry e (\<lambda>l. l\<lparr>kl_holder := None\<rparr>) s))
      | Leaving k e \<Rightarrow> if kls_mu s = None then Some (goto t (InMapAgain k e) (s\<lparr>kls_mu := Some t\<rparr>)) else None
      | InMapAgain k e \<Rightarrow> Some (releaseReference t k e s)
      | Deregistered k e \<Rightarrow> Some (goto t Outside (s\<lparr>kls_mu := None\<rparr>)))"

text \<open>Any goroutine may take its step; one that is outside may ask for any key.\<close>

inductive lock_step :: "keyed_locks \<Rightarrow> keyed_locks \<Rightarrow> bool" where
  call: "kls_pc s t = Outside \<Longrightarrow> lock_step s (goto t (Entering k) s)"
| run: "advance t s = Some s' \<Longrightarrow> lock_step s s'"

text \<open>With a context, the wait may end without the token.\<close>

inductive effect_lock_step :: "keyed_locks \<Rightarrow> keyed_locks \<Rightarrow> bool" where
  plain: "lock_step s s' \<Longrightarrow> effect_lock_step s s'"
| cancel: "kls_pc s t = Waiting k e \<Longrightarrow> effect_lock_step s (goto t (Leaving k e) s)"

section \<open>Invariant\<close>

text \<open>The entry a goroutine is counted in.\<close>

fun counted :: "lock_pc \<Rightarrow> (string \<times> nat) option" where
  "counted (Registered k e) = Some (k, e)"
| "counted (Waiting k e) = Some (k, e)"
| "counted (Holding k e) = Some (k, e)"
| "counted (Leaving k e) = Some (k, e)"
| "counted (InMapAgain k e) = Some (k, e)"
| "counted _ = None"

fun owns_map :: "lock_pc \<Rightarrow> bool" where
  "owns_map (InMap k) = True"
| "owns_map (Registered k e) = True"
| "owns_map (InMapAgain k e) = True"
| "owns_map (Deregistered k e) = True"
| "owns_map _ = False"

definition users_of :: "keyed_locks \<Rightarrow> string \<Rightarrow> nat \<Rightarrow> nat set" where
  "users_of s k e = {t. counted (kls_pc s t) = Some (k, e)}"

definition holds :: "keyed_locks \<Rightarrow> nat \<Rightarrow> nat \<Rightarrow> bool" where
  "holds s t e \<longleftrightarrow> (\<exists>k. kls_pc s t = Holding k e)"

definition locks_ok :: "keyed_locks \<Rightarrow> bool" where
  "locks_ok s \<longleftrightarrow>
     (\<forall>t. owns_map (kls_pc s t) \<longleftrightarrow> kls_mu s = Some t) \<and>
     (\<forall>t k e. counted (kls_pc s t) = Some (k, e) \<longrightarrow> kls_locks s k = Some e) \<and>
     (\<forall>k e. kls_locks s k = Some e \<longrightarrow> e < kls_next s \<and> finite (users_of s k e) \<and> users_of s k e \<noteq> {} \<and>
        kl_refs (kls_heap s e) = int (card (users_of s k e))) \<and>
     (\<forall>k k' e. kls_locks s k = Some e \<and> kls_locks s k' = Some e \<longrightarrow> k = k') \<and>
     (\<forall>k e. kls_locks s k = Some e \<longrightarrow> (\<forall>t. kl_holder (kls_heap s e) = Some t \<longleftrightarrow> holds s t e))"

lemma locks_okD:
  assumes "locks_ok s"
  shows "owns_map (kls_pc s t) \<longleftrightarrow> kls_mu s = Some t"
    and "counted (kls_pc s t) = Some (k, e) \<Longrightarrow> kls_locks s k = Some e"
    and "kls_locks s k = Some e \<Longrightarrow> e < kls_next s \<and> finite (users_of s k e) \<and> users_of s k e \<noteq> {} \<and>
           kl_refs (kls_heap s e) = int (card (users_of s k e))"
    and "kls_locks s k = Some e \<Longrightarrow> kls_locks s k' = Some e \<Longrightarrow> k = k'"
    and "kls_locks s k = Some e \<Longrightarrow> kl_holder (kls_heap s e) = Some t \<longleftrightarrow> holds s t e"
  using assms unfolding locks_ok_def by blast+

lemma pc_goto [simp]: "kls_pc (goto t p s) = (kls_pc s)(t := p)"
  by (simp add: goto_def)

lemma goto_other [simp]:
  "kls_mu (goto t p s) = kls_mu s" "kls_locks (goto t p s) = kls_locks s" "kls_heap (goto t p s) = kls_heap s"
  "kls_next (goto t p s) = kls_next s"
  by (simp_all add: goto_def)

lemma update_entry_simps [simp]:
  "kls_pc (update_entry e f s) = kls_pc s" "kls_mu (update_entry e f s) = kls_mu s"
  "kls_locks (update_entry e f s) = kls_locks s" "kls_next (update_entry e f s) = kls_next s"
  "kls_heap (update_entry e f s) = (kls_heap s)(e := f (kls_heap s e))"
  by (simp_all add: update_entry_def)

text \<open>A step that neither registers nor deregisters.\<close>

lemma locks_ok_move:
  assumes ok: "locks_ok s" and pc: "kls_pc s' = (kls_pc s)(t := p)" "counted p = counted (kls_pc s t)"
    and same: "kls_locks s' = kls_locks s" "kls_next s' = kls_next s" "\<And>e. kl_refs (kls_heap s' e) = kl_refs (kls_heap s e)"
    and mu: "\<And>u. owns_map (kls_pc s' u) \<longleftrightarrow> kls_mu s' = Some u"
    and holder: "\<And>k e u. kls_locks s k = Some e \<Longrightarrow> kl_holder (kls_heap s' e) = Some u \<longleftrightarrow> holds s' u e"
  shows "locks_ok s'"
proof -
  have counted: "counted (kls_pc s' u) = counted (kls_pc s u)" for u using pc by simp
  then have "users_of s' = users_of s" by (intro ext) (simp add: users_of_def)
  with ok counted same mu holder show ?thesis unfolding locks_ok_def by simp
qed

lemma holds_goto: "holds (goto t p s) u e \<longleftrightarrow> (if u = t then \<exists>k. p = Holding k e else holds s u e)"
  by (simp add: holds_def)

lemma holds_other [simp]: "holds (update_entry e' f s) u e = holds s u e" "holds (s\<lparr>kls_mu := m\<rparr>) u e = holds s u e"
  "holds (s\<lparr>kls_heap := h, kls_locks := l, kls_next := n\<rparr>) u e = holds s u e" "holds (s\<lparr>kls_locks := l\<rparr>) u e = holds s u e"
  by (simp_all add: holds_def)

lemma locks_ok_call: "locks_ok s \<Longrightarrow> kls_pc s t = Outside \<Longrightarrow> locks_ok (goto t (Entering k) s)"
  by (rule locks_ok_move [where s = s and t = t]) (use locks_okD(1) [of s t] in \<open>auto simp: holds_goto holds_def locks_okD\<close>)

lemma locks_ok_cancel: "locks_ok s \<Longrightarrow> kls_pc s t = Waiting k e \<Longrightarrow> locks_ok (goto t (Leaving k e) s)"
  by (rule locks_ok_move [where s = s and t = t]) (auto simp: holds_goto holds_def locks_okD dest: locks_okD(1) [of _ t])

lemma locks_ok_enter: "locks_ok s \<Longrightarrow> kls_pc s t = Entering k \<Longrightarrow> kls_mu s = None \<Longrightarrow>
    locks_ok (goto t (InMap k) (s\<lparr>kls_mu := Some t\<rparr>))"
  by (rule locks_ok_move [where s = s and t = t]) (auto simp: holds_goto holds_def locks_okD)

lemma locks_ok_wait: "locks_ok s \<Longrightarrow> kls_pc s t = Registered k e \<Longrightarrow>
    locks_ok (goto t (Waiting k e) (s\<lparr>kls_mu := None\<rparr>))"
  by (rule locks_ok_move [where s = s and t = t]) (use locks_okD(1) [of s t] in \<open>auto simp: holds_goto holds_def locks_okD\<close>)

lemma locks_ok_leave: "locks_ok s \<Longrightarrow> kls_pc s t = Leaving k e \<Longrightarrow> kls_mu s = None \<Longrightarrow>
    locks_ok (goto t (InMapAgain k e) (s\<lparr>kls_mu := Some t\<rparr>))"
  by (rule locks_ok_move [where s = s and t = t]) (auto simp: holds_goto holds_def locks_okD)

lemma locks_ok_done: "locks_ok s \<Longrightarrow> kls_pc s t = Deregistered k e \<Longrightarrow>
    locks_ok (goto t Outside (s\<lparr>kls_mu := None\<rparr>))"
  by (rule locks_ok_move [where s = s and t = t]) (use locks_okD(1) [of s t] in \<open>auto simp: holds_goto holds_def locks_okD\<close>)

lemma locks_ok_acquire:
  assumes ok: "locks_ok s" and pc: "kls_pc s t = Waiting k e" and free: "kl_holder (kls_heap s e) = None"
  shows "locks_ok (goto t (Holding k e) (update_entry e (\<lambda>l. l\<lparr>kl_holder := Some t\<rparr>) s))"
proof (rule locks_ok_move [where s = s and t = t and p = "Holding k e", OF ok])
  have e: "kls_locks s k = Some e" using locks_okD(2) [OF ok, of t k e] pc by simp
  have none: "\<not> holds s u e" for u using locks_okD(5) [OF ok e] free by simp
  show "kl_holder (kls_heap (goto t (Holding k e) (update_entry e (\<lambda>l. l\<lparr>kl_holder := Some t\<rparr>) s)) e') = Some u \<longleftrightarrow>
      holds (goto t (Holding k e) (update_entry e (\<lambda>l. l\<lparr>kl_holder := Some t\<rparr>) s)) u e'"
    if "kls_locks s k' = Some e'" for k' e' u
    using locks_okD(5) [OF ok that, of u] none pc by (auto simp: holds_goto holds_def)
qed (use pc locks_okD(1) [OF ok, of t] locks_okD(1) [OF ok] in simp_all)

lemma locks_ok_release:
  assumes ok: "locks_ok s" and pc: "kls_pc s t = Holding k e"
  shows "locks_ok (goto t (Leaving k e) (update_entry e (\<lambda>l. l\<lparr>kl_holder := None\<rparr>) s))"
proof (rule locks_ok_move [where s = s and t = t and p = "Leaving k e", OF ok])
  have e: "kls_locks s k = Some e" using locks_okD(2) [OF ok, of t k e] pc by simp
  have "kl_holder (kls_heap s e) = Some t" using locks_okD(5) [OF ok e] pc by (auto simp: holds_def)
  then have only: "holds s u e \<longleftrightarrow> u = t" for u using locks_okD(5) [OF ok e, of u] by auto
  show "kl_holder (kls_heap (goto t (Leaving k e) (update_entry e (\<lambda>l. l\<lparr>kl_holder := None\<rparr>) s)) e') = Some u \<longleftrightarrow>
      holds (goto t (Leaving k e) (update_entry e (\<lambda>l. l\<lparr>kl_holder := None\<rparr>) s)) u e'"
    if "kls_locks s k' = Some e'" for k' e' u
    using locks_okD(5) [OF ok that, of u] only [of u] pc by (auto simp: holds_goto holds_def)
qed (use pc locks_okD(1) [OF ok, of t] locks_okD(1) [OF ok] in simp_all)

text \<open>Registration and deregistration change the users of one entry.\<close>

lemma users_of_goto:
  "users_of (goto t p s) k e =
     (if counted p = Some (k, e) then insert t (users_of s k e) else users_of s k e - {t})"
  by (auto simp: users_of_def)

lemma users_of_other [simp]:
  "users_of (update_entry e' f s) k e = users_of s k e" "users_of (s\<lparr>kls_locks := l\<rparr>) k e = users_of s k e"
  "users_of (s\<lparr>kls_heap := h, kls_locks := l, kls_next := n\<rparr>) k e = users_of s k e"
  by (simp_all add: users_of_def)

lemma locks_ok_register:
  assumes ok: "locks_ok s" and pc: "kls_pc s t = InMap k"
  shows "locks_ok (register t k s)"
proof (cases "kls_locks s k")
  case (Some e)
  note D = locks_okD [OF ok]
  have notin: "t \<notin> users_of s k' e'" for k' e' using pc by (simp add: users_of_def)
  show ?thesis
    unfolding locks_ok_def register_def Some option.case
  proof (intro conjI allI impI; (elim conjE)?)
    fix k' e' assume e': "kls_locks (goto t (Registered k e) (update_entry e (add_ref 1) s)) k' = Some e'"
    let ?s = "goto t (Registered k e) (update_entry e (add_ref 1) s)"
    show "e' < kls_next ?s" "finite (users_of ?s k' e')" "users_of ?s k' e' \<noteq> {}"
      using D(3) [of k' e'] e' notin [of k' e'] by (auto simp: users_of_goto)
    show "kl_refs (kls_heap ?s e') = int (card (users_of ?s k' e'))"
    proof (cases "e' = e")
      case True
      then have "k' = k" using D(4) [of k' e k] e' Some by simp
      with True D(3) [OF Some] notin [of k e] show ?thesis by (simp add: users_of_goto add_ref_def)
    next
      case False
      with D(3) [of k' e'] e' notin [of k' e'] show ?thesis by (simp add: users_of_goto)
    qed
    fix u show "kl_holder (kls_heap ?s e') = Some u \<longleftrightarrow> holds ?s u e'"
      using D(5) [of k' e' u] e' pc by (auto simp: holds_goto holds_def add_ref_def)
  next
    fix u show "owns_map (kls_pc (goto t (Registered k e) (update_entry e (add_ref 1) s)) u) \<longleftrightarrow>
        kls_mu (goto t (Registered k e) (update_entry e (add_ref 1) s)) = Some u"
      using D(1) [of u] D(1) [of t] pc by simp
  next
    fix u k' e' assume "counted (kls_pc (goto t (Registered k e) (update_entry e (add_ref 1) s)) u) = Some (k', e')"
    then show "kls_locks (goto t (Registered k e) (update_entry e (add_ref 1) s)) k' = Some e'"
      using D(2) [of u k' e'] Some by (auto split: if_splits)
  next
    fix k' k'' e' assume "kls_locks (goto t (Registered k e) (update_entry e (add_ref 1) s)) k' = Some e'"
      "kls_locks (goto t (Registered k e) (update_entry e (add_ref 1) s)) k'' = Some e'"
    then show "k' = k''" using D(4) [of k' e' k''] by simp
  qed
next
  case None
  note D = locks_okD [OF ok]
  let ?e = "kls_next s"
  let ?s = "goto t (Registered k ?e) (s\<lparr>kls_heap := (kls_heap s)(?e := \<lparr>kl_holder = None, kl_refs = 1\<rparr>),
              kls_locks := (kls_locks s)(k \<mapsto> ?e), kls_next := Suc ?e\<rparr>)"
  have fresh: "kls_locks s k' \<noteq> Some ?e" for k' using D(3) [of k' ?e] by auto
  have nobody: "counted (kls_pc s u) \<noteq> Some (k', ?e)" "counted (kls_pc s u) \<noteq> Some (k, e')" for u k' e'
    using D(2) [of u] fresh None by auto
  then have unused: "users_of s k ?e = {}" by (simp add: users_of_def)
  have notin: "t \<notin> users_of s k' e'" for k' e' using pc by (simp add: users_of_def)
  have not_holding: "\<not> holds s u ?e" for u
    using nobody(1) [of u] by (auto simp: holds_def) (metis counted.simps(3))
  have "locks_ok ?s"
    unfolding locks_ok_def
  proof (intro conjI allI impI; (elim conjE)?)
    fix k' e' assume e': "kls_locks ?s k' = Some e'"
    show "e' < kls_next ?s" using e' D(3) [of k' e'] by (auto split: if_splits)
    show "finite (users_of ?s k' e')" "users_of ?s k' e' \<noteq> {}" "kl_refs (kls_heap ?s e') = int (card (users_of ?s k' e'))"
      using e' D(3) [of k' e'] notin [of k' e'] unused fresh [of k'] by (auto simp: users_of_goto split: if_splits)
    fix u show "kl_holder (kls_heap ?s e') = Some u \<longleftrightarrow> holds ?s u e'"
      using e' D(5) [of k' e' u] not_holding [of u] fresh [of k'] pc by (auto simp: holds_goto holds_def split: if_splits)
  next
    fix u show "owns_map (kls_pc ?s u) \<longleftrightarrow> kls_mu ?s = Some u" using D(1) [of u] D(1) [of t] pc by simp
  next
    fix u k' e' assume "counted (kls_pc ?s u) = Some (k', e')"
    then show "kls_locks ?s k' = Some e'" using D(2) [of u k' e'] nobody(2) [of u e'] by (auto split: if_splits)
  next
    fix k' k'' e' assume "kls_locks ?s k' = Some e'" "kls_locks ?s k'' = Some e'"
    then show "k' = k''" using D(4) [of k' e' k''] fresh by (auto split: if_splits)
  qed
  then show ?thesis by (simp add: register_def None Let_def)
qed

lemma locks_ok_deregister:
  assumes ok: "locks_ok s" and pc: "kls_pc s t = InMapAgain k e"
  shows "locks_ok (releaseReference t k e s)"
proof -
  note D = locks_okD [OF ok]
  let ?s = "goto t (Deregistered k e) (update_entry e (add_ref (- 1)) s)"
  have e: "kls_locks s k = Some e" using D(2) [of t k e] pc by simp
  have mine: "t \<in> users_of s k e" using pc by (simp add: users_of_def)
  have only: "k' = k" if "kls_locks s k' = Some e" for k' using D(4) [OF that e] .
  have other: "t \<notin> users_of s k' e'" if "(k', e') \<noteq> (k, e)" for k' e' using pc that by (auto simp: users_of_def)
  have refs: "kl_refs (kls_heap ?s e) = int (card (users_of ?s k e))" "finite (users_of ?s k e)"
    using D(3) [OF e] mine by (simp_all add: add_ref_def users_of_goto card_Diff_singleton_if card_gt_0_iff Suc_leI of_nat_diff)
  then have empty: "kl_refs (kls_heap ?s e) = 0 \<longleftrightarrow> users_of ?s k e = {}" by simp
  have s': "kls_locks (releaseReference t k e s) = (if users_of ?s k e = {} then (kls_locks s)(k := None) else kls_locks s)"
    "kls_pc (releaseReference t k e s) = kls_pc ?s" "kls_mu (releaseReference t k e s) = kls_mu s"
    "kls_heap (releaseReference t k e s) = kls_heap ?s" "kls_next (releaseReference t k e s) = kls_next s"
    "users_of (releaseReference t k e s) = users_of ?s" "holds (releaseReference t k e s) = holds ?s"
    using empty by (auto simp: releaseReference_def Let_def users_of_def holds_def intro!: ext)
  have keeps: "kls_locks s k' = Some e'" if "kls_locks (releaseReference t k e s) k' = Some e'" for k' e'
    using that by (auto simp: s' split: if_splits)
  have still: "users_of ?s k' e' \<noteq> {}" if "kls_locks (releaseReference t k e s) k' = Some e'" for k' e'
  proof (cases "k' = k")
    case True
    with that keeps [OF that] e have "e' = e" by simp
    with that True show ?thesis by (auto simp: s' split: if_splits)
  next
    case False
    then show ?thesis using D(3) [OF keeps [OF that]] other [of k' e'] by (auto simp: users_of_goto)
  qed
  show ?thesis
    unfolding locks_ok_def
  proof (intro conjI allI impI; (elim conjE)?)
    fix u show "owns_map (kls_pc (releaseReference t k e s) u) \<longleftrightarrow> kls_mu (releaseReference t k e s) = Some u"
      using D(1) [of u] D(1) [of t] pc by (simp add: s')
  next
    fix u k' e' assume u: "counted (kls_pc (releaseReference t k e s) u) = Some (k', e')"
    then have "u \<noteq> t" "kls_locks s k' = Some e'" using D(2) [of u k' e'] by (auto simp: s' split: if_splits)
    have user: "u \<in> users_of ?s k' e'" using u by (simp add: users_of_def s')
    show "kls_locks (releaseReference t k e s) k' = Some e'"
    proof (cases "k' = k")
      case True
      with e \<open>kls_locks s k' = Some e'\<close> have "e' = e" by simp
      with True user have "users_of ?s k e \<noteq> {}" by blast
      with True \<open>e' = e\<close> e show ?thesis by (simp add: s'(1))
    next
      case False
      with \<open>kls_locks s k' = Some e'\<close> show ?thesis by (simp add: s'(1))
    qed
  next
    fix k' e' assume l: "kls_locks (releaseReference t k e s) k' = Some e'"
    note l' = keeps [OF l]
    show "e' < kls_next (releaseReference t k e s)" using D(3) [OF l'] by (simp add: s')
    show "users_of (releaseReference t k e s) k' e' \<noteq> {}" using still [OF l] by (simp add: s')
    show "finite (users_of (releaseReference t k e s) k' e')" using D(3) [OF l'] by (simp add: s' users_of_goto)
    show "kl_refs (kls_heap (releaseReference t k e s) e') = int (card (users_of (releaseReference t k e s) k' e'))"
    proof (cases "e' = e")
      case True
      with only l' have "k' = k" by blast
      with True refs show ?thesis by (simp add: s')
    next
      case False
      then show ?thesis using D(3) [OF l'] other [of k' e'] by (simp add: s' users_of_goto)
    qed
    fix u show "kl_holder (kls_heap (releaseReference t k e s) e') = Some u \<longleftrightarrow> holds (releaseReference t k e s) u e'"
      using D(5) [OF l', of u] pc by (auto simp: s' holds_goto holds_def add_ref_def)
  next
    fix k' k'' e' assume "kls_locks (releaseReference t k e s) k' = Some e'" "kls_locks (releaseReference t k e s) k'' = Some e'"
    then show "k' = k''" using D(4) keeps by blast
  qed
qed

text \<open>The invariant holds in every reachable state.\<close>

lemma locks_ok_advance: "locks_ok s \<Longrightarrow> advance t s = Some s' \<Longrightarrow> locks_ok s'"
  by (auto simp: advance_def locks_ok_enter locks_ok_register locks_ok_wait locks_ok_acquire locks_ok_release
        locks_ok_leave locks_ok_deregister locks_ok_done split: lock_pc.splits if_splits)

lemma locks_ok_step: "effect_lock_step s s' \<Longrightarrow> locks_ok s \<Longrightarrow> locks_ok s'"
  by (auto elim!: effect_lock_step.cases lock_step.cases intro: locks_ok_call locks_ok_cancel locks_ok_advance)

lemma locks_ok_init: "locks_ok newKeyedLocks"
  by (simp add: locks_ok_def newKeyedLocks_def)

lemma locks_ok_reachable: "effect_lock_step\<^sup>*\<^sup>* newKeyedLocks s \<Longrightarrow> locks_ok s"
  by (induction rule: rtranclp_induct) (auto intro: locks_ok_init locks_ok_step)

end
