(* ===== verification/LockProps.thy ===== *)
theory LockProps imports KeyedLocks begin

text \<open>
  What the locks of a Plugin guarantee, in every state the goroutines can reach by interleaving
  their steps: mutual exclusion, an exact map of the keys in use, and that nobody waits for ever.
\<close>

section \<open>Progress\<close>

text \<open>The steps a goroutine still has to take.\<close>

fun remaining :: "lock_pc \<Rightarrow> nat" where
  "remaining Outside = 0"
| "remaining (Deregistered k e) = 1"
| "remaining (InMapAgain k e) = 2"
| "remaining (Leaving k e) = 3"
| "remaining (Holding k e) = 4"
| "remaining (Waiting k e) = 5"
| "remaining (Registered k e) = 6"
| "remaining (InMap k) = 7"
| "remaining (Entering k) = 8"

definition active :: "keyed_locks \<Rightarrow> nat set" where
  "active s = {t. kls_pc s t \<noteq> Outside}"

definition work :: "keyed_locks \<Rightarrow> nat" where
  "work s = (\<Sum>t \<in> active s. remaining (kls_pc s t))"

lemma advance_pc:
  "advance t s = Some s' \<Longrightarrow>
     \<exists>p. kls_pc s' = (kls_pc s)(t := p) \<and> Suc (remaining p) = remaining (kls_pc s t)"
  by (auto simp: advance_def register_def releaseReference_def Let_def
        split: lock_pc.splits if_splits option.splits)

lemma finite_active_step: "effect_lock_step s s' \<Longrightarrow> finite (active s) \<Longrightarrow> finite (active s')"
proof -
  have "finite (active s')" if "kls_pc s' = (kls_pc s)(t := p)" "finite (active s)" for t p
    using that by (intro finite_subset [of "active s'" "insert t (active s)"]) (auto simp: active_def)
  then show "effect_lock_step s s' \<Longrightarrow> finite (active s) \<Longrightarrow> finite (active s')"
    by (elim effect_lock_step.cases lock_step.cases) (force dest: advance_pc)+
qed

lemma finite_active: "effect_lock_step\<^sup>*\<^sup>* newKeyedLocks s \<Longrightarrow> finite (active s)"
proof (induction rule: rtranclp_induct)
  case base
  show ?case by (simp add: active_def newKeyedLocks_def)
qed (rule finite_active_step)

lemma work_decreases:
  assumes "finite (active s)" "advance t s = Some s'"
  shows "work s' < work s"
proof -
  obtain p where p: "kls_pc s' = (kls_pc s)(t := p)" "Suc (remaining p) = remaining (kls_pc s t)"
    using advance_pc [OF assms(2)] by blast
  then have t: "t \<in> active s" by (auto simp: active_def)
  have sum: "(\<Sum>u \<in> active s. remaining (kls_pc s' u)) = work s'"
    unfolding work_def using assms(1) p by (intro sum.mono_neutral_right) (auto simp: active_def)
  have "(\<Sum>u \<in> active s. remaining (kls_pc s' u)) < work s"
    unfolding work_def using assms(1) t p by (intro sum_strict_mono_ex1) (auto intro!: bexI [of _ t])
  with sum show ?thesis by simp
qed

text \<open>When nobody can take a step, everybody is outside.\<close>

lemma someone_advances:
  assumes ok: "locks_ok s" and stuck: "\<And>t. advance t s = None"
  shows "kls_pc s t = Outside"
proof -
  have no_map: "\<not> owns_map (kls_pc s u)" for u
    using stuck [of u] by (auto simp: advance_def split: lock_pc.splits)
  have free: "kls_mu s = None" using no_map locks_okD(1) [OF ok] by (cases "kls_mu s") auto
  have no_holder: "\<not> holds s u e" for u e
    using stuck [of u] by (auto simp: advance_def holds_def split: lock_pc.splits)
  show ?thesis
  proof (cases "kls_pc s t")
    case (Waiting k e)
    then have e: "kls_locks s k = Some e" using locks_okD(2) [OF ok, of t k e] by simp
    have "kl_holder (kls_heap s e) = None"
      using locks_okD(5) [OF ok e] no_holder by (cases "kl_holder (kls_heap s e)") auto
    with Waiting stuck [of t] show ?thesis by (simp add: advance_def)
  qed (use stuck [of t] free in \<open>simp_all add: advance_def\<close>)
qed

definition run_step :: "keyed_locks \<Rightarrow> keyed_locks \<Rightarrow> bool" where
  "run_step s s' \<longleftrightarrow> (\<exists>t. advance t s = Some s')"

lemma run_stepI: "advance t s = Some s' \<Longrightarrow> run_step s s'"
  by (auto simp: run_step_def)

lemma run_steps_reachable:
  "run_step\<^sup>*\<^sup>* s s' \<Longrightarrow> effect_lock_step\<^sup>*\<^sup>* newKeyedLocks s \<Longrightarrow> effect_lock_step\<^sup>*\<^sup>* newKeyedLocks s'"
  by (induction rule: rtranclp_induct)
    (auto simp: run_step_def intro: rtranclp.rtrancl_into_rtrancl effect_lock_step.plain lock_step.run)

lemma no_infinite_run:
  assumes "\<And>i. finite (active (f i))" "\<And>i. run_step (f i) (f (Suc i))"
  shows False
proof -
  have "work (f i) + i \<le> work (f 0)" for i
  proof (induction i)
    case (Suc i)
    have "work (f (Suc i)) < work (f i)"
      using assms(2) [of i] work_decreases [OF assms(1) [of i]] by (auto simp: run_step_def)
    with Suc show ?case by simp
  qed simp
  from this [of "Suc (work (f 0))"] show False by simp
qed

text \<open>Three goroutines and two keys: the first holds a key, the second waits for it.\<close>

definition demo_locks :: keyed_locks where
  "demo_locks =
     \<lparr>kls_mu = None, kls_locks = [''plugin:a'' \<mapsto> 0],
      kls_heap = (\<lambda>_. \<lparr>kl_holder = None, kl_refs = 0\<rparr>)(0 := \<lparr>kl_holder = Some 1, kl_refs = 2\<rparr>), kls_next = 1,
      kls_pc = (\<lambda>_. Outside)(1 := Holding ''plugin:a'' 0, 2 := Waiting ''plugin:a'' 0)\<rparr>"

lemma lock_call_step: "kls_pc s t = Outside \<Longrightarrow> s' = goto t (Entering k) s \<Longrightarrow> effect_lock_step s s'"
  by (auto intro: effect_lock_step.plain lock_step.call)

lemma lock_run_step: "advance t s = Some s' \<Longrightarrow> effect_lock_step s s'"
  by (auto intro: effect_lock_step.plain lock_step.run)

primrec schedule :: "nat list \<Rightarrow> keyed_locks \<Rightarrow> keyed_locks option" where
  "schedule [] s = Some s"
| "schedule (t # ts) s = Option.bind (advance t s) (schedule ts)"

lemma schedule_reachable: "schedule ts s = Some s' \<Longrightarrow> effect_lock_step\<^sup>*\<^sup>* s s'"
  by (induction ts arbitrary: s) (auto split: bind_splits intro: converse_rtranclp_into_rtranclp lock_run_step)

lemma schedule_run: "schedule ts s = Some s' \<Longrightarrow> run_step\<^sup>*\<^sup>* s s'"
proof (induction ts arbitrary: s)
  case (Cons t ts)
  then obtain s1 where "advance t s = Some s1" "schedule ts s1 = Some s'" by (auto split: bind_splits)
  then have "run_step s s1" "run_step\<^sup>*\<^sup>* s1 s'" using Cons.IH by (blast intro: run_stepI)+
  then show ?case by (rule converse_rtranclp_into_rtranclp)
qed simp

lemma demo_locks_reachable: "effect_lock_step\<^sup>*\<^sup>* newKeyedLocks demo_locks"
proof -
  let ?s = "goto 2 (Entering ''plugin:a'') (goto 1 (Entering ''plugin:a'') newKeyedLocks)"
  have "effect_lock_step\<^sup>*\<^sup>* newKeyedLocks ?s"
    by (rule converse_rtranclp_into_rtranclp, rule lock_call_step [where t = 1 and k = "''plugin:a''"])
      (auto simp: newKeyedLocks_def intro!: r_into_rtranclp lock_call_step [where t = 2 and k = "''plugin:a''"])
  moreover have "schedule [1, 1, 1, 1, 2, 2, 2] ?s = Some demo_locks"
    by (simp add: advance_def register_def newKeyedLocks_def goto_def update_entry_def add_ref_def demo_locks_def
          Let_def fun_eq_iff)
  then have "effect_lock_step\<^sup>*\<^sup>* ?s demo_locks" by (rule schedule_reachable)
  ultimately show ?thesis by simp
qed

section \<open>Properties\<close>

text \<open>C19. Two goroutines never hold the lock of one key at the same time, however their steps and
  the cancellations interleave.\<close>

theorem plugin_locks_exclude:
  assumes "effect_lock_step\<^sup>*\<^sup>* newKeyedLocks s" "kls_pc s t = Holding k e" "kls_pc s u = Holding k e'"
  shows "t = u"
proof -
  have ok: "locks_ok s" using assms(1) by (rule locks_ok_reachable)
  have e: "kls_locks s k = Some e" "e' = e"
    using locks_okD(2) [OF ok, of t k e] locks_okD(2) [OF ok, of u k e'] assms(2,3) by simp_all
  have "kl_holder (kls_heap s e) = Some t" "kl_holder (kls_heap s e) = Some u"
    using locks_okD(5) [OF ok e(1)] assms(2,3) e(2) by (auto simp: holds_def)
  then show ?thesis by simp
qed

theorem plugin_locks_exclude_witness:
  "{u. \<exists>e'. kls_pc demo_locks u = Holding ''plugin:a'' e'} = {1}"
proof -
  have held: "kls_pc demo_locks 1 = Holding ''plugin:a'' 0" by (simp add: demo_locks_def)
  then show ?thesis using plugin_locks_exclude [OF demo_locks_reachable held] by blast
qed

text \<open>C34. The map holds exactly the keys in use, each with the number of its users: an entry is there
  as long as a goroutine is registered with it and gone when the last one has deregistered.\<close>

theorem lock_map_is_exact:
  assumes "effect_lock_step\<^sup>*\<^sup>* newKeyedLocks s"
  shows "(kls_locks s k = Some e \<longleftrightarrow> users_of s k e \<noteq> {}) \<and>
         (kls_locks s k = Some e \<longrightarrow> kl_refs (kls_heap s e) = int (card (users_of s k e)) \<and> finite (users_of s k e))"
  using locks_ok_reachable [OF assms] unfolding locks_ok_def by (auto simp: users_of_def)

theorem lock_map_is_exact_witness:
  "kl_refs (kls_heap demo_locks 0) = int (card (users_of demo_locks ''plugin:a'' 0)) \<and> kl_refs (kls_heap demo_locks 0) = 2"
  using lock_map_is_exact [OF demo_locks_reachable, of "''plugin:a''" 0] by (simp add: demo_locks_def)

text \<open>C24. Nobody waits for ever: when no new caller comes, the goroutines run out of steps, and when
  they cannot step any more all of them are outside and no entry is left.\<close>

theorem locks_are_released:
  assumes "effect_lock_step\<^sup>*\<^sup>* newKeyedLocks s"
  shows "(\<nexists>f. f 0 = s \<and> (\<forall>i. run_step (f i) (f (Suc i)))) \<and>
         (\<forall>s'. run_step\<^sup>*\<^sup>* s s' \<longrightarrow> (\<forall>t. advance t s' = None) \<longrightarrow>
            (\<forall>t. kls_pc s' t = Outside) \<and> kls_locks s' = Map.empty)"
proof (intro conjI notI allI impI)
  assume "\<exists>f. f 0 = s \<and> (\<forall>i. run_step (f i) (f (Suc i)))"
  then obtain f where f: "f 0 = s" "\<And>i. run_step (f i) (f (Suc i))" by blast
  have "run_step\<^sup>*\<^sup>* s (f i)" for i
    by (induction i) (use f in \<open>auto intro: rtranclp.rtrancl_into_rtrancl\<close>)
  then have "finite (active (f i))" for i using assms by (blast intro: finite_active run_steps_reachable)
  then show False using f(2) by (rule no_infinite_run)
next
  fix s' assume run: "run_step\<^sup>*\<^sup>* s s'" and stuck: "\<forall>t. advance t s' = None"
  have ok: "locks_ok s'" by (rule locks_ok_reachable [OF run_steps_reachable [OF run assms]])
  show out: "kls_pc s' t = Outside" for t using someone_advances [OF ok] stuck by blast
  show "kls_locks s' = Map.empty"
  proof
    fix k show "kls_locks s' k = None"
      using locks_okD(3) [OF ok, of k] out by (cases "kls_locks s' k") (auto simp: users_of_def)
  qed
qed

theorem locks_are_released_witness:
  "\<exists>s'. run_step\<^sup>*\<^sup>* demo_locks s' \<and> (\<forall>t. kls_pc s' t = Outside) \<and> kls_locks s' = Map.empty"
proof -
  let ?idle = "\<lparr>kls_mu = None, kls_locks = Map.empty, kls_heap = (\<lambda>_. \<lparr>kl_holder = None, kl_refs = 0\<rparr>),
                kls_next = 1, kls_pc = (\<lambda>_. Outside)\<rparr>"
  have "schedule [1, 1, 1, 1, 2, 2, 2, 2, 2] demo_locks = Some ?idle"
    by (simp add: demo_locks_def advance_def releaseReference_def goto_def update_entry_def add_ref_def Let_def fun_eq_iff)
  then have "run_step\<^sup>*\<^sup>* demo_locks ?idle" by (rule schedule_run)
  moreover have "\<forall>t. advance t ?idle = None" by (simp add: advance_def)
  ultimately show ?thesis using locks_are_released [OF demo_locks_reachable] by blast
qed

end
