(* ===== verification/PluginPublish.thy ===== *)
theory PluginPublish imports PluginService begin

text \<open>
  \<open>mod/backend/domain/plugin/service.go\<close>, publication: a version is the content of a canonical
  tag, inspected twice under the effect lock and then stored with its history entry in one
  transaction. Publishing a tag again confirms the stored content or restores a deleted version,
  and never replaces the content of an available one.
\<close>

section \<open>Publication\<close>

definition same_inspection :: "inspection \<Rightarrow> inspection \<Rightarrow> bool" where
  "same_inspection i j \<longleftrightarrow>
     \<not> (ins_RawTagObjectID i \<noteq> ins_RawTagObjectID j \<or> ins_CommitObjectID i \<noteq> ins_CommitObjectID j \<or>
        ins_ManifestDigest i \<noteq> ins_ManifestDigest j \<or> ins_ManifestSnapshot i \<noteq> ins_ManifestSnapshot j)"

definition inspect_twice :: "inspector \<Rightarrow> aggregate \<Rightarrow> string \<Rightarrow> inspection prog" where
  "inspect_twice inspect a tag =
     (let look = map_error (\<lambda>_. ErrConflict)
                   (inspect (repo_ID (agg_Repository a)) tag (plg_Slug (agg_Plugin a))) in
      bindE look (\<lambda>first.
      if \<not> validInspection first then fail ErrUnavailable
      else bindE look (\<lambda>confirmed.
           if \<not> validInspection confirmed then fail ErrUnavailable
           else if \<not> same_inspection first confirmed then fail ErrConflict
           else return confirmed)))"

text \<open>The content columns of an available version.\<close>

definition with_content :: "inspection \<Rightarrow> version_row \<Rightarrow> version_row" where
  "with_content i v =
     v\<lparr>ver_Status := VersionStatusAvailable, ver_RawTagObjectID := Some (ins_RawTagObjectID i),
       ver_CommitSHA := Some (ins_CommitObjectID i), ver_ManifestDigest := Some (ins_ManifestDigest i),
       ver_ManifestSnapshot := Some (ins_ManifestSnapshot i), ver_DeletedAt := None\<rparr>"

definition new_version :: "string \<Rightarrow> string \<Rightarrow> string \<Rightarrow> inspection \<Rightarrow> int \<Rightarrow> version_row" where
  "new_version vid pluginID tag i t =
     \<lparr>ver_ID = vid, ver_PluginID = pluginID, ver_Tag = tag, ver_Status = VersionStatusAvailable,
      ver_RawTagObjectID = Some (ins_RawTagObjectID i), ver_CommitSHA = Some (ins_CommitObjectID i),
      ver_ManifestDigest = Some (ins_ManifestDigest i), ver_ManifestSnapshot = Some (ins_ManifestSnapshot i),
      ver_PublishedAt = t, ver_UpdatedAt = t, ver_DeletedAt = None, ver_CreatedAt = t\<rparr>"

definition same_content :: "version_row \<Rightarrow> inspection \<Rightarrow> bool" where
  "same_content v i \<longleftrightarrow>
     ver_RawTagObjectID v = Some (ins_RawTagObjectID i) \<and> ver_CommitSHA v = Some (ins_CommitObjectID i) \<and>
     ver_ManifestDigest v = Some (ins_ManifestDigest i) \<and>
     (case ver_ManifestSnapshot v of None \<Rightarrow> [] | Some s \<Rightarrow> s) = ins_ManifestSnapshot i"

text \<open>
  The three cases of the stored version: absent, deleted, available. The result is the version as
  it now is and the history operation, if the version changed.
\<close>

definition write_version ::
  "string \<Rightarrow> string \<Rightarrow> inspection \<Rightarrow> int \<Rightarrow> (version_row \<times> history_operation option) prog" where
  "write_version pluginID tag i t =
     attempt (take_row (\<lambda>d. List.find (\<lambda>v. ver_PluginID v = pluginID \<and> ver_Tag v = tag) (versions d))) (\<lambda>res.
     case res of
       Inl e \<Rightarrow>
         if errors_Is e ErrRecordNotFound
         then bindE new_id (\<lambda>vid.
              let v = new_version vid pluginID tag i t in
              bindE (map_error (\<lambda>e. if isUniqueConstraintError e then ErrConflict else e) (create_version v)) (\<lambda>_.
              return (v, Some VersionHistoryOperationPublish)))
         else fail e
     | Inr v \<Rightarrow>
         if ver_Status v = VersionStatusDeleted
         then bindE (update_versions
                       (\<lambda>u. ver_ID u = ver_ID v \<and> ver_PluginID u = pluginID \<and> ver_Tag u = tag \<and>
                            ver_Status u = VersionStatusDeleted)
                       (\<lambda>u. (with_content i u)\<lparr>ver_PublishedAt := t, ver_UpdatedAt := t\<rparr>)) (\<lambda>affected.
              bindE (one_row affected) (\<lambda>_.
              return ((with_content i v)\<lparr>ver_PublishedAt := t, ver_UpdatedAt := t\<rparr>,
                      Some VersionHistoryOperationRestore)))
         else if ver_Status v = VersionStatusAvailable
         then (if same_content v i then return (v, None) else fail ErrConflict)
         else fail ErrConflict)"

definition record_publication :: "string \<Rightarrow> string \<Rightarrow> inspection \<Rightarrow> int \<Rightarrow> history_operation option \<Rightarrow> unit prog" where
  "record_publication pluginID tag i t operation =
     (case operation of None \<Rightarrow> return ()
      | Some op \<Rightarrow>
          bindE new_id (\<lambda>hid.
          bindE new_id (\<lambda>correlation.
          create_history
            \<lparr>hist_ID = hid, hist_PluginID = pluginID, hist_Tag = tag, hist_Operation = op,
             hist_OldCommitSHA = None, hist_NewCommitSHA = Some (ins_CommitObjectID i),
             hist_IntentID = None, hist_CorrelationID = correlation, hist_CreatedAt = t\<rparr>)))"

text \<open>A draft becomes active with its first version; the tag becomes the default when asked for.\<close>

definition activate_plugin :: "string \<Rightarrow> plugin_row \<Rightarrow> string \<Rightarrow> bool \<Rightarrow> int \<Rightarrow> unit prog" where
  "activate_plugin namespaceID current tag makeDefault t =
     (let activates = plg_Status current = PluginStatusDraft;
          defaults = makeDefault \<and> plg_DefaultVersionTag current \<noteq> Some tag
      in if \<not> activates \<and> \<not> defaults then return ()
         else bindE (update_plugins defaults
                  (\<lambda>x. plg_NamespaceID x = namespaceID \<and> plg_ID x = plg_ID current \<and> plg_Status x = plg_Status current)
                  (\<lambda>x. x\<lparr>plg_Status := (if activates then PluginStatusActive else plg_Status x),
                         plg_DefaultVersionTag := (if defaults then Some tag else plg_DefaultVersionTag x),
                         plg_UpdatedAt := t\<rparr>))
                one_row)"

definition publish_transaction ::
  "string \<Rightarrow> aggregate \<Rightarrow> string \<Rightarrow> bool \<Rightarrow> inspection \<Rightarrow> int \<Rightarrow> version_row prog" where
  "publish_transaction namespaceID a tag makeDefault i t =
     (let pluginID = plg_ID (agg_Plugin a) in
      bindE (take_row (\<lambda>d. List.find (\<lambda>p. plg_NamespaceID p = namespaceID \<and> plg_ID p = pluginID) (plugins d))) (\<lambda>current.
      bindE (take_row (\<lambda>d. List.find (\<lambda>r. repo_ID r = repo_ID (agg_Repository a)) (repositories d))) (\<lambda>repository.
      if plg_Status current = PluginStatusArchived \<or> repo_Status repository \<noteq> RepositoryReady then fail ErrConflict
      else bindE (unresolvedReceiveExists pluginID) (\<lambda>unresolved.
        if unresolved then fail ErrConflict
        else bindE (write_version pluginID tag i t) (\<lambda>(v, operation).
             bindE (record_publication pluginID tag i t operation) (\<lambda>_.
             bindE (activate_plugin namespaceID current tag makeDefault t) (\<lambda>_.
             return v)))))))"

definition closed_for_changes :: "aggregate \<Rightarrow> bool" where
  "closed_for_changes a \<longleftrightarrow>
     plg_Status (agg_Plugin a) = PluginStatusArchived \<or> repo_Status (agg_Repository a) \<noteq> RepositoryReady"

definition PluginService_Publish ::
  "inspector option \<Rightarrow> principal \<Rightarrow> string \<Rightarrow> string \<Rightarrow> string \<Rightarrow> bool \<Rightarrow> version_view prog" where
  "PluginService_Publish inspector p namespaceSlug pluginSlug tag makeDefault =
     (if \<not> validCanonicalTag tag then fail ErrInvalidInput
      else case inspector of
        None \<Rightarrow> fail ErrUnavailable
      | Some inspect \<Rightarrow>
          bindE (exactAggregate namespaceSlug pluginSlug) (\<lambda>(n, a).
          bindE (authorizeExactRead p a) (\<lambda>_.
          if closed_for_changes a then fail ErrConflict
          else bindE (plugin_authorize p ActionPluginPublish (pluginResource a)) (\<lambda>_.
            locked (plg_ID (agg_Plugin a))
              (bindE (map_error mapMutationLookup (FindBySlug (ns_ID n) pluginSlug)) (\<lambda>a.
               if closed_for_changes a then fail ErrConflict
               else bindE (inspect_twice inspect a tag) (\<lambda>i.
                    bindE now (\<lambda>t.
                    bindE (map_error (\<lambda>e. if errors_Is e ErrConflict then ErrConflict
                                           else wrapUnavailable ''publish Plugin Version'' e)
                             (transaction (publish_transaction (ns_ID n) a tag makeDefault i t))) (\<lambda>v.
                    return (versionView v))))))))))"

section \<open>The default version\<close>

definition default_error :: "string \<Rightarrow> err \<Rightarrow> err" where
  "default_error msg e =
     (if errors_Is e ErrVersionNotAvailable then ErrConflict
      else if errors_Is e ErrNotFound then ErrNotFound else wrapUnavailable msg e)"

definition PluginService_SetDefaultVersion :: "principal \<Rightarrow> string \<Rightarrow> string \<Rightarrow> string \<Rightarrow> unit prog" where
  "PluginService_SetDefaultVersion p namespaceSlug pluginSlug tag =
     (if \<not> validCanonicalTag tag then fail ErrNotFound
      else
        bindE (exactAggregate namespaceSlug pluginSlug) (\<lambda>(n, a).
        bindE (authorizeMutation p ActionPluginPublish a) (\<lambda>_.
        if closed_for_changes a then fail ErrConflict
        else locked (plg_ID (agg_Plugin a))
          (bindE (unresolvedReceiveExists (plg_ID (agg_Plugin a))) (\<lambda>unresolved.
           if unresolved then fail ErrConflict
           else map_error (default_error ''set default Plugin Version'')
                  (DaoSetDefaultVersion (ns_ID n) (plg_ID (agg_Plugin a)) tag))))))"

definition PluginService_ClearDefaultVersion :: "principal \<Rightarrow> string \<Rightarrow> string \<Rightarrow> unit prog" where
  "PluginService_ClearDefaultVersion p namespaceSlug pluginSlug =
     bindE (exactAggregate namespaceSlug pluginSlug) (\<lambda>(n, a).
     bindE (authorizeMutation p ActionPluginPublish a) (\<lambda>_.
     if closed_for_changes a then fail ErrConflict
     else locked (plg_ID (agg_Plugin a))
       (bindE (unresolvedReceiveExists (plg_ID (agg_Plugin a))) (\<lambda>unresolved.
        if unresolved then fail ErrConflict
        else bindE now (\<lambda>t.
             map_error (default_error ''clear default Plugin Version'')
               (DaoClearDefaultVersion (ns_ID n) (plg_ID (agg_Plugin a)) t))))))"

end
