(* ===== verification/PluginLifecycle.thy ===== *)
theory PluginLifecycle imports PluginModel begin

text \<open>
  The lifecycle a Plugin promises, as an abstract state machine beside the columns of its row: a
  draft becomes active with its first version and never a draft again, and an archived Plugin
  remembers the state it returns to.
\<close>

datatype lifecycle = Drafted | Activated | ArchivedDraft | ArchivedActive

datatype lifecycle_event = Activation | Archival | Restoration

inductive lifecycle_move :: "lifecycle_event \<Rightarrow> lifecycle \<Rightarrow> lifecycle \<Rightarrow> bool" where
  activate: "lifecycle_move Activation Drafted Activated"
| archive_draft: "lifecycle_move Archival Drafted ArchivedDraft"
| archive_active: "lifecycle_move Archival Activated ArchivedActive"
| restore_draft: "lifecycle_move Restoration ArchivedDraft Drafted"
| restore_active: "lifecycle_move Restoration ArchivedActive Activated"

inductive_simps lifecycle_move_simps [simp]: "lifecycle_move e s s'"

definition lifecycle_step :: "lifecycle \<Rightarrow> lifecycle \<Rightarrow> bool" where
  "lifecycle_step s s' \<longleftrightarrow> (\<exists>e. lifecycle_move e s s')"

lemma lifecycle_move_step: "lifecycle_move e \<le> lifecycle_step"
  by (auto simp: lifecycle_step_def)

text \<open>The moves of one event do not follow each other.\<close>

lemma lifecycle_moves_once: "(lifecycle_move e)\<^sup>*\<^sup>* s s' \<Longrightarrow> s' = s \<or> lifecycle_move e s s'"
  by (induction rule: rtranclp_induct) auto

text \<open>The state a row stands for; a row that passes its check constraint has one of the four.\<close>

definition lifecycle_of :: "plugin_row \<Rightarrow> lifecycle" where
  "lifecycle_of p =
     (if plg_Status p = PluginStatusArchived
      then if plg_ArchivedFrom p = Some PluginStatusActive then ArchivedActive else ArchivedDraft
      else if plg_Status p = PluginStatusActive then Activated else Drafted)"

text \<open>A change of a row makes at most one of the steps \<open>E\<close>, if the row passes the check before and after it.\<close>

definition lifecycle_change :: "(lifecycle \<Rightarrow> lifecycle \<Rightarrow> bool) \<Rightarrow> (plugin_row \<Rightarrow> bool) \<Rightarrow> (plugin_row \<Rightarrow> plugin_row) \<Rightarrow> bool" where
  "lifecycle_change E P f \<longleftrightarrow>
     (\<forall>p. P p \<longrightarrow> chk_plugin p \<longrightarrow> chk_plugin (f p) \<longrightarrow>
        lifecycle_of (f p) = lifecycle_of p \<or> E (lifecycle_of p) (lifecycle_of (f p)))"

lemma lifecycle_change_same:
  "(\<And>p. plg_Status (f p) = plg_Status p) \<Longrightarrow> (\<And>p. plg_ArchivedFrom (f p) = plg_ArchivedFrom p) \<Longrightarrow> lifecycle_change E P f"
  by (simp add: lifecycle_change_def lifecycle_of_def)

lemma lifecycle_change_mono: "lifecycle_change E P f \<Longrightarrow> E \<le> E' \<Longrightarrow> lifecycle_change E' P f"
  unfolding lifecycle_change_def by blast

text \<open>Publication is forever: no step leads from a state after it to one before it.\<close>

definition was_published :: "lifecycle \<Rightarrow> bool" where
  "was_published s \<longleftrightarrow> s = Activated \<or> s = ArchivedActive"

lemma was_published_steps: "lifecycle_step\<^sup>*\<^sup>* s s' \<Longrightarrow> was_published s \<Longrightarrow> was_published s'"
  by (induction rule: rtranclp_induct) (auto simp: was_published_def lifecycle_step_def)

end
