(* ===== verification/PluginContract.thy ===== *)
theory PluginContract imports Recovery IdentitySystem PluginPublish PluginLifecycle begin

text \<open>
  The interface between the Plugin lifecycle and its tables. Publication, the lifecycle service, the
  receive coordinator and the recovery change the database through a few statements; the locale
  \<open>plugin_store\<close> says what a property of the database has to satisfy to be an invariant of all of
  them, and proves once that every operation and every step of the server then keeps it.
\<close>

section \<open>What only concerns receives\<close>

text \<open>The database without the tables of receives and projections.\<close>

definition forget_receives :: "db \<Rightarrow> db" where
  "forget_receives d =
     d\<lparr>receive_batches := [], receive_intents := [], artifacts := [], pointers := [], transitions := [], gc_jobs := []\<rparr>"

definition receives_only :: "(db \<Rightarrow> bool) \<Rightarrow> bool" where
  "receives_only I \<longleftrightarrow> (\<forall>d d'. forget_receives d' = forget_receives d \<longrightarrow> I d \<longrightarrow> I d')"

text \<open>The same, but with the table of artifacts\<close>

definition forget_coordination :: "db \<Rightarrow> db" where
  "forget_coordination d = d\<lparr>receive_batches := [], receive_intents := [], pointers := [], transitions := [], gc_jobs := []\<rparr>"

definition coordination_only :: "(db \<Rightarrow> bool) \<Rightarrow> bool" where
  "coordination_only I \<longleftrightarrow> (\<forall>d d'. forget_coordination d' = forget_coordination d \<longrightarrow> I d \<longrightarrow> I d')"

lemma forget_receives_simps [simp]:
  "forget_receives (d\<lparr>receive_batches := a\<rparr>) = forget_receives d"
  "forget_receives (d\<lparr>receive_intents := b\<rparr>) = forget_receives d"
  "forget_receives (d\<lparr>artifacts := c\<rparr>) = forget_receives d"
  "forget_receives (d\<lparr>pointers := e\<rparr>) = forget_receives d"
  "forget_receives (d\<lparr>transitions := f\<rparr>) = forget_receives d"
  "forget_receives (d\<lparr>gc_jobs := g\<rparr>) = forget_receives d"
  by (simp_all add: forget_receives_def)

lemma forget_coordination_simps [simp]:
  "forget_coordination (d\<lparr>receive_batches := a\<rparr>) = forget_coordination d"
  "forget_coordination (d\<lparr>receive_intents := b\<rparr>) = forget_coordination d"
  "forget_coordination (d\<lparr>pointers := e\<rparr>) = forget_coordination d"
  "forget_coordination (d\<lparr>transitions := f\<rparr>) = forget_coordination d"
  "forget_coordination (d\<lparr>gc_jobs := g\<rparr>) = forget_coordination d"
  by (simp_all add: forget_coordination_def)

lemma receives_onlyD:
  assumes "receives_only I"
  shows "coordination_only I" "keeps I (create_artifact a)" "keeps I (update_artifacts P f)"
proof -
  have frame: "I d'" if "forget_receives d' = forget_receives d" "I d" for d d'
    using assms that unfolding receives_only_def by blast
  have "forget_receives d = (forget_coordination d)\<lparr>artifacts := []\<rparr>" for d
    by (simp add: forget_receives_def forget_coordination_def)
  then show "coordination_only I" unfolding coordination_only_def using frame by metis
  show "keeps I (create_artifact a)" "keeps I (update_artifacts P f)"
    unfolding create_artifact_def update_artifacts_def set_artifacts_def
    by (rule keeps_insert_row keeps_update_rows, erule frame [rotated], simp)+
qed

text \<open>The interfaces of the git side, which do not touch the database.\<close>

definition pure_builder :: "builder \<Rightarrow> bool" where
  "pure_builder B \<longleftrightarrow> (\<forall>c. reads (bld_Build B c)) \<and> (\<forall>p d. reads (bld_Verify B p d)) \<and> (\<forall>p. reads (bld_Remove B p))"

definition pure_inspector :: "inspector option \<Rightarrow> bool" where
  "pure_inspector insp \<longleftrightarrow> (\<forall>f r t s. insp = Some f \<longrightarrow> reads (f r t s))"

lemma reads_service_steps [read_only]:
  "reads (findNamespaceBySlug s)" "reads (plugin_authorize p a r)" "reads (exactAggregate n s)"
  "reads (authorizeExactRead p agg)" "reads (authorizeMutation p a agg)" "reads (one_row k)"
  "reads (unresolvedReceiveExists pid)"
  unfolding findNamespaceBySlug_def plugin_authorize_def exactAggregate_def authorizeExactRead_def
    authorizeMutation_def one_row_def unresolvedReceiveExists_def
  by (intro read_only)+

lemma reads_exec_id [read_only]: "reads (exec id)"
  by (simp add: reads_def exec_def statement_def)

lemma reads_LockPlugin [read_only]: "reads (LockPlugin pid)"
  unfolding LockPlugin_def by (intro read_only)

lemma reads_Open [read_only]: "reads (Open pid sid)" "reads (Close co)"
  unfolding Open_def Close_def by (intro read_only)+

section \<open>Bodies of transactions\<close>

text \<open>A body of a transaction need only keep the property when it succeeds: a failing one is rolled back.\<close>

definition commits :: "(db \<Rightarrow> bool) \<Rightarrow> 'a prog \<Rightarrow> bool" where
  "commits I m \<longleftrightarrow> (\<forall>w x w'. m w = (Inr x, w') \<longrightarrow> I (w_db w) \<longrightarrow> I (w_db w'))"

lemma commitsI: "(\<And>w x w'. m w = (Inr x, w') \<Longrightarrow> I (w_db w) \<Longrightarrow> I (w_db w')) \<Longrightarrow> commits I m"
  unfolding commits_def by blast

lemma commitsD: "commits I m \<Longrightarrow> m w = (Inr x, w') \<Longrightarrow> I (w_db w) \<Longrightarrow> I (w_db w')"
  unfolding commits_def by blast

lemma commits_keeps: "keeps I m \<Longrightarrow> commits I m"
  by (rule commitsI) (rule keepsD)

lemma commits_bindE: "commits I m \<Longrightarrow> (\<And>x. commits I (f x)) \<Longrightarrow> commits I (bindE m f)"
  by (rule commitsI) (auto simp: bindE_Inr_iff dest: commitsD)

lemma commits_if: "commits I m \<Longrightarrow> commits I m' \<Longrightarrow> commits I (if b then m else m')"
  by simp

lemma commits_case_prod: "(\<And>x y. commits I (f x y)) \<Longrightarrow> commits I (case p of (x, y) \<Rightarrow> f x y)"
  by (simp split: prod.splits)

lemma commits_forE: "(\<And>x. x \<in> set xs \<Longrightarrow> commits I (f x)) \<Longrightarrow> commits I (forE f xs)"
  by (induction xs) (simp_all add: commits_keeps keeps_reads reads_return commits_bindE)

lemma keeps_transaction_commits: "commits I m \<Longrightarrow> keeps I (transaction m)"
  by (rule keeps_transaction) (rule commitsD)

section \<open>Steps of the Plugin domain\<close>

inductive plugin_step :: "world \<Rightarrow> world \<Rightarrow> bool" where
  change_storage: "plugin_step w (w\<lparr>w_faults := fs, w_io := io, w_storage := st\<rparr>)"
| create: "plugin_step w (snd (PluginService_Create p input w))"
| publish: "pure_inspector insp \<Longrightarrow> plugin_step w (snd (PluginService_Publish insp p n s tag def w))"
| archive: "plugin_step w (snd (PluginService_Archive p n s w))"
| restore: "plugin_step w (snd (PluginService_Restore p n s w))"
| set_visibility: "plugin_step w (snd (PluginService_SetVisibility p n s v w))"
| set_default: "plugin_step w (snd (PluginService_SetDefaultVersion p n s tag w))"
| clear_default: "plugin_step w (snd (PluginService_ClearDefaultVersion p n s w))"
| prepare: "pure_builder B \<Longrightarrow> plugin_step w (snd (Prepare B co batch w))"
| resolve: "pure_builder B \<Longrightarrow> plugin_step w (snd (Resolve B co prepared res w))"
| reconcile: "pure_builder B \<Longrightarrow> plugin_step w (snd (Reconcile B prepared observed w))"
| collect: "pure_builder B \<Longrightarrow> plugin_step w (snd (RunOnce B w))"
| recover_receives: "pure_builder B \<Longrightarrow> plugin_step w (snd (ReconcileReceives B opts w))"
| recover_orphans: "plugin_step w (snd (ReconcileOrphans opts w))"
| recover_projections: "pure_builder B \<Longrightarrow> plugin_step w (snd (RunProjectionGC B opts w))"

text \<open>The requests behind the events of the lifecycle.\<close>

inductive lifecycle_request :: "lifecycle_event \<Rightarrow> world \<Rightarrow> world \<Rightarrow> bool" where
  request_publish: "pure_inspector insp \<Longrightarrow> lifecycle_request Activation w (snd (PluginService_Publish insp p n s tag def w))"
| request_archive: "lifecycle_request Archival w (snd (PluginService_Archive p n s w))"
| request_restore: "lifecycle_request Restoration w (snd (PluginService_Restore p n s w))"

section \<open>The contract\<close>

lemma lifecycle_moves:
  "lifecycle_change (lifecycle_move Archival) (\<lambda>x. A x \<and> B x \<and> plg_Status x = st)
     (\<lambda>x. x\<lparr>plg_Status := PluginStatusArchived, plg_ArchivedFrom := Some st, plg_UpdatedAt := t\<rparr>)"
  "lifecycle_change (lifecycle_move Restoration) (\<lambda>x. A x \<and> B x \<and> plg_Status x = PluginStatusArchived \<and> plg_ArchivedFrom x = Some st)
     (\<lambda>x. x\<lparr>plg_Status := st, plg_ArchivedFrom := None, plg_UpdatedAt := t\<rparr>)"
  "lifecycle_change E P (\<lambda>x. x\<lparr>plg_Visibility := v, plg_UpdatedAt := t\<rparr>)"
  by (auto simp: lifecycle_change_def lifecycle_of_def chk_plugin_def)

definition keeps_identity :: "(plugin_row \<Rightarrow> plugin_row) \<Rightarrow> bool" where
  "keeps_identity f \<longleftrightarrow> (\<forall>p. plg_ID (f p) = plg_ID p \<and> plg_NamespaceID (f p) = plg_NamespaceID p \<and> plg_Slug (f p) = plg_Slug p)"

definition keeps_version_identity :: "(version_row \<Rightarrow> version_row) \<Rightarrow> bool" where
  "keeps_version_identity f \<longleftrightarrow> (\<forall>v. ver_ID (f v) = ver_ID v \<and> ver_PluginID (f v) = ver_PluginID v \<and> ver_Tag (f v) = ver_Tag v)"

locale plugin_rows =
  fixes E :: "lifecycle \<Rightarrow> lifecycle \<Rightarrow> bool" and I :: "db \<Rightarrow> bool"
  assumes I_CreateAggregate: "keeps I (CreateAggregate a)"
    and I_create_orphan_cleanup: "keeps I (create_orphan_cleanup c)"
    and I_update_plugins:
      "keeps_identity f \<Longrightarrow> (\<not> b \<Longrightarrow> \<forall>p. plg_DefaultVersionTag (f p) = plg_DefaultVersionTag p) \<Longrightarrow>
       lifecycle_change E P f \<Longrightarrow> keeps I (update_plugins b P f)"
    and I_create_version: "keeps I (create_version v)"
    and I_update_versions:
      "keeps_version_identity g \<Longrightarrow> (\<forall>v. ver_Status (g v) = VersionStatusAvailable \<or> ver_Status (g v) = ver_Status v) \<Longrightarrow>
       keeps I (update_versions Q g)"
    and I_create_history: "keeps I (create_history h)"
    and I_delete_version: "commits I (delete_version e i t)"
    and I_create_artifact: "keeps I (create_artifact art)"
    and I_update_artifacts: "(\<And>a. art_StorageKey (k a) = art_StorageKey a) \<Longrightarrow> keeps I (update_artifacts R k)"
    and I_coordination: "coordination_only I"
begin

lemma I_forget: "I d \<Longrightarrow> forget_coordination d' = forget_coordination d \<Longrightarrow> I d'"
  using I_coordination unfolding coordination_only_def by blast

lemma keeps_locked: "keeps I m \<Longrightarrow> keeps I (locked pid m)"
  unfolding locked_def
  by (rule keeps_bindE, intro keeps_reads read_only, intro keeps_attempt keeps_reads [OF reads_exec_id] keeps_reads [OF reads_of_sum])

lemma keeps_update_tables:
  "keeps I (update_batches P1 f1)" "keeps I (update_intents P2 f2)"
  "keeps I (update_pointers P4 f4)" "keeps I (update_transitions P5 f5)" "keeps I (update_jobs P6 f6)"
  unfolding update_batches_def update_intents_def update_pointers_def
    update_transitions_def update_jobs_def set_batches_def set_intents_def
    set_pointers_def set_transitions_def set_jobs_def
  by (rule keeps_update_rows, erule I_forget, simp)+

text \<open>An artifact is made ready, or found broken; it keeps its place in the storage.\<close>

lemma keeps_artifact_states:
  "keeps I (update_artifacts P (\<lambda>a. a\<lparr>art_State := s, art_ReadyAt := r, art_UpdatedAt := t\<rparr>))"
  "keeps I (update_artifacts P (\<lambda>a. a\<lparr>art_State := s, art_SafeError := e, art_UpdatedAt := t\<rparr>))"
  by (rule I_update_artifacts, simp)+

lemmas keeps_update_receives = keeps_update_tables keeps_artifact_states

lemma keeps_create_tables:
  "keeps I (create_batch b)" "keeps I (create_intent i)" "keeps I (create_transition t)"
  unfolding create_batch_def create_intent_def create_transition_def
  by (rule keeps_insert_row, erule I_forget, simp)+

lemmas keeps_create_receives = keeps_create_tables I_create_artifact

lemma forget_enqueue_job: "forget_coordination (enqueue_job j d) = forget_coordination d"
  by (simp add: enqueue_job_def)

lemma keeps_enqueue: "keeps I (exec_checked chk (enqueue_job j))"
  by (rule keeps_exec_checked) (erule I_forget, rule forget_enqueue_job)

text \<open>The Plugin service.\<close>

lemma keeps_recordOrphanCleanup: "keeps I (recordOrphanCleanup a)"
  unfolding recordOrphanCleanup_def by (intro keeps_bindE I_create_orphan_cleanup keeps_reads [OF reads_now] keeps_reads [OF reads_new_id])

lemma keeps_PluginService_Create: "keeps I (PluginService_Create p input)"
  unfolding PluginService_Create_def store_aggregate_def compensate_creation_def Let_def
  by (intro keeps_intros I_CreateAggregate keeps_recordOrphanCleanup keeps_reads read_only)

lemma keeps_change_plugin:
  "(\<And>t. keeps_identity (f t)) \<Longrightarrow> (\<And>t p. plg_DefaultVersionTag (f t p) = plg_DefaultVersionTag p) \<Longrightarrow>
   (\<And>t. lifecycle_change E P (f t)) \<Longrightarrow> keeps I (bindE now (\<lambda>t. bindE (map_error h (update_plugins False P (f t))) one_row))"
  by (intro keeps_bindE keeps_map_error I_update_plugins keeps_reads read_only) auto

lemma keeps_PluginService_Archive: "lifecycle_move Archival \<le> E \<Longrightarrow> keeps I (PluginService_Archive p n s)"
  unfolding PluginService_Archive_def Let_def
  by (intro keeps_change_plugin keeps_bindE keeps_case_prod keeps_locked keeps_if keeps_reads read_only)
    (simp_all add: keeps_identity_def lifecycle_change_mono [OF lifecycle_moves(1)])

lemma keeps_PluginService_Restore: "lifecycle_move Restoration \<le> E \<Longrightarrow> keeps I (PluginService_Restore p n s)"
  unfolding PluginService_Restore_def Let_def
  by (intro keeps_change_plugin keeps_bindE keeps_case_prod keeps_case_option keeps_locked keeps_if keeps_reads read_only)
    (simp_all add: keeps_identity_def lifecycle_change_mono [OF lifecycle_moves(2)])

lemma keeps_PluginService_SetVisibility: "keeps I (PluginService_SetVisibility p n s v)"
  unfolding PluginService_SetVisibility_def Let_def
  by (intro keeps_change_plugin keeps_bindE keeps_case_prod keeps_locked keeps_if keeps_reads read_only)
    (simp_all add: keeps_identity_def lifecycle_moves)

lemma keeps_set_default: "keeps I (set_default msg n pid q x t)"
  unfolding set_default_def
  by (intro keeps_bindE keeps_map_error I_update_plugins keeps_if keeps_reads read_only)
    (simp_all add: keeps_identity_def lifecycle_change_same)

lemma keeps_DaoSetDefaultVersion: "keeps I (DaoSetDefaultVersion n pid tag)"
  unfolding DaoSetDefaultVersion_def
  by (intro keeps_if keeps_transaction_body keeps_bindE keeps_set_default keeps_reads read_only)

lemma keeps_DaoClearDefaultVersion: "keeps I (DaoClearDefaultVersion n pid t)"
  unfolding DaoClearDefaultVersion_def
  by (intro keeps_if keeps_transaction_body keeps_bindE keeps_set_default keeps_reads read_only)

lemma keeps_PluginService_SetDefaultVersion: "keeps I (PluginService_SetDefaultVersion p n s tag)"
  unfolding PluginService_SetDefaultVersion_def
  by (intro keeps_bindE keeps_case_prod keeps_locked keeps_if keeps_map_error keeps_DaoSetDefaultVersion keeps_reads read_only)

lemma keeps_PluginService_ClearDefaultVersion: "keeps I (PluginService_ClearDefaultVersion p n s)"
  unfolding PluginService_ClearDefaultVersion_def
  by (intro keeps_bindE keeps_case_prod keeps_locked keeps_if keeps_map_error keeps_DaoClearDefaultVersion keeps_reads read_only)

text \<open>Publication.\<close>

lemma keeps_write_version: "keeps I (write_version pid tag i t)"
  unfolding write_version_def Let_def
  by (intro keeps_attempt keeps_case_sum keeps_if keeps_bindE keeps_map_error I_create_version I_update_versions
        keeps_reads read_only) (simp_all add: keeps_version_identity_def with_content_def)

lemma keeps_record_publication: "keeps I (record_publication pid tag i t op)"
  unfolding record_publication_def
  by (intro keeps_case_option keeps_bindE I_create_history keeps_reads read_only)

lemma keeps_activate_plugin: "lifecycle_move Activation \<le> E \<Longrightarrow> keeps I (activate_plugin n q tag def t)"
  unfolding activate_plugin_def Let_def
  by (intro keeps_if keeps_bindE I_update_plugins keeps_reads read_only)
    (auto simp: keeps_identity_def lifecycle_of_def chk_plugin_def
      intro!: lifecycle_change_mono [of "lifecycle_move Activation" _ _ E, unfolded lifecycle_change_def [of "lifecycle_move Activation"]])

lemma keeps_publish_transaction: "lifecycle_move Activation \<le> E \<Longrightarrow> keeps I (publish_transaction n a tag def i t)"
  unfolding publish_transaction_def Let_def
  by (intro keeps_bindE keeps_if keeps_case_prod keeps_write_version keeps_record_publication keeps_activate_plugin keeps_reads read_only)

lemma keeps_PluginService_Publish:
  assumes "lifecycle_move Activation \<le> E" "pure_inspector insp"
  shows "keeps I (PluginService_Publish insp p n s tag def)"
proof -
  have look: "reads (inspect_twice f a tag)" if "insp = Some f" for f a
    using assms(2) that unfolding inspect_twice_def Let_def pure_inspector_def
    by (intro read_only) auto
  show ?thesis
  proof (cases insp)
    case None
    then show ?thesis unfolding PluginService_Publish_def by (simp add: keeps_reads read_only)
  next
    case (Some f)
    show ?thesis
      unfolding PluginService_Publish_def Some option.case
      by (intro keeps_transaction_body keeps_publish_transaction [OF assms(1)] keeps_bindE keeps_if keeps_case_prod keeps_locked
            keeps_map_error keeps_reads look [OF Some] read_only)
  qed
qed

text \<open>Receives.\<close>

lemma keeps_enqueueGC: "keeps I (enqueueGC a t)"
  unfolding enqueueGC_def by (intro keeps_bindE keeps_enqueue keeps_reads read_only)

lemma keeps_recovery_enqueueGC: "keeps I (recovery_enqueueGC a t)"
  unfolding recovery_enqueueGC_def
  by (intro keeps_attempt keeps_case_sum keeps_if keeps_bindE keeps_enqueue keeps_reads read_only)

lemma keeps_move_version: "keeps I (move_version e i t)"
  unfolding move_version_def by (intro keeps_cas I_update_versions) (simp_all add: keeps_version_identity_def)

lemmas keeps_receive_basics =
  keeps_update_receives keeps_create_receives keeps_enqueueGC keeps_recovery_enqueueGC keeps_move_version
  I_create_history

lemma keeps_receive_cas:
  "keeps I (finish_batch e bid st t)" "keeps I (finish_intent e iid st t)" "keeps I (ready_artifact e aid t)"
  "keeps I (finish_transition tid ts t)" "keeps I (switch_pointer e x art av t)" "keeps I (withdraw_pointer x t)"
  "keeps I (manual_batch_rows bid reason t)" "keeps I (manual_intent_rows bid reason t)"
  "keeps I (set_transition_state tid ts t)"
  unfolding finish_batch_def finish_intent_def ready_artifact_def finish_transition_def switch_pointer_def
    withdraw_pointer_def manual_batch_rows_def manual_intent_rows_def set_transition_state_def
  by (intro keeps_cas keeps_bindE keeps_update_receives keeps_reads [OF reads_return])+

lemma keeps_manual_transition: "keeps I (manual_transition reason t x)"
  unfolding manual_transition_def by (intro keeps_bindE keeps_receive_cas keeps_update_receives keeps_reads [OF reads_return])

lemma keeps_markManual: "keeps I (markManual bid xs reason)"
  unfolding markManual_def
  by (intro keeps_bindE keeps_transaction_body keeps_forE keeps_receive_cas keeps_manual_transition keeps_reads [OF reads_now])

lemma keeps_complete_transition: "keeps I (complete_transition op t x)"
  by (cases op; cases "trn_StagedArtifactID x"; simp add: complete_transition_def)
    (intro keeps_bindE keeps_receive_cas keeps_case_option keeps_if keeps_enqueueGC keeps_reads [OF reads_return] keeps_reads [OF reads_fail])+

lemma keeps_completeTransition: "keeps I (completeTransition op t x)"
  by (cases op; cases "trn_StagedArtifactID x"; simp add: completeTransition_def)
    (intro keeps_bindE keeps_receive_cas keeps_case_option keeps_if keeps_recovery_enqueueGC keeps_reads [OF reads_return] keeps_reads [OF reads_fail])+

lemma keeps_abort_transitions: "keeps I (abort_transition t x)" "keeps I (abortTransition t x)"
  unfolding abort_transition_def abortTransition_def
  by (intro keeps_bindE keeps_cas keeps_receive_cas keeps_case_option keeps_receive_basics keeps_reads [OF reads_return])+

lemma commits_resolve_intent: "commits I (resolve_intent b xs disp t i)"
proof -
  have complete: "commits I (completeIntent b i ys t)" for ys
    unfolding completeIntent_def
    by (intro commits_bindE commits_if commits_case_prod I_delete_version commits_forE commits_keeps keeps_receive_basics
          keeps_receive_cas keeps_complete_transition keeps_reads read_only)
  have abort: "keeps I (abortIntent i ys t)" for ys
    unfolding abortIntent_def
    by (intro keeps_bindE keeps_forE keeps_receive_cas keeps_abort_transitions)
  show ?thesis
    unfolding resolve_intent_def Let_def
    by (simp split: disposition.split add: commits_keeps abort complete keeps_reads [OF reads_fail])
qed

lemma keeps_applyResolution: "keeps I (applyResolution b intents xs disp)"
  unfolding applyResolution_def
  by (intro keeps_bindE [OF keeps_reads [OF reads_now]] keeps_transaction_commits commits_bindE commits_if commits_forE
        commits_resolve_intent commits_keeps keeps_receive_cas keeps_reads read_only)

lemma keeps_Resolve:
  assumes "pure_builder B"
  shows "keeps I (Resolve B co prepared res)"
proof -
  have verify: "reads (bld_Verify B p d)" for p d using assms unfolding pure_builder_def by blast
  have "keeps I (verify_staged B bid xs x)" for bid xs x
    unfolding verify_staged_def
    by (intro keeps_case_option keeps_attempt keeps_case_sum keeps_bindE keeps_ignore_error keeps_markManual
          keeps_update_receives keeps_reads verify read_only)
  moreover have "reads (loadResolutionState bid)" for bid
    unfolding loadResolutionState_def loadPrepared_def by (intro read_only)
  ultimately show ?thesis
    unfolding Resolve_def Let_def
    by (intro keeps_if keeps_bindE keeps_map_error keeps_case_prod keeps_attempt keeps_case_sum keeps_forE keeps_ignore_error
          keeps_markManual keeps_applyResolution keeps_reads [OF reads_return] keeps_reads [OF reads_fail]) (simp_all add: keeps_reads)
qed

lemma keeps_Reconcile: "pure_builder B \<Longrightarrow> keeps I (Reconcile B prepared observed)"
  unfolding Reconcile_def
  by (intro keeps_Resolve keeps_if keeps_bindE keeps_attempt keeps_reads read_only)

lemma keeps_persistPrepared: "keeps I (persistPrepared co plans)"
proof -
  have "keeps I (stage_projection pid plan rv t)" for pid plan rv t
    unfolding stage_projection_def
    by (intro keeps_case_option keeps_case_prod keeps_bindE keeps_create_receives keeps_reads read_only)
  then have revision: "keeps I (persist_revision pid plan t rv)" for pid plan t rv
    unfolding persist_revision_def Let_def
    by (intro keeps_bindE keeps_create_receives keeps_cas keeps_update_receives keeps_reads [OF reads_new_id]) simp
  have plan: "keeps I (persist_plan bid pid t plan)" for bid pid t plan
    unfolding persist_plan_def
    by (intro keeps_bindE keeps_create_receives keeps_forE revision)
  have "reads (loadPrepared bid)" for bid unfolding loadPrepared_def by (intro read_only)
  then show ?thesis
    unfolding persistPrepared_def
    by (intro keeps_transaction_body keeps_bindE keeps_create_receives keeps_forE plan keeps_reads read_only)
qed

lemma keeps_Prepare:
  assumes "pure_builder B"
  shows "keeps I (Prepare B co batch)"
proof -
  have pure: "reads (bld_Build B c)" "reads (bld_Remove B p)" for c p using assms unfolding pure_builder_def by blast+
  have removed: "reads (removeBuilt B ps)" for ps unfolding removeBuilt_def by (intro read_only pure)
  have revisions: "reads (build_revisions B pid c built rvs)" for pid c built rvs
  proof (induction rvs arbitrary: built)
    case (Cons rv rvs)
    show ?case unfolding build_revisions.simps by (intro read_only pure removed Cons.IH)
  qed (simp add: read_only)
  have plans: "reads (build_plans B pid built ps)" for pid built ps
  proof (induction ps arbitrary: built)
    case (Cons p ps)
    show ?case unfolding build_plans.simps by (intro read_only revisions Cons.IH)
  qed (simp add: read_only)
  have classified: "reads (classify pid seen cs)" for pid seen cs
  proof (induction cs arbitrary: seen)
    case (Cons c cs)
    show ?case unfolding classify.simps by (intro read_only Cons.IH)
  qed (simp add: read_only)
  have others: "reads (loadSession co)" "reads (preflight_plan pid plan)" for co pid plan
    unfolding loadSession_def loadPrepared_def preflight_plan_def preflight_revision_def count_zero_def Let_def
    by (intro read_only)+
  show ?thesis
    unfolding Prepare_def Let_def
    by (intro keeps_persistPrepared keeps_if keeps_bindE keeps_case_option keeps_case_prod keeps_attempt keeps_case_sum
          keeps_reads removed revisions plans classified others read_only)
qed

lemma keeps_job_update: "keeps I (bindE (map_error h (update_jobs P f)) g)" if "\<And>n. keeps I (g n)"
  using that by (intro keeps_bindE keeps_map_error keeps_update_receives)

lemma keeps_failJob: "keeps I (failJob jid reason)"
  unfolding failJob_def by (intro keeps_bindE keeps_update_receives keeps_reads read_only)

lemma keeps_RunOnce:
  assumes "pure_builder B"
  shows "keeps I (RunOnce B)"
proof -
  have pure: "reads (bld_Remove B p)" for p using assms unfolding pure_builder_def by blast
  have "keeps I (collect_artifact B job)" for job
    unfolding collect_artifact_def
    by (intro keeps_failJob keeps_update_receives keeps_attempt keeps_case_sum keeps_if keeps_bindE keeps_ignore_error keeps_cas
          keeps_reads pure read_only)
  then show ?thesis
    unfolding RunOnce_def
    by (intro keeps_update_receives keeps_bindE keeps_attempt keeps_case_sum keeps_if keeps_map_error
          keeps_reads [OF reads_now] keeps_reads [OF reads_take_row] keeps_reads [OF reads_return] keeps_reads [OF reads_fail])
qed

lemma keeps_manualBatch: "keeps I (manualBatch bid reason)"
  unfolding manualBatch_def
  by (intro keeps_transaction_body keeps_receive_cas keeps_update_receives keeps_bindE keeps_map_error keeps_forE keeps_reads read_only)

lemma keeps_applyReceive: "keeps I (applyReceive b intents disp)"
proof -
  have version: "commits I (apply_version i t)" for i t
    unfolding apply_version_def
    by (cases "intent_Operation i"; simp only: receive_operation.case)
      (intro commits_bindE commits_if I_delete_version commits_keeps keeps_receive_basics keeps_reads read_only)+
  have "commits I (applyIntent c disp t i)" for c t i
    unfolding applyIntent_def
    by (intro version commits_bindE commits_if commits_case_prod commits_forE commits_keeps keeps_receive_basics keeps_receive_cas
          keeps_completeTransition keeps_abort_transitions
          keeps_reads [OF reads_new_id] keeps_reads [OF reads_query])
  then show ?thesis
    unfolding applyReceive_def
    by (intro keeps_bindE [OF keeps_reads [OF reads_now]] keeps_transaction_commits commits_bindE commits_if commits_forE)
      (simp_all add: commits_keeps keeps_receive_cas keeps_reads read_only)
qed

lemma keeps_ReconcileReceives:
  assumes "pure_builder B"
  shows "keeps I (ReconcileReceives B opts)"
proof -
  have "reads (verifyStaged B intents)" for intents
    using assms unfolding verifyStaged_def pure_builder_def by (intro read_only) blast
  then have "keeps I (reconcile_locked B b)" for b
    unfolding reconcile_locked_def Let_def
    by (intro keeps_manualBatch keeps_applyReceive keeps_attempt keeps_case_sum keeps_case_option keeps_if keeps_bindE
          keeps_reads [OF reads_take_row]) (intro keeps_reads read_only; assumption)+
  then have "keeps I (reconcileBatch B b)" for b
    unfolding reconcileBatch_def by (intro keeps_bindE keeps_attempt) (simp_all add: keeps_reads read_only)
  then show ?thesis
    unfolding ReconcileReceives_def
    by (intro keeps_bindE keeps_forE) (simp_all add: keeps_reads read_only)
qed

lemma keeps_RunProjectionGC:
  assumes "pure_builder B"
  shows "keeps I (RunProjectionGC B opts)"
proof -
  have pure: "reads (bld_Remove B p)" for p using assms unfolding pure_builder_def by blast
  have manual: "keeps I (gcManual jid reason)" for jid reason
    unfolding gcManual_def by (intro keeps_job_update keeps_bindE keeps_reads read_only)
  have "keeps I (gcOne B job)" for job
    unfolding gcOne_def
    by (intro manual keeps_job_update keeps_attempt keeps_case_sum keeps_if keeps_bindE keeps_reads pure read_only)
  then show ?thesis
    unfolding RunProjectionGC_def
    by (intro keeps_bindE keeps_forE) (simp_all add: keeps_reads read_only)
qed

lemmas keeps_plugin_services =
  keeps_PluginService_Create keeps_PluginService_Publish keeps_PluginService_Archive keeps_PluginService_Restore
  keeps_PluginService_SetVisibility keeps_PluginService_SetDefaultVersion keeps_PluginService_ClearDefaultVersion
  keeps_Prepare keeps_Resolve keeps_Reconcile keeps_RunOnce keeps_ReconcileReceives keeps_RunProjectionGC
  keeps_reads [OF reads_ReconcileOrphans]

text \<open>A step that is no request for an event of the lifecycle needs none of its moves.\<close>

lemma unrequested_plugin_step:
  "plugin_step w w' \<Longrightarrow> (\<And>e. \<not> lifecycle_request e w w') \<Longrightarrow> I (w_db w) \<Longrightarrow> I (w_db w')"
  by (induction rule: plugin_step.induct) (auto intro: lifecycle_request.intros simp: keeps_plugin_services [THEN keeps_snd])

lemma requested_plugin_step:
  "lifecycle_request e w w' \<Longrightarrow> lifecycle_move e \<le> E \<Longrightarrow> I (w_db w) \<Longrightarrow> I (w_db w')"
  by (induction rule: lifecycle_request.induct) (simp_all add: keeps_plugin_services [THEN keeps_snd])

end

text \<open>With all steps of the lifecycle, the whole service is covered.\<close>

locale plugin_store = plugin_rows lifecycle_step I for I
begin

lemma plugin_step: "plugin_step w w' \<Longrightarrow> I (w_db w) \<Longrightarrow> I (w_db w')"
  using unrequested_plugin_step requested_plugin_step lifecycle_move_step by blast

lemma plugin_steps: "plugin_step\<^sup>*\<^sup>* w w' \<Longrightarrow> I (w_db w) \<Longrightarrow> I (w_db w')"
  by (induction rule: rtranclp_induct) (auto intro: plugin_step)

end

end
