(* ===== verification/PluginInvariant.thy ===== *)
theory PluginInvariant imports PluginContract begin

text \<open>
  The integrity of the Plugin tables: keys, checks and references, a default version that can be
  delivered, and a repository for every Plugin. The statements of the contract \<open>plugin_store\<close> keep
  it, those of the identity domain as well, and the Plugin domain leaves the identity tables alone.
\<close>

section \<open>The invariant\<close>

definition plugins_ok :: "db \<Rightarrow> bool" where
  "plugins_ok d \<longleftrightarrow>
     distinct (map plg_ID (plugins d)) \<and> distinct (map (\<lambda>p. (plg_NamespaceID p, plg_Slug p)) (plugins d)) \<and>
     (\<forall>p \<in> set (plugins d). chk_plugin p \<and> default_available d p \<and> plg_NamespaceID p \<in> ns_ID ` set (namespaces d))"

definition repositories_ok :: "db \<Rightarrow> bool" where
  "repositories_ok d \<longleftrightarrow>
     distinct (map repo_ID (repositories d)) \<and> distinct (map repo_StorageKey (repositories d)) \<and>
     (\<forall>r \<in> set (repositories d). chk_repository r) \<and> repo_ID ` set (repositories d) = plg_ID ` set (plugins d)"

definition versions_ok :: "db \<Rightarrow> bool" where
  "versions_ok d \<longleftrightarrow>
     distinct (map ver_ID (versions d)) \<and> distinct (map (\<lambda>v. (ver_PluginID v, ver_Tag v)) (versions d)) \<and>
     (\<forall>v \<in> set (versions d). chk_version v \<and> ver_PluginID v \<in> plg_ID ` set (plugins d))"

definition history_ok :: "db \<Rightarrow> bool" where
  "history_ok d \<longleftrightarrow>
     distinct (map hist_ID (version_history d)) \<and>
     (\<forall>h \<in> set (version_history d). hist_PluginID h \<in> plg_ID ` set (plugins d))"

definition plugin_ok :: "db \<Rightarrow> bool" where
  "plugin_ok d \<longleftrightarrow> plugins_ok d \<and> repositories_ok d \<and> versions_ok d \<and> history_ok d"

lemmas plugin_ok_defs = plugin_ok_def plugins_ok_def repositories_ok_def versions_ok_def history_ok_def

text \<open>It depends on four tables, and on the IDs of the namespaces only by inclusion.\<close>

lemma default_available_versions: "versions d' = versions d \<Longrightarrow> default_available d' p = default_available d p"
  by (simp add: default_available_def split: option.split)

lemma plugin_ok_frame:
  assumes "plugin_ok d" "plugins d' = plugins d" "repositories d' = repositories d" "versions d' = versions d"
    "version_history d' = version_history d" "ns_ID ` set (namespaces d) \<subseteq> ns_ID ` set (namespaces d')"
  shows "plugin_ok d'"
  using assms unfolding plugin_ok_defs by (auto simp: default_available_versions [OF assms(4)])

lemma plugin_exists_image: "plugin_exists d pid \<longleftrightarrow> pid \<in> plg_ID ` set (plugins d)"
  by (auto simp: plugin_exists_def)

lemma namespace_exists_image: "namespace_exists d nid \<longleftrightarrow> nid \<in> ns_ID ` set (namespaces d)"
  by (auto simp: namespace_exists_def)

lemma stamped_plugin [simp]:
  "chk_plugin (p\<lparr>plg_CreatedAt := a, plg_UpdatedAt := b\<rparr>) = chk_plugin p"
  "default_available d (p\<lparr>plg_CreatedAt := a, plg_UpdatedAt := b\<rparr>) = default_available d p"
  by (simp_all add: chk_plugin_def default_available_def split: option.split)

lemma stamped_rows [simp]:
  "chk_repository (r\<lparr>repo_CreatedAt := a, repo_UpdatedAt := b\<rparr>) = chk_repository r"
  "chk_version (v\<lparr>ver_CreatedAt := a, ver_UpdatedAt := b\<rparr>) = chk_version v"
  by (simp_all add: chk_repository_def chk_version_def)

section \<open>The statements keep it\<close>

text \<open>A new Plugin and its repository in one transaction.\<close>

lemma plugin_ok_new_aggregate:
  assumes "plugin_ok d" "chk_plugin p" "default_available d p" "plg_NamespaceID p \<in> ns_ID ` set (namespaces d)"
    "plg_ID p \<notin> plg_ID ` set (plugins d)" "(plg_NamespaceID p, plg_Slug p) \<notin> (\<lambda>q. (plg_NamespaceID q, plg_Slug q)) ` set (plugins d)"
    "chk_repository r" "repo_ID r = plg_ID p" "repo_StorageKey r \<notin> repo_StorageKey ` set (repositories d)"
  shows "plugin_ok (d\<lparr>plugins := plugins d @ [p], repositories := repositories d @ [r]\<rparr>)"
proof -
  have "default_available (d\<lparr>plugins := plugins d @ [p], repositories := repositories d @ [r]\<rparr>) q = default_available d q" for q
    by (simp add: default_available_def split: option.split)
  moreover have "repo_ID r \<notin> repo_ID ` set (repositories d)" using assms by (simp add: plugin_ok_def repositories_ok_def)
  ultimately show ?thesis using assms unfolding plugin_ok_defs by auto
qed

lemma keeps_CreateAggregate_plugin_ok: "keeps plugin_ok (CreateAggregate a)"
proof (rule keepsI)
  fix w r w' assume run: "CreateAggregate a w = (r, w')" and ok: "plugin_ok (w_db w)"
  show "plugin_ok (w_db w')"
  proof (cases r)
    case (Inl e)
    with run have "w_db w' = w_db w"
      by (auto simp: CreateAggregate_def Let_def fail_iff dest!: transaction_Inl_db split: if_splits)
    with ok show ?thesis by simp
  next
    case (Inr u)
    with run ok show ?thesis
      by (auto simp: CreateAggregate_def Let_def prog_iff create_plugin_def create_repository_def
          plugin_exists_image namespace_exists_image split: if_splits
          intro!: plugin_ok_new_aggregate)
  qed
qed

text \<open>Updates of Plugins and versions.\<close>

lemma keys_update_where:
  assumes "\<And>x. k (f x) = k x"
  shows "map k (update_where P f xs) = map k xs" "k ` set (update_where P f xs) = k ` set xs"
proof -
  show *: "map k (update_where P f xs) = map k xs" using assms by (simp add: update_where_def)
  show "k ` set (update_where P f xs) = k ` set xs" by (simp add: * flip: set_map)
qed

lemma plugin_ok_update_plugins:
  assumes ok: "plugin_ok d" and f: "keeps_identity f"
    and new: "\<forall>p \<in> set (plugins d). P p \<longrightarrow> chk_plugin (f p) \<and> default_available d (f p)"
  shows "plugin_ok (d\<lparr>plugins := update_where P f (plugins d)\<rparr>)"
proof -
  let ?d = "d\<lparr>plugins := update_where P f (plugins d)\<rparr>"
  have ids: "map plg_ID (plugins ?d) = map plg_ID (plugins d)" "plg_ID ` set (plugins ?d) = plg_ID ` set (plugins d)"
    "map (\<lambda>p. (plg_NamespaceID p, plg_Slug p)) (plugins ?d) = map (\<lambda>p. (plg_NamespaceID p, plg_Slug p)) (plugins d)"
    using f by (simp_all add: keys_update_where keeps_identity_def)
  have "default_available ?d q = default_available d q" for q by (rule default_available_versions) simp
  then have "\<forall>p \<in> set (plugins ?d). chk_plugin p \<and> default_available ?d p \<and> plg_NamespaceID p \<in> ns_ID ` set (namespaces d)"
    using ok f new by (auto simp: plugin_ok_def plugins_ok_def set_update_where keeps_identity_def)
  with ok ids show ?thesis unfolding plugin_ok_defs by simp
qed

lemma default_available_same_tag:
  "plg_DefaultVersionTag q = plg_DefaultVersionTag p \<Longrightarrow> plg_ID q = plg_ID p \<Longrightarrow> default_available d q = default_available d p"
  by (simp add: default_available_def split: option.split)

lemma keeps_update_plugins_plugin_ok:
  assumes "keeps_identity f" "\<not> b \<Longrightarrow> \<forall>p. plg_DefaultVersionTag (f p) = plg_DefaultVersionTag p"
  shows "keeps plugin_ok (update_plugins b P f)"
  unfolding update_plugins_def
proof (rule keeps_update_rows, unfold set_plugins_def)
  fix d assume ok: "plugin_ok d" and chk: "\<forall>p \<in> set (plugins d). P p \<longrightarrow> chk_plugin (f p) \<and> (b \<longrightarrow> default_available d (f p))"
  have "default_available d (f p)" if "p \<in> set (plugins d)" "P p" for p
  proof (cases b)
    case False
    then have "default_available d (f p) = default_available d p"
      using assms by (intro default_available_same_tag) (auto simp: keeps_identity_def)
    then show ?thesis using ok that by (simp add: plugin_ok_def plugins_ok_def)
  qed (use chk that in blast)
  with ok assms(1) chk show "plugin_ok (d\<lparr>plugins := update_where P f (plugins d)\<rparr>)"
    by (intro plugin_ok_update_plugins) auto
qed

lemma plugin_ok_change_versions:
  assumes ok: "plugin_ok d" and f: "keeps_version_identity f"
    and new: "\<forall>v \<in> set (versions d). P v \<longrightarrow> chk_version (f v)"
    and default: "\<forall>p \<in> set (plugins d). default_available (d\<lparr>versions := update_where P f (versions d)\<rparr>) p"
  shows "plugin_ok (d\<lparr>versions := update_where P f (versions d)\<rparr>)"
proof -
  let ?d = "d\<lparr>versions := update_where P f (versions d)\<rparr>"
  have ids: "map ver_ID (versions ?d) = map ver_ID (versions d)"
    "map (\<lambda>v. (ver_PluginID v, ver_Tag v)) (versions ?d) = map (\<lambda>v. (ver_PluginID v, ver_Tag v)) (versions d)"
    using f by (simp_all add: keys_update_where keeps_version_identity_def)
  have "\<forall>v \<in> set (versions ?d). chk_version v \<and> ver_PluginID v \<in> plg_ID ` set (plugins d)"
    using ok f new by (auto simp: plugin_ok_def versions_ok_def set_update_where keeps_version_identity_def)
  with ok ids default show ?thesis unfolding plugin_ok_defs by simp
qed

lemma default_available_kept:
  assumes "default_available d p" "keeps_version_identity f"
    "\<forall>v. ver_Status (f v) = VersionStatusAvailable \<or> ver_Status (f v) = ver_Status v"
  shows "default_available (d\<lparr>versions := update_where P f (versions d)\<rparr>) p"
proof (cases "plg_DefaultVersionTag p")
  case (Some tag)
  with assms(1) obtain v where v: "v \<in> set (versions d)" "ver_PluginID v = plg_ID p" "ver_Tag v = tag" "ver_Status v = VersionStatusAvailable"
    by (auto simp: default_available_def)
  let ?v = "if P v then f v else v"
  have "?v \<in> set (update_where P f (versions d))" using v(1) by (auto simp: set_update_where)
  moreover have "ver_PluginID ?v = plg_ID p" "ver_Tag ?v = tag"
    using v(2,3) assms(2) by (simp_all add: keeps_version_identity_def)
  moreover have "ver_Status ?v = VersionStatusAvailable"
    using v(4) assms(3) [rule_format, of v] by (cases "P v") auto
  ultimately have "\<exists>u \<in> set (update_where P f (versions d)). ver_PluginID u = plg_ID p \<and> ver_Tag u = tag \<and>
      ver_Status u = VersionStatusAvailable" by blast
  then show ?thesis using Some by (simp add: default_available_def)
qed (simp add: default_available_def)

lemma keeps_update_versions_plugin_ok:
  assumes "keeps_version_identity f" "\<forall>v. ver_Status (f v) = VersionStatusAvailable \<or> ver_Status (f v) = ver_Status v"
  shows "keeps plugin_ok (update_versions P f)"
  unfolding update_versions_def
proof (rule keeps_update_rows, unfold set_versions_def)
  fix d assume ok: "plugin_ok d" and chk: "\<forall>v \<in> set (versions d). P v \<longrightarrow> chk_version (f v)"
  have "default_available (d\<lparr>versions := update_where P f (versions d)\<rparr>) p" if "p \<in> set (plugins d)" for p
    by (rule default_available_kept [OF _ assms]) (use ok that in \<open>simp add: plugin_ok_def plugins_ok_def\<close>)
  with ok chk show "plugin_ok (d\<lparr>versions := update_where P f (versions d)\<rparr>)"
    by (intro plugin_ok_change_versions [OF _ assms(1)]) auto
qed

lemma plugin_ok_new_version:
  assumes ok: "plugin_ok d" and u: "chk_version u" "ver_PluginID u \<in> plg_ID ` set (plugins d)" "ver_ID u \<notin> ver_ID ` set (versions d)"
    "(ver_PluginID u, ver_Tag u) \<notin> (\<lambda>v. (ver_PluginID v, ver_Tag v)) ` set (versions d)"
  shows "plugin_ok (d\<lparr>versions := versions d @ [u]\<rparr>)"
proof -
  have "default_available (d\<lparr>versions := versions d @ [u]\<rparr>) p" if "default_available d p" for p
    using that by (auto simp: default_available_def split: option.splits)
  with ok u show ?thesis unfolding plugin_ok_defs by auto
qed

lemma keeps_create_version_plugin_ok: "keeps plugin_ok (create_version v)"
  unfolding create_version_def
  by (intro keeps_bindE keeps_insert_row keeps_reads [OF reads_now] plugin_ok_new_version)
    (auto simp: plugin_exists_image)

lemma keeps_create_history_plugin_ok: "keeps plugin_ok (create_history h)"
proof -
  have "default_available (d\<lparr>version_history := x\<rparr>) p = default_available d p" for d x p
    by (rule default_available_versions) simp
  then show ?thesis
    unfolding create_history_def
    by (intro keeps_bindE keeps_insert_row keeps_reads [OF reads_now]) (auto simp: plugin_ok_defs plugin_exists_image)
qed

text \<open>
  The deletion of a version withdraws it from the default as well: between the two statements the
  default is not available, after both it is again.
\<close>

lemma commits_delete_version_plugin_ok: "commits plugin_ok (delete_version e i t)"
proof (rule commitsI)
  fix w x w' assume run: "delete_version e i t w = (Inr x, w')" and ok: "plugin_ok (w_db w)"
  let ?del = "\<lambda>v. v\<lparr>ver_Status := VersionStatusDeleted, ver_RawTagObjectID := None, ver_CommitSHA := None,
                 ver_ManifestDigest := None, ver_ManifestSnapshot := None, ver_DeletedAt := Some t, ver_UpdatedAt := t\<rparr>"
  let ?P = "\<lambda>p. plg_ID p = intent_PluginID i \<and> plg_DefaultVersionTag p = Some (intent_Tag i)"
  let ?clear = "\<lambda>p. p\<lparr>plg_DefaultVersionTag := None, plg_UpdatedAt := t\<rparr>"
  let ?d = "w_db w"
  let ?d1 = "?d\<lparr>versions := update_where (intent_version i) ?del (versions ?d)\<rparr>"
  let ?d2 = "?d1\<lparr>plugins := update_where ?P ?clear (plugins ?d1)\<rparr>"
  have d': "w_db w' = ?d2" and chk: "\<forall>p \<in> set (plugins ?d). ?P p \<longrightarrow> chk_plugin (?clear p)"
    using run by (auto simp: delete_version_def prog_iff update_versions_def update_plugins_def set_versions_def set_plugins_def)
  have default: "default_available ?d2 (if ?P p then ?clear p else p)" if p: "p \<in> set (plugins ?d)" for p
  proof (cases "plg_DefaultVersionTag p")
    case (Some tag)
    show ?thesis
    proof (cases "?P p")
      case False
      have "default_available ?d p" using ok p by (simp add: plugin_ok_def plugins_ok_def)
      then obtain v where v: "v \<in> set (versions ?d)" "ver_PluginID v = plg_ID p" "ver_Tag v = tag" "ver_Status v = VersionStatusAvailable"
        using Some by (auto simp: default_available_def)
      have "\<not> intent_version i v" using False Some v(2,3) by (auto simp: intent_version_def)
      then have "v \<in> set (versions ?d2)" using v(1) by (auto simp: set_update_where)
      with v(2-4) False Some show ?thesis by (auto simp: default_available_def)
    qed (simp add: default_available_def)
  qed (simp add: default_available_def)
  have plugins: "set (plugins ?d2) = (\<lambda>p. if ?P p then ?clear p else p) ` set (plugins ?d)" by (simp add: set_update_where)
  have keys: "map plg_ID (plugins ?d2) = map plg_ID (plugins ?d)" "plg_ID ` set (plugins ?d2) = plg_ID ` set (plugins ?d)"
    "map (\<lambda>p. (plg_NamespaceID p, plg_Slug p)) (plugins ?d2) = map (\<lambda>p. (plg_NamespaceID p, plg_Slug p)) (plugins ?d)"
    "map ver_ID (versions ?d2) = map ver_ID (versions ?d)"
    "map (\<lambda>v. (ver_PluginID v, ver_Tag v)) (versions ?d2) = map (\<lambda>v. (ver_PluginID v, ver_Tag v)) (versions ?d)"
    by (simp_all add: keys_update_where)
  have "\<forall>q \<in> set (plugins ?d2). chk_plugin q \<and> default_available ?d2 q \<and> plg_NamespaceID q \<in> ns_ID ` set (namespaces ?d2)"
  proof
    fix q assume "q \<in> set (plugins ?d2)"
    then obtain p where p: "p \<in> set (plugins ?d)" "q = (if ?P p then ?clear p else p)" unfolding plugins by blast
    have "default_available ?d2 q" using default [OF p(1)] p(2) by simp
    moreover have "chk_plugin q" using chk p ok by (simp add: plugin_ok_def plugins_ok_def)
    moreover have "plg_NamespaceID q = plg_NamespaceID p" using p(2) by simp
    then have "plg_NamespaceID q \<in> ns_ID ` set (namespaces ?d2)" using p(1) ok by (simp add: plugin_ok_def plugins_ok_def)
    ultimately show "chk_plugin q \<and> default_available ?d2 q \<and> plg_NamespaceID q \<in> ns_ID ` set (namespaces ?d2)" by blast
  qed
  moreover have "\<forall>v \<in> set (versions ?d2). chk_version v \<and> ver_PluginID v \<in> plg_ID ` set (plugins ?d2)"
    using ok unfolding keys(2) plugin_ok_def versions_ok_def by (auto simp: set_update_where chk_version_def)
  ultimately have "plugin_ok ?d2"
    using ok keys unfolding plugin_ok_defs by simp
  then show "plugin_ok (w_db w')" by (simp only: d')
qed

lemma keeps_create_orphan_cleanup_plugin_ok: "keeps plugin_ok (create_orphan_cleanup c)"
  unfolding create_orphan_cleanup_def
  by (intro keeps_bindE keeps_insert_row keeps_reads [OF reads_now]) (erule plugin_ok_frame, simp_all)

lemma receives_only_plugin_ok: "receives_only plugin_ok"
  unfolding receives_only_def
proof (intro allI impI)
  fix d d' assume f: "forget_receives d' = forget_receives d" and ok: "plugin_ok d"
  have tables: "t d' = t d" if "\<And>x. t (forget_receives x) = t x" for t :: "db \<Rightarrow> 'a" using f that by metis
  show "plugin_ok d'"
    by (rule plugin_ok_frame [OF ok]) (simp_all add: tables forget_receives_def)
qed

interpretation plg: plugin_store plugin_ok
  by unfold_locales
    (rule keeps_CreateAggregate_plugin_ok keeps_create_orphan_cleanup_plugin_ok keeps_update_plugins_plugin_ok keeps_create_version_plugin_ok
       keeps_update_versions_plugin_ok keeps_create_history_plugin_ok commits_delete_version_plugin_ok receives_onlyD [OF receives_only_plugin_ok]; assumption)+

end
