(* ===== verification/MarketplaceKey.thy ===== *)
theory MarketplaceKey imports Regex ReceiveCommands begin

text \<open>
  \<open>pkg/distributionservice/marketplace_public_key.go\<close>: the public key of a marketplace is its name
  in kebab case, cut to the room there is, with a random suffix of eight hexadecimal digits. The
  random source is a parameter: four bytes or an error.
\<close>

section \<open>Names in kebab case\<close>

definition MarketplacePublicKeyMaxLength :: nat where "MarketplacePublicKeyMaxLength = 128"
definition marketplacePublicKeySuffixSize :: nat where "marketplacePublicKeySuffixSize = 4"
definition marketplacePublicKeyNameMaxLen :: nat where
  "marketplacePublicKeyNameMaxLen = MarketplacePublicKeyMaxLength - marketplacePublicKeySuffixSize * 2 - 1"

text \<open>
  The loop over the runes of the name. The bytes of a rune that is not ASCII all take the default
  branch, so the loop may as well run over bytes.
\<close>

fun normalize_from :: "string \<Rightarrow> bool \<Rightarrow> string \<Rightarrow> string" where
  "normalize_from normalized separator [] = normalized"
| "normalize_from normalized separator (c # cs) =
     (if length normalized \<ge> marketplacePublicKeyNameMaxLen then normalized
      else
        (let dash = (if separator \<and> normalized \<noteq> [] then [CHR ''-''] else []) in
         if 65 \<le> byte c \<and> byte c \<le> 90
         then normalize_from (normalized @ dash @ [char_of (byte c + 32)]) False cs
         else if slug_char c then normalize_from (normalized @ dash @ [c]) False cs
         else normalize_from normalized (normalized \<noteq> []) cs))"

definition normalizeMarketplaceName :: "string \<Rightarrow> string" where
  "normalizeMarketplaceName name = normalize_from [] False name"

text \<open>\<open>strings.Trim(s, "-")\<close>\<close>

definition trim_dashes :: "string \<Rightarrow> string" where
  "trim_dashes s = rev (dropWhile (\<lambda>c. c = CHR ''-'') (rev (dropWhile (\<lambda>c. c = CHR ''-'') s)))"

text \<open>\<open>hex.EncodeToString\<close>\<close>

definition hex_EncodeToString :: "string \<Rightarrow> string" where
  "hex_EncodeToString s = concat (map (\<lambda>c. [hex_char (byte c div 16), hex_char (byte c mod 16)]) s)"

section \<open>Keys\<close>

text \<open>\<open>^[a-z0-9]+(?:-[a-z0-9]+)*-[0-9a-f]{8}$\<close>\<close>

primrec Times :: "nat \<Rightarrow> regex \<Rightarrow> regex" where
  "Times 0 r = Epsilon"
| "Times (Suc n) r = Seq r (Times n r)"

definition marketplacePublicKeyPattern :: regex where
  "marketplacePublicKeyPattern = Seq slugPattern (Seq (Lit CHR ''-'') (Times 8 (Class hex_digit)))"

definition ParseMarketplacePublicKey :: "string \<Rightarrow> err + string" where
  "ParseMarketplacePublicKey raw =
     (if length raw = 0 \<or> length raw > MarketplacePublicKeyMaxLength \<or> \<not> MatchString marketplacePublicKeyPattern raw
      then Inl (ErrNew ''marketplace public key must be canonical'') else Inr raw)"

definition newMarketplacePublicKey :: "string \<Rightarrow> err + string \<Rightarrow> err + string" where
  "newMarketplacePublicKey name randomness =
     (let normalized = normalizeMarketplaceName name in
      if normalized = [] then Inl (ErrNew ''marketplace name must contain an ASCII letter or digit'')
      else
        (let normalized =
               (if length normalized > marketplacePublicKeyNameMaxLen
                then trim_dashes (take marketplacePublicKeyNameMaxLen normalized) else normalized) in
         case randomness of
           Inl e \<Rightarrow> Inl (ErrNew ''generate marketplace public key randomness'')
         | Inr random \<Rightarrow> ParseMarketplacePublicKey (normalized @ ''-'' @ hex_EncodeToString random)))"

section \<open>Generated keys are canonical\<close>

lemma slug_language_word_append: "slug_language s \<Longrightarrow> slug_char c \<Longrightarrow> slug_language (s @ [c])"
proof (induction rule: slug_language.induct)
  case (word w)
  then show ?case by (intro slug_language.word) (simp add: slug_word_def)
next
  case (more w s)
  then show ?case using slug_language.more [of w "s @ [c]"] by simp
qed

lemma slug_language_dash_append: "slug_language s \<Longrightarrow> slug_char c \<Longrightarrow> slug_language (s @ CHR ''-'' # [c])"
proof (induction rule: slug_language.induct)
  case (word w)
  then show ?case by (intro slug_language.more slug_language.word) (simp_all add: slug_word_def)
next
  case (more w s)
  then show ?case using slug_language.more [of w "s @ CHR ''-'' # [c]"] by simp
qed

lemma lower_slug_char: "65 \<le> byte c \<Longrightarrow> byte c \<le> 90 \<Longrightarrow> slug_char (char_of (byte c + 32))"
  by (simp add: slug_char_def byte_def)

lemma normalize_from_language:
  "normalized = [] \<or> slug_language normalized \<Longrightarrow>
   normalize_from normalized separator cs = [] \<or> slug_language (normalize_from normalized separator cs)"
proof (induction normalized separator cs rule: normalize_from.induct)
  case (2 normalized separator c cs)
  let ?dash = "if separator \<and> normalized \<noteq> [] then [CHR ''-''] else []"
  have grown: "slug_language (normalized @ ?dash @ [d])" if "slug_char d" for d
    using 2(4) that slug_language_word_append slug_language_dash_append
    by (auto simp: slug_word_def intro: slug_language.word)
  show ?case
    using 2(1-3) 2(4) grown [OF lower_slug_char] grown [of c] by (simp add: Let_def)
qed simp

lemma normalize_from_grows: "length normalized \<le> length (normalize_from normalized separator cs)"
proof (induction normalized separator cs rule: normalize_from.induct)
  case (2 normalized separator c cs)
  then show ?case by (auto simp: Let_def)
qed simp

lemma normalize_from_empty: "normalize_from [] separator cs = [] \<longleftrightarrow> (\<forall>c \<in> set cs. \<not> alnum c)"
proof (induction cs arbitrary: separator)
  case (Cons c cs)
  have "marketplacePublicKeyNameMaxLen = 119"
    by (simp add: marketplacePublicKeyNameMaxLen_def MarketplacePublicKeyMaxLength_def marketplacePublicKeySuffixSize_def)
  moreover have "normalize_from [d] False cs \<noteq> []" for d
    using normalize_from_grows [of "[d]" False cs] by auto
  ultimately show ?case using Cons.IH by (simp add: Let_def alnum_def)
qed simp

text \<open>Cutting a kebab-case name and trimming the dash leaves a kebab-case name.\<close>

lemma dropWhile_dashes_word: "slug_char c \<Longrightarrow> dropWhile (\<lambda>c. c = CHR ''-'') (c # s) = c # s"
  using slug_char_not_dash by auto

lemma slug_language_starts: "slug_language s \<Longrightarrow> \<exists>c t. s = c # t \<and> slug_char c"
proof (induction rule: slug_language.induct)
  case (word w)
  then show ?case by (cases w) (auto simp: slug_word_def)
next
  case (more w s)
  from more(1) obtain c u where "w = c # u" "slug_char c" by (cases w) (auto simp: slug_word_def)
  then show ?case by simp
qed

definition trim_end :: "string \<Rightarrow> string" where
  "trim_end s = rev (dropWhile (\<lambda>c. c = CHR ''-'') (rev s))"

lemma trim_end_snoc: "slug_char c \<Longrightarrow> trim_end (s @ [c]) = s @ [c]"
  using slug_char_not_dash by (auto simp: trim_end_def)

lemma trim_end_word: "slug_word w \<Longrightarrow> trim_end w = w"
  by (cases w rule: rev_cases) (auto simp: slug_word_def trim_end_snoc)

lemma trim_end_append: "trim_end t \<noteq> [] \<Longrightarrow> trim_end (s @ t) = s @ trim_end t"
  by (auto simp: trim_end_def dropWhile_append)

lemma take_slug_language: "slug_language s \<Longrightarrow> 0 < n \<Longrightarrow> slug_language (trim_end (take n s))"
proof (induction arbitrary: n rule: slug_language.induct)
  case (word w)
  then have "slug_word (take n w)" by (auto simp: slug_word_def list_all_iff dest: in_set_takeD)
  then show ?case by (simp add: trim_end_word slug_language.word)
next
  case (more w s)
  show ?case
  proof (cases "n \<le> length w")
    case True
    with more.prems more.hyps(1) have "slug_word (take n w)" by (auto simp: slug_word_def list_all_iff dest: in_set_takeD)
    with True show ?thesis by (simp add: trim_end_word slug_language.word)
  next
    case False
    then obtain m where n: "n = length w + Suc m" by (metis less_imp_Suc_add linorder_not_le add_Suc_right)
    show ?thesis
    proof (cases "m = 0")
      case True
      have "trim_end (w @ [CHR ''-'']) = w" using trim_end_word [OF more.hyps(1)] by (simp add: trim_end_def)
      with True n more.hyps(1) show ?thesis by (simp add: slug_language.word)
    next
      case False
      have tail: "slug_language (trim_end (take m s))" using more.IH False by simp
      then have "trim_end (take m s) \<noteq> []" using slug_language_starts by fastforce
      then have "trim_end ((w @ [CHR ''-'']) @ take m s) = (w @ [CHR ''-'']) @ trim_end (take m s)" by (rule trim_end_append)
      with n slug_language.more [OF more.hyps(1) tail] show ?thesis by simp
    qed
  qed
qed

lemma trim_dashes_take:
  assumes "slug_language s" "0 < n"
  shows "slug_language (trim_dashes (take n s)) \<and> length (trim_dashes (take n s)) \<le> n"
proof -
  from slug_language_starts [OF assms(1)] obtain c t where "s = c # t" "slug_char c" by blast
  with assms(2) have "dropWhile (\<lambda>c. c = CHR ''-'') (take n s) = take n s" by (cases n) (auto simp: slug_char_not_dash)
  then have "trim_dashes (take n s) = trim_end (take n s)" by (simp add: trim_dashes_def trim_end_def)
  moreover have "length (trim_end (take n s)) \<le> n"
    unfolding trim_end_def length_rev by (rule order.trans [OF length_dropWhile_le]) simp
  ultimately show ?thesis using take_slug_language [OF assms] by simp
qed

lemma hex_digit_hex_char: "n < 16 \<Longrightarrow> hex_digit (hex_char n)"
  by (auto simp: hex_digit_def hex_char_def byte_def)

lemma hex_EncodeToString_digits: "list_all hex_digit (hex_EncodeToString s)"
proof -
  have "byte c div 16 < 16" for c using byte_bound [of c] by (simp add: div_less_iff_less_mult)
  then show ?thesis by (auto simp: hex_EncodeToString_def list_all_iff intro!: hex_digit_hex_char)
qed

lemma length_hex_EncodeToString: "length (hex_EncodeToString s) = 2 * length s"
  by (induction s) (simp_all add: hex_EncodeToString_def)

lemma Times_lang: "regex_lang (Times n (Class p)) s \<longleftrightarrow> length s = n \<and> list_all p s"
proof (induction n arbitrary: s)
  case (Suc n)
  have "(\<exists>t u. s = t @ u \<and> (\<exists>c. t = [c] \<and> p c) \<and> length u = n \<and> list_all p u) \<longleftrightarrow> length s = Suc n \<and> list_all p s"
  proof (cases s)
    case (Cons c cs)
    then show ?thesis by (auto intro: exI [of _ "[c]"])
  qed auto
  then show ?case by (simp add: regex_lang_simps(3,4) Suc.IH)
qed (auto simp: regex_lang_simps)

lemma public_key_lang:
  "MatchString marketplacePublicKeyPattern raw \<longleftrightarrow>
     (\<exists>name suffix. raw = name @ ''-'' @ suffix \<and> slug_language name \<and> length suffix = 8 \<and> list_all hex_digit suffix)"
proof -
  have slug: "regex_lang slugPattern s \<longleftrightarrow> slug_language s" for s
    by (metis MatchString_iff slugPattern_iff canonical_slug_iff_language)
  show ?thesis
    unfolding MatchString_iff marketplacePublicKeyPattern_def regex_lang_simps(4) [of slugPattern]
      regex_lang_simps(4) [of "Lit CHR ''-''"] regex_lang_simps(3) slug Times_lang
    by fastforce
qed

end
