(* ===== verification/DistributionDao.thy ===== *)
theory DistributionDao imports ReceiveDao MarketplaceKey begin

text \<open>
  \<open>mod/backend/domain/distribution\<close>, \<open>gorm_publication_repository.go\<close> and \<open>gorm_repository.go\<close>: the
  statements that publish marketplace revisions and those that resolve what is served, with the
  keys and references that \<open>model.go\<close> gives the tables.
\<close>

section \<open>Creation of records\<close>

text \<open>
  An insertion of several rows in one statement: the first row that violates a constraint rejects
  them all. \<open>refs\<close> and \<open>uniq\<close> are asked of each row after the ones before it.
\<close>

fun add_rows :: "(db \<Rightarrow> 'r \<Rightarrow> bool) \<Rightarrow> (db \<Rightarrow> 'r \<Rightarrow> bool) \<Rightarrow> ('r \<Rightarrow> db \<Rightarrow> db) \<Rightarrow> 'r list \<Rightarrow> db \<Rightarrow> err + db" where
  "add_rows refs uniq add [] d = Inr d"
| "add_rows refs uniq add (r # rs) d =
     (if \<not> refs d r then Inl constraint_violation
      else if \<not> uniq d r then Inl unique_violation
      else add_rows refs uniq add rs (add r d))"

definition insert_rows :: "(db \<Rightarrow> 'r \<Rightarrow> bool) \<Rightarrow> (db \<Rightarrow> 'r \<Rightarrow> bool) \<Rightarrow> ('r \<Rightarrow> db \<Rightarrow> db) \<Rightarrow> 'r list \<Rightarrow> unit prog" where
  "insert_rows refs uniq add rows =
     statement (\<lambda>d. case add_rows refs uniq add rows d of Inl e \<Rightarrow> (Inl e, d) | Inr d' \<Rightarrow> (Inr (), d'))"

definition template_exists :: "db \<Rightarrow> string \<Rightarrow> bool" where
  "template_exists d tid \<longleftrightarrow> (\<exists>t \<in> set (marketplace_templates d). tmpl_ID t = tid)"

definition revision_exists :: "db \<Rightarrow> string \<Rightarrow> bool" where
  "revision_exists d rid \<longleftrightarrow> (\<exists>r \<in> set (marketplace_revisions d). rev_ID r = rid)"

definition distribution_exists :: "db \<Rightarrow> string \<Rightarrow> bool" where
  "distribution_exists d did \<longleftrightarrow> (\<exists>m \<in> set (marketplace_distributions d). mdist_ID m = did)"

text \<open>The reference of a distribution to its projection names both keys of the projection.\<close>

definition projection_exists :: "db \<Rightarrow> string option \<Rightarrow> string \<Rightarrow> bool" where
  "projection_exists d pid did \<longleftrightarrow>
     (case pid of None \<Rightarrow> True
      | Some i \<Rightarrow> \<exists>p \<in> set (distribution_projections d). proj_ID p = i \<and> proj_MarketplaceDistributionID p = did)"

definition CreatePluginDistribution :: "plugin_distribution_row \<Rightarrow> unit prog" where
  "CreatePluginDistribution r =
     bindE now (\<lambda>t.
     insert_row
       (\<lambda>d. template_exists d (pdist_TemplateID r) \<and> plugin_exists d (pdist_PluginID r) \<and>
            (\<exists>q \<in> set (repositories d). repo_ID q = pdist_RepositoryID r))
       (\<lambda>d. \<forall>q \<in> set (plugin_distributions d). pdist_ID q \<noteq> pdist_ID r \<and> pdist_StorageKey q \<noteq> pdist_StorageKey r \<and>
            (pdist_TemplateID q, pdist_PluginID q, pdist_PluginTag q) \<noteq> (pdist_TemplateID r, pdist_PluginID r, pdist_PluginTag r))
       (\<lambda>d. d\<lparr>plugin_distributions := plugin_distributions d @
          [r\<lparr>pdist_CreatedAt := stamp t (pdist_CreatedAt r), pdist_UpdatedAt := stamp t (pdist_UpdatedAt r)\<rparr>]\<rparr>))"

text \<open>
  A conflict of public keys is recognised by the name of its index in the message of the driver; the
  other keys of the table are checked before it.
\<close>

definition public_key_violation :: err where
  "public_key_violation = DriverError ''UNIQUE constraint failed: marketplace_distributions.public_key''"

definition isMarketplacePublicKeyConflict :: "err \<Rightarrow> bool" where
  "isMarketplacePublicKeyConflict e =
     (case e of
        DriverError msg \<Rightarrow>
          (let m = map lower_byte msg in
           (strings_Contains m ''duplicate'' \<or> strings_Contains m ''unique'') \<and>
           (strings_Contains m ''uidx_marketplace_distribution_public_key'' \<or>
            strings_Contains m ''marketplace_distributions_public_key_key'' \<or>
            strings_Contains m ''marketplace_distributions.public_key''))
      | _ \<Rightarrow> False)"

definition insert_distribution :: "marketplace_distribution_row \<Rightarrow> db \<Rightarrow> (err + unit) \<times> db" where
  "insert_distribution r d =
     (if \<not> template_exists d (mdist_TemplateID r) \<or> \<not> projection_exists d (mdist_CurrentProjectionID r) (mdist_ID r)
      then (Inl constraint_violation, d)
      else if \<exists>q \<in> set (marketplace_distributions d). mdist_ID q = mdist_ID r \<or> mdist_TemplateID q = mdist_TemplateID r
      then (Inl unique_violation, d)
      else if \<exists>q \<in> set (marketplace_distributions d). mdist_PublicKey q = mdist_PublicKey r
      then (Inl public_key_violation, d)
      else (Inr (), d\<lparr>marketplace_distributions := marketplace_distributions d @ [r]\<rparr>))"

definition CreateMarketplaceDistribution :: "marketplace_distribution_row \<Rightarrow> unit prog" where
  "CreateMarketplaceDistribution r =
     bindE now (\<lambda>t.
     map_error (\<lambda>e. if isMarketplacePublicKeyConflict e then ErrMarketplacePublicKeyConflict else e)
       (statement (insert_distribution
          (r\<lparr>mdist_CreatedAt := stamp t (mdist_CreatedAt r), mdist_UpdatedAt := stamp t (mdist_UpdatedAt r)\<rparr>))))"

definition create_revision :: "revision_row \<Rightarrow> unit prog" where
  "create_revision r =
     bindE now (\<lambda>t.
     insert_row (\<lambda>d. template_exists d (rev_TemplateID r))
       (\<lambda>d. \<forall>q \<in> set (marketplace_revisions d). rev_ID q \<noteq> rev_ID r \<and>
            (rev_TemplateID q, rev_Revision q) \<noteq> (rev_TemplateID r, rev_Revision r))
       (\<lambda>d. d\<lparr>marketplace_revisions := marketplace_revisions d @ [r\<lparr>rev_CreatedAt := stamp t (rev_CreatedAt r)\<rparr>]\<rparr>))"

definition create_items :: "revision_item_row list \<Rightarrow> unit prog" where
  "create_items items =
     bindE now (\<lambda>t.
     insert_rows (\<lambda>d i. revision_exists d (item_RevisionID i) \<and> plugin_exists d (item_PluginID i))
       (\<lambda>d i. \<forall>j \<in> set (revision_items d). item_ID j \<noteq> item_ID i \<and>
            (item_RevisionID j, item_PluginID j) \<noteq> (item_RevisionID i, item_PluginID i))
       (\<lambda>i d. d\<lparr>revision_items := revision_items d @ [i\<lparr>item_CreatedAt := stamp t (item_CreatedAt i)\<rparr>]\<rparr>) items)"

definition create_artifacts :: "artifact_row list \<Rightarrow> unit prog" where
  "create_artifacts arts =
     bindE now (\<lambda>t.
     insert_rows (\<lambda>d a. plugin_exists d (art_PluginID a))
       (\<lambda>d a. \<forall>b \<in> set (artifacts d). art_ID b \<noteq> art_ID a \<and> art_StorageKey b \<noteq> art_StorageKey a)
       (\<lambda>a d. d\<lparr>artifacts := artifacts d @
          [a\<lparr>art_CreatedAt := stamp t (art_CreatedAt a), art_UpdatedAt := stamp t (art_UpdatedAt a)\<rparr>]\<rparr>) arts)"

definition create_pointers :: "pointer_row list \<Rightarrow> unit prog" where
  "create_pointers ptrs =
     bindE now (\<lambda>t.
     insert_rows (\<lambda>d p. plugin_exists d (ptr_PluginID p) \<and> artifact_exists d (ptr_ArtifactID p))
       (\<lambda>d p. \<forall>q \<in> set (pointers d). ptr_ID q \<noteq> ptr_ID p \<and>
            (ptr_RevisionID q, ptr_PluginID q, ptr_Tag q) \<noteq> (ptr_RevisionID p, ptr_PluginID p, ptr_Tag p))
       (\<lambda>p d. d\<lparr>pointers := pointers d @ [p\<lparr>ptr_UpdatedAt := stamp t (ptr_UpdatedAt p)\<rparr>]\<rparr>) ptrs)"

definition create_projection :: "distribution_projection_row \<Rightarrow> unit prog" where
  "create_projection p =
     bindE now (\<lambda>t.
     insert_row (\<lambda>d. distribution_exists d (proj_MarketplaceDistributionID p) \<and> revision_exists d (proj_RevisionID p))
       (\<lambda>d. \<forall>q \<in> set (distribution_projections d). proj_ID q \<noteq> proj_ID p \<and> proj_StorageKey q \<noteq> proj_StorageKey p \<and>
            (proj_MarketplaceDistributionID q, proj_RevisionID q) \<noteq> (proj_MarketplaceDistributionID p, proj_RevisionID p))
       (\<lambda>d. d\<lparr>distribution_projections := distribution_projections d @ [p\<lparr>proj_CreatedAt := stamp t (proj_CreatedAt p)\<rparr>]\<rparr>))"

definition CreateMarketplaceRevision ::
  "revision_row \<Rightarrow> revision_item_row list \<Rightarrow> distribution_projection_row \<Rightarrow> artifact_row list \<Rightarrow> pointer_row list \<Rightarrow> unit prog" where
  "CreateMarketplaceRevision r items projection arts ptrs =
     bindE (create_revision r) (\<lambda>_.
     bindE (if items = [] then return () else create_items items) (\<lambda>_.
     bindE (if arts = [] then return () else create_artifacts arts) (\<lambda>_.
     bindE (if ptrs = [] then return () else create_pointers ptrs) (\<lambda>_.
     create_projection projection))))"

section \<open>The pointers to what is served\<close>

definition set_templates :: "template_row list \<Rightarrow> db \<Rightarrow> db" where
  "set_templates rows d = d\<lparr>marketplace_templates := rows\<rparr>"

definition set_distributions :: "marketplace_distribution_row list \<Rightarrow> db \<Rightarrow> db" where
  "set_distributions rows d = d\<lparr>marketplace_distributions := rows\<rparr>"

definition exactly_one :: "nat prog \<Rightarrow> unit prog" where
  "exactly_one m = bindE m (\<lambda>n. if n \<noteq> 1 then fail ErrDistributionUnavailable else return ())"

definition SwitchMarketplacePointers :: "string \<Rightarrow> string \<Rightarrow> string \<Rightarrow> string \<Rightarrow> unit prog" where
  "SwitchMarketplacePointers templateID revisionID distributionID projectionID =
     bindE now (\<lambda>t.
     bindE (exactly_one (update_rows marketplace_templates set_templates (\<lambda>_ _. True) (\<lambda>x. tmpl_ID x = templateID)
              (\<lambda>x. x\<lparr>tmpl_PublishedRevisionID := Some revisionID, tmpl_UpdatedAt := t\<rparr>))) (\<lambda>_.
     bindE now (\<lambda>t.
     exactly_one (update_rows marketplace_distributions set_distributions
              (\<lambda>d m. projection_exists d (mdist_CurrentProjectionID m) (mdist_ID m))
              (\<lambda>m. mdist_ID m = distributionID \<and> mdist_TemplateID m = templateID)
              (\<lambda>m. m\<lparr>mdist_CurrentProjectionID := Some projectionID, mdist_UpdatedAt := t\<rparr>)))))"

section \<open>Lookups of a publication\<close>

record publication_version =
  pub_Version :: version_row
  pub_Plugin :: plugin_row
  pub_Repository :: repository_row

record publication_input =
  in_Template :: template_row
  in_Namespace :: namespace_row
  in_Versions :: "publication_version list"

definition mapPublicationLookupError :: "string \<Rightarrow> err \<Rightarrow> err" where
  "mapPublicationLookupError operation e =
     (if errors_Is e ErrRecordNotFound then ErrDistributionNotFound else Wrapped operation e)"

definition repositoryAllowsRead :: "repository_status \<Rightarrow> bool" where
  "repositoryAllowsRead s \<longleftrightarrow> s = RepositoryReady \<or> s = RepositoryReadOnly"

text \<open>The columns the join selects; the object of the tag and the time of deletion are not read.\<close>

definition publication_rows :: "db \<Rightarrow> string \<Rightarrow> string list \<Rightarrow> publication_version list" where
  "publication_rows d namespaceID ids =
     [\<lparr>pub_Version = v\<lparr>ver_RawTagObjectID := None, ver_DeletedAt := None\<rparr>, pub_Plugin = p, pub_Repository = r\<lparr>repo_ID := plg_ID p\<rparr>\<rparr>.
        v \<leftarrow> versions d, p \<leftarrow> plugins d, r \<leftarrow> repositories d,
        plg_ID p = ver_PluginID v \<and> plg_NamespaceID p = namespaceID \<and> repo_ID r = plg_ID p \<and> ver_ID v \<in> set ids \<and>
        ver_Status v = VersionStatusAvailable \<and> plg_Status p = PluginStatusActive \<and> repositoryAllowsRead (repo_Status r)]"

definition LoadPublicationInput :: "string \<Rightarrow> string list \<Rightarrow> publication_input prog" where
  "LoadPublicationInput templateID ids =
     bindE (map_error (mapPublicationLookupError ''load marketplace template'')
       (take_row (\<lambda>d. List.find (\<lambda>t. tmpl_ID t = templateID \<and> tmpl_Status t = StatusActive) (marketplace_templates d)))) (\<lambda>template.
     bindE (map_error (mapPublicationLookupError ''load marketplace namespace'')
       (take_row (\<lambda>d. List.find (\<lambda>n. ns_ID n = tmpl_NamespaceID template) (namespaces d)))) (\<lambda>namespace.
     bindE (map_error (Wrapped ''load scoped plugin versions'')
       (query (\<lambda>d. publication_rows d (tmpl_NamespaceID template) ids))) (\<lambda>rows.
     if length rows \<noteq> length ids then fail ErrDistributionNotFound
     else return \<lparr>in_Template = template, in_Namespace = namespace, in_Versions = rows\<rparr>)))"

definition not_found_or_wrapped :: "string \<Rightarrow> err \<Rightarrow> err" where
  "not_found_or_wrapped msg e = (if errors_Is e ErrRecordNotFound then ErrDistributionNotFound else Wrapped msg e)"

definition FindPluginDistribution :: "string \<Rightarrow> string \<Rightarrow> string \<Rightarrow> plugin_distribution_row prog" where
  "FindPluginDistribution templateID pluginID tag =
     map_error (not_found_or_wrapped ''find plugin distribution'')
       (take_row (\<lambda>d. List.find (\<lambda>r. pdist_TemplateID r = templateID \<and> pdist_PluginID r = pluginID \<and> pdist_PluginTag r = tag \<and>
                               pdist_Status r = StatusActive \<and> pdist_RevokedAt r = None) (plugin_distributions d)))"

definition FindMarketplaceDistribution :: "string \<Rightarrow> marketplace_distribution_row prog" where
  "FindMarketplaceDistribution templateID =
     map_error (not_found_or_wrapped ''find marketplace distribution'')
       (take_row (\<lambda>d. List.find (\<lambda>m. mdist_TemplateID m = templateID \<and> mdist_Status m = StatusActive \<and> mdist_RevokedAt m = None)
                        (marketplace_distributions d)))"

definition NextRevision :: "string \<Rightarrow> 64 word prog" where
  "NextRevision templateID =
     bindE (map_error (Wrapped ''select next marketplace revision'')
       (query (\<lambda>d. fold max (map rev_Revision (filter (\<lambda>r. rev_TemplateID r = templateID) (marketplace_revisions d))) 0)))
       (\<lambda>maximum. return (maximum + 1))"

definition FindMarketplaceProjectionByRevision :: "string \<Rightarrow> string \<Rightarrow> distribution_projection_row prog" where
  "FindMarketplaceProjectionByRevision distributionID revisionID =
     map_error (not_found_or_wrapped ''find marketplace projection'')
       (take_row (\<lambda>d. List.find (\<lambda>p. proj_MarketplaceDistributionID p = distributionID \<and> proj_RevisionID p = revisionID \<and>
                               proj_Status p = StatusActive) (distribution_projections d)))"

section \<open>Lookups of what is served\<close>

record marketplace_snapshot =
  snap_Distribution :: marketplace_distribution_row
  snap_Projection :: distribution_projection_row
  snap_Revision :: revision_row

text \<open>A distribution of an active template that anyone may see.\<close>

definition public_template :: "template_row \<Rightarrow> bool" where
  "public_template t \<longleftrightarrow> tmpl_Status t = StatusActive \<and> tmpl_Visibility t = VisibilityPublic"

definition findActiveMarketplace :: "(marketplace_distribution_row \<Rightarrow> bool) \<Rightarrow> marketplace_snapshot prog" where
  "findActiveMarketplace identity =
     transaction
       (bindE (map_error (not_found_or_wrapped ''resolve marketplace distribution'')
          (take_row (\<lambda>d. first_row [m. m \<leftarrow> marketplace_distributions d, t \<leftarrow> marketplace_templates d,
             tmpl_ID t = mdist_TemplateID m \<and> identity m \<and> mdist_Status m = StatusActive \<and> mdist_RevokedAt m = None \<and> public_template t]))) (\<lambda>m.
        case mdist_CurrentProjectionID m of
          None \<Rightarrow> fail ErrDistributionUnavailable
        | Some pid \<Rightarrow>
            if pid = [] then fail ErrDistributionUnavailable
            else
              bindE (map_error (\<lambda>e. if errors_Is e ErrRecordNotFound then ErrDistributionUnavailable else Wrapped ''resolve marketplace projection'' e)
                (take_row (\<lambda>d. List.find (\<lambda>p. proj_ID p = pid \<and> proj_MarketplaceDistributionID p = mdist_ID m \<and> proj_Status p = StatusActive)
                                 (distribution_projections d)))) (\<lambda>p.
              bindE (map_error (\<lambda>e. if errors_Is e ErrRecordNotFound then ErrDistributionUnavailable else Wrapped ''resolve marketplace revision'' e)
                (take_row (\<lambda>d. List.find (\<lambda>r. rev_ID r = proj_RevisionID p \<and> rev_TemplateID r = mdist_TemplateID m \<and> rev_Status r = StatusActive)
                                 (marketplace_revisions d)))) (\<lambda>r.
              if proj_ContentDigest p = [] \<or> proj_ContentDigest p \<noteq> rev_ContentDigest r then fail ErrDistributionUnavailable
              else return \<lparr>snap_Distribution = m, snap_Projection = p, snap_Revision = r\<rparr>))))"

definition FindActiveMarketplace :: "string \<Rightarrow> marketplace_snapshot prog" where
  "FindActiveMarketplace publicKey = findActiveMarketplace (\<lambda>m. mdist_PublicKey m = publicKey)"

definition FindActiveMarketplaceByID :: "string \<Rightarrow> marketplace_snapshot prog" where
  "FindActiveMarketplaceByID distributionID = findActiveMarketplace (\<lambda>m. mdist_ID m = distributionID)"

text \<open>The joins of \<open>FindActivePlugin\<close>.\<close>

definition disclosed :: "string \<Rightarrow> plugin_distribution_row \<Rightarrow> template_row \<Rightarrow> plugin_row \<Rightarrow> bool" where
  "disclosed did r t p \<longleftrightarrow>
     tmpl_ID t = pdist_TemplateID r \<and> plg_ID p = pdist_PluginID r \<and> plg_NamespaceID p = tmpl_NamespaceID t \<and>
     pdist_ID r = did \<and> pdist_Status r = StatusActive \<and> pdist_RevokedAt r = None \<and> public_template t \<and>
     (plg_Status p = PluginStatusActive \<or> plg_Status p = PluginStatusArchived) \<and> plg_Visibility p = VisibilityPublic"

definition served_item :: "plugin_distribution_row \<Rightarrow> template_row \<Rightarrow> revision_row \<Rightarrow> revision_item_row \<Rightarrow> bool" where
  "served_item r t mr i \<longleftrightarrow>
     tmpl_PublishedRevisionID t = Some (rev_ID mr) \<and> rev_TemplateID mr = tmpl_ID t \<and> rev_Status mr = StatusActive \<and>
     item_RevisionID i = rev_ID mr \<and> item_PluginDistributionID i = pdist_ID r \<and> item_PluginID i = pdist_PluginID r \<and>
     item_PluginTag i = pdist_PluginTag r"

definition served_source :: "plugin_distribution_row \<Rightarrow> plugin_row \<Rightarrow> revision_item_row \<Rightarrow> version_row \<Rightarrow> repository_row \<Rightarrow> bool" where
  "served_source r p i v q \<longleftrightarrow>
     ver_PluginID v = plg_ID p \<and> ver_Tag v = item_PluginTag i \<and> ver_Status v = VersionStatusAvailable \<and>
     repo_ID q = plg_ID p \<and> repo_ID q = pdist_RepositoryID r \<and> repositoryAllowsRead (repo_Status q)"

definition served_artifact :: "revision_item_row \<Rightarrow> version_row \<Rightarrow> pointer_row \<Rightarrow> artifact_row \<Rightarrow> bool" where
  "served_artifact i v ptr a \<longleftrightarrow>
     ptr_RevisionID ptr = item_RevisionID i \<and> ptr_PluginID ptr = item_PluginID i \<and> ptr_Tag ptr = item_PluginTag i \<and>
     ptr_Available ptr \<and> ptr_ArtifactID ptr = Some (art_ID a) \<and> art_Kind a = ArtifactKindPlugin \<and>
     art_State a = ArtifactStateReady \<and> art_StorageKey a \<noteq> [] \<and> art_PluginID a = ptr_PluginID ptr \<and> art_Tag a = ptr_Tag ptr \<and>
     art_RevisionID a = Some (ptr_RevisionID ptr) \<and> ver_CommitSHA v = Some (art_SourceCommitSHA a)"

definition served_rows :: "db \<Rightarrow> string \<Rightarrow> plugin_distribution_row list" where
  "served_rows d did =
     [r\<lparr>pdist_StorageKey := art_StorageKey a\<rparr>.
        r \<leftarrow> plugin_distributions d, t \<leftarrow> marketplace_templates d, p \<leftarrow> plugins d, disclosed did r t p,
        mr \<leftarrow> marketplace_revisions d, i \<leftarrow> revision_items d, served_item r t mr i,
        v \<leftarrow> versions d, q \<leftarrow> repositories d, served_source r p i v q,
        ptr \<leftarrow> pointers d, a \<leftarrow> artifacts d, served_artifact i v ptr a]"

definition deleted_rows :: "db \<Rightarrow> string \<Rightarrow> nat" where
  "deleted_rows d did =
     length [v. r \<leftarrow> plugin_distributions d, t \<leftarrow> marketplace_templates d, i \<leftarrow> revision_items d, v \<leftarrow> versions d,
        tmpl_ID t = pdist_TemplateID r \<and> item_PluginDistributionID i = pdist_ID r \<and> item_PluginID i = pdist_PluginID r \<and>
        item_PluginTag i = pdist_PluginTag r \<and> ver_PluginID v = item_PluginID i \<and> ver_Tag v = item_PluginTag i \<and>
        ver_Status v = VersionStatusDeleted \<and> pdist_ID r = did \<and> pdist_Status r = StatusActive \<and>
        pdist_RevokedAt r = None \<and> public_template t]"

definition FindActivePlugin :: "string \<Rightarrow> plugin_distribution_row prog" where
  "FindActivePlugin did =
     transaction
       (bindE (map_error (not_found_or_wrapped ''resolve plugin distribution identity'')
          (take_row (\<lambda>d. first_row [pdist_ID r. r \<leftarrow> plugin_distributions d, t \<leftarrow> marketplace_templates d, p \<leftarrow> plugins d, disclosed did r t p]))) (\<lambda>_.
        attempt (take_row (\<lambda>d. first_row (served_rows d did))) (\<lambda>res. case res of
          Inr r \<Rightarrow> return r
        | Inl e \<Rightarrow>
            if errors_Is e ErrRecordNotFound
            then bindE (map_error (Wrapped ''classify deleted plugin distribution'') (query (\<lambda>d. deleted_rows d did))) (\<lambda>n.
                 if n \<noteq> 0 then fail ErrDistributionGone else fail ErrDistributionUnavailable)
            else fail (Wrapped ''resolve plugin projection'' e))))"

section \<open>Lookups leave the database unchanged\<close>

lemma reads_publication_lookups [read_only]:
  "reads (LoadPublicationInput tid ids)" "reads (FindPluginDistribution tid pid tag)" "reads (FindMarketplaceDistribution tid)"
  "reads (NextRevision tid)" "reads (FindMarketplaceProjectionByRevision did rid)"
  unfolding LoadPublicationInput_def FindPluginDistribution_def FindMarketplaceDistribution_def NextRevision_def
    FindMarketplaceProjectionByRevision_def
  by (intro read_only)+

lemma reads_transaction [read_only]:
  assumes "reads m"
  shows "reads (transaction m)"
proof (rule readsI)
  fix w r w' assume run: "transaction m w = (r, w')"
  show "w_db w' = w_db w"
  proof (cases r)
    case (Inl e)
    with run show ?thesis by (simp add: transaction_Inl_db)
  next
    case (Inr x)
    with run readsD [OF assms] show ?thesis by (force simp: transaction_Inr_iff)
  qed
qed

lemma reads_served_lookups [read_only]:
  "reads (FindActiveMarketplace k)" "reads (FindActiveMarketplaceByID did)" "reads (FindActivePlugin did)"
  unfolding FindActiveMarketplace_def FindActiveMarketplaceByID_def findActiveMarketplace_def FindActivePlugin_def
  by (intro read_only)+

end
