(* ===== verification/MarketplaceJson.thy ===== *)
theory MarketplaceJson imports Regex Prelude begin

text \<open>
  \<open>pkg/marketplacejson/marketplace.go\<close>: the document a marketplace is published as, its validation,
  and its text: what \<open>encoding/json\<close> writes for these structs, field by field in their order, with
  the fields marked \<open>omitempty\<close> left out when they are empty.
\<close>

section \<open>Documents\<close>

record owner =
  own_Name :: string
  own_Email :: string
  own_URL :: string

record url_source =
  src_Source :: string
  src_URL :: string
  src_Ref :: string
  src_SHA :: string

record market_plugin =
  mp_Name :: string
  mp_Source :: url_source
  mp_Description :: string
  mp_Version :: string

text \<open>\<open>nil\<close> and an empty list of Plugins differ: \<open>None\<close> is \<open>nil\<close>.\<close>

record marketplace =
  mkt_Name :: string
  mkt_Owner :: owner
  mkt_Plugins :: "market_plugin list option"
  mkt_Description :: string
  mkt_Version :: string

definition URLSourceType :: string where "URLSourceType = ''url''"

definition lower_hex :: "char \<Rightarrow> bool" where
  "lower_hex c \<longleftrightarrow> 48 \<le> byte c \<and> byte c \<le> 57 \<or> 97 \<le> byte c \<and> byte c \<le> 102"

text \<open>\<open>^[0-9a-f]{40}$\<close>\<close>

definition commit_sha :: "string \<Rightarrow> bool" where
  "commit_sha s \<longleftrightarrow> length s = 40 \<and> list_all lower_hex s"

section \<open>Validation\<close>

fun validate_plugins :: "string list \<Rightarrow> market_plugin list \<Rightarrow> err option" where
  "validate_plugins seen [] = None"
| "validate_plugins seen (p # ps) =
     (if strings_TrimSpace (mp_Name p) = [] then Some (ErrNew ''plugin name is required'')
      else if mp_Name p \<in> set seen then Some (ErrNew ''plugin name is duplicated'')
      else if src_Source (mp_Source p) \<noteq> URLSourceType then Some (ErrNew ''plugin source must be url'')
      else if strings_TrimSpace (src_URL (mp_Source p)) = [] then Some (ErrNew ''plugin source URL is required'')
      else if strings_TrimSpace (src_Ref (mp_Source p)) = [] then Some (ErrNew ''plugin source ref is required'')
      else if \<not> commit_sha (src_SHA (mp_Source p)) then Some (ErrNew ''plugin source SHA must be a full lowercase commit SHA'')
      else validate_plugins (mp_Name p # seen) ps)"

definition marketplace_Validate :: "marketplace \<Rightarrow> err option" where
  "marketplace_Validate m =
     (if \<not> MatchString slugPattern (mkt_Name m) then Some (ErrNew ''marketplace name must be non-empty kebab-case'')
      else if strings_TrimSpace (own_Name (mkt_Owner m)) = [] then Some (ErrNew ''marketplace owner name is required'')
      else case mkt_Plugins m of
             None \<Rightarrow> Some (ErrNew ''marketplace plugins must be an array'')
           | Some ps \<Rightarrow> validate_plugins [] ps)"

section \<open>The text of a document\<close>

definition json_hex :: "nat \<Rightarrow> char" where
  "json_hex n = (if n < 10 then char_of (48 + n) else char_of (87 + n))"

text \<open>An ASCII byte: safe bytes stand for themselves; HTML characters and control bytes are escaped.\<close>

definition json_ascii :: "char \<Rightarrow> string" where
  "json_ascii c =
     (let b = byte c in
      if b = 34 \<or> b = 92 then [CHR 0x5C, c]
      else if b = 8 then [CHR 0x5C, CHR ''b'']
      else if b = 12 then [CHR 0x5C, CHR ''f'']
      else if b = 10 then [CHR 0x5C, CHR ''n'']
      else if b = 13 then [CHR 0x5C, CHR ''r'']
      else if b = 9 then [CHR 0x5C, CHR ''t'']
      else if b < 32 \<or> b = 60 \<or> b = 62 \<or> b = 38
      then [CHR 0x5C] @ ''u00'' @ [json_hex (b div 16), json_hex (b mod 16)]
      else [c])"

text \<open>
  The rune at the head of a string: an invalid byte becomes the replacement character, the line and
  paragraph separators U+2028 and U+2029 are escaped, any other rune is copied.
\<close>

definition json_rune :: "string \<Rightarrow> nat \<Rightarrow> string" where
  "json_rune s n =
     (if n = 1 then [CHR 0x5C] @ ''ufffd''
      else if take n s = [CHR 0xE2, CHR 0x80, CHR 0xA8] then [CHR 0x5C] @ ''u2028''
      else if take n s = [CHR 0xE2, CHR 0x80, CHR 0xA9] then [CHR 0x5C] @ ''u2029''
      else take n s)"

function json_body :: "string \<Rightarrow> string" where
  "json_body s =
     (case s of [] \<Rightarrow> []
      | c # cs \<Rightarrow> if byte c < 128 then json_ascii c @ json_body cs
                  else let n = rune_size (map byte s) in json_rune s n @ json_body (drop n s))"
  by pat_completeness auto
termination
  by (relation "measure length") (auto simp: rune_size_pos)

declare json_body.simps [simp del]

definition json_string :: "string \<Rightarrow> string" where
  "json_string s = [CHR 0x22] @ json_body s @ [CHR 0x22]"

text \<open>An object from its fields; \<open>omitempty\<close> drops the empty ones.\<close>

definition json_field :: "string \<Rightarrow> string \<Rightarrow> string" where
  "json_field name content = json_string name @ '':'' @ content"

primrec json_join :: "string list \<Rightarrow> string" where
  "json_join [] = []"
| "json_join (x # xs) = (if xs = [] then x else x @ '','' @ json_join xs)"

definition json_object :: "string list \<Rightarrow> string" where
  "json_object members = ''{'' @ json_join members @ ''}''"

definition omitempty :: "string \<Rightarrow> string \<Rightarrow> string list" where
  "omitempty name v = (if v = [] then [] else [json_field name (json_string v)])"

definition json_owner :: "owner \<Rightarrow> string" where
  "json_owner w =
     json_object ([json_field ''name'' (json_string (own_Name w))] @ omitempty ''email'' (own_Email w) @ omitempty ''url'' (own_URL w))"

definition json_source :: "url_source \<Rightarrow> string" where
  "json_source s =
     json_object ([json_field ''source'' (json_string (src_Source s)), json_field ''url'' (json_string (src_URL s))] @
                  omitempty ''ref'' (src_Ref s) @ omitempty ''sha'' (src_SHA s))"

definition json_plugin :: "market_plugin \<Rightarrow> string" where
  "json_plugin p =
     json_object ([json_field ''name'' (json_string (mp_Name p)), json_field ''source'' (json_source (mp_Source p))] @
                  omitempty ''description'' (mp_Description p) @ omitempty ''version'' (mp_Version p))"

definition json_marketplace :: "marketplace \<Rightarrow> string" where
  "json_marketplace m =
     json_object
       ([json_field ''name'' (json_string (mkt_Name m)), json_field ''owner'' (json_owner (mkt_Owner m)),
         json_field ''plugins'' (case mkt_Plugins m of None \<Rightarrow> ''null'' | Some ps \<Rightarrow> ''['' @ json_join (map json_plugin ps) @ '']'')] @
        omitempty ''description'' (mkt_Description m) @ omitempty ''version'' (mkt_Version m))"

definition marketplace_Marshal :: "marketplace \<Rightarrow> err + string" where
  "marketplace_Marshal m = (case marketplace_Validate m of Some e \<Rightarrow> Inl e | None \<Rightarrow> Inr (json_marketplace m))"

section \<open>What a published document satisfies\<close>

lemma validate_plugins_None:
  "validate_plugins seen ps = None \<longleftrightarrow>
     distinct (map mp_Name ps) \<and> set seen \<inter> mp_Name ` set ps = {} \<and>
     (\<forall>p \<in> set ps. strings_TrimSpace (mp_Name p) \<noteq> [] \<and> src_Source (mp_Source p) = URLSourceType \<and>
        strings_TrimSpace (src_URL (mp_Source p)) \<noteq> [] \<and> strings_TrimSpace (src_Ref (mp_Source p)) \<noteq> [] \<and>
        commit_sha (src_SHA (mp_Source p)))"
  by (induction seen ps rule: validate_plugins.induct) auto

lemma marketplace_Marshal_Inr:
  "marketplace_Marshal m = Inr text \<longleftrightarrow>
     canonical_slug (mkt_Name m) \<and> strings_TrimSpace (own_Name (mkt_Owner m)) \<noteq> [] \<and> text = json_marketplace m \<and>
     (\<exists>ps. mkt_Plugins m = Some ps \<and> validate_plugins [] ps = None)"
  by (auto simp: marketplace_Marshal_def marketplace_Validate_def slugPattern_iff split: option.splits if_splits)

end
