(* ===== verification/GoUrl.thy ===== *)
theory GoUrl imports GoStrings begin

text \<open>
  What the program uses of Go's \<open>net/url\<close> and \<open>net\<close>: \<open>url.Parse\<close> and \<open>URL.String\<close> for URLs that are
  a scheme and a host, \<open>URL.Hostname\<close>, \<open>URL.Port\<close> and \<open>net.ParseIP\<close>. The user information, the
  path and the fragment of a URL stay escaped here: every caller refuses a URL that has one.
\<close>

section \<open>Cutting strings\<close>

text \<open>\<open>strings.Cut(s, sep)\<close>: the parts before and after the first separator.\<close>

fun cut_at :: "char \<Rightarrow> string \<Rightarrow> string \<times> string" where
  "cut_at sep [] = ([], [])"
| "cut_at sep (c # cs) = (if c = sep then ([], cs) else (case cut_at sep cs of (a, b) \<Rightarrow> (c # a, b)))"

text \<open>The parts of a string before and from the last occurrence of a character, when it has one.\<close>

fun split_last :: "char \<Rightarrow> string \<Rightarrow> (string \<times> string) option" where
  "split_last sep [] = None"
| "split_last sep (c # cs) =
     (case split_last sep cs of
        Some (a, b) \<Rightarrow> Some (c # a, b)
      | None \<Rightarrow> if c = sep then Some ([], c # cs) else None)"

text \<open>The parts of a string before and from the first occurrence of a substring.\<close>

fun split_first :: "string \<Rightarrow> string \<Rightarrow> (string \<times> string) option" where
  "split_first t [] = (if t = [] then Some ([], []) else None)"
| "split_first t (c # cs) =
     (if prefix t (c # cs) then Some ([], c # cs)
      else case split_first t cs of None \<Rightarrow> None | Some (a, b) \<Rightarrow> Some (c # a, b))"

definition ascii_letter :: "char \<Rightarrow> bool" where
  "ascii_letter c \<longleftrightarrow> 65 \<le> byte c \<and> byte c \<le> 90 \<or> 97 \<le> byte c \<and> byte c \<le> 122"

definition ascii_digit :: "char \<Rightarrow> bool" where
  "ascii_digit c \<longleftrightarrow> 48 \<le> byte c \<and> byte c \<le> 57"

text \<open>\<open>ishex\<close>, \<open>unhex\<close> and the upper-case digits of \<open>escape\<close>\<close>

definition ishex :: "char \<Rightarrow> bool" where
  "ishex c \<longleftrightarrow> ascii_digit c \<or> 97 \<le> byte c \<and> byte c \<le> 102 \<or> 65 \<le> byte c \<and> byte c \<le> 70"

definition unhex :: "char \<Rightarrow> nat" where
  "unhex c = (if ascii_digit c then byte c - 48 else if 97 \<le> byte c then byte c - 87 else byte c - 55)"

definition upperhex :: "nat \<Rightarrow> char" where
  "upperhex n = (if n < 10 then char_of (48 + n) else char_of (55 + n))"

section \<open>Hosts\<close>

text \<open>\<open>shouldEscape(c, encodeHost)\<close>, which \<open>encodeZone\<close> shares\<close>

definition shouldEscape_host :: "char \<Rightarrow> bool" where
  "shouldEscape_host c \<longleftrightarrow>
     \<not> ascii_letter c \<and> \<not> ascii_digit c \<and> c \<notin> set ''!$&()*+,;=:[]<>-_.~'' \<and> byte c \<noteq> 39 \<and> byte c \<noteq> 34"

text \<open>
  \<open>unescape(s, encodeHost)\<close> and \<open>unescape(s, encodeZone)\<close>: a percent sign needs two digits. In a host
  only bytes that are not ASCII and the percent sign may be escaped; in a zone also a space and the
  bytes that need no escape.
\<close>

definition escape_allowed :: "bool \<Rightarrow> char \<Rightarrow> char \<Rightarrow> bool" where
  "escape_allowed zone a b \<longleftrightarrow>
     (let v = unhex a * 16 + unhex b in
      v = 37 \<or> (if zone then v = 32 \<or> \<not> shouldEscape_host (char_of v) else 8 \<le> unhex a))"

fun unescape_host :: "bool \<Rightarrow> string \<Rightarrow> string option" where
  "unescape_host zone [] = Some []"
| "unescape_host zone (c # cs) =
     (if byte c = 37
      then (case cs of
              a # b # rest \<Rightarrow>
                if ishex a \<and> ishex b \<and> escape_allowed zone a b
                then map_option ((#) (char_of (unhex a * 16 + unhex b))) (unescape_host zone rest) else None
            | _ \<Rightarrow> None)
      else if byte c < 128 \<and> shouldEscape_host c then None
      else map_option ((#) c) (unescape_host zone cs))"

definition escape_host :: "string \<Rightarrow> string" where
  "escape_host s =
     concat (map (\<lambda>c. if shouldEscape_host c then [CHR ''%'', upperhex (byte c div 16), upperhex (byte c mod 16)] else [c]) s)"

definition validOptionalPort :: "string \<Rightarrow> bool" where
  "validOptionalPort port \<longleftrightarrow> (case port of [] \<Rightarrow> True | c # cs \<Rightarrow> c = CHR '':'' \<and> list_all ascii_digit cs)"

definition parseHost :: "string \<Rightarrow> string option" where
  "parseHost host =
     (if prefix ''['' host
      then (case split_last CHR '']'' host of
              None \<Rightarrow> None
            | Some (inner, tail) \<Rightarrow>
                if \<not> validOptionalPort (tl tail) then None
                else (case split_first ''%25'' inner of
                        None \<Rightarrow> unescape_host False host
                      | Some (address, zone) \<Rightarrow>
                          (case (unescape_host False address, unescape_host True zone, unescape_host False tail) of
                             (Some a, Some z, Some t) \<Rightarrow> Some (a @ z @ t)
                           | _ \<Rightarrow> None)))
      else (case split_last CHR '':'' host of
              None \<Rightarrow> unescape_host False host
            | Some (_, port) \<Rightarrow> if validOptionalPort port then unescape_host False host else None))"

section \<open>URLs\<close>

record url =
  url_Scheme :: string
  url_User :: "string option"
  url_Host :: string
  url_Path :: string
  url_RawQuery :: string
  url_ForceQuery :: bool
  url_Fragment :: string

definition ctl_byte :: "char \<Rightarrow> bool" where
  "ctl_byte c \<longleftrightarrow> byte c < 32 \<or> byte c = 127"

text \<open>\<open>getScheme\<close>: no scheme and the whole string, a scheme and the rest, or an error.\<close>

fun get_scheme :: "string \<Rightarrow> string \<Rightarrow> (string \<times> string) option" where
  "get_scheme seen [] = Some ([], seen)"
| "get_scheme seen (c # cs) =
     (if ascii_letter c then get_scheme (seen @ [c]) cs
      else if ascii_digit c \<or> c \<in> set ''+-.''
      then (if seen = [] then Some ([], c # cs) else get_scheme (seen @ [c]) cs)
      else if c = CHR '':'' then (if seen = [] then None else Some (seen, cs))
      else Some ([], seen @ c # cs))"

text \<open>
  The query of the part after the scheme: a lone question mark at the end is no query but is
  remembered as \<open>ForceQuery\<close>.
\<close>

definition cut_query :: "string \<Rightarrow> string \<times> string \<times> bool" where
  "cut_query rest =
     (case cut_at CHR ''?'' rest of
        (before, after) \<Rightarrow> (before, after, CHR ''?'' \<in> set rest \<and> after = []))"

text \<open>\<open>parse\<close> of a string without fragment, with the scheme already split off and lower-cased\<close>

definition parse_rest :: "string \<Rightarrow> string \<Rightarrow> url option" where
  "parse_rest scheme rest =
     (case cut_query rest of (rest, query, force) \<Rightarrow>
        let base = \<lparr>url_Scheme = scheme, url_User = None, url_Host = [], url_Path = rest, url_RawQuery = query,
                    url_ForceQuery = force, url_Fragment = []\<rparr> in
        if \<not> prefix ''/'' rest
        then (if scheme \<noteq> [] then Some (base\<lparr>url_Path := []\<rparr>)
              else if CHR '':'' \<in> set (fst (cut_at CHR ''/'' rest)) then None else Some base)
        else if prefix ''//'' rest \<and> (scheme \<noteq> [] \<or> \<not> prefix ''///'' rest)
        then (let authority = takeWhile (\<lambda>c. c \<noteq> CHR ''/'') (drop 2 rest);
                  path = dropWhile (\<lambda>c. c \<noteq> CHR ''/'') (drop 2 rest);
                  (user, host) = (case split_last CHR ''@'' authority of None \<Rightarrow> (None, authority) | Some (u, h) \<Rightarrow> (Some u, tl h)) in
              map_option (\<lambda>h. base\<lparr>url_User := user, url_Host := h, url_Path := path\<rparr>) (parseHost host))
        else Some base)"

text \<open>
  An opaque URL has an empty host and path here; so has the URL \<open>http:\<close>. Both are refused for the
  missing host.
\<close>

definition url_Parse :: "string \<Rightarrow> url option" where
  "url_Parse raw =
     (case cut_at CHR ''#'' raw of (u, fragment) \<Rightarrow>
        if list_ex ctl_byte u then None
        else if u = ''*''
        then Some \<lparr>url_Scheme = [], url_User = None, url_Host = [], url_Path = u, url_RawQuery = [], url_ForceQuery = False,
                   url_Fragment = fragment\<rparr>
        else (case get_scheme [] u of
                None \<Rightarrow> None
              | Some (scheme, rest) \<Rightarrow> map_option (\<lambda>r. r\<lparr>url_Fragment := fragment\<rparr>) (parse_rest (map lower_byte scheme) rest)))"

text \<open>\<open>URL.String\<close> of a URL with a scheme and a host, without user information, path, query and fragment\<close>

definition url_String :: "url \<Rightarrow> string" where
  "url_String u = url_Scheme u @ ''://'' @ escape_host (url_Host u) @ (if url_ForceQuery u then ''?'' else [])"

text \<open>An HTTP URL that is a scheme and a host, the test of both services for an origin\<close>

definition origin_url :: "url \<Rightarrow> bool" where
  "origin_url u \<longleftrightarrow>
     (url_Scheme u = ''http'' \<or> url_Scheme u = ''https'') \<and> url_Host u \<noteq> [] \<and> url_User u = None \<and> url_Path u = [] \<and>
     url_RawQuery u = [] \<and> url_Fragment u = []"

section \<open>Host names and addresses\<close>

text \<open>\<open>splitHostPort\<close>, \<open>Hostname\<close> and \<open>Port\<close>\<close>

definition splitHostPort :: "string \<Rightarrow> string \<times> string" where
  "splitHostPort hostPort =
     (let (host, port) = (case split_last CHR '':'' hostPort of
                            None \<Rightarrow> (hostPort, [])
                          | Some (h, p) \<Rightarrow> if validOptionalPort p then (h, tl p) else (hostPort, [])) in
      (if prefix ''['' host \<and> suffix '']'' host then butlast (tl host) else host, port))"

text \<open>The dotted decimal part of an address\<close>

definition ipv4_field :: "string \<Rightarrow> bool" where
  "ipv4_field s \<longleftrightarrow> s \<noteq> [] \<and> length s \<le> 3 \<and> list_all ascii_digit s \<and> (hd s = CHR ''0'' \<longrightarrow> length s = 1) \<and>
     fold (\<lambda>c n. n * 10 + (byte c - 48)) s (0::nat) \<le> 255"

definition ipv4_valid :: "string \<Rightarrow> bool" where
  "ipv4_valid s \<longleftrightarrow> length (strings_Split CHR ''.'' s) = 4 \<and> list_all ipv4_field (strings_Split CHR ''.'' s)"

text \<open>
  The loop of \<open>parseIPv6\<close>: \<open>i\<close> bytes of the address are known, \<open>ellipsis\<close> tells whether \<open>::\<close> has been
  read. A group that is followed by a dot starts a dotted decimal tail.
\<close>

function parse_groups :: "nat \<Rightarrow> bool \<Rightarrow> string \<Rightarrow> bool" where
  "parse_groups i ellipsis s =
     (if 16 \<le> i then s = [] \<and> \<not> ellipsis
      else
        (let digits = takeWhile ishex s; rest = dropWhile ishex s in
         if length digits = 0 \<or> 4 < length digits then False
         else if rest = [] then (if i + 2 < 16 then ellipsis else \<not> ellipsis)
         else if hd rest = CHR ''.''
         then (ellipsis \<or> i = 12) \<and> i + 4 \<le> 16 \<and> ipv4_valid s \<and> (if i + 4 < 16 then ellipsis else \<not> ellipsis)
         else if hd rest \<noteq> CHR '':'' \<or> length rest = 1 then False
         else if hd (tl rest) = CHR '':''
         then (if ellipsis then False
               else if tl (tl rest) = [] then i + 2 < 16
               else parse_groups (i + 2) True (tl (tl rest)))
         else parse_groups (i + 2) ellipsis (tl rest)))"
  by pat_completeness auto
termination
  by (relation "measure (\<lambda>(i, _, _). 16 - i)") auto

definition ipv6_valid :: "string \<Rightarrow> bool" where
  "ipv6_valid s = (if prefix ''::'' s then drop 2 s = [] \<or> parse_groups 0 True (drop 2 s) else parse_groups 0 False s)"

text \<open>\<open>net.ParseIP(s) != nil\<close>: the first dot or colon decides the kind; an address with a zone is refused.\<close>

definition ParseIP_ok :: "string \<Rightarrow> bool" where
  "ParseIP_ok s =
     (case dropWhile (\<lambda>c. c \<notin> set ''.:%'') s of
        [] \<Rightarrow> False
      | c # _ \<Rightarrow> if c = CHR ''.'' then ipv4_valid s else if c = CHR '':'' then CHR ''%'' \<notin> set s \<and> ipv6_valid s else False)"

end
