(* ===== verification/PublicationService.thy ===== *)
theory PublicationService imports DistributionDao MarketplaceJson GoUrl ReceiveCoordinator begin

text \<open>
  \<open>mod/backend/domain/distribution/publication_service.go\<close> and \<open>access_service.go\<close>: a publication
  builds a projection of every Plugin version that has none, writes the document of the marketplace,
  and makes a new revision the published one; a rollback makes an earlier revision published again;
  the access service resolves public keys to what is served.

  Parameters are the projection builder, SHA-256, the parser of \<open>google/uuid\<close> (which returns the
  canonical text of an identifier) and the random bytes of the attempts to name a distribution.
\<close>

section \<open>Interfaces\<close>

record marketplace_projection =
  mpr_Projection :: projection
  mpr_DistributionSHA :: string
  mpr_ContentDigest :: string

record publisher =
  pub_Builder :: builder
  pub_BuildMarketplace :: "string \<Rightarrow> string \<Rightarrow> int \<Rightarrow> marketplace_projection prog"
  pub_SHA256 :: "string \<Rightarrow> string"
  pub_ParseUUID :: "string \<Rightarrow> string option"
  pub_Random :: "nat \<Rightarrow> err + string"

record publish_command =
  cmd_TemplateID :: string
  cmd_PluginVersionIDs :: "string list"
  cmd_Origin :: string
  cmd_PublishedAt :: int

record publish_result =
  res_DistributionID :: string
  res_PublicKey :: string
  res_RevisionID :: string
  res_ProjectionID :: string
  res_ContentJSON :: string
  res_ContentDigest :: string

definition uuid_Nil :: string where "uuid_Nil = ''00000000-0000-0000-0000-000000000000''"

definition marketplacePublicKeyCreateAttempts :: nat where "marketplacePublicKeyCreateAttempts = 3"

definition strings_TrimSuffix :: "string \<Rightarrow> string \<Rightarrow> string" where
  "strings_TrimSuffix s t = (if suffix t s then take (length s - length t) s else s)"

definition validateOrigin :: "string \<Rightarrow> err + string" where
  "validateOrigin raw =
     (case url_Parse raw of
        None \<Rightarrow> Inl (ErrNew ''origin must be an HTTP or HTTPS scheme and host only'')
      | Some u \<Rightarrow> if \<not> origin_url u then Inl (ErrNew ''origin must be an HTTP or HTTPS scheme and host only'')
                  else Inr (strings_TrimSuffix (url_String u) ''/''))"

text \<open>\<open>uuid.MustParse\<close> panics; a panic leaves a transaction like an error does.\<close>

definition uuid_panic :: err where "uuid_panic = ErrNew ''panic: uuid: Parse''"

definition mustUUID :: "publisher \<Rightarrow> string \<Rightarrow> string prog" where
  "mustUUID P raw = (case pub_ParseUUID P raw of None \<Rightarrow> fail uuid_panic | Some u \<Rightarrow> return u)"

definition compensate :: "publisher \<Rightarrow> projection list \<Rightarrow> unit prog" where
  "compensate P projections = forE (\<lambda>p. ignore_error (bld_Remove (pub_Builder P) p)) (rev projections)"

text \<open>Run a step; when it fails, remove the projections that were built and return the error. A panic passes by the removal.\<close>

definition compensating :: "publisher \<Rightarrow> projection list \<Rightarrow> 'a prog \<Rightarrow> 'a prog" where
  "compensating P projections m =
     attempt m (\<lambda>res. case res of Inr x \<Rightarrow> return x | Inl e \<Rightarrow>
       if e = uuid_panic then fail e else bindE (compensate P projections) (\<lambda>_. fail e))"

definition not_found :: "err \<Rightarrow> bool" where
  "not_found e \<longleftrightarrow> errors_Is e ErrDistributionNotFound \<or> errors_Is e ErrRecordNotFound"

section \<open>The Plugin versions of a publication\<close>

record publication_draft =
  dr_built :: "projection list"
  dr_new :: "plugin_distribution_row list"
  dr_plugins :: "market_plugin list"
  dr_items :: "revision_item_row list"

definition source_tag_text :: "source_tag_type \<Rightarrow> string" where
  "source_tag_text t =
     (case t of SourceTagLightweight \<Rightarrow> ''lightweight'' | SourceTagAnnotated \<Rightarrow> ''annotated'' | SourceTagNone \<Rightarrow> [])"

definition new_plugin_distribution ::
  "string \<Rightarrow> publish_command \<Rightarrow> publication_version \<Rightarrow> projection_result \<Rightarrow> plugin_distribution_row" where
  "new_plugin_distribution projectionID cmd s b =
     \<lparr>pdist_ID = projectionID, pdist_TemplateID = cmd_TemplateID cmd, pdist_PluginID = plg_ID (pub_Plugin s),
      pdist_PluginTag = ver_Tag (pub_Version s), pdist_RepositoryID = repo_ID (pub_Repository s), pdist_TagName = pr_TagName b,
      pdist_SourceTagType = source_tag_text (pr_SourceTagType b), pdist_SourceTagObjectID = pr_SourceTagObjectID b,
      pdist_SourceCommitSHA = pr_SourceCommitSHA b, pdist_SourceTreeSHA = pr_SourceTreeSHA b,
      pdist_DistributionSHA = pr_DistributionSHA b, pdist_StorageKey = snd (pr_Projection b),
      pdist_ContentDigest = pr_ContentDigest b, pdist_Status = StatusActive, pdist_CreatedAt = zero_time,
      pdist_UpdatedAt = zero_time, pdist_RevokedAt = None\<rparr>"

text \<open>Build the projection of a version that has no distribution yet.\<close>

definition build_distribution ::
  "publisher \<Rightarrow> publish_command \<Rightarrow> publication_version \<Rightarrow> projection list \<Rightarrow> (plugin_distribution_row \<times> projection) prog" where
  "build_distribution P cmd s built =
     bindE new_id (\<lambda>projectionID.
     bindE (bld_Build (pub_Builder P) \<lparr>bc_ProjectionID = projectionID, bc_RepositoryID = repo_ID (pub_Repository s),
              bc_TagName = ver_Tag (pub_Version s), bc_SourceObjectID = [], bc_PublishedAt = cmd_PublishedAt cmd\<rparr>)
       (\<lambda>(failure, b). case failure of
          Some e \<Rightarrow> bindE (compensate P built) (\<lambda>_. fail e)
        | None \<Rightarrow> return (new_plugin_distribution projectionID cmd s b, pr_Projection b)))"

text \<open>
  The distribution of a version, and the drafted one when it is new. A lookup that fails for another
  reason than a missing row ends the publication at once, before anything is removed.
\<close>

definition version_distribution ::
  "publisher \<Rightarrow> publish_command \<Rightarrow> publication_version \<Rightarrow> publication_draft \<Rightarrow> (plugin_distribution_row \<times> publication_draft) prog" where
  "version_distribution P cmd s dr =
     bindE (mustUUID P (plg_ID (pub_Plugin s))) (\<lambda>pluginID.
     attempt (FindPluginDistribution (cmd_TemplateID cmd) pluginID (ver_Tag (pub_Version s))) (\<lambda>res. case res of
       Inr found \<Rightarrow> return (found, dr)
     | Inl e \<Rightarrow>
         if \<not> not_found e then fail e
         else bindE (build_distribution P cmd s (dr_built dr)) (\<lambda>(created, projection).
                return (created, dr\<lparr>dr_built := dr_built dr @ [projection], dr_new := dr_new dr @ [created]\<rparr>))))"

definition plugin_source_url :: "string \<Rightarrow> string \<Rightarrow> string" where
  "plugin_source_url origin distributionID = origin @ ''/distribution/plugins/'' @ distributionID @ ''.git''"

definition listed_plugin :: "publication_version \<Rightarrow> string \<Rightarrow> plugin_distribution_row \<Rightarrow> market_plugin" where
  "listed_plugin s sourceURL r =
     \<lparr>mp_Name = plg_Slug (pub_Plugin s),
      mp_Source = \<lparr>src_Source = URLSourceType, src_URL = sourceURL, src_Ref = pdist_TagName r, src_SHA = pdist_DistributionSHA r\<rparr>,
      mp_Description = plg_Description (pub_Plugin s), mp_Version = strings_TrimPrefix (ver_Tag (pub_Version s)) ''v''\<rparr>"

definition drafted_item :: "string \<Rightarrow> publication_version \<Rightarrow> string \<Rightarrow> plugin_distribution_row \<Rightarrow> nat \<Rightarrow> revision_item_row" where
  "drafted_item iid s sourceURL r position =
     \<lparr>item_ID = iid, item_RevisionID = [], item_PluginID = plg_ID (pub_Plugin s), item_PluginTag = ver_Tag (pub_Version s),
      item_PluginDistributionID = pdist_ID r, item_SourceURL = sourceURL, item_DistributionSHA = pdist_DistributionSHA r,
      item_Position = int position, item_CreatedAt = zero_time\<rparr>"

definition draft_version ::
  "publisher \<Rightarrow> publish_command \<Rightarrow> string \<Rightarrow> nat \<Rightarrow> publication_version \<Rightarrow> publication_draft \<Rightarrow> publication_draft prog" where
  "draft_version P cmd origin position s dr =
     bindE (version_distribution P cmd s dr) (\<lambda>(r, dr).
     bindE (mustUUID P (pdist_ID r)) (\<lambda>distributionID.
     let sourceURL = plugin_source_url origin distributionID in
     bindE new_id (\<lambda>iid.
     return (dr\<lparr>dr_plugins := dr_plugins dr @ [listed_plugin s sourceURL r],
                dr_items := dr_items dr @ [drafted_item iid s sourceURL r position]\<rparr>))))"

primrec draft_versions ::
  "publisher \<Rightarrow> publish_command \<Rightarrow> string \<Rightarrow> nat \<Rightarrow> publication_version list \<Rightarrow> publication_draft \<Rightarrow> publication_draft prog" where
  "draft_versions P cmd origin position [] dr = return dr"
| "draft_versions P cmd origin position (s # ss) dr =
     bindE (draft_version P cmd origin position s dr) (\<lambda>dr. draft_versions P cmd origin (Suc position) ss dr)"

definition empty_draft :: publication_draft where
  "empty_draft = \<lparr>dr_built = [], dr_new = [], dr_plugins = [], dr_items = []\<rparr>"

text \<open>The order of \<open>sort.Slice\<close>. It is not stable, but equal names make the document invalid.\<close>

definition sorted_versions :: "publication_version list \<Rightarrow> publication_version list" where
  "sorted_versions = sort_key (\<lambda>s. (plg_Slug (pub_Plugin s), strings_TrimPrefix (ver_Tag (pub_Version s)) ''v''))"

section \<open>The distribution of a marketplace\<close>

definition new_distribution :: "string \<Rightarrow> string \<Rightarrow> string \<Rightarrow> marketplace_distribution_row" where
  "new_distribution did templateID publicKey =
     \<lparr>mdist_ID = did, mdist_TemplateID = templateID, mdist_PublicKey = publicKey, mdist_CurrentProjectionID = None,
      mdist_Status = StatusActive, mdist_CreatedAt = zero_time, mdist_UpdatedAt = zero_time, mdist_RevokedAt = None\<rparr>"

fun create_attempts :: "publisher \<Rightarrow> string \<Rightarrow> string \<Rightarrow> nat list \<Rightarrow> marketplace_distribution_row prog" where
  "create_attempts P templateID name [] = fail ErrMarketplacePublicKeyConflict"
| "create_attempts P templateID name (n # ns) =
     bindE (of_sum (newMarketplacePublicKey name (pub_Random P n))) (\<lambda>publicKey.
     bindE new_id (\<lambda>did.
     attempt (CreateMarketplaceDistribution (new_distribution did templateID publicKey)) (\<lambda>res. case res of
       Inr _ \<Rightarrow> return (new_distribution did templateID publicKey)
     | Inl e \<Rightarrow> if errors_Is e ErrMarketplacePublicKeyConflict then create_attempts P templateID name ns else fail e)))"

definition createMarketplaceDistribution :: "publisher \<Rightarrow> string \<Rightarrow> string \<Rightarrow> marketplace_distribution_row prog" where
  "createMarketplaceDistribution P templateID name = create_attempts P templateID name [0..<marketplacePublicKeyCreateAttempts]"

definition find_or_create_distribution :: "publisher \<Rightarrow> string \<Rightarrow> string \<Rightarrow> marketplace_distribution_row prog" where
  "find_or_create_distribution P templateID name =
     attempt (FindMarketplaceDistribution templateID) (\<lambda>res. case res of
       Inr r \<Rightarrow> return r
     | Inl e \<Rightarrow> if not_found e then createMarketplaceDistribution P templateID name else fail e)"

section \<open>Publication\<close>

definition drafted_artifact ::
  "string \<Rightarrow> string \<Rightarrow> publish_command \<Rightarrow> revision_item_row \<Rightarrow> plugin_distribution_row \<Rightarrow> artifact_row" where
  "drafted_artifact aid revisionID cmd i r =
     \<lparr>art_ID = aid, art_Kind = ArtifactKindPlugin, art_PluginID = item_PluginID i, art_Tag = item_PluginTag i,
      art_SourceObjectID = pdist_SourceTagObjectID r, art_SourceCommitSHA = pdist_SourceCommitSHA r,
      art_SourceTreeSHA = pdist_SourceTreeSHA r, art_RevisionID = Some revisionID, art_ContentDigest = pdist_ContentDigest r,
      art_DistributionSHA = pdist_DistributionSHA r, art_StorageKey = pdist_StorageKey r, art_State = ArtifactStateReady,
      art_SafeError = [], art_CreatedAt = cmd_PublishedAt cmd, art_UpdatedAt = cmd_PublishedAt cmd,
      art_ReadyAt = Some (cmd_PublishedAt cmd)\<rparr>"

definition drafted_pointer :: "string \<Rightarrow> string \<Rightarrow> string \<Rightarrow> publish_command \<Rightarrow> revision_item_row \<Rightarrow> pointer_row" where
  "drafted_pointer pid revisionID aid cmd i =
     \<lparr>ptr_ID = pid, ptr_RevisionID = revisionID, ptr_PluginID = item_PluginID i, ptr_Tag = item_PluginTag i,
      ptr_ArtifactID = Some aid, ptr_Generation = 1, ptr_Available = True, ptr_UpdatedAt = cmd_PublishedAt cmd\<rparr>"

text \<open>The distribution an item names: a drafted one, or the one in the table.\<close>

definition item_distribution ::
  "publisher \<Rightarrow> publish_command \<Rightarrow> projection list \<Rightarrow> plugin_distribution_row list \<Rightarrow> revision_item_row \<Rightarrow> plugin_distribution_row prog" where
  "item_distribution P cmd built drafted i =
     (case List.find (\<lambda>r. pdist_ID r = item_PluginDistributionID i \<and> pdist_ID r \<noteq> []) drafted of
        Some r \<Rightarrow> return r
      | None \<Rightarrow>
          bindE (mustUUID P (item_PluginID i)) (\<lambda>pluginID.
          compensating P built (FindPluginDistribution (cmd_TemplateID cmd) pluginID (item_PluginTag i))))"

definition draft_artifact ::
  "publisher \<Rightarrow> publish_command \<Rightarrow> projection list \<Rightarrow> plugin_distribution_row list \<Rightarrow> string \<Rightarrow> revision_item_row \<Rightarrow>
   (artifact_row \<times> pointer_row) prog" where
  "draft_artifact P cmd built drafted revisionID i =
     bindE (item_distribution P cmd built drafted i) (\<lambda>r.
     bindE new_id (\<lambda>aid.
     bindE new_id (\<lambda>pid.
     return (drafted_artifact aid revisionID cmd i r, drafted_pointer pid revisionID aid cmd i))))"

definition document :: "publication_input \<Rightarrow> market_plugin list \<Rightarrow> marketplace" where
  "document input ps =
     \<lparr>mkt_Name = tmpl_Slug (in_Template input),
      mkt_Owner = \<lparr>own_Name = ns_DisplayName (in_Namespace input), own_Email = [], own_URL = []\<rparr>,
      mkt_Plugins = Some ps, mkt_Description = tmpl_Description (in_Template input), mkt_Version = []\<rparr>"

definition new_revision :: "string \<Rightarrow> publish_command \<Rightarrow> 64 word \<Rightarrow> string \<Rightarrow> string \<Rightarrow> revision_row" where
  "new_revision rid cmd number content digest =
     \<lparr>rev_ID = rid, rev_TemplateID = cmd_TemplateID cmd, rev_Revision = number, rev_ContentJSON = content,
      rev_ContentDigest = digest, rev_Status = StatusActive, rev_PublishedAt = cmd_PublishedAt cmd, rev_CreatedAt = zero_time\<rparr>"

definition new_projection :: "string \<Rightarrow> string \<Rightarrow> string \<Rightarrow> marketplace_projection \<Rightarrow> distribution_projection_row" where
  "new_projection pid did rid m =
     \<lparr>proj_ID = pid, proj_MarketplaceDistributionID = did, proj_RevisionID = rid, proj_StorageKey = snd (mpr_Projection m),
      proj_DistributionSHA = mpr_DistributionSHA m, proj_ContentDigest = mpr_ContentDigest m, proj_Status = StatusActive,
      proj_CreatedAt = zero_time\<rparr>"

definition store_publication ::
  "publisher \<Rightarrow> plugin_distribution_row list \<Rightarrow> revision_row \<Rightarrow> revision_item_row list \<Rightarrow> distribution_projection_row \<Rightarrow>
   artifact_row list \<Rightarrow> pointer_row list \<Rightarrow> unit prog" where
  "store_publication P drafted r items p arts ptrs =
     transaction
       (bindE (forE CreatePluginDistribution drafted) (\<lambda>_.
        bindE (CreateMarketplaceRevision r items p arts ptrs) (\<lambda>_.
        bindE (mustUUID P (proj_MarketplaceDistributionID p)) (\<lambda>did.
        SwitchMarketplacePointers (rev_TemplateID r) (rev_ID r) did (proj_ID p)))))"

text \<open>A new revision with this document, published by a distribution\<close>

definition publish_revision ::
  "publisher \<Rightarrow> publish_command \<Rightarrow> publication_draft \<Rightarrow> string \<Rightarrow> marketplace_distribution_row \<Rightarrow> publish_result prog" where
  "publish_revision P cmd dr content m =
     (let digest = hex_EncodeToString (pub_SHA256 P content) in
      bindE (case ParseMarketplacePublicKey (mdist_PublicKey m) of
               Inl _ \<Rightarrow> bindE (compensate P (dr_built dr)) (\<lambda>_. fail ErrDistributionUnavailable)
             | Inr k \<Rightarrow> return k) (\<lambda>publicKey.
      bindE (compensating P (dr_built dr) (NextRevision (cmd_TemplateID cmd))) (\<lambda>number.
      bindE new_id (\<lambda>revisionID.
      bindE new_id (\<lambda>projectionID.
      bindE (compensating P (dr_built dr) (pub_BuildMarketplace P projectionID content (cmd_PublishedAt cmd))) (\<lambda>mp.
      let built = dr_built dr @ [mpr_Projection mp];
          items = map (\<lambda>i. i\<lparr>item_RevisionID := revisionID\<rparr>) (dr_items dr) in
      bindE (mapE (draft_artifact P cmd built (dr_new dr) revisionID) items) (\<lambda>drafts.
      bindE (compensating P built
               (store_publication P (dr_new dr) (new_revision revisionID cmd number content digest) items
                  (new_projection projectionID (mdist_ID m) revisionID mp) (map fst drafts) (map snd drafts))) (\<lambda>_.
      bindE (mustUUID P (mdist_ID m)) (\<lambda>distributionID.
      return \<lparr>res_DistributionID = distributionID, res_PublicKey = publicKey, res_RevisionID = revisionID,
              res_ProjectionID = projectionID, res_ContentJSON = content, res_ContentDigest = digest\<rparr>)))))))))"

text \<open>The part of a publication after its document is written\<close>

definition publish_document ::
  "publisher \<Rightarrow> publish_command \<Rightarrow> publication_input \<Rightarrow> publication_draft \<Rightarrow> string \<Rightarrow> publish_result prog" where
  "publish_document P cmd input dr content =
     bindE (compensating P (dr_built dr)
              (find_or_create_distribution P (cmd_TemplateID cmd) (tmpl_Name (in_Template input))))
       (publish_revision P cmd dr content)"

definition PublicationService_Publish :: "publisher \<Rightarrow> publish_command \<Rightarrow> publish_result prog" where
  "PublicationService_Publish P cmd =
     bindE (of_sum (validateOrigin (cmd_Origin cmd))) (\<lambda>origin.
     if cmd_TemplateID cmd = uuid_Nil \<or> cmd_PluginVersionIDs cmd = [] \<or> cmd_PublishedAt cmd = zero_time
     then fail (ErrNew ''template, plugin versions, and publication time are required'')
     else
       bindE (LoadPublicationInput (cmd_TemplateID cmd) (cmd_PluginVersionIDs cmd)) (\<lambda>input.
       bindE (draft_versions P cmd origin 0 (sorted_versions (in_Versions input)) empty_draft) (\<lambda>dr.
       case marketplace_Marshal (document input (dr_plugins dr)) of
         Inl e \<Rightarrow> bindE (compensate P (dr_built dr)) (\<lambda>_. fail e)
       | Inr content \<Rightarrow> publish_document P cmd input dr content)))"

section \<open>Rollback\<close>

definition Rollback :: "publisher \<Rightarrow> string \<Rightarrow> string \<Rightarrow> unit prog" where
  "Rollback P distributionID revisionID =
     bindE (FindMarketplaceProjectionByRevision distributionID revisionID) (\<lambda>p.
     bindE (map_error (Wrapped ''verify rollback projection'')
              (bld_Verify (pub_Builder P) (Some ArtifactKindMarketplace, proj_StorageKey p) (proj_ContentDigest p))) (\<lambda>_.
     bindE (FindActiveMarketplaceByID distributionID) (\<lambda>s.
     bindE (mustUUID P (mdist_TemplateID (snap_Distribution s))) (\<lambda>templateID.
     transaction
       (bindE (mustUUID P (proj_ID p)) (\<lambda>projectionID.
        SwitchMarketplacePointers templateID revisionID distributionID projectionID))))))"

section \<open>Access\<close>

record plugin_grant =
  pg_DistributionID :: string
  pg_Projection :: projection

record marketplace_grant =
  mg_DistributionID :: string
  mg_PublicKey :: string
  mg_RevisionID :: string
  mg_Projection :: projection
  mg_ContentJSON :: string
  mg_ContentDigest :: string

definition ResolvePlugin :: "string \<Rightarrow> plugin_grant prog" where
  "ResolvePlugin did =
     bindE (FindActivePlugin did) (\<lambda>r.
     return \<lparr>pg_DistributionID = did, pg_Projection = (Some ArtifactKindPlugin, pdist_StorageKey r)\<rparr>)"

definition ResolveMarketplace :: "publisher \<Rightarrow> string \<Rightarrow> marketplace_grant prog" where
  "ResolveMarketplace P publicKey =
     bindE (map_error (\<lambda>_. ErrDistributionNotFound) (of_sum (ParseMarketplacePublicKey publicKey))) (\<lambda>_.
     bindE (FindActiveMarketplace publicKey) (\<lambda>s.
     case pub_ParseUUID P (mdist_ID (snap_Distribution s)) of
       None \<Rightarrow> fail ErrDistributionUnavailable
     | Some distributionID \<Rightarrow>
         if mdist_PublicKey (snap_Distribution s) \<noteq> publicKey then fail ErrDistributionUnavailable
         else (case pub_ParseUUID P (rev_ID (snap_Revision s)) of
                 None \<Rightarrow> fail ErrDistributionUnavailable
               | Some revisionID \<Rightarrow>
                   return \<lparr>mg_DistributionID = distributionID, mg_PublicKey = publicKey, mg_RevisionID = revisionID,
                           mg_Projection = (Some ArtifactKindMarketplace, proj_StorageKey (snap_Projection s)),
                           mg_ContentJSON = rev_ContentJSON (snap_Revision s), mg_ContentDigest = rev_ContentDigest (snap_Revision s)\<rparr>)))"

end
