(* ===== verification/MarketInvariant.thy ===== *)
theory MarketInvariant imports PublicationService PluginContract begin

text \<open>
  What a publication and a rollback do to the tables of marketplaces, for every outcome, and the
  invariant of these tables: unique keys, and every projection belongs to a revision of the template
  of its distribution and carries the digest of its content.
\<close>

section \<open>The statements of a publication\<close>

lemma compensating_Inr: "compensating P b m w = (Inr x, w') \<longleftrightarrow> m w = (Inr x, w')"
  by (auto simp: compensating_def prog_iff)

lemma of_sum_Inr: "of_sum r w = (Inr x, w') \<longleftrightarrow> r = Inr x \<and> w' = w"
  by (auto simp: of_sum_iff)

lemma add_rows_Inr: "add_rows refs uniq add rs d = Inr d' \<Longrightarrow> d' = fold add rs d"
  by (induction rs arbitrary: d) (auto split: if_splits)

lemma insert_rows_Inr:
  "insert_rows refs uniq add rs w = (Inr u, w') \<longleftrightarrow>
     \<not> next_fault (w_faults w) \<and>
     (\<exists>d. add_rows refs uniq add rs (w_db w) = Inr d \<and> w' = w\<lparr>w_db := d, w_faults := tl (w_faults w)\<rparr>)"
  by (auto simp: insert_rows_def statement_def split: sum.splits)

lemma fold_append_items:
  "fold (\<lambda>i d. d\<lparr>revision_items := revision_items d @ [g i]\<rparr>) rs d = d\<lparr>revision_items := revision_items d @ map g rs\<rparr>"
  by (induction rs arbitrary: d) simp_all

lemma fold_append_artifacts:
  "fold (\<lambda>a d. d\<lparr>artifacts := artifacts d @ [g a]\<rparr>) rs d = d\<lparr>artifacts := artifacts d @ map g rs\<rparr>"
  by (induction rs arbitrary: d) simp_all

lemma fold_append_pointers:
  "fold (\<lambda>a d. d\<lparr>pointers := pointers d @ [g a]\<rparr>) rs d = d\<lparr>pointers := pointers d @ map g rs\<rparr>"
  by (induction rs arbitrary: d) simp_all

text \<open>The tables of marketplaces\<close>

definition market_tables ::
  "db \<Rightarrow> template_row list \<times> revision_row list \<times> marketplace_distribution_row list \<times> distribution_projection_row list" where
  "market_tables d = (marketplace_templates d, marketplace_revisions d, marketplace_distributions d, distribution_projections d)"

lemma statements_market_tables:
  "create_items is w = (Inr u, w') \<Longrightarrow> market_tables (w_db w') = market_tables (w_db w)"
  "create_artifacts as w = (Inr u, w') \<Longrightarrow> market_tables (w_db w') = market_tables (w_db w)"
  "create_pointers ps w = (Inr u, w') \<Longrightarrow> market_tables (w_db w') = market_tables (w_db w)"
  "CreatePluginDistribution r w = (Inr u, w') \<Longrightarrow> market_tables (w_db w') = market_tables (w_db w)"
  by (auto simp: create_items_def create_artifacts_def create_pointers_def CreatePluginDistribution_def market_tables_def
      insert_rows_Inr fold_append_items fold_append_artifacts fold_append_pointers prog_iff dest!: add_rows_Inr)

lemma create_revision_Inr:
  assumes "create_revision r w = (Inr u, w')"
  shows "template_exists (w_db w) (rev_TemplateID r) \<and> rev_ID r \<notin> rev_ID ` set (marketplace_revisions (w_db w)) \<and>
         w_db w' = (w_db w)\<lparr>marketplace_revisions := marketplace_revisions (w_db w) @
           [r\<lparr>rev_CreatedAt := stamp (w_clock w (w_ticks w)) (rev_CreatedAt r)\<rparr>]\<rparr>"
  using assms by (auto simp: create_revision_def bindE_Inr_iff now_iff insert_row_Inr_iff)

lemma create_projection_Inr:
  assumes "create_projection p w = (Inr u, w')"
  shows "distribution_exists (w_db w) (proj_MarketplaceDistributionID p) \<and>
         (\<forall>q \<in> set (distribution_projections (w_db w)). proj_ID q \<noteq> proj_ID p \<and>
            (proj_MarketplaceDistributionID q, proj_RevisionID q) \<noteq> (proj_MarketplaceDistributionID p, proj_RevisionID p)) \<and>
         w_db w' = (w_db w)\<lparr>distribution_projections := distribution_projections (w_db w) @
           [p\<lparr>proj_CreatedAt := stamp (w_clock w (w_ticks w)) (proj_CreatedAt p)\<rparr>]\<rparr>"
  using assms by (auto simp: create_projection_def bindE_Inr_iff now_iff insert_row_Inr_iff)

lemma CreateMarketplaceRevision_tables:
  assumes "CreateMarketplaceRevision r is p as ps w = (Inr u, w')"
  obtains t t' where
    "template_exists (w_db w) (rev_TemplateID r)" "rev_ID r \<notin> rev_ID ` set (marketplace_revisions (w_db w))"
    "distribution_exists (w_db w) (proj_MarketplaceDistributionID p)"
    "\<forall>q \<in> set (distribution_projections (w_db w)). proj_ID q \<noteq> proj_ID p \<and>
       (proj_MarketplaceDistributionID q, proj_RevisionID q) \<noteq> (proj_MarketplaceDistributionID p, proj_RevisionID p)"
    "market_tables (w_db w') =
       (marketplace_templates (w_db w), marketplace_revisions (w_db w) @ [r\<lparr>rev_CreatedAt := t\<rparr>], marketplace_distributions (w_db w),
        distribution_projections (w_db w) @ [p\<lparr>proj_CreatedAt := t'\<rparr>])"
proof -
  from assms obtain w1 w2 w3 w4 where
    c: "create_revision r w = (Inr (), w1)" "(if is = [] then return () else create_items is) w1 = (Inr (), w2)"
      "(if as = [] then return () else create_artifacts as) w2 = (Inr (), w3)"
      "(if ps = [] then return () else create_pointers ps) w3 = (Inr (), w4)" "create_projection p w4 = (Inr u, w')"
    by (auto simp: CreateMarketplaceRevision_def bindE_Inr_iff)
  from c(2-4) have same: "market_tables (w_db w4) = market_tables (w_db w1)"
    by (auto simp: return_iff split: if_splits dest!: statements_market_tables)
  note rev = create_revision_Inr [OF c(1)] and proj = create_projection_Inr [OF c(5)]
  show ?thesis
    using rev proj same
    by (intro that [of "stamp (w_clock w (w_ticks w)) (rev_CreatedAt r)" "stamp (w_clock w4 (w_ticks w4)) (proj_CreatedAt p)"])
      (auto simp: market_tables_def distribution_exists_def)
qed

lemma forE_CreatePluginDistribution_tables:
  "forE CreatePluginDistribution rs w = (Inr u, w') \<Longrightarrow> market_tables (w_db w') = market_tables (w_db w)"
  by (induction rs arbitrary: w) (auto simp: prog_iff dest: statements_market_tables)

text \<open>A switch of the pointers that succeeds changes one template and one distribution.\<close>

lemma exactly_one_Inr: "exactly_one m w = (Inr u, w') \<longleftrightarrow> m w = (Inr 1, w')"
  by (auto simp: exactly_one_def prog_iff split: if_splits)

lemma SwitchMarketplacePointers_tables:
  assumes "SwitchMarketplacePointers tid rid did pid w = (Inr u, w')"
  obtains t t' where
    "count_where (\<lambda>x. tmpl_ID x = tid) (marketplace_templates (w_db w)) = 1"
    "count_where (\<lambda>m. mdist_ID m = did \<and> mdist_TemplateID m = tid) (marketplace_distributions (w_db w)) = 1"
    "projection_exists (w_db w) (Some pid) did"
    "w_db w' = (w_db w)\<lparr>
       marketplace_templates := update_where (\<lambda>x. tmpl_ID x = tid)
         (\<lambda>x. x\<lparr>tmpl_PublishedRevisionID := Some rid, tmpl_UpdatedAt := t\<rparr>) (marketplace_templates (w_db w)),
       marketplace_distributions := update_where (\<lambda>m. mdist_ID m = did \<and> mdist_TemplateID m = tid)
         (\<lambda>m. m\<lparr>mdist_CurrentProjectionID := Some pid, mdist_UpdatedAt := t'\<rparr>) (marketplace_distributions (w_db w))\<rparr>"
proof -
  let ?P = "\<lambda>x. tmpl_ID x = tid" and ?Q = "\<lambda>m. mdist_ID m = did \<and> mdist_TemplateID m = tid"
  define t where "t = w_clock w (w_ticks w)"
  from assms obtain w1 where
    one: "update_rows marketplace_templates set_templates (\<lambda>_ _. True) ?P (\<lambda>x. x\<lparr>tmpl_PublishedRevisionID := Some rid, tmpl_UpdatedAt := t\<rparr>)
            (w\<lparr>w_ticks := Suc (w_ticks w)\<rparr>) = (Inr 1, w1)" and
    two: "update_rows marketplace_distributions set_distributions (\<lambda>d m. projection_exists d (mdist_CurrentProjectionID m) (mdist_ID m)) ?Q
            (\<lambda>m. m\<lparr>mdist_CurrentProjectionID := Some pid, mdist_UpdatedAt := w_clock w1 (w_ticks w1)\<rparr>)
            (w1\<lparr>w_ticks := Suc (w_ticks w1)\<rparr>) = (Inr 1, w')"
    by (auto simp: SwitchMarketplacePointers_def exactly_one_Inr bindE_Inr_iff now_iff t_def)
  have t1: "count_where ?P (marketplace_templates (w_db w)) = 1" and
    d1: "w_db w1 = set_templates (update_where ?P (\<lambda>x. x\<lparr>tmpl_PublishedRevisionID := Some rid, tmpl_UpdatedAt := t\<rparr>) (marketplace_templates (w_db w))) (w_db w)"
    using one by (auto simp: update_rows_Inr_iff)
  have t2: "count_where ?Q (marketplace_distributions (w_db w1)) = 1" and
    ok: "\<forall>m \<in> set (marketplace_distributions (w_db w1)). ?Q m \<longrightarrow> projection_exists (w_db w1) (Some pid) did" and
    d2: "w_db w' = set_distributions (update_where ?Q (\<lambda>m. m\<lparr>mdist_CurrentProjectionID := Some pid, mdist_UpdatedAt := w_clock w1 (w_ticks w1)\<rparr>)
           (marketplace_distributions (w_db w1))) (w_db w1)"
    using two by (auto simp: update_rows_Inr_iff)
  from t2 have "\<exists>m \<in> set (marketplace_distributions (w_db w1)). ?Q m"
    using count_where_pos_iff [of ?Q] by (metis zero_less_one)
  with ok d1 have "projection_exists (w_db w) (Some pid) did" by (auto simp: projection_exists_def set_templates_def)
  with t1 t2 d1 d2 show ?thesis
    by (intro that [of "w_clock w1 (w_ticks w1)" t]) (simp_all add: set_templates_def set_distributions_def)
qed

section \<open>The invariant\<close>

text \<open>
  A projection of a distribution shows one revision of its template and has its digest; the current
  projection of a distribution is one of its own, and shows the revision that its template names as
  published: the two pointers never diverge.
\<close>

definition shows_revision :: "revision_row list \<Rightarrow> marketplace_distribution_row list \<Rightarrow> distribution_projection_row \<Rightarrow> bool" where
  "shows_revision rs ms p \<longleftrightarrow>
     (\<exists>m \<in> set ms. \<exists>r \<in> set rs. mdist_ID m = proj_MarketplaceDistributionID p \<and> rev_ID r = proj_RevisionID p \<and>
        rev_TemplateID r = mdist_TemplateID m \<and> proj_ContentDigest p = rev_ContentDigest r \<and> proj_ContentDigest p \<noteq> [])"

definition pointers_agree :: "template_row list \<Rightarrow> distribution_projection_row list \<Rightarrow> marketplace_distribution_row \<Rightarrow> bool" where
  "pointers_agree ts ps m \<longleftrightarrow>
     (\<forall>pid. mdist_CurrentProjectionID m = Some pid \<longrightarrow>
        (\<exists>p \<in> set ps. \<exists>t \<in> set ts. proj_ID p = pid \<and> proj_MarketplaceDistributionID p = mdist_ID m \<and>
           tmpl_ID t = mdist_TemplateID m \<and> tmpl_PublishedRevisionID t = Some (proj_RevisionID p)))"

text \<open>A public key is in the form that requests are checked against.\<close>

definition public_key_ok :: "string \<Rightarrow> bool" where
  "public_key_ok k \<longleftrightarrow> ParseMarketplacePublicKey k = Inr k"

fun market_tables_ok where
  "market_tables_ok (ts, rs, ms, ps) \<longleftrightarrow>
     distinct (map tmpl_ID ts) \<and> distinct (map rev_ID rs) \<and> distinct (map mdist_ID ms) \<and> distinct (map mdist_TemplateID ms) \<and>
     distinct (map mdist_PublicKey ms) \<and> distinct (map proj_ID ps) \<and>
     distinct (map (\<lambda>p. (proj_MarketplaceDistributionID p, proj_RevisionID p)) ps) \<and>
     (\<forall>m \<in> set ms. public_key_ok (mdist_PublicKey m)) \<and>
     (\<forall>p \<in> set ps. shows_revision rs ms p) \<and> (\<forall>m \<in> set ms. pointers_agree ts ps m)"

definition market_ok :: "db \<Rightarrow> bool" where
  "market_ok d \<longleftrightarrow> market_tables_ok (market_tables d)"

lemma market_ok_same: "market_tables d' = market_tables d \<Longrightarrow> market_ok d' = market_ok d"
  by (simp add: market_ok_def)

text \<open>A new distribution shows nothing yet.\<close>

lemma market_tables_add_distribution:
  assumes "market_tables_ok (ts, rs, ms, ps)" "mdist_CurrentProjectionID m = None" "public_key_ok (mdist_PublicKey m)"
    "\<forall>q \<in> set ms. mdist_ID q \<noteq> mdist_ID m \<and> mdist_TemplateID q \<noteq> mdist_TemplateID m \<and> mdist_PublicKey q \<noteq> mdist_PublicKey m"
  shows "market_tables_ok (ts, rs, ms @ [m], ps)"
proof -
  have "shows_revision rs (ms @ [m]) p" if "p \<in> set ps" for p
    using that assms(1) by (fastforce simp: shows_revision_def)
  moreover have "pointers_agree ts ps m" using assms(2) by (simp add: pointers_agree_def)
  ultimately show ?thesis using assms by auto
qed

lemma keeps_market_CreateMarketplaceDistribution:
  assumes "mdist_CurrentProjectionID m = None" "public_key_ok (mdist_PublicKey m)"
  shows "keeps market_ok (CreateMarketplaceDistribution m)"
proof -
  have step: "market_ok (snd (insert_distribution r d))" if "market_ok d" "mdist_CurrentProjectionID r = None" "public_key_ok (mdist_PublicKey r)" for r d
    using that market_tables_add_distribution [of "marketplace_templates d" "marketplace_revisions d" "marketplace_distributions d"
        "distribution_projections d" r]
    by (auto simp: insert_distribution_def market_ok_def market_tables_def)
  have "keeps market_ok (statement (insert_distribution r))" if "mdist_CurrentProjectionID r = None" "public_key_ok (mdist_PublicKey r)" for r
    using step [OF _ that] unfolding keeps_def statement_def
    by (auto split: prod.splits) (metis snd_conv)
  then show ?thesis
    unfolding CreateMarketplaceDistribution_def using assms by (intro stable_progs keeps_reads [OF reads_now]) simp_all
qed

text \<open>A revision and its projection\<close>

lemma market_tables_add_revision:
  assumes ok: "market_tables_ok (ts, rs, ms, ps)"
    and new: "rev_ID r \<notin> rev_ID ` set rs"
      "\<forall>q \<in> set ps. proj_ID q \<noteq> proj_ID p \<and>
         (proj_MarketplaceDistributionID q, proj_RevisionID q) \<noteq> (proj_MarketplaceDistributionID p, proj_RevisionID p)"
    and p: "m \<in> set ms" "mdist_ID m = proj_MarketplaceDistributionID p" "rev_TemplateID r = mdist_TemplateID m"
      "proj_RevisionID p = rev_ID r" "proj_ContentDigest p = rev_ContentDigest r" "proj_ContentDigest p \<noteq> []"
  shows "market_tables_ok (ts, rs @ [r], ms, ps @ [p])"
proof -
  have "shows_revision (rs @ [r]) ms q" if "q \<in> set ps" for q
    using that ok by (fastforce simp: shows_revision_def)
  moreover have "shows_revision (rs @ [r]) ms p" using p by (auto simp: shows_revision_def)
  moreover have "pointers_agree ts (ps @ [p]) q" if "q \<in> set ms" for q
    using that ok by (fastforce simp: pointers_agree_def)
  ultimately show ?thesis using ok new by auto
qed

text \<open>Both pointers move to a projection of the distribution and to its revision.\<close>

lemma market_tables_switch:
  assumes ok: "market_tables_ok (ts, rs, ms, ps)"
    and one: "count_where (\<lambda>x. tmpl_ID x = tid) ts = 1" "count_where (\<lambda>m. mdist_ID m = did \<and> mdist_TemplateID m = tid) ms = 1"
    and p: "p \<in> set ps" "proj_ID p = pid" "proj_MarketplaceDistributionID p = did" "proj_RevisionID p = rid"
  shows "market_tables_ok
    (update_where (\<lambda>x. tmpl_ID x = tid) (\<lambda>x. x\<lparr>tmpl_PublishedRevisionID := Some rid, tmpl_UpdatedAt := t\<rparr>) ts, rs,
     update_where (\<lambda>m. mdist_ID m = did \<and> mdist_TemplateID m = tid)
       (\<lambda>m. m\<lparr>mdist_CurrentProjectionID := Some pid, mdist_UpdatedAt := t'\<rparr>) ms, ps)"
proof -
  let ?f = "\<lambda>x. x\<lparr>tmpl_PublishedRevisionID := Some rid, tmpl_UpdatedAt := t\<rparr>"
  let ?g = "\<lambda>m. m\<lparr>mdist_CurrentProjectionID := Some pid, mdist_UpdatedAt := t'\<rparr>"
  let ?P = "\<lambda>x. tmpl_ID x = tid" and ?Q = "\<lambda>m. mdist_ID m = did \<and> mdist_TemplateID m = tid"
  let ?ts = "update_where ?P ?f ts" and ?ms = "update_where ?Q ?g ms"
  have keys: "map tmpl_ID ?ts = map tmpl_ID ts" "map mdist_ID ?ms = map mdist_ID ms"
    "map mdist_TemplateID ?ms = map mdist_TemplateID ms" "map mdist_PublicKey ?ms = map mdist_PublicKey ms"
    by (rule map_update_where, simp)+
  have "shows_revision rs ?ms q" if "q \<in> set ps" for q
  proof -
    from that ok obtain m r where "m \<in> set ms" "r \<in> set rs" "mdist_ID m = proj_MarketplaceDistributionID q" "rev_ID r = proj_RevisionID q"
      "rev_TemplateID r = mdist_TemplateID m" "proj_ContentDigest q = rev_ContentDigest r" "proj_ContentDigest q \<noteq> []"
      by (auto simp: shows_revision_def)
    then show ?thesis
      unfolding shows_revision_def by (intro bexI [of _ "if ?Q m then ?g m else m"] bexI [of _ r]) (auto simp: set_update_where)
  qed
  moreover have "pointers_agree ?ts ps m'" if "m' \<in> set ?ms" for m'
  proof -
    from that obtain m where m: "m \<in> set ms" "m' = (if ?Q m then ?g m else m)" by (auto simp: set_update_where)
    show ?thesis
    proof (cases "?Q m")
      case True
      have "\<exists>x \<in> set ts. tmpl_ID x = tid" using one(1) count_where_pos_iff [of ?P ts] by (metis zero_less_one)
      then obtain x where "x \<in> set ts" "tmpl_ID x = tid" by blast
      then have "?f x \<in> set ?ts" by (auto simp: set_update_where)
      with True m p \<open>tmpl_ID x = tid\<close> show ?thesis
        unfolding pointers_agree_def by (auto intro!: bexI [of _ p] bexI [of _ "?f x"])
    next
      case False
      have other: "mdist_TemplateID m \<noteq> tid" if "mdist_ID m \<noteq> did"
      proof
        assume "mdist_TemplateID m = tid"
        have "\<exists>n \<in> set ms. ?Q n" using one(2) count_where_pos_iff [of ?Q ms] by (metis zero_less_one)
        then obtain n where "n \<in> set ms" "?Q n" by blast
        moreover from ok have "distinct (map mdist_TemplateID ms)" by simp
        ultimately have "n = m" using \<open>mdist_TemplateID m = tid\<close> m(1) distinct_map_same by fastforce
        with \<open>?Q n\<close> that show False by simp
      qed
      with False have far: "mdist_TemplateID m \<noteq> tid" by auto
      show ?thesis
        unfolding pointers_agree_def
      proof (intro allI impI)
        fix c assume "mdist_CurrentProjectionID m' = Some c"
        with False m ok obtain q x where "q \<in> set ps" "x \<in> set ts" "proj_ID q = c" "proj_MarketplaceDistributionID q = mdist_ID m'"
          "tmpl_ID x = mdist_TemplateID m'" "tmpl_PublishedRevisionID x = Some (proj_RevisionID q)"
          unfolding pointers_agree_def market_tables_ok.simps by metis
        moreover from this far m False have "x \<in> set ?ts" by (force simp: set_update_where)
        ultimately show "\<exists>q \<in> set ps. \<exists>x \<in> set ?ts. proj_ID q = c \<and> proj_MarketplaceDistributionID q = mdist_ID m' \<and>
            tmpl_ID x = mdist_TemplateID m' \<and> tmpl_PublishedRevisionID x = Some (proj_RevisionID q)" by blast
      qed
    qed
  qed
  moreover have "\<forall>m \<in> set ?ms. public_key_ok (mdist_PublicKey m)" using ok by (auto simp: set_update_where)
  ultimately show ?thesis using ok unfolding market_tables_ok.simps keys by simp
qed

section \<open>Every outcome of a publication and of a rollback keeps the invariant\<close>

definition pure_publisher :: "publisher \<Rightarrow> bool" where
  "pure_publisher P \<longleftrightarrow> pure_builder (pub_Builder P) \<and> (\<forall>i c t. reads (pub_BuildMarketplace P i c t))"

text \<open>The builder reports the digest of the document it was given.\<close>

definition honest_publisher :: "publisher \<Rightarrow> bool" where
  "honest_publisher P \<longleftrightarrow>
     pure_publisher P \<and> (\<forall>c. pub_SHA256 P c \<noteq> []) \<and>
     (\<forall>i c t w m w'. pub_BuildMarketplace P i c t w = (Inr m, w') \<longrightarrow> mpr_ContentDigest m = hex_EncodeToString (pub_SHA256 P c))"

lemma hex_EncodeToString_Nil [simp]: "hex_EncodeToString s = [] \<longleftrightarrow> s = []"
  using length_hex_EncodeToString [of s] by (metis length_0_conv mult_is_0 zero_neq_numeral)

lemma reads_publisher [read_only]:
  assumes "pure_publisher P"
  shows "reads (compensate P ps)" "reads (pub_BuildMarketplace P i c t)" "reads (bld_Build (pub_Builder P) b)"
    "reads (bld_Verify (pub_Builder P) p g)" "reads (mustUUID P s)" "reads m \<Longrightarrow> reads (compensating P ps m)"
proof -
  show pure: "reads (pub_BuildMarketplace P i c t)" "reads (bld_Build (pub_Builder P) b)" "reads (bld_Verify (pub_Builder P) p g)"
    using assms unfolding pure_publisher_def pure_builder_def by blast+
  have "reads (bld_Remove (pub_Builder P) q)" for q using assms unfolding pure_publisher_def pure_builder_def by blast
  then show c: "reads (compensate P ps)" for ps unfolding compensate_def by (intro read_only)
  show "reads (mustUUID P s)" unfolding mustUUID_def by (intro read_only)
  show "reads m \<Longrightarrow> reads (compensating P ps m)" unfolding compensating_def by (intro read_only c) 
qed

lemma reads_drafting [read_only]:
  assumes "pure_publisher P"
  shows "reads (draft_versions P cmd origin n ss dr)" "reads (draft_artifact P cmd b rs rid i)"
proof -
  note pure = reads_publisher [OF assms]
  have "reads (version_distribution P cmd s dr)" for s dr
    unfolding version_distribution_def build_distribution_def by (intro read_only pure)
  then have "reads (draft_version P cmd origin n s dr)" for n s dr
    unfolding draft_version_def by (intro read_only pure)
  then show "reads (draft_versions P cmd origin n ss dr)"
    by (induction ss arbitrary: n dr) (simp_all add: reads_return reads_bindE)
  show "reads (draft_artifact P cmd b rs rid i)"
    unfolding draft_artifact_def item_distribution_def by (intro read_only pure)
qed

lemma keeps_bindE_value:
  assumes "keeps I m" "\<And>x w w'. m w = (Inr x, w') \<Longrightarrow> keeps I (f x)"
  shows "keeps I (bindE m f)"
proof (rule keepsI)
  fix w r w' assume run: "bindE m f w = (r, w')" and i: "I (w_db w)"
  obtain s w1 where m: "m w = (s, w1)" by (cases "m w")
  with keepsD [OF assms(1) m i] run assms(2) show "I (w_db w')"
    by (cases s) (auto simp: bindE_def dest: keepsD)
qed

lemma newMarketplacePublicKey_ok:
  assumes "newMarketplacePublicKey name bytes = Inr k"
  shows "public_key_ok k"
proof -
  have "ParseMarketplacePublicKey raw = Inr k \<Longrightarrow> raw = k" for raw
    by (auto simp: ParseMarketplacePublicKey_def split: if_splits)
  with assms show ?thesis
    unfolding public_key_ok_def newMarketplacePublicKey_def Let_def by (auto split: if_splits sum.splits)
qed

lemma keeps_market_create_attempts: "keeps market_ok (create_attempts P tid name ns)"
proof (induction ns)
  case (Cons n ns)
  have new: "keeps market_ok (CreateMarketplaceDistribution (new_distribution did tid k))"
    if "of_sum (newMarketplacePublicKey name (pub_Random P n)) w = (Inr k, w')" for did k w w'
    using that newMarketplacePublicKey_ok
    by (intro keeps_market_CreateMarketplaceDistribution) (auto simp: new_distribution_def of_sum_Inr)
  show ?case
    unfolding create_attempts.simps
    by (rule keeps_bindE_value [OF keeps_reads [OF reads_of_sum]])
      (intro stable_progs keeps_reads [OF reads_new_id] new keeps_reads [OF reads_return] keeps_reads [OF reads_fail] Cons.IH; assumption)
qed (simp add: keeps_reads reads_fail)

lemma keeps_market_createMarketplaceDistribution:
  "keeps market_ok (find_or_create_distribution P tid name)"
  unfolding find_or_create_distribution_def createMarketplaceDistribution_def
  by (intro stable_progs keeps_reads [OF reads_publication_lookups(3)] keeps_reads [OF reads_return] keeps_reads [OF reads_fail]
      keeps_market_create_attempts)

text \<open>A publication that is stored\<close>

lemma mustUUID_Inr: "mustUUID P s w = (Inr u, w') \<longleftrightarrow> pub_ParseUUID P s = Some u \<and> w' = w"
  by (auto simp: mustUUID_def prog_iff split: option.splits)

lemma market_after_switch:
  assumes ok: "market_ok (w_db w)" and run: "SwitchMarketplacePointers tid rid did pid w = (Inr u, w')"
    and p: "p \<in> set (distribution_projections (w_db w))" "proj_ID p = pid" "proj_RevisionID p = rid"
  shows "market_ok (w_db w')"
proof -
  let ?d = "w_db w"
  have ok': "market_tables_ok (marketplace_templates ?d, marketplace_revisions ?d, marketplace_distributions ?d, distribution_projections ?d)"
    using ok by (simp add: market_ok_def market_tables_def)
  obtain t t' where one: "count_where (\<lambda>x. tmpl_ID x = tid) (marketplace_templates ?d) = 1"
    "count_where (\<lambda>m. mdist_ID m = did \<and> mdist_TemplateID m = tid) (marketplace_distributions ?d) = 1"
    and pe: "projection_exists ?d (Some pid) did" and d': "w_db w' = ?d\<lparr>
       marketplace_templates := update_where (\<lambda>x. tmpl_ID x = tid)
         (\<lambda>x. x\<lparr>tmpl_PublishedRevisionID := Some rid, tmpl_UpdatedAt := t\<rparr>) (marketplace_templates ?d),
       marketplace_distributions := update_where (\<lambda>m. mdist_ID m = did \<and> mdist_TemplateID m = tid)
         (\<lambda>m. m\<lparr>mdist_CurrentProjectionID := Some pid, mdist_UpdatedAt := t'\<rparr>) (marketplace_distributions ?d)\<rparr>"
    by (rule SwitchMarketplacePointers_tables [OF run])
  from pe obtain q where "q \<in> set (distribution_projections ?d)" "proj_ID q = pid" "proj_MarketplaceDistributionID q = did"
    by (auto simp: projection_exists_def)
  moreover from ok' have "distinct (map proj_ID (distribution_projections ?d))" by simp
  ultimately have "proj_MarketplaceDistributionID p = did" using p distinct_map_same by fastforce
  from market_tables_switch [OF ok' one p(1,2) this p(3)] d' show ?thesis by (simp add: market_ok_def market_tables_def)
qed

lemma keeps_market_store_publication:
  assumes p: "proj_RevisionID p = rev_ID r" "proj_ContentDigest p = rev_ContentDigest r" "proj_ContentDigest p \<noteq> []"
  shows "keeps market_ok (store_publication P drafted r items p arts ptrs)"
  unfolding store_publication_def
proof (rule keeps_transaction)
  fix w x w'
  assume "bindE (forE CreatePluginDistribution drafted) (\<lambda>_. bindE (CreateMarketplaceRevision r items p arts ptrs) (\<lambda>_.
            bindE (mustUUID P (proj_MarketplaceDistributionID p)) (\<lambda>did.
            SwitchMarketplacePointers (rev_TemplateID r) (rev_ID r) did (proj_ID p)))) w = (Inr x, w')"
    and ok: "market_ok (w_db w)"
  then obtain w1 w2 did where one: "forE CreatePluginDistribution drafted w = (Inr (), w1)"
    and two: "CreateMarketplaceRevision r items p arts ptrs w1 = (Inr (), w2)"
    and three: "SwitchMarketplacePointers (rev_TemplateID r) (rev_ID r) did (proj_ID p) w2 = (Inr x, w')"
    by (auto simp: bindE_Inr_iff mustUUID_Inr)
  let ?d = "w_db w1"
  have ok1: "market_tables_ok (marketplace_templates ?d, marketplace_revisions ?d, marketplace_distributions ?d, distribution_projections ?d)"
    using ok forE_CreatePluginDistribution_tables [OF one] by (simp add: market_ok_def market_tables_def)
  obtain t t' where new: "rev_ID r \<notin> rev_ID ` set (marketplace_revisions ?d)"
    "\<forall>q \<in> set (distribution_projections ?d). proj_ID q \<noteq> proj_ID p \<and>
       (proj_MarketplaceDistributionID q, proj_RevisionID q) \<noteq> (proj_MarketplaceDistributionID p, proj_RevisionID p)"
    and tabs: "market_tables (w_db w2) =
       (marketplace_templates ?d, marketplace_revisions ?d @ [r\<lparr>rev_CreatedAt := t\<rparr>], marketplace_distributions ?d,
        distribution_projections ?d @ [p\<lparr>proj_CreatedAt := t'\<rparr>])"
    by (rule CreateMarketplaceRevision_tables [OF two])
  from tabs have mem: "p\<lparr>proj_CreatedAt := t'\<rparr> \<in> set (distribution_projections (w_db w2))" by (simp add: market_tables_def)
  obtain m where m: "m \<in> set (marketplace_distributions ?d)" "mdist_ID m = did" "mdist_TemplateID m = rev_TemplateID r"
    and did: "proj_MarketplaceDistributionID p = did"
  proof -
    obtain u u' where "count_where (\<lambda>m. mdist_ID m = did \<and> mdist_TemplateID m = rev_TemplateID r) (marketplace_distributions (w_db w2)) = 1"
      "projection_exists (w_db w2) (Some (proj_ID p)) did"
      by (rule SwitchMarketplacePointers_tables [OF three])
    moreover have "proj_MarketplaceDistributionID q = proj_MarketplaceDistributionID p"
      if "q \<in> set (distribution_projections (w_db w2))" "proj_ID q = proj_ID p" for q
      using that new(2) tabs by (auto simp: market_tables_def)
    moreover have "marketplace_distributions (w_db w2) = marketplace_distributions ?d" using tabs by (simp add: market_tables_def)
    ultimately show ?thesis
      using that count_where_pos_iff [of "\<lambda>m. mdist_ID m = did \<and> mdist_TemplateID m = rev_TemplateID r" "marketplace_distributions ?d"]
      by (fastforce simp: projection_exists_def)
  qed
  have "market_tables_ok (market_tables (w_db w2))"
    unfolding tabs by (rule market_tables_add_revision [OF ok1 _ _ m(1)]) (use new m did p in auto)
  then show "market_ok (w_db w')"
    by (intro market_after_switch [OF _ three mem]) (simp_all add: market_ok_def p)
qed

lemma keeps_market_compensating:
  assumes "pure_publisher P" "keeps market_ok m"
  shows "keeps market_ok (compensating P ps m)"
  unfolding compensating_def
  by (intro stable_progs keeps_if assms(2) keeps_reads [OF reads_publisher(1) [OF assms(1)]] keeps_reads [OF reads_return] keeps_reads [OF reads_fail])

lemma reads_mapE_draft [read_only]:
  "pure_publisher P \<Longrightarrow> reads (mapE (draft_artifact P cmd b rs rid) is)"
  by (intro reads_mapE reads_drafting)

lemma keeps_market_publish_document:
  assumes "honest_publisher P"
  shows "keeps market_ok (publish_document P cmd input dr content)"
proof -
  have pure: "pure_publisher P" using assms by (simp add: honest_publisher_def)
  note reads_steps = keeps_reads [OF reads_publisher(1) [OF pure]] keeps_reads [OF reads_publisher(5) [OF pure]]
    keeps_reads [OF reads_return] keeps_reads [OF reads_fail] keeps_reads [OF reads_new_id] keeps_reads [OF reads_publication_lookups(4)]
    keeps_reads [OF reads_mapE_draft [OF pure]] keeps_reads [OF reads_publisher(2) [OF pure]]
  have stored: "keeps market_ok (store_publication P drafted (new_revision rid cmd n content (hex_EncodeToString (pub_SHA256 P content))) items
      (new_projection pid did rid mp) arts ptrs)"
    if "compensating P b (pub_BuildMarketplace P pid content t) w = (Inr mp, w')" for drafted rid n items pid did mp arts ptrs b t w w'
  proof (rule keeps_market_store_publication)
    from that assms have "mpr_ContentDigest mp = hex_EncodeToString (pub_SHA256 P content)" "pub_SHA256 P content \<noteq> []"
      unfolding compensating_Inr honest_publisher_def by blast+
    then show "proj_ContentDigest (new_projection pid did rid mp) = rev_ContentDigest (new_revision rid cmd n content (hex_EncodeToString (pub_SHA256 P content)))"
      "proj_ContentDigest (new_projection pid did rid mp) \<noteq> []"
      by (simp_all add: new_projection_def new_revision_def)
  qed (simp add: new_projection_def new_revision_def)
  show ?thesis
    unfolding publish_document_def publish_revision_def Let_def
    by (intro stable_progs(1) keeps_bindE_value keeps_case_sum reads_steps keeps_market_compensating [OF pure]
        keeps_market_createMarketplaceDistribution stored) assumption
qed

lemma keeps_market_Publish:
  assumes "honest_publisher P"
  shows "keeps market_ok (PublicationService_Publish P cmd)"
proof -
  have pure: "pure_publisher P" using assms by (simp add: honest_publisher_def)
  show ?thesis
    unfolding PublicationService_Publish_def
    by (intro stable_progs keeps_reads [OF reads_of_sum] keeps_reads [OF reads_fail] keeps_reads [OF reads_publication_lookups(1)]
        keeps_reads [OF reads_drafting(1) [OF pure]] keeps_reads [OF reads_publisher(1) [OF pure]] keeps_market_publish_document [OF assms])
qed

text \<open>A rollback switches to the projection it has found.\<close>

lemma FindMarketplaceProjectionByRevision_Inr:
  assumes "FindMarketplaceProjectionByRevision did rid w = (Inr p, w')"
  shows "p \<in> set (distribution_projections (w_db w)) \<and> proj_MarketplaceDistributionID p = did \<and> proj_RevisionID p = rid \<and>
         proj_Status p = StatusActive \<and> w_db w' = w_db w"
  using assms by (auto simp: FindMarketplaceProjectionByRevision_def map_error_Inr_iff take_row_Inr_iff dest: find_Some_iff_hd)

lemma Rollback_Inr:
  assumes "pure_publisher P" "Rollback P did rid w = (Inr u, w')"
  obtains p s tid w1 w2 w3 where
    "FindMarketplaceProjectionByRevision did rid w = (Inr p, w1)"
    "FindActiveMarketplaceByID did w2 = (Inr s, w3)" "w_db w2 = w_db w" "w_db w3 = w_db w"
    "pub_ParseUUID P (mdist_TemplateID (snap_Distribution s)) = Some tid"
    "transaction (bindE (mustUUID P (proj_ID p)) (\<lambda>pid. SwitchMarketplacePointers tid rid did pid)) w3 = (Inr u, w')"
proof -
  from assms(2) obtain p w1 w2 s w3 tid where
    run: "FindMarketplaceProjectionByRevision did rid w = (Inr p, w1)"
    "bld_Verify (pub_Builder P) (Some ArtifactKindMarketplace, proj_StorageKey p) (proj_ContentDigest p) w1 = (Inr (), w2)"
    "FindActiveMarketplaceByID did w2 = (Inr s, w3)" "pub_ParseUUID P (mdist_TemplateID (snap_Distribution s)) = Some tid"
    "transaction (bindE (mustUUID P (proj_ID p)) (\<lambda>pid. SwitchMarketplacePointers tid rid did pid)) w3 = (Inr u, w')"
    by (auto simp: Rollback_def bindE_Inr_iff map_error_Inr_iff mustUUID_Inr)
  have "w_db w1 = w_db w" using FindMarketplaceProjectionByRevision_Inr [OF run(1)] by simp
  moreover have "w_db w2 = w_db w1" by (rule readsD [OF reads_publisher(4) [OF assms(1)] run(2)])
  moreover have "w_db w3 = w_db w2" by (rule readsD [OF reads_served_lookups(2) run(3)])
  ultimately show ?thesis using run by (intro that [of p w1 w2 s w3 tid]) simp_all
qed

text \<open>Runs that leave the database as it was when they fail\<close>

definition rolls_back :: "'a prog \<Rightarrow> bool" where
  "rolls_back m \<longleftrightarrow> (\<forall>w e w'. m w = (Inl e, w') \<longrightarrow> w_db w' = w_db w)"

lemma rolls_back_reads: "reads m \<Longrightarrow> rolls_back m"
  by (auto simp: rolls_back_def dest: readsD)

lemma rolls_back_transaction: "rolls_back (transaction m)"
  by (auto simp: rolls_back_def dest: transaction_Inl_db)

lemma rolls_back_bindE: "reads m \<Longrightarrow> (\<And>x. rolls_back (f x)) \<Longrightarrow> rolls_back (bindE m f)"
  unfolding rolls_back_def bindE_Inl_iff by (metis readsD)

text \<open>The last step may fail only without an effect.\<close>

lemma rolls_back_then: "rolls_back m \<Longrightarrow> (\<And>x w e w'. f x w = (Inl e, w') \<Longrightarrow> False) \<Longrightarrow> rolls_back (bindE m f)"
  unfolding rolls_back_def bindE_Inl_iff by metis

lemma rolls_back_Rollback:
  assumes "pure_publisher P"
  shows "rolls_back (Rollback P did rid)"
  unfolding Rollback_def
  by (intro rolls_back_bindE rolls_back_transaction reads_map_error reads_publication_lookups reads_served_lookups
      reads_publisher [OF assms])

text \<open>Identifiers as \<open>uuid.New\<close> writes them parse to themselves; those of projections are.\<close>

definition uuid_text :: "publisher \<Rightarrow> string \<Rightarrow> bool" where
  "uuid_text P s \<longleftrightarrow> s \<noteq> [] \<and> pub_ParseUUID P s = Some s"

definition canonical_projections :: "publisher \<Rightarrow> db \<Rightarrow> bool" where
  "canonical_projections P d \<longleftrightarrow> (\<forall>p \<in> set (distribution_projections d). uuid_text P (proj_ID p))"

lemma Rollback_switch:
  assumes "pure_publisher P" "canonical_projections P (w_db w)" "Rollback P did rid w = (Inr u, w')"
  obtains p s tid w1 w2 w3 w4 where
    "p \<in> set (distribution_projections (w_db w))" "proj_MarketplaceDistributionID p = did" "proj_RevisionID p = rid" "proj_Status p = StatusActive"
    "FindActiveMarketplaceByID did w1 = (Inr s, w2)" "w_db w1 = w_db w" "w_db w3 = w_db w"
    "pub_ParseUUID P (mdist_TemplateID (snap_Distribution s)) = Some tid"
    "SwitchMarketplacePointers tid rid did (proj_ID p) w3 = (Inr u, w4)" "w_db w' = w_db w4"
proof -
  obtain p s tid v1 w1 w2 where find: "FindMarketplaceProjectionByRevision did rid w = (Inr p, v1)"
    and act: "FindActiveMarketplaceByID did w1 = (Inr s, w2)" and db: "w_db w1 = w_db w" "w_db w2 = w_db w"
    and tid: "pub_ParseUUID P (mdist_TemplateID (snap_Distribution s)) = Some tid"
    and tx: "transaction (bindE (mustUUID P (proj_ID p)) (\<lambda>pid. SwitchMarketplacePointers tid rid did pid)) w2 = (Inr u, w')"
    by (rule Rollback_Inr [OF assms(1,3)])
  note p = FindMarketplaceProjectionByRevision_Inr [OF find]
  from p assms(2) have "pub_ParseUUID P (proj_ID p) = Some (proj_ID p)" by (simp add: canonical_projections_def uuid_text_def)
  with tx obtain w4 where
    "SwitchMarketplacePointers tid rid did (proj_ID p) (w2\<lparr>w_faults := tl (w_faults w2)\<rparr>) = (Inr u, w4)" "w_db w' = w_db w4"
    by (auto simp: transaction_Inr_iff bindE_Inr_iff mustUUID_Inr)
  with p act db tid show ?thesis by (intro that [of p w1 s w2 "w2\<lparr>w_faults := tl (w_faults w2)\<rparr>" tid w4]) simp_all
qed

lemma market_ok_Rollback:
  assumes "pure_publisher P" "canonical_projections P (w_db w)" "market_ok (w_db w)" "Rollback P did rid w = (r, w')"
  shows "market_ok (w_db w')"
proof (cases r)
  case (Inl e)
  with assms rolls_back_Rollback [OF assms(1)] show ?thesis by (auto simp: rolls_back_def)
next
  case (Inr u)
  with assms(4) have run: "Rollback P did rid w = (Inr u, w')" by simp
  obtain p s tid w1 w2 w3 w4 where p: "p \<in> set (distribution_projections (w_db w))" "proj_RevisionID p = rid"
    and db: "w_db w3 = w_db w" "w_db w' = w_db w4"
    and switch: "SwitchMarketplacePointers tid rid did (proj_ID p) w3 = (Inr u, w4)"
    by (rule Rollback_switch [OF assms(1,2) run])
  from market_after_switch [OF _ switch, of p] p db assms(3) show ?thesis by simp
qed

end
