(* ===== verification/MarketContract.thy ===== *)
theory MarketContract imports MarketInvariant begin

text \<open>
  The contract between publications and the rest of the database: they only touch the tables of
  marketplaces, of artifacts and of pointers. Whatever does not depend on these tables, or is kept when
  Plugin distributions and artifacts are added, is kept by every publication and rollback; the locale
  \<open>publication_frame\<close> proves it once.
\<close>

definition forget_market :: "db \<Rightarrow> db" where
  "forget_market d =
     d\<lparr>marketplace_templates := [], marketplace_revisions := [], revision_items := [], marketplace_distributions := [],
       distribution_projections := [], plugin_distributions := [], artifacts := [], pointers := []\<rparr>"

definition publications_only :: "(db \<Rightarrow> bool) \<Rightarrow> bool" where
  "publications_only I \<longleftrightarrow> (\<forall>d d'. forget_market d' = forget_market d \<longrightarrow> I d \<longrightarrow> I d')"

lemma forget_market_simps [simp]:
  "forget_market (d\<lparr>marketplace_templates := a\<rparr>) = forget_market d"
  "forget_market (d\<lparr>marketplace_revisions := b\<rparr>) = forget_market d"
  "forget_market (d\<lparr>revision_items := c\<rparr>) = forget_market d"
  "forget_market (d\<lparr>marketplace_distributions := e\<rparr>) = forget_market d"
  "forget_market (d\<lparr>distribution_projections := f\<rparr>) = forget_market d"
  "forget_market (d\<lparr>plugin_distributions := g\<rparr>) = forget_market d"
  "forget_market (d\<lparr>artifacts := h\<rparr>) = forget_market d"
  "forget_market (d\<lparr>pointers := i\<rparr>) = forget_market d"
  by (simp_all add: forget_market_def)

text \<open>The same, but with the Plugin distributions and the artifacts\<close>

definition forget_catalogues :: "db \<Rightarrow> db" where
  "forget_catalogues d =
     d\<lparr>marketplace_templates := [], marketplace_revisions := [], revision_items := [], marketplace_distributions := [],
       distribution_projections := [], pointers := []\<rparr>"

definition catalogues_only :: "(db \<Rightarrow> bool) \<Rightarrow> bool" where
  "catalogues_only I \<longleftrightarrow> (\<forall>d d'. forget_catalogues d' = forget_catalogues d \<longrightarrow> I d \<longrightarrow> I d')"

lemma forget_catalogues_simps [simp]:
  "forget_catalogues (d\<lparr>marketplace_templates := a\<rparr>) = forget_catalogues d"
  "forget_catalogues (d\<lparr>marketplace_revisions := b\<rparr>) = forget_catalogues d"
  "forget_catalogues (d\<lparr>revision_items := c\<rparr>) = forget_catalogues d"
  "forget_catalogues (d\<lparr>marketplace_distributions := e\<rparr>) = forget_catalogues d"
  "forget_catalogues (d\<lparr>distribution_projections := f\<rparr>) = forget_catalogues d"
  "forget_catalogues (d\<lparr>pointers := i\<rparr>) = forget_catalogues d"
  by (simp_all add: forget_catalogues_def)

text \<open>
  A step of the marketplaces. No operation of the program inserts templates: they are rows that an
  operator of the database adds.
\<close>

inductive market_step :: "world \<Rightarrow> world \<Rightarrow> bool" where
  market_template: "tmpl_ID t \<notin> tmpl_ID ` set (marketplace_templates (w_db w)) \<Longrightarrow>
     market_step w (w\<lparr>w_db := (w_db w)\<lparr>marketplace_templates := marketplace_templates (w_db w) @ [t]\<rparr>\<rparr>)"
| market_publish: "honest_publisher P \<Longrightarrow> market_step w (snd (PublicationService_Publish P cmd w))"
| market_rollback: "pure_publisher P \<Longrightarrow> canonical_projections P (w_db w) \<Longrightarrow> market_step w (snd (Rollback P did rid w))"

lemma keeps_insert_rows:
  assumes "\<And>d r. I d \<Longrightarrow> I (add r d)"
  shows "keeps I (insert_rows refs uniq add rows)"
proof -
  have "I (fold add rs d)" if "I d" for rs d using that assms by (induction rs arbitrary: d) auto
  then show ?thesis
    unfolding insert_rows_def keeps_def statement_def by (auto split: sum.splits dest: add_rows_Inr)
qed

locale publication_frame =
  fixes I :: "db \<Rightarrow> bool"
  assumes I_CreatePluginDistribution: "keeps I (CreatePluginDistribution pd)"
    and I_create_artifacts: "keeps I (create_artifacts arts)"
    and I_catalogues: "catalogues_only I"
begin

lemma I_forget_market: "I d \<Longrightarrow> forget_catalogues d' = forget_catalogues d \<Longrightarrow> I d'"
  using I_catalogues unfolding catalogues_only_def by blast

lemma keeps_publication_rows:
  "keeps I (create_revision r)" "keeps I (create_items items)" "keeps I (create_pointers ptrs)" "keeps I (create_projection p)"
  unfolding create_revision_def create_items_def create_pointers_def create_projection_def
  by (intro keeps_bindE keeps_insert_row keeps_insert_rows keeps_reads [OF reads_now], erule I_forget_market, simp)+

lemmas keeps_publication_statements = keeps_publication_rows I_CreatePluginDistribution I_create_artifacts

lemma keeps_insert_distribution: "keeps I (statement (insert_distribution m))"
proof -
  have "forget_catalogues (snd (insert_distribution m d)) = forget_catalogues d" for d by (simp add: insert_distribution_def)
  then have "I (snd (insert_distribution m d))" if "I d" for d using I_forget_market [OF that] by blast
  then show ?thesis unfolding keeps_def statement_def by (auto split: prod.splits) (metis snd_conv)
qed

lemma keeps_CreateMarketplaceDistribution: "keeps I (CreateMarketplaceDistribution m)"
  unfolding CreateMarketplaceDistribution_def by (intro keeps_bindE keeps_map_error keeps_insert_distribution keeps_reads [OF reads_now])

lemma keeps_find_or_create: "keeps I (find_or_create_distribution P tid name)"
proof -
  have "keeps I (create_attempts P tid name ns)" for ns
  proof (induction ns)
    case (Cons n ns)
    show ?case
      unfolding create_attempts.simps
      by (intro stable_progs keeps_CreateMarketplaceDistribution keeps_reads [OF reads_of_sum] keeps_reads [OF reads_new_id]
          keeps_reads [OF reads_return] keeps_reads [OF reads_fail] Cons.IH)
  qed (simp add: keeps_reads reads_fail)
  then show ?thesis
    unfolding find_or_create_distribution_def createMarketplaceDistribution_def
    by (intro stable_progs keeps_reads [OF reads_publication_lookups(3)] keeps_reads [OF reads_return] keeps_reads [OF reads_fail])
qed

lemma keeps_SwitchMarketplacePointers: "keeps I (SwitchMarketplacePointers tid rid did pid)"
  unfolding SwitchMarketplacePointers_def exactly_one_def set_templates_def set_distributions_def
  by (intro keeps_bindE keeps_if keeps_update_rows keeps_reads [OF reads_now] keeps_reads [OF reads_return] keeps_reads [OF reads_fail];
      erule I_forget_market, simp)

lemma keeps_store_publication:
  assumes "pure_publisher P"
  shows "keeps I (store_publication P drafted r items p arts ptrs)"
  unfolding store_publication_def CreateMarketplaceRevision_def
  by (intro keeps_transaction_body keeps_bindE keeps_forE keeps_if keeps_publication_statements keeps_SwitchMarketplacePointers
      keeps_reads [OF reads_return] keeps_reads [OF reads_publisher(5) [OF assms]])

lemma keeps_compensated:
  assumes "pure_publisher P" "keeps I m"
  shows "keeps I (compensating P ps m)"
  unfolding compensating_def
  by (intro stable_progs keeps_if assms(2) keeps_reads [OF reads_publisher(1) [OF assms(1)]] keeps_reads [OF reads_return] keeps_reads [OF reads_fail])

lemma keeps_Publish:
  assumes pure: "pure_publisher P"
  shows "keeps I (PublicationService_Publish P cmd)"
proof -
  note reads_steps = keeps_reads [OF reads_publisher(1) [OF pure]] keeps_reads [OF reads_publisher(5) [OF pure]]
    keeps_reads [OF reads_return] keeps_reads [OF reads_fail] keeps_reads [OF reads_new_id] keeps_reads [OF reads_of_sum]
    keeps_reads [OF reads_publication_lookups(1)] keeps_reads [OF reads_publication_lookups(4)]
    keeps_reads [OF reads_mapE_draft [OF pure]] keeps_reads [OF reads_publisher(2) [OF pure]] keeps_reads [OF reads_drafting(1) [OF pure]]
  have "keeps I (publish_document P cmd input dr content)" for input dr content
    unfolding publish_document_def publish_revision_def Let_def
    by (intro keeps_bindE keeps_case_sum keeps_compensated [OF pure] keeps_find_or_create keeps_store_publication [OF pure] reads_steps)
  then show ?thesis
    unfolding PublicationService_Publish_def by (intro keeps_bindE keeps_if keeps_case_sum reads_steps)
qed

lemma keeps_Rollback:
  assumes pure: "pure_publisher P"
  shows "keeps I (Rollback P did rid)"
  unfolding Rollback_def
  by (intro keeps_transaction_body keeps_bindE keeps_map_error keeps_SwitchMarketplacePointers keeps_reads [OF reads_publication_lookups(5)]
      keeps_reads [OF reads_served_lookups(2)] keeps_reads [OF reads_publisher(4) [OF pure]] keeps_reads [OF reads_publisher(5) [OF pure]])

lemma market_step: "market_step w w' \<Longrightarrow> I (w_db w) \<Longrightarrow> I (w_db w')"
proof (induction rule: market_step.induct)
  case (market_template t w)
  then show ?case using I_forget_market [of "w_db w"] by simp
next
  case (market_publish P w cmd)
  then show ?case using keeps_snd [OF keeps_Publish] by (simp add: honest_publisher_def)
next
  case (market_rollback P w did rid)
  then show ?case using keeps_snd [OF keeps_Rollback] by simp
qed

end

text \<open>A property that depends on none of the tables of publications\<close>

lemma publication_frameI:
  assumes "publications_only I"
  shows "publication_frame I"
proof
  have frame: "I d'" if "I d" "forget_market d' = forget_market d" for d d'
    using assms that unfolding publications_only_def by blast
  have "forget_market d = (forget_catalogues d)\<lparr>plugin_distributions := [], artifacts := []\<rparr>" for d
    by (simp add: forget_market_def forget_catalogues_def)
  then show "catalogues_only I" unfolding catalogues_only_def using frame by metis
  show "keeps I (CreatePluginDistribution pd)" "keeps I (create_artifacts arts)" for pd arts
    unfolding CreatePluginDistribution_def create_artifacts_def
    by (intro keeps_bindE keeps_insert_row keeps_insert_rows keeps_reads [OF reads_now], erule frame, simp)+
qed

text \<open>The marketplaces keep their own invariant.\<close>

lemma market_step_ok: "market_step w w' \<Longrightarrow> market_ok (w_db w) \<Longrightarrow> market_ok (w_db w')"
proof (induction rule: market_step.induct)
  case (market_template t w)
  then have "pointers_agree (marketplace_templates (w_db w) @ [t]) ps m" if "pointers_agree (marketplace_templates (w_db w)) ps m" for ps m
    using that by (fastforce simp: pointers_agree_def)
  with market_template show ?case by (simp add: market_ok_def market_tables_def)
next
  case (market_publish P w cmd)
  then show ?case using keeps_snd [OF keeps_market_Publish] by blast
next
  case (market_rollback P w did rid)
  then show ?case using market_ok_Rollback by (metis prod.collapse)
qed

end
