(* ===== verification/ServerInvariant.thy ===== *)
theory ServerInvariant imports PluginInvariant MarketContract begin

text \<open>
  The three domains together. The identity operations leave every table of Plugins and marketplaces
  alone and never remove a namespace, the Plugin operations leave the tables of identities and
  marketplaces alone, and publications only add to their own; so each domain's contract holds of the
  others' invariants, and all of them hold in every run of the server.
\<close>

section \<open>The identity domain beside the Plugin tables\<close>

definition beyond :: "db \<Rightarrow> db \<Rightarrow> bool" where
  "beyond d d' \<longleftrightarrow>
     plugins d' = plugins d \<and> repositories d' = repositories d \<and> versions d' = versions d \<and>
     version_history d' = version_history d \<and> orphan_cleanups d' = orphan_cleanups d \<and>
     receive_batches d' = receive_batches d \<and> receive_intents d' = receive_intents d \<and> artifacts d' = artifacts d \<and>
     pointers d' = pointers d \<and> transitions d' = transitions d \<and> gc_jobs d' = gc_jobs d \<and> market_tables d' = market_tables d \<and>
     plugin_distributions d' = plugin_distributions d \<and>
     ns_ID ` set (namespaces d) \<subseteq> ns_ID ` set (namespaces d')"

lemma beyond_refl [simp]: "beyond d d"
  by (simp add: beyond_def)

lemma beyond_trans: "beyond d d1 \<Longrightarrow> beyond d1 d2 \<Longrightarrow> beyond d d2"
  by (auto simp: beyond_def)

lemma beyond_identity_tables [simp]:
  "beyond d (d\<lparr>users := a\<rparr>)" "beyond d (d\<lparr>system_groups := b\<rparr>)" "beyond d (d\<lparr>group_memberships := c\<rparr>)"
  "beyond d (d\<lparr>tokens := e\<rparr>)" "beyond d (d\<lparr>team_memberships := f\<rparr>)" "beyond d (d\<lparr>team_invitations := g\<rparr>)"
  "beyond d (d\<lparr>namespaces := namespaces d @ h\<rparr>)"
  by (auto simp: beyond_def market_tables_def)

lemma beyond_update_namespaces:
  "(\<And>n. ns_ID (f n) = ns_ID n) \<Longrightarrow> beyond d (d\<lparr>namespaces := update_where P f (namespaces d)\<rparr>)"
  by (simp add: beyond_def keys_update_where market_tables_def)

lemma keeps_beyond:
  "(\<And>d. beyond d (f d)) \<Longrightarrow> keeps (beyond d0) (exec f)"
  "(\<And>d. beyond d (f d)) \<Longrightarrow> keeps (beyond d0) (exec_count n f)"
  "(\<And>d. beyond d (f d)) \<Longrightarrow> keeps (beyond d0) (insert_row refs uniq f)"
  "(\<And>d. beyond d (f d)) \<Longrightarrow> keeps (beyond d0) (exec_checked chk f)"
  by (auto intro!: keeps_exec keeps_exec_count keeps_insert_row keeps_exec_checked intro: beyond_trans)

lemmas beyond_intros = keeps_transaction_body keeps_intros keeps_beyond

lemma beyond_creates:
  "keeps (beyond d0) (create_user u)" "keeps (beyond d0) (create_namespace n)" "keeps (beyond d0) (create_token k)"
  "keeps (beyond d0) (create_team_membership m)" "keeps (beyond d0) (create_team_invitation i)"
  "keeps (beyond d0) (create_system_group g)" "keeps (beyond d0) (create_group_membership b gm)"
  unfolding create_user_def create_namespace_def create_token_def create_team_membership_def
    create_team_invitation_def create_system_group_def create_group_membership_def Let_def
  by (intro beyond_intros keeps_reads read_only; simp)+

lemma beyond_operations:
  "keeps (beyond d0) (CreateUserWithPersonalNamespace u n)" "keeps (beyond d0) (UpdateUserDisplayName uid x t)"
  "keeps (beyond d0) (SetUserStatus actor uid status t)" "keeps (beyond d0) (SetSystemAdmin actor uid enabled)"
  "keeps (beyond d0) (CreateTeam n m)" "keeps (beyond d0) (UpdateTeamDisplayName nid x t)"
  "keeps (beyond d0) (PutTeamMember nid uid role t)" "keeps (beyond d0) (RemoveTeamMember nid uid)"
  "keeps (beyond d0) (CreateTeamInvitation i)" "keeps (beyond d0) (RespondInvitation iid uid accept t)"
  "keeps (beyond d0) (RevokeInvitation nid iid t)" "keeps (beyond d0) (ReissueInvitation nid iid newID t expiresAt)"
  "keeps (beyond d0) (CreateToken k)" "keeps (beyond d0) (RevokeToken tid uid t)" "keeps (beyond d0) (TouchToken tid t)"
  unfolding CreateUserWithPersonalNamespace_def UpdateUserDisplayName_def SetUserStatus_def SetSystemAdmin_def
    CreateTeam_def UpdateTeamDisplayName_def PutTeamMember_def RemoveTeamMember_def CreateTeamInvitation_def
    RespondInvitation_def RevokeInvitation_def ReissueInvitation_def CreateToken_def RevokeToken_def TouchToken_def
    update_invitation_def touchTokenUpdate_def set_member_role_def lockSystemAdministrators_def lockTeamMemberships_def Let_def
  by (intro beyond_intros beyond_creates keeps_reads read_only; simp add: beyond_update_namespaces)+

lemma beyond_Bootstrap: "keeps (beyond d0) (Bootstrap env hash)"
proof -
  have "keeps (beyond d0) (bootstrap_admin hash password)" for password
    unfolding bootstrap_admin_def Let_def
    by (intro beyond_intros beyond_creates keeps_reads read_only)
  moreover have "keeps (beyond d0) (create_groups gs)" for gs
  proof (induction gs)
    case (Cons g gs)
    then show ?case by (simp only: create_groups.simps) (intro beyond_intros beyond_creates; assumption)
  qed (simp add: keeps_reads read_only)
  then have "keeps (beyond d0) ensureSystemGroups"
    unfolding ensureSystemGroups_def by (intro beyond_intros keeps_reads [OF reads_verify_groups] keeps_reads [OF reads_query])
  ultimately show ?thesis
    unfolding Bootstrap_def lockBootstrapTransaction_def
    by (intro beyond_intros keeps_reads [OF reads_of_sum] keeps_reads [OF reads_exec_id] keeps_reads [OF reads_query]
          keeps_reads [OF reads_return] keeps_reads [OF reads_fail])
qed

interpretation frame: identity_invariant "beyond d0" for d0
  by unfold_locales (rule beyond_operations beyond_Bootstrap)+

text \<open>So an identity step keeps every property of the Plugin tables that only needs the namespaces to stay.\<close>

lemma identity_step_beyond: "identity_step\<^sup>*\<^sup>* w w' \<Longrightarrow> beyond (w_db w) (w_db w')"
  using frame.steps [of w w' "w_db w"] by simp

lemma plugin_ok_beyond:
  assumes ok: "plugin_ok d" and b: "beyond d d'"
  shows "plugin_ok d'"
  using b unfolding beyond_def by (intro plugin_ok_frame [OF ok]) blast+

section \<open>The Plugin domain beside the other tables\<close>

definition forget_plugins :: "db \<Rightarrow> db" where
  "forget_plugins d = forget_receives (d\<lparr>plugins := [], repositories := [], versions := [], version_history := [], orphan_cleanups := []\<rparr>)"

definition beside_plugins :: "(db \<Rightarrow> bool) \<Rightarrow> bool" where
  "beside_plugins I \<longleftrightarrow> (\<forall>d d'. forget_plugins d' = forget_plugins d \<longrightarrow> I d' = I d)"

lemma beside_pluginsD:
  assumes "beside_plugins I"
  shows "I (d\<lparr>plugins := a\<rparr>) = I d" "I (d\<lparr>repositories := b\<rparr>) = I d" "I (d\<lparr>versions := c\<rparr>) = I d"
    "I (d\<lparr>version_history := e\<rparr>) = I d" "I (d\<lparr>orphan_cleanups := f\<rparr>) = I d" "forget_receives d' = forget_receives d \<Longrightarrow> I d' = I d"
proof -
  have "forget_plugins d' = forget_plugins d" if "forget_receives d' = forget_receives d"
  proof -
    have eq: "\<And>x. forget_plugins x = (forget_receives x)\<lparr>plugins := [], repositories := [], versions := [], version_history := [], orphan_cleanups := []\<rparr>"
      by (simp add: forget_plugins_def forget_receives_def)
    show ?thesis by (simp only: eq that)
  qed
  then show "forget_receives d' = forget_receives d \<Longrightarrow> I d' = I d" using assms unfolding beside_plugins_def by blast
qed (rule assms [unfolded beside_plugins_def, rule_format], simp add: forget_plugins_def forget_receives_def)+

lemma plugin_store_beside:
  assumes I: "beside_plugins I"
  shows "plugin_store I"
proof
  have frame: "I (d\<lparr>plugins := a\<rparr>) = I d" "I (d\<lparr>repositories := b\<rparr>) = I d" "I (d\<lparr>versions := c\<rparr>) = I d"
    "I (d\<lparr>version_history := e\<rparr>) = I d" "I (d\<lparr>orphan_cleanups := f\<rparr>) = I d" for d a b c e f
    by (rule beside_pluginsD [OF I])+
  show "keeps I (CreateAggregate a)" for a
    unfolding CreateAggregate_def Let_def create_plugin_def create_repository_def
    by (intro keeps_if keeps_transaction_body keeps_bindE keeps_map_error keeps_insert_row keeps_reads read_only) (simp_all add: frame)
  show "keeps I (create_orphan_cleanup c)" for c
    unfolding create_orphan_cleanup_def by (intro keeps_bindE keeps_insert_row keeps_reads read_only) (simp add: frame)
  show plugins: "keeps I (update_plugins b P f)" for b P f
    unfolding update_plugins_def set_plugins_def by (rule keeps_update_rows) (simp add: frame)
  show "keeps I (create_version v)" for v
    unfolding create_version_def by (intro keeps_bindE keeps_insert_row keeps_reads read_only) (simp add: frame)
  show versions: "keeps I (update_versions Q g)" for Q g
    unfolding update_versions_def set_versions_def by (rule keeps_update_rows) (simp add: frame)
  show "keeps I (create_history h)" for h
    unfolding create_history_def by (intro keeps_bindE keeps_insert_row keeps_reads read_only) (simp add: frame)
  show "commits I (delete_version e i t)" for e i t
    unfolding delete_version_def
    by (intro commits_keeps keeps_bindE keeps_cas plugins versions keeps_reads [OF reads_return])
  have "receives_only I" unfolding receives_only_def using beside_pluginsD(6) [OF I] by blast
  then show "keeps I (create_artifact a)" "keeps I (update_artifacts Q h)" "coordination_only I" for a Q h
    by (rule receives_onlyD)+
qed

text \<open>What only depends on the identity tables\<close>

definition identity_only :: "(db \<Rightarrow> bool) \<Rightarrow> bool" where
  "identity_only I \<longleftrightarrow> (\<forall>d d'. users d' = users d \<and> namespaces d' = namespaces d \<and> system_groups d' = system_groups d \<and>
     group_memberships d' = group_memberships d \<and> tokens d' = tokens d \<and> team_memberships d' = team_memberships d \<and>
     team_invitations d' = team_invitations d \<longrightarrow> I d' = I d)"

lemma identity_only_sys_ok: "identity_only sys_ok"
  by (auto simp: identity_only_def sys_ok_def identity_ok_defs active_admin_def teams_owned_def user_exists_def
      is_team_namespace_def namespace_refs_iff)

text \<open>Tables that two databases share when they agree after forgetting the others\<close>

lemma table_same: "g d' = g d \<Longrightarrow> (\<And>x. t (g x) = t x) \<Longrightarrow> t d' = t d"
  by metis

lemma beside_identity_only:
  assumes "identity_only I"
  shows "beside_plugins I" "publications_only I"
proof -
  show "beside_plugins I"
    unfolding beside_plugins_def
  proof (intro allI impI)
    fix d d' assume "forget_plugins d' = forget_plugins d"
    note same = table_same [of forget_plugins, OF this]
    show "I d' = I d"
      by (rule assms [unfolded identity_only_def, rule_format])
        (intro conjI; rule same; simp add: forget_plugins_def forget_receives_def)
  qed
  show "publications_only I"
    unfolding publications_only_def
  proof (intro allI impI)
    fix d d' assume "forget_market d' = forget_market d" "I d"
    note same = table_same [of forget_market, OF this(1)]
    have "I d' = I d"
      by (rule assms [unfolded identity_only_def, rule_format]) (intro conjI; rule same; simp add: forget_market_def)
    with \<open>I d\<close> show "I d'" by simp
  qed
qed

interpretation sys_plugin: plugin_store sys_ok
  by (rule plugin_store_beside [OF beside_identity_only(1) [OF identity_only_sys_ok]])

interpretation sys_market: publication_frame sys_ok
  by (rule publication_frameI [OF beside_identity_only(2) [OF identity_only_sys_ok]])

text \<open>The Plugin tables beside publications, and the marketplaces beside the Plugin domain\<close>

lemma publications_only_plugin_ok: "publications_only plugin_ok"
  unfolding publications_only_def
proof (intro allI impI)
  fix d d' assume f: "forget_market d' = forget_market d" and ok: "plugin_ok d"
  note same = table_same [of forget_market, OF f]
  have "plugins d' = plugins d" "repositories d' = repositories d" "versions d' = versions d"
    "version_history d' = version_history d" "namespaces d' = namespaces d"
    by (rule same, simp add: forget_market_def)+
  then show "plugin_ok d'" by (intro plugin_ok_frame [OF ok]) simp_all
qed

interpretation plg_market: publication_frame plugin_ok
  by (rule publication_frameI [OF publications_only_plugin_ok])

lemma beside_market_tables: "beside_plugins (\<lambda>d. market_tables d = X)"
  unfolding beside_plugins_def
proof (intro allI impI)
  fix d d' assume "forget_plugins d' = forget_plugins d"
  note same = table_same [of forget_plugins, OF this]
  have "marketplace_templates d' = marketplace_templates d" "marketplace_revisions d' = marketplace_revisions d"
    "marketplace_distributions d' = marketplace_distributions d" "distribution_projections d' = distribution_projections d"
    by (rule same, simp add: forget_plugins_def forget_receives_def)+
  then show "(market_tables d' = X) = (market_tables d = X)" by (simp add: market_tables_def)
qed

interpretation shelf: plugin_store "\<lambda>d. market_tables d = X" for X
  by (rule plugin_store_beside [OF beside_market_tables])

section \<open>Runs of the server\<close>

definition server_step :: "world \<Rightarrow> world \<Rightarrow> bool" where
  "server_step w w' \<longleftrightarrow> identity_step w w' \<or> plugin_step w w' \<or> market_step w w'"

definition server_ok :: "db \<Rightarrow> bool" where
  "server_ok d \<longleftrightarrow> sys_ok d \<and> plugin_ok d \<and> market_ok d"

text \<open>The marketplaces need nothing of the other domains.\<close>

lemma market_ok_server_step:
  assumes step: "server_step w w'" and ok: "market_ok (w_db w)"
  shows "market_ok (w_db w')"
proof -
  from step consider "identity_step w w'" | "plugin_step w w'" | "market_step w w'" by (auto simp: server_step_def)
  then show ?thesis
  proof cases
    case 1
    have "beyond (w_db w) (w_db w')" using frame.step [OF 1, of "w_db w"] by simp
    with ok show ?thesis using market_ok_same [of "w_db w'" "w_db w"] by (simp add: beyond_def)
  next
    case 2
    have "market_tables (w_db w') = market_tables (w_db w)" using shelf.plugin_step [OF 2] by blast
    with ok show ?thesis using market_ok_same [of "w_db w'" "w_db w"] by simp
  next
    case 3
    from market_step_ok [OF this ok] show ?thesis .
  qed
qed

lemma market_ok_server_steps: "server_step\<^sup>*\<^sup>* w w' \<Longrightarrow> market_ok (w_db w) \<Longrightarrow> market_ok (w_db w')"
  by (induction rule: rtranclp_induct) (auto intro: market_ok_server_step)

lemma server_ok_step:
  assumes step: "server_step w w'" and ok: "server_ok (w_db w)"
  shows "server_ok (w_db w')"
proof -
  have parts: "sys_ok (w_db w)" "plugin_ok (w_db w)" "market_ok (w_db w)" using ok by (simp_all add: server_ok_def)
  have market: "market_ok (w_db w')" by (rule market_ok_server_step [OF step parts(3)])
  from step consider "identity_step w w'" | "plugin_step w w'" | "market_step w w'" by (auto simp: server_step_def)
  then show ?thesis
  proof cases
    case 1
    have "beyond (w_db w) (w_db w')" using frame.step [OF 1, of "w_db w"] by simp
    with sys.step [OF 1 parts(1)] plugin_ok_beyond [OF parts(2)] market show ?thesis by (simp add: server_ok_def)
  next
    case 2
    with sys_plugin.plugin_step [OF 2 parts(1)] plg.plugin_step [OF 2 parts(2)] market show ?thesis by (simp add: server_ok_def)
  next
    case 3
    with sys_market.market_step [OF 3 parts(1)] plg_market.market_step [OF 3 parts(2)] market
    show ?thesis by (simp add: server_ok_def)
  qed
qed

lemma server_ok_steps: "server_step\<^sup>*\<^sup>* w w' \<Longrightarrow> server_ok (w_db w) \<Longrightarrow> server_ok (w_db w')"
  by (induction rule: rtranclp_induct) (auto intro: server_ok_step)

end
