(* ===== verification/ServerProps.thy ===== *)
theory ServerProps imports ServerInvariant IdentityRuns begin

text \<open>
  The runs of the whole server and what holds in all of them: the Plugin tables are well formed, every
  Plugin has its repository and a default version that can be delivered, and what was recorded once
  is never removed again.
\<close>

section \<open>Runs\<close>

inductive server_run :: "world \<Rightarrow> bool" where
  server_started: "w_db w = empty_db \<Longrightarrow> Bootstrap env hash w = (Inr (), w') \<Longrightarrow> server_run w'"
| server_stepped: "server_run w \<Longrightarrow> server_step w w' \<Longrightarrow> server_run w'"

lemma plugin_ok_empty: "plugin_ok empty_db"
  by (simp add: plugin_ok_defs empty_db_def)

lemma server_ok_run: "server_run w \<Longrightarrow> server_ok (w_db w)"
proof (induction rule: server_run.induct)
  case (server_started w env hash w')
  have "beyond empty_db (w_db w')"
    using keepsD [OF beyond_Bootstrap server_started(2), of empty_db] server_started(1) by simp
  then have "plugin_ok (w_db w')" by (rule plugin_ok_beyond [OF plugin_ok_empty])
  moreover have "market_ok (w_db w')"
    using \<open>beyond empty_db (w_db w')\<close> by (simp add: beyond_def market_ok_def market_tables_def empty_db_def)
  ultimately show ?case using Bootstrap_establishes [OF server_started] by (simp add: server_ok_def)
qed (rule server_ok_step)

section \<open>What only ever grows\<close>

definition plugin_key :: "plugin_row \<Rightarrow> string \<times> string \<times> string" where
  "plugin_key p = (plg_ID p, plg_NamespaceID p, plg_Slug p)"

definition version_key :: "version_row \<Rightarrow> string \<times> string \<times> string" where
  "version_key v = (ver_ID v, ver_PluginID v, ver_Tag v)"

definition extends :: "db \<Rightarrow> db \<Rightarrow> bool" where
  "extends d d' \<longleftrightarrow>
     prefix (version_history d) (version_history d') \<and>
     prefix (map plugin_key (plugins d)) (map plugin_key (plugins d')) \<and>
     prefix (map version_key (versions d)) (map version_key (versions d'))"

lemma extends_refl [simp]: "extends d d"
  by (simp add: extends_def)

lemma extends_grow:
  "version_history d' = version_history d @ h \<Longrightarrow> map plugin_key (plugins d') = map plugin_key (plugins d) @ p \<Longrightarrow>
   map version_key (versions d') = map version_key (versions d) @ v \<Longrightarrow> extends d0 d \<Longrightarrow> extends d0 d'"
  by (auto simp: extends_def intro: prefix_order.trans)

lemma extends_same:
  "version_history d' = version_history d \<Longrightarrow> map plugin_key (plugins d') = map plugin_key (plugins d) \<Longrightarrow>
   map version_key (versions d') = map version_key (versions d) \<Longrightarrow> extends d0 d \<Longrightarrow> extends d0 d'"
  by (simp add: extends_def)

lemma map_plugin_key_update: "keeps_identity f \<Longrightarrow> map plugin_key (update_where P f rows) = map plugin_key rows"
  by (rule map_update_where) (simp add: keeps_identity_def plugin_key_def)

lemma map_version_key_update: "keeps_version_identity f \<Longrightarrow> map version_key (update_where P f rows) = map version_key rows"
  by (rule map_update_where) (simp add: keeps_version_identity_def version_key_def)

lemma keeps_extends_updates:
  "keeps_identity f \<Longrightarrow> keeps (extends d0) (update_plugins b P f)"
  "keeps_version_identity g \<Longrightarrow> keeps (extends d0) (update_versions Q g)"
  unfolding update_plugins_def update_versions_def set_plugins_def set_versions_def
  by (rule keeps_update_rows, erule extends_same [rotated 3]; simp add: map_plugin_key_update map_version_key_update)+

lemma keeps_extends_creates:
  "keeps (extends d0) (create_plugin p)" "keeps (extends d0) (create_repository r)" "keeps (extends d0) (create_version v)"
  "keeps (extends d0) (create_history h)" "keeps (extends d0) (create_orphan_cleanup c)"
  unfolding create_plugin_def create_repository_def create_version_def create_history_def create_orphan_cleanup_def
  by (intro keeps_bindE keeps_insert_row keeps_reads [OF reads_now], erule extends_grow [rotated 3], simp, simp, simp)+

lemma keeps_CreateAggregate_extends: "keeps (extends d0) (CreateAggregate a)"
  unfolding CreateAggregate_def Let_def
  by (intro keeps_if keeps_transaction_body keeps_bindE keeps_map_error keeps_extends_creates keeps_reads [OF reads_fail])

lemma keeps_delete_version_extends: "keeps (extends d0) (delete_version e i t)"
  unfolding delete_version_def
  by (intro keeps_bindE keeps_cas keeps_extends_updates keeps_reads [OF reads_return])
    (simp_all add: keeps_identity_def keeps_version_identity_def)

lemma receives_only_extends: "receives_only (extends d0)"
  unfolding receives_only_def
proof (intro allI impI)
  fix d d' assume f: "forget_receives d' = forget_receives d" and e: "extends d0 d"
  have tables: "t d' = t d" if "\<And>x. t (forget_receives x) = t x" for t :: "db \<Rightarrow> 'a" using f that by metis
  show "extends d0 d'" by (rule extends_same [OF _ _ _ e]) (simp_all add: tables forget_receives_def)
qed

interpretation grow: plugin_store "extends d0" for d0
  by unfold_locales
    (rule keeps_CreateAggregate_extends keeps_extends_creates keeps_extends_updates receives_onlyD [OF receives_only_extends]
       commits_keeps [OF keeps_delete_version_extends]; assumption)+

lemma publications_only_rows:
  assumes "\<And>d d'. plugins d' = plugins d \<Longrightarrow> versions d' = versions d \<Longrightarrow> version_history d' = version_history d \<Longrightarrow> I d \<Longrightarrow> I d'"
  shows "publications_only I"
  unfolding publications_only_def
proof (intro allI impI)
  fix d d' assume f: "forget_market d' = forget_market d" and i: "I d"
  note same = table_same [of forget_market, OF f]
  show "I d'" by (rule assms [OF _ _ _ i]; rule same; simp add: forget_market_def)
qed

interpretation grow_market: publication_frame "extends d0" for d0
  by (rule publication_frameI, rule publications_only_rows, simp add: extends_def)

lemma server_step_extends: "server_step w w' \<Longrightarrow> extends d0 (w_db w) \<Longrightarrow> extends d0 (w_db w')"
  unfolding server_step_def
proof (elim disjE)
  assume "identity_step w w'" "extends d0 (w_db w)"
  then show ?thesis
    using frame.step [of w w' "w_db w"] by (simp add: beyond_def extends_def)
qed (rule grow.plugin_step grow_market.market_step; assumption)+

lemma server_steps_extends: "server_step\<^sup>*\<^sup>* w w' \<Longrightarrow> extends (w_db w) (w_db w')"
  by (induction rule: rtranclp_induct) (auto intro: server_step_extends)

section \<open>The lifecycle is followed\<close>

definition follows :: "(lifecycle \<Rightarrow> lifecycle \<Rightarrow> bool) \<Rightarrow> db \<Rightarrow> db \<Rightarrow> bool" where
  "follows E d0 d \<longleftrightarrow>
     (\<forall>p \<in> set (plugins d). chk_plugin p) \<and>
     (\<forall>p \<in> set (plugins d0). \<exists>q \<in> set (plugins d). plg_ID q = plg_ID p \<and>
        E\<^sup>*\<^sup>* (lifecycle_of p) (lifecycle_of q))"

lemma follows_refl: "plugin_ok d \<Longrightarrow> follows E d d"
  by (auto simp: follows_def plugin_ok_defs)

lemma follows_append:
  "plugins d' = plugins d @ ps \<Longrightarrow> \<forall>p \<in> set ps. chk_plugin p \<Longrightarrow> follows E d0 d \<Longrightarrow> follows E d0 d'"
  unfolding follows_def by simp blast

lemma follows_same: "plugins d' = plugins d \<Longrightarrow> follows E d0 d \<Longrightarrow> follows E d0 d'"
  by (simp add: follows_def)

lemma follows_update:
  assumes f: "follows E d0 d" and id: "keeps_identity f" and lc: "lifecycle_change E P f"
    and chk: "\<forall>p \<in> set (plugins d). P p \<longrightarrow> chk_plugin (f p)"
  shows "follows E d0 (d\<lparr>plugins := update_where P f (plugins d)\<rparr>)"
proof -
  have "\<exists>q \<in> set (update_where P f (plugins d)). plg_ID q = plg_ID p \<and> E\<^sup>*\<^sup>* (lifecycle_of p) (lifecycle_of q)"
    if p: "p \<in> set (plugins d0)" for p
  proof -
    obtain q where q: "q \<in> set (plugins d)" "plg_ID q = plg_ID p" "E\<^sup>*\<^sup>* (lifecycle_of p) (lifecycle_of q)"
      using f p unfolding follows_def by blast
    let ?q = "if P q then f q else q"
    have "lifecycle_of ?q = lifecycle_of q \<or> E (lifecycle_of q) (lifecycle_of ?q)"
      using lc chk f q(1) by (simp add: lifecycle_change_def follows_def)
    with q have "E\<^sup>*\<^sup>* (lifecycle_of p) (lifecycle_of ?q)" "plg_ID ?q = plg_ID p"
      using id by (auto simp: keeps_identity_def intro: rtranclp.rtrancl_into_rtrancl)
    with q(1) show ?thesis by (intro bexI [of _ ?q]) (auto simp: set_update_where)
  qed
  then show ?thesis using f chk by (auto simp: follows_def set_update_where)
qed

lemma keeps_follows_update_plugins:
  "keeps_identity f \<Longrightarrow> lifecycle_change E P f \<Longrightarrow> keeps (follows E d0) (update_plugins b P f)"
  unfolding update_plugins_def set_plugins_def by (rule keeps_update_rows) (simp add: follows_update)

lemma keeps_follows_update_versions: "keeps (follows E d0) (update_versions Q g)"
  unfolding update_versions_def set_versions_def by (rule keeps_update_rows) (erule follows_same [rotated], simp)

lemma keeps_follows_create_plugin: "keeps (follows E d0) (create_plugin p)"
  unfolding create_plugin_def
  by (intro keeps_bindE keeps_insert_row keeps_reads [OF reads_now]) (erule follows_append [rotated 2], simp, simp)

lemma keeps_follows_creates:
  "keeps (follows E d0) (create_repository r)" "keeps (follows E d0) (create_version v)"
  "keeps (follows E d0) (create_history h)" "keeps (follows E d0) (create_orphan_cleanup c)"
  unfolding create_repository_def create_version_def create_history_def create_orphan_cleanup_def
  by (intro keeps_bindE keeps_insert_row keeps_reads [OF reads_now], erule follows_same [rotated], simp)+

lemma keeps_CreateAggregate_follows: "keeps (follows E d0) (CreateAggregate a)"
  unfolding CreateAggregate_def Let_def
  by (intro keeps_if keeps_transaction_body keeps_bindE keeps_map_error keeps_follows_create_plugin keeps_follows_creates
        keeps_reads [OF reads_fail])

lemma keeps_delete_version_follows: "keeps (follows E d0) (delete_version e i t)"
  unfolding delete_version_def
  by (intro keeps_bindE keeps_cas keeps_follows_update_versions keeps_follows_update_plugins keeps_reads [OF reads_return])
    (simp_all add: keeps_identity_def lifecycle_change_same)

lemma receives_only_follows: "receives_only (follows E d0)"
  unfolding receives_only_def
proof (intro allI impI)
  fix d d' assume f: "forget_receives d' = forget_receives d" and e: "follows E d0 d"
  have tables: "t d' = t d" if "\<And>x. t (forget_receives x) = t x" for t :: "db \<Rightarrow> 'a" using f that by metis
  show "follows E d0 d'" by (rule follows_same [OF _ e]) (simp_all add: tables forget_receives_def)
qed

interpretation cycle: plugin_rows E "follows E d0" for E d0
  by unfold_locales
    (rule keeps_CreateAggregate_follows keeps_follows_creates keeps_follows_update_plugins keeps_follows_update_versions
       receives_onlyD [OF receives_only_follows] commits_keeps [OF keeps_delete_version_follows]; assumption)+

interpretation cycles: plugin_store "follows lifecycle_step d0" for d0
  by unfold_locales

interpretation cycle_market: publication_frame "follows E d0" for E d0
  by (rule publication_frameI, rule publications_only_rows, simp add: follows_def)

lemma identity_step_follows: "identity_step w w' \<Longrightarrow> follows E d0 (w_db w) \<Longrightarrow> follows E d0 (w_db w')"
  using frame.step [of w w' "w_db w"] by (simp add: beyond_def follows_def)

lemma server_step_follows: "server_step w w' \<Longrightarrow> follows lifecycle_step d0 (w_db w) \<Longrightarrow> follows lifecycle_step d0 (w_db w')"
  unfolding server_step_def
  by (elim disjE) (rule identity_step_follows cycles.plugin_step cycle_market.market_step; assumption)+

text \<open>A request for an event makes the moves of this event, any other request none.\<close>

lemma server_step_event:
  assumes step: "server_step w w'" and ok: "plugin_ok (w_db w)"
  shows "follows bot (w_db w) (w_db w') \<or> (\<exists>e. lifecycle_request e w w' \<and> follows (lifecycle_move e) (w_db w) (w_db w'))"
proof (cases "\<exists>e. lifecycle_request e w w'")
  case True
  then show ?thesis using cycle.requested_plugin_step [OF _ order_refl follows_refl [OF ok]] by blast
next
  case False
  note start = follows_refl [OF ok, of bot]
  from step False have "follows bot (w_db w) (w_db w')"
    unfolding server_step_def
    using identity_step_follows [OF _ start] cycle.unrequested_plugin_step [OF _ _ start] cycle_market.market_step [OF _ start] by blast
  then show ?thesis ..
qed

lemma follows_event:
  "follows (lifecycle_move e) d0 d \<Longrightarrow> p \<in> set (plugins d0) \<Longrightarrow>
   \<exists>q \<in> set (plugins d). plg_ID q = plg_ID p \<and> (lifecycle_of q = lifecycle_of p \<or> lifecycle_move e (lifecycle_of p) (lifecycle_of q))"
  unfolding follows_def using lifecycle_moves_once by blast

lemma follows_nothing:
  "follows bot d0 d \<Longrightarrow> p \<in> set (plugins d0) \<Longrightarrow> \<exists>q \<in> set (plugins d). plg_ID q = plg_ID p \<and> lifecycle_of q = lifecycle_of p"
  unfolding follows_def by (metis bot2E rtranclp.cases)

lemma server_steps_follows:
  assumes "server_run w" "server_step\<^sup>*\<^sup>* w w'"
  shows "follows lifecycle_step (w_db w) (w_db w')"
  using assms(2)
proof (induction rule: rtranclp_induct)
  case base
  show ?case using server_ok_run [OF assms(1)] by (simp add: server_ok_def follows_refl)
qed (rule server_step_follows)

lemma server_run_steps: "server_step\<^sup>*\<^sup>* w w' \<Longrightarrow> server_run w \<Longrightarrow> server_run w'"
  by (induction rule: rtranclp_induct) (auto intro: server_stepped)

section \<open>A concrete run\<close>

definition demo_commit :: string where "demo_commit = replicate 40 CHR ''a''"

definition demo_inspection :: inspection where
  "demo_inspection = \<lparr>ins_RawTagObjectID = demo_commit, ins_CommitObjectID = demo_commit,
     ins_ManifestDigest = replicate 64 CHR ''b'', ins_ManifestSnapshot = ''{}''\<rparr>"

definition demo_inspector :: inspector where
  "demo_inspector repo tag slug = return demo_inspection"

text \<open>The administrator creates a Plugin in the platform namespace and publishes its first version.\<close>

definition demo_created :: world where
  "demo_created = snd (PluginService_Create demo_admin
     \<lparr>cp_Namespace = ''platform'', cp_Name = ''linter'', cp_Visibility = ''private''\<rparr> demo_team)"

definition demo_published :: world where
  "demo_published = snd (PluginService_Publish (Some demo_inspector) demo_admin ''platform'' ''linter'' ''v1.0.0'' True demo_created)"

lemma pure_demo_inspector: "pure_inspector (Some demo_inspector)"
  by (simp add: pure_inspector_def demo_inspector_def reads_return)

lemma demo_server_start: "server_run demo_start"
  using demo_bootstrap server_started [of demo_world demo_env demo_hash demo_start]
  by (metis demo_start_def demo_world_def prod.collapse world.select_convs(1))

lemma demo_server_team: "server_run demo_team"
  unfolding demo_team_def demo_registered_def
  by (intro server_stepped [OF server_stepped [OF demo_server_start]]; unfold server_step_def)
    (rule disjI1, (rule register create_team))+

lemma demo_server_created: "server_run demo_created"
  unfolding demo_created_def
  by (rule server_stepped [OF demo_server_team]) (simp add: server_step_def create)

lemma demo_published_step: "server_step demo_created demo_published"
  unfolding demo_published_def by (simp add: server_step_def publish pure_demo_inspector)

lemma demo_server_published: "server_run demo_published"
  by (rule server_stepped [OF demo_server_created demo_published_step])

lemma demo_created_plugins:
  "map (\<lambda>p. (plg_ID p, plg_Slug p, plg_Status p)) (plugins (w_db demo_created)) = [(''id-5'', ''linter'', PluginStatusDraft)]"
  by code_simp

lemma demo_published_plugins:
  "map (\<lambda>p. (plg_ID p, plg_Slug p, plg_Status p, plg_DefaultVersionTag p)) (plugins (w_db demo_published)) =
     [(''id-5'', ''linter'', PluginStatusActive, Some ''v1.0.0'')]"
  by code_simp

end
