(* ===== verification/PluginProps.thy ===== *)
theory PluginProps imports ServerProps begin

text \<open>
  The properties of the Plugin domain: the integrity of its tables in every run of the server, the
  permanence of what it records, the refinement of the abstract lifecycle, and what publication,
  archiving and failed or forbidden operations do.
\<close>

section \<open>Every run of the server\<close>

text \<open>C1. The Plugin tables are well formed in every run of the server, whatever the operations, their
  arguments and the failures of database and git: IDs, slugs per namespace, storage keys and tags per
  Plugin are unique, every row passes its check constraints and every reference resolves.\<close>
theorem plugin_tables_well_formed:
  assumes "server_run w"
  shows "plugin_ok (w_db w)"
  using server_ok_run [OF assms] by (simp add: server_ok_def)

theorem plugin_tables_well_formed_witness: "plugin_ok (w_db demo_published)"
  by (rule plugin_tables_well_formed [OF demo_server_published])

text \<open>C25. Every Plugin has exactly one repository, the one that carries its ID, after any run of the server.\<close>
theorem every_plugin_has_one_repository:
  assumes "server_run w" "p \<in> set (plugins (w_db w))"
  shows "\<exists>!r. r \<in> set (repositories (w_db w)) \<and> repo_ID r = plg_ID p"
proof -
  have ok: "repositories_ok (w_db w)" using server_ok_run [OF assms(1)] by (simp add: server_ok_def plugin_ok_def)
  with assms(2) have "plg_ID p \<in> repo_ID ` set (repositories (w_db w))" by (simp add: repositories_ok_def)
  then obtain r where r: "r \<in> set (repositories (w_db w))" "repo_ID r = plg_ID p" by auto
  moreover have "s = r" if "s \<in> set (repositories (w_db w))" "repo_ID s = plg_ID p" for s
    using distinct_map_same [of repo_ID "repositories (w_db w)" s r] ok r that by (simp add: repositories_ok_def)
  ultimately show ?thesis by blast
qed

lemma demo_published_plugin:
  "\<exists>p \<in> set (plugins (w_db demo_published)). plg_Slug p = ''linter'' \<and> plg_DefaultVersionTag p = Some ''v1.0.0''"
  using demo_published_plugins by (cases "plugins (w_db demo_published)") auto

theorem every_plugin_has_one_repository_witness:
  "\<exists>p \<in> set (plugins (w_db demo_published)). plg_Slug p = ''linter'' \<and>
     (\<exists>!r. r \<in> set (repositories (w_db demo_published)) \<and> repo_ID r = plg_ID p)"
  using demo_published_plugin every_plugin_has_one_repository [OF demo_server_published] by blast

text \<open>C13. A default version can always be delivered: after any run of the server the default tag of a
  Plugin names one of its versions that is available and has its object, commit and manifest, although
  receives and recoveries move and delete tags.\<close>
theorem default_version_is_deliverable:
  assumes "server_run w" "p \<in> set (plugins (w_db w))" "plg_DefaultVersionTag p = Some tag"
  shows "\<exists>v \<in> set (versions (w_db w)). ver_PluginID v = plg_ID p \<and> ver_Tag v = tag \<and>
           ver_Status v = VersionStatusAvailable \<and> ver_RawTagObjectID v \<noteq> None \<and> ver_CommitSHA v \<noteq> None \<and>
           ver_ManifestDigest v \<noteq> None \<and> ver_ManifestSnapshot v \<noteq> None"
proof -
  have ok: "plugin_ok (w_db w)" using server_ok_run [OF assms(1)] by (simp add: server_ok_def)
  then have "default_available (w_db w) p" using assms(2) by (simp add: plugin_ok_def plugins_ok_def)
  then obtain v where v: "v \<in> set (versions (w_db w))" "ver_PluginID v = plg_ID p" "ver_Tag v = tag" "ver_Status v = VersionStatusAvailable"
    using assms(3) by (auto simp: default_available_def)
  moreover have "chk_version v" using ok v(1) by (simp add: plugin_ok_def versions_ok_def)
  ultimately show ?thesis by (auto simp: chk_version_def)
qed

theorem default_version_is_deliverable_witness:
  "\<exists>p \<in> set (plugins (w_db demo_published)). \<exists>v \<in> set (versions (w_db demo_published)).
     plg_DefaultVersionTag p = Some ''v1.0.0'' \<and> ver_PluginID v = plg_ID p \<and> ver_Tag v = ''v1.0.0'' \<and> ver_CommitSHA v \<noteq> None"
  using demo_published_plugin default_version_is_deliverable [OF demo_server_published] by blast

text \<open>C16. What the server records stays: whatever happens after a state, the version history only grows at
  its end, and every Plugin and every version keeps its ID, its place and its name, and is never
  removed. This holds from every state and under every failure.\<close>
theorem records_are_permanent:
  assumes "server_step\<^sup>*\<^sup>* w w'"
  shows "prefix (version_history (w_db w)) (version_history (w_db w')) \<and>
         prefix (map plugin_key (plugins (w_db w))) (map plugin_key (plugins (w_db w'))) \<and>
         prefix (map version_key (versions (w_db w))) (map version_key (versions (w_db w')))"
  using server_steps_extends [OF assms] by (simp add: extends_def)

theorem records_are_permanent_witness:
  "prefix (map plugin_key (plugins (w_db demo_created))) (map plugin_key (plugins (w_db demo_published)))"
  using records_are_permanent [of demo_created demo_published] demo_published_step by blast

text \<open>C4. The server refines the abstract lifecycle of a Plugin, step by step: a step of the server leaves the
  state of every Plugin as it is, or it is a request for one event of the abstract machine (publishing,
  archiving or restoring) and makes exactly the move of this event: publishing makes a draft active,
  archiving remembers whether the Plugin was a draft or active, restoring returns exactly there. No other
  request, receive or recovery moves any Plugin, whatever fails. And whatever follows the step, a
  Plugin that had a version published is never a draft again.\<close>
theorem server_refines_the_lifecycle:
  assumes "server_run w" "server_step w w'"
  shows "((\<forall>p \<in> set (plugins (w_db w)). \<exists>p' \<in> set (plugins (w_db w')). plg_ID p' = plg_ID p \<and> lifecycle_of p' = lifecycle_of p) \<or>
          (\<exists>e. lifecycle_request e w w' \<and>
             (\<forall>p \<in> set (plugins (w_db w)). \<exists>p' \<in> set (plugins (w_db w')). plg_ID p' = plg_ID p \<and>
                (lifecycle_of p' = lifecycle_of p \<or> lifecycle_move e (lifecycle_of p) (lifecycle_of p'))))) \<and>
         (\<forall>v p q. server_step\<^sup>*\<^sup>* w' v \<longrightarrow> p \<in> set (plugins (w_db w)) \<longrightarrow> q \<in> set (plugins (w_db v)) \<longrightarrow> plg_ID q = plg_ID p \<longrightarrow>
            was_published (lifecycle_of p) \<longrightarrow> was_published (lifecycle_of q))"
proof (intro conjI allI impI)
  have "plugin_ok (w_db w)" using server_ok_run [OF assms(1)] by (simp add: server_ok_def)
  from server_step_event [OF assms(2) this]
  show "(\<forall>p \<in> set (plugins (w_db w)). \<exists>p' \<in> set (plugins (w_db w')). plg_ID p' = plg_ID p \<and> lifecycle_of p' = lifecycle_of p) \<or>
    (\<exists>e. lifecycle_request e w w' \<and>
       (\<forall>p \<in> set (plugins (w_db w)). \<exists>p' \<in> set (plugins (w_db w')). plg_ID p' = plg_ID p \<and>
          (lifecycle_of p' = lifecycle_of p \<or> lifecycle_move e (lifecycle_of p) (lifecycle_of p'))))"
    using follows_nothing follows_event by meson
next
  fix v p q
  assume later: "server_step\<^sup>*\<^sup>* w' v" and pq: "p \<in> set (plugins (w_db w))" "q \<in> set (plugins (w_db v))" "plg_ID q = plg_ID p"
    and was: "was_published (lifecycle_of p)"
  have steps: "server_step\<^sup>*\<^sup>* w v" using assms(2) later by (rule converse_rtranclp_into_rtranclp)
  obtain r where r: "r \<in> set (plugins (w_db v))" "plg_ID r = plg_ID p" "lifecycle_step\<^sup>*\<^sup>* (lifecycle_of p) (lifecycle_of r)"
    using server_steps_follows [OF assms(1) steps] pq(1) unfolding follows_def by blast
  have "distinct (map plg_ID (plugins (w_db v)))"
    using server_ok_run [OF server_run_steps [OF steps assms(1)]] by (simp add: server_ok_def plugin_ok_def plugins_ok_def)
  then have "r = q" using r(2) pq(3) by (intro distinct_map_same [where k = plg_ID, OF _ r(1) pq(2)]) simp_all
  with r(3) show "was_published (lifecycle_of q)" using was_published_steps [OF _ was] by simp
qed

theorem server_refines_the_lifecycle_witness:
  "\<exists>p \<in> set (plugins (w_db demo_created)). \<exists>q \<in> set (plugins (w_db demo_published)). plg_ID q = plg_ID p \<and>
     lifecycle_of p = Drafted \<and> lifecycle_of q = Activated \<and> lifecycle_request Activation demo_created demo_published"
proof -
  obtain p where p: "plugins (w_db demo_created) = [p]" "plg_ID p = ''id-5''" "lifecycle_of p = Drafted"
    using demo_created_plugins by (auto simp: lifecycle_of_def)
  obtain q where q: "plugins (w_db demo_published) = [q]" "plg_ID q = ''id-5''" "lifecycle_of q = Activated"
    using demo_published_plugins by (auto simp: lifecycle_of_def)
  obtain e where "lifecycle_request e demo_created demo_published" "lifecycle_move e (lifecycle_of p) (lifecycle_of q)"
    using server_refines_the_lifecycle [OF demo_server_created demo_published_step] p q by auto
  with p q show ?thesis by auto
qed

end
