(* ===== verification/PublicationFacts.thy ===== *)
theory PublicationFacts imports ServerProps begin

text \<open>
  What a run of an operation of the Plugin service says: the namespace and the Plugin it found, the
  lock it held, and the change of the rows when it succeeded.
\<close>

section \<open>Shared steps\<close>

lemma attemptE:
  assumes "attempt m k w = (r, w')"
  obtains r1 w1 where "m w = (r1, w1)" "k r1 w1 = (r, w')"
  using assms by (cases "m w") (simp add: attempt_def)

lemma locked_cases:
  assumes "locked pid m w = (r, w')"
  obtains "r = Inl ErrUnavailable" "w_db w' = w_db w" | w1 w2 where "m w1 = (r, w2)" "w_db w1 = w_db w" "w_db w' = w_db w2"
proof (cases "LockPlugin pid w")
  case (Pair l w1)
  show ?thesis
  proof (cases l)
    case (Inl e)
    with assms Pair that(1) readsD [OF reads_LockPlugin Pair] show ?thesis by (auto simp: locked_def bindE_def map_error_def)
  next
    case (Inr u)
    with assms Pair have "attempt m (\<lambda>r. attempt (exec id) (\<lambda>_. of_sum r)) w1 = (r, w')"
      by (simp add: locked_def bindE_def map_error_def)
    then obtain r1 w2 where m: "m w1 = (r1, w2)" and e: "attempt (exec id) (\<lambda>_. of_sum r1) w2 = (r, w')"
      by (rule attemptE)
    from e obtain r2 w3 where x: "exec id w2 = (r2, w3)" and o: "of_sum r1 w3 = (r, w')"
      by (rule attemptE)
    have "r1 = r \<and> w' = w3" using o by (auto simp: of_sum_iff)
    with m x readsD [OF reads_exec_id x] readsD [OF reads_LockPlugin Pair] that(2) show ?thesis by auto
  qed
qed

lemma locked_Inr:
  assumes "locked pid m w = (Inr x, w')"
  obtains w1 w2 where "m w1 = (Inr x, w2)" "w_db w1 = w_db w" "w_db w' = w_db w2"
  by (rule locked_cases [OF assms]) (auto intro: that)

lemma locked_Inl:
  assumes "locked pid m w = (Inl e, w')" "e \<noteq> ErrUnavailable"
  obtains w1 w2 where "m w1 = (Inl e, w2)" "w_db w1 = w_db w"
  by (rule locked_cases [OF assms(1)]) (use assms(2) in \<open>auto intro: that\<close>)

lemma exactAggregate_Inr:
  assumes "exactAggregate nslug s w = (Inr (n, a), w')"
  shows "List.find (\<lambda>n. ns_Slug n = nslug) (namespaces (w_db w)) = Some n \<and>
         agg_Plugin a \<in> set (plugins (w_db w)) \<and> agg_Repository a \<in> set (repositories (w_db w)) \<and>
         repo_ID (agg_Repository a) = plg_ID (agg_Plugin a) \<and>
         plg_NamespaceID (agg_Plugin a) = ns_ID n \<and> plg_Slug (agg_Plugin a) = s \<and> w_db w' = w_db w"
proof -
  from assms have "List.find (\<lambda>n. ns_Slug n = nslug) (namespaces (w_db w)) = Some n"
    and "FindBySlug (ns_ID n) s (w\<lparr>w_faults := tl (w_faults w)\<rparr>) = (Inr a, w')"
    by (auto simp: exactAggregate_def prog_iff split: if_splits)
  with FindBySlug_Inr [of "ns_ID n" s "w\<lparr>w_faults := tl (w_faults w)\<rparr>" a w'] show ?thesis by simp
qed

lemma authorizeMutation_db: "authorizeMutation p a agg w = (r, w') \<Longrightarrow> w_db w' = w_db w"
  by (rule readsD [OF reads_service_steps(5)])

lemma one_row_Inr: "one_row n w = (Inr u, w') \<Longrightarrow> n = 1 \<and> w' = w"
  by (auto simp: one_row_def prog_iff split: if_splits)

lemma same_plugin:
  assumes "plugins_ok d" "p \<in> set (plugins d)" "q \<in> set (plugins d)"
    "plg_NamespaceID p = plg_NamespaceID q" "plg_Slug p = plg_Slug q"
  shows "p = q"
  using assms distinct_map_same [of "\<lambda>p. (plg_NamespaceID p, plg_Slug p)" "plugins d" p q] by (simp add: plugins_ok_def)

section \<open>Archiving and restoring\<close>

text \<open>The frame of a mutation: exact lookup, authorization, lock and a second lookup.\<close>

definition mutation :: "principal \<Rightarrow> action \<Rightarrow> string \<Rightarrow> string \<Rightarrow> (namespace_row \<Rightarrow> aggregate \<Rightarrow> unit prog) \<Rightarrow> unit prog" where
  "mutation p act nslug s body =
     bindE (exactAggregate nslug s) (\<lambda>(n, a).
     bindE (authorizeMutation p act a) (\<lambda>_.
     locked (plg_ID (agg_Plugin a)) (bindE (map_error mapMutationLookup (FindBySlug (ns_ID n) s)) (body n))))"

lemma mutation_Inr:
  assumes "mutation p act nslug s body w = (Inr u, w')"
  obtains n a w1 w2 where "List.find (\<lambda>n. ns_Slug n = nslug) (namespaces (w_db w)) = Some n"
    "body n a w1 = (Inr u, w2)" "w_db w1 = w_db w" "w_db w' = w_db w2"
    "agg_Plugin a \<in> set (plugins (w_db w))" "plg_NamespaceID (agg_Plugin a) = ns_ID n" "plg_Slug (agg_Plugin a) = s"
proof -
  from assms obtain n a0 v1 v2 where ex: "exactAggregate nslug s w = (Inr (n, a0), v1)"
    and au: "authorizeMutation p act a0 v1 = (Inr (), v2)"
    and l: "locked (plg_ID (agg_Plugin a0)) (bindE (map_error mapMutationLookup (FindBySlug (ns_ID n) s)) (body n)) v2 = (Inr u, w')"
    by (auto simp: mutation_def bindE_Inr_iff)
  obtain w1 w2 where m: "bindE (map_error mapMutationLookup (FindBySlug (ns_ID n) s)) (body n) w1 = (Inr u, w2)"
    and db: "w_db w1 = w_db v2" "w_db w' = w_db w2"
    by (rule locked_Inr [OF l])
  from m obtain a w3 where find: "FindBySlug (ns_ID n) s w1 = (Inr a, w3)" and b: "body n a w3 = (Inr u, w2)"
    by (auto simp: bindE_Inr_iff map_error_Inr_iff)
  have "w_db w1 = w_db w"
    using db(1) authorizeMutation_db [OF au] exactAggregate_Inr [OF ex] by simp
  with FindBySlug_Inr [OF find] b db(2) exactAggregate_Inr [OF ex] show ?thesis by (intro that [of n a w3 w2]) simp_all
qed

lemma Archive_Inr:
  assumes "PluginService_Archive p nslug s w = (Inr u, w')"
  obtains n q t where "List.find (\<lambda>n. ns_Slug n = nslug) (namespaces (w_db w)) = Some n"
    "q \<in> set (plugins (w_db w))" "plg_NamespaceID q = ns_ID n" "plg_Slug q = s"
    "plg_Status q = PluginStatusArchived \<longrightarrow> w_db w' = w_db w"
    "plg_Status q \<noteq> PluginStatusArchived \<longrightarrow> w_db w' = (w_db w)\<lparr>plugins := update_where
       (\<lambda>x. plg_NamespaceID x = ns_ID n \<and> plg_ID x = plg_ID q \<and> plg_Status x = plg_Status q)
       (\<lambda>x. x\<lparr>plg_Status := PluginStatusArchived, plg_ArchivedFrom := Some (plg_Status q), plg_UpdatedAt := t\<rparr>)
       (plugins (w_db w))\<rparr>"
proof -
  let ?body = "\<lambda>(n::namespace_row) (a::aggregate). let q = agg_Plugin a in
        if plg_Status q = PluginStatusArchived then return ()
        else if plg_Status q \<noteq> PluginStatusDraft \<and> plg_Status q \<noteq> PluginStatusActive then fail ErrConflict
        else bindE now (\<lambda>t.
             bindE (map_error (wrapUnavailable ''archive Plugin'')
                      (update_plugins False
                         (\<lambda>x. plg_NamespaceID x = ns_ID n \<and> plg_ID x = plg_ID q \<and> plg_Status x = plg_Status q)
                         (\<lambda>x. x\<lparr>plg_Status := PluginStatusArchived, plg_ArchivedFrom := Some (plg_Status q),
                                plg_UpdatedAt := t\<rparr>)))
               one_row)"
  have "PluginService_Archive p nslug s = mutation p ActionPluginArchive nslug s ?body"
    by (simp add: PluginService_Archive_def mutation_def)
  from assms [unfolded this] obtain n a w1 w2 where f1: "List.find (\<lambda>n. ns_Slug n = nslug) (namespaces (w_db w)) = Some n"
    and body: "?body n a w1 = (Inr u, w2)" and f2: "w_db w1 = w_db w" "w_db w' = w_db w2"
    "agg_Plugin a \<in> set (plugins (w_db w))" "plg_NamespaceID (agg_Plugin a) = ns_ID n" "plg_Slug (agg_Plugin a) = s"
    by (rule mutation_Inr)
  note f = f1 f2
  show ?thesis
    using f body
    by (intro that [of n "agg_Plugin a" "w_clock w1 (w_ticks w1)"])
      (auto simp: Let_def prog_iff update_plugins_def set_plugins_def dest!: one_row_Inr split: if_splits)
qed

lemma Restore_Inr:
  assumes "PluginService_Restore p nslug s w = (Inr u, w')"
  obtains n q t from_status where "List.find (\<lambda>n. ns_Slug n = nslug) (namespaces (w_db w)) = Some n"
    "q \<in> set (plugins (w_db w))" "plg_NamespaceID q = ns_ID n" "plg_Slug q = s"
    "plg_Status q = PluginStatusArchived" "plg_ArchivedFrom q = Some from_status"
    "w_db w' = (w_db w)\<lparr>plugins := update_where
       (\<lambda>x. plg_NamespaceID x = ns_ID n \<and> plg_ID x = plg_ID q \<and>
            plg_Status x = PluginStatusArchived \<and> plg_ArchivedFrom x = Some from_status)
       (\<lambda>x. x\<lparr>plg_Status := from_status, plg_ArchivedFrom := None, plg_UpdatedAt := t\<rparr>) (plugins (w_db w))\<rparr>"
proof -
  let ?body = "\<lambda>(n::namespace_row) (a::aggregate). let q = agg_Plugin a in
        if plg_Status q \<noteq> PluginStatusArchived then fail ErrConflict
        else case plg_ArchivedFrom q of
               None \<Rightarrow> fail ErrConflict
             | Some from_status \<Rightarrow>
                 if from_status \<noteq> PluginStatusDraft \<and> from_status \<noteq> PluginStatusActive then fail ErrConflict
                 else bindE now (\<lambda>t.
                   bindE (map_error (wrapUnavailable ''restore Plugin'')
                            (update_plugins False
                               (\<lambda>x. plg_NamespaceID x = ns_ID n \<and> plg_ID x = plg_ID q \<and>
                                    plg_Status x = PluginStatusArchived \<and> plg_ArchivedFrom x = Some from_status)
                               (\<lambda>x. x\<lparr>plg_Status := from_status, plg_ArchivedFrom := None, plg_UpdatedAt := t\<rparr>)))
                     one_row)"
  have "PluginService_Restore p nslug s = mutation p ActionPluginArchive nslug s ?body"
    by (simp add: PluginService_Restore_def mutation_def)
  from assms [unfolded this] obtain n a w1 w2 where f1: "List.find (\<lambda>n. ns_Slug n = nslug) (namespaces (w_db w)) = Some n"
    and body: "?body n a w1 = (Inr u, w2)" and f2: "w_db w1 = w_db w" "w_db w' = w_db w2"
    "agg_Plugin a \<in> set (plugins (w_db w))" "plg_NamespaceID (agg_Plugin a) = ns_ID n" "plg_Slug (agg_Plugin a) = s"
    by (rule mutation_Inr)
  note f = f1 f2
  from body obtain st where "plg_Status (agg_Plugin a) = PluginStatusArchived" "plg_ArchivedFrom (agg_Plugin a) = Some st"
    by (auto simp: Let_def fail_iff split: if_splits option.splits)
  with f body show ?thesis
    by (intro that [of n "agg_Plugin a" st "w_clock w1 (w_ticks w1)"])
      (auto simp: Let_def prog_iff update_plugins_def set_plugins_def dest!: one_row_Inr split: if_splits)
qed

section \<open>A small shop\<close>

text \<open>
  Two users with their personal namespaces; the first owns a private draft and its repository. The
  properties of single operations are shown at this state.
\<close>

definition shop_user :: "string \<Rightarrow> string \<Rightarrow> user_row" where
  "shop_user uid username =
     \<lparr>user_ID = uid, user_Username = username, user_Email = None, user_DisplayName = username,
      user_Status = UserStatusActive, user_PasswordHash = [], user_CreatedAt = 0, user_UpdatedAt = 0\<rparr>"

definition shop_namespace :: "string \<Rightarrow> string \<Rightarrow> string \<Rightarrow> namespace_row" where
  "shop_namespace nid uid username =
     \<lparr>ns_ID = nid, ns_Kind = NamespaceKindUser, ns_Slug = username, ns_DisplayName = username,
      ns_OwnerUserID = Some uid, ns_CreatedAt = 0, ns_UpdatedAt = 0\<rparr>"

definition shop_plugin :: plugin_row where
  "shop_plugin =
     \<lparr>plg_ID = ''p1'', plg_NamespaceID = ''n1'', plg_Slug = ''linter'', plg_Description = [],
      plg_Visibility = VisibilityPrivate, plg_Status = PluginStatusDraft, plg_ArchivedFrom = None,
      plg_DefaultVersionTag = None, plg_CreatedAt = 1, plg_UpdatedAt = 1\<rparr>"

definition shop_repository :: repository_row where
  "shop_repository =
     \<lparr>repo_ID = ''p1'', repo_StorageKey = ''p1'', repo_Status = RepositoryReady, repo_CreatedAt = 1, repo_UpdatedAt = 1\<rparr>"

definition shop_db :: db where
  "shop_db = empty_db\<lparr>users := [shop_user ''u1'' ''acme'', shop_user ''u2'' ''other''],
     namespaces := [shop_namespace ''n1'' ''u1'' ''acme'', shop_namespace ''n2'' ''u2'' ''other''],
     plugins := [shop_plugin], repositories := [shop_repository]\<rparr>"

definition shop :: world where
  "shop =
     \<lparr>w_db = shop_db, w_faults = [], w_clock = (\<lambda>n. 1000 + int n), w_ticks = 0,
      w_ids = (\<lambda>n. ''id-'' @ dec_digits n), w_next_id = 0, w_lower = id, w_uuid = (\<lambda>_. True),
      w_storage = empty_storage\<lparr>bare_repositories := [(''p1'', 1)]\<rparr>, w_io = []\<rparr>"

definition shop_owner :: principal where
  "shop_owner = \<lparr>p_kind = principalUser, p_user_id = ''u1'', p_username = ''acme'',
                 p_credential = CredentialJWT, p_scopes = UnrestrictedScopes\<rparr>"

definition shop_stranger :: principal where
  "shop_stranger = \<lparr>p_kind = principalUser, p_user_id = ''u2'', p_username = ''other'',
                    p_credential = CredentialJWT, p_scopes = UnrestrictedScopes\<rparr>"

lemma shop_ok: "plugin_ok (w_db shop)"
  by (simp add: plugin_ok_defs shop_def shop_db_def empty_db_def shop_plugin_def shop_repository_def shop_namespace_def
      chk_plugin_def chk_repository_def default_available_def)

end
