(* ===== verification/PublicationProps.thy ===== *)
theory PublicationProps imports PublicationFacts begin

text \<open>
  What the operations of the Plugin service do: archiving and restoring, publication, creation and its
  compensation, and the errors a caller may see.
\<close>

section \<open>Archiving is undone by restoring\<close>

text \<open>The rows without the time of their last change.\<close>

definition undated :: "plugin_row list \<Rightarrow> plugin_row list" where
  "undated rows = map (\<lambda>p. p\<lparr>plg_UpdatedAt := 0\<rparr>) rows"

text \<open>C26. Archiving a Plugin and restoring it, whoever does it and whatever else fails in between, leaves
  every column of every Plugin as it was, apart from the time of the last change, and every other
  table untouched.\<close>
theorem archive_restore_round_trip:
  assumes "plugin_ok (w_db w)"
    and find: "List.find (\<lambda>n. ns_Slug n = nslug) (namespaces (w_db w)) = Some n"
    and p: "p \<in> set (plugins (w_db w))" "plg_NamespaceID p = ns_ID n" "plg_Slug p = s" "plg_Status p \<noteq> PluginStatusArchived"
    and archived: "PluginService_Archive who nslug s w = (Inr u, w1)"
    and between: "w_db v = w_db w1"
    and restored: "PluginService_Restore whom nslug s v = (Inr u', w2)"
  shows "undated (plugins (w_db w2)) = undated (plugins (w_db w)) \<and> w_db w2 = (w_db w)\<lparr>plugins := plugins (w_db w2)\<rparr>"
proof -
  have ok: "plugins_ok (w_db w)" using assms(1) by (simp add: plugin_ok_def)
  obtain n' q t where a: "List.find (\<lambda>n. ns_Slug n = nslug) (namespaces (w_db w)) = Some n'"
    "q \<in> set (plugins (w_db w))" "plg_NamespaceID q = ns_ID n'" "plg_Slug q = s"
    and a': "plg_Status q \<noteq> PluginStatusArchived \<longrightarrow> w_db w1 = (w_db w)\<lparr>plugins := update_where
       (\<lambda>x. plg_NamespaceID x = ns_ID n' \<and> plg_ID x = plg_ID q \<and> plg_Status x = plg_Status q)
       (\<lambda>x. x\<lparr>plg_Status := PluginStatusArchived, plg_ArchivedFrom := Some (plg_Status q), plg_UpdatedAt := t\<rparr>)
       (plugins (w_db w))\<rparr>"
    by (rule Archive_Inr [OF archived])
  have n: "n' = n" and q: "q = p" using a find p same_plugin [OF ok a(2) p(1)] by simp_all
  define arch where "arch x = (if x = p then x\<lparr>plg_Status := PluginStatusArchived, plg_ArchivedFrom := Some (plg_Status p), plg_UpdatedAt := t\<rparr> else x)" for x
  have arch_p: "plg_NamespaceID (arch x) = plg_NamespaceID x" "plg_ID (arch x) = plg_ID x" "plg_Slug (arch x) = plg_Slug x"
    "plg_Status (arch p) = PluginStatusArchived" "plg_ArchivedFrom (arch p) = Some (plg_Status p)"
    "x \<noteq> p \<Longrightarrow> arch x = x" for x
    by (simp_all add: arch_def)
  have ids: "x = p" if "x \<in> set (plugins (w_db w))" "plg_ID x = plg_ID p" for x
    using distinct_map_same [where k = plg_ID, OF _ that(1) p(1) that(2)] ok by (simp add: plugins_ok_def)
  have w1: "w_db w1 = (w_db w)\<lparr>plugins := map arch (plugins (w_db w))\<rparr>"
    using a' p ids unfolding n q update_where_def by (auto intro!: db.fold_congs simp: arch_def)
  obtain n'' r t' st where b: "List.find (\<lambda>n. ns_Slug n = nslug) (namespaces (w_db v)) = Some n''"
    "r \<in> set (plugins (w_db v))" "plg_NamespaceID r = ns_ID n''" "plg_Slug r = s"
    "plg_Status r = PluginStatusArchived" "plg_ArchivedFrom r = Some st"
    and b': "w_db w2 = (w_db v)\<lparr>plugins := update_where
       (\<lambda>x. plg_NamespaceID x = ns_ID n'' \<and> plg_ID x = plg_ID r \<and>
            plg_Status x = PluginStatusArchived \<and> plg_ArchivedFrom x = Some st)
       (\<lambda>x. x\<lparr>plg_Status := st, plg_ArchivedFrom := None, plg_UpdatedAt := t'\<rparr>) (plugins (w_db v))\<rparr>"
    by (rule Restore_Inr [OF restored])
  obtain x where x: "x \<in> set (plugins (w_db w))" "r = arch x" using b(2) between w1 by auto
  have "n'' = n" using b(1) between w1 find by simp
  have same: "plg_NamespaceID r = plg_NamespaceID x" "plg_Slug r = plg_Slug x" by (simp_all add: x(2) arch_p)
  have "x = p"
  proof (rule same_plugin [OF ok x(1) p(1)])
    show "plg_NamespaceID x = plg_NamespaceID p" using same(1) b(3) p(2) \<open>n'' = n\<close> by metis
    show "plg_Slug x = plg_Slug p" using same(2) b(4) p(3) by metis
  qed
  then have r: "r = arch p" using x(2) by metis
  then have st: "st = plg_Status p" using b(6) by (simp add: arch_p)
  have none: "plg_ArchivedFrom p = None" using ok p by (auto simp: plugins_ok_def chk_plugin_def)
  define rest where "rest x = (if x = p then x\<lparr>plg_UpdatedAt := t'\<rparr> else x)" for x
  have undone: "(arch p)\<lparr>plg_Status := st, plg_ArchivedFrom := None, plg_UpdatedAt := t'\<rparr> = rest p"
    using none by (cases p) (simp add: st arch_def rest_def)
  have "update_where (\<lambda>x. plg_NamespaceID x = ns_ID n'' \<and> plg_ID x = plg_ID r \<and>
            plg_Status x = PluginStatusArchived \<and> plg_ArchivedFrom x = Some st)
       (\<lambda>x. x\<lparr>plg_Status := st, plg_ArchivedFrom := None, plg_UpdatedAt := t'\<rparr>) (map arch (plugins (w_db w))) =
     map rest (plugins (w_db w))"
    unfolding update_where_def map_map o_def
  proof (rule map_cong [OF refl])
    fix x assume x: "x \<in> set (plugins (w_db w))"
    show "(if plg_NamespaceID (arch x) = ns_ID n'' \<and> plg_ID (arch x) = plg_ID r \<and>
              plg_Status (arch x) = PluginStatusArchived \<and> plg_ArchivedFrom (arch x) = Some st
           then (arch x)\<lparr>plg_Status := st, plg_ArchivedFrom := None, plg_UpdatedAt := t'\<rparr> else arch x) = rest x"
    proof (cases "x = p")
      case True
      show ?thesis by (simp add: True arch_p r st p \<open>n'' = n\<close> undone [unfolded st])
    next
      case False
      with ids [OF x] show ?thesis by (auto simp: r arch_p rest_def)
    qed
  qed
  then have "w_db w2 = (w_db w)\<lparr>plugins := map rest (plugins (w_db w))\<rparr>"
    unfolding b' between w1 by simp
  then show ?thesis by (auto simp: undated_def rest_def)
qed

definition shop_archived :: world where
  "shop_archived = snd (PluginService_Archive shop_owner ''acme'' ''linter'' shop)"

definition shop_restored :: world where
  "shop_restored = snd (PluginService_Restore shop_owner ''acme'' ''linter'' shop_archived)"

lemma shop_archive_restore:
  "fst (PluginService_Archive shop_owner ''acme'' ''linter'' shop) = Inr ()"
  "fst (PluginService_Restore shop_owner ''acme'' ''linter'' shop_archived) = Inr ()"
  "map plg_Status (plugins (w_db shop_archived)) = [PluginStatusArchived]"
  by code_simp+

theorem archive_restore_round_trip_witness:
  "map plg_Status (plugins (w_db shop_archived)) = [PluginStatusArchived] \<and>
   undated (plugins (w_db shop_restored)) = undated [shop_plugin]"
proof -
  have "undated (plugins (w_db shop_restored)) = undated (plugins (w_db shop)) \<and>
        w_db shop_restored = (w_db shop)\<lparr>plugins := plugins (w_db shop_restored)\<rparr>"
  proof (rule archive_restore_round_trip [OF shop_ok])
    show "List.find (\<lambda>n. ns_Slug n = ''acme'') (namespaces (w_db shop)) = Some (shop_namespace ''n1'' ''u1'' ''acme'')"
      by (simp add: shop_def shop_db_def shop_namespace_def)
    show "shop_plugin \<in> set (plugins (w_db shop))" by (simp add: shop_def shop_db_def)
    show "PluginService_Archive shop_owner ''acme'' ''linter'' shop = (Inr (), shop_archived)"
      by (simp add: prod_eq_iff shop_archive_restore(1)) (simp add: shop_archived_def)
    show "PluginService_Restore shop_owner ''acme'' ''linter'' shop_archived = (Inr (), shop_restored)"
      by (simp add: prod_eq_iff shop_archive_restore(2)) (simp add: shop_restored_def)
  qed (simp_all add: shop_plugin_def shop_namespace_def)
  with shop_archive_restore(3) show ?thesis by (simp add: shop_def shop_db_def)
qed

section \<open>Publication\<close>

lemma keeps_under_lock: "keeps I m \<Longrightarrow> keeps I (locked pid m)"
  by (rule keepsI) (erule locked_cases, auto dest: keepsD)

lemma keeps_version_publish:
  assumes "pure_inspector insp" and v: "ver_Status v = VersionStatusAvailable"
  shows "keeps (\<lambda>d. v \<in> set (versions d)) (PluginService_Publish insp p n s tag def)"
proof -
  let ?I = "\<lambda>d. v \<in> set (versions d)"
  have creates: "keeps ?I (create_version u)" "keeps ?I (create_history h)" for u h
    unfolding create_version_def create_history_def by (intro keeps_bindE keeps_insert_row keeps_reads [OF reads_now]; simp)+
  have changes: "keeps ?I (update_plugins b P f)" "keeps ?I (update_versions (\<lambda>u. A u \<and> B u \<and> C u \<and> ver_Status u = VersionStatusDeleted) g)"
    for b P f A B C g
    unfolding update_plugins_def update_versions_def set_plugins_def set_versions_def
    by (rule keeps_update_rows, use v in \<open>auto simp: set_update_where intro!: image_eqI [of v _ v]\<close>)+
  have look: "reads (inspect_twice f a tag)" if "insp = Some f" for f a
    using assms that unfolding inspect_twice_def Let_def pure_inspector_def by (intro read_only) auto
  have "keeps ?I (write_version pid tag i t)" for pid i t
    unfolding write_version_def Let_def
    by (intro keeps_attempt keeps_case_sum keeps_if keeps_bindE keeps_map_error creates changes keeps_reads read_only)
  moreover have "keeps ?I (record_publication pid tag i t op)" for pid i t op
    unfolding record_publication_def by (intro keeps_case_option keeps_bindE creates keeps_reads read_only)
  moreover have "keeps ?I (activate_plugin n q tag def t)" for n q t
    unfolding activate_plugin_def Let_def by (intro keeps_if keeps_bindE changes keeps_reads read_only)
  ultimately have publish: "keeps ?I (publish_transaction n a tag def i t)" for n a i t
    unfolding publish_transaction_def Let_def by (intro keeps_bindE keeps_if keeps_case_prod) (simp_all add: keeps_reads read_only)
  then show ?thesis
    unfolding PluginService_Publish_def
    by (cases insp; simp only: option.case)
      (intro keeps_bindE keeps_if keeps_case_prod keeps_under_lock keeps_map_error keeps_transaction_body
         publish keeps_reads look read_only; simp)+
qed

text \<open>C18. An available version is immutable to publication: whatever is published, by whom and with whatever
  outcome, every row of an available version stays exactly as it is; its content can only be
  replaced by a coordinated receive.\<close>
theorem available_versions_are_immutable:
  assumes "pure_inspector insp" "v \<in> set (versions (w_db w))" "ver_Status v = VersionStatusAvailable"
    and "PluginService_Publish insp p n s tag def w = (r, w')"
  shows "v \<in> set (versions (w_db w'))"
  using keepsD [OF keeps_version_publish [OF assms(1,3)] assms(4)] assms(2) .

definition shop_published :: world where
  "shop_published = snd (PluginService_Publish (Some demo_inspector) shop_owner ''acme'' ''linter'' ''v1.0.0'' True shop)"

definition other_inspector :: inspector where
  "other_inspector repo tag slug =
     return (demo_inspection\<lparr>ins_RawTagObjectID := replicate 40 CHR ''c'', ins_CommitObjectID := replicate 40 CHR ''c''\<rparr>)"

lemma shop_publication:
  "map (\<lambda>v. (ver_Tag v, ver_Status v, ver_CommitSHA v)) (versions (w_db shop_published)) =
     [(''v1.0.0'', VersionStatusAvailable, Some demo_commit)]"
  "fst (PluginService_Publish (Some other_inspector) shop_owner ''acme'' ''linter'' ''v1.0.0'' True shop_published) = Inl ErrConflict"
  by code_simp+

theorem available_versions_are_immutable_witness:
  "\<exists>v \<in> set (versions (w_db (snd (PluginService_Publish (Some other_inspector) shop_owner ''acme'' ''linter'' ''v1.0.0'' True shop_published)))).
     ver_Tag v = ''v1.0.0'' \<and> ver_CommitSHA v = Some demo_commit"
proof -
  obtain v where v: "versions (w_db shop_published) = [v]" "ver_Tag v = ''v1.0.0''" "ver_Status v = VersionStatusAvailable"
    "ver_CommitSHA v = Some demo_commit"
    using shop_publication(1) by auto
  have "v \<in> set (versions (w_db (snd (PluginService_Publish (Some other_inspector) shop_owner ''acme'' ''linter'' ''v1.0.0'' True shop_published))))"
  proof (rule available_versions_are_immutable)
    show "pure_inspector (Some other_inspector)" by (simp add: pure_inspector_def other_inspector_def reads_return)
    show "v \<in> set (versions (w_db shop_published))" by (simp add: v)
  qed (simp_all add: v prod_eq_iff)
  with v show ?thesis by blast
qed

end
