(* ===== verification/MarketServing.thy ===== *)
theory MarketServing imports MarketInvariant begin

text \<open>
  What is served under a public key: a lookup in a well-formed database finds the current projection
  of the distribution with its revision, and a grant says nothing else.
\<close>

section \<open>Lookups by key\<close>

lemma first_row_unique:
  assumes "x \<in> set xs" "\<And>y. y \<in> set xs \<Longrightarrow> y = x"
  shows "first_row xs = Some x"
proof (cases xs)
  case (Cons y ys)
  then have "y = x" by (intro assms(2)) simp
  with Cons show ?thesis by (simp add: first_row_def)
qed (use assms(1) in simp)

text \<open>The rows a distribution is served from\<close>

definition serves :: "db \<Rightarrow> marketplace_distribution_row \<Rightarrow> distribution_projection_row \<Rightarrow> revision_row \<Rightarrow> bool" where
  "serves d m p r \<longleftrightarrow>
     m \<in> set (marketplace_distributions d) \<and> mdist_Status m = StatusActive \<and> mdist_RevokedAt m = None \<and>
     (\<exists>t \<in> set (marketplace_templates d). tmpl_ID t = mdist_TemplateID m \<and> public_template t) \<and>
     p \<in> set (distribution_projections d) \<and> mdist_CurrentProjectionID m = Some (proj_ID p) \<and> proj_ID p \<noteq> [] \<and>
     proj_MarketplaceDistributionID p = mdist_ID m \<and> proj_Status p = StatusActive \<and>
     r \<in> set (marketplace_revisions d) \<and> rev_ID r = proj_RevisionID p \<and> rev_TemplateID r = mdist_TemplateID m \<and>
     rev_Status r = StatusActive \<and> proj_ContentDigest p \<noteq> [] \<and> proj_ContentDigest p = rev_ContentDigest r"

lemma findActiveMarketplace_Inr:
  assumes "findActiveMarketplace q w = (Inr s, w')"
  shows "q (snap_Distribution s) \<and> serves (w_db w) (snap_Distribution s) (snap_Projection s) (snap_Revision s)"
proof -
  let ?d = "w_db w"
  from assms obtain m pid p r where
    m: "first_row [m. m \<leftarrow> marketplace_distributions ?d, t \<leftarrow> marketplace_templates ?d,
             tmpl_ID t = mdist_TemplateID m \<and> q m \<and> mdist_Status m = StatusActive \<and> mdist_RevokedAt m = None \<and> public_template t] = Some m"
    and cur: "mdist_CurrentProjectionID m = Some pid" "pid \<noteq> []"
    and p: "List.find (\<lambda>p. proj_ID p = pid \<and> proj_MarketplaceDistributionID p = mdist_ID m \<and> proj_Status p = StatusActive)
                                 (distribution_projections ?d) = Some p"
    and r: "List.find (\<lambda>r. rev_ID r = proj_RevisionID p \<and> rev_TemplateID r = mdist_TemplateID m \<and> rev_Status r = StatusActive)
                                 (marketplace_revisions ?d) = Some r"
    and dg: "proj_ContentDigest p \<noteq> []" "proj_ContentDigest p = rev_ContentDigest r"
    and s: "s = \<lparr>snap_Distribution = m, snap_Projection = p, snap_Revision = r\<rparr>"
    by (auto simp: findActiveMarketplace_def transaction_Inr_iff bindE_Inr_iff map_error_Inr_iff take_row_Inr_iff return_iff fail_iff
        split: option.splits if_splits)
  show ?thesis
    using first_row_Some [OF m] find_Some_iff_hd [OF p] find_Some_iff_hd [OF r] cur dg
    by (auto simp: s serves_def)
qed

lemma findActiveMarketplace_serves:
  assumes ok: "market_ok (w_db w)" and s: "serves (w_db w) m p r" and q: "q m"
    and only: "\<And>n. n \<in> set (marketplace_distributions (w_db w)) \<Longrightarrow> q n \<Longrightarrow> n = m" and calm: "w_faults w = []"
  shows "findActiveMarketplace q w = (Inr \<lparr>snap_Distribution = m, snap_Projection = p, snap_Revision = r\<rparr>, w)"
proof -
  let ?d = "w_db w"
  from ok have keys: "distinct (map proj_ID (distribution_projections ?d))" "distinct (map rev_ID (marketplace_revisions ?d))"
    by (simp_all add: market_ok_def market_tables_def)
  have m: "first_row [m. m \<leftarrow> marketplace_distributions ?d, t \<leftarrow> marketplace_templates ?d,
             tmpl_ID t = mdist_TemplateID m \<and> q m \<and> mdist_Status m = StatusActive \<and> mdist_RevokedAt m = None \<and> public_template t] = Some m"
    by (rule first_row_unique) (use s q only in \<open>auto simp: serves_def\<close>)
  have p: "List.find (\<lambda>x. proj_ID x = proj_ID p \<and> proj_MarketplaceDistributionID x = mdist_ID m \<and> proj_Status x = StatusActive)
                                 (distribution_projections ?d) = Some p"
    by (rule find_unique) (use s keys(1) distinct_map_same in \<open>fastforce simp: serves_def\<close>)+
  have r: "List.find (\<lambda>x. rev_ID x = proj_RevisionID p \<and> rev_TemplateID x = mdist_TemplateID m \<and> rev_Status x = StatusActive)
                                 (marketplace_revisions ?d) = Some r"
    by (rule find_unique) (use s keys(2) distinct_map_same in \<open>fastforce simp: serves_def\<close>)+
  have calm': "w\<lparr>w_faults := []\<rparr> = w" using calm by simp
  have cur: "mdist_CurrentProjectionID m = Some (proj_ID p)" "proj_ID p \<noteq> []" "proj_ContentDigest p \<noteq> []"
    "proj_ContentDigest p = rev_ContentDigest r"
    using s by (auto simp: serves_def)
  show ?thesis
    using m p r cur
    by (simp add: findActiveMarketplace_def transaction_Inr_iff bindE_Inr_iff map_error_Inr_iff take_row_Inr_iff return_iff calm calm')
qed

section \<open>Grants\<close>

lemma ResolveMarketplace_Inr:
  assumes "ResolveMarketplace P key w = (Inr g, w')"
  obtains m p r where "serves (w_db w) m p r" "mdist_PublicKey m = key" "ParseMarketplacePublicKey key = Inr key"
    "pub_ParseUUID P (mdist_ID m) = Some (mg_DistributionID g)" "pub_ParseUUID P (rev_ID r) = Some (mg_RevisionID g)"
    "g = \<lparr>mg_DistributionID = mg_DistributionID g, mg_PublicKey = key, mg_RevisionID = mg_RevisionID g,
          mg_Projection = (Some ArtifactKindMarketplace, proj_StorageKey p), mg_ContentJSON = rev_ContentJSON r,
          mg_ContentDigest = rev_ContentDigest r\<rparr>"
proof -
  obtain k where k0: "ParseMarketplacePublicKey key = Inr k"
    using assms by (cases "ParseMarketplacePublicKey key") (auto simp: ResolveMarketplace_def bindE_Inr_iff map_error_Inr_iff of_sum_iff)
  from assms obtain s v where k: "ParseMarketplacePublicKey key = Inr k" and f: "FindActiveMarketplace key w = (Inr s, v)"
    and rest: "(case pub_ParseUUID P (mdist_ID (snap_Distribution s)) of
       None \<Rightarrow> fail ErrDistributionUnavailable
     | Some distributionID \<Rightarrow>
         if mdist_PublicKey (snap_Distribution s) \<noteq> key then fail ErrDistributionUnavailable
         else (case pub_ParseUUID P (rev_ID (snap_Revision s)) of
                 None \<Rightarrow> fail ErrDistributionUnavailable
               | Some revisionID \<Rightarrow>
                   return \<lparr>mg_DistributionID = distributionID, mg_PublicKey = key, mg_RevisionID = revisionID,
                           mg_Projection = (Some ArtifactKindMarketplace, proj_StorageKey (snap_Projection s)),
                           mg_ContentJSON = rev_ContentJSON (snap_Revision s), mg_ContentDigest = rev_ContentDigest (snap_Revision s)\<rparr>)) v = (Inr g, w')"
    by (auto simp: ResolveMarketplace_def bindE_Inr_iff map_error_Inr_iff of_sum_iff k0)
  from rest obtain did rid where u: "pub_ParseUUID P (mdist_ID (snap_Distribution s)) = Some did" "pub_ParseUUID P (rev_ID (snap_Revision s)) = Some rid"
    and g: "g = \<lparr>mg_DistributionID = did, mg_PublicKey = key, mg_RevisionID = rid,
          mg_Projection = (Some ArtifactKindMarketplace, proj_StorageKey (snap_Projection s)),
          mg_ContentJSON = rev_ContentJSON (snap_Revision s), mg_ContentDigest = rev_ContentDigest (snap_Revision s)\<rparr>"
    by (simp add: return_iff fail_iff split: option.splits if_splits)
  from k have "k = key" by (auto simp: ParseMarketplacePublicKey_def split: if_splits)
  with k u g findActiveMarketplace_Inr [OF f [unfolded FindActiveMarketplace_def]]
  show ?thesis by (intro that [of "snap_Distribution s" "snap_Projection s" "snap_Revision s"]) auto
qed

lemma ResolveMarketplace_serves:
  assumes ok: "market_ok (w_db w)" and s: "serves (w_db w) m p r" and calm: "w_faults w = []"
    and key: "ParseMarketplacePublicKey (mdist_PublicKey m) = Inr k"
    and u: "pub_ParseUUID P (mdist_ID m) = Some did" "pub_ParseUUID P (rev_ID r) = Some rid"
  shows "ResolveMarketplace P (mdist_PublicKey m) w =
    (Inr \<lparr>mg_DistributionID = did, mg_PublicKey = mdist_PublicKey m, mg_RevisionID = rid,
          mg_Projection = (Some ArtifactKindMarketplace, proj_StorageKey p), mg_ContentJSON = rev_ContentJSON r,
          mg_ContentDigest = rev_ContentDigest r\<rparr>, w)"
proof -
  have "distinct (map mdist_PublicKey (marketplace_distributions (w_db w)))" using ok by (simp add: market_ok_def market_tables_def)
  then have "FindActiveMarketplace (mdist_PublicKey m) w = (Inr \<lparr>snap_Distribution = m, snap_Projection = p, snap_Revision = r\<rparr>, w)"
    unfolding FindActiveMarketplace_def
    by (intro findActiveMarketplace_serves [OF ok s refl _ calm])
      (use s distinct_map_same in \<open>fastforce simp: serves_def\<close>)
  with key u show ?thesis
    by (simp add: ResolveMarketplace_def bindE_Inr_iff map_error_Inr_iff of_sum_iff return_iff)
qed

section \<open>What a stored publication serves\<close>

lemma after_switch_serves:
  assumes run: "SwitchMarketplacePointers tid rid did pid w = (Inr u, w')"
    and m: "m \<in> set (marketplace_distributions (w_db w))" "mdist_ID m = did" "mdist_TemplateID m = tid"
      "mdist_Status m = StatusActive" "mdist_RevokedAt m = None"
    and t: "t \<in> set (marketplace_templates (w_db w))" "tmpl_ID t = tid" "public_template t"
    and p: "p \<in> set (distribution_projections (w_db w))" "proj_ID p = pid" "pid \<noteq> []" "proj_MarketplaceDistributionID p = did"
      "proj_Status p = StatusActive"
    and r: "r \<in> set (marketplace_revisions (w_db w))" "rev_ID r = proj_RevisionID p" "rev_TemplateID r = tid" "rev_Status r = StatusActive"
      "proj_ContentDigest p \<noteq> []" "proj_ContentDigest p = rev_ContentDigest r"
  shows "\<exists>m'. serves (w_db w') m' p r \<and> mdist_ID m' = did \<and> mdist_PublicKey m' = mdist_PublicKey m"
proof -
  obtain a b where d': "w_db w' = (w_db w)\<lparr>
       marketplace_templates := update_where (\<lambda>x. tmpl_ID x = tid)
         (\<lambda>x. x\<lparr>tmpl_PublishedRevisionID := Some rid, tmpl_UpdatedAt := a\<rparr>) (marketplace_templates (w_db w)),
       marketplace_distributions := update_where (\<lambda>m. mdist_ID m = did \<and> mdist_TemplateID m = tid)
         (\<lambda>m. m\<lparr>mdist_CurrentProjectionID := Some pid, mdist_UpdatedAt := b\<rparr>) (marketplace_distributions (w_db w))\<rparr>"
    by (rule SwitchMarketplacePointers_tables [OF run])
  let ?m = "m\<lparr>mdist_CurrentProjectionID := Some pid, mdist_UpdatedAt := b\<rparr>"
  let ?t = "t\<lparr>tmpl_PublishedRevisionID := Some rid, tmpl_UpdatedAt := a\<rparr>"
  have "?m \<in> set (marketplace_distributions (w_db w'))" using m by (force simp: d' set_update_where)
  moreover have "?t \<in> set (marketplace_templates (w_db w'))" using t by (force simp: d' set_update_where)
  moreover have "public_template ?t" using t(3) by (simp add: public_template_def)
  moreover have "distribution_projections (w_db w') = distribution_projections (w_db w)"
    "marketplace_revisions (w_db w') = marketplace_revisions (w_db w)" by (simp_all add: d')
  ultimately have "serves (w_db w') ?m p r"
    using m t(2) p r unfolding serves_def by (auto intro: bexI [of _ ?t])
  with m(2) show ?thesis by (intro exI [of _ ?m]) simp
qed

lemma store_publication_serves:
  assumes run: "store_publication P drafted r items p arts ptrs w = (Inr u, w')"
    and m: "m \<in> set (marketplace_distributions (w_db w))" "mdist_ID m = proj_MarketplaceDistributionID p"
      "mdist_TemplateID m = rev_TemplateID r" "mdist_Status m = StatusActive" "mdist_RevokedAt m = None"
    and t: "t \<in> set (marketplace_templates (w_db w))" "tmpl_ID t = rev_TemplateID r" "public_template t"
    and p: "proj_ID p \<noteq> []" "proj_Status p = StatusActive" "proj_RevisionID p = rev_ID r" "proj_ContentDigest p \<noteq> []"
      "proj_ContentDigest p = rev_ContentDigest r" "rev_Status r = StatusActive"
  shows "\<exists>m' c c'. serves (w_db w') m' (p\<lparr>proj_CreatedAt := c\<rparr>) (r\<lparr>rev_CreatedAt := c'\<rparr>) \<and> mdist_ID m' = mdist_ID m \<and>
           mdist_PublicKey m' = mdist_PublicKey m"
proof -
  from run obtain w1 w2 w3 did where one: "forE CreatePluginDistribution drafted (w\<lparr>w_faults := tl (w_faults w)\<rparr>) = (Inr (), w1)"
    and two: "CreateMarketplaceRevision r items p arts ptrs w1 = (Inr (), w2)"
    and three: "SwitchMarketplacePointers (rev_TemplateID r) (rev_ID r) did (proj_ID p) w2 = (Inr u, w3)"
    and w': "w_db w' = w_db w3"
    by (auto simp: store_publication_def transaction_Inr_iff bindE_Inr_iff mustUUID_Inr)
  have same: "market_tables (w_db w1) = market_tables (w_db w)" using forE_CreatePluginDistribution_tables [OF one] by simp
  obtain c c' where new: "\<forall>q \<in> set (distribution_projections (w_db w1)). proj_ID q \<noteq> proj_ID p \<and>
       (proj_MarketplaceDistributionID q, proj_RevisionID q) \<noteq> (proj_MarketplaceDistributionID p, proj_RevisionID p)"
    and tabs: "market_tables (w_db w2) =
       (marketplace_templates (w_db w1), marketplace_revisions (w_db w1) @ [r\<lparr>rev_CreatedAt := c\<rparr>], marketplace_distributions (w_db w1),
        distribution_projections (w_db w1) @ [p\<lparr>proj_CreatedAt := c'\<rparr>])"
    by (rule CreateMarketplaceRevision_tables [OF two])
  obtain a b where "projection_exists (w_db w2) (Some (proj_ID p)) did"
    by (rule SwitchMarketplacePointers_tables [OF three])
  with new tabs have did: "did = proj_MarketplaceDistributionID p" by (auto simp: projection_exists_def market_tables_def)
  from after_switch_serves [OF three, of m t "p\<lparr>proj_CreatedAt := c'\<rparr>" "r\<lparr>rev_CreatedAt := c\<rparr>"] m t p tabs same did w'
  show ?thesis by (force simp: market_tables_def)
qed

text \<open>The distribution a publication uses is in the table, active and of the template.\<close>

lemma CreateMarketplaceDistribution_Inr:
  assumes "CreateMarketplaceDistribution m w = (Inr u, w')"
  shows "w_db w' = (w_db w)\<lparr>marketplace_distributions := marketplace_distributions (w_db w) @
    [m\<lparr>mdist_CreatedAt := stamp (w_clock w (w_ticks w)) (mdist_CreatedAt m),
        mdist_UpdatedAt := stamp (w_clock w (w_ticks w)) (mdist_UpdatedAt m)\<rparr>]\<rparr>"
  using assms
  by (auto simp: CreateMarketplaceDistribution_def bindE_Inr_iff now_iff map_error_Inr_iff statement_def insert_distribution_def
      split: if_splits)

lemma rolls_back_CreateMarketplaceDistribution: "rolls_back (CreateMarketplaceDistribution m)"
  by (auto simp: rolls_back_def CreateMarketplaceDistribution_def bindE_Inl_iff now_iff map_error_Inl_iff statement_def insert_distribution_def
      split: if_splits)

definition usable_distribution :: "string \<Rightarrow> marketplace_distribution_row \<Rightarrow> marketplace_distribution_row \<Rightarrow> bool" where
  "usable_distribution tid m q \<longleftrightarrow> mdist_ID q = mdist_ID m \<and> mdist_PublicKey q = mdist_PublicKey m \<and> mdist_TemplateID q = tid \<and>
     mdist_Status q = StatusActive \<and> mdist_RevokedAt q = None"

lemma create_attempts_Inr:
  assumes "create_attempts P tid name ns w = (Inr m, w')"
  shows "(\<exists>q \<in> set (marketplace_distributions (w_db w')). usable_distribution tid m q) \<and>
         marketplace_templates (w_db w') = marketplace_templates (w_db w)"
  using assms
proof (induction ns arbitrary: w)
  case (Cons n ns)
  from Cons.prems obtain k did w1 where
    att: "attempt (CreateMarketplaceDistribution (new_distribution did tid k)) (\<lambda>res. case res of
         Inr _ \<Rightarrow> return (new_distribution did tid k)
       | Inl e \<Rightarrow> if errors_Is e ErrMarketplacePublicKeyConflict then create_attempts P tid name ns else fail e) w1 = (Inr m, w')"
    and w1: "w_db w1 = w_db w"
    by (auto simp: bindE_Inr_iff of_sum_Inr new_id_iff)
  show ?case
  proof (cases "CreateMarketplaceDistribution (new_distribution did tid k) w1")
    case (Pair r w2)
    show ?thesis
    proof (cases r)
      case (Inl e)
      with Pair have "w_db w2 = w_db w1" using rolls_back_CreateMarketplaceDistribution by (auto simp: rolls_back_def)
      with Inl Pair att Cons.IH [of w2] w1 show ?thesis by (auto simp: attempt_def fail_iff split: if_splits)
    next
      case (Inr u)
      with Pair att have "m = new_distribution did tid k" "w' = w2" by (auto simp: attempt_def return_iff)
      with CreateMarketplaceDistribution_Inr [OF Pair [unfolded Inr]] w1 show ?thesis
        by (simp add: usable_distribution_def new_distribution_def)
    qed
  qed
qed (simp add: fail_iff)

lemma find_or_create_distribution_Inr:
  assumes "find_or_create_distribution P tid name w = (Inr m, w')"
  shows "(\<exists>q \<in> set (marketplace_distributions (w_db w')). usable_distribution tid m q) \<and>
         marketplace_templates (w_db w') = marketplace_templates (w_db w)"
proof (cases "FindMarketplaceDistribution tid w")
  case (Pair r w1)
  then have db: "w_db w1 = w_db w" by (rule readsD [OF reads_publication_lookups(3)])
  show ?thesis
  proof (cases r)
    case (Inl e)
    with Pair assms have "create_attempts P tid name [0..<marketplacePublicKeyCreateAttempts] w1 = (Inr m, w')"
      by (auto simp: find_or_create_distribution_def createMarketplaceDistribution_def attempt_def fail_iff split: if_splits)
    with create_attempts_Inr [OF this] db show ?thesis by simp
  next
    case (Inr x)
    with Pair assms have "m = x" "w' = w1" by (auto simp: find_or_create_distribution_def attempt_def return_iff)
    moreover from Pair Inr have "x \<in> set (marketplace_distributions (w_db w)) \<and> mdist_TemplateID x = tid \<and> mdist_Status x = StatusActive \<and> mdist_RevokedAt x = None"
      by (auto simp: FindMarketplaceDistribution_def map_error_Inr_iff take_row_Inr_iff dest: find_Some_iff_hd)
    ultimately show ?thesis using db by (auto simp: usable_distribution_def)
  qed
qed

section \<open>A publication that succeeds\<close>

lemma publish_document_Inr:
  assumes pure: "pure_publisher P" and run: "publish_document P cmd input dr content w = (Inr res, w')"
  obtains m mp n items drafts w1 w2 v v' x built where
    "find_or_create_distribution P (cmd_TemplateID cmd) (tmpl_Name (in_Template input)) w = (Inr m, w1)"
    "ParseMarketplacePublicKey (mdist_PublicKey m) = Inr (res_PublicKey res)"
    "pub_ParseUUID P (mdist_ID m) = Some (res_DistributionID res)"
    "pub_BuildMarketplace P (res_ProjectionID res) content (cmd_PublishedAt cmd) v = (Inr mp, v')"
    "store_publication P (dr_new dr) (new_revision (res_RevisionID res) cmd n content (res_ContentDigest res)) items
       (new_projection (res_ProjectionID res) (mdist_ID m) (res_RevisionID res) mp) (map fst drafts) (map snd drafts) w2 = (Inr (), w')"
    "mapE (draft_artifact P cmd built (dr_new dr) (res_RevisionID res)) items x = (Inr drafts, w2)"
    "items = map (\<lambda>i. i\<lparr>item_RevisionID := res_RevisionID res\<rparr>) (dr_items dr)" "w_db x = w_db w1"
    "w_db w2 = w_db w1" "res_ContentJSON res = content" "res_ContentDigest res = hex_EncodeToString (pub_SHA256 P content)"
proof -
  let ?dg = "hex_EncodeToString (pub_SHA256 P content)"
  from run obtain m w1 w2 k n w3 mp w5 drafts w6 w7 did where
    a: "find_or_create_distribution P (cmd_TemplateID cmd) (tmpl_Name (in_Template input)) w = (Inr m, w1)" and
    b: "(case ParseMarketplacePublicKey (mdist_PublicKey m) of
               Inl _ \<Rightarrow> bindE (compensate P (dr_built dr)) (\<lambda>_. fail ErrDistributionUnavailable)
             | Inr k \<Rightarrow> return k) w1 = (Inr k, w2)" and
    c: "NextRevision (cmd_TemplateID cmd) w2 = (Inr n, w3)" and
    rest: "bindE new_id (\<lambda>revisionID.
      bindE new_id (\<lambda>projectionID.
      bindE (compensating P (dr_built dr) (pub_BuildMarketplace P projectionID content (cmd_PublishedAt cmd))) (\<lambda>mp.
      let built = dr_built dr @ [mpr_Projection mp];
          items = map (\<lambda>i. i\<lparr>item_RevisionID := revisionID\<rparr>) (dr_items dr) in
      bindE (mapE (draft_artifact P cmd built (dr_new dr) revisionID) items) (\<lambda>drafts.
      bindE (compensating P built
               (store_publication P (dr_new dr) (new_revision revisionID cmd n content ?dg) items
                  (new_projection projectionID (mdist_ID m) revisionID mp) (map fst drafts) (map snd drafts))) (\<lambda>_.
      bindE (mustUUID P (mdist_ID m)) (\<lambda>distributionID.
      return \<lparr>res_DistributionID = distributionID, res_PublicKey = k, res_RevisionID = revisionID,
              res_ProjectionID = projectionID, res_ContentJSON = content, res_ContentDigest = ?dg\<rparr>)))))) w3 = (Inr res, w')"
    unfolding publish_document_def publish_revision_def Let_def bindE_Inr_iff compensating_Inr by blast
  have k: "ParseMarketplacePublicKey (mdist_PublicKey m) = Inr k" and w2: "w2 = w1"
    using b by (auto simp: bindE_Inr_iff return_iff fail_iff split: sum.splits)
  have w3: "w_db w3 = w_db w2" by (rule readsD [OF reads_publication_lookups(4) c])
  from rest obtain rid pid mp w4 w5 drafts w6 w7 did where
    e: "pub_BuildMarketplace P pid content (cmd_PublishedAt cmd) w4 = (Inr mp, w5)" and w4: "w_db w4 = w_db w3" and
    f: "mapE (draft_artifact P cmd (dr_built dr @ [mpr_Projection mp]) (dr_new dr) rid) (map (\<lambda>i. i\<lparr>item_RevisionID := rid\<rparr>) (dr_items dr)) w5 = (Inr drafts, w6)" and
    g: "store_publication P (dr_new dr) (new_revision rid cmd n content ?dg) (map (\<lambda>i. i\<lparr>item_RevisionID := rid\<rparr>) (dr_items dr))
       (new_projection pid (mdist_ID m) rid mp) (map fst drafts) (map snd drafts) w6 = (Inr (), w')" and
    h: "pub_ParseUUID P (mdist_ID m) = Some did" and
    res: "res = \<lparr>res_DistributionID = did, res_PublicKey = k, res_RevisionID = rid, res_ProjectionID = pid,
                  res_ContentJSON = content, res_ContentDigest = ?dg\<rparr>"
    by (auto simp: bindE_Inr_iff new_id_iff Let_def compensating_Inr mustUUID_Inr return_iff)
  have w5: "w_db w5 = w_db w4" by (rule readsD [OF reads_publisher(2) [OF pure] e])
  have "w_db w6 = w_db w5" by (rule readsD [OF reads_mapE_draft [OF pure] f])
  with w5 have "w_db w6 = w_db w1" "w_db w5 = w_db w1" using w2 w3 w4 by simp_all
  moreover have "rid = res_RevisionID res" "pid = res_ProjectionID res" "did = res_DistributionID res" "k = res_PublicKey res"
    "res_ContentJSON res = content" "res_ContentDigest res = ?dg" by (simp_all add: res)
  ultimately show ?thesis using f g
    by (intro that [OF a k [unfolded \<open>k = _\<close>] h [unfolded \<open>did = _\<close>] e [unfolded \<open>pid = _\<close>] _ _ refl \<open>w_db w5 = w_db w1\<close>, of n drafts w6 _]) simp_all
qed

lemma Publish_Inr:
  assumes pure: "pure_publisher P" and run: "PublicationService_Publish P cmd w = (Inr res, w')"
  obtains input dr w1 origin v u where "publish_document P cmd input dr (res_ContentJSON res) w1 = (Inr res, w')" "w_db w1 = w_db w"
    "marketplace_Marshal (document input (dr_plugins dr)) = Inr (res_ContentJSON res)"
    "LoadPublicationInput (cmd_TemplateID cmd) (cmd_PluginVersionIDs cmd) w = (Inr input, v)"
    "draft_versions P cmd origin 0 (sorted_versions (in_Versions input)) empty_draft v = (Inr dr, u)" "w_db v = w_db w"
proof -
  from run obtain origin input w1 dr w2 where
    load: "LoadPublicationInput (cmd_TemplateID cmd) (cmd_PluginVersionIDs cmd) w = (Inr input, w1)" and
    draft: "draft_versions P cmd origin 0 (sorted_versions (in_Versions input)) empty_draft w1 = (Inr dr, w2)" and
    rest: "(case marketplace_Marshal (document input (dr_plugins dr)) of
         Inl e \<Rightarrow> bindE (compensate P (dr_built dr)) (\<lambda>_. fail e)
       | Inr content \<Rightarrow> publish_document P cmd input dr content) w2 = (Inr res, w')"
    by (auto simp: PublicationService_Publish_def bindE_Inr_iff of_sum_Inr fail_iff split: if_splits)
  from rest obtain content where m: "marketplace_Marshal (document input (dr_plugins dr)) = Inr content"
    and doc: "publish_document P cmd input dr content w2 = (Inr res, w')"
    by (auto simp: bindE_Inr_iff fail_iff split: sum.splits)
  have "w_db w1 = w_db w" by (rule readsD [OF reads_publication_lookups(1) load])
  moreover have "w_db w2 = w_db w1" by (rule readsD [OF reads_drafting(1) [OF pure] draft])
  moreover have "res_ContentJSON res = content" by (rule publish_document_Inr [OF pure doc])
  ultimately show ?thesis using that m doc load draft by simp
qed

section \<open>A publication that fails\<close>

text \<open>At most one distribution of the template has been added, and it shows nothing.\<close>

definition only_named :: "string \<Rightarrow> db \<Rightarrow> db \<Rightarrow> bool" where
  "only_named tid d d' \<longleftrightarrow> d' = d \<or>
     (\<exists>m. mdist_TemplateID m = tid \<and> mdist_CurrentProjectionID m = None \<and>
          d' = d\<lparr>marketplace_distributions := marketplace_distributions d @ [m]\<rparr>)"

lemma keeps_only_named_CreateMarketplaceDistribution:
  assumes "mdist_TemplateID m = tid" "mdist_CurrentProjectionID m = None"
  shows "keeps (only_named tid d) (CreateMarketplaceDistribution m)"
proof (rule keepsI)
  fix w r w' assume run: "CreateMarketplaceDistribution m w = (r, w')" and named: "only_named tid d (w_db w)"
  show "only_named tid d (w_db w')"
  proof (cases r)
    case (Inl e)
    with run rolls_back_CreateMarketplaceDistribution named show ?thesis by (auto simp: rolls_back_def)
  next
    case (Inr u)
    with run have "\<forall>q \<in> set (marketplace_distributions (w_db w)). mdist_TemplateID q \<noteq> tid"
      using assms by (auto simp: CreateMarketplaceDistribution_def bindE_Inr_iff now_iff map_error_Inr_iff statement_def insert_distribution_def
          split: if_splits)
    with named have "w_db w = d" by (auto simp: only_named_def)
    with CreateMarketplaceDistribution_Inr [OF run [unfolded Inr]] assms show ?thesis
      by (auto simp: only_named_def intro!: exI [of _ "m\<lparr>mdist_CreatedAt := stamp (w_clock w (w_ticks w)) (mdist_CreatedAt m),
        mdist_UpdatedAt := stamp (w_clock w (w_ticks w)) (mdist_UpdatedAt m)\<rparr>"])
  qed
qed

lemma keeps_only_named_find_or_create: "keeps (only_named tid d) (find_or_create_distribution P tid name)"
proof -
  have "keeps (only_named tid d) (create_attempts P tid name ns)" for ns
  proof (induction ns)
    case (Cons n ns)
    have new: "keeps (only_named tid d) (CreateMarketplaceDistribution (new_distribution did tid k))" for did k
      by (rule keeps_only_named_CreateMarketplaceDistribution) (simp_all add: new_distribution_def)
    show ?case
      unfolding create_attempts.simps by (intro stable_progs keeps_reads [OF reads_of_sum] keeps_reads [OF reads_new_id] new
          keeps_reads [OF reads_return] keeps_reads [OF reads_fail] Cons.IH)
  qed (simp add: keeps_reads reads_fail)
  then show ?thesis
    unfolding find_or_create_distribution_def createMarketplaceDistribution_def
    by (intro stable_progs keeps_reads [OF reads_publication_lookups(3)] keeps_reads [OF reads_return] keeps_reads [OF reads_fail])
qed

text \<open>Everything after the distribution is found fails without an effect.\<close>

lemma rolls_back_compensating:
  fixes m :: "'a prog"
  assumes "pure_publisher P" "rolls_back m"
  shows "rolls_back (compensating P ps m)"
  unfolding rolls_back_def
proof (intro allI impI)
  fix w e w' assume run: "compensating P ps m w = (Inl e, w')"
  obtain r w1 where m: "m w = (r, w1)" by (cases "m w")
  with run obtain e' where r: "r = Inl e'"
    and rest: "(if e' = uuid_panic then fail e' else bindE (compensate P ps) (\<lambda>_. fail e' :: 'a prog)) w1 = (Inl e, w')"
    by (cases r) (simp_all add: compensating_def attempt_def return_iff)
  have "reads (if e' = uuid_panic then fail e' else bindE (compensate P ps) (\<lambda>_. fail e' :: 'a prog))"
    by (intro read_only reads_publisher [OF assms(1)])
  from readsD [OF this rest] have "w_db w' = w_db w1" .
  with m r assms(2) show "w_db w' = w_db w" by (auto simp: rolls_back_def)
qed

lemma rolls_back_stored:
  assumes pure: "pure_publisher P" and did: "proj_MarketplaceDistributionID p = mdist_ID m"
  shows "rolls_back (bindE (compensating P b (store_publication P drafted r items p arts ptrs)) (\<lambda>_. bindE (mustUUID P (mdist_ID m)) (\<lambda>x. return (f x))))"
  unfolding rolls_back_def
proof (intro allI impI)
  fix w e w'
  assume "bindE (compensating P b (store_publication P drafted r items p arts ptrs)) (\<lambda>_. bindE (mustUUID P (mdist_ID m)) (\<lambda>x. return (f x))) w = (Inl e, w')"
  then consider "compensating P b (store_publication P drafted r items p arts ptrs) w = (Inl e, w')"
    | w1 where "store_publication P drafted r items p arts ptrs w = (Inr (), w1)" "pub_ParseUUID P (mdist_ID m) = None"
    by (auto simp: bindE_Inl_iff compensating_Inr mustUUID_def fail_iff return_iff split: option.splits)
  then show "w_db w' = w_db w"
  proof cases
    case 1
    then show ?thesis
      using rolls_back_compensating [OF pure] rolls_back_transaction unfolding store_publication_def rolls_back_def by blast
  next
    case 2
    then show ?thesis by (auto simp: store_publication_def transaction_Inr_iff bindE_Inr_iff mustUUID_Inr did)
  qed
qed

lemma rolls_back_publish_revision:
  assumes "pure_publisher P"
  shows "rolls_back (publish_revision P cmd dr content m)"
  unfolding publish_revision_def Let_def
  by (intro rolls_back_bindE rolls_back_stored [OF assms] reads_case_sum reads_bindE read_only reads_publisher [OF assms]
      reads_publication_lookups reads_mapE_draft [OF assms]) (simp add: new_projection_def)

text \<open>Runs that at most add an unused distribution when they fail\<close>

definition names_only :: "string \<Rightarrow> 'a prog \<Rightarrow> bool" where
  "names_only tid m \<longleftrightarrow> (\<forall>w e w'. m w = (Inl e, w') \<longrightarrow> only_named tid (w_db w) (w_db w'))"

lemma names_only_reads: "reads m \<Longrightarrow> names_only tid m"
  by (auto simp: names_only_def only_named_def dest: readsD)

lemma names_only_bindE: "reads m \<Longrightarrow> (\<And>x. names_only tid (f x)) \<Longrightarrow> names_only tid (bindE m f)"
  unfolding names_only_def bindE_Inl_iff by (metis only_named_def readsD)

lemma names_only_publish_document:
  assumes pure: "pure_publisher P"
  shows "names_only (cmd_TemplateID cmd) (publish_document P cmd input dr content)"
  unfolding names_only_def
proof (intro allI impI)
  fix w e w' assume run: "publish_document P cmd input dr content w = (Inl e, w')"
  let ?A = "compensating P (dr_built dr) (find_or_create_distribution P (cmd_TemplateID cmd) (tmpl_Name (in_Template input)))"
  have keep: "keeps (only_named (cmd_TemplateID cmd) (w_db w)) ?A"
    unfolding compensating_def
    by (intro stable_progs keeps_if keeps_only_named_find_or_create keeps_reads [OF reads_publisher(1) [OF pure]] keeps_reads [OF reads_return] keeps_reads [OF reads_fail])
  have start: "only_named (cmd_TemplateID cmd) (w_db w) (w_db w)" by (simp add: only_named_def)
  from run consider "?A w = (Inl e, w')" | m w1 where "?A w = (Inr m, w1)" "publish_revision P cmd dr content m w1 = (Inl e, w')"
    by (auto simp: publish_document_def bindE_Inl_iff)
  then show "only_named (cmd_TemplateID cmd) (w_db w) (w_db w')"
  proof cases
    case 1
    show ?thesis by (rule keepsD [OF keep 1 start])
  next
    case 2
    have "w_db w' = w_db w1" using 2(2) rolls_back_publish_revision [OF pure] by (auto simp: rolls_back_def)
    with keepsD [OF keep 2(1) start] show ?thesis by simp
  qed
qed

lemma names_only_Publish:
  assumes pure: "pure_publisher P"
  shows "names_only (cmd_TemplateID cmd) (PublicationService_Publish P cmd)"
proof -
  have last: "names_only (cmd_TemplateID cmd) (case marketplace_Marshal (document input (dr_plugins dr)) of
       Inl e \<Rightarrow> bindE (compensate P (dr_built dr)) (\<lambda>_. fail e)
     | Inr content \<Rightarrow> publish_document P cmd input dr content)" for input dr
    using reads_publisher(1) [OF pure] names_only_publish_document [OF pure]
    by (auto intro!: names_only_reads reads_bindE reads_fail split: sum.splits)
  have body: "names_only (cmd_TemplateID cmd) (bindE (LoadPublicationInput (cmd_TemplateID cmd) (cmd_PluginVersionIDs cmd)) (\<lambda>input.
       bindE (draft_versions P cmd origin 0 (sorted_versions (in_Versions input)) empty_draft) (\<lambda>dr.
       case marketplace_Marshal (document input (dr_plugins dr)) of
         Inl e \<Rightarrow> bindE (compensate P (dr_built dr)) (\<lambda>_. fail e)
       | Inr content \<Rightarrow> publish_document P cmd input dr content)))" for origin
    by (intro names_only_bindE reads_publication_lookups reads_drafting [OF pure] last)
  show ?thesis
    unfolding PublicationService_Publish_def
    by (rule names_only_bindE [OF reads_of_sum]) (simp add: body names_only_reads reads_fail)
qed

end
