(* ===== verification/PublicationOnce.thy ===== *)
theory PublicationOnce imports MarketContract MarketServing begin

text \<open>
  What a publication needs of its versions: every requested version is in the input, becomes an item,
  and its projection becomes an artifact of the new revision. The storage key of an artifact is
  unique, so a version whose distribution already has an artifact cannot be published again.
\<close>

section \<open>What a publication leaves\<close>

text \<open>
  \<open>keeps_published d d'\<close>: what \<open>d\<close> has recorded of its versions and distributions is still there in \<open>d'\<close>,
  under whatever was added after it.
\<close>

definition keeps_published :: "db \<Rightarrow> db \<Rightarrow> bool" where
  "keeps_published d d' \<longleftrightarrow>
     prefix (map (\<lambda>v. (ver_ID v, ver_PluginID v, ver_Tag v)) (versions d)) (map (\<lambda>v. (ver_ID v, ver_PluginID v, ver_Tag v)) (versions d')) \<and>
     prefix (plugin_distributions d) (plugin_distributions d') \<and>
     art_StorageKey ` set (artifacts d) \<subseteq> art_StorageKey ` set (artifacts d')"

section \<open>The requested versions\<close>

lemma short_list:
  assumes "distinct (map k xs)"
  shows "length (filter (\<lambda>x. k x = c \<and> Q x) xs) \<le> 1"
  using assms
proof (induction xs)
  case (Cons x xs)
  have "filter (\<lambda>x. k x = c \<and> Q x) xs = []" if "k x = c"
    using Cons.prems that by (auto simp: filter_empty_conv) (metis image_eqI)
  with Cons show ?case by auto
qed simp

definition publication_keys :: "db \<Rightarrow> bool" where
  "publication_keys d \<longleftrightarrow> distinct (map ver_ID (versions d)) \<and> distinct (map plg_ID (plugins d)) \<and> distinct (map repo_ID (repositories d))"

text \<open>The rows of one version are at most one.\<close>

definition version_rows :: "db \<Rightarrow> string \<Rightarrow> string list \<Rightarrow> version_row \<Rightarrow> publication_version list" where
  "version_rows d nid ids v =
     [\<lparr>pub_Version = v\<lparr>ver_RawTagObjectID := None, ver_DeletedAt := None\<rparr>, pub_Plugin = p, pub_Repository = r\<lparr>repo_ID := plg_ID p\<rparr>\<rparr>.
        p \<leftarrow> plugins d, r \<leftarrow> repositories d,
        plg_ID p = ver_PluginID v \<and> plg_NamespaceID p = nid \<and> repo_ID r = plg_ID p \<and> ver_ID v \<in> set ids \<and>
        ver_Status v = VersionStatusAvailable \<and> plg_Status p = PluginStatusActive \<and> repositoryAllowsRead (repo_Status r)]"

lemma publication_rows_versions: "publication_rows d nid ids = concat (map (version_rows d nid ids) (versions d))"
  by (simp add: publication_rows_def version_rows_def [abs_def])

lemma version_rowsD:
  "s \<in> set (version_rows d nid ids v) \<Longrightarrow>
     ver_ID v \<in> set ids \<and> ver_ID (pub_Version s) = ver_ID v \<and> ver_Tag (pub_Version s) = ver_Tag v \<and> plg_ID (pub_Plugin s) = ver_PluginID v"
  by (auto simp: version_rows_def)

lemma length_concat_le: "(\<And>x. x \<in> set xs \<Longrightarrow> length (f x) \<le> 1) \<Longrightarrow> length (concat (map f xs)) \<le> length (filter (\<lambda>x. f x \<noteq> []) xs)"
proof (induction xs)
  case (Cons x xs)
  then have "length (f x) \<le> 1" "length (concat (map f xs)) \<le> length (filter (\<lambda>x. f x \<noteq> []) xs)" by simp_all
  then show ?case by (cases "f x") auto
qed simp

lemma length_guarded: "length (concat (map (\<lambda>r. if P r then [h r] else []) rs)) = length (filter P rs)"
  by (induction rs) simp_all

lemma length_filter_mono: "(\<And>x. P x \<Longrightarrow> Q x) \<Longrightarrow> length (filter P xs) \<le> length (filter Q xs)"
  by (induction xs) (auto simp: le_SucI)

lemma version_rows_short:
  assumes "publication_keys d"
  shows "length (version_rows d nid ids v) \<le> 1"
proof -
  let ?C = "\<lambda>p r. plg_ID p = ver_PluginID v \<and> plg_NamespaceID p = nid \<and> repo_ID r = plg_ID p \<and> ver_ID v \<in> set ids \<and>
        ver_Status v = VersionStatusAvailable \<and> plg_Status p = PluginStatusActive \<and> repositoryAllowsRead (repo_Status r)"
  let ?g = "\<lambda>p. concat (map (\<lambda>r. if ?C p r
        then [\<lparr>pub_Version = v\<lparr>ver_RawTagObjectID := None, ver_DeletedAt := None\<rparr>, pub_Plugin = p, pub_Repository = r\<lparr>repo_ID := plg_ID p\<rparr>\<rparr>]
        else []) (repositories d))"
  have one: "length (?g p) \<le> 1" for p
  proof -
    have "length (?g p) \<le> length (filter (\<lambda>r. repo_ID r = plg_ID p \<and> True) (repositories d))"
      unfolding length_guarded by (rule length_filter_mono) simp
    also have "\<dots> \<le> 1" using assms unfolding publication_keys_def by (intro short_list) simp
    finally show ?thesis .
  qed
  have "length (version_rows d nid ids v) \<le> length (filter (\<lambda>p. ?g p \<noteq> []) (plugins d))"
    unfolding version_rows_def by (rule length_concat_le) (rule one)
  also have "\<dots> \<le> length (filter (\<lambda>p. plg_ID p = ver_PluginID v \<and> True) (plugins d))"
    by (rule length_filter_mono) (auto split: if_splits)
  also have "\<dots> \<le> 1" using assms unfolding publication_keys_def by (intro short_list) simp
  finally show ?thesis .
qed

lemma all_versions_selected:
  assumes keys: "publication_keys d" and len: "length (publication_rows d nid ids) = length ids" and vid: "vid \<in> set ids"
  shows "\<exists>s \<in> set (publication_rows d nid ids). ver_ID (pub_Version s) = vid"
proof -
  let ?rows = "publication_rows d nid ids" and ?vs = "filter (\<lambda>v. version_rows d nid ids v \<noteq> []) (versions d)"
  have "length ?rows \<le> length ?vs"
    unfolding publication_rows_versions by (rule length_concat_le) (rule version_rows_short [OF keys])
  also have "length ?vs = card (ver_ID ` set ?vs)"
    using keys distinct_card [of "map ver_ID ?vs"] by (simp add: publication_keys_def distinct_map_filter)
  finally have "card (set ids) \<le> card (ver_ID ` set ?vs)"
    using len card_length [of ids] by simp
  moreover have "ver_ID ` set ?vs \<subseteq> set ids"
  proof
    fix x assume "x \<in> ver_ID ` set ?vs"
    then obtain v where "v \<in> set (versions d)" "version_rows d nid ids v \<noteq> []" "x = ver_ID v" by auto
    then obtain s where "s \<in> set (version_rows d nid ids v)" by (cases "version_rows d nid ids v") auto
    from version_rowsD [OF this] \<open>x = ver_ID v\<close> show "x \<in> set ids" by simp
  qed
  ultimately have "ver_ID ` set ?vs = set ids" by (intro card_seteq) simp_all
  with vid have "vid \<in> ver_ID ` set ?vs" by simp
  then obtain v where "v \<in> set (versions d)" "version_rows d nid ids v \<noteq> []" "ver_ID v = vid" by auto
  then obtain s where "s \<in> set (version_rows d nid ids v)" by (cases "version_rows d nid ids v") auto
  with \<open>v \<in> set (versions d)\<close> \<open>ver_ID v = vid\<close> version_rowsD [OF this] show ?thesis
    by (auto simp: publication_rows_versions)
qed

lemma find_append: "List.find Q (xs @ ys) = (case List.find Q xs of None \<Rightarrow> List.find Q ys | Some x \<Rightarrow> Some x)"
  by (induction xs) simp_all

section \<open>Items and artifacts\<close>

text \<open>The distribution a lookup finds\<close>

definition found_distribution :: "db \<Rightarrow> string \<Rightarrow> string \<Rightarrow> string \<Rightarrow> plugin_distribution_row option" where
  "found_distribution d tid pid tag =
     List.find (\<lambda>r. pdist_TemplateID r = tid \<and> pdist_PluginID r = pid \<and> pdist_PluginTag r = tag \<and>
                    pdist_Status r = StatusActive \<and> pdist_RevokedAt r = None) (plugin_distributions d)"

lemma FindPluginDistribution_Inr:
  "FindPluginDistribution tid pid tag w = (Inr r, w') \<Longrightarrow> found_distribution (w_db w) tid pid tag = Some r"
  by (auto simp: FindPluginDistribution_def found_distribution_def map_error_Inr_iff take_row_Inr_iff)

lemma FindPluginDistribution_Inl:
  "FindPluginDistribution tid pid tag w = (Inl e, w') \<Longrightarrow> not_found e \<Longrightarrow> found_distribution (w_db w) tid pid tag = None"
  by (auto simp: FindPluginDistribution_def found_distribution_def map_error_Inl_iff take_row_Inl_iff not_found_or_wrapped_def not_found_def
      driver_failure_def split: if_splits)

text \<open>What is drafted for a selected version: an item with the distribution found or a drafted one\<close>

definition drafted_for :: "publisher \<Rightarrow> string \<Rightarrow> db \<Rightarrow> publication_version \<Rightarrow> publication_draft \<Rightarrow> bool" where
  "drafted_for P tid d s dr \<longleftrightarrow>
     (\<exists>i \<in> set (dr_items dr). item_PluginID i = plg_ID (pub_Plugin s) \<and> item_PluginTag i = ver_Tag (pub_Version s) \<and>
        (\<exists>pid. pub_ParseUUID P (plg_ID (pub_Plugin s)) = Some pid \<and>
           (case found_distribution d tid pid (ver_Tag (pub_Version s)) of
              Some r \<Rightarrow> item_PluginDistributionID i = pdist_ID r
            | None \<Rightarrow> \<exists>r \<in> set (dr_new dr). item_PluginDistributionID i = pdist_ID r \<and> pdist_TemplateID r = tid \<and>
                pdist_PluginID r = plg_ID (pub_Plugin s) \<and> pdist_PluginTag r = ver_Tag (pub_Version s) \<and>
                pdist_Status r = StatusActive \<and> pdist_RevokedAt r = None)))"

lemma drafted_forD:
  assumes "drafted_for P tid d s dr" "pub_ParseUUID P (plg_ID (pub_Plugin s)) = Some pid"
  obtains i where "i \<in> set (dr_items dr)" "item_PluginID i = plg_ID (pub_Plugin s)" "item_PluginTag i = ver_Tag (pub_Version s)"
    "case found_distribution d tid pid (ver_Tag (pub_Version s)) of
       Some r \<Rightarrow> item_PluginDistributionID i = pdist_ID r
     | None \<Rightarrow> \<exists>r \<in> set (dr_new dr). item_PluginDistributionID i = pdist_ID r \<and> pdist_TemplateID r = tid \<and>
         pdist_PluginID r = plg_ID (pub_Plugin s) \<and> pdist_PluginTag r = ver_Tag (pub_Version s) \<and>
         pdist_Status r = StatusActive \<and> pdist_RevokedAt r = None"
  using assms unfolding drafted_for_def by (elim bexE conjE exE) simp

lemma drafted_for_mono:
  "drafted_for P tid d s dr \<Longrightarrow> set (dr_items dr) \<subseteq> set (dr_items dr') \<Longrightarrow> set (dr_new dr) \<subseteq> set (dr_new dr') \<Longrightarrow> drafted_for P tid d s dr'"
  unfolding drafted_for_def by (fastforce split: option.splits)

lemma version_distribution_Inr:
  assumes pure: "pure_publisher P" and run: "version_distribution P cmd s dr w = (Inr (r, dr'), w')"
  obtains pid where "pub_ParseUUID P (plg_ID (pub_Plugin s)) = Some pid" "dr_items dr' = dr_items dr"
    "case found_distribution (w_db w) (cmd_TemplateID cmd) pid (ver_Tag (pub_Version s)) of
       Some q \<Rightarrow> r = q \<and> dr_new dr' = dr_new dr
     | None \<Rightarrow> dr_new dr' = dr_new dr @ [r] \<and> pdist_TemplateID r = cmd_TemplateID cmd \<and> pdist_PluginID r = plg_ID (pub_Plugin s) \<and>
         pdist_PluginTag r = ver_Tag (pub_Version s) \<and> pdist_Status r = StatusActive \<and> pdist_RevokedAt r = None"
proof -
  from run obtain pid where pid: "pub_ParseUUID P (plg_ID (pub_Plugin s)) = Some pid"
    and att: "attempt (FindPluginDistribution (cmd_TemplateID cmd) pid (ver_Tag (pub_Version s))) (\<lambda>res. case res of
       Inr found \<Rightarrow> return (found, dr)
     | Inl e \<Rightarrow>
         if \<not> not_found e then fail e
         else bindE (build_distribution P cmd s (dr_built dr)) (\<lambda>(created, projection).
                return (created, dr\<lparr>dr_built := dr_built dr @ [projection], dr_new := dr_new dr @ [created]\<rparr>))) w = (Inr (r, dr'), w')"
    by (auto simp: version_distribution_def bindE_Inr_iff mustUUID_Inr)
  show ?thesis
  proof (cases "FindPluginDistribution (cmd_TemplateID cmd) pid (ver_Tag (pub_Version s)) w")
    case (Pair res w1)
    show ?thesis
    proof (cases res)
      case (Inr q)
      with Pair att have "r = q" "dr' = dr" by (auto simp: attempt_def return_iff)
      with FindPluginDistribution_Inr [OF Pair [unfolded Inr]] pid show ?thesis by (intro that [of pid]) simp_all
    next
      case (Inl e)
      with Pair att have nf: "not_found e" and built: "bindE (build_distribution P cmd s (dr_built dr)) (\<lambda>(created, projection).
                return (created, dr\<lparr>dr_built := dr_built dr @ [projection], dr_new := dr_new dr @ [created]\<rparr>)) w1 = (Inr (r, dr'), w')"
        by (simp_all add: attempt_def fail_iff split: if_splits)
      from built obtain b pj where "r = new_plugin_distribution pj cmd s b" "dr_items dr' = dr_items dr" "dr_new dr' = dr_new dr @ [r]"
        by (auto simp: build_distribution_def bindE_Inr_iff new_id_iff return_iff fail_iff split: option.splits)
      with FindPluginDistribution_Inl [OF Pair [unfolded Inl] nf] pid show ?thesis
        by (intro that [of pid]) (simp_all add: new_plugin_distribution_def)
    qed
  qed
qed

text \<open>Every drafted distribution belongs to an item.\<close>

definition new_listed :: "publication_draft \<Rightarrow> bool" where
  "new_listed dr \<longleftrightarrow> (\<forall>c \<in> set (dr_new dr). \<exists>i \<in> set (dr_items dr).
     item_PluginDistributionID i = pdist_ID c \<and> item_PluginID i = pdist_PluginID c \<and> item_PluginTag i = pdist_PluginTag c)"

lemma draft_versions_covers:
  assumes pure: "pure_publisher P" and run: "draft_versions P cmd origin n ss dr w = (Inr dr', w')" and d: "w_db w = d"
  shows "set (dr_items dr) \<subseteq> set (dr_items dr') \<and> set (dr_new dr) \<subseteq> set (dr_new dr') \<and>
         (\<forall>s \<in> set ss. drafted_for P (cmd_TemplateID cmd) d s dr') \<and> (new_listed dr \<longrightarrow> new_listed dr')"
  using run d
proof (induction ss arbitrary: n dr w)
  case (Cons s ss)
  from Cons.prems obtain dr1 w1 where one: "draft_version P cmd origin n s dr w = (Inr dr1, w1)"
    and rest: "draft_versions P cmd origin (Suc n) ss dr1 w1 = (Inr dr', w')"
    by (auto simp: bindE_Inr_iff)
  have "reads (draft_versions P cmd origin n [s] dr)" by (rule reads_drafting [OF pure])
  moreover have "draft_versions P cmd origin n [s] dr w = (Inr dr1, w1)" using one by (simp add: bindE_Inr_iff return_iff)
  ultimately have w1: "w_db w1 = d" using Cons.prems(2) by (auto dest: readsD)
  from one obtain r dr2 w2 did iid where
    vd: "version_distribution P cmd s dr w = (Inr (r, dr2), w2)" and
    dr1: "dr1 = dr2\<lparr>dr_plugins := dr_plugins dr2 @ [listed_plugin s (plugin_source_url origin did) r],
                     dr_items := dr_items dr2 @ [drafted_item iid s (plugin_source_url origin did) r n]\<rparr>"
    by (auto simp: draft_version_def bindE_Inr_iff Let_def return_iff mustUUID_Inr new_id_iff)
  obtain pid where pid: "pub_ParseUUID P (plg_ID (pub_Plugin s)) = Some pid" "dr_items dr2 = dr_items dr"
    and dist: "case found_distribution (w_db w) (cmd_TemplateID cmd) pid (ver_Tag (pub_Version s)) of
       Some q \<Rightarrow> r = q \<and> dr_new dr2 = dr_new dr
     | None \<Rightarrow> dr_new dr2 = dr_new dr @ [r] \<and> pdist_TemplateID r = cmd_TemplateID cmd \<and> pdist_PluginID r = plg_ID (pub_Plugin s) \<and>
         pdist_PluginTag r = ver_Tag (pub_Version s) \<and> pdist_Status r = StatusActive \<and> pdist_RevokedAt r = None"
    by (rule version_distribution_Inr [OF pure vd])
  have "drafted_for P (cmd_TemplateID cmd) d s dr1"
    unfolding drafted_for_def using pid dist Cons.prems(2)
    by (intro bexI [of _ "drafted_item iid s (plugin_source_url origin did) r n"])
      (auto simp: drafted_item_def dr1 split: option.splits)
  moreover have "set (dr_items dr) \<subseteq> set (dr_items dr1)" "set (dr_new dr) \<subseteq> set (dr_new dr1)" "new_listed dr \<longrightarrow> new_listed dr1"
    using pid dist by (auto simp: dr1 new_listed_def drafted_item_def split: option.splits)
  moreover note Cons.IH [OF rest w1]
  ultimately show ?case by (auto intro: drafted_for_mono)
qed (simp add: return_iff)

text \<open>Every item becomes an artifact that carries the storage key of its distribution.\<close>

lemma mapE_Inr:
  assumes "\<And>x. reads (f x)" "mapE f xs w = (Inr ys, w')" "x \<in> set xs"
  shows "\<exists>y \<in> set ys. \<exists>v v'. w_db v = w_db w \<and> f x v = (Inr y, v')"
  using assms(2,3)
proof (induction xs arbitrary: w ys)
  case (Cons z zs)
  from Cons.prems(1) obtain y ys' w1 where f: "f z w = (Inr y, w1)" and rest: "mapE f zs w1 = (Inr ys', w')" and ys: "ys = y # ys'"
    by (auto simp: bindE_Inr_iff return_iff)
  have w1: "w_db w1 = w_db w" by (rule readsD [OF assms(1) f])
  show ?case
  proof (cases "x = z")
    case True
    with f ys show ?thesis by auto
  next
    case False
    with Cons.IH [OF rest] Cons.prems(2) w1 ys show ?thesis by auto
  qed
qed simp

lemma item_distribution_Inr:
  assumes "item_distribution P cmd b drafted i w = (Inr r, w')"
  shows "r \<in> set drafted \<and> pdist_ID r = item_PluginDistributionID i \<or>
         (\<exists>pid. pub_ParseUUID P (item_PluginID i) = Some pid \<and>
            found_distribution (w_db w) (cmd_TemplateID cmd) pid (item_PluginTag i) = Some r \<and>
            (\<forall>c \<in> set drafted. pdist_ID c = item_PluginDistributionID i \<longrightarrow> pdist_ID c = []))"
proof (cases "List.find (\<lambda>r. pdist_ID r = item_PluginDistributionID i \<and> pdist_ID r \<noteq> []) drafted")
  case None
  with assms show ?thesis
    by (auto simp: item_distribution_def bindE_Inr_iff mustUUID_Inr compensating_Inr find_None_iff2 dest!: FindPluginDistribution_Inr)
next
  case (Some c)
  with assms show ?thesis by (auto simp: item_distribution_def return_iff dest: find_Some_iff_hd)
qed

lemma add_artifacts_fresh:
  assumes "add_rows refs (\<lambda>d a. \<forall>b \<in> set (artifacts d). art_ID b \<noteq> art_ID a \<and> art_StorageKey b \<noteq> art_StorageKey a)
     (\<lambda>a d. d\<lparr>artifacts := artifacts d @ [g a]\<rparr>) as d = Inr d'" "a \<in> set as" "b \<in> set (artifacts d)"
  shows "art_StorageKey b \<noteq> art_StorageKey a"
  using assms
proof (induction as arbitrary: d)
  case (Cons x as)
  show ?case
  proof (cases "a = x")
    case True
    with Cons.prems show ?thesis by (simp split: if_splits)
  next
    case False
    with Cons.prems show ?thesis by (intro Cons.IH [of "d\<lparr>artifacts := artifacts d @ [g x]\<rparr>"]) (simp_all split: if_splits)
  qed
qed simp

lemma create_artifacts_Inr:
  assumes "create_artifacts as w = (Inr u, w')"
  shows "(\<forall>a \<in> set as. \<forall>b \<in> set (artifacts (w_db w)). art_StorageKey b \<noteq> art_StorageKey a) \<and>
         (\<forall>a \<in> set as. \<exists>b \<in> set (artifacts (w_db w')). art_StorageKey b = art_StorageKey a) \<and>
         set (artifacts (w_db w)) \<subseteq> set (artifacts (w_db w')) \<and> plugin_distributions (w_db w') = plugin_distributions (w_db w)"
proof -
  from assms obtain refs g d where add: "add_rows refs (\<lambda>d a. \<forall>b \<in> set (artifacts d). art_ID b \<noteq> art_ID a \<and> art_StorageKey b \<noteq> art_StorageKey a)
     (\<lambda>a d. d\<lparr>artifacts := artifacts d @ [g a]\<rparr>) as (w_db w) = Inr d" and d: "w_db w' = d" and g: "\<And>a. art_StorageKey (g a) = art_StorageKey a"
    by (auto simp: create_artifacts_def bindE_Inr_iff now_iff insert_rows_Inr)
  have "d = (w_db w)\<lparr>artifacts := artifacts (w_db w) @ map g as\<rparr>" using add_rows_Inr [OF add] by (simp add: fold_append_artifacts)
  with add_artifacts_fresh [OF add] d g show ?thesis by auto
qed

lemma CreatePluginDistribution_Inr:
  assumes "CreatePluginDistribution c w = (Inr u, w')"
  shows "(\<forall>q \<in> set (plugin_distributions (w_db w)). pdist_ID q \<noteq> pdist_ID c) \<and>
         w_db w' = (w_db w)\<lparr>plugin_distributions := plugin_distributions (w_db w) @
           [c\<lparr>pdist_CreatedAt := stamp (w_clock w (w_ticks w)) (pdist_CreatedAt c),
              pdist_UpdatedAt := stamp (w_clock w (w_ticks w)) (pdist_UpdatedAt c)\<rparr>]\<rparr>"
  using assms by (auto simp: CreatePluginDistribution_def bindE_Inr_iff now_iff insert_row_Inr_iff)

text \<open>The row of a distribution up to its times\<close>

definition same_distribution :: "plugin_distribution_row \<Rightarrow> plugin_distribution_row \<Rightarrow> bool" where
  "same_distribution c q \<longleftrightarrow> (\<exists>a b. q = c\<lparr>pdist_CreatedAt := a, pdist_UpdatedAt := b\<rparr>)"

lemma forE_CreatePluginDistribution_Inr:
  assumes "forE CreatePluginDistribution cs w = (Inr u, w')"
  shows "distinct (map pdist_ID cs) \<and> (\<forall>c \<in> set cs. \<forall>q \<in> set (plugin_distributions (w_db w)). pdist_ID q \<noteq> pdist_ID c) \<and>
         (\<exists>qs. plugin_distributions (w_db w') = plugin_distributions (w_db w) @ qs \<and> list_all2 same_distribution cs qs) \<and>
         artifacts (w_db w') = artifacts (w_db w)"
  using assms
proof (induction cs arbitrary: w)
  case (Cons c cs)
  from Cons.prems obtain w1 where one: "CreatePluginDistribution c w = (Inr (), w1)" and rest: "forE CreatePluginDistribution cs w1 = (Inr u, w')"
    by (auto simp: bindE_Inr_iff)
  let ?c = "c\<lparr>pdist_CreatedAt := stamp (w_clock w (w_ticks w)) (pdist_CreatedAt c),
              pdist_UpdatedAt := stamp (w_clock w (w_ticks w)) (pdist_UpdatedAt c)\<rparr>"
  have w1: "w_db w1 = (w_db w)\<lparr>plugin_distributions := plugin_distributions (w_db w) @ [?c]\<rparr>" and
    new: "\<forall>q \<in> set (plugin_distributions (w_db w)). pdist_ID q \<noteq> pdist_ID c"
    using CreatePluginDistribution_Inr [OF one] by simp_all
  have "same_distribution c ?c" unfolding same_distribution_def by blast
  with Cons.IH [OF rest] w1 new show ?case by auto
qed (simp add: return_iff)

section \<open>A version is published once\<close>

lemma statements_artifacts:
  "create_revision r w = (Inr u, w') \<Longrightarrow> plugin_distributions (w_db w') = plugin_distributions (w_db w) \<and> artifacts (w_db w') = artifacts (w_db w)"
  "create_items is w = (Inr u, w') \<Longrightarrow> plugin_distributions (w_db w') = plugin_distributions (w_db w) \<and> artifacts (w_db w') = artifacts (w_db w)"
  "create_pointers ps w = (Inr u, w') \<Longrightarrow> plugin_distributions (w_db w') = plugin_distributions (w_db w) \<and> artifacts (w_db w') = artifacts (w_db w)"
  "create_projection p w = (Inr u, w') \<Longrightarrow> plugin_distributions (w_db w') = plugin_distributions (w_db w) \<and> artifacts (w_db w') = artifacts (w_db w)"
  by (auto simp: create_revision_def create_items_def create_pointers_def create_projection_def insert_row_Inr_iff insert_rows_Inr
      fold_append_items fold_append_pointers prog_iff dest!: add_rows_Inr)

lemma store_publication_Inr:
  assumes pure: "pure_publisher P" and run: "store_publication P cs r is p as ps w = (Inr u, w')"
  obtains qs where "distinct (map pdist_ID cs)" "\<forall>c \<in> set cs. \<forall>q \<in> set (plugin_distributions (w_db w)). pdist_ID q \<noteq> pdist_ID c"
    "plugin_distributions (w_db w') = plugin_distributions (w_db w) @ qs" "list_all2 same_distribution cs qs"
    "\<forall>a \<in> set as. \<forall>b \<in> set (artifacts (w_db w)). art_StorageKey b \<noteq> art_StorageKey a"
    "\<forall>a \<in> set as. \<exists>b \<in> set (artifacts (w_db w')). art_StorageKey b = art_StorageKey a"
proof -
  from run obtain w1 w2 w3 w4 tid did where one: "forE CreatePluginDistribution cs w1 = (Inr (), w2)" and w1: "w_db w1 = w_db w"
    and two: "CreateMarketplaceRevision r is p as ps w2 = (Inr (), w3)"
    and sw: "SwitchMarketplacePointers (rev_TemplateID r) (rev_ID r) did (proj_ID p) w3 = (Inr (), w4)" and w': "w_db w' = w_db w4"
    by (auto simp: store_publication_def transaction_Inr_iff bindE_Inr_iff mustUUID_Inr)
  from two obtain v1 v2 v3 v4 where rev: "create_revision r w2 = (Inr (), v1)"
    and its: "(if is = [] then return () else create_items is) v1 = (Inr (), v2)"
    and arts: "(if as = [] then return () else create_artifacts as) v2 = (Inr (), v3)"
    and ptrs: "(if ps = [] then return () else create_pointers ps) v3 = (Inr (), v4)"
    and proj: "create_projection p v4 = (Inr (), w3)"
    by (auto simp: CreateMarketplaceRevision_def bindE_Inr_iff)
  have before: "plugin_distributions (w_db v2) = plugin_distributions (w_db w2) \<and> artifacts (w_db v2) = artifacts (w_db w2)"
    using its statements_artifacts(1) [OF rev] by (auto simp: return_iff split: if_splits dest: statements_artifacts)
  have after: "plugin_distributions (w_db w3) = plugin_distributions (w_db v3) \<and> artifacts (w_db w3) = artifacts (w_db v3)"
    using ptrs statements_artifacts(4) [OF proj] by (auto simp: return_iff split: if_splits dest: statements_artifacts)
  have switch: "plugin_distributions (w_db w4) = plugin_distributions (w_db w3) \<and> artifacts (w_db w4) = artifacts (w_db w3)"
    by (rule SwitchMarketplacePointers_tables [OF sw]) simp
  have "plugin_distributions (w_db v3) = plugin_distributions (w_db v2)"
    "\<forall>a \<in> set as. \<forall>b \<in> set (artifacts (w_db v2)). art_StorageKey b \<noteq> art_StorageKey a"
    "\<forall>a \<in> set as. \<exists>b \<in> set (artifacts (w_db v3)). art_StorageKey b = art_StorageKey a"
    using arts by (auto simp: return_iff split: if_splits dest!: create_artifacts_Inr)
  with before after switch w' w1 forE_CreatePluginDistribution_Inr [OF one] that show ?thesis by (metis (no_types))
qed

lemma LoadPublicationInput_Inr:
  assumes "LoadPublicationInput tid ids w = (Inr input, w')"
  obtains nid where "in_Versions input = publication_rows (w_db w) nid ids" "length (in_Versions input) = length ids"
proof -
  from assms obtain t n w1 w2 rows where
    "map_error (mapPublicationLookupError ''load marketplace template'')
       (take_row (\<lambda>d. List.find (\<lambda>t. tmpl_ID t = tid \<and> tmpl_Status t = StatusActive) (marketplace_templates d))) w = (Inr t, w1)" and
    "map_error (mapPublicationLookupError ''load marketplace namespace'')
       (take_row (\<lambda>d. List.find (\<lambda>n. ns_ID n = tmpl_NamespaceID t) (namespaces d))) w1 = (Inr n, w2)" and
    "rows = publication_rows (w_db w2) (tmpl_NamespaceID t) ids" "length rows = length ids"
    "input = \<lparr>in_Template = t, in_Namespace = n, in_Versions = rows\<rparr>"
    unfolding LoadPublicationInput_def bindE_Inr_iff map_error_Inr_iff query_Inr_iff
    by (auto simp: return_iff fail_iff split: if_splits)
  moreover from this have "w_db w2 = w_db w" by (auto simp: map_error_Inr_iff take_row_Inr_iff)
  ultimately show ?thesis using that by simp
qed

lemma selected_version:
  assumes keys: "publication_keys d" and len: "length (publication_rows d nid ids) = length ids"
    and v: "v \<in> set (versions d)" "ver_ID v \<in> set ids"
  obtains s where "s \<in> set (publication_rows d nid ids)" "ver_Tag (pub_Version s) = ver_Tag v" "plg_ID (pub_Plugin s) = ver_PluginID v"
proof -
  from all_versions_selected [OF keys len v(2)] obtain s where s: "s \<in> set (publication_rows d nid ids)" "ver_ID (pub_Version s) = ver_ID v" by blast
  then obtain u where u: "u \<in> set (versions d)" "s \<in> set (version_rows d nid ids u)"
    unfolding publication_rows_versions set_concat set_map by blast
  note row = version_rowsD [OF u(2)]
  have "distinct (map ver_ID (versions d))" using keys by (simp add: publication_keys_def)
  moreover have "ver_ID u = ver_ID v" using row s(2) by argo
  ultimately have "u = v" using distinct_map_same u(1) v(1) by metis
  with that [OF s(1)] row show ?thesis by blast
qed

text \<open>
  What a publication that succeeds has drafted and stored: an item for every requested version, and
  for every item an artifact with the storage key of its distribution, which no artifact had before
\<close>

definition item_stored :: "publisher \<Rightarrow> string \<Rightarrow> publication_draft \<Rightarrow> db \<Rightarrow> db \<Rightarrow> revision_item_row \<Rightarrow> bool" where
  "item_stored P tid dr d d' i \<longleftrightarrow>
     (\<exists>r. (r \<in> set (dr_new dr) \<and> pdist_ID r = item_PluginDistributionID i \<or>
           (\<exists>pid. pub_ParseUUID P (item_PluginID i) = Some pid \<and> found_distribution d tid pid (item_PluginTag i) = Some r)) \<and>
          pdist_StorageKey r \<notin> art_StorageKey ` set (artifacts d) \<and> pdist_StorageKey r \<in> art_StorageKey ` set (artifacts d'))"

definition versions_drafted :: "publisher \<Rightarrow> publish_command \<Rightarrow> db \<Rightarrow> publication_draft \<Rightarrow> bool" where
  "versions_drafted P cmd d dr \<longleftrightarrow> (\<forall>v \<in> set (versions d). ver_ID v \<in> set (cmd_PluginVersionIDs cmd) \<longrightarrow>
     (\<exists>s. drafted_for P (cmd_TemplateID cmd) d s dr \<and> ver_Tag (pub_Version s) = ver_Tag v \<and> plg_ID (pub_Plugin s) = ver_PluginID v))"

lemma Publish_stored:
  assumes pure: "pure_publisher P" and keys: "publication_keys (w_db w)" and run: "PublicationService_Publish P cmd w = (Inr res, w')"
  obtains dr qs where
    "versions_drafted P cmd (w_db w) dr"
    "new_listed dr" "\<forall>i \<in> set (dr_items dr). item_stored P (cmd_TemplateID cmd) dr (w_db w) (w_db w') i"
    "distinct (map pdist_ID (dr_new dr))" "\<forall>c \<in> set (dr_new dr). \<forall>q \<in> set (plugin_distributions (w_db w)). pdist_ID q \<noteq> pdist_ID c"
    "plugin_distributions (w_db w') = plugin_distributions (w_db w) @ qs" "list_all2 same_distribution (dr_new dr) qs"
proof -
  obtain input dr w1 origin y z where doc: "publish_document P cmd input dr (res_ContentJSON res) w1 = (Inr res, w')" and w1: "w_db w1 = w_db w"
    and "marketplace_Marshal (document input (dr_plugins dr)) = Inr (res_ContentJSON res)"
    and load: "LoadPublicationInput (cmd_TemplateID cmd) (cmd_PluginVersionIDs cmd) w = (Inr input, y)"
    and draft: "draft_versions P cmd origin 0 (sorted_versions (in_Versions input)) empty_draft y = (Inr dr, z)" and y: "w_db y = w_db w"
    by (rule Publish_Inr [OF pure run])
  obtain nid where loaded: "in_Versions input = publication_rows (w_db w) nid (cmd_PluginVersionIDs cmd)"
    "length (in_Versions input) = length (cmd_PluginVersionIDs cmd)" by (rule LoadPublicationInput_Inr [OF load])
  note covers = draft_versions_covers [OF pure draft y]
  have versions: "\<exists>s. drafted_for P (cmd_TemplateID cmd) (w_db w) s dr \<and> ver_Tag (pub_Version s) = ver_Tag v \<and> plg_ID (pub_Plugin s) = ver_PluginID v"
    if v: "v \<in> set (versions (w_db w))" "ver_ID v \<in> set (cmd_PluginVersionIDs cmd)" for v
  proof -
    obtain s where "s \<in> set (in_Versions input)" "ver_Tag (pub_Version s) = ver_Tag v" "plg_ID (pub_Plugin s) = ver_PluginID v"
      using selected_version [OF keys _ v] loaded by metis
    with covers show ?thesis by (auto simp: sorted_versions_def)
  qed
  obtain m mp n items drafts w2 w3 x x' u built where
    found: "find_or_create_distribution P (cmd_TemplateID cmd) (tmpl_Name (in_Template input)) w1 = (Inr m, w2)" and
    "ParseMarketplacePublicKey (mdist_PublicKey m) = Inr (res_PublicKey res)" and
    "pub_ParseUUID P (mdist_ID m) = Some (res_DistributionID res)" and
    "pub_BuildMarketplace P (res_ProjectionID res) (res_ContentJSON res) (cmd_PublishedAt cmd) x = (Inr mp, x')" and
    stored: "store_publication P (dr_new dr) (new_revision (res_RevisionID res) cmd n (res_ContentJSON res) (res_ContentDigest res)) items
       (new_projection (res_ProjectionID res) (mdist_ID m) (res_RevisionID res) mp) (map fst drafts) (map snd drafts) w3 = (Inr (), w')" and
    drafts: "mapE (draft_artifact P cmd built (dr_new dr) (res_RevisionID res)) items u = (Inr drafts, w3)" and
    items: "items = map (\<lambda>i. i\<lparr>item_RevisionID := res_RevisionID res\<rparr>) (dr_items dr)" and u: "w_db u = w_db w2" and w3: "w_db w3 = w_db w2" and
    "res_ContentDigest res = hex_EncodeToString (pub_SHA256 P (res_ContentJSON res))"
    by (rule publish_document_Inr [OF pure doc])
  have "only_named (cmd_TemplateID cmd) (w_db w) (w_db w2)"
    using keepsD [OF keeps_only_named_find_or_create found] w1 by (simp add: only_named_def)
  then have same: "plugin_distributions (w_db w3) = plugin_distributions (w_db w)" "artifacts (w_db w3) = artifacts (w_db w)"
    using w3 by (auto simp: only_named_def)
  obtain qs where distributions: "distinct (map pdist_ID (dr_new dr))"
      "\<forall>c \<in> set (dr_new dr). \<forall>q \<in> set (plugin_distributions (w_db w)). pdist_ID q \<noteq> pdist_ID c"
      "plugin_distributions (w_db w') = plugin_distributions (w_db w) @ qs" "list_all2 same_distribution (dr_new dr) qs"
    and arts: "\<forall>a \<in> set (map fst drafts). \<forall>b \<in> set (artifacts (w_db w)). art_StorageKey b \<noteq> art_StorageKey a"
      "\<forall>a \<in> set (map fst drafts). \<exists>b \<in> set (artifacts (w_db w')). art_StorageKey b = art_StorageKey a"
    by (rule store_publication_Inr [OF pure stored, unfolded same])
  have "item_stored P (cmd_TemplateID cmd) dr (w_db w) (w_db w') i" if i: "i \<in> set (dr_items dr)" for i
  proof -
    let ?i = "i\<lparr>item_RevisionID := res_RevisionID res\<rparr>"
    have "?i \<in> set items" using i items by simp
    from mapE_Inr [OF reads_drafting(2) [OF pure] drafts this]
    obtain b t t' where b: "b \<in> set drafts" "w_db t = w_db u" and one: "draft_artifact P cmd built (dr_new dr) (res_RevisionID res) ?i t = (Inr b, t')"
      by blast
    then obtain r t2 where r: "item_distribution P cmd built (dr_new dr) ?i t = (Inr r, t2)" and key: "art_StorageKey (fst b) = pdist_StorageKey r"
      by (auto simp: draft_artifact_def bindE_Inr_iff new_id_iff return_iff drafted_artifact_def)
    have "r \<in> set (dr_new dr) \<and> pdist_ID r = item_PluginDistributionID i \<or>
        (\<exists>pid. pub_ParseUUID P (item_PluginID i) = Some pid \<and> found_distribution (w_db w) (cmd_TemplateID cmd) pid (item_PluginTag i) = Some r)"
      using item_distribution_Inr [OF r] b(2) u w3 same by (auto simp: found_distribution_def)
    moreover have "fst b \<in> set (map fst drafts)" using b(1) by simp
    with arts key have "pdist_StorageKey r \<notin> art_StorageKey ` set (artifacts (w_db w))" "pdist_StorageKey r \<in> art_StorageKey ` set (artifacts (w_db w'))"
      by (metis imageE, metis imageI)
    ultimately show ?thesis unfolding item_stored_def by blast
  qed
  with that [OF _ _ _ distributions] covers versions show ?thesis by (simp add: versions_drafted_def new_listed_def empty_draft_def)
qed

text \<open>A version whose distribution has an artifact is not published.\<close>

lemma distributed_version_fails:
  assumes pure: "pure_publisher P" and keys: "publication_keys (w_db w)"
    and v: "v \<in> set (versions (w_db w))" "ver_ID v \<in> set (cmd_PluginVersionIDs cmd)" and pid: "pub_ParseUUID P (ver_PluginID v) = Some pid"
    and q: "found_distribution (w_db w) (cmd_TemplateID cmd) pid (ver_Tag v) = Some q"
    and art: "pdist_StorageKey q \<in> art_StorageKey ` set (artifacts (w_db w))"
  shows "PublicationService_Publish P cmd w \<noteq> (Inr res, w')"
proof
  assume run: "PublicationService_Publish P cmd w = (Inr res, w')"
  obtain dr qs where versions: "versions_drafted P cmd (w_db w) dr"
    and "new_listed dr" and items: "\<forall>i \<in> set (dr_items dr). item_stored P (cmd_TemplateID cmd) dr (w_db w) (w_db w') i"
    and "distinct (map pdist_ID (dr_new dr))" and new: "\<forall>c \<in> set (dr_new dr). \<forall>q \<in> set (plugin_distributions (w_db w)). pdist_ID q \<noteq> pdist_ID c"
    and "plugin_distributions (w_db w') = plugin_distributions (w_db w) @ qs" "list_all2 same_distribution (dr_new dr) qs"
    by (rule Publish_stored [OF pure keys run])
  from versions v pid q obtain i where i: "i \<in> set (dr_items dr)" "item_PluginID i = ver_PluginID v" "item_PluginTag i = ver_Tag v"
    "item_PluginDistributionID i = pdist_ID q"
    by (fastforce simp: versions_drafted_def drafted_for_def)
  have "q \<in> set (plugin_distributions (w_db w))" using q by (auto simp: found_distribution_def dest!: find_Some_iff_hd)
  with new items i pid q have "pdist_StorageKey q \<notin> art_StorageKey ` set (artifacts (w_db w))"
    by (fastforce simp: item_stored_def)
  with art show False by simp
qed

lemma keeps_published_version:
  assumes "keeps_published d d'" "v \<in> set (versions d)"
  obtains u where "u \<in> set (versions d')" "ver_ID u = ver_ID v" "ver_PluginID u = ver_PluginID v" "ver_Tag u = ver_Tag v"
proof -
  let ?key = "\<lambda>v. (ver_ID v, ver_PluginID v, ver_Tag v)"
  from assms have "?key v \<in> ?key ` set (versions d')"
    unfolding keeps_published_def using set_mono_prefix [of "map ?key (versions d)" "map ?key (versions d')"] by auto
  with that show thesis by auto
qed

lemma keeps_published_distribution:
  "keeps_published d d' \<Longrightarrow> found_distribution d tid pid tag = Some q \<Longrightarrow> found_distribution d' tid pid tag = Some q"
  by (auto simp: keeps_published_def found_distribution_def prefix_def find_append)

text \<open>After a publication every version it was given has such a distribution.\<close>

lemma published_version_distributed:
  assumes pure: "pure_publisher P" and keys: "publication_keys (w_db w)" and run: "PublicationService_Publish P cmd w = (Inr res, w')"
    and v: "v \<in> set (versions (w_db w))" "ver_ID v \<in> set (cmd_PluginVersionIDs cmd)" and pid: "uuid_text P (ver_PluginID v)"
  obtains q where "found_distribution (w_db w') (cmd_TemplateID cmd) (ver_PluginID v) (ver_Tag v) = Some q"
    "pdist_StorageKey q \<in> art_StorageKey ` set (artifacts (w_db w'))"
proof -
  let ?found = "\<lambda>d. found_distribution d (cmd_TemplateID cmd) (ver_PluginID v) (ver_Tag v)"
  let ?match = "\<lambda>r. pdist_TemplateID r = cmd_TemplateID cmd \<and> pdist_PluginID r = ver_PluginID v \<and> pdist_PluginTag r = ver_Tag v \<and>
                    pdist_Status r = StatusActive \<and> pdist_RevokedAt r = None"
  have parse: "pub_ParseUUID P (ver_PluginID v) = Some (ver_PluginID v)" using pid by (simp add: uuid_text_def)
  obtain dr qs where versions: "versions_drafted P cmd (w_db w) dr"
    and listed: "new_listed dr" and items: "\<forall>i \<in> set (dr_items dr). item_stored P (cmd_TemplateID cmd) dr (w_db w) (w_db w') i"
    and ids: "distinct (map pdist_ID (dr_new dr))" and new: "\<forall>c \<in> set (dr_new dr). \<forall>q \<in> set (plugin_distributions (w_db w)). pdist_ID q \<noteq> pdist_ID c"
    and after: "plugin_distributions (w_db w') = plugin_distributions (w_db w) @ qs" and qs: "list_all2 same_distribution (dr_new dr) qs"
    by (rule Publish_stored [OF pure keys run])
  from versions v obtain s where s: "drafted_for P (cmd_TemplateID cmd) (w_db w) s dr" "ver_Tag (pub_Version s) = ver_Tag v" "plg_ID (pub_Plugin s) = ver_PluginID v"
    unfolding versions_drafted_def by blast
  obtain i where i: "i \<in> set (dr_items dr)" "item_PluginID i = ver_PluginID v" "item_PluginTag i = ver_Tag v"
    and drafted: "case ?found (w_db w) of Some r \<Rightarrow> item_PluginDistributionID i = pdist_ID r
            | None \<Rightarrow> \<exists>r \<in> set (dr_new dr). item_PluginDistributionID i = pdist_ID r \<and> ?match r"
    by (rule drafted_forD [OF s(1), unfolded s(2,3), OF parse])
  show ?thesis
  proof (cases "?found (w_db w)")
    case (Some q)
    then have q: "q \<in> set (plugin_distributions (w_db w))" by (auto simp: found_distribution_def dest!: find_Some_iff_hd)
    have "?found (w_db w') = Some q" using Some after by (simp add: found_distribution_def find_append)
    moreover have "pdist_StorageKey q \<in> art_StorageKey ` set (artifacts (w_db w'))"
      using items i drafted parse Some new q by (fastforce simp: item_stored_def)
    ultimately show ?thesis by (rule that)
  next
    case None
    then have none: "List.find ?match (plugin_distributions (w_db w)) = None" by (simp add: found_distribution_def)
    obtain q c where q: "?found (w_db w') = Some q" "c \<in> set (dr_new dr)" "same_distribution c q" "?match c"
    proof -
      from i drafted None obtain e where e: "e \<in> set (dr_new dr)" "?match e" by auto
      with qs obtain e' where "e' \<in> set qs" "same_distribution e e'" by (metis list_all2_conv_all_nth in_set_conv_nth)
      with e have "\<exists>x \<in> set qs. ?match x" by (intro bexI [of _ e']) (auto simp: same_distribution_def)
      then obtain q where "List.find ?match qs = Some q" by (cases "List.find ?match qs") (auto simp: find_None_iff)
      moreover from this have "q \<in> set qs" "?match q" using find_Some_iff_hd by fastforce+
      moreover from this qs obtain c where "c \<in> set (dr_new dr)" "same_distribution c q" by (metis list_all2_conv_all_nth in_set_conv_nth)
      moreover from calculation have "?match c" by (auto simp: same_distribution_def)
      moreover have "?found (w_db w') = Some q" using calculation none after by (simp add: found_distribution_def find_append)
      ultimately show ?thesis by (intro that) assumption+
    qed
    then obtain j where j: "j \<in> set (dr_items dr)" "item_PluginDistributionID j = pdist_ID c" "item_PluginID j = ver_PluginID v" "item_PluginTag j = ver_Tag v"
      using listed by (fastforce simp: new_listed_def)
    then obtain r where "r \<in> set (dr_new dr)" "pdist_ID r = pdist_ID c" "pdist_StorageKey r \<in> art_StorageKey ` set (artifacts (w_db w'))"
      using items parse None by (fastforce simp: item_stored_def)
    moreover from this have "r = c" using distinct_map_same [OF ids] q(2) by blast
    moreover have "pdist_StorageKey q = pdist_StorageKey c" using q(3) by (auto simp: same_distribution_def)
    ultimately show ?thesis using that [OF q(1)] by simp
  qed
qed

text \<open>Publications leave the catalogue of Plugins alone.\<close>

lemma catalogue_forget_market:
  "versions (forget_market d) = versions d" "plugins (forget_market d) = plugins d" "repositories (forget_market d) = repositories d"
  by (simp_all add: forget_market_def)

lemma forget_market_catalogue:
  assumes "forget_market d' = forget_market d"
  shows "versions d' = versions d \<and> plugins d' = plugins d \<and> repositories d' = repositories d"
  using assms arg_cong [of _ _ versions] arg_cong [of _ _ plugins] arg_cong [of _ _ repositories]
  by (metis catalogue_forget_market)

interpretation catalogue: publication_frame "\<lambda>d. versions d = vs \<and> plugins d = ps \<and> repositories d = rs"
  by (rule publication_frameI) (auto simp: publications_only_def dest: forget_market_catalogue)

lemma catalogue_kept:
  assumes "pure_publisher P" "PublicationService_Publish P cmd w = (r, w')"
  shows "versions (w_db w') = versions (w_db w) \<and> publication_keys (w_db w') = publication_keys (w_db w)"
proof -
  have "versions (w_db w') = versions (w_db w) \<and> plugins (w_db w') = plugins (w_db w) \<and> repositories (w_db w') = repositories (w_db w)"
    by (rule keepsD [OF catalogue.keeps_Publish [OF assms(1)] assms(2)]) simp_all
  then show ?thesis by (simp add: publication_keys_def)
qed

end
