(* ===== verification/PublicationRuns.thy ===== *)
theory PublicationRuns imports PublicationOnce ServerInvariant begin

text \<open>
  What a publication has recorded stays in every run of the server: the names of the versions, the
  Plugin distributions, and the storage keys of the artifacts are kept by all operations of the three
  domains. The interfaces \<open>plugin_store\<close> and \<open>publication_frame\<close> are interpreted on it.
\<close>

section \<open>Growing tables\<close>

definition version_name :: "version_row \<Rightarrow> string \<times> string \<times> string" where
  "version_name v = (ver_ID v, ver_PluginID v, ver_Tag v)"

lemma keeps_published_names:
  "keeps_published d d' \<longleftrightarrow>
     prefix (map version_name (versions d)) (map version_name (versions d')) \<and>
     prefix (plugin_distributions d) (plugin_distributions d') \<and>
     art_StorageKey ` set (artifacts d) \<subseteq> art_StorageKey ` set (artifacts d')"
  by (simp add: keeps_published_def version_name_def [abs_def])

lemma keeps_published_refl: "keeps_published d d"
  by (simp add: keeps_published_names)

lemma keeps_published_grow:
  "map version_name (versions d') = map version_name (versions d) @ vs \<Longrightarrow> plugin_distributions d' = plugin_distributions d @ qs \<Longrightarrow>
   art_StorageKey ` set (artifacts d) \<subseteq> art_StorageKey ` set (artifacts d') \<Longrightarrow> keeps_published d0 d \<Longrightarrow> keeps_published d0 d'"
  unfolding keeps_published_names by (elim conjE, intro conjI; simp)

lemma keeps_published_same:
  "map version_name (versions d') = map version_name (versions d) \<Longrightarrow> plugin_distributions d' = plugin_distributions d \<Longrightarrow>
   art_StorageKey ` set (artifacts d) \<subseteq> art_StorageKey ` set (artifacts d') \<Longrightarrow> keeps_published d0 d \<Longrightarrow> keeps_published d0 d'"
  by (rule keeps_published_grow [of d' d "[]" "[]"]) simp_all

lemma keeps_published_tables:
  "versions d' = versions d \<Longrightarrow> plugin_distributions d' = plugin_distributions d \<Longrightarrow> artifacts d' = artifacts d \<Longrightarrow>
   keeps_published d0 d \<Longrightarrow> keeps_published d0 d'"
  by (rule keeps_published_same) simp_all

section \<open>The Plugin domain\<close>

lemma published_creates:
  "keeps (keeps_published d0) (create_plugin p)" "keeps (keeps_published d0) (create_repository r)"
  "keeps (keeps_published d0) (create_history h)" "keeps (keeps_published d0) (create_orphan_cleanup c)"
  unfolding create_plugin_def create_repository_def create_history_def create_orphan_cleanup_def
  by (intro keeps_bindE keeps_insert_row keeps_reads [OF reads_now], erule keeps_published_tables [rotated 3], simp, simp, simp)+

lemma published_create_version: "keeps (keeps_published d0) (create_version v)"
  unfolding create_version_def
  by (intro keeps_bindE keeps_insert_row keeps_reads [OF reads_now], erule keeps_published_grow [rotated 3], simp, simp, simp)

lemma published_update_plugins: "keeps (keeps_published d0) (update_plugins b P f)"
  unfolding update_plugins_def set_plugins_def
  by (rule keeps_update_rows) (erule keeps_published_tables [rotated 3]; simp)

lemma published_update_versions: "keeps_version_identity g \<Longrightarrow> keeps (keeps_published d0) (update_versions Q g)"
  unfolding update_versions_def set_versions_def
  by (rule keeps_update_rows)
    (erule keeps_published_same [rotated 3]; simp add: map_update_where keeps_version_identity_def version_name_def)

lemma published_CreateAggregate: "keeps (keeps_published d0) (CreateAggregate a)"
  unfolding CreateAggregate_def Let_def
  by (intro keeps_if keeps_transaction_body keeps_bindE keeps_map_error published_creates keeps_reads [OF reads_fail])

lemma published_delete_version: "commits (keeps_published d0) (delete_version e i t)"
  unfolding delete_version_def
  by (intro commits_keeps keeps_bindE keeps_cas published_update_plugins published_update_versions keeps_reads [OF reads_return])
    (simp add: keeps_version_identity_def)

lemma published_artifacts:
  "keeps (keeps_published d0) (create_artifact a)"
  "(\<And>a. art_StorageKey (f a) = art_StorageKey a) \<Longrightarrow> keeps (keeps_published d0) (update_artifacts P f)"
proof -
  show "keeps (keeps_published d0) (create_artifact a)"
    unfolding create_artifact_def by (rule keeps_insert_row, erule keeps_published_same [rotated 3]) auto
  assume f: "\<And>a. art_StorageKey (f a) = art_StorageKey a"
  have keys: "art_StorageKey ` set (update_where P f rows) = art_StorageKey ` set rows" for rows
    using map_update_where [of P art_StorageKey f rows] f by (metis list.set_map)
  show "keeps (keeps_published d0) (update_artifacts P f)"
    unfolding update_artifacts_def set_artifacts_def
    by (rule keeps_update_rows, erule keeps_published_same [rotated 3]) (simp_all add: keys)
qed

lemma published_coordination: "coordination_only (keeps_published d0)"
  unfolding coordination_only_def
proof (intro allI impI)
  fix d d' assume f: "forget_coordination d' = forget_coordination d" and k: "keeps_published d0 d"
  note same = table_same [of forget_coordination, OF f]
  show "keeps_published d0 d'"
    by (rule keeps_published_tables [OF _ _ _ k]; rule same; simp add: forget_coordination_def)
qed

interpretation history: plugin_store "keeps_published d0" for d0
  by unfold_locales
    (rule published_CreateAggregate published_creates published_create_version published_update_plugins published_update_versions
       published_delete_version published_artifacts published_coordination; assumption)+

section \<open>Publications\<close>

lemma published_CreatePluginDistribution: "keeps (keeps_published d0) (CreatePluginDistribution pd)"
  unfolding CreatePluginDistribution_def
  by (intro keeps_bindE keeps_insert_row keeps_reads [OF reads_now], erule keeps_published_grow [rotated 3, where vs = "[]"], simp, simp, simp)

lemma published_create_artifacts: "keeps (keeps_published d0) (create_artifacts arts)"
  unfolding create_artifacts_def
  by (intro keeps_bindE keeps_insert_rows keeps_reads [OF reads_now], erule keeps_published_same [rotated 3]) auto

lemma published_catalogues: "catalogues_only (keeps_published d0)"
  unfolding catalogues_only_def
proof (intro allI impI)
  fix d d' assume f: "forget_catalogues d' = forget_catalogues d" and k: "keeps_published d0 d"
  note same = table_same [of forget_catalogues, OF f]
  show "keeps_published d0 d'"
    by (rule keeps_published_tables [OF _ _ _ k]; rule same; simp add: forget_catalogues_def)
qed

interpretation history_market: publication_frame "keeps_published d0" for d0
  by unfold_locales (rule published_CreatePluginDistribution published_create_artifacts published_catalogues)+

section \<open>Runs\<close>

lemma server_step_keeps_published: "server_step w w' \<Longrightarrow> keeps_published d0 (w_db w) \<Longrightarrow> keeps_published d0 (w_db w')"
  unfolding server_step_def
proof (elim disjE)
  assume "identity_step w w'" "keeps_published d0 (w_db w)"
  then show ?thesis
    using frame.step [of w w' "w_db w"] keeps_published_tables [of "w_db w'" "w_db w" d0] by (simp add: beyond_def)
qed (rule history.plugin_step history_market.market_step; assumption)+

lemma server_steps_keep_published: "server_step\<^sup>*\<^sup>* w w' \<Longrightarrow> keeps_published (w_db w) (w_db w')"
  by (induction rule: rtranclp_induct) (auto intro: server_step_keeps_published keeps_published_refl)

text \<open>The keys a publication looks at are those of well formed tables.\<close>

lemma plugin_ok_server_step:
  assumes "server_step w w'" "plugin_ok (w_db w)"
  shows "plugin_ok (w_db w')"
  using assms unfolding server_step_def
proof (elim disjE)
  assume "identity_step w w'"
  then show ?thesis using frame.step [of w w' "w_db w"] plugin_ok_beyond [OF assms(2)] by simp
qed (rule plg.plugin_step plg_market.market_step; assumption)+

lemma plugin_ok_server_steps: "server_step\<^sup>*\<^sup>* w w' \<Longrightarrow> plugin_ok (w_db w) \<Longrightarrow> plugin_ok (w_db w')"
  by (induction rule: rtranclp_induct) (auto intro: plugin_ok_server_step)

lemma publication_keys_plugin_ok: "plugin_ok d \<Longrightarrow> publication_keys d"
  by (simp add: publication_keys_def plugin_ok_defs)

end
