(* ===== verification/MarketDemo.thy ===== *)
theory MarketDemo imports MarketInvariant begin

text \<open>
  A small marketplace at which the properties of publication are shown: a public template, an
  active Plugin with two available versions, and a builder that always succeeds.
\<close>

definition demo_sha :: "string \<Rightarrow> string" where
  "demo_sha c = take 1 (drop 9 c @ ''x'')"

definition mart_commit :: "string \<Rightarrow> string" where
  "mart_commit tag = tl tag @ replicate 39 CHR ''a''"

definition demo_builder :: builder where
  "demo_builder =
     \<lparr>bld_Build = (\<lambda>c. return (None, \<lparr>pr_Projection = (Some ArtifactKindPlugin, bc_ProjectionID c), pr_TagName = bc_TagName c,
        pr_SourceTagType = SourceTagLightweight, pr_SourceTagObjectID = mart_commit (bc_TagName c),
        pr_SourceCommitSHA = mart_commit (bc_TagName c), pr_SourceTreeSHA = replicate 40 CHR ''b'',
        pr_DistributionSHA = replicate 40 CHR ''d'', pr_ContentDigest = ''digest''\<rparr>)),
      bld_Verify = (\<lambda>_ _. return ()), bld_Remove = (\<lambda>_. return ())\<rparr>"

definition demo_publisher :: publisher where
  "demo_publisher =
     \<lparr>pub_Builder = demo_builder,
      pub_BuildMarketplace = (\<lambda>i c t. return \<lparr>mpr_Projection = (Some ArtifactKindMarketplace, i), mpr_DistributionSHA = replicate 40 CHR ''e'',
        mpr_ContentDigest = hex_EncodeToString (demo_sha c)\<rparr>),
      pub_SHA256 = demo_sha, pub_ParseUUID = (\<lambda>s. if s = [] then None else Some s), pub_Random = (\<lambda>n. Inr ''wxyz'')\<rparr>"

definition mart_template :: template_row where
  "mart_template =
     \<lparr>tmpl_ID = ''t1'', tmpl_NamespaceID = ''n1'', tmpl_Slug = ''m'', tmpl_Name = ''M'', tmpl_Description = [],
      tmpl_Visibility = VisibilityPublic, tmpl_Status = StatusActive, tmpl_PublishedRevisionID = None, tmpl_CreatedAt = 1, tmpl_UpdatedAt = 1\<rparr>"

definition mart_namespace :: namespace_row where
  "mart_namespace =
     \<lparr>ns_ID = ''n1'', ns_Kind = NamespaceKindUser, ns_Slug = ''acme'', ns_DisplayName = ''A'', ns_OwnerUserID = Some ''u1'',
      ns_CreatedAt = 1, ns_UpdatedAt = 1\<rparr>"

definition mart_plugin :: plugin_row where
  "mart_plugin =
     \<lparr>plg_ID = ''p1'', plg_NamespaceID = ''n1'', plg_Slug = ''p'', plg_Description = [], plg_Visibility = VisibilityPublic,
      plg_Status = PluginStatusActive, plg_ArchivedFrom = None, plg_DefaultVersionTag = Some ''v1'', plg_CreatedAt = 1, plg_UpdatedAt = 1\<rparr>"

definition mart_version :: "string \<Rightarrow> string \<Rightarrow> version_row" where
  "mart_version vid tag =
     \<lparr>ver_ID = vid, ver_PluginID = ''p1'', ver_Tag = tag, ver_Status = VersionStatusAvailable, ver_RawTagObjectID = Some (mart_commit tag),
      ver_CommitSHA = Some (mart_commit tag), ver_ManifestDigest = Some ''m'', ver_ManifestSnapshot = Some ''s'', ver_PublishedAt = 1,
      ver_UpdatedAt = 1, ver_DeletedAt = None, ver_CreatedAt = 1\<rparr>"

definition mart :: world where
  "mart =
     \<lparr>w_db = empty_db\<lparr>namespaces := [mart_namespace], plugins := [mart_plugin],
        repositories := [\<lparr>repo_ID = ''p1'', repo_StorageKey = ''p1'', repo_Status = RepositoryReady, repo_CreatedAt = 1, repo_UpdatedAt = 1\<rparr>],
        versions := [mart_version ''1'' ''v1'', mart_version ''2'' ''v2''], marketplace_templates := [mart_template]\<rparr>,
      w_faults = [], w_clock = (\<lambda>n. 1000 + int n), w_ticks = 0, w_ids = dec_digits, w_next_id = 0, w_lower = id,
      w_uuid = (\<lambda>_. True), w_storage = empty_storage, w_io = []\<rparr>"

definition mart_command :: "string \<Rightarrow> publish_command" where
  "mart_command vid =
     \<lparr>cmd_TemplateID = ''t1'', cmd_PluginVersionIDs = [vid], cmd_Origin = ''http://m'', cmd_PublishedAt = 5\<rparr>"

text \<open>The first publication\<close>

definition mart_first :: "(err + publish_result) \<times> world" where
  "mart_first = PublicationService_Publish demo_publisher (mart_command ''1'') mart"

text \<open>
  The database after publications of both versions: the second one is served, and the first may be
  rolled back to.
\<close>

definition mart_revision :: "string \<Rightarrow> nat \<Rightarrow> string \<Rightarrow> revision_row" where
  "mart_revision rid n content =
     \<lparr>rev_ID = rid, rev_TemplateID = ''t1'', rev_Revision = word_of_nat n, rev_ContentJSON = content, rev_ContentDigest = ''d'' @ content,
      rev_Status = StatusActive, rev_PublishedAt = 5, rev_CreatedAt = 5\<rparr>"

definition mart_projection :: "string \<Rightarrow> revision_row \<Rightarrow> distribution_projection_row" where
  "mart_projection pid r =
     \<lparr>proj_ID = pid, proj_MarketplaceDistributionID = ''2'', proj_RevisionID = rev_ID r, proj_StorageKey = ''k'' @ pid,
      proj_DistributionSHA = replicate 40 CHR ''e'', proj_ContentDigest = rev_ContentDigest r, proj_Status = StatusActive, proj_CreatedAt = 5\<rparr>"

definition mart_distribution :: marketplace_distribution_row where
  "mart_distribution =
     \<lparr>mdist_ID = ''2'', mdist_TemplateID = ''t1'', mdist_PublicKey = ''m-7778797a'', mdist_CurrentProjectionID = Some ''10'',
      mdist_Status = StatusActive, mdist_CreatedAt = 5, mdist_UpdatedAt = 5, mdist_RevokedAt = None\<rparr>"

definition mart_two :: world where
  "mart_two =
     mart\<lparr>w_db := (w_db mart)\<lparr>
       marketplace_templates := [mart_template\<lparr>tmpl_PublishedRevisionID := Some ''9''\<rparr>],
       marketplace_revisions := [mart_revision ''3'' 1 ''one'', mart_revision ''9'' 2 ''two''],
       marketplace_distributions := [mart_distribution],
       distribution_projections := [mart_projection ''4'' (mart_revision ''3'' 1 ''one''), mart_projection ''10'' (mart_revision ''9'' 2 ''two'')]\<rparr>\<rparr>"

lemma demo_publisher_honest: "honest_publisher demo_publisher"
  by (auto simp: honest_publisher_def pure_publisher_def pure_builder_def demo_publisher_def demo_builder_def demo_sha_def return_iff
      intro: reads_return)

lemma mart_ok: "market_ok (w_db mart)"
  by (simp add: market_ok_def market_tables_def mart_def empty_db_def)

lemma mart_first_value:
  "map_sum (\<lambda>_. ()) (\<lambda>r. (res_DistributionID r, res_PublicKey r, res_RevisionID r, res_ProjectionID r)) (fst mart_first) =
     Inr (''2'', ''m-7778797a'', ''3'', ''4'') \<and>
   map (\<lambda>m. (mdist_ID m, mdist_CurrentProjectionID m)) (marketplace_distributions (w_db (snd mart_first))) = [(''2'', Some ''4'')]"
  by code_simp

lemma mart_two_value: "fst (Rollback demo_publisher ''2'' ''3'' mart_two) = Inr ()"
  by code_simp

lemma mart_failing_value: "isl (fst (PublicationService_Publish demo_publisher (mart_command ''1'') (mart_two\<lparr>w_faults := [True]\<rparr>)))"
  by code_simp

lemma mart_two_ok: "market_ok (w_db mart_two) \<and> canonical_projections demo_publisher (w_db mart_two)"
proof -
  have "public_key_ok ''m-7778797a''" by code_simp
  then show ?thesis
    by (simp add: market_ok_def market_tables_def canonical_projections_def mart_two_def mart_distribution_def mart_revision_def
        mart_projection_def mart_template_def shows_revision_def pointers_agree_def uuid_text_def demo_publisher_def)
qed

end
