(* ===== verification/MarketProps.thy ===== *)
theory MarketProps imports PublicationRuns MarketDemo begin

text \<open>
  The properties of publication: what is published is what is served, a rollback serves the earlier
  revision again, and a publication that fails changes nothing that is served.
\<close>

text \<open>C2. After a successful publication for a template that anyone may see, a request for the returned
  public key is granted exactly the published document: its text, its digest, the new revision and
  the distribution that the publication returned.
\<close>

theorem published_content_is_served:
  assumes honest: "honest_publisher P" and ok: "market_ok (w_db w)"
    and run: "PublicationService_Publish P cmd w = (Inr res, w')"
    and ids: "uuid_text P (res_RevisionID res)" "uuid_text P (res_ProjectionID res)"
    and public: "t \<in> set (marketplace_templates (w_db w))" "tmpl_ID t = cmd_TemplateID cmd" "public_template t"
    and later: "w_db v = w_db w'" "w_faults v = []"
  shows "\<exists>key. ResolveMarketplace P (res_PublicKey res) v =
    (Inr \<lparr>mg_DistributionID = res_DistributionID res, mg_PublicKey = res_PublicKey res, mg_RevisionID = res_RevisionID res,
          mg_Projection = (Some ArtifactKindMarketplace, key), mg_ContentJSON = res_ContentJSON res,
          mg_ContentDigest = res_ContentDigest res\<rparr>, v)"
proof -
  have pure: "pure_publisher P" using honest by (simp add: honest_publisher_def)
  obtain input dr w1 origin y z where doc: "publish_document P cmd input dr (res_ContentJSON res) w1 = (Inr res, w')" and w1: "w_db w1 = w_db w"
    and "marketplace_Marshal (document input (dr_plugins dr)) = Inr (res_ContentJSON res)"
    and "LoadPublicationInput (cmd_TemplateID cmd) (cmd_PluginVersionIDs cmd) w = (Inr input, y)"
    and "draft_versions P cmd origin 0 (sorted_versions (in_Versions input)) empty_draft y = (Inr dr, z)" "w_db y = w_db w"
    by (rule Publish_Inr [OF pure run])
  obtain m mp n items drafts w2 w3 x x' y built where
    found: "find_or_create_distribution P (cmd_TemplateID cmd) (tmpl_Name (in_Template input)) w1 = (Inr m, w2)" and
    key: "ParseMarketplacePublicKey (mdist_PublicKey m) = Inr (res_PublicKey res)" and
    did: "pub_ParseUUID P (mdist_ID m) = Some (res_DistributionID res)" and
    built: "pub_BuildMarketplace P (res_ProjectionID res) (res_ContentJSON res) (cmd_PublishedAt cmd) x = (Inr mp, x')" and
    stored: "store_publication P (dr_new dr) (new_revision (res_RevisionID res) cmd n (res_ContentJSON res) (res_ContentDigest res)) items
       (new_projection (res_ProjectionID res) (mdist_ID m) (res_RevisionID res) mp) (map fst drafts) (map snd drafts) w3 = (Inr (), w')" and
    "mapE (draft_artifact P cmd built (dr_new dr) (res_RevisionID res)) items y = (Inr drafts, w3)" and
    "items = map (\<lambda>i. i\<lparr>item_RevisionID := res_RevisionID res\<rparr>) (dr_items dr)" and "w_db y = w_db w2" and
    w3: "w_db w3 = w_db w2" and
    digest: "res_ContentDigest res = hex_EncodeToString (pub_SHA256 P (res_ContentJSON res))"
    by (rule publish_document_Inr [OF pure doc])
  note fc = find_or_create_distribution_Inr [OF found]
  then obtain q where q: "q \<in> set (marketplace_distributions (w_db w2))" "usable_distribution (cmd_TemplateID cmd) m q" by blast
  have mp: "mpr_ContentDigest mp = res_ContentDigest res" "res_ContentDigest res \<noteq> []"
    using built honest digest unfolding honest_publisher_def by (metis, simp)
  have "\<exists>m' c c'. serves (w_db w') m' (new_projection (res_ProjectionID res) (mdist_ID m) (res_RevisionID res) mp\<lparr>proj_CreatedAt := c\<rparr>)
      (new_revision (res_RevisionID res) cmd n (res_ContentJSON res) (res_ContentDigest res)\<lparr>rev_CreatedAt := c'\<rparr>) \<and> mdist_ID m' = mdist_ID q \<and>
      mdist_PublicKey m' = mdist_PublicKey q"
    by (rule store_publication_serves [OF stored, of _ t])
      (use q public fc w1 w3 mp ids in \<open>auto simp: usable_distribution_def new_projection_def new_revision_def uuid_text_def\<close>)
  then obtain m' p' r' where s: "serves (w_db w') m' p' r'" and r': "rev_ID r' = res_RevisionID res"
    "rev_ContentJSON r' = res_ContentJSON res" "rev_ContentDigest r' = res_ContentDigest res"
    and m': "mdist_ID m' = mdist_ID m" "mdist_PublicKey m' = mdist_PublicKey m"
    using q by (auto simp: usable_distribution_def new_revision_def)
  have "market_ok (w_db w')" using keepsD [OF keeps_market_Publish [OF honest] run ok] .
  moreover have "mdist_PublicKey m' = res_PublicKey res" using key m' by (auto simp: ParseMarketplacePublicKey_def split: if_splits)
  ultimately show ?thesis
    using ResolveMarketplace_serves [of v m' p' r' "res_PublicKey res" P "res_DistributionID res" "res_RevisionID res"]
      s r' m' later key did ids by (auto simp: uuid_text_def)
qed

lemma mart_first_result:
  obtains res where "PublicationService_Publish demo_publisher (mart_command ''1'') mart = (Inr res, snd mart_first)"
    "res_DistributionID res = ''2''" "res_PublicKey res = ''m-7778797a''" "res_RevisionID res = ''3''" "res_ProjectionID res = ''4''"
proof (cases mart_first)
  case (Pair r w)
  have "map_sum (\<lambda>_. ()) (\<lambda>r. (res_DistributionID r, res_PublicKey r, res_RevisionID r, res_ProjectionID r)) r =
      Inr (''2'', ''m-7778797a'', ''3'', ''4'')"
    using mart_first_value unfolding Pair fst_conv by (rule conjunct1)
  then obtain res where "r = Inr res" "res_DistributionID res = ''2''" "res_PublicKey res = ''m-7778797a''"
    "res_RevisionID res = ''3''" "res_ProjectionID res = ''4''" by (cases r) simp_all
  with Pair that show ?thesis by (simp add: mart_first_def)
qed

theorem published_content_is_served_witness:
  "\<exists>g. ResolveMarketplace demo_publisher ''m-7778797a'' (snd mart_first\<lparr>w_faults := []\<rparr>) = (Inr g, snd mart_first\<lparr>w_faults := []\<rparr>) \<and>
       mg_DistributionID g = ''2'' \<and> mg_RevisionID g = ''3''"
proof -
  obtain res where run: "PublicationService_Publish demo_publisher (mart_command ''1'') mart = (Inr res, snd mart_first)" and
    res: "res_DistributionID res = ''2''" "res_PublicKey res = ''m-7778797a''" "res_RevisionID res = ''3''" "res_ProjectionID res = ''4''"
    by (rule mart_first_result)
  have "\<exists>key. ResolveMarketplace demo_publisher (res_PublicKey res) (snd mart_first\<lparr>w_faults := []\<rparr>) =
    (Inr \<lparr>mg_DistributionID = res_DistributionID res, mg_PublicKey = res_PublicKey res, mg_RevisionID = res_RevisionID res,
          mg_Projection = (Some ArtifactKindMarketplace, key), mg_ContentJSON = res_ContentJSON res,
          mg_ContentDigest = res_ContentDigest res\<rparr>, snd mart_first\<lparr>w_faults := []\<rparr>)"
    by (rule published_content_is_served [OF demo_publisher_honest mart_ok run, of mart_template])
      (simp_all add: uuid_text_def demo_publisher_def res mart_def mart_template_def mart_command_def public_template_def)
  with res show ?thesis by auto
qed

text \<open>C6. A rollback that succeeds serves the named revision again: for every well-formed database, a
  request for the public key of the distribution is granted the text and the digest the revision was
  published with.
\<close>

theorem rollback_restores_the_revision:
  assumes pure: "pure_publisher P" and ok: "market_ok (w_db w)" and ids: "canonical_projections P (w_db w)"
    and run: "Rollback P did rid w = (Inr u, w')"
    and m: "m \<in> set (marketplace_distributions (w_db w))" "mdist_ID m = did"
    and r: "r \<in> set (marketplace_revisions (w_db w))" "rev_ID r = rid" "rev_Status r = StatusActive"
    and uuids: "uuid_text P did" "uuid_text P rid"
    and later: "w_db v = w_db w'" "w_faults v = []"
  shows "\<exists>key. ResolveMarketplace P (mdist_PublicKey m) v =
    (Inr \<lparr>mg_DistributionID = did, mg_PublicKey = mdist_PublicKey m, mg_RevisionID = rid,
          mg_Projection = (Some ArtifactKindMarketplace, key), mg_ContentJSON = rev_ContentJSON r,
          mg_ContentDigest = rev_ContentDigest r\<rparr>, v)"
proof -
  let ?d = "w_db w"
  from ok have keys: "distinct (map mdist_ID (marketplace_distributions ?d))" "distinct (map rev_ID (marketplace_revisions ?d))"
    and showing: "\<forall>p \<in> set (distribution_projections ?d). shows_revision (marketplace_revisions ?d) (marketplace_distributions ?d) p"
    by (simp_all add: market_ok_def market_tables_def)
  obtain p s tid w1 w2 w3 w4 where p: "p \<in> set (distribution_projections ?d)" "proj_MarketplaceDistributionID p = did" "proj_RevisionID p = rid"
      "proj_Status p = StatusActive"
    and act: "FindActiveMarketplaceByID did w1 = (Inr s, w2)" and db: "w_db w1 = ?d" "w_db w3 = ?d" "w_db w' = w_db w4"
    and switch: "SwitchMarketplacePointers tid rid did (proj_ID p) w3 = (Inr u, w4)"
    by (rule Rollback_switch [OF pure ids run])
  from findActiveMarketplace_Inr [OF act [unfolded FindActiveMarketplaceByID_def]] db
  obtain t where t: "t \<in> set (marketplace_templates ?d)" "tmpl_ID t = mdist_TemplateID (snap_Distribution s)" "public_template t"
    and sm: "snap_Distribution s \<in> set (marketplace_distributions ?d)" "mdist_ID (snap_Distribution s) = did"
    "mdist_Status (snap_Distribution s) = StatusActive" "mdist_RevokedAt (snap_Distribution s) = None"
    by (auto simp: serves_def)
  have same: "snap_Distribution s = m" using distinct_map_same [OF keys(1) sm(1) m(1)] sm(2) m(2) by simp
  obtain a b where "count_where (\<lambda>m. mdist_ID m = did \<and> mdist_TemplateID m = tid) (marketplace_distributions (w_db w3)) = 1"
    by (rule SwitchMarketplacePointers_tables [OF switch])
  then obtain n where "n \<in> set (marketplace_distributions ?d)" "mdist_ID n = did" "mdist_TemplateID n = tid"
    using count_where_pos_iff [of "\<lambda>m. mdist_ID m = did \<and> mdist_TemplateID m = tid" "marketplace_distributions ?d"] db(2)
    by (metis zero_less_one)
  with m have tid: "mdist_TemplateID m = tid" using distinct_map_same [OF keys(1)] by fastforce
  from showing p(1) obtain m1 r1 where "m1 \<in> set (marketplace_distributions ?d)" "r1 \<in> set (marketplace_revisions ?d)" "mdist_ID m1 = did"
    "rev_ID r1 = rid" "rev_TemplateID r1 = mdist_TemplateID m1" "proj_ContentDigest p = rev_ContentDigest r1" "proj_ContentDigest p \<noteq> []"
    using p by (auto simp: shows_revision_def)
  with m r have rev: "rev_TemplateID r = tid" "proj_ContentDigest p = rev_ContentDigest r" "proj_ContentDigest p \<noteq> []"
    using distinct_map_same [OF keys(1), of m1 m] distinct_map_same [OF keys(2), of r1 r] tid by auto
  have "\<exists>m'. serves (w_db w4) m' p r \<and> mdist_ID m' = did \<and> mdist_PublicKey m' = mdist_PublicKey m"
    by (rule after_switch_serves [OF switch, of m t])
      (use m t sm same tid p r rev db ids in \<open>auto simp: canonical_projections_def uuid_text_def\<close>)
  then obtain m' where s': "serves (w_db w4) m' p r" "mdist_ID m' = did" "mdist_PublicKey m' = mdist_PublicKey m" by blast
  have ok': "market_ok (w_db w')" by (rule market_ok_Rollback [OF pure ids ok run])
  have "public_key_ok (mdist_PublicKey m)" using ok m(1) by (simp add: market_ok_def market_tables_def)
  with ResolveMarketplace_serves [of v m' p r "mdist_PublicKey m" P did rid] ok' s' db(3) later uuids r(2)
  show ?thesis by (auto simp: public_key_ok_def uuid_text_def)
qed

theorem rollback_restores_the_revision_witness:
  "\<exists>g. ResolveMarketplace demo_publisher ''m-7778797a'' (snd (Rollback demo_publisher ''2'' ''3'' mart_two)\<lparr>w_faults := []\<rparr>) =
     (Inr g, snd (Rollback demo_publisher ''2'' ''3'' mart_two)\<lparr>w_faults := []\<rparr>) \<and> mg_ContentJSON g = ''one''"
proof -
  have run: "Rollback demo_publisher ''2'' ''3'' mart_two = (Inr (), snd (Rollback demo_publisher ''2'' ''3'' mart_two))"
    using mart_two_value by (metis prod.collapse)
  have "pure_publisher demo_publisher" using demo_publisher_honest by (simp add: honest_publisher_def)
  have "\<exists>key. ResolveMarketplace demo_publisher (mdist_PublicKey mart_distribution)
      (snd (Rollback demo_publisher ''2'' ''3'' mart_two)\<lparr>w_faults := []\<rparr>) =
    (Inr \<lparr>mg_DistributionID = ''2'', mg_PublicKey = mdist_PublicKey mart_distribution, mg_RevisionID = ''3'',
          mg_Projection = (Some ArtifactKindMarketplace, key), mg_ContentJSON = rev_ContentJSON (mart_revision ''3'' 1 ''one''),
          mg_ContentDigest = rev_ContentDigest (mart_revision ''3'' 1 ''one'')\<rparr>, snd (Rollback demo_publisher ''2'' ''3'' mart_two)\<lparr>w_faults := []\<rparr>)"
    by (rule rollback_restores_the_revision [OF \<open>pure_publisher demo_publisher\<close> _ _ run])
      (simp_all add: mart_two_ok, simp_all add: mart_two_def mart_distribution_def mart_revision_def uuid_text_def demo_publisher_def)
  then show ?thesis by (auto simp: mart_distribution_def mart_revision_def)
qed

text \<open>C7. A publication that fails, for whatever reason and at whatever statement, leaves every table
  as it was, except that a distribution that shows nothing may have been named; what is served is
  the same as before.
\<close>

theorem failed_publication_serves_the_same:
  assumes "pure_publisher P" "PublicationService_Publish P cmd w = (Inl e, w')"
  shows "only_named (cmd_TemplateID cmd) (w_db w) (w_db w') \<and> (\<forall>m p r. serves (w_db w') m p r = serves (w_db w) m p r)"
proof -
  have "only_named (cmd_TemplateID cmd) (w_db w) (w_db w')"
    using names_only_Publish [OF assms(1)] assms(2) by (auto simp: names_only_def)
  moreover from this have "serves (w_db w') m p r = serves (w_db w) m p r" for m p r
    by (auto simp: only_named_def serves_def)
  ultimately show ?thesis by blast
qed

text \<open>Every statement fails.\<close>

theorem failed_publication_serves_the_same_witness:
  "only_named ''t1'' (w_db mart_two) (w_db (snd (PublicationService_Publish demo_publisher (mart_command ''1'') (mart_two\<lparr>w_faults := [True]\<rparr>))))"
proof -
  obtain e w' where run: "PublicationService_Publish demo_publisher (mart_command ''1'') (mart_two\<lparr>w_faults := [True]\<rparr>) = (Inl e, w')"
    using mart_failing_value by (cases "PublicationService_Publish demo_publisher (mart_command ''1'') (mart_two\<lparr>w_faults := [True]\<rparr>)") (auto simp: isl_def)
  have "pure_publisher demo_publisher" using demo_publisher_honest by (simp add: honest_publisher_def)
  from failed_publication_serves_the_same [OF this run] have "only_named (cmd_TemplateID (mart_command ''1'')) (w_db mart_two) (w_db w')" by simp
  then show ?thesis unfolding run snd_conv by (simp add: mart_command_def)
qed

text \<open>C5. No version is published twice for a template: after a successful publication, and after whatever the
  server has done since, a publication that names one of its versions for the same template fails,
  because the artifact of the version would be stored under a key that is taken.
\<close>

theorem no_version_is_published_twice:
  assumes honest: "honest_publisher P" and ok: "plugin_ok (w_db w)"
    and run: "PublicationService_Publish P cmd w = (Inr res, w')"
    and later: "server_step\<^sup>*\<^sup>* w' v" and same: "cmd_TemplateID cmd' = cmd_TemplateID cmd"
    and shared: "ver \<in> set (versions (w_db w))" "ver_ID ver \<in> set (cmd_PluginVersionIDs cmd)" "ver_ID ver \<in> set (cmd_PluginVersionIDs cmd')"
    and plugin: "uuid_text P (ver_PluginID ver)"
  shows "\<exists>e v'. PublicationService_Publish P cmd' v = (Inl e, v')"
proof -
  have pure: "pure_publisher P" using honest by (simp add: honest_publisher_def)
  have "server_step w w'" using market_publish [OF honest, of w cmd] run by (simp add: server_step_def)
  then have "plugin_ok (w_db v)" using plugin_ok_server_steps [OF later] plugin_ok_server_step ok by blast
  then have keys: "publication_keys (w_db w)" "publication_keys (w_db v)" using ok by (simp_all add: publication_keys_plugin_ok)
  have again: "keeps_published (w_db w') (w_db v)" by (rule server_steps_keep_published [OF later])
  obtain q where q: "found_distribution (w_db w') (cmd_TemplateID cmd) (ver_PluginID ver) (ver_Tag ver) = Some q"
    "pdist_StorageKey q \<in> art_StorageKey ` set (artifacts (w_db w'))"
    by (rule published_version_distributed [OF pure keys(1) run shared(1,2) plugin])
  have "ver \<in> set (versions (w_db w'))" using catalogue_kept [OF pure run] shared(1) by simp
  then obtain u where u: "u \<in> set (versions (w_db v))" "ver_ID u = ver_ID ver" "ver_PluginID u = ver_PluginID ver" "ver_Tag u = ver_Tag ver"
    by (rule keeps_published_version [OF again])
  have found: "found_distribution (w_db v) (cmd_TemplateID cmd) (ver_PluginID ver) (ver_Tag ver) = Some q"
    by (rule keeps_published_distribution [OF again q(1)])
  have stored: "pdist_StorageKey q \<in> art_StorageKey ` set (artifacts (w_db v))"
    using q(2) again by (auto simp: keeps_published_def)
  have "PublicationService_Publish P cmd' v \<noteq> (Inr res', v')" for res' v'
    by (rule distributed_version_fails [OF pure keys(2), where v = u and pid = "ver_PluginID ver" and q = q])
      (use u found stored shared plugin same in \<open>simp_all add: uuid_text_def\<close>)
  then show ?thesis by (metis surj_pair sum.exhaust)
qed

lemma mart_plugin_ok: "plugin_ok (w_db mart)"
  by code_simp

text \<open>Even after the other version has been published\<close>

theorem no_version_is_published_twice_witness:
  "\<exists>e v'. PublicationService_Publish demo_publisher (mart_command ''1'')
     (snd (PublicationService_Publish demo_publisher (mart_command ''2'') (snd mart_first))) = (Inl e, v')"
proof -
  obtain res where run: "PublicationService_Publish demo_publisher (mart_command ''1'') mart = (Inr res, snd mart_first)"
    by (rule mart_first_result)
  have next_one: "server_step\<^sup>*\<^sup>* (snd mart_first) (snd (PublicationService_Publish demo_publisher (mart_command ''2'') (snd mart_first)))"
    using market_publish [OF demo_publisher_honest] by (simp add: server_step_def r_into_rtranclp)
  show ?thesis
    by (rule no_version_is_published_twice [OF demo_publisher_honest mart_plugin_ok run next_one, where ver = "mart_version ''1'' ''v1''"])
      (simp_all add: uuid_text_def demo_publisher_def mart_def mart_command_def mart_version_def)
qed

text \<open>C8. In every continuation of the server, whatever its three domains do, a distribution that shows
  something shows the revision its template has published: the pointer of the distribution, the
  projection, the revision and the pointer of the template agree, and so do the digests.\<close>

theorem marketplaces_show_what_is_published:
  assumes ok: "market_ok (w_db w)" and steps: "server_step\<^sup>*\<^sup>* w w'"
    and m: "m \<in> set (marketplace_distributions (w_db w'))" "mdist_CurrentProjectionID m = Some pid"
  shows "\<exists>p \<in> set (distribution_projections (w_db w')). \<exists>r \<in> set (marketplace_revisions (w_db w')). \<exists>t \<in> set (marketplace_templates (w_db w')).
    proj_ID p = pid \<and> proj_MarketplaceDistributionID p = mdist_ID m \<and> proj_RevisionID p = rev_ID r \<and>
    rev_TemplateID r = mdist_TemplateID m \<and> tmpl_ID t = mdist_TemplateID m \<and> tmpl_PublishedRevisionID t = Some (rev_ID r) \<and>
    proj_ContentDigest p = rev_ContentDigest r \<and> rev_ContentDigest r \<noteq> []"
proof -
  have "market_ok (w_db w')" by (rule market_ok_server_steps [OF steps ok])
  then have keys: "distinct (map mdist_ID (marketplace_distributions (w_db w')))"
    and showing: "\<forall>p \<in> set (distribution_projections (w_db w')). shows_revision (marketplace_revisions (w_db w')) (marketplace_distributions (w_db w')) p"
    and agree: "pointers_agree (marketplace_templates (w_db w')) (distribution_projections (w_db w')) m"
    using m(1) by (simp_all add: market_ok_def market_tables_def)
  from agree m(2) obtain p t where p: "p \<in> set (distribution_projections (w_db w'))" "proj_ID p = pid" "proj_MarketplaceDistributionID p = mdist_ID m"
    and t: "t \<in> set (marketplace_templates (w_db w'))" "tmpl_ID t = mdist_TemplateID m" "tmpl_PublishedRevisionID t = Some (proj_RevisionID p)"
    by (auto simp: pointers_agree_def)
  from showing p(1) obtain n r where n: "n \<in> set (marketplace_distributions (w_db w'))" "mdist_ID n = proj_MarketplaceDistributionID p"
    and r: "r \<in> set (marketplace_revisions (w_db w'))" "rev_ID r = proj_RevisionID p" "rev_TemplateID r = mdist_TemplateID n"
      "proj_ContentDigest p = rev_ContentDigest r" "proj_ContentDigest p \<noteq> []"
    by (auto simp: shows_revision_def)
  have "n = m" by (rule distinct_map_same [OF keys n(1) m(1)]) (simp add: n p)
  with p t r show ?thesis by (intro bexI [OF _ p(1)] bexI [OF _ r(1)] bexI [OF _ t(1)]) simp
qed

theorem marketplaces_show_what_is_published_witness:
  "\<exists>p \<in> set (distribution_projections (w_db (snd mart_first))). proj_ID p = ''4'' \<and> proj_MarketplaceDistributionID p = ''2''"
proof -
  have step: "server_step mart (snd mart_first)"
    unfolding server_step_def mart_first_def by (simp add: market_publish demo_publisher_honest)
  have "map (\<lambda>m. (mdist_ID m, mdist_CurrentProjectionID m)) (marketplace_distributions (w_db (snd mart_first))) = [(''2'', Some ''4'')]"
    using mart_first_value by (rule conjunct2)
  then obtain m where m: "m \<in> set (marketplace_distributions (w_db (snd mart_first)))" "mdist_CurrentProjectionID m = Some ''4''" "mdist_ID m = ''2''"
    by (cases "marketplace_distributions (w_db (snd mart_first))") auto
  from marketplaces_show_what_is_published [OF mart_ok r_into_rtranclp [of server_step, OF step] m(1,2)] m(3) show ?thesis by auto
qed

text \<open>C17. A name gives a public key exactly when it has an ASCII letter or digit; the key is a kebab-case
  name followed by the random suffix, fits the bound of its column however long the name is, and is
  accepted by the parser as it is.\<close>

theorem generated_keys_are_canonical:
  assumes "length random = 4"
  shows "if \<forall>c \<in> set name. \<not> alnum c then \<exists>e. newMarketplacePublicKey name (Inr random) = Inl e
    else \<exists>prefix. slug_language prefix \<and> newMarketplacePublicKey name (Inr random) = Inr (prefix @ ''-'' @ hex_EncodeToString random) \<and>
      length (prefix @ ''-'' @ hex_EncodeToString random) \<le> 128 \<and>
      ParseMarketplacePublicKey (prefix @ ''-'' @ hex_EncodeToString random) = Inr (prefix @ ''-'' @ hex_EncodeToString random)"
proof (cases "normalizeMarketplaceName name = []")
  case True
  then show ?thesis by (simp add: newMarketplacePublicKey_def normalizeMarketplaceName_def normalize_from_empty)
next
  case False
  let ?n = "normalizeMarketplaceName name" and ?suffix = "hex_EncodeToString random"
  define prefix where "prefix = (if length ?n > 119 then trim_dashes (take 119 ?n) else ?n)"
  have max: "marketplacePublicKeyNameMaxLen = 119" "MarketplacePublicKeyMaxLength = 128"
    by (simp_all add: marketplacePublicKeyNameMaxLen_def MarketplacePublicKeyMaxLength_def marketplacePublicKeySuffixSize_def)
  have "slug_language ?n" using False normalize_from_language [of "[]" False name] by (simp add: normalizeMarketplaceName_def)
  then have prefix: "slug_language prefix" "length prefix \<le> 119"
    using trim_dashes_take [of ?n 119] by (auto simp: prefix_def)
  have suffix: "length ?suffix = 8" "list_all hex_digit ?suffix"
    using assms by (simp_all add: length_hex_EncodeToString hex_EncodeToString_digits)
  have "MatchString marketplacePublicKeyPattern (prefix @ ''-'' @ ?suffix)"
    unfolding public_key_lang using prefix suffix by blast
  then have parse: "ParseMarketplacePublicKey (prefix @ ''-'' @ ?suffix) = Inr (prefix @ ''-'' @ ?suffix)"
    using prefix suffix by (simp add: ParseMarketplacePublicKey_def max)
  have "newMarketplacePublicKey name (Inr random) = ParseMarketplacePublicKey (prefix @ ''-'' @ ?suffix)"
    using False by (simp add: newMarketplacePublicKey_def max prefix_def Let_def)
  moreover have "\<not> (\<forall>c \<in> set name. \<not> alnum c)" using False by (simp add: normalizeMarketplaceName_def normalize_from_empty)
  ultimately show ?thesis using parse prefix suffix by auto
qed

theorem generated_keys_are_canonical_witness:
  "\<exists>prefix. newMarketplacePublicKey ''My Shop'' (Inr ''wxyz'') = Inr (prefix @ ''-'' @ hex_EncodeToString ''wxyz'')"
proof -
  have "alnum CHR ''M''" by code_simp
  then have "\<not> (\<forall>c \<in> set ''My Shop''. \<not> alnum c)" by simp
  with generated_keys_are_canonical [of "''wxyz''" "''My Shop''"] show ?thesis by auto
qed

end
