(* ===== verification/UserMarketplace.thy ===== *)
theory UserMarketplace imports PluginService MarketplaceJson GoUrl MarketplaceKey begin

text \<open>
  \<open>user_marketplace_service.go\<close> and \<open>gorm_user_marketplace_repository.go\<close>: the marketplace of a user
  lists, for every Plugin of the personal namespace that the user may read, its greatest released
  version. Plugins of other namespaces and default versions are not looked at. SHA-256, the comparison of versions by \<open>Masterminds/semver\<close> and the order in which a range
  over a map visits it are parameters.
\<close>

abbreviation ErrUserMarketplaceNotFound :: err where
  "ErrUserMarketplaceNotFound \<equiv> DistributionError UserMarketplaceNotFoundE"

section \<open>Candidates\<close>

record user_candidate =
  cand_NamespaceID :: string
  cand_NamespaceSlug :: string
  cand_PluginID :: string
  cand_PluginSlug :: string
  cand_PluginDescription :: string
  cand_PluginStatus :: plugin_status
  cand_RepositoryID :: string
  cand_RepositorySlug :: string
  cand_RepositoryStatus :: repository_status
  cand_VersionID :: string
  cand_Version :: string
  cand_VersionStatus :: version_status
  cand_TagName :: string
  cand_CommitSHA :: string

record user_marketplace =
  um_UserID :: string
  um_Username :: string
  um_DisplayName :: string
  um_Status :: user_status
  um_NamespaceID :: string
  um_NamespaceSlug :: string
  um_Candidates :: "user_candidate list"

definition candidate_rows :: "db \<Rightarrow> string \<Rightarrow> user_candidate list" where
  "candidate_rows d namespaceID =
     [\<lparr>cand_NamespaceID = plg_NamespaceID p, cand_NamespaceSlug = ns_Slug n, cand_PluginID = plg_ID p, cand_PluginSlug = plg_Slug p,
       cand_PluginDescription = plg_Description p, cand_PluginStatus = plg_Status p, cand_RepositoryID = repo_ID r,
       cand_RepositorySlug = plg_Slug p, cand_RepositoryStatus = repo_Status r, cand_VersionID = ver_ID v,
       cand_Version = ver_Tag v, cand_VersionStatus = ver_Status v, cand_TagName = ver_Tag v,
       cand_CommitSHA = (case ver_CommitSHA v of None \<Rightarrow> [] | Some c \<Rightarrow> c)\<rparr>.
        p \<leftarrow> plugins d, n \<leftarrow> namespaces d, r \<leftarrow> repositories d, v \<leftarrow> versions d,
        ns_ID n = plg_NamespaceID p \<and> repo_ID r = plg_ID p \<and> ver_PluginID v = plg_ID p \<and>
        plg_NamespaceID p = namespaceID \<and> ver_Status v = VersionStatusAvailable]"

definition FindUserMarketplace :: "string \<Rightarrow> user_marketplace prog" where
  "FindUserMarketplace username =
     transaction
       (bindE (map_error (\<lambda>e. if errors_Is e ErrRecordNotFound then ErrUserMarketplaceNotFound else Wrapped ''find marketplace user'' e)
          (take_row (\<lambda>d. List.find (\<lambda>u. user_Username u = username) (users d)))) (\<lambda>u.
        bindE (map_error (\<lambda>e. if errors_Is e ErrRecordNotFound then ErrUserMarketplaceNotFound else Wrapped ''find user marketplace namespace'' e)
          (take_row (\<lambda>d. List.find (\<lambda>n. ns_Kind n = NamespaceKindUser \<and> ns_OwnerUserID n = Some (user_ID u)) (namespaces d)))) (\<lambda>n.
        bindE (map_error (Wrapped ''find user marketplace plugins'') (query (\<lambda>d. candidate_rows d (ns_ID n)))) (\<lambda>candidates.
        return \<lparr>um_UserID = user_ID u, um_Username = user_Username u, um_DisplayName = user_DisplayName u, um_Status = user_Status u,
                um_NamespaceID = ns_ID n, um_NamespaceSlug = ns_Slug n, um_Candidates = candidates\<rparr>))))"

section \<open>Versions\<close>

text \<open>
  A version is determined by the text it is parsed from, which is what \<open>Original\<close> returns; the library
  parses it, formats it and compares two.
\<close>

record semver =
  sv_NewVersion :: "string \<Rightarrow> bool"
  sv_Prerelease :: "string \<Rightarrow> string"
  sv_String :: "string \<Rightarrow> string"
  sv_GreaterThan :: "string \<Rightarrow> string \<Rightarrow> bool"

record user_version =
  uv_namespaceID :: string
  uv_pluginID :: string
  uv_repositoryID :: string
  uv_name :: string
  uv_description :: string
  uv_url :: string
  uv_tag :: string
  uv_sha :: string
  uv_version :: string

definition userMarketplaceRef :: regex where "userMarketplaceRef = tagNamePattern"

definition userMarketplaceSlug :: regex where "userMarketplaceSlug = slugPattern"

definition user_validSlug :: "string \<Rightarrow> bool" where
  "user_validSlug v \<longleftrightarrow> MatchString userMarketplaceSlug v"

definition validRef :: "string \<Rightarrow> bool" where
  "validRef v \<longleftrightarrow> MatchString userMarketplaceRef v \<and> \<not> strings_Contains v ''..'' \<and> \<not> strings_Contains v [CHR ''@'', CHR 0x7B] \<and>
     \<not> suffix ''.'' v \<and> \<not> suffix ''/'' v"

definition availableCandidateStatus :: "version_status \<Rightarrow> bool" where
  "availableCandidateStatus s \<longleftrightarrow> s = VersionStatusAvailable \<or> s = VersionStatusOther ''published''"

definition candidatePluginReadable :: "plugin_status \<Rightarrow> bool" where
  "candidatePluginReadable s \<longleftrightarrow> s = PluginStatusActive \<or> s = PluginStatusArchived"

definition candidate_ok :: "user_candidate \<Rightarrow> bool" where
  "candidate_ok c \<longleftrightarrow>
     candidatePluginReadable (cand_PluginStatus c) \<and>
     (cand_RepositoryStatus c = RepositoryReady \<or> cand_RepositoryStatus c = RepositoryReadOnly) \<and>
     availableCandidateStatus (cand_VersionStatus c) \<and>
     cand_NamespaceID c \<noteq> [] \<and> user_validSlug (cand_NamespaceSlug c) \<and> cand_PluginID c \<noteq> [] \<and> cand_RepositoryID c \<noteq> [] \<and>
     user_validSlug (cand_PluginSlug c) \<and> user_validSlug (cand_RepositorySlug c) \<and> validRef (cand_TagName c) \<and>
     commit_sha (cand_CommitSHA c)"

definition candidateVersion :: "semver \<Rightarrow> user_candidate \<Rightarrow> string \<Rightarrow> user_version option" where
  "candidateVersion S c origin =
     (let v = strings_TrimPrefix (cand_Version c) ''v'' in
      if \<not> candidate_ok c \<or> \<not> sv_NewVersion S v \<or> sv_Prerelease S v \<noteq> [] \<or> v \<noteq> sv_String S v then None
      else Some \<lparr>uv_namespaceID = cand_NamespaceID c, uv_pluginID = cand_PluginID c, uv_repositoryID = cand_RepositoryID c,
                 uv_name = cand_NamespaceSlug c @ ''-'' @ cand_PluginSlug c, uv_description = cand_PluginDescription c,
                 uv_url = origin @ ''/git/'' @ cand_NamespaceSlug c @ ''/'' @ cand_RepositorySlug c @ ''.git'',
                 uv_tag = cand_TagName c, uv_sha = cand_CommitSHA c, uv_version = v\<rparr>)"

section \<open>The origin\<close>

definition valid_label :: "string \<Rightarrow> bool" where
  "valid_label l \<longleftrightarrow> l \<noteq> [] \<and> length l \<le> 63 \<and> hd l \<noteq> CHR ''-'' \<and> last l \<noteq> CHR ''-'' \<and>
     list_all (\<lambda>c. ascii_letter c \<or> ascii_digit c \<or> c = CHR ''-'') l"

definition validOriginHostname :: "string \<Rightarrow> bool" where
  "validOriginHostname host \<longleftrightarrow>
     ParseIP_ok host \<or>
     host \<noteq> [] \<and> length host \<le> 253 \<and> \<not> suffix ''.'' host \<and> list_all valid_label (strings_Split CHR ''.'' host)"

text \<open>The value of a port is computed in 64 bits and may wrap around.\<close>

fun port_value :: "64 word \<Rightarrow> string \<Rightarrow> 64 word option" where
  "port_value acc [] = Some acc"
| "port_value acc (c # cs) =
     (if ascii_digit c then port_value (acc * 10 + word_of_nat (byte c - 48)) cs else None)"

definition validateUserMarketplaceOrigin :: "string \<Rightarrow> err option" where
  "validateUserMarketplaceOrigin origin =
     (case url_Parse origin of
        None \<Rightarrow> Some (ErrNew ''invalid origin'')
      | Some u \<Rightarrow>
          if \<not> origin_url u then Some (ErrNew ''invalid origin'')
          else
            (case splitHostPort (url_Host u) of (host, port) \<Rightarrow>
               if host = [] \<or> \<not> validOriginHostname host then Some (ErrNew ''invalid origin'')
               else if port = [] then None
               else (case port_value 0 port of
                       None \<Rightarrow> Some (ErrNew ''invalid origin'')
                     | Some v \<Rightarrow> if sint v < 1 \<or> 65535 < sint v then Some (ErrNew ''invalid origin'') else None)))"

section \<open>Rendering\<close>

record renderer =
  rnd_semver :: semver
  rnd_SHA256 :: "string \<Rightarrow> string"
  rnd_range :: "(string \<times> user_version) list \<Rightarrow> (string \<times> user_version) list"

record user_marketplace_result =
  umr_ContentJSON :: string
  umr_ETag :: string

text \<open>The map \<open>best\<close> from Plugins to their greatest version so far\<close>

fun put_best :: "semver \<Rightarrow> user_version \<Rightarrow> (string \<times> user_version) list \<Rightarrow> (string \<times> user_version) list" where
  "put_best S v [] = [(uv_pluginID v, v)]"
| "put_best S v ((k, u) # best) =
     (if k = uv_pluginID v then (k, if sv_GreaterThan S (uv_version v) (uv_version u) then v else u) # best
      else (k, u) # put_best S v best)"

primrec best_versions :: "semver \<Rightarrow> string \<Rightarrow> user_candidate list \<Rightarrow> (string \<times> user_version) list \<Rightarrow> (string \<times> user_version) list" where
  "best_versions S origin [] best = best"
| "best_versions S origin (c # cs) best =
     (case candidateVersion S c origin of
        None \<Rightarrow> best_versions S origin cs best
      | Some v \<Rightarrow> best_versions S origin cs (put_best S v best))"

definition listed_version :: "user_version \<Rightarrow> market_plugin" where
  "listed_version v =
     \<lparr>mp_Name = uv_name v,
      mp_Source = \<lparr>src_Source = URLSourceType, src_URL = uv_url v, src_Ref = uv_tag v, src_SHA = uv_sha v\<rparr>,
      mp_Description = uv_description v, mp_Version = []\<rparr>"

primrec readable_plugins :: "principal \<Rightarrow> user_version list \<Rightarrow> market_plugin list prog" where
  "readable_plugins p [] = return []"
| "readable_plugins p (v # vs) =
     attempt (authorize p ActionPluginRead \<lparr>ref_type = ResourcePlugin, ref_id = uv_pluginID v, ref_namespace_id = uv_namespaceID v\<rparr>)
       (\<lambda>res. case res of
          Inl _ \<Rightarrow> readable_plugins p vs
        | Inr _ \<Rightarrow> bindE (readable_plugins p vs) (\<lambda>ps. return (listed_version v # ps)))"

definition user_plugins :: "renderer \<Rightarrow> principal \<Rightarrow> string \<Rightarrow> user_marketplace \<Rightarrow> market_plugin list prog" where
  "user_plugins R p origin m =
     bindE (readable_plugins p (map snd (rnd_range R (best_versions (rnd_semver R) origin (um_Candidates m) []))))
       (\<lambda>ps. return (sort_key mp_Name ps))"

definition usable_marketplace :: "principal \<Rightarrow> string \<Rightarrow> user_marketplace \<Rightarrow> bool" where
  "usable_marketplace p username m \<longleftrightarrow>
     um_Username m = username \<and> um_UserID m = p_user_id p \<and> um_Status m = UserStatusActive \<and>
     user_validSlug (um_NamespaceSlug m) \<and> um_NamespaceID m \<noteq> []"

definition user_document :: "string \<Rightarrow> user_marketplace \<Rightarrow> market_plugin list \<Rightarrow> marketplace" where
  "user_document username m ps =
     \<lparr>mkt_Name = username,
      mkt_Owner = \<lparr>own_Name = (if strings_TrimSpace (um_DisplayName m) = [] then username else um_DisplayName m), own_Email = [], own_URL = []\<rparr>,
      mkt_Plugins = Some ps, mkt_Description = [], mkt_Version = []\<rparr>"

definition render_marketplace :: "renderer \<Rightarrow> principal \<Rightarrow> string \<Rightarrow> string \<Rightarrow> user_marketplace \<Rightarrow> user_marketplace_result prog" where
  "render_marketplace R p username origin m =
     (case validateUserMarketplaceOrigin origin of
        Some e \<Rightarrow> fail (Wrapped ''render user marketplace'' e)
      | None \<Rightarrow>
          bindE (user_plugins R p origin m) (\<lambda>ps.
          case marketplace_Marshal (user_document username m ps) of
            Inl e \<Rightarrow> fail (Wrapped ''render user marketplace'' e)
          | Inr content \<Rightarrow>
              return \<lparr>umr_ContentJSON = content, umr_ETag = [CHR 0x22] @ hex_EncodeToString (rnd_SHA256 R content) @ [CHR 0x22]\<rparr>))"

definition Render :: "renderer \<Rightarrow> principal \<Rightarrow> string \<Rightarrow> string \<Rightarrow> user_marketplace_result prog" where
  "Render R p username origin =
     (if \<not> user_validSlug username \<or> \<not> IsUser p \<or> p_username p \<noteq> username then fail ErrUserMarketplaceNotFound
      else
        attempt (authorize p ActionMarketplaceRead \<lparr>ref_type = ResourceUser, ref_id = p_user_id p, ref_namespace_id = []\<rparr>) (\<lambda>res. case res of
          Inl _ \<Rightarrow> fail ErrUserMarketplaceNotFound
        | Inr _ \<Rightarrow>
            attempt (FindUserMarketplace username) (\<lambda>res. case res of
              Inl _ \<Rightarrow> fail ErrUserMarketplaceNotFound
            | Inr m \<Rightarrow> if usable_marketplace p username m then render_marketplace R p username origin m
                       else fail ErrUserMarketplaceNotFound)))"

end
