(* ===== verification/UserMarketplaceProps.thy ===== *)
theory UserMarketplaceProps imports UserMarketplace PolicyFacts begin

text \<open>
  What the marketplace of a user lists: for every Plugin of the personal namespace with a released
  version that can be delivered, one of its greatest versions, if the policy lets the user read the Plugin. The order in
  which candidates and the map are visited does not matter.
\<close>

section \<open>Programs that leave a world without faults as it is\<close>

named_theorems quiet_intros

definition quiet :: "'a prog \<Rightarrow> bool" where
  "quiet m \<longleftrightarrow> (\<forall>w. w_faults w = [] \<longrightarrow> snd (m w) = w)"

lemma quietD: "quiet m \<Longrightarrow> w_faults w = [] \<Longrightarrow> m w = (fst (m w), w)"
  by (metis quiet_def prod.collapse)

lemma calm_world: "w_faults w = [] \<Longrightarrow> w\<lparr>w_faults := []\<rparr> = w"
  by (cases w) simp

lemma quiet_return [quiet_intros]: "quiet (return x)" and quiet_fail [quiet_intros]: "quiet (fail e)"
  by (simp_all add: quiet_def return_def fail_def)

lemma quiet_statement: "(\<And>d. snd (f d) = d) \<Longrightarrow> quiet (statement f)"
  unfolding quiet_def statement_def
proof (intro allI impI)
  fix w :: world assume db: "\<And>d. snd (f d) = d" and w: "w_faults w = []"
  obtain r d where f: "f (w_db w) = (r, d)" by (cases "f (w_db w)")
  with db [of "w_db w"] have "d = w_db w" by simp
  with f w show "snd (if next_fault (w_faults w) then (Inl driver_failure, w\<lparr>w_faults := tl (w_faults w)\<rparr>)
      else case f (w_db w) of (r, d) \<Rightarrow> (r, w\<lparr>w_db := d, w_faults := tl (w_faults w)\<rparr>)) = w"
    by simp
qed

lemma quiet_query [quiet_intros]: "quiet (query f)" and quiet_take_row [quiet_intros]: "quiet (take_row g)"
  unfolding query_def take_row_def by (rule quiet_statement; simp split: option.splits)+

lemma quiet_bindE [quiet_intros]: "quiet m \<Longrightarrow> (\<And>x. quiet (f x)) \<Longrightarrow> quiet (bindE m f)"
  by (force simp: quiet_def bindE_def split: prod.splits sum.splits)

lemma quiet_attempt [quiet_intros]: "quiet m \<Longrightarrow> (\<And>x. quiet (f x)) \<Longrightarrow> quiet (attempt m f)"
  by (force simp: quiet_def attempt_def split: prod.splits sum.splits)

lemma quiet_map_error [quiet_intros]: "quiet m \<Longrightarrow> quiet (map_error h m)"
  by (force simp: quiet_def map_error_def split: prod.splits sum.splits)

lemma quiet_if [quiet_intros]: "quiet m \<Longrightarrow> quiet n \<Longrightarrow> quiet (if b then m else n)"
  by simp

lemma quiet_case_sum [quiet_intros]: "(\<And>x. quiet (f x)) \<Longrightarrow> (\<And>x. quiet (g x)) \<Longrightarrow> quiet (case s of Inl x \<Rightarrow> f x | Inr x \<Rightarrow> g x)"
  by (simp split: sum.splits)

lemma quiet_transaction [quiet_intros]: "quiet m \<Longrightarrow> quiet (transaction m)"
proof -
  assume m: "quiet m"
  have "snd (transaction m w) = w" if w: "w_faults w = []" for w
    using quietD [OF m w] w
    by (cases "fst (m w)") (auto simp: transaction_def exec_def statement_def calm_world split: prod.splits)
  then show ?thesis by (simp add: quiet_def)
qed

lemma quiet_authorize [quiet_intros]: "quiet (authorize p a r)"
proof -
  have state: "quiet (resourceState r)"
    unfolding resourceState_def pluginState_def personalNamespaceID_def
    by (cases "ref_type r"; simp only: resource_type.case; intro quiet_intros)
  have "quiet (ReadAuthorizationState p r)"
    unfolding ReadAuthorizationState_def Let_def FindUserByID_def IsSystemAdmin_def owns_namespace_def role_in_def
    by (intro quiet_intros state)
  then show ?thesis
    unfolding authorize_def Authorize_def option.case by (intro quiet_intros)
qed

section \<open>The greatest versions\<close>

definition candidate_versions :: "semver \<Rightarrow> string \<Rightarrow> user_candidate list \<Rightarrow> user_version list" where
  "candidate_versions S origin cs = List.map_filter (\<lambda>c. candidateVersion S c origin) cs"

text \<open>\<open>GreaterThan\<close> is a strict order.\<close>

definition strict_order :: "semver \<Rightarrow> bool" where
  "strict_order S \<longleftrightarrow> (\<forall>a. \<not> sv_GreaterThan S a a) \<and> (\<forall>a b c. sv_GreaterThan S a b \<longrightarrow> sv_GreaterThan S b c \<longrightarrow> sv_GreaterThan S a c)"

definition newest :: "semver \<Rightarrow> user_version list \<Rightarrow> user_version \<Rightarrow> bool" where
  "newest S vs u \<longleftrightarrow> u \<in> set vs \<and> (\<forall>v \<in> set vs. uv_pluginID v = uv_pluginID u \<longrightarrow> \<not> sv_GreaterThan S (uv_version v) (uv_version u))"

text \<open>The map has a newest version of every Plugin seen.\<close>

definition best_of :: "semver \<Rightarrow> user_version list \<Rightarrow> (string \<times> user_version) list \<Rightarrow> bool" where
  "best_of S vs best \<longleftrightarrow> distinct (map fst best) \<and> (\<forall>(k, u) \<in> set best. k = uv_pluginID u \<and> newest S vs u) \<and> fst ` set best = uv_pluginID ` set vs"

lemma best_versions_fold: "best_versions S origin cs best = fold (put_best S) (candidate_versions S origin cs) best"
  by (induction cs arbitrary: best) (simp_all add: candidate_versions_def List.map_filter_def split: option.splits)

lemma keys_put_best: "fst ` set (put_best S v best) = insert (uv_pluginID v) (fst ` set best)"
  by (induction S v best rule: put_best.induct) auto

lemma distinct_put_best: "distinct (map fst best) \<Longrightarrow> distinct (map fst (put_best S v best))"
proof (induction S v best rule: put_best.induct)
  case (2 S v k u best)
  have "k \<notin> fst ` set (put_best S v best)" if "k \<noteq> uv_pluginID v"
    using that 2(2) by (simp add: keys_put_best)
  with 2 show ?case by auto
qed simp

lemma put_best_entry:
  "(k, u) \<in> set (put_best S v best) \<Longrightarrow> distinct (map fst best) \<Longrightarrow>
     k \<noteq> uv_pluginID v \<and> (k, u) \<in> set best \<or>
     k = uv_pluginID v \<and> (u = v \<and> (\<forall>x. (k, x) \<in> set best \<longrightarrow> sv_GreaterThan S (uv_version v) (uv_version x)) \<or>
       (k, u) \<in> set best \<and> \<not> sv_GreaterThan S (uv_version v) (uv_version u))"
proof (induction S v best rule: put_best.induct)
  case (2 S v l x best)
  then show ?case by (auto split: if_splits dest: in_set_zipE intro: rev_image_eqI)
qed auto

lemma best_of_put:
  assumes order: "strict_order S" and best: "best_of S vs best"
  shows "best_of S (vs @ [v]) (put_best S v best)"
proof -
  have keys: "distinct (map fst best)" and entry: "\<And>k u. (k, u) \<in> set best \<Longrightarrow> k = uv_pluginID u \<and> newest S vs u"
    and all: "fst ` set best = uv_pluginID ` set vs" using best by (auto simp: best_of_def)
  have "k = uv_pluginID u \<and> newest S (vs @ [v]) u" if "(k, u) \<in> set (put_best S v best)" for k u
    using put_best_entry [OF that keys]
  proof (elim disjE conjE)
    assume "k \<noteq> uv_pluginID v" "(k, u) \<in> set best"
    with entry show ?thesis by (auto simp: newest_def)
  next
    assume k: "k = uv_pluginID v" and u: "u = v" and gt: "\<forall>x. (k, x) \<in> set best \<longrightarrow> sv_GreaterThan S (uv_version v) (uv_version x)"
    have "\<not> sv_GreaterThan S (uv_version x) (uv_version v)" if x: "x \<in> set vs" "uv_pluginID x = uv_pluginID v" for x
    proof
      assume up: "sv_GreaterThan S (uv_version x) (uv_version v)"
      from x k all obtain y where y: "(k, y) \<in> set best" by (metis imageE imageI prod.collapse)
      with gt up order have "sv_GreaterThan S (uv_version x) (uv_version y)" unfolding strict_order_def by blast
      with entry [OF y] x k show False by (auto simp: newest_def)
    qed
    with k u order show ?thesis by (auto simp: newest_def strict_order_def)
  next
    assume "k = uv_pluginID v" "(k, u) \<in> set best" "\<not> sv_GreaterThan S (uv_version v) (uv_version u)"
    with entry show ?thesis by (auto simp: newest_def)
  qed
  with distinct_put_best [OF keys, of S v] all show ?thesis by (auto simp: best_of_def keys_put_best)
qed

lemma best_of_versions:
  assumes "strict_order S"
  shows "best_of S (candidate_versions S origin cs) (best_versions S origin cs [])"
proof -
  have "best_of S (us @ vs) (fold (put_best S) vs best)" if "best_of S us best" for us vs best
    using that
  proof (induction vs arbitrary: us best)
    case (Cons v vs)
    from Cons.IH [OF best_of_put [OF assms Cons.prems]] show ?case by simp
  qed simp
  from this [of "[]" "[]"] show ?thesis by (simp add: best_versions_fold best_of_def)
qed

section \<open>The rendered marketplace\<close>

definition may_read :: "principal \<Rightarrow> world \<Rightarrow> user_version \<Rightarrow> bool" where
  "may_read p w v \<longleftrightarrow>
     fst (authorize p ActionPluginRead \<lparr>ref_type = ResourcePlugin, ref_id = uv_pluginID v, ref_namespace_id = uv_namespaceID v\<rparr> w) = Inr ()"

lemma readable_plugins_calm:
  assumes "w_faults w = []"
  shows "readable_plugins p vs w = (Inr (map listed_version (filter (may_read p w) vs)), w)"
proof (induction vs)
  case (Cons v vs)
  let ?m = "authorize p ActionPluginRead \<lparr>ref_type = ResourcePlugin, ref_id = uv_pluginID v, ref_namespace_id = uv_namespaceID v\<rparr>"
  have "?m w = (fst (?m w), w)" by (rule quietD [OF quiet_authorize assms])
  then obtain r where "?m w = (r, w)" by blast
  then show ?case
    using Cons.IH by (cases r) (simp_all add: attempt_def bindE_def return_def may_read_def)
qed (simp add: return_def)

lemma Render_Inr:
  assumes "Render R p username origin w = (Inr res, w')" "w_faults w = []"
  obtains m ps where "FindUserMarketplace username w = (Inr m, w)" "usable_marketplace p username m"
    "ps = sort_key mp_Name (map listed_version (filter (may_read p w) (map snd (rnd_range R (best_versions (rnd_semver R) origin (um_Candidates m) [])))))"
    "marketplace_Marshal (user_document username m ps) = Inr (umr_ContentJSON res)"
    "umr_ETag res = [CHR 0x22] @ hex_EncodeToString (rnd_SHA256 R (umr_ContentJSON res)) @ [CHR 0x22]" "w' = w"
proof -
  let ?a = "authorize p ActionMarketplaceRead \<lparr>ref_type = ResourceUser, ref_id = p_user_id p, ref_namespace_id = []\<rparr>"
  have find: "quiet (FindUserMarketplace username)"
    unfolding FindUserMarketplace_def by (intro quiet_intros)
  from quietD [OF quiet_authorize assms(2)] obtain r where a: "?a w = (r, w)" by blast
  from quietD [OF find assms(2)] obtain s where f: "FindUserMarketplace username w = (s, w)" by blast
  from assms(1) a f obtain m where m: "s = Inr m" "usable_marketplace p username m" and rest: "render_marketplace R p username origin m w = (Inr res, w')"
    by (auto simp: Render_def attempt_def fail_iff split: if_splits sum.splits)
  let ?ps = "sort_key mp_Name (map listed_version (filter (may_read p w) (map snd (rnd_range R (best_versions (rnd_semver R) origin (um_Candidates m) [])))))"
  have "user_plugins R p origin m w = (Inr ?ps, w)"
    using readable_plugins_calm [OF assms(2)] by (simp add: user_plugins_def bindE_def return_def)
  with rest have "marketplace_Marshal (user_document username m ?ps) = Inr (umr_ContentJSON res)"
    "umr_ETag res = [CHR 0x22] @ hex_EncodeToString (rnd_SHA256 R (umr_ContentJSON res)) @ [CHR 0x22]" "w' = w"
    by (auto simp: render_marketplace_def bindE_def return_def fail_def split: option.splits sum.splits)
  with that f m show ?thesis by blast
qed

lemma FindUserMarketplace_Inr:
  assumes "FindUserMarketplace username w = (Inr m, w')" "w_faults w = []"
  obtains u n where "u \<in> set (users (w_db w))" "user_Username u = username" "n \<in> set (namespaces (w_db w))"
    "ns_Kind n = NamespaceKindUser" "ns_OwnerUserID n = Some (user_ID u)" "um_Candidates m = candidate_rows (w_db w) (ns_ID n)"
proof -
  let ?user = "\<lambda>d. List.find (\<lambda>u. user_Username u = username) (users d)"
    and ?personal = "\<lambda>u d. List.find (\<lambda>n. ns_Kind n = NamespaceKindUser \<and> ns_OwnerUserID n = Some (user_ID u)) (namespaces d)"
  have "w\<lparr>w_db := w_db w, w_faults := []\<rparr> = w" using calm_world [OF assms(2)] by simp
  then have "?user (w_db w) \<noteq> None \<and> (\<forall>u. ?user (w_db w) = Some u \<longrightarrow>
      (\<exists>n. ?personal u (w_db w) = Some n \<and> um_Candidates m = candidate_rows (w_db w) (ns_ID n)))"
    using assms
    by (auto simp: FindUserMarketplace_def transaction_def bindE_def map_error_def exec_def take_row_def query_def statement_def return_def
        split: option.splits if_splits)
  then obtain u n where "?user (w_db w) = Some u" "?personal u (w_db w) = Some n" "um_Candidates m = candidate_rows (w_db w) (ns_ID n)"
    by auto
  with that show thesis by (auto simp: find_Some_iff in_set_conv_nth)
qed

text \<open>C12. The marketplace of a user is exactly this, whatever order the map of the greatest versions is visited in: of the versions
  in the personal namespace of the user (and in no other) that can be delivered and are released, every entry is a greatest one of its
  Plugin, and the policy lets the user read that Plugin; every Plugin of that namespace with such a version is listed if the
  user may read it; names are sorted and unique, and the entity tag is the digest of the text. The default version of a Plugin
  plays no part, and neither do the Plugins of other namespaces.\<close>

theorem user_marketplace_is_exact:
  assumes order: "strict_order (rnd_semver R)" and range: "\<And>xs. set (rnd_range R xs) = set xs" and calm: "w_faults w = []"
    and run: "Render R p username origin w = (Inr res, w')"
  shows "\<exists>m ps vs. FindUserMarketplace username w = (Inr m, w) \<and>
    (\<exists>u n. u \<in> set (users (w_db w)) \<and> user_Username u = username \<and>
       n \<in> set (namespaces (w_db w)) \<and> ns_Kind n = NamespaceKindUser \<and> ns_OwnerUserID n = Some (user_ID u) \<and>
       vs = candidate_versions (rnd_semver R) origin (candidate_rows (w_db w) (ns_ID n))) \<and>
    marketplace_Marshal (user_document username m ps) = Inr (umr_ContentJSON res) \<and>
    umr_ETag res = [CHR 0x22] @ hex_EncodeToString (rnd_SHA256 R (umr_ContentJSON res)) @ [CHR 0x22] \<and>
    sorted (map mp_Name ps) \<and> distinct (map mp_Name ps) \<and>
    set ps \<subseteq> listed_version ` {v. newest (rnd_semver R) vs v \<and> may_read p w v} \<and>
    (\<forall>v \<in> set vs. \<exists>u. newest (rnd_semver R) vs u \<and> uv_pluginID u = uv_pluginID v \<and> (may_read p w u \<longrightarrow> listed_version u \<in> set ps))"
proof -
  obtain m ps where m: "FindUserMarketplace username w = (Inr m, w)"
    and ps: "ps = sort_key mp_Name (map listed_version (filter (may_read p w) (map snd (rnd_range R (best_versions (rnd_semver R) origin (um_Candidates m) [])))))"
    and doc: "marketplace_Marshal (user_document username m ps) = Inr (umr_ContentJSON res)"
      "umr_ETag res = [CHR 0x22] @ hex_EncodeToString (rnd_SHA256 R (umr_ContentJSON res)) @ [CHR 0x22]"
    by (rule Render_Inr [OF run calm])
  let ?vs = "candidate_versions (rnd_semver R) origin (um_Candidates m)" and ?best = "best_versions (rnd_semver R) origin (um_Candidates m) []"
  have best: "best_of (rnd_semver R) ?vs ?best" by (rule best_of_versions [OF order])
  have "set (rnd_range R ?best) = set ?best" by (rule range)
  then have set_ps: "set ps = listed_version ` {v \<in> snd ` set ?best. may_read p w v}" by (auto simp: ps)
  have "distinct (map mp_Name ps)"
    using doc(1) by (auto simp: marketplace_Marshal_Inr user_document_def validate_plugins_None)
  moreover have "set ps \<subseteq> listed_version ` {v. newest (rnd_semver R) ?vs v \<and> may_read p w v}"
    using best unfolding set_ps best_of_def by fastforce
  moreover have "\<exists>u. newest (rnd_semver R) ?vs u \<and> uv_pluginID u = uv_pluginID v \<and> (may_read p w u \<longrightarrow> listed_version u \<in> set ps)" if "v \<in> set ?vs" for v
  proof -
    have "uv_pluginID v \<in> fst ` set ?best" using that best by (simp add: best_of_def)
    then obtain u where "(uv_pluginID v, u) \<in> set ?best" by auto
    moreover from this best have "uv_pluginID v = uv_pluginID u" "newest (rnd_semver R) ?vs u"
      unfolding best_of_def by blast+
    moreover have "u \<in> snd ` set ?best" using calculation(1) by force
    ultimately show ?thesis unfolding set_ps by (intro exI [of _ u]) simp
  qed
  moreover obtain u n where "u \<in> set (users (w_db w))" "user_Username u = username" "n \<in> set (namespaces (w_db w))"
    "ns_Kind n = NamespaceKindUser" "ns_OwnerUserID n = Some (user_ID u)" "um_Candidates m = candidate_rows (w_db w) (ns_ID n)"
    by (rule FindUserMarketplace_Inr [OF m calm])
  then have "\<exists>u n. u \<in> set (users (w_db w)) \<and> user_Username u = username \<and>
      n \<in> set (namespaces (w_db w)) \<and> ns_Kind n = NamespaceKindUser \<and> ns_OwnerUserID n = Some (user_ID u) \<and>
      ?vs = candidate_versions (rnd_semver R) origin (candidate_rows (w_db w) (ns_ID n))"
    by metis
  ultimately show ?thesis using m doc by (intro exI [of _ m] exI [of _ ps] exI [of _ ?vs]) (simp add: ps)
qed

text \<open>
  The request for a user marketplace is authorized as a request for the user, whose facts have no
  namespace; so the rule for the personal namespace never applies.
\<close>

lemma user_resource_is_for_admins:
  assumes run: "authorize p ActionMarketplaceRead \<lparr>ref_type = ResourceUser, ref_id = uid, ref_namespace_id = ns\<rparr> w = (Inr (), w')"
    and user: "IsUser p"
  shows "0 < admin_membership_count (w_db w) (p_user_id p)"
proof -
  let ?r = "\<lparr>ref_type = ResourceUser, ref_id = uid, ref_namespace_id = ns\<rparr>"
  obtain st w1 where st: "ReadAuthorizationState p ?r w = (Inr st, w1)" "st_Active st" "granted ActionMarketplaceRead st"
    by (rule authorize_Inr_user [OF run user])
  show ?thesis
    by (rule ReadAuthorizationState_Inr [OF st(1) user st(2)])
      (use st(3) in \<open>auto simp: resourceState_def return_iff no_resource_state_def elim: granted.cases\<close>)
qed

text \<open>C39. Only a system administrator ever gets a user marketplace: whatever the user owns and whatever
  the tables hold, a request of a user who is not in the administrator group fails.\<close>

theorem user_marketplaces_are_for_administrators:
  assumes "Render R p username origin w = (Inr res, w')"
  shows "0 < admin_membership_count (w_db w) (p_user_id p)"
proof -
  from assms have "IsUser p" by (auto simp: Render_def fail_iff split: if_splits)
  moreover from assms obtain w1 where
    "authorize p ActionMarketplaceRead \<lparr>ref_type = ResourceUser, ref_id = p_user_id p, ref_namespace_id = []\<rparr> w = (Inr (), w1)"
    by (auto simp: Render_def attempt_iff fail_iff split: if_splits)
  ultimately show ?thesis using user_resource_is_for_admins by blast
qed

text \<open>Two versions of a Plugin of the sample user; a longer version text counts as greater.\<close>

definition length_semver :: semver where
  "length_semver =
     \<lparr>sv_NewVersion = (\<lambda>_. True), sv_Prerelease = (\<lambda>_. []), sv_String = id, sv_GreaterThan = (\<lambda>a b. length b < length a)\<rparr>"

definition sample_renderer :: renderer where
  "sample_renderer = \<lparr>rnd_semver = length_semver, rnd_SHA256 = (\<lambda>s. take 1 s), rnd_range = rev\<rparr>"

definition shelf_version :: "string \<Rightarrow> string \<Rightarrow> version_row" where
  "shelf_version vid tag =
     \<lparr>ver_ID = vid, ver_PluginID = ''p1'', ver_Tag = tag, ver_Status = VersionStatusAvailable, ver_RawTagObjectID = None,
      ver_CommitSHA = Some (replicate 40 CHR ''a''), ver_ManifestDigest = None, ver_ManifestSnapshot = None, ver_PublishedAt = 1,
      ver_UpdatedAt = 1, ver_DeletedAt = None, ver_CreatedAt = 1\<rparr>"

definition shelf_world :: world where
  "shelf_world = sample_world\<lparr>w_db := sample_db\<lparr>
     plugins := map (\<lambda>p. p\<lparr>plg_Status := PluginStatusActive\<rparr>) (plugins sample_db),
     group_memberships := [\<lparr>gm_UserID = ''u1'', gm_GroupID = AdminSystemGroupID, gm_CreatedAt = 0\<rparr>],
     versions := [shelf_version ''1'' ''v1'', shelf_version ''2'' ''v1.1'']\<rparr>\<rparr>"

lemma shelf_value: "\<not> isl (fst (Render sample_renderer sample_user ''ann'' ''http://m'' shelf_world))"
  by code_simp

lemma shelf_run:
  obtains res w' where "Render sample_renderer sample_user ''ann'' ''http://m'' shelf_world = (Inr res, w')"
proof (cases "Render sample_renderer sample_user ''ann'' ''http://m'' shelf_world")
  case (Pair r w)
  with shelf_value have "\<not> isl r" by simp
  then obtain res where "r = Inr res" by (cases r) simp_all
  with Pair that show ?thesis by blast
qed

theorem user_marketplace_is_exact_witness:
  "\<exists>m ps vs. FindUserMarketplace ''ann'' shelf_world = (Inr m, shelf_world) \<and>
     set ps \<subseteq> listed_version ` {v. newest length_semver vs v \<and> may_read sample_user shelf_world v}"
proof -
  obtain res w' where run: "Render sample_renderer sample_user ''ann'' ''http://m'' shelf_world = (Inr res, w')"
    by (rule shelf_run)
  have order: "strict_order (rnd_semver sample_renderer)" by (auto simp: strict_order_def sample_renderer_def length_semver_def)
  have visits: "set (rnd_range sample_renderer xs) = set xs" for xs by (simp add: sample_renderer_def)
  have calm: "w_faults shelf_world = []" by (simp add: shelf_world_def sample_world_def)
  have S: "rnd_semver sample_renderer = length_semver" by (simp add: sample_renderer_def)
  from user_marketplace_is_exact [OF order visits calm run] show ?thesis
    unfolding S by (elim exE conjE) (intro exI conjI)
qed

theorem user_marketplaces_are_for_administrators_witness: "0 < admin_membership_count (w_db shelf_world) ''u1''"
proof -
  obtain res w' where run: "Render sample_renderer sample_user ''ann'' ''http://m'' shelf_world = (Inr res, w')"
    by (rule shelf_run)
  from user_marketplaces_are_for_administrators [OF run] show ?thesis by (simp add: sample_user_def)
qed

end
