(* ===== verification/SourceTree.thy ===== *)
theory SourceTree imports GoStrings begin

text \<open>
  Paths and directories: what \<open>mod/git/plugin_source.go\<close> uses of \<open>path/filepath\<close> and of the file
  system. An absolute path is the list of its components. The directory a source is written to is a
  list of nodes under their paths; the rest of the file system is a parameter.
\<close>

datatype node = DirN | FileN string | LinkN string

type_synonym path = "string list"
type_synonym tree = "(path \<times> node) list"

definition node_size :: "node \<Rightarrow> nat" where
  "node_size n = (case n of DirN \<Rightarrow> 0 | FileN c \<Rightarrow> length c | LinkN c \<Rightarrow> length c)"

section \<open>Paths\<close>

text \<open>\<open>filepath.Clean\<close> of an absolute path, after the components \<open>acc\<close>\<close>

fun filepath_Clean :: "path \<Rightarrow> path \<Rightarrow> path" where
  "filepath_Clean acc [] = acc"
| "filepath_Clean acc (c # cs) =
     (if c = [] \<or> c = ''.'' then filepath_Clean acc cs
      else if c = ''..'' then filepath_Clean (butlast acc) cs
      else filepath_Clean (acc @ [c]) cs)"

text \<open>\<open>filepath.Rel\<close> of two clean absolute paths; the empty list is the path \<open>.\<close>\<close>

fun filepath_Rel :: "path \<Rightarrow> path \<Rightarrow> path" where
  "filepath_Rel [] target = target"
| "filepath_Rel base [] = replicate (length base) ''..''"
| "filepath_Rel (b # base) (t # target) =
     (if b = t then filepath_Rel base target else replicate (Suc (length base)) ''..'' @ t # target)"

definition ensurePathWithinRoot :: "path \<Rightarrow> path \<Rightarrow> bool" where
  "ensurePathWithinRoot root p \<longleftrightarrow> (let rel = filepath_Rel root p in rel = [] \<or> hd rel \<noteq> ''..'')"

definition filepath_IsAbs :: "string \<Rightarrow> bool" where
  "filepath_IsAbs s \<longleftrightarrow> prefix ''/'' s"

definition nul :: char where "nul = CHR 0x00"

definition plain_part :: "string \<Rightarrow> bool" where
  "plain_part p \<longleftrightarrow> p \<noteq> [] \<and> p \<noteq> ''.'' \<and> p \<noteq> ''..''"

definition pluginSourcePath :: "path \<Rightarrow> string \<Rightarrow> path option" where
  "pluginSourcePath destination name =
     (if name = [] \<or> filepath_IsAbs name \<or> nul \<in> set name then None
      else
        (let parts = strings_Split CHR ''/'' name in
         if \<not> list_all plain_part parts then None
         else
           (let p = filepath_Clean [] (destination @ parts) in
            if ensurePathWithinRoot destination p then Some p else None)))"

section \<open>Resolving symbolic links\<close>

text \<open>
  \<open>filepath.EvalSymlinks\<close>: the components still to walk after the resolved path \<open>dest\<close>, with the
  number of links that may still be followed. A component \<open>..\<close> leaves the resolved directory.
\<close>

function eval_symlinks :: "(path \<Rightarrow> node option) \<Rightarrow> nat \<Rightarrow> path \<Rightarrow> path \<Rightarrow> path option" where
  "eval_symlinks fs links dest [] = Some dest"
| "eval_symlinks fs links dest (c # rest) =
     (if c = [] \<or> c = ''.'' then eval_symlinks fs links dest rest
      else if c = ''..'' then eval_symlinks fs links (butlast dest) rest
      else
        (case fs (dest @ [c]) of
           None \<Rightarrow> None
         | Some DirN \<Rightarrow> eval_symlinks fs links (dest @ [c]) rest
         | Some (FileN _) \<Rightarrow> if rest = [] then Some (dest @ [c]) else None
         | Some (LinkN target) \<Rightarrow>
             if links = 0 then None
             else eval_symlinks fs (links - 1) (if filepath_IsAbs target then [] else dest) (strings_Split CHR ''/'' target @ rest)))"
  by pat_completeness auto
termination by (relation "measures [\<lambda>(fs, links, dest, cs). links, \<lambda>(fs, links, dest, cs). length cs]") auto

definition goLinks :: nat where "goLinks = 255"

text \<open>Links the kernel follows in one lookup\<close>

definition kernelLinks :: nat where "kernelLinks = 40"

section \<open>Facts about paths\<close>

lemma filepath_Clean_plain: "list_all plain_part cs \<Longrightarrow> filepath_Clean acc cs = acc @ cs"
  by (induction acc cs rule: filepath_Clean.induct) (auto simp: plain_part_def)

lemma list_all_butlast: "list_all P xs \<Longrightarrow> list_all P (butlast xs)"
  by (auto simp: list_all_iff dest: in_set_butlastD)

lemma filepath_Clean_result: "list_all plain_part acc \<Longrightarrow> list_all plain_part (filepath_Clean acc cs)"
proof (induction acc cs rule: filepath_Clean.induct)
  case (2 acc c cs)
  have "list_all plain_part (acc @ [c])" if "c \<noteq> []" "c \<noteq> ''.''" "c \<noteq> ''..''"
    using 2(4) that plain_part_def [of c] by simp
  with 2 list_all_butlast [OF 2(4)] show ?case by simp
qed simp

lemma filepath_Rel_prefix: "filepath_Rel root (root @ p) = p"
  by (induction root) simp_all

lemma ensurePathWithinRoot_iff:
  "list_all plain_part p \<Longrightarrow> ensurePathWithinRoot root p \<longleftrightarrow> prefix root p"
proof (induction root p rule: filepath_Rel.induct)
  case (1 target)
  then show ?case by (cases target) (auto simp: ensurePathWithinRoot_def plain_part_def)
qed (auto simp: ensurePathWithinRoot_def)

lemma pluginSourcePath_iff:
  assumes "list_all plain_part destination"
  shows "pluginSourcePath destination name = Some p \<longleftrightarrow>
    name \<noteq> [] \<and> \<not> filepath_IsAbs name \<and> nul \<notin> set name \<and> list_all plain_part (strings_Split CHR ''/'' name) \<and>
    p = destination @ strings_Split CHR ''/'' name"
  using assms by (auto simp: pluginSourcePath_def Let_def filepath_Clean_plain ensurePathWithinRoot_iff list_all_append)

lemma eval_symlinks_result:
  "eval_symlinks fs links dest cs = Some p \<Longrightarrow> list_all plain_part dest \<Longrightarrow> list_all plain_part p"
proof (induction fs links dest cs rule: eval_symlinks.induct)
  case (2 fs links dest c rest)
  consider "c = [] \<or> c = ''.''" | "c = ''..''" | "plain_part c" by (auto simp: plain_part_def)
  then show ?case
  proof cases
    case 1
    with "2.IH"(1) "2.prems" show ?thesis by simp
  next
    case 2: 2
    then have "c \<noteq> []" "c \<noteq> ''.''" by simp_all
    with 2 "2.IH"(2) "2.prems" list_all_butlast [OF "2.prems"(2)] show ?thesis by simp
  next
    case 3
    then have c: "\<not> (c = [] \<or> c = ''.'')" "c \<noteq> ''..''" by (auto simp: plain_part_def)
    with 3 "2.prems" have dest: "list_all plain_part (dest @ [c])" by simp
    show ?thesis
    proof (cases "fs (dest @ [c])")
      case None
      with "2.prems"(1) c show ?thesis by simp
    next
      case (Some n)
      show ?thesis
      proof (cases n)
        case DirN
        with Some c "2.IH"(3) [OF c Some DirN] "2.prems" dest show ?thesis by simp
      next
        case (FileN x)
        with Some c "2.prems"(1) have "p = dest @ [c]" by (simp split: if_splits)
        with dest show ?thesis by simp
      next
        case (LinkN target)
        with Some c "2.prems"(1) have links: "links \<noteq> 0" by (simp split: if_splits)
        with Some c LinkN "2.prems"(1)
        have "eval_symlinks fs (links - 1) (if filepath_IsAbs target then [] else dest) (strings_Split CHR ''/'' target @ rest) = Some p" by simp
        from "2.IH"(4) [OF c Some LinkN links this] "2.prems"(2) show ?thesis by (cases "filepath_IsAbs target") simp_all
      qed
    qed
  qed
qed simp

end
