(* ===== verification/PluginSource.thy ===== *)
theory PluginSource imports SourceTree PluginService Recovery MarketplaceKey begin

text \<open>
  \<open>mod/git/plugin_source.go\<close>: the inspection of the commit a tag points to. The tree of the commit is
  listed by git, written to a temporary directory entry by entry within bounds, its symbolic links are
  checked, and the manifest is read and validated.

  Parameters: git (its output and whether it succeeds, for an environment and arguments), the
  environment of the process, the file system around the temporary directory, SHA-256, and the
  validation of the profile.
\<close>

record source_host =
  sh_git :: "string list \<Rightarrow> string list \<Rightarrow> (bool \<times> string) prog"
  sh_Getenv :: "string \<Rightarrow> string"
  sh_temp :: path
  sh_fs :: "path \<Rightarrow> node option"
  sh_SHA256 :: "string \<Rightarrow> string"
  sh_profile :: "tree \<Rightarrow> string \<Rightarrow> string \<Rightarrow> err option"

abbreviation ErrInvalidCanonicalTag :: err where "ErrInvalidCanonicalTag \<equiv> ErrNew ''invalid canonical tag''"
abbreviation ErrInvalidExpectedPluginSlug :: err where "ErrInvalidExpectedPluginSlug \<equiv> ErrNew ''invalid expected plugin slug''"
abbreviation ErrPluginSourceUnavailable :: err where "ErrPluginSourceUnavailable \<equiv> ErrNew ''plugin source unavailable''"
abbreviation ErrPluginSourceInvalid :: err where "ErrPluginSourceInvalid \<equiv> ErrNew ''plugin source validation failed''"

definition pluginManifestPath :: path where "pluginManifestPath = [''.claude-plugin'', ''plugin.json'']"
definition maxPluginSourceEntries :: nat where "maxPluginSourceEntries = 10000"
definition maxPluginSourceFileSize :: nat where "maxPluginSourceFileSize = 16 * 2 ^ 20"
definition maxPluginSourceBytes :: nat where "maxPluginSourceBytes = 256 * 2 ^ 20"
definition maxPluginManifestBytes :: nat where "maxPluginManifestBytes = 2 ^ 20"
definition maxTreeListing :: nat where "maxTreeListing = 16 * 2 ^ 20"

definition validGitObjectID :: "string \<Rightarrow> bool" where
  "validGitObjectID s \<longleftrightarrow> (length s = 40 \<or> length s = 64) \<and> list_all hex_digit s"

section \<open>Running git\<close>

definition pluginSourceGitEnv :: "source_host \<Rightarrow> string list" where
  "pluginSourceGitEnv H =
     [''GIT_CONFIG_NOSYSTEM=1'', ''GIT_CONFIG_GLOBAL=/dev/null'', ''GIT_NO_REPLACE_OBJECTS=1'', ''GIT_TERMINAL_PROMPT=0'', ''LANG=C''] @
     (if sh_Getenv H ''PATH'' \<noteq> [] then [''PATH='' @ sh_Getenv H ''PATH''] else [])"

definition gitEnv :: "source_host \<Rightarrow> string list" where
  "gitEnv H =
     [''GIT_CONFIG_NOSYSTEM=1'', ''GIT_TERMINAL_PROMPT=0'', ''LANG=C''] @
     (if sh_Getenv H ''PATH'' \<noteq> [] then [''PATH='' @ sh_Getenv H ''PATH''] else []) @
     (if sh_Getenv H ''HOME'' \<noteq> [] then [''HOME='' @ sh_Getenv H ''HOME''] else [])"

text \<open>An object identifier that a command prints\<close>

definition printed_object :: "source_host \<Rightarrow> string list \<Rightarrow> string prog" where
  "printed_object H args =
     bindE (sh_git H (gitEnv H) args) (\<lambda>(ok, output).
     if \<not> ok \<or> \<not> validGitObjectID (strings_TrimSpace output) then fail ErrPluginSourceUnavailable
     else return (strings_TrimSpace output))"

definition resolveRawRefObjectID :: "source_host \<Rightarrow> string \<Rightarrow> string \<Rightarrow> string prog" where
  "resolveRawRefObjectID H repo tag =
     printed_object H [''--git-dir='' @ repo, ''show-ref'', ''--verify'', ''--hash'', ''refs/tags/'' @ tag]"

definition peelCommit :: "source_host \<Rightarrow> string \<Rightarrow> string \<Rightarrow> string prog" where
  "peelCommit H repo oid = printed_object H [''--git-dir='' @ repo, ''rev-parse'', ''--verify'', oid @ ''^{commit}'']"

section \<open>The listing of the tree\<close>

record tree_entry =
  te_mode :: string
  te_objectID :: string
  te_name :: string

text \<open>\<open>bytes.Cut\<close> at the first separator\<close>

definition bytes_Cut :: "char \<Rightarrow> string \<Rightarrow> (string \<times> string) option" where
  "bytes_Cut sep s = (if sep \<in> set s then Some (takeWhile (\<lambda>c. c \<noteq> sep) s, tl (dropWhile (\<lambda>c. c \<noteq> sep) s)) else None)"

text \<open>\<open>bytes.Fields\<close>: the maximal runs between the encodings of space characters\<close>

function fields_from :: "string \<Rightarrow> string \<Rightarrow> string list" where
  "fields_from word [] = (if word = [] then [] else [word])"
| "fields_from word (c # s) =
     (case List.find (\<lambda>e. e \<noteq> [] \<and> prefix e (c # s)) space_encodings of
        Some e \<Rightarrow> (if word = [] then [] else [word]) @ fields_from [] (drop (length e) (c # s))
      | None \<Rightarrow> fields_from (word @ [c]) s)"
  by pat_completeness auto
termination
  by (relation "measure (\<lambda>(word, s). length s)") (auto dest!: find_Some_iff_hd)

definition bytes_Fields :: "string \<Rightarrow> string list" where
  "bytes_Fields s = fields_from [] s"

definition parse_tree_entry :: "string \<Rightarrow> tree_entry option" where
  "parse_tree_entry record =
     (case bytes_Cut CHR 0x09 record of
        None \<Rightarrow> None
      | Some (metadata, name) \<Rightarrow>
          (case bytes_Fields metadata of
             [mode, kind, oid] \<Rightarrow>
               if kind \<noteq> ''blob'' \<or> \<not> validGitObjectID oid then None
               else Some \<lparr>te_mode = mode, te_objectID = oid, te_name = name\<rparr>
           | _ \<Rightarrow> None))"

definition parsePluginSourceTree :: "string \<Rightarrow> tree_entry list option" where
  "parsePluginSourceTree output =
     (let records = strings_Split nul output in
      if last records \<noteq> [] then None
      else if length (butlast records) > maxPluginSourceEntries then None
      else those (map parse_tree_entry (butlast records)))"

section \<open>Sizes\<close>

text \<open>
  \<open>fmt.Fscan\<close> into an \<open>int64\<close>: space, a sign, and a number in the base of its prefix, with
  underscores between digits
\<close>

definition digit_of :: "char \<Rightarrow> nat" where
  "digit_of c = (if byte c \<le> 57 then byte c - 48 else if byte c < 97 then byte c - 55 else byte c - 87)"

definition base_digit :: "nat \<Rightarrow> char \<Rightarrow> bool" where
  "base_digit base c \<longleftrightarrow> (48 \<le> byte c \<and> byte c \<le> 57 \<or> 65 \<le> byte c \<and> byte c \<le> 70 \<or> 97 \<le> byte c \<and> byte c \<le> 102) \<and> digit_of c < base"

definition based_number :: "nat \<Rightarrow> string \<Rightarrow> nat option" where
  "based_number base s =
     (let token = takeWhile (\<lambda>c. base_digit base c \<or> c = CHR ''_'') s in
      if strings_Contains token ''__'' \<or> suffix ''_'' token then None
      else Some (foldl (\<lambda>n c. base * n + digit_of c) 0 (filter (\<lambda>c. c \<noteq> CHR ''_'') token)))"

definition scan_number :: "string \<Rightarrow> nat option" where
  "scan_number s =
     (case s of
        [] \<Rightarrow> None
      | c # r \<Rightarrow>
          if c \<noteq> CHR ''0'' then (if is_digit c then based_number 10 s else None)
          else
            (let base = (if r \<noteq> [] \<and> hd r \<in> set ''bB'' then 2 else if r \<noteq> [] \<and> hd r \<in> set ''oO'' then 8
                         else if r \<noteq> [] \<and> hd r \<in> set ''xX'' then 16 else 0) in
             if base = 0 then based_number 8 r
             else if r = [hd r] \<or> \<not> base_digit base (hd (tl r)) \<and> hd (tl r) \<noteq> CHR ''_'' then None
             else based_number base (tl r)))"

definition int64_of :: "bool \<Rightarrow> nat \<Rightarrow> int option" where
  "int64_of neg n = (if neg then (if n \<le> 2 ^ 63 then Some (- int n) else None) else (if n < 2 ^ 63 then Some (int n) else None))"

definition fmt_Fscan :: "string \<Rightarrow> int option" where
  "fmt_Fscan s =
     (let t = strip_prefixes space_encodings s in
      case scan_number (if prefix ''-'' t \<or> prefix ''+'' t then tl t else t) of
        None \<Rightarrow> None
      | Some n \<Rightarrow> int64_of (prefix ''-'' t) n)"

definition objectSize :: "source_host \<Rightarrow> string list \<Rightarrow> string \<Rightarrow> string \<Rightarrow> nat prog" where
  "objectSize H env repo oid =
     bindE (sh_git H env [''--git-dir='' @ repo, ''cat-file'', ''-s'', oid]) (\<lambda>(ok, output).
     if \<not> ok then fail (ErrNew ''exit status'')
     else (case fmt_Fscan output of
             None \<Rightarrow> fail (ErrNew ''invalid blob size'')
           | Some n \<Rightarrow> if n < 0 then fail (ErrNew ''invalid blob size'') else return (nat n)))"

section \<open>Writing the directory\<close>

text \<open>
  The directory is addressed by \<open>sh_temp @ [''source'']\<close>; its nodes are kept under their whole paths.
  Every path that is looked up lies below directories that have just been checked to be no links.
\<close>

definition source_root :: "source_host \<Rightarrow> path" where
  "source_root H = sh_temp H @ [''source'']"

definition lookup_node :: "path \<Rightarrow> tree \<Rightarrow> path \<Rightarrow> node option" where
  "lookup_node root t p = (if p = root then Some DirN else map_of t p)"

fun make_directories :: "path \<Rightarrow> path \<Rightarrow> path \<Rightarrow> tree \<Rightarrow> tree prog" where
  "make_directories root current [] t = return t"
| "make_directories root current (part # parts) t =
     bindE os_call (\<lambda>_.
     case lookup_node root t (current @ [part]) of
       None \<Rightarrow> bindE os_call (\<lambda>_. make_directories root (current @ [part]) parts (t @ [(current @ [part], DirN)]))
     | Some DirN \<Rightarrow> make_directories root (current @ [part]) parts t
     | Some _ \<Rightarrow> fail (ErrNew ''archive directory is not a directory''))"

definition makePluginSourceDirectory :: "path \<Rightarrow> path \<Rightarrow> tree \<Rightarrow> tree prog" where
  "makePluginSourceDirectory root directory t =
     (if \<not> ensurePathWithinRoot root directory then fail (ErrNew ''archive directory escapes materialization'')
      else make_directories root root (filepath_Rel root directory) t)"

text \<open>The blob of an object\<close>

definition cat_blob :: "source_host \<Rightarrow> string list \<Rightarrow> string \<Rightarrow> string \<Rightarrow> (bool \<times> string) prog" where
  "cat_blob H env repo oid = sh_git H env [''--git-dir='' @ repo, ''cat-file'', ''blob'', oid]"

definition materializeBlob :: "source_host \<Rightarrow> string list \<Rightarrow> string \<Rightarrow> string \<Rightarrow> path \<Rightarrow> nat \<Rightarrow> tree \<Rightarrow> tree prog" where
  "materializeBlob H env repo oid p len t =
     bindE (map_error (\<lambda>_. ErrPluginSourceInvalid) os_call) (\<lambda>_.
     if lookup_node (source_root H) t p \<noteq> None then fail ErrPluginSourceInvalid
     else
       bindE (cat_blob H env repo oid) (\<lambda>(ok, output).
       bindE (map_error (\<lambda>_. ErrPluginSourceUnavailable) os_call) (\<lambda>_.
       if \<not> ok \<or> length output \<noteq> len then fail ErrPluginSourceUnavailable
       else return (t @ [(p, FileN output)]))))"

definition readBlob :: "source_host \<Rightarrow> string list \<Rightarrow> string \<Rightarrow> string \<Rightarrow> nat \<Rightarrow> string prog" where
  "readBlob H env repo oid len =
     (if len > maxPluginSourceFileSize then fail ErrPluginSourceInvalid
      else bindE (cat_blob H env repo oid) (\<lambda>(ok, output).
           if \<not> ok \<or> length output \<noteq> len then fail ErrPluginSourceUnavailable else return output))"

definition createPluginSourceSymlink :: "path \<Rightarrow> path \<Rightarrow> string \<Rightarrow> tree \<Rightarrow> tree prog" where
  "createPluginSourceSymlink root p target t =
     (if target = [] \<or> filepath_IsAbs target \<or> nul \<in> set target then fail (ErrNew ''invalid archive symlink'')
      else if \<not> ensurePathWithinRoot root (filepath_Clean [] (butlast p @ strings_Split CHR ''/'' target))
      then fail (ErrNew ''archive symlink escapes materialization'')
      else
        bindE os_call (\<lambda>_.
        if lookup_node root t p \<noteq> None then fail (ErrNew ''duplicate archive entry'')
        else bindE os_call (\<lambda>_. return (t @ [(p, LinkN target)]))))"

text \<open>One entry, with the bytes written so far\<close>

definition materialize_entry :: "source_host \<Rightarrow> string list \<Rightarrow> string \<Rightarrow> tree_entry \<Rightarrow> tree \<times> nat \<Rightarrow> (tree \<times> nat) prog" where
  "materialize_entry H env repo e acc =
     (case acc of (t, written) \<Rightarrow>
      (case pluginSourcePath (source_root H) (te_name e) of
         None \<Rightarrow> fail ErrPluginSourceInvalid
       | Some p \<Rightarrow>
           bindE (map_error (\<lambda>_. ErrPluginSourceInvalid) (makePluginSourceDirectory (source_root H) (butlast p) t)) (\<lambda>t.
           if te_mode e = ''100644'' \<or> te_mode e = ''100755'' then
             bindE (map_error (\<lambda>_. ErrPluginSourceInvalid) (objectSize H env repo (te_objectID e))) (\<lambda>len.
             if len > maxPluginSourceFileSize \<or> written + len > maxPluginSourceBytes then fail ErrPluginSourceInvalid
             else bindE (materializeBlob H env repo (te_objectID e) p len t) (\<lambda>t. return (t, written + len)))
           else if te_mode e = ''120000'' then
             bindE (map_error (\<lambda>_. ErrPluginSourceInvalid) (objectSize H env repo (te_objectID e))) (\<lambda>len.
             if len = 0 \<or> len > maxPluginSourceFileSize \<or> written + len > maxPluginSourceBytes then fail ErrPluginSourceInvalid
             else
               bindE (map_error (\<lambda>_. ErrPluginSourceInvalid) (readBlob H env repo (te_objectID e) len)) (\<lambda>target.
               bindE (map_error (\<lambda>_. ErrPluginSourceInvalid) (createPluginSourceSymlink (source_root H) p target t)) (\<lambda>t.
               return (t, written + len))))
           else fail ErrPluginSourceInvalid)))"

primrec materialize_entries :: "source_host \<Rightarrow> string list \<Rightarrow> string \<Rightarrow> tree_entry list \<Rightarrow> tree \<times> nat \<Rightarrow> (tree \<times> nat) prog" where
  "materialize_entries H env repo [] acc = return acc"
| "materialize_entries H env repo (e # es) acc =
     bindE (materialize_entry H env repo e acc) (materialize_entries H env repo es)"

text \<open>The file system with the directory written: its nodes below its resolved path.\<close>

definition source_fs :: "source_host \<Rightarrow> path \<Rightarrow> tree \<Rightarrow> path \<Rightarrow> node option" where
  "source_fs H resolved t p =
     (if strict_prefix resolved p then map_of t (source_root H @ drop (length resolved) p) else sh_fs H p)"

primrec check_links :: "source_host \<Rightarrow> path \<Rightarrow> tree \<Rightarrow> tree_entry list \<Rightarrow> unit prog" where
  "check_links H resolved t [] = return ()"
| "check_links H resolved t (e # es) =
     (if te_mode e \<noteq> ''120000'' then check_links H resolved t es
      else
        (case pluginSourcePath (source_root H) (te_name e) of
           None \<Rightarrow> fail ErrPluginSourceInvalid
         | Some p \<Rightarrow>
             bindE (map_error (\<lambda>_. ErrPluginSourceInvalid) os_call) (\<lambda>_.
             (case eval_symlinks (source_fs H resolved t) goLinks [] p of
                None \<Rightarrow> fail ErrPluginSourceInvalid
              | Some target \<Rightarrow>
                  if \<not> ensurePathWithinRoot resolved target then fail ErrPluginSourceInvalid
                  else check_links H resolved t es))))"

definition materializeCommit :: "source_host \<Rightarrow> string list \<Rightarrow> string \<Rightarrow> string \<Rightarrow> tree prog" where
  "materializeCommit H env repo commit =
     bindE (map_error (\<lambda>_. ErrPluginSourceUnavailable) os_call) (\<lambda>_.
     bindE (sh_git H env [''--git-dir='' @ repo, ''ls-tree'', ''-rz'', ''--full-tree'', commit]) (\<lambda>(ok, output).
     if length output > maxTreeListing then fail ErrPluginSourceInvalid
     else if \<not> ok then fail ErrPluginSourceUnavailable
     else
       (case parsePluginSourceTree output of
          None \<Rightarrow> fail ErrPluginSourceInvalid
        | Some entries \<Rightarrow>
            bindE (materialize_entries H env repo entries ([], 0)) (\<lambda>(t, written).
            bindE (map_error (\<lambda>_. ErrPluginSourceInvalid) os_call) (\<lambda>_.
            (case eval_symlinks (sh_fs H) goLinks [] (source_root H) of
               None \<Rightarrow> fail ErrPluginSourceInvalid
             | Some resolved \<Rightarrow> bindE (check_links H resolved t entries) (\<lambda>_. return t)))))))"

section \<open>The manifest and the inspection\<close>

text \<open>The directory of the manifest may be a link within the source.\<close>

definition readPluginManifest :: "source_host \<Rightarrow> tree \<Rightarrow> string prog" where
  "readPluginManifest H t =
     (let p = filepath_Clean [] (source_root H @ pluginManifestPath) in
      if \<not> ensurePathWithinRoot (source_root H) p then fail ErrPluginSourceInvalid
      else
        bindE (map_error (\<lambda>_. ErrPluginSourceInvalid) os_call) (\<lambda>_.
        (case eval_symlinks (sh_fs H) kernelLinks [] (source_root H) of
           None \<Rightarrow> fail ErrPluginSourceInvalid
         | Some resolved \<Rightarrow>
             (case eval_symlinks (source_fs H resolved t) kernelLinks [] (butlast p) of
                None \<Rightarrow> fail ErrPluginSourceInvalid
              | Some directory \<Rightarrow>
                  (case source_fs H resolved t (directory @ [last p]) of
                     Some (FileN content) \<Rightarrow>
                       if length content > maxPluginManifestBytes then fail ErrPluginSourceInvalid
                       else bindE (map_error (\<lambda>_. ErrPluginSourceInvalid) os_call) (\<lambda>_. return content)
                   | _ \<Rightarrow> fail ErrPluginSourceInvalid)))))"

definition inspect_source ::
  "source_host \<Rightarrow> string list \<Rightarrow> string \<Rightarrow> string \<Rightarrow> string \<Rightarrow> string \<Rightarrow> (err \<Rightarrow> err) \<Rightarrow> inspection prog" where
  "inspect_source H env repo raw commit expected manifest_error =
     bindE (map_error (\<lambda>_. ErrPluginSourceUnavailable) os_call) (\<lambda>_.
     bindE (materializeCommit H env repo commit) (\<lambda>t.
     bindE (map_error manifest_error (readPluginManifest H t)) (\<lambda>manifest.
     (case sh_profile H t manifest expected of
        Some e \<Rightarrow> fail e
      | None \<Rightarrow>
          return \<lparr>ins_RawTagObjectID = raw, ins_CommitObjectID = commit,
                  ins_ManifestDigest = hex_EncodeToString (sh_SHA256 H manifest), ins_ManifestSnapshot = manifest\<rparr>))))"

definition InspectPluginSource :: "source_host \<Rightarrow> inspector" where
  "InspectPluginSource H repositoryID tag expected =
     (case validateRepositoryID repositoryID of
        Some e \<Rightarrow> fail e
      | None \<Rightarrow>
          if \<not> MatchString canonicalTagPattern tag then fail ErrInvalidCanonicalTag
          else if \<not> MatchString slugPattern expected then fail ErrInvalidExpectedPluginSlug
          else
            bindE (map_error (\<lambda>_. ErrPluginSourceUnavailable) (existingRepositoryPath repositoryID)) (\<lambda>repo.
            bindE (resolveRawRefObjectID H repo tag) (\<lambda>raw.
            bindE (peelCommit H repo raw) (\<lambda>commit.
            inspect_source H (pluginSourceGitEnv H) repo raw commit expected id))))"

definition inspectCommit :: "source_host \<Rightarrow> string list \<Rightarrow> string \<Rightarrow> string \<Rightarrow> string \<Rightarrow> string \<Rightarrow> inspection prog" where
  "inspectCommit H env repo raw commit expected =
     (if \<not> validGitObjectID raw \<or> \<not> validGitObjectID commit \<or> \<not> MatchString slugPattern expected then fail ErrPluginSourceInvalid
      else inspect_source H env repo raw commit expected (\<lambda>_. ErrPluginSourceInvalid))"

end
