(* ===== verification/ReceiveSession.thy ===== *)
theory ReceiveSession imports PluginSource ReceiveProtocol ReceiveResolve begin

text \<open>
  The session of a push (\<open>mod/git/receive.go\<close>): the admission of its commands, the lifecycle that
  prepares and resolves a batch around the change of the refs, and the proc-receive session that reads the
  commands, runs \<open>git update-ref\<close> and reports to the client.

  Parameters: git, and the ref transaction of \<open>git update-ref --stdin\<close>, which succeeds or not. What is
  written is collected in the outcome; a write may fail.
\<close>

section \<open>Objects of a push\<close>

record receive_environment =
  re_ObjectDirectory :: string
  re_AlternateObjectDirectories :: string
  re_QuarantinePath :: string

definition minimalGitEnvironment :: "string list" where
  "minimalGitEnvironment = [''GIT_CONFIG_NOSYSTEM=1'', ''GIT_TERMINAL_PROMPT=0'', ''LANG=C'']"

definition gitEnvironment :: "receive_environment \<Rightarrow> string list" where
  "gitEnvironment e =
     minimalGitEnvironment @
     [name @ ''='' @ v. (name, v) \<leftarrow> [(''GIT_OBJECT_DIRECTORY'', re_ObjectDirectory e),
        (''GIT_ALTERNATE_OBJECT_DIRECTORIES'', re_AlternateObjectDirectories e), (''GIT_QUARANTINE_PATH'', re_QuarantinePath e)], v \<noteq> []]"

definition receiveObjectEnvironmentFromProcess :: "source_host \<Rightarrow> receive_environment" where
  "receiveObjectEnvironmentFromProcess H =
     \<lparr>re_ObjectDirectory = sh_Getenv H ''GIT_OBJECT_DIRECTORY'',
      re_AlternateObjectDirectories = sh_Getenv H ''GIT_ALTERNATE_OBJECT_DIRECTORIES'',
      re_QuarantinePath = sh_Getenv H ''GIT_QUARANTINE_PATH''\<rparr>"

definition PeelCommit :: "source_host \<Rightarrow> receive_environment \<Rightarrow> string \<Rightarrow> string \<Rightarrow> string prog" where
  "PeelCommit H e repo oid =
     bindE (sh_git H (gitEnvironment e) [''--git-dir='' @ repo, ''rev-parse'', ''--verify'', oid @ ''^{commit}'']) (\<lambda>(ok, output).
     if \<not> ok \<or> \<not> validGitObjectID (strings_TrimSpace output) then fail (ErrNew ''receive object unavailable'')
     else return (strings_TrimSpace output))"

section \<open>Admission\<close>

text \<open>The canonical tags of the commands, each with what a check adds to it\<close>

fun canonical_tags :: "(string \<Rightarrow> string prog) \<Rightarrow> (tag_command \<Rightarrow> tag_command prog) \<Rightarrow> receive_command list \<Rightarrow> tag_command list prog" where
  "canonical_tags peel check [] = return []"
| "canonical_tags peel check (c # cs) =
     (case CanonicalTagFromRef (rc_RefName c) of
        None \<Rightarrow> canonical_tags peel check cs
      | Some tag \<Rightarrow>
          bindE (classifyTag peel tag c) (\<lambda>t.
          bindE (if tc_Operation t \<noteq> ReceiveTagDelete then check t else return t) (\<lambda>t.
          bindE (canonical_tags peel check cs) (\<lambda>ts. return (t # ts)))))"

text \<open>The coordination is closed on every way out; the result of closing is not looked at.\<close>

definition closing :: "coordination \<Rightarrow> 'a prog \<Rightarrow> 'a prog" where
  "closing co m =
     attempt m (\<lambda>res. bindE (ignore_error (Close co)) (\<lambda>_. case res of Inl e \<Rightarrow> fail e | Inr x \<Rightarrow> return x))"

definition Admit ::
  "builder \<Rightarrow> (string \<Rightarrow> string prog) \<Rightarrow> (receive_plugin \<Rightarrow> tag_command \<Rightarrow> unit prog) \<Rightarrow>
   receive_plugin \<Rightarrow> string \<Rightarrow> receive_command list \<Rightarrow> prepared_batch prog" where
  "Admit B peel validate plugin sessionID commands =
     (if rp_ID plugin = [] \<or> rp_Name plugin = [] \<or> sessionID = [] \<or> commands = []
      then fail (ErrNew ''invalid receive admission request'')
      else
        bindE (map_error (\<lambda>_. ErrNew ''receive coordination unavailable'') (Open (rp_ID plugin) sessionID)) (\<lambda>co.
        closing co
          (bindE (map_error (\<lambda>_. ErrNew ''canonical tag rejected'')
                    (canonical_tags peel (\<lambda>t. bindE (validate plugin t) (\<lambda>_. return t)) commands)) (\<lambda>tags.
           map_error (\<lambda>_. ErrNew ''receive batch rejected'')
             (Prepare B co \<lparr>rb_SessionID = sessionID, rb_Plugin = plugin, rb_Commands = commands, rb_CanonicalTags = tags\<rparr>)))))"

section \<open>The lifecycle of a protected receive\<close>

record receive_setting =
  rs_Builder :: builder
  rs_Source :: source_host
  rs_Environment :: receive_environment
  rs_RepositoryID :: string
  rs_RepositoryPath :: string
  rs_Plugin :: receive_plugin
  rs_SessionID :: string

definition inspect_tag :: "receive_setting \<Rightarrow> tag_command \<Rightarrow> tag_command prog" where
  "inspect_tag R t =
     bindE (inspectCommit (rs_Source R) (gitEnvironment (rs_Environment R)) (rs_RepositoryPath R)
              (tc_NewObjectID t) (tc_NewCommitObjectID t) (rp_Name (rs_Plugin R))) (\<lambda>i.
     return (t\<lparr>tc_NewManifestDigest := ins_ManifestDigest i, tc_NewManifestSnapshot := ins_ManifestSnapshot i\<rparr>))"

text \<open>The coordination stays open when the batch is prepared, and is closed when it is not.\<close>

definition closing_on_error :: "coordination \<Rightarrow> 'a prog \<Rightarrow> 'a prog" where
  "closing_on_error co m =
     attempt m (\<lambda>res. case res of
       Inl e \<Rightarrow> bindE (ignore_error (Close co)) (\<lambda>_. fail e)
     | Inr x \<Rightarrow> return x)"

definition lifecycle_Prepare :: "receive_setting \<Rightarrow> receive_command list \<Rightarrow> (coordination \<times> prepared_batch) prog" where
  "lifecycle_Prepare R commands =
     (if rs_RepositoryID R = [] \<or> rs_RepositoryPath R = [] \<or> rp_ID (rs_Plugin R) = [] \<or> rp_Name (rs_Plugin R) = [] \<or> rs_SessionID R = []
      then fail (ErrNew ''protected receive is not configured'')
      else
        bindE (map_error (\<lambda>_. ErrNew ''receive coordination unavailable'') (Open (rp_ID (rs_Plugin R)) (rs_SessionID R))) (\<lambda>co.
        closing_on_error co
          (bindE (map_error (\<lambda>_. ErrNew ''canonical tag rejected'')
                    (canonical_tags (PeelCommit (rs_Source R) (rs_Environment R) (rs_RepositoryPath R)) (inspect_tag R) commands)) (\<lambda>tags.
           bindE (map_error (\<lambda>_. ErrNew ''receive batch rejected'')
                    (Prepare (rs_Builder R) co
                       \<lparr>rb_SessionID = rs_SessionID R, rb_Plugin = rs_Plugin R, rb_Commands = commands, rb_CanonicalTags = tags\<rparr>)) (\<lambda>prepared.
           return (co, prepared))))))"

text \<open>Reading the refs of a batch again, and resolving the batch by what they are\<close>

definition reread_refs :: "string \<Rightarrow> prepared_batch \<Rightarrow> observed_ref list prog" where
  "reread_refs repositoryID prepared =
     map_error (\<lambda>_. ErrNew ''receive ref reread failed'')
       (mapE (\<lambda>t. ReadPluginRef repositoryID (pt_RefName t)) (pb_Transitions prepared))"

definition lifecycle_Finalize :: "receive_setting \<Rightarrow> coordination \<times> prepared_batch \<Rightarrow> unit prog" where
  "lifecycle_Finalize R s =
     (case s of (co, prepared) \<Rightarrow>
      closing co
        (if pb_ID prepared = [] \<and> pb_Transitions prepared = [] then return ()
         else
           bindE (reread_refs (rs_RepositoryID R) prepared) (\<lambda>observed.
           Resolve (rs_Builder R) co prepared (ClassifyReceiveResolution prepared observed))))"

definition ReceiveFinalizer_Finalize :: "builder \<Rightarrow> (string \<Rightarrow> observed_ref prog) \<Rightarrow> string \<Rightarrow> string \<Rightarrow> prepared_batch \<Rightarrow> unit prog" where
  "ReceiveFinalizer_Finalize B readRef pluginID sessionID prepared =
     (if pluginID = [] \<or> sessionID = [] \<or> pb_ID prepared = [] \<or> pb_Transitions prepared = []
      then fail (ErrNew ''invalid receive finalization request'')
      else
        bindE (map_error (\<lambda>_. ErrNew ''receive coordination unavailable'') (Open pluginID sessionID)) (\<lambda>co.
        closing co
          (bindE (map_error (\<lambda>_. ErrNew ''receive ref reread failed'') (mapE (\<lambda>t. readRef (pt_RefName t)) (pb_Transitions prepared))) (\<lambda>observed.
           map_error (\<lambda>_. ErrNew ''receive resolution failed'')
             (Resolve B co prepared (ClassifyReceiveResolution prepared observed))))))"

section \<open>Sessions\<close>

definition RunPreReceiveSession :: "(receive_command list \<Rightarrow> unit prog) \<Rightarrow> string \<Rightarrow> object_format \<Rightarrow> unit prog" where
  "RunPreReceiveSession admit input format =
     bindE (of_sum (ParseReceiveCommands input format)) (\<lambda>commands.
     map_error (\<lambda>_. ErrNew ''receive rejected'') (admit commands))"

text \<open>What was written to the client, and the error the session ends with\<close>

record session_outcome =
  so_Output :: string
  so_Error :: "err option"

definition ended :: "string \<Rightarrow> err option \<Rightarrow> session_outcome prog" where
  "ended out e = return \<lparr>so_Output = out, so_Error = e\<rparr>"

definition send :: "string \<Rightarrow> string \<Rightarrow> err \<Rightarrow> (string \<Rightarrow> session_outcome prog) \<Rightarrow> session_outcome prog" where
  "send out s e k = attempt os_call (\<lambda>res. case res of Inl _ \<Rightarrow> ended out (Some e) | Inr _ \<Rightarrow> k (out @ s))"

fun send_all :: "string \<Rightarrow> string list \<Rightarrow> err \<Rightarrow> (string \<Rightarrow> session_outcome prog) \<Rightarrow> session_outcome prog" where
  "send_all out [] e k = k out"
| "send_all out (s # ss) e k = send out s e (\<lambda>out. send_all out ss e k)"

text \<open>The results are written line by line; \<open>result_line\<close> is the line of a command.\<close>

definition result_line :: "bool \<Rightarrow> receive_command \<Rightarrow> string" where
  "result_line accepted c =
     formatPktLine ((if accepted then ''ok'' else ''ng'') @ '' '' @ rc_RefName c @ (if accepted then [] else '' receive rejected''))"

definition report :: "string \<Rightarrow> receive_command list \<Rightarrow> bool \<Rightarrow> err option \<Rightarrow> session_outcome prog" where
  "report out commands accepted e =
     send_all out (map (result_line accepted) commands) (ErrNew ''write proc-receive result'') (\<lambda>out.
     send out ''0000'' (ErrNew ''write proc-receive result flush'') (\<lambda>out. ended out e))"

text \<open>A lifecycle prepares the commands, and finalizes what it has prepared\<close>

record 's receive_lifecycle =
  lc_Prepare :: "receive_command list \<Rightarrow> 's prog"
  lc_Finalize :: "'s \<Rightarrow> unit prog"

type_synonym ref_transaction = "string \<Rightarrow> bool prog"

definition change_refs :: "ref_transaction \<Rightarrow> 's receive_lifecycle \<Rightarrow> string \<Rightarrow> receive_command list \<Rightarrow> session_outcome prog" where
  "change_refs update L out commands =
     attempt (lc_Prepare L commands) (\<lambda>res. case res of
       Inl _ \<Rightarrow> report out commands False (Some (ErrNew ''receive rejected''))
     | Inr s \<Rightarrow>
         (case BuildUpdateRefTransaction commands of
            Inl e \<Rightarrow> report out commands False (Some e)
          | Inr tx \<Rightarrow>
              attempt (update tx) (\<lambda>res.
              if res = Inr True then
                attempt (lc_Finalize L s) (\<lambda>res. case res of
                  Inl _ \<Rightarrow> ended out (Some (ErrNew ''receive resolution failed''))
                | Inr _ \<Rightarrow> report out commands True None)
              else
                attempt (lc_Finalize L s) (\<lambda>res. case res of
                  Inl _ \<Rightarrow> ended out (Some (ErrNew ''receive resolution failed''))
                | Inr _ \<Rightarrow> report out commands False (Some (ErrNew ''receive ref transaction failed''))))))"

text \<open>The commands of a session, after its negotiation\<close>

definition session_commands :: "string list \<Rightarrow> string \<Rightarrow> err + receive_command list" where
  "session_commands features input =
     (case read_command_text input of
        Inl e \<Rightarrow> Inl e
      | Inr (txt, input) \<Rightarrow>
          (case detectObjectFormat txt of
             Inl e \<Rightarrow> Inl e
           | Inr format \<Rightarrow>
               (case ParseReceiveCommands txt format of
                  Inl e \<Rightarrow> Inl e
                | Inr commands \<Rightarrow>
                    if ''push-options'' \<in> set features then
                      (case consumeProcReceivePushOptions input of Inl e \<Rightarrow> Inl e | Inr _ \<Rightarrow> Inr commands)
                    else Inr commands)))"

text \<open>The negotiation of a session: the features, and the input after its flush\<close>

definition session_opening :: "string \<Rightarrow> err + (string list \<times> string)" where
  "session_opening input =
     (case readPktLine input of
        Inr (Some negotiation, input) \<Rightarrow>
          (case parseProcReceiveNegotiation negotiation of
             Inl e \<Rightarrow> Inl e
           | Inr features \<Rightarrow>
               (case readPktLine input of
                  Inr (None, input) \<Rightarrow> Inr (features, input)
                | _ \<Rightarrow> Inl (ErrNew ''invalid proc-receive negotiation flush'')))
      | _ \<Rightarrow> Inl (ErrNew ''invalid proc-receive negotiation''))"

definition RunCoordinatedProcReceiveSession :: "ref_transaction \<Rightarrow> 's receive_lifecycle \<Rightarrow> string \<Rightarrow> session_outcome prog" where
  "RunCoordinatedProcReceiveSession update L input =
     (case session_opening input of
        Inl e \<Rightarrow> ended [] (Some e)
      | Inr (features, input) \<Rightarrow>
          send [] (formatPktLine (proc_response features)) (ErrNew ''write proc-receive negotiation'') (\<lambda>out.
          send out ''0000'' (ErrNew ''write proc-receive negotiation flush'') (\<lambda>out.
          case session_commands features input of
            Inl e \<Rightarrow> ended out (Some e)
          | Inr commands \<Rightarrow> change_refs update L out commands)))"

definition RunProcReceiveSession :: "ref_transaction \<Rightarrow> (receive_command list \<Rightarrow> unit prog) \<Rightarrow> string \<Rightarrow> session_outcome prog" where
  "RunProcReceiveSession update admit input =
     RunCoordinatedProcReceiveSession update \<lparr>lc_Prepare = admit, lc_Finalize = (\<lambda>_. return ())\<rparr> input"

definition protected_lifecycle :: "receive_setting \<Rightarrow> (coordination \<times> prepared_batch) receive_lifecycle" where
  "protected_lifecycle R = \<lparr>lc_Prepare = lifecycle_Prepare R, lc_Finalize = lifecycle_Finalize R\<rparr>"

end
