(* ===== verification/PluginSourceProps.thy ===== *)
theory PluginSourceProps imports PluginSource PluginContract IdentityRuns begin

text \<open>
  What a materialized source is: a tree of plain paths within bounds, in which every node lies in a
  directory that is no link, and every symbolic link resolves inside the directory.
\<close>

section \<open>Trees\<close>

definition safe_part :: "string \<Rightarrow> bool" where
  "safe_part p \<longleftrightarrow> plain_part p \<and> CHR ''/'' \<notin> set p \<and> nul \<notin> set p"

text \<open>All directories above \<open>root @ parts\<close> are there.\<close>

definition parents_ok :: "path \<Rightarrow> tree \<Rightarrow> path \<Rightarrow> bool" where
  "parents_ok root t parts \<longleftrightarrow> (\<forall>k < length parts. lookup_node root t (root @ take k parts) = Some DirN)"

definition source_tree_ok :: "path \<Rightarrow> tree \<Rightarrow> bool" where
  "source_tree_ok root t \<longleftrightarrow> distinct (map fst t) \<and>
     (\<forall>p \<in> fst ` set t. \<exists>parts. p = root @ parts \<and> parts \<noteq> [] \<and> list_all safe_part parts \<and> parents_ok root t parts)"

lemma lookup_node_append: "lookup_node root t p = Some n \<Longrightarrow> lookup_node root (t @ s) p = Some n"
  by (auto simp: lookup_node_def split: if_splits)

lemma parents_ok_append: "parents_ok root t parts \<Longrightarrow> parents_ok root (t @ s) parts"
  by (simp add: parents_ok_def lookup_node_append)

lemma source_tree_ok_add:
  assumes ok: "source_tree_ok root t" and new: "lookup_node root t (root @ parts) = None"
    and parts: "list_all safe_part parts" "parents_ok root t parts"
  shows "source_tree_ok root (t @ [(root @ parts, n)])"
proof -
  have "parts \<noteq> []" "root @ parts \<notin> fst ` set t"
    using new by (auto simp: lookup_node_def map_of_eq_None_iff split: if_splits)
  with assms show ?thesis
    unfolding source_tree_ok_def by (fastforce intro: parents_ok_append)
qed

text \<open>Directories are only added.\<close>

definition only_directories :: "tree \<Rightarrow> tree \<Rightarrow> bool" where
  "only_directories t t' \<longleftrightarrow> (\<exists>s. t' = t @ s \<and> (\<forall>x \<in> set s. snd x = DirN))"

lemma make_directories_Inr:
  assumes "make_directories root (root @ done) parts t w = (Inr t', w')" "source_tree_ok root t"
    "list_all safe_part (done @ parts)" "parents_ok root t done" "lookup_node root t (root @ done) = Some DirN"
  shows "source_tree_ok root t' \<and> only_directories t t' \<and> parents_ok root t' (done @ parts) \<and> lookup_node root t' (root @ done @ parts) = Some DirN"
  using assms
proof (induction parts arbitrary: "done" t w)
  case Nil
  then show ?case by (auto simp: return_iff only_directories_def)
next
  case (Cons part parts)
  let ?p = "root @ done @ [part]"
  have parents: "parents_ok root t (done @ [part])"
    using Cons.prems(4,5) by (auto simp: parents_ok_def less_Suc_eq)
  show ?case
  proof (cases "lookup_node root t ?p")
    case None
    from Cons.prems(1) None obtain w1 where rest: "make_directories root (root @ (done @ [part])) parts (t @ [(?p, DirN)]) w1 = (Inr t', w')"
      by (auto simp: bindE_Inr_iff)
    have ok: "source_tree_ok root (t @ [(?p, DirN)])"
      using source_tree_ok_add [OF Cons.prems(2) None _ parents] Cons.prems(3) by simp
    have at: "lookup_node root (t @ [(?p, DirN)]) ?p = Some DirN"
      using None by (simp add: lookup_node_def map_add_Some_iff split: if_splits)
    have "source_tree_ok root t' \<and> only_directories (t @ [(?p, DirN)]) t' \<and> parents_ok root t' ((done @ [part]) @ parts) \<and>
        lookup_node root t' (root @ (done @ [part]) @ parts) = Some DirN"
      by (rule Cons.IH [OF rest ok _ parents_ok_append [OF parents]]) (use Cons.prems(3) at in simp_all)
    then show ?thesis by (auto simp: only_directories_def)
  next
    case (Some n)
    with Cons.prems(1) have n: "n = DirN" and "\<exists>w1. make_directories root (root @ (done @ [part])) parts t w1 = (Inr t', w')"
      by (auto simp: bindE_Inr_iff fail_iff split: node.splits)
    then obtain w1 where rest: "make_directories root (root @ (done @ [part])) parts t w1 = (Inr t', w')" by blast
    have "source_tree_ok root t' \<and> only_directories t t' \<and> parents_ok root t' ((done @ [part]) @ parts) \<and>
        lookup_node root t' (root @ (done @ [part]) @ parts) = Some DirN"
      by (rule Cons.IH [OF rest Cons.prems(2) _ parents]) (use Cons.prems(3) Some n in simp_all)
    then show ?thesis by simp
  qed
qed

section \<open>What is written\<close>

definition written_bytes :: "tree \<Rightarrow> nat" where
  "written_bytes t = sum_list (map (\<lambda>x. node_size (snd x)) t)"

definition written_by :: "path \<Rightarrow> tree_entry list \<Rightarrow> tree \<Rightarrow> nat \<Rightarrow> bool" where
  "written_by root es t n \<longleftrightarrow>
     source_tree_ok root t \<and> written_bytes t = n \<and> n \<le> maxPluginSourceBytes \<and>
     (\<forall>x \<in> set t. node_size (snd x) \<le> maxPluginSourceFileSize) \<and> length (filter (\<lambda>x. snd x \<noteq> DirN) t) = length es \<and>
     (\<forall>p l. (p, LinkN l) \<in> set t \<longrightarrow> (\<exists>e \<in> set es. te_mode e = ''120000'' \<and> pluginSourcePath root (te_name e) = Some p))"

lemma written_by_directories:
  assumes "written_by root es t n" "only_directories t t'" "source_tree_ok root t'"
  shows "written_by root es t' n"
proof -
  from assms(2) obtain s where s: "t' = t @ s" "\<forall>x \<in> set s. snd x = DirN" by (auto simp: only_directories_def)
  then have "map (\<lambda>x. node_size (snd x)) s = map (\<lambda>x. 0) s" "filter (\<lambda>x. snd x \<noteq> DirN) s = []"
    by (simp_all add: node_size_def filter_empty_conv)
  then have "sum_list (map (\<lambda>x. node_size (snd x)) s) = 0" by (metis sum_list_0)
  with assms s \<open>filter _ s = []\<close> show ?thesis
    by (auto simp: written_by_def written_bytes_def node_size_def)
qed

lemma written_by_add:
  assumes w: "written_by root es t n" and ok: "source_tree_ok root (t @ [(p, x)])" and x: "x \<noteq> DirN"
    and bounds: "node_size x \<le> maxPluginSourceFileSize" "n + node_size x \<le> maxPluginSourceBytes"
    and link: "\<And>l. x = LinkN l \<Longrightarrow> te_mode e = ''120000'' \<and> pluginSourcePath root (te_name e) = Some p"
  shows "written_by root (es @ [e]) (t @ [(p, x)]) (n + node_size x)"
  using assms unfolding written_by_def written_bytes_def by fastforce

lemma strings_Split_chars: "p \<in> set (strings_Split sep s) \<Longrightarrow> set p \<subseteq> set s"
proof (induction s arbitrary: p)
  case (Cons c s)
  then show ?case by (fastforce split: if_splits list.splits)
qed simp

lemma pluginSourcePath_safe:
  assumes "list_all plain_part root" "pluginSourcePath root name = Some p"
  obtains parts where "p = root @ parts" "parts \<noteq> []" "list_all safe_part parts"
proof -
  let ?parts = "strings_Split CHR ''/'' name"
  from assms have name: "nul \<notin> set name" "list_all plain_part ?parts" "p = root @ ?parts"
    by (simp_all add: pluginSourcePath_iff)
  then have "list_all safe_part ?parts"
    using strings_Split_chars strings_Split_no_sep unfolding list_all_iff safe_part_def by fast
  with name that show ?thesis by (metis strings_Split_nonempty)
qed

lemma lookup_node_root [simp]: "lookup_node root t root = Some DirN"
  by (simp add: lookup_node_def)

lemma makePluginSourceDirectory_Inr:
  assumes "list_all plain_part root" "list_all safe_part parts" "parts \<noteq> []"
    and "makePluginSourceDirectory root (butlast (root @ parts)) t w = (Inr t', w')" and ok: "source_tree_ok root t"
  shows "source_tree_ok root t' \<and> only_directories t t' \<and> parents_ok root t' parts"
proof -
  have split: "parts = butlast parts @ [last parts]" "butlast (root @ parts) = root @ butlast parts"
    using assms(3) by (simp_all add: butlast_append)
  with assms(4) have run: "make_directories root (root @ []) (butlast parts) t w = (Inr t', w')"
    by (auto simp: makePluginSourceDirectory_def filepath_Rel_prefix fail_iff split: if_splits)
  have *: "source_tree_ok root t' \<and> only_directories t t' \<and> parents_ok root t' ([] @ butlast parts) \<and>
      lookup_node root t' (root @ [] @ butlast parts) = Some DirN"
    by (rule make_directories_Inr [OF run ok]) (use list_all_butlast [OF assms(2)] in \<open>simp_all add: parents_ok_def\<close>)
  have "parents_ok root t' (butlast parts @ [last parts])"
    using * by (auto simp: parents_ok_def less_Suc_eq)
  with * split(1) show ?thesis by simp
qed

lemma materializeBlob_Inr:
  assumes "materializeBlob H env repo oid p len t w = (Inr t', w')"
  obtains c where "t' = t @ [(p, FileN c)]" "length c = len" "lookup_node (source_root H) t p = None"
  using assms unfolding materializeBlob_def
  by (auto simp: bindE_Inr_iff map_error_Inr_iff fail_iff return_iff split: if_splits prod.splits)

lemma createPluginSourceSymlink_Inr:
  assumes "createPluginSourceSymlink root p target t w = (Inr t', w')"
  shows "t' = t @ [(p, LinkN target)] \<and> lookup_node root t p = None"
  using assms unfolding createPluginSourceSymlink_def
  by (auto simp: bindE_Inr_iff map_error_Inr_iff fail_iff return_iff split: if_splits prod.splits)

lemma readBlob_Inr: "readBlob H env repo oid len w = (Inr c, w') \<Longrightarrow> length c = len"
  unfolding readBlob_def
  by (auto simp: bindE_Inr_iff map_error_Inr_iff fail_iff return_iff split: if_splits prod.splits)

lemma materialize_entry_steps:
  assumes "materialize_entry H env repo e (t, n) w = (Inr (t', n'), w')"
  obtains p t1 x w1 w2 where "pluginSourcePath (source_root H) (te_name e) = Some p"
    "makePluginSourceDirectory (source_root H) (butlast p) t w1 = (Inr t1, w2)"
    "t' = t1 @ [(p, x)]" "lookup_node (source_root H) t1 p = None" "x \<noteq> DirN" "n' = n + node_size x"
    "node_size x \<le> maxPluginSourceFileSize" "n' \<le> maxPluginSourceBytes" "\<forall>l. x = LinkN l \<longrightarrow> te_mode e = ''120000''"
proof -
  from assms obtain p where p: "pluginSourcePath (source_root H) (te_name e) = Some p"
    by (auto simp: materialize_entry_def fail_iff split: option.splits)
  with assms obtain t1 w1 w2 where dirs: "makePluginSourceDirectory (source_root H) (butlast p) t w1 = (Inr t1, w2)"
    by (auto simp: materialize_entry_def bindE_Inr_iff map_error_Inr_iff)
  have "\<exists>x w1 w2 t1. makePluginSourceDirectory (source_root H) (butlast p) t w1 = (Inr t1, w2) \<and>
    t' = t1 @ [(p, x)] \<and> lookup_node (source_root H) t1 p = None \<and> x \<noteq> DirN \<and> n' = n + node_size x \<and>
    node_size x \<le> maxPluginSourceFileSize \<and> n' \<le> maxPluginSourceBytes \<and> (\<forall>l. x = LinkN l \<longrightarrow> te_mode e = ''120000'')"
  proof (cases "te_mode e = ''100644'' \<or> te_mode e = ''100755''")
    case True
    with assms p obtain t1 w1 w2 w3 w4 len where run: "makePluginSourceDirectory (source_root H) (butlast p) t w1 = (Inr t1, w2)"
      "materializeBlob H env repo (te_objectID e) p len t1 w3 = (Inr t', w4)" "n' = n + len"
      "len \<le> maxPluginSourceFileSize" "n + len \<le> maxPluginSourceBytes"
      by (auto simp: materialize_entry_def bindE_Inr_iff map_error_Inr_iff fail_iff return_iff split: if_splits; blast)
    from run(2) obtain c where "t' = t1 @ [(p, FileN c)]" "length c = len" "lookup_node (source_root H) t1 p = None"
      by (rule materializeBlob_Inr)
    with run show ?thesis by (intro exI [of _ "FileN c"] exI [of _ w1] exI [of _ w2] exI [of _ t1]) (simp add: node_size_def)
  next
    case False
    with assms p obtain t1 w1 w2 w3 w4 w5 w6 len target where run: "makePluginSourceDirectory (source_root H) (butlast p) t w1 = (Inr t1, w2)"
      "readBlob H env repo (te_objectID e) len w3 = (Inr target, w4)" "createPluginSourceSymlink (source_root H) p target t1 w5 = (Inr t', w6)" "n' = n + len"
      "len \<le> maxPluginSourceFileSize" "n + len \<le> maxPluginSourceBytes" "te_mode e = ''120000''"
      by (auto simp: materialize_entry_def bindE_Inr_iff map_error_Inr_iff fail_iff return_iff split: if_splits; blast)
    with createPluginSourceSymlink_Inr [OF run(3)] readBlob_Inr [OF run(2)] show ?thesis
      by (intro exI [of _ "LinkN target"] exI [of _ w1] exI [of _ w2] exI [of _ t1]) (simp add: node_size_def)
  qed
  with p that show ?thesis by blast
qed

lemma materialize_entry_Inr:
  assumes root: "list_all plain_part (source_root H)" and w: "written_by (source_root H) es t n"
    and run: "materialize_entry H env repo e (t, n) w = (Inr (t', n'), w')"
  shows "written_by (source_root H) (es @ [e]) t' n'"
proof -
  from run obtain p t1 x w1 w2 where p: "pluginSourcePath (source_root H) (te_name e) = Some p"
    and dirs: "makePluginSourceDirectory (source_root H) (butlast p) t w1 = (Inr t1, w2)"
    and t': "t' = t1 @ [(p, x)]" and new: "lookup_node (source_root H) t1 p = None" and x: "x \<noteq> DirN" and n': "n' = n + node_size x"
    and bounds: "node_size x \<le> maxPluginSourceFileSize" "n' \<le> maxPluginSourceBytes" and link: "\<forall>l. x = LinkN l \<longrightarrow> te_mode e = ''120000''"
    by (rule materialize_entry_steps)
  from pluginSourcePath_safe [OF root p] obtain parts where parts: "p = source_root H @ parts" "parts \<noteq> []" "list_all safe_part parts" by blast
  from w have ok: "source_tree_ok (source_root H) t" by (simp add: written_by_def)
  from makePluginSourceDirectory_Inr [OF root parts(3,2) _ ok] dirs parts(1)
  have t1: "source_tree_ok (source_root H) t1" "only_directories t t1" "parents_ok (source_root H) t1 parts" by blast+
  have "source_tree_ok (source_root H) (t1 @ [(p, x)])"
    using source_tree_ok_add [OF t1(1) _ parts(3) t1(3)] new parts(1) by simp
  from written_by_add [OF written_by_directories [OF w t1(2,1)] this x bounds(1), of e] bounds(2) n' link p
  show ?thesis by (simp add: t')
qed

lemma materialize_entries_Inr:
  assumes root: "list_all plain_part (source_root H)"
  shows "written_by (source_root H) done t n \<Longrightarrow> materialize_entries H env repo es (t, n) w = (Inr (t', n'), w') \<Longrightarrow>
    written_by (source_root H) (done @ es) t' n'"
proof (induction es arbitrary: "done" t n w)
  case (Cons e es)
  from Cons.prems(2) obtain t1 n1 w1 where step: "materialize_entry H env repo e (t, n) w = (Inr (t1, n1), w1)"
    and rest: "materialize_entries H env repo es (t1, n1) w1 = (Inr (t', n'), w')"
    by (auto simp: bindE_Inr_iff)
  from Cons.IH [OF materialize_entry_Inr [OF root Cons.prems(1) step] rest] show ?case by simp
qed (simp add: return_iff)

lemma check_links_Inr:
  "check_links H resolved t es w = (Inr (), w') \<Longrightarrow> e \<in> set es \<Longrightarrow> te_mode e = ''120000'' \<Longrightarrow>
    \<exists>p target. pluginSourcePath (source_root H) (te_name e) = Some p \<and>
      eval_symlinks (source_fs H resolved t) goLinks [] p = Some target \<and> ensurePathWithinRoot resolved target"
proof (induction es arbitrary: w)
  case (Cons e' es)
  show ?case
  proof (cases "e = e'")
    case True
    with Cons.prems show ?thesis
      by (auto simp: bindE_Inr_iff fail_iff split: option.splits if_splits)
  next
    case False
    with Cons.prems(2) have e: "e \<in> set es" by simp
    from Cons.prems(1) obtain w1 where "check_links H resolved t es w1 = (Inr (), w')"
      by (auto simp: bindE_Inr_iff fail_iff split: option.splits if_splits)
    from Cons.IH [OF this e Cons.prems(3)] show ?thesis .
  qed
qed simp

lemma those_length: "those xs = Some ys \<Longrightarrow> length ys = length xs"
  by (induction xs arbitrary: ys) (auto split: option.splits)

lemma parsePluginSourceTree_length: "parsePluginSourceTree output = Some es \<Longrightarrow> length es \<le> maxPluginSourceEntries"
  by (auto simp: parsePluginSourceTree_def Let_def dest!: those_length split: if_splits)

lemma materializeCommit_Inr:
  assumes "materializeCommit H env repo commit w = (Inr t, w')"
  obtains es n resolved w1 w2 w3 w4 where "length es \<le> maxPluginSourceEntries"
    "materialize_entries H env repo es ([], 0) w1 = (Inr (t, n), w2)"
    "eval_symlinks (sh_fs H) goLinks [] (source_root H) = Some resolved" "check_links H resolved t es w3 = (Inr (), w4)"
  using assms unfolding materializeCommit_def
  by (fastforce simp: bindE_Inr_iff map_error_Inr_iff fail_iff return_iff dest: parsePluginSourceTree_length
      split: option.splits if_splits prod.splits)

section \<open>The source of an inspection\<close>

text \<open>A source within its bounds, whose links resolve inside it\<close>

definition links_inside :: "source_host \<Rightarrow> path \<Rightarrow> tree \<Rightarrow> bool" where
  "links_inside H resolved t \<longleftrightarrow>
     (\<forall>p l. (p, LinkN l) \<in> set t \<longrightarrow>
       (\<exists>target. eval_symlinks (source_fs H resolved t) goLinks [] p = Some target \<and> prefix resolved target))"

definition contained_source :: "source_host \<Rightarrow> tree \<Rightarrow> bool" where
  "contained_source H t \<longleftrightarrow>
     source_tree_ok (source_root H) t \<and> written_bytes t \<le> 256 * 2 ^ 20 \<and> (\<forall>x \<in> set t. node_size (snd x) \<le> 16 * 2 ^ 20) \<and>
     length (filter (\<lambda>x. snd x \<noteq> DirN) t) \<le> 10000 \<and>
     (\<exists>resolved. eval_symlinks (sh_fs H) goLinks [] (source_root H) = Some resolved \<and> links_inside H resolved t)"

lemma materialized_source_is_contained:
  assumes root: "list_all plain_part (source_root H)" and run: "materializeCommit H env repo commit w = (Inr t, w')"
  shows "contained_source H t"
proof -
  from run obtain es n resolved w1 w2 w3 w4 where es: "length es \<le> maxPluginSourceEntries"
    and entries: "materialize_entries H env repo es ([], 0) w1 = (Inr (t, n), w2)"
    and resolved: "eval_symlinks (sh_fs H) goLinks [] (source_root H) = Some resolved"
    and links: "check_links H resolved t es w3 = (Inr (), w4)"
    by (rule materializeCommit_Inr)
  have "written_by (source_root H) [] [] 0"
    by (simp add: written_by_def source_tree_ok_def written_bytes_def maxPluginSourceBytes_def)
  from materialize_entries_Inr [OF root this entries] have w: "written_by (source_root H) es t n" by simp
  have "\<exists>target. eval_symlinks (source_fs H resolved t) goLinks [] p = Some target \<and> prefix resolved target"
    if link: "(p, LinkN l) \<in> set t" for p l
  proof -
    from w link obtain e where e: "e \<in> set es" "te_mode e = ''120000''" "pluginSourcePath (source_root H) (te_name e) = Some p"
      unfolding written_by_def by blast
    from check_links_Inr [OF links e(1,2)] e(3) obtain target where
      t: "eval_symlinks (source_fs H resolved t) goLinks [] p = Some target" "ensurePathWithinRoot resolved target" by auto
    from eval_symlinks_result [OF t(1)] t show ?thesis by (auto simp: ensurePathWithinRoot_iff)
  qed
  then have "links_inside H resolved t" by (simp add: links_inside_def)
  with w es resolved show ?thesis
    by (simp add: contained_source_def written_by_def maxPluginSourceBytes_def maxPluginSourceFileSize_def maxPluginSourceEntries_def)
qed

text \<open>Walking through directories, and with more links to follow\<close>

lemma eval_symlinks_directories:
  assumes "list_all plain_part cs" "\<And>k. k < length cs \<Longrightarrow> fs (d @ take (Suc k) cs) = Some DirN"
  shows "eval_symlinks fs l d (cs @ rest) = eval_symlinks fs l (d @ cs) rest"
  using assms
proof (induction cs arbitrary: d)
  case (Cons c cs)
  have "fs (d @ [c]) = Some DirN" using Cons.prems(2) [of 0] by simp
  moreover have "fs ((d @ [c]) @ take (Suc k) cs) = Some DirN" if "k < length cs" for k
    using Cons.prems(2) [of "Suc k"] that by simp
  ultimately show ?case using Cons.IH [of "d @ [c]"] Cons.prems(1) by (simp add: plain_part_def)
qed simp

lemma eval_symlinks_more:
  "eval_symlinks fs k d cs = Some p \<Longrightarrow> k \<le> m \<Longrightarrow> eval_symlinks fs m d cs = Some p"
proof (induction fs k d cs arbitrary: m rule: eval_symlinks.induct)
  case (2 fs links dest c rest)
  consider "c = [] \<or> c = ''.''" | "c = ''..''" | "plain_part c" by (auto simp: plain_part_def)
  then show ?case
  proof cases
    case 1
    with "2.IH"(1) "2.prems" show ?thesis by simp
  next
    case 2: 2
    then have "c \<noteq> []" "c \<noteq> ''.''" by simp_all
    with 2 "2.IH"(2) "2.prems" show ?thesis by simp
  next
    case 3
    then have c: "\<not> (c = [] \<or> c = ''.'')" "c \<noteq> ''..''" by (auto simp: plain_part_def)
    show ?thesis
    proof (cases "fs (dest @ [c])")
      case None
      with "2.prems"(1) c show ?thesis by simp
    next
      case (Some n)
      show ?thesis
      proof (cases n)
        case DirN
        with Some c "2.IH"(3) [OF c Some DirN] "2.prems" show ?thesis by simp
      next
        case (FileN x)
        with Some c "2.prems"(1) show ?thesis by simp
      next
        case (LinkN target)
        with Some c "2.prems"(1) have links: "links \<noteq> 0" by (simp split: if_splits)
        with Some c LinkN "2.prems"(1)
        have "eval_symlinks fs (links - 1) (if filepath_IsAbs target then [] else dest) (strings_Split CHR ''/'' target @ rest) = Some p" by simp
        from "2.IH"(4) [OF c Some LinkN links this, of "m - 1"] "2.prems"(2) links Some c LinkN show ?thesis by simp
      qed
    qed
  qed
qed simp

text \<open>The temporary directory is reached without links.\<close>

definition plain_root :: "source_host \<Rightarrow> bool" where
  "plain_root H \<longleftrightarrow> list_all plain_part (source_root H) \<and> (\<forall>k < length (source_root H). sh_fs H (take (Suc k) (source_root H)) = Some DirN)"

lemma source_fs_below: "source_fs H (source_root H) t (source_root H @ p) = lookup_node (source_root H) t (source_root H @ p) \<or> p = []"
  by (cases p) (auto simp: source_fs_def lookup_node_def strict_prefix_def)

lemma plain_root_walk:
  assumes "plain_root H"
  shows "eval_symlinks (sh_fs H) l [] (source_root H) = Some (source_root H)"
    and "eval_symlinks (source_fs H (source_root H) t) l [] (source_root H @ p) = eval_symlinks (source_fs H (source_root H) t) l (source_root H) p"
proof -
  from assms have root: "list_all plain_part (source_root H)"
    "\<And>k. k < length (source_root H) \<Longrightarrow> sh_fs H ([] @ take (Suc k) (source_root H)) = Some DirN" by (simp_all add: plain_root_def)
  from eval_symlinks_directories [where d = "[]" and fs = "sh_fs H", OF root, of l "[]"] show "eval_symlinks (sh_fs H) l [] (source_root H) = Some (source_root H)" by simp
  have "\<not> strict_prefix (source_root H) (take (Suc k) (source_root H))" for k
    by (meson prefix_order.less_le_not_le take_is_prefix)
  with root(2) have "source_fs H (source_root H) t ([] @ take (Suc k) (source_root H)) = Some DirN" if "k < length (source_root H)" for k
    using that by (simp add: source_fs_def)
  from eval_symlinks_directories [where d = "[]" and fs = "source_fs H (source_root H) t", OF root(1) this, of l p]
  show "eval_symlinks (source_fs H (source_root H) t) l [] (source_root H @ p) = eval_symlinks (source_fs H (source_root H) t) l (source_root H) p" by simp
qed

lemma readPluginManifest_Inr:
  assumes root: "plain_root H" and t: "contained_source H t" and run: "readPluginManifest H t w = (Inr c, w')"
  shows "length c \<le> 2 ^ 20 \<and> (\<exists>directory. prefix (source_root H) directory \<and> (directory @ [''plugin.json''], FileN c) \<in> set t)"
proof -
  let ?fs = "source_fs H (source_root H) t"
  have plain: "list_all plain_part (source_root H @ pluginManifestPath)"
    using root by (simp add: plain_root_def pluginManifestPath_def plain_part_def)
  have "butlast (source_root H @ pluginManifestPath) = source_root H @ [''.claude-plugin'']" "last (source_root H @ pluginManifestPath) = ''plugin.json''"
    by (simp_all add: pluginManifestPath_def butlast_append)
  with run plain obtain directory where directory: "eval_symlinks ?fs kernelLinks [] (source_root H @ [''.claude-plugin'']) = Some directory"
    and found: "?fs (directory @ [''plugin.json'']) = Some (FileN c)" and len: "length c \<le> maxPluginManifestBytes"
    unfolding readPluginManifest_def
    by (auto simp: Let_def filepath_Clean_plain plain_root_walk(1) [OF root] bindE_Inr_iff map_error_Inr_iff fail_iff return_iff
        split: if_splits option.splits node.splits)
  have "prefix (source_root H) directory"
  proof (cases "?fs (source_root H @ [''.claude-plugin''])")
    case None
    with directory show ?thesis by (simp add: plain_root_walk(2) [OF root])
  next
    case (Some n)
    show ?thesis
    proof (cases "\<exists>l. n = LinkN l")
      case False
      with Some directory show ?thesis by (cases n) (auto simp: plain_root_walk(2) [OF root])
    next
      case True
      with Some obtain l where "map_of t (source_root H @ [''.claude-plugin'']) = Some (LinkN l)"
        by (auto simp: source_fs_def strict_prefix_def)
      then have "(source_root H @ [''.claude-plugin''], LinkN l) \<in> set t" by (rule map_of_SomeD)
      moreover from t have "links_inside H (source_root H) t" by (auto simp: contained_source_def plain_root_walk(1) [OF root])
      ultimately obtain target where "eval_symlinks ?fs goLinks [] (source_root H @ [''.claude-plugin'']) = Some target" "prefix (source_root H) target"
        unfolding links_inside_def by blast
      with eval_symlinks_more [OF directory, of goLinks] show ?thesis by (simp add: goLinks_def kernelLinks_def)
    qed
  qed
  moreover from this obtain q where "directory = source_root H @ q" by (auto simp: prefix_def)
  with found have "(directory @ [''plugin.json''], FileN c) \<in> set t"
    by (auto simp: source_fs_def strict_prefix_def dest: map_of_SomeD split: if_splits)
  ultimately show ?thesis using len by (auto simp: maxPluginManifestBytes_def)
qed

lemma printed_object_Inr: "printed_object H args w = (Inr oid, w') \<Longrightarrow> validGitObjectID oid"
  by (auto simp: printed_object_def bindE_Inr_iff fail_iff return_iff split: if_splits prod.splits)

lemma inspect_source_Inr:
  assumes root: "plain_root H" and run: "inspect_source H env repo raw commit expected g w = (Inr i, w')"
  shows "ins_RawTagObjectID i = raw \<and> ins_CommitObjectID i = commit \<and> length (ins_ManifestSnapshot i) \<le> 2 ^ 20 \<and>
    ins_ManifestDigest i = hex_EncodeToString (sh_SHA256 H (ins_ManifestSnapshot i)) \<and>
    (\<exists>t directory. contained_source H t \<and> sh_profile H t (ins_ManifestSnapshot i) expected = None \<and>
      prefix (source_root H) directory \<and> (directory @ [''plugin.json''], FileN (ins_ManifestSnapshot i)) \<in> set t)"
proof -
  from run obtain t w1 w2 manifest w3 w4 where t: "materializeCommit H env repo commit w1 = (Inr t, w2)"
    and manifest: "readPluginManifest H t w3 = (Inr manifest, w4)" and profile: "sh_profile H t manifest expected = None"
    and i: "i = \<lparr>ins_RawTagObjectID = raw, ins_CommitObjectID = commit,
       ins_ManifestDigest = hex_EncodeToString (sh_SHA256 H manifest), ins_ManifestSnapshot = manifest\<rparr>"
    by (auto simp: inspect_source_def bindE_Inr_iff map_error_Inr_iff fail_iff return_iff split: option.splits)
  from root have "list_all plain_part (source_root H)" by (simp add: plain_root_def)
  from materialized_source_is_contained [OF this t] have "contained_source H t" .
  from readPluginManifest_Inr [OF root this manifest] \<open>contained_source H t\<close> i profile show ?thesis by auto
qed

section \<open>The inspection reads\<close>

definition git_reads :: "source_host \<Rightarrow> bool" where
  "git_reads H \<longleftrightarrow> (\<forall>env args. reads (sh_git H env args))"

lemma reads_sh_git [read_only]: "git_reads H \<Longrightarrow> reads (sh_git H env args)"
  by (simp add: git_reads_def)

lemma reads_case_node [read_only]:
  "reads d \<Longrightarrow> (\<And>c. reads (f c)) \<Longrightarrow> (\<And>l. reads (g l)) \<Longrightarrow> reads (case n of DirN \<Rightarrow> d | FileN c \<Rightarrow> f c | LinkN l \<Rightarrow> g l)"
  by (cases n) simp_all

lemma reads_make_directories [read_only]: "reads (make_directories root current parts t)"
  by (induction parts arbitrary: current t) (unfold make_directories.simps, (intro read_only | assumption)+)

lemma reads_source_writes [read_only]:
  assumes H: "git_reads H"
  shows "reads (objectSize H env repo oid)" "reads (materializeBlob H env repo oid p len t)" "reads (readBlob H env repo oid len)"
    "reads (createPluginSourceSymlink root p target t)" "reads (makePluginSourceDirectory root directory t)"
  unfolding objectSize_def materializeBlob_def readBlob_def cat_blob_def createPluginSourceSymlink_def makePluginSourceDirectory_def
  by (intro read_only H)+

lemma reads_materialize_entries [read_only]: "git_reads H \<Longrightarrow> reads (materialize_entries H env repo es acc)"
  by (induction es arbitrary: acc) (simp_all add: materialize_entry_def, (intro read_only | assumption)+)

lemma reads_check_links [read_only]: "reads (check_links H resolved t es)"
  by (induction es) (simp_all, (intro read_only | intro impI conjI | assumption)+)

lemma reads_inspect_source [read_only]: "git_reads H \<Longrightarrow> reads (inspect_source H env repo raw commit expected g)"
  unfolding inspect_source_def materializeCommit_def readPluginManifest_def Let_def by (intro read_only | assumption)+

lemma pure_source_inspector: "git_reads H \<Longrightarrow> pure_inspector (Some (InspectPluginSource H))"
  unfolding pure_inspector_def InspectPluginSource_def resolveRawRefObjectID_def peelCommit_def printed_object_def
  by (auto intro!: read_only)

section \<open>A source with a link\<close>

definition link_record1 :: string where
  "link_record1 = ''100644 blob '' @ replicate 40 CHR ''a'' @ [CHR 0x09] @ ''.claude-plugin/plugin.json''"

definition link_record2 :: string where
  "link_record2 = ''120000 blob '' @ replicate 40 CHR ''b'' @ [CHR 0x09] @ ''docs/about''"

definition link_listing :: string where
  "link_listing = link_record1 @ nul # link_record2 @ nul # []"

definition link_git :: "string list \<Rightarrow> string list \<Rightarrow> (bool \<times> string) prog" where
  "link_git env args =
     (let oid = last args in
      return (True,
        if args ! 1 = ''ls-tree'' then link_listing
        else if args ! 2 = ''-s'' then (if hd oid = CHR ''a'' then ''2'' else ''17'')
        else if args ! 2 = ''blob'' then (if hd oid = CHR ''a'' then ''{}'' else ''../.claude-plugin'')
        else replicate 40 CHR ''c''))"

definition link_host :: source_host where
  "link_host = \<lparr>sh_git = link_git, sh_Getenv = (\<lambda>_. []), sh_temp = [''tmp'', ''source-1''],
     sh_fs = (\<lambda>p. if prefix p [''tmp'', ''source-1'', ''source''] then Some DirN else None),
     sh_SHA256 = (\<lambda>_. replicate 32 CHR ''d''), sh_profile = (\<lambda>t manifest slug. None)\<rparr>"

definition link_root :: path where "link_root = [''tmp'', ''source-1'', ''source'']"

lemma link_root [simp]: "source_root link_host = link_root"
  by (simp add: source_root_def link_host_def link_root_def)

definition link_tree :: tree where
  "link_tree =
     [(link_root @ [''.claude-plugin''], DirN), (link_root @ [''.claude-plugin'', ''plugin.json''], FileN ''{}''),
      (link_root @ [''docs''], DirN), (link_root @ [''docs'', ''about''], LinkN ''../.claude-plugin'')]"

lemma link_git_reads: "git_reads link_host"
  by (simp add: git_reads_def link_host_def link_git_def Let_def reads_return)

lemma link_records: "strings_Split nul link_listing = [link_record1, link_record2, []]" "length link_listing = 144"
  by code_simp+

lemma link_parsed:
  "parse_tree_entry link_record1 = Some \<lparr>te_mode = ''100644'', te_objectID = replicate 40 CHR ''a'', te_name = ''.claude-plugin/plugin.json''\<rparr>"
  "parse_tree_entry link_record2 = Some \<lparr>te_mode = ''120000'', te_objectID = replicate 40 CHR ''b'', te_name = ''docs/about''\<rparr>"
  by code_simp+

lemma link_tree_listing: "parsePluginSourceTree link_listing =
    Some [\<lparr>te_mode = ''100644'', te_objectID = replicate 40 CHR ''a'', te_name = ''.claude-plugin/plugin.json''\<rparr>,
      \<lparr>te_mode = ''120000'', te_objectID = replicate 40 CHR ''b'', te_name = ''docs/about''\<rparr>]"
  by (simp add: parsePluginSourceTree_def link_records link_parsed maxPluginSourceEntries_def Let_def)

lemma link_paths:
  "pluginSourcePath (link_root) ''.claude-plugin/plugin.json'' = Some (link_root @ [''.claude-plugin'', ''plugin.json''])"
  "pluginSourcePath (link_root) ''docs/about'' = Some (link_root @ [''docs'', ''about''])"
  by code_simp+

lemma link_scans: "fmt_Fscan ''2'' = Some 2" "fmt_Fscan ''17'' = Some 17"
proof -
  have "strip_prefixes space_encodings ''2'' = ''2''" "scan_number ''2'' = Some 2"
    "strip_prefixes space_encodings ''17'' = ''17''" "scan_number ''17'' = Some 17" by code_simp+
  then show "fmt_Fscan ''2'' = Some 2" "fmt_Fscan ''17'' = Some 17" by (simp_all add: fmt_Fscan_def int64_of_def)
qed

lemma link_runs:
  "w_io w = [] \<Longrightarrow> os_call w = (Inr (), w)"
  "objectSize link_host env repo (replicate 40 CHR ''a'') w = (Inr 2, w)"
  "objectSize link_host env repo (replicate 40 CHR ''b'') w = (Inr 17, w)"
  "cat_blob link_host env repo (replicate 40 CHR ''a'') w = (Inr (True, ''{}''), w)"
  "cat_blob link_host env repo (replicate 40 CHR ''b'') w = (Inr (True, ''../.claude-plugin''), w)"
  by (simp_all add: os_call_def io_step_def objectSize_def cat_blob_def link_host_def link_git_def
      Let_def link_scans bindE_def return_def numeral_eq_Suc)

lemma link_directories:
  "filepath_Rel (link_root) (butlast (link_root @ [''.claude-plugin'', ''plugin.json''])) = [''.claude-plugin'']"
  "filepath_Rel (link_root) (butlast (link_root @ [''docs'', ''about''])) = [''docs'']"
  "ensurePathWithinRoot (link_root) (butlast (link_root @ [''.claude-plugin'', ''plugin.json'']))"
  "ensurePathWithinRoot (link_root) (butlast (link_root @ [''docs'', ''about'']))"
  "ensurePathWithinRoot (link_root) (filepath_Clean [] (butlast (link_root @ [''docs'', ''about'']) @ strings_Split CHR ''/'' ''../.claude-plugin''))"
  by code_simp+

lemmas link_step = materialize_entry_def link_paths link_directories link_runs makePluginSourceDirectory_def materializeBlob_def readBlob_def
  createPluginSourceSymlink_def bindE_def map_error_def return_def lookup_node_def link_tree_def maxPluginSourceFileSize_def maxPluginSourceBytes_def
  filepath_IsAbs_def nul_def

lemma link_step1:
  "w_io w = [] \<Longrightarrow> materialize_entry link_host env repo \<lparr>te_mode = ''100644'', te_objectID = replicate 40 CHR ''a'', te_name = ''.claude-plugin/plugin.json''\<rparr> ([], 0) w
   = (Inr (take 2 link_tree, 2), w)"
  by (simp add: link_step) (simp add: link_root_def)?

lemma link_step2:
  "w_io w = [] \<Longrightarrow> materialize_entry link_host env repo \<lparr>te_mode = ''120000'', te_objectID = replicate 40 CHR ''b'', te_name = ''docs/about''\<rparr> (take 2 link_tree, 2) w
   = (Inr (link_tree, 19), w)"
  by (simp add: link_step) (simp add: link_root_def ensurePathWithinRoot_def)

lemma link_resolved:
  "eval_symlinks (sh_fs link_host) goLinks [] link_root = Some link_root"
  "eval_symlinks (source_fs link_host link_root link_tree) goLinks [] (link_root @ [''docs'', ''about'']) = Some (link_root @ [''.claude-plugin''])"
  "ensurePathWithinRoot link_root (link_root @ [''.claude-plugin''])"
  by code_simp+

lemma link_source:
  assumes "w_io w = []"
  shows "materializeCommit link_host env repo (replicate 40 CHR ''c'') w = (Inr link_tree, w)"
proof -
  have git: "args ! 1 = ''ls-tree'' \<Longrightarrow> sh_git link_host env args v = (Inr (True, link_listing), v)" for args v
    by (simp add: link_host_def link_git_def Let_def return_def)
  from assms show ?thesis
    by (simp add: materializeCommit_def git link_runs link_records link_tree_listing link_step1 link_step2 link_resolved link_paths
        bindE_def map_error_def return_def maxTreeListing_def)
qed

lemma link_manifest:
  assumes "w_io w = []"
  shows "readPluginManifest link_host link_tree w = (Inr ''{}'', w)"
proof -
  have "filepath_Clean [] (link_root @ pluginManifestPath) = link_root @ pluginManifestPath" "ensurePathWithinRoot link_root (link_root @ pluginManifestPath)"
    "eval_symlinks (sh_fs link_host) kernelLinks [] link_root = Some link_root"
    "eval_symlinks (source_fs link_host link_root link_tree) kernelLinks [] (butlast (link_root @ pluginManifestPath)) = Some (link_root @ [''.claude-plugin''])"
    "source_fs link_host link_root link_tree ((link_root @ [''.claude-plugin'']) @ [last (link_root @ pluginManifestPath)]) = Some (FileN ''{}'')"
    by code_simp+
  with assms show ?thesis
    by (simp add: readPluginManifest_def Let_def link_runs bindE_def map_error_def return_def maxPluginManifestBytes_def)
qed

definition link_world :: world where
  "link_world = demo_world\<lparr>w_storage := empty_storage\<lparr>bare_repositories := [(''plugin-1'', 0)]\<rparr>\<rparr>"

lemma link_inspection:
  "InspectPluginSource link_host ''plugin-1'' ''v1.0.0'' ''linter'' link_world =
     (Inr \<lparr>ins_RawTagObjectID = replicate 40 CHR ''c'', ins_CommitObjectID = replicate 40 CHR ''c'',
        ins_ManifestDigest = hex_EncodeToString (replicate 32 CHR ''d''), ins_ManifestSnapshot = ''{}''\<rparr>, link_world)"
proof -
  have io: "w_io link_world = []" by (simp add: link_world_def demo_world_def)
  have patterns: "validateRepositoryID ''plugin-1'' = None" "MatchString canonicalTagPattern ''v1.0.0''" "MatchString slugPattern ''linter''" 
    by code_simp+
  have repo: "existingRepositoryPath ''plugin-1'' link_world = (Inr ''plugin-1'', link_world)"
    using io by (simp add: existingRepositoryPath_def patterns hook_def stat_repository_def gets_def link_runs bindE_def return_def
        has_repository_def) (simp add: link_world_def)
  have oid: "validGitObjectID (replicate 40 CHR ''c'')" "strings_TrimSpace (replicate 40 CHR ''c'') = replicate 40 CHR ''c''"
    by code_simp+
  have printed: "printed_object link_host (a # cmd # x # args) w = (Inr (replicate 40 CHR ''c''), w)" if "cmd \<noteq> ''ls-tree''" "x \<noteq> ''-s''" "x \<noteq> ''blob''" for a cmd x args w
    using that oid by (simp add: printed_object_def link_host_def link_git_def Let_def bindE_def return_def)
  show ?thesis
    using io
    by (simp add: InspectPluginSource_def patterns repo resolveRawRefObjectID_def peelCommit_def printed inspect_source_def link_source
        link_manifest link_runs bindE_def map_error_def return_def) (simp add: link_host_def return_def)
qed

section \<open>What is inspected\<close>

text \<open>C9. An inspection that succeeds is of a source within bounds whose links stay inside it, and of a manifest that is a
  file of that source: at most 10000 files and links of at most 16 MiB each and 256 MiB together are written, every
  node below directories that are no links, every link resolves inside the source, and the manifest of at most 1 MiB
  that is validated and recorded with its digest is the file of the source, even where its directory is a link.\<close>

theorem inspected_manifest_is_of_the_source:
  assumes "plain_root H" and run: "InspectPluginSource H repositoryID tag slug w = (Inr i, w')"
  shows "MatchString canonicalTagPattern tag \<and> validGitObjectID (ins_RawTagObjectID i) \<and> validGitObjectID (ins_CommitObjectID i) \<and>
    length (ins_ManifestSnapshot i) \<le> 2 ^ 20 \<and> ins_ManifestDigest i = hex_EncodeToString (sh_SHA256 H (ins_ManifestSnapshot i)) \<and>
    (\<exists>t directory. contained_source H t \<and> sh_profile H t (ins_ManifestSnapshot i) slug = None \<and>
      prefix (source_root H) directory \<and> (directory @ [''plugin.json''], FileN (ins_ManifestSnapshot i)) \<in> set t)"
proof -
  from run obtain raw commit repo w1 w2 w3 w4 w5 w6 where tag: "MatchString canonicalTagPattern tag"
    and raw: "resolveRawRefObjectID H repo tag w1 = (Inr raw, w2)" and commit: "peelCommit H repo raw w3 = (Inr commit, w4)"
    and inspect: "inspect_source H (pluginSourceGitEnv H) repo raw commit slug id w5 = (Inr i, w6)"
    by (fastforce simp: InspectPluginSource_def bindE_Inr_iff map_error_Inr_iff fail_iff split: option.splits if_splits)
  from raw commit have ids: "validGitObjectID raw" "validGitObjectID commit"
    by (auto simp: resolveRawRefObjectID_def peelCommit_def dest: printed_object_Inr)
  with inspect_source_Inr [OF assms(1) inspect] tag show ?thesis by simp
qed

theorem inspected_manifest_is_of_the_source_witness:
  "\<exists>t directory. contained_source link_host t \<and> sh_profile link_host t ''{}'' ''linter'' = None \<and>
     prefix (source_root link_host) directory \<and> (directory @ [''plugin.json''], FileN ''{}'') \<in> set t"
proof -
  have "list_all plain_part link_root \<and> list_all (\<lambda>k. sh_fs link_host (take (Suc k) link_root) = Some DirN) [0..<length link_root]"
    by code_simp
  then have "plain_root link_host" by (simp add: plain_root_def list_all_iff)
  from inspected_manifest_is_of_the_source [OF this link_inspection] show ?thesis by simp
qed

end
