(* ===== verification/ReceiveSessionProps.thy ===== *)
theory ReceiveSessionProps imports ReceiveSession PluginSourceProps begin

text \<open>
  A push as a whole: what the client is told follows the refs, and a tag of an accepted push is of an
  inspected source.
\<close>

section \<open>Programs that leave the refs alone\<close>

named_theorems ref_frame \<open>programs that leave the refs of the repositories unchanged\<close>

definition refs_of :: "world \<Rightarrow> string \<times> string \<Rightarrow> string option" where
  "refs_of w = git_refs (w_storage w)"

definition leaves_refs :: "'a prog \<Rightarrow> bool" where
  "leaves_refs m \<longleftrightarrow> (\<forall>w. refs_of (snd (m w)) = refs_of w)"

lemma leaves_refsD: "leaves_refs m \<Longrightarrow> m w = (r, w') \<Longrightarrow> refs_of w' = refs_of w"
  unfolding leaves_refs_def by (metis snd_conv)

lemma leaves_refs_primitive [ref_frame]:
  "leaves_refs (return x)" "leaves_refs (fail e)" "leaves_refs (guardE b e)" "leaves_refs (of_sum s)" "leaves_refs (gets f)"
  "leaves_refs now" "leaves_refs new_id" "leaves_refs (hook h)" "leaves_refs os_call"
  by (auto simp: leaves_refs_def refs_of_def return_def fail_def guardE_def of_sum_def gets_def now_def new_id_def hook_def
      os_call_def io_step_def split: sum.splits option.splits io_outcome.splits)

lemma leaves_refs_statement [ref_frame]: "leaves_refs (statement f)"
  by (auto simp: leaves_refs_def refs_of_def statement_def split: prod.splits)

lemma leaves_refs_statements [ref_frame]:
  "leaves_refs (query q)" "leaves_refs (take_row t)" "leaves_refs (exec f)" "leaves_refs (insert_row r u f)"
  "leaves_refs (exec_checked c f)" "leaves_refs (exec_count n f)"
  by (simp_all add: query_def take_row_def exec_def insert_row_def exec_checked_def exec_count_def leaves_refs_statement)

lemma leaves_refs_updates [ref_frame]:
  "leaves_refs (update_rows table set_table chk P f)" "leaves_refs (update_plugins b P2 f2)" "leaves_refs (update_versions P3 f3)"
  "leaves_refs (update_batches P4 f4)" "leaves_refs (update_intents P5 f5)" "leaves_refs (update_artifacts P6 f6)"
  "leaves_refs (update_pointers P7 f7)" "leaves_refs (update_transitions P8 f8)" "leaves_refs (update_jobs P9 f9)"
  by (simp_all add: update_rows_def update_plugins_def update_versions_def update_batches_def update_intents_def update_artifacts_def
      update_pointers_def update_transitions_def update_jobs_def leaves_refs_statement)

lemma leaves_refs_bindE [ref_frame]: "leaves_refs m \<Longrightarrow> (\<And>x. leaves_refs (f x)) \<Longrightarrow> leaves_refs (bindE m f)"
  by (auto simp: leaves_refs_def bindE_def split: prod.splits sum.splits) (metis snd_conv)+

lemma leaves_refs_attempt [ref_frame]: "leaves_refs m \<Longrightarrow> (\<And>r. leaves_refs (k r)) \<Longrightarrow> leaves_refs (attempt m k)"
  by (auto simp: leaves_refs_def attempt_def split: prod.splits) (metis snd_conv)

lemma leaves_refs_map_error [ref_frame]: "leaves_refs m \<Longrightarrow> leaves_refs (map_error h m)"
  by (auto simp: leaves_refs_def map_error_def split: prod.splits sum.splits) (metis snd_conv)+

lemma leaves_refs_transaction [ref_frame]: "leaves_refs m \<Longrightarrow> leaves_refs (transaction m)"
  using leaves_refs_statements(3) [of id]
  by (auto simp: leaves_refs_def transaction_def refs_of_def split: prod.splits sum.splits) (metis snd_conv)+

lemma leaves_refs_cases [ref_frame]:
  "leaves_refs m \<Longrightarrow> leaves_refs m' \<Longrightarrow> leaves_refs (if b then m else m')"
  "(\<And>e. leaves_refs (l e)) \<Longrightarrow> (\<And>x. leaves_refs (g x)) \<Longrightarrow> leaves_refs (case s of Inl e \<Rightarrow> l e | Inr x \<Rightarrow> g x)"
  "leaves_refs n \<Longrightarrow> (\<And>x. leaves_refs (g x)) \<Longrightarrow> leaves_refs (case r of None \<Rightarrow> n | Some x \<Rightarrow> g x)"
  "(\<And>x y. leaves_refs (h x y)) \<Longrightarrow> leaves_refs (case p of (x, y) \<Rightarrow> h x y)"
  "(\<And>x. leaves_refs (g x)) \<Longrightarrow> leaves_refs (let x = t in g x)"
  by (simp_all add: Let_def split: sum.splits option.splits prod.splits)

lemma leaves_refs_loops [ref_frame]:
  "(\<And>x. leaves_refs (f x)) \<Longrightarrow> leaves_refs (forE f xs)" "(\<And>x. leaves_refs (g x)) \<Longrightarrow> leaves_refs (mapE g xs)"
  "leaves_refs m \<Longrightarrow> leaves_refs (ignore_error m)" "leaves_refs m' \<Longrightarrow> leaves_refs (cas e m')"
proof -
  show "leaves_refs (forE f xs)" if "\<And>x. leaves_refs (f x)"
    using that by (induction xs) (simp_all, (intro ref_frame | assumption)+)
  show "leaves_refs (mapE g xs)" if "\<And>x. leaves_refs (g x)"
    using that by (induction xs) (simp_all, (intro ref_frame | assumption)+)
  show "leaves_refs (ignore_error m)" if "leaves_refs m"
    unfolding ignore_error_def using that by (intro ref_frame)
  show "leaves_refs (cas e m')" if "leaves_refs m'"
    unfolding cas_def using that by (intro ref_frame)
qed

section \<open>The lifecycle leaves the refs alone\<close>

definition builder_leaves_refs :: "builder \<Rightarrow> bool" where
  "builder_leaves_refs B \<longleftrightarrow>
     (\<forall>c. leaves_refs (bld_Build B c)) \<and> (\<forall>p. leaves_refs (bld_Remove B p)) \<and> (\<forall>p d. leaves_refs (bld_Verify B p d))"

lemma builder_leaves_refsD [ref_frame]:
  "builder_leaves_refs B \<Longrightarrow> leaves_refs (bld_Build B c)" "builder_leaves_refs B \<Longrightarrow> leaves_refs (bld_Remove B p)"
  "builder_leaves_refs B \<Longrightarrow> leaves_refs (bld_Verify B p d)"
  unfolding builder_leaves_refs_def by blast+

lemma leaves_refs_removeBuilt [ref_frame]: "builder_leaves_refs B \<Longrightarrow> leaves_refs (removeBuilt B ps)"
  unfolding removeBuilt_def by (intro ref_frame | assumption)+

lemma leaves_refs_coordination [ref_frame]: "leaves_refs (Open pid sid)" "leaves_refs (Close co)"
  unfolding Open_def Close_def LockPlugin_def by (intro ref_frame)+

lemma leaves_refs_classify [ref_frame]: "leaves_refs (classify pid seen cs)"
  by (induction cs arbitrary: seen) (simp_all, (intro ref_frame impI conjI | assumption)+)

lemma leaves_refs_preflight [ref_frame]: "leaves_refs (preflight_plan pid plan)"
  unfolding preflight_plan_def preflight_revision_def count_zero_def by (intro ref_frame)

lemma leaves_refs_build_plans [ref_frame]:
  assumes B: "builder_leaves_refs B"
  shows "leaves_refs (build_plans B pid built plans)"
proof -
  have revisions: "leaves_refs (build_revisions B pid c built rvs)" for c built rvs
    by (induction rvs arbitrary: built) (simp_all, (intro ref_frame B impI conjI | assumption)+)
  show ?thesis
    by (induction plans arbitrary: built) (simp_all, (intro ref_frame B revisions impI conjI | assumption)+)
qed

lemma leaves_refs_loads [ref_frame]: "leaves_refs (loadPrepared bid)" "leaves_refs (loadSession co)"
  unfolding loadPrepared_def loadSession_def by (intro ref_frame)+

lemma leaves_refs_Prepare [ref_frame]: "builder_leaves_refs B \<Longrightarrow> leaves_refs (Prepare B co batch)"
  unfolding Prepare_def persistPrepared_def persist_plan_def persist_revision_def stage_projection_def
    create_batch_def create_intent_def create_artifact_def create_transition_def Let_def
  by (intro ref_frame | assumption)+

lemma leaves_refs_dispositions [ref_frame]:
  "leaves_refs m1 \<Longrightarrow> leaves_refs m2 \<Longrightarrow> leaves_refs m3 \<Longrightarrow>
     leaves_refs (case disp of ReceiveCompleted \<Rightarrow> m1 | ReceiveAborted \<Rightarrow> m2 | ReceiveManualRequired \<Rightarrow> m3)"
  "leaves_refs m4 \<Longrightarrow> leaves_refs m5 \<Longrightarrow> leaves_refs (case op of ReceiveOperationMove \<Rightarrow> m4 | ReceiveOperationDelete \<Rightarrow> m5)"
  by (simp_all split: disposition.splits receive_operation.splits)

lemma leaves_refs_resolution [ref_frame]:
  "leaves_refs (markManual bid xs reason)" "leaves_refs (loadResolutionState bid)" "leaves_refs (applyResolution b intents xs disp)"
  "builder_leaves_refs B \<Longrightarrow> leaves_refs (verify_staged B bid xs x)"
  unfolding markManual_def manual_transition_def manual_batch_rows_def manual_intent_rows_def withdraw_pointer_def
    loadResolutionState_def applyResolution_def resolve_intent_def completeIntent_def abortIntent_def abort_transition_def
    complete_transition_def switch_pointer_def finish_transition_def finish_batch_def finish_intent_def ready_artifact_def
    move_version_def delete_version_def create_history_def enqueueGC_def verify_staged_def
  by (intro ref_frame | assumption)+

lemma leaves_refs_Resolve [ref_frame]: "builder_leaves_refs B \<Longrightarrow> leaves_refs (Resolve B co prepared res)"
  unfolding Resolve_def by (intro ref_frame | assumption)+

section \<open>The reads of a session\<close>

definition git_leaves_refs :: "source_host \<Rightarrow> bool" where
  "git_leaves_refs H \<longleftrightarrow> (\<forall>env args. leaves_refs (sh_git H env args))"

lemma leaves_refs_git [ref_frame]: "git_leaves_refs H \<Longrightarrow> leaves_refs (sh_git H env args)"
  by (simp add: git_leaves_refs_def)

lemma leaves_refs_case_node [ref_frame]:
  "leaves_refs d \<Longrightarrow> (\<And>c. leaves_refs (f c)) \<Longrightarrow> (\<And>l. leaves_refs (g l)) \<Longrightarrow>
     leaves_refs (case n of DirN \<Rightarrow> d | FileN c \<Rightarrow> f c | LinkN l \<Rightarrow> g l)"
  by (cases n) simp_all

lemma leaves_refs_make_directories [ref_frame]: "leaves_refs (make_directories root current parts t)"
  by (induction parts arbitrary: current t) (unfold make_directories.simps, (intro ref_frame | assumption)+)

lemma leaves_refs_source_writes [ref_frame]:
  assumes H: "git_leaves_refs H"
  shows "leaves_refs (objectSize H env repo oid)" "leaves_refs (materializeBlob H env repo oid p len t)"
    "leaves_refs (readBlob H env repo oid len)" "leaves_refs (createPluginSourceSymlink root p target t)"
    "leaves_refs (makePluginSourceDirectory root directory t)"
  unfolding objectSize_def materializeBlob_def readBlob_def cat_blob_def createPluginSourceSymlink_def makePluginSourceDirectory_def
  by (intro ref_frame H)+

lemma leaves_refs_materialize_entries [ref_frame]: "git_leaves_refs H \<Longrightarrow> leaves_refs (materialize_entries H env repo es acc)"
  by (induction es arbitrary: acc) (simp_all add: materialize_entry_def, (intro ref_frame | assumption)+)

lemma leaves_refs_check_links [ref_frame]: "leaves_refs (check_links H resolved t es)"
  by (induction es) (simp_all, (intro ref_frame | intro impI conjI | assumption)+)

lemma leaves_refs_inspectCommit [ref_frame]: "git_leaves_refs H \<Longrightarrow> leaves_refs (inspectCommit H env repo raw commit expected)"
  unfolding inspectCommit_def inspect_source_def materializeCommit_def readPluginManifest_def Let_def by (intro ref_frame | assumption)+

lemma leaves_refs_ReadPluginRef [ref_frame]: "leaves_refs (ReadPluginRef rid refName)"
  unfolding ReadPluginRef_def existingRepositoryPath_def stat_repository_def by (intro ref_frame)

lemma leaves_refs_classifyTag [ref_frame]: "(\<And>oid. leaves_refs (peel oid)) \<Longrightarrow> leaves_refs (classifyTag peel tag c)"
  unfolding classifyTag_def Let_def by (intro ref_frame | assumption)+

lemma leaves_refs_canonical_tags [ref_frame]:
  "(\<And>oid. leaves_refs (peel oid)) \<Longrightarrow> (\<And>t. leaves_refs (check t)) \<Longrightarrow> leaves_refs (canonical_tags peel check cs)"
  by (induction cs) (simp_all, (intro ref_frame | assumption)+)

lemma leaves_refs_closing [ref_frame]: "leaves_refs m \<Longrightarrow> leaves_refs (closing co m)" "leaves_refs m \<Longrightarrow> leaves_refs (closing_on_error co m)"
  unfolding closing_def closing_on_error_def by (intro ref_frame | assumption)+

lemma leaves_refs_lifecycle:
  assumes "git_leaves_refs (rs_Source R)" "builder_leaves_refs (rs_Builder R)"
  shows "leaves_refs (lifecycle_Prepare R cs)" "leaves_refs (lifecycle_Finalize R s)"
  unfolding lifecycle_Prepare_def lifecycle_Finalize_def inspect_tag_def reread_refs_def PeelCommit_def
  by (intro ref_frame assms)+

lemma leaves_refs_protected_lifecycle:
  assumes "git_leaves_refs (rs_Source R)" "builder_leaves_refs (rs_Builder R)"
  shows "leaves_refs (lc_Prepare (protected_lifecycle R) cs)" "leaves_refs (lc_Finalize (protected_lifecycle R) s)"
  by (simp_all add: protected_lifecycle_def leaves_refs_lifecycle assms)

section \<open>The ref transaction\<close>

text \<open>A command of a push, on the refs of a repository: it wants the old value, and sets the new one.\<close>

definition holds_old :: "string \<Rightarrow> (string \<times> string \<Rightarrow> string option) \<Rightarrow> receive_command \<Rightarrow> bool" where
  "holds_old repo refs c \<longleftrightarrow>
     refs (repo, rc_RefName c) = (if allZeroObjectID (rc_OldObjectID c) then None else Some (rc_OldObjectID c))"

definition apply_command :: "string \<Rightarrow> receive_command \<Rightarrow> (string \<times> string \<Rightarrow> string option) \<Rightarrow> string \<times> string \<Rightarrow> string option" where
  "apply_command repo c refs =
     refs((repo, rc_RefName c) := (if allZeroObjectID (rc_NewObjectID c) then None else Some (rc_NewObjectID c)))"

text \<open>
  \<open>git update-ref --stdin\<close> with \<open>start\<close>, \<open>prepare\<close> and \<open>commit\<close>: all commands are carried out, each
  against its old value, or none is.
\<close>

definition git_update_ref :: "string \<Rightarrow> ref_transaction \<Rightarrow> bool" where
  "git_update_ref repo update \<longleftrightarrow>
     (\<forall>f cs tx w r w'. (\<forall>c \<in> set cs. command_ok f c) \<longrightarrow> BuildUpdateRefTransaction cs = Inr tx \<longrightarrow> update tx w = (r, w') \<longrightarrow>
        (if r = Inr True
         then list_all (holds_old repo (refs_of w)) cs \<and> refs_of w' = fold (apply_command repo) cs (refs_of w)
         else refs_of w' = refs_of w))"

lemma transaction_lines_body:
  "transaction_lines seen cs = Inr body \<Longrightarrow> body = concat (map transaction_line cs) \<and> \<not> (\<exists>c \<in> set cs. no_op c)"
  by (induction seen cs arbitrary: body rule: transaction_lines.induct)
    (auto simp: Let_def no_op_def transaction_line_def split: if_splits sum.splits)

section \<open>The outcome of a session\<close>

definition quiet :: "world \<Rightarrow> world \<Rightarrow> bool" where
  "quiet w w' \<longleftrightarrow> refs_of w' = refs_of w \<and> w_db w' = w_db w"

lemma quiet_trans: "quiet w w1 \<Longrightarrow> quiet w1 w2 \<Longrightarrow> quiet w w2"
  by (simp add: quiet_def)

lemma ended_iff: "ended out e w = (r, w') \<longleftrightarrow> r = Inr \<lparr>so_Output = out, so_Error = e\<rparr> \<and> w' = w"
  by (auto simp: ended_def return_def)

lemma send_ends:
  assumes "send out s e k w = (r, w')"
  obtains w1 where "quiet w w1" "r = Inr \<lparr>so_Output = out, so_Error = Some e\<rparr>" "w' = w1"
  | w1 where "quiet w w1" "k (out @ s) w1 = (r, w')" "os_call w = (Inr (), w1)"
proof -
  obtain r1 w1 where call: "os_call w = (r1, w1)" by (cases "os_call w") auto
  have "quiet w w1"
    using leaves_refsD [OF leaves_refs_primitive(9) call] readsD [OF reads_os_call call] by (simp add: quiet_def)
  with assms call that show thesis by (cases r1) (auto simp: send_def attempt_def ended_iff)
qed

text \<open>What a report leaves to be written is a prefix of the whole, and without an error it is the whole.\<close>

definition reported :: "string \<Rightarrow> err option \<Rightarrow> err + session_outcome \<Rightarrow> bool" where
  "reported whole e r \<longleftrightarrow>
     (\<exists>out. r = Inr out \<and> prefix (so_Output out) whole \<and> (so_Error out = None \<longrightarrow> e = None \<and> so_Output out = whole))"

lemma send_all_ends:
  "send_all out ss e k w = (r, w') \<Longrightarrow> (\<And>w1 r w'. k (out @ concat ss) w1 = (r, w') \<Longrightarrow> quiet w1 w' \<and> reported whole e' r) \<Longrightarrow>
   prefix (out @ concat ss) whole \<Longrightarrow> quiet w w' \<and> reported whole e' r"
proof (induction ss arbitrary: out w)
  case (Cons s ss)
  from Cons.prems(1) have "send out s e (\<lambda>out. send_all out ss e k) w = (r, w')" by simp
  then show ?case
  proof (cases rule: send_ends)
    case (1 w1)
    then show ?thesis using Cons.prems(3) by (auto simp: reported_def intro: prefix_order.trans [OF prefixI [OF refl]])
  next
    case (2 w1)
    from Cons.IH [OF 2(2)] Cons.prems(2,3) have "quiet w1 w' \<and> reported whole e' r" by simp
    with 2(1) show ?thesis by (blast intro: quiet_trans)
  qed
qed simp

lemma report_ends:
  assumes "report out cs b e w = (r, w')"
  shows "quiet w w' \<and> reported (out @ writeProcReceiveResults cs b) e r"
proof (rule send_all_ends [OF assms [unfolded report_def]])
  have lines: "writeProcReceiveResults cs b = concat (map (result_line b) cs) @ ''0000''"
    by (simp add: writeProcReceiveResults_def result_line_def [abs_def])
  show "prefix (out @ concat (map (result_line b) cs)) (out @ writeProcReceiveResults cs b)" by (simp add: lines)
  show "quiet w1 w' \<and> reported (out @ writeProcReceiveResults cs b) e r"
    if "send (out @ concat (map (result_line b) cs)) ''0000'' (ErrNew ''write proc-receive result flush'') (\<lambda>out. ended out e) w1 = (r, w')"
    for w1 r w'
    using that by (cases rule: send_ends) (auto simp: lines reported_def ended_iff quiet_def)
qed

text \<open>The refs are as before and nothing is reported as done, or all commands are carried out and none is rejected.\<close>

definition refs_follow :: "string \<Rightarrow> string \<Rightarrow> receive_command list \<Rightarrow> world \<Rightarrow> err + session_outcome \<Rightarrow> world \<Rightarrow> bool" where
  "refs_follow repo hello cs w r w' \<longleftrightarrow>
     (refs_of w' = refs_of w \<and> (\<exists>e. reported (hello @ writeProcReceiveResults cs False) (Some e) r)) \<or>
     (list_all (holds_old repo (refs_of w)) cs \<and> refs_of w' = fold (apply_command repo) cs (refs_of w) \<and>
      reported (hello @ writeProcReceiveResults cs True) None r)"

lemma reported_ended: "reported (hello @ s) e (Inr \<lparr>so_Output = hello, so_Error = Some e'\<rparr>)"
  by (simp add: reported_def)

lemma rejected_report:
  "report hello cs False (Some e) w1 = (r, w') \<Longrightarrow> refs_of w1 = refs_of w \<Longrightarrow> refs_follow repo hello cs w r w'"
  by (drule report_ends) (auto simp: refs_follow_def quiet_def)

lemma change_refs_ends:
  assumes U: "git_update_ref repo U" and L: "\<forall>cs. leaves_refs (lc_Prepare L cs)" "\<forall>s. leaves_refs (lc_Finalize L s)"
    and ok: "\<forall>c \<in> set cs. command_ok f c" and run: "change_refs U L hello cs w = (r, w')"
  shows "refs_follow repo hello cs w r w'"
proof -
  obtain r1 w1 where prepare: "lc_Prepare L cs w = (r1, w1)" by (cases "lc_Prepare L cs w") auto
  have refs1: "refs_of w1 = refs_of w" using leaves_refsD [OF L(1) [rule_format] prepare] .
  show ?thesis
  proof (cases r1)
    case (Inl e)
    with run prepare have "report hello cs False (Some (ErrNew ''receive rejected'')) w1 = (r, w')"
      by (simp add: change_refs_def attempt_def)
    then show ?thesis using refs1 by (rule rejected_report)
  next
    case (Inr s)
    show ?thesis
    proof (cases "BuildUpdateRefTransaction cs")
      case Inl
      with Inr run prepare have "report hello cs False (Some (projl (BuildUpdateRefTransaction cs))) w1 = (r, w')"
        by (simp add: change_refs_def attempt_def)
      then show ?thesis using refs1 by (rule rejected_report)
    next
      case tx: (Inr tx)
      obtain r2 w2 where update: "U tx w1 = (r2, w2)" by (cases "U tx w1") auto
      obtain r3 w3 where finalize: "lc_Finalize L s w2 = (r3, w3)" by (cases "lc_Finalize L s w2") auto
      have refs3: "refs_of w3 = refs_of w2" using leaves_refsD [OF L(2) [rule_format] finalize] .
      have refs2: "if r2 = Inr True then list_all (holds_old repo (refs_of w)) cs \<and> refs_of w2 = fold (apply_command repo) cs (refs_of w)
         else refs_of w2 = refs_of w"
        using U ok tx update refs1 unfolding git_update_ref_def by metis
      have "if r2 = Inr True
         then (\<exists>e. r3 = Inl e \<and> r = Inr \<lparr>so_Output = hello, so_Error = Some (ErrNew ''receive resolution failed'')\<rparr> \<and> w' = w3) \<or>
              report hello cs True None w3 = (r, w')
         else (\<exists>e. r3 = Inl e \<and> r = Inr \<lparr>so_Output = hello, so_Error = Some (ErrNew ''receive resolution failed'')\<rparr> \<and> w' = w3) \<or>
              report hello cs False (Some (ErrNew ''receive ref transaction failed'')) w3 = (r, w')"
        using run prepare Inr tx update finalize by (cases r3) (auto simp: change_refs_def attempt_def ended_iff split: if_splits)
      then show ?thesis using refs2 refs3
        by (cases "r2 = Inr True") (auto simp: refs_follow_def quiet_def reported_ended dest: report_ends)
    qed
  qed
qed

section \<open>The outcome of a push\<close>

definition greeting :: "string list \<Rightarrow> string" where
  "greeting features = formatPktLine (proc_response features) @ ''0000''"

lemma session_commands_ok:
  assumes "session_commands features input = Inr cs"
  obtains f where "\<forall>c \<in> set cs. command_ok f c"
proof -
  from assms obtain input1 format where "ParseReceiveCommands input1 format = Inr cs"
    by (auto simp: session_commands_def split: sum.splits prod.splits if_splits)
  then show thesis using that parse_lines_sound [of format "[]" "scan_lines input1" cs]
    by (auto simp: ParseReceiveCommands_def split: sum.splits if_splits)
qed

text \<open>A session ends before its commands are read, or it changes refs in a world like the first.\<close>

lemma session_ends:
  assumes run: "RunCoordinatedProcReceiveSession U L input w = (r, w')"
  obtains out e where "r = Inr \<lparr>so_Output = out, so_Error = Some e\<rparr>" "quiet w w'"
    "\<And>features rest. session_opening input = Inr (features, rest) \<Longrightarrow> prefix out (greeting features)"
  | features rest cs w1 where "session_opening input = Inr (features, rest)" "session_commands features rest = Inr cs"
    "quiet w w1" "change_refs U L (greeting features) cs w1 = (r, w')" "bindE os_call (\<lambda>_. os_call) w = (Inr (), w1)"
proof (cases "session_opening input")
  case (Inl e)
  with run that(1) [of "[]" e] show thesis by (simp add: RunCoordinatedProcReceiveSession_def ended_iff quiet_def)
next
  case (Inr o1)
  obtain features rest where start: "session_opening input = Inr (features, rest)" using Inr by (cases o1) auto
  let ?k = "\<lambda>out. case session_commands features rest of Inl e \<Rightarrow> ended out (Some e) | Inr commands \<Rightarrow> change_refs U L out commands"
  have hello: "([] @ formatPktLine (proc_response features)) @ ''0000'' = greeting features" by (simp add: greeting_def)
  from run start have "send [] (formatPktLine (proc_response features)) (ErrNew ''write proc-receive negotiation'')
      (\<lambda>out. send out ''0000'' (ErrNew ''write proc-receive negotiation flush'') ?k) w = (r, w')"
    by (simp add: RunCoordinatedProcReceiveSession_def)
  then show thesis
  proof (cases rule: send_ends)
    case (1 w1)
    with that(1) [of "[]"] start show thesis by (simp add: quiet_def)
  next
    case (2 w1)
    from 2(2) show thesis
    proof (cases rule: send_ends)
      case one: (1 w2)
      with that(1) [of "formatPktLine (proc_response features)"] start quiet_trans [OF 2(1)] show thesis
        by (auto simp: greeting_def)
    next
      case two: (2 w2)
      have "bindE os_call (\<lambda>_. os_call) w = (Inr (), w2)" using 2(3) two(3) by (simp add: bindE_def)
      note w2 = quiet_trans [OF 2(1) two(1)] two(2) [unfolded hello] this
      show thesis
      proof (cases "session_commands features rest")
        case (Inl e)
        with w2 that(1) [of "greeting features" e] start show thesis by (auto simp: ended_iff)
      next
        case (Inr cs)
        with w2 that(2) [OF start Inr] show thesis by simp
      qed
    qed
  qed
qed

text \<open>C10. A push tells the client what became of the refs: with an update of refs that is done as a whole or not at all and a
  lifecycle that leaves the refs alone, either the refs are as before, the session ends with an error and its output is
  the start of a report that rejects every command, or every command of the session found the old value it names and is
  carried out, the output is the start of a report that accepts every command, and the whole of it when there is no error.\<close>

theorem push_reports_follow_the_refs:
  assumes "git_update_ref repo U" "\<forall>cs. leaves_refs (lc_Prepare L cs)" "\<forall>s. leaves_refs (lc_Finalize L s)"
    and run: "RunCoordinatedProcReceiveSession U L input w = (r, w')"
  shows "\<exists>out. r = Inr out \<and>
    (refs_of w' = refs_of w \<and> so_Error out \<noteq> None \<and>
       (\<forall>features rest cs. session_opening input = Inr (features, rest) \<longrightarrow> session_commands features rest = Inr cs \<longrightarrow>
          prefix (so_Output out) (greeting features @ writeProcReceiveResults cs False)) \<or>
     (\<exists>features rest cs. session_opening input = Inr (features, rest) \<and> session_commands features rest = Inr cs \<and>
        list_all (holds_old repo (refs_of w)) cs \<and> refs_of w' = fold (apply_command repo) cs (refs_of w) \<and>
        prefix (so_Output out) (greeting features @ writeProcReceiveResults cs True) \<and>
        (so_Error out = None \<longrightarrow> so_Output out = greeting features @ writeProcReceiveResults cs True)))"
  using run
proof (cases rule: session_ends)
  case (1 out e)
  then show ?thesis by (auto simp: quiet_def intro: prefix_order.trans [OF _ prefixI [OF refl]])
next
  case (2 features rest cs w1)
  obtain f where "\<forall>c \<in> set cs. command_ok f c" using session_commands_ok [OF 2(2)] .
  from change_refs_ends [OF assms(1-3) this 2(4)] 2(3) have "refs_follow repo (greeting features) cs w r w'"
    by (simp add: refs_follow_def quiet_def)
  with 2(1,2) show ?thesis by (fastforce simp: refs_follow_def reported_def)
qed

section \<open>The tags of a push\<close>

lemma change_refs_prepares:
  assumes L: "\<forall>cs. leaves_refs (lc_Prepare L cs)" "\<forall>s. leaves_refs (lc_Finalize L s)"
    and run: "change_refs U L hello cs w = (r, w')" and "refs_of w' \<noteq> refs_of w"
  obtains s v tx where "lc_Prepare L cs w = (Inr s, v)" "refs_of v = refs_of w" "BuildUpdateRefTransaction cs = Inr tx"
    "refs_of w' = refs_of (snd (U tx v))"
proof -
  obtain r1 v where prepare: "lc_Prepare L cs w = (r1, v)" by (cases "lc_Prepare L cs w") auto
  have before: "refs_of v = refs_of w" using leaves_refsD [OF L(1) [rule_format] prepare] .
  then have "r1 \<noteq> Inl e" "r1 = Inr s \<Longrightarrow> BuildUpdateRefTransaction cs \<noteq> Inl e" for e s
    using run prepare assms(4) by (auto simp: change_refs_def attempt_def quiet_def dest!: report_ends)
  then obtain s tx where s: "r1 = Inr s" and tx: "BuildUpdateRefTransaction cs = Inr tx" by (metis sum.exhaust)
  obtain r2 v2 where update: "U tx v = (r2, v2)" by (cases "U tx v") auto
  obtain r3 v3 where finalize: "lc_Finalize L s v2 = (r3, v3)" by (cases "lc_Finalize L s v2") auto
  have "refs_of w' = refs_of v3"
    using run prepare s tx update finalize
    by (cases r3) (auto simp: change_refs_def attempt_def ended_iff quiet_def dest: report_ends split: if_splits)
  then have "refs_of w' = refs_of (snd (U tx v))" using leaves_refsD [OF L(2) [rule_format] finalize] update by simp
  with prepare s before tx that show thesis by simp
qed

text \<open>Every canonical tag of the commands that is not deleted was classified and checked, in its turn.\<close>

lemma canonical_tags_checked:
  "canonical_tags peel check cs w = (Inr ts, w') \<Longrightarrow> c \<in> set cs \<Longrightarrow> CanonicalTagFromRef (rc_RefName c) = Some tag \<Longrightarrow>
   \<not> allZeroObjectID (rc_NewObjectID c) \<Longrightarrow>
   \<exists>before after ts1 ts2 t t' u0 u1 u2. cs = before @ c # after \<and> ts = ts1 @ t' # ts2 \<and>
     canonical_tags peel check before w = (Inr ts1, u0) \<and> classifyTag peel tag c u0 = (Inr t, u1) \<and> check t u1 = (Inr t', u2) \<and>
     canonical_tags peel check after u2 = (Inr ts2, w')"
proof (induction cs arbitrary: w ts)
  case (Cons d cs)
  show ?case
  proof (cases "c = d")
    case True
    with Cons.prems obtain t t' ts' w1 w2 where "classifyTag peel tag c w = (Inr t, w1)"
      "(if tc_Operation t \<noteq> ReceiveTagDelete then check t else return t) w1 = (Inr t', w2)" "ts = t' # ts'"
      "canonical_tags peel check cs w2 = (Inr ts', w')"
      by (auto simp: bindE_Inr_iff return_iff)
    moreover from this(1) Cons.prems(4) have "tc_Operation t \<noteq> ReceiveTagDelete"
      by (auto simp: classifyTag_def Let_def bindE_Inr_iff return_iff fail_iff split: if_splits)
    ultimately show ?thesis using True
      by (intro exI [of _ "[]"] exI [of _ cs] exI [of _ "[]"] exI [of _ ts'] exI [of _ t] exI [of _ t'] exI [of _ w] exI [of _ w1] exI [of _ w2])
        (simp add: return_def)
  next
    case False
    have "\<exists>ts0 ts' v. ts = ts0 @ ts' \<and> canonical_tags peel check cs v = (Inr ts', w') \<and>
        (\<forall>ds us u. canonical_tags peel check ds v = (Inr us, u) \<longrightarrow> canonical_tags peel check (d # ds) w = (Inr (ts0 @ us), u))"
    proof (cases "CanonicalTagFromRef (rc_RefName d)")
      case None
      with Cons.prems(1) show ?thesis by (intro exI [of _ "[]"] exI [of _ ts] exI [of _ w]) simp
    next
      case (Some tag')
      with Cons.prems(1) obtain t t' ts' v1 v where "classifyTag peel tag' d w = (Inr t, v1)"
        "(if tc_Operation t \<noteq> ReceiveTagDelete then check t else return t) v1 = (Inr t', v)"
        "canonical_tags peel check cs v = (Inr ts', w')" "ts = t' # ts'"
        by (auto simp: bindE_Inr_iff return_iff)
      with Some have "canonical_tags peel check (d # ds) w = (Inr ([t'] @ us), u)" if "canonical_tags peel check ds v = (Inr us, u)" for ds us u
        using that by (simp add: bindE_Inr_iff return_iff)
      with \<open>canonical_tags peel check cs v = (Inr ts', w')\<close> \<open>ts = t' # ts'\<close> show ?thesis by (metis append_Cons append_Nil)
    qed
    then obtain ts0 ts' v where d: "ts = ts0 @ ts'" "canonical_tags peel check cs v = (Inr ts', w')"
      "\<And>ds us u. canonical_tags peel check ds v = (Inr us, u) \<Longrightarrow> canonical_tags peel check (d # ds) w = (Inr (ts0 @ us), u)" by blast
    from Cons.IH [OF d(2) _ Cons.prems(3,4)] Cons.prems(2) False obtain before after ts1 ts2 t t' u0 u1 u2 where
      "cs = before @ c # after" "ts' = ts1 @ t' # ts2" "canonical_tags peel check before v = (Inr ts1, u0)"
      "classifyTag peel tag c u0 = (Inr t, u1)" "check t u1 = (Inr t', u2)" "canonical_tags peel check after u2 = (Inr ts2, w')" by auto
    with d(1,3) show ?thesis
      by (intro exI [of _ "d # before"] exI [of _ after] exI [of _ "ts0 @ ts1"] exI [of _ ts2] exI [of _ t] exI [of _ t'] exI [of _ u0]
          exI [of _ u1] exI [of _ u2]) simp
  qed
qed simp

lemma classifyTag_peels:
  "classifyTag peel tag c w = (Inr t, w') \<Longrightarrow> \<not> allZeroObjectID (rc_NewObjectID c) \<Longrightarrow>
   tc_Tag t = tag \<and> tc_RefName t = rc_RefName c \<and> tc_NewObjectID t = rc_NewObjectID c \<and>
   (\<exists>u. peel (rc_NewObjectID c) u = (Inr (tc_NewCommitObjectID t), w'))"
  by (auto simp: classifyTag_def Let_def bindE_Inr_iff return_iff fail_iff split: if_splits)

text \<open>The admission of the commands of a session: the loop of \<open>Prepare\<close> over the canonical tags\<close>

definition admitted_tags :: "receive_setting \<Rightarrow> receive_command list \<Rightarrow> tag_command list prog" where
  "admitted_tags R = canonical_tags (PeelCommit (rs_Source R) (rs_Environment R) (rs_RepositoryPath R)) (inspect_tag R)"

text \<open>
  In the run of this loop from \<open>v\<close> to \<open>v'\<close>, after the commands before \<open>c\<close> and before those after it, the new object of
  \<open>c\<close> was peeled to a commit, and its source read from that commit and accepted: contained in its directory, with the
  profile of the Plugin's name, and with the manifest that the tag then carries into the batch.
\<close>

definition inspected_in_run :: "receive_setting \<Rightarrow> receive_command list \<Rightarrow> world \<Rightarrow> tag_command list \<Rightarrow> world \<Rightarrow> receive_command \<Rightarrow> string \<Rightarrow> bool" where
  "inspected_in_run R cs v ts v' c tag \<longleftrightarrow>
     (\<exists>before after ts1 ts2 t u u0 u1 u2 i tree directory.
        cs = before @ c # after \<and> ts = ts1 @ t # ts2 \<and>
        admitted_tags R before v = (Inr ts1, u0) \<and>
        (\<exists>t0. classifyTag (PeelCommit (rs_Source R) (rs_Environment R) (rs_RepositoryPath R)) tag c u0 = (Inr t0, u1) \<and>
           t = t0\<lparr>tc_NewManifestDigest := ins_ManifestDigest i, tc_NewManifestSnapshot := ins_ManifestSnapshot i\<rparr>) \<and>
        PeelCommit (rs_Source R) (rs_Environment R) (rs_RepositoryPath R) (rc_NewObjectID c) u = (Inr (tc_NewCommitObjectID t), u1) \<and>
        inspectCommit (rs_Source R) (gitEnvironment (rs_Environment R)) (rs_RepositoryPath R) (rc_NewObjectID c) (tc_NewCommitObjectID t)
          (rp_Name (rs_Plugin R)) u1 = (Inr i, u2) \<and>
        admitted_tags R after u2 = (Inr ts2, v') \<and>
        tc_Tag t = tag \<and> tc_RefName t = rc_RefName c \<and> tc_NewObjectID t = rc_NewObjectID c \<and>
        contained_source (rs_Source R) tree \<and> sh_profile (rs_Source R) tree (ins_ManifestSnapshot i) (rp_Name (rs_Plugin R)) = None \<and>
        (directory @ [''plugin.json''], FileN (ins_ManifestSnapshot i)) \<in> set tree)"

lemma admitted_tags_inspected:
  assumes root: "plain_root (rs_Source R)" and run: "admitted_tags R cs v = (Inr ts, v')"
    and c: "c \<in> set cs" "CanonicalTagFromRef (rc_RefName c) = Some tag" "\<not> allZeroObjectID (rc_NewObjectID c)"
  shows "inspected_in_run R cs v ts v' c tag"
proof -
  let ?peel = "PeelCommit (rs_Source R) (rs_Environment R) (rs_RepositoryPath R)"
  from canonical_tags_checked [OF run [unfolded admitted_tags_def] c] obtain before after ts1 ts2 t0 t u0 u1 u2 where
    turn: "cs = before @ c # after" "ts = ts1 @ t # ts2" "admitted_tags R before v = (Inr ts1, u0)" "admitted_tags R after u2 = (Inr ts2, v')"
    and classified: "classifyTag ?peel tag c u0 = (Inr t0, u1)" and checked: "inspect_tag R t0 u1 = (Inr t, u2)"
    unfolding admitted_tags_def by blast
  from classifyTag_peels [OF classified c(3)] obtain u where
    t0: "tc_Tag t0 = tag" "tc_RefName t0 = rc_RefName c" "tc_NewObjectID t0 = rc_NewObjectID c" "?peel (rc_NewObjectID c) u = (Inr (tc_NewCommitObjectID t0), u1)"
    by blast
  from checked t0(3) obtain i where
    inspected: "inspectCommit (rs_Source R) (gitEnvironment (rs_Environment R)) (rs_RepositoryPath R) (rc_NewObjectID c) (tc_NewCommitObjectID t0)
        (rp_Name (rs_Plugin R)) u1 = (Inr i, u2)"
    and t: "t = t0\<lparr>tc_NewManifestDigest := ins_ManifestDigest i, tc_NewManifestSnapshot := ins_ManifestSnapshot i\<rparr>"
    by (auto simp: inspect_tag_def bindE_Inr_iff return_iff)
  from inspected have "inspect_source (rs_Source R) (gitEnvironment (rs_Environment R)) (rs_RepositoryPath R) (rc_NewObjectID c)
      (tc_NewCommitObjectID t0) (rp_Name (rs_Plugin R)) (\<lambda>_. ErrPluginSourceInvalid) u1 = (Inr i, u2)"
    by (simp add: inspectCommit_def fail_iff split: if_splits)
  from inspect_source_Inr [OF root this] obtain tree directory where
    "contained_source (rs_Source R) tree" "sh_profile (rs_Source R) tree (ins_ManifestSnapshot i) (rp_Name (rs_Plugin R)) = None"
    "(directory @ [''plugin.json''], FileN (ins_ManifestSnapshot i)) \<in> set tree"
    by metis
  with turn classified t0 inspected t show ?thesis
    unfolding inspected_in_run_def by (intro exI [of _ before] exI [of _ after] exI [of _ ts1] exI [of _ ts2] exI [of _ t]) auto
qed

lemma lifecycle_Prepare_Inr:
  assumes "lifecycle_Prepare R cs w = (Inr (co, prepared), v)"
  obtains v1 ts v2 where "Open (rp_ID (rs_Plugin R)) (rs_SessionID R) w = (Inr co, v1)" "admitted_tags R cs v1 = (Inr ts, v2)"
    "Prepare (rs_Builder R) co
       \<lparr>rb_SessionID = rs_SessionID R, rb_Plugin = rs_Plugin R, rb_Commands = cs, rb_CanonicalTags = ts\<rparr> v2 = (Inr prepared, v)"
  using assms that
  by (auto simp: lifecycle_Prepare_def closing_on_error_def admitted_tags_def bindE_Inr_iff map_error_Inr_iff attempt_iff fail_iff return_iff
      split: if_splits sum.splits)

text \<open>C11. No ref is changed by a push before the source of every canonical tag that it creates or moves has been inspected, in this
  very session: when the refs are other than before, the session opened its coordination after the greeting, ran the loop over the
  commands with success (in it every command for a canonical tag that is no deletion was peeled, inspected and accepted), prepared the batch with
  the manifests found, all of it with the refs as they were, and then ran the one ref transaction that changed them. A tag whose name is not
  canonical is not looked at.\<close>

theorem pushed_tags_are_inspected:
  assumes root: "plain_root (rs_Source R)" and refs: "git_leaves_refs (rs_Source R)" "builder_leaves_refs (rs_Builder R)"
    and run: "RunCoordinatedProcReceiveSession U (protected_lifecycle R) input w = (r, w')" and changed: "refs_of w' \<noteq> refs_of w"
  shows "\<exists>features rest cs w1 co v1 ts v2 prepared v3 tx.
    session_opening input = Inr (features, rest) \<and> session_commands features rest = Inr cs \<and>
    bindE os_call (\<lambda>_. os_call) w = (Inr (), w1) \<and>
    Open (rp_ID (rs_Plugin R)) (rs_SessionID R) w1 = (Inr co, v1) \<and>
    admitted_tags R cs v1 = (Inr ts, v2) \<and>
    (\<forall>c tag. c \<in> set cs \<longrightarrow> CanonicalTagFromRef (rc_RefName c) = Some tag \<longrightarrow> \<not> allZeroObjectID (rc_NewObjectID c) \<longrightarrow>
       inspected_in_run R cs v1 ts v2 c tag) \<and>
    Prepare (rs_Builder R) co
      \<lparr>rb_SessionID = rs_SessionID R, rb_Plugin = rs_Plugin R, rb_Commands = cs, rb_CanonicalTags = ts\<rparr> v2 = (Inr prepared, v3) \<and>
    refs_of v3 = refs_of w \<and>
    BuildUpdateRefTransaction cs = Inr tx \<and> refs_of w' = refs_of (snd (U tx v3))"
  using run
proof (cases rule: session_ends)
  case (1 out e)
  with changed show ?thesis by (simp add: quiet_def)
next
  case (2 features rest cs w1)
  note L = leaves_refs_protected_lifecycle(1) [OF refs, THEN allI] leaves_refs_protected_lifecycle(2) [OF refs, THEN allI]
  from 2(3) changed have same: "refs_of w1 = refs_of w" and "refs_of w' \<noteq> refs_of w1" by (simp_all add: quiet_def)
  from change_refs_prepares [OF L 2(4) this(2)] obtain co prepared v3 tx where
    prepared: "lifecycle_Prepare R cs w1 = (Inr (co, prepared), v3)" and
    tx: "refs_of v3 = refs_of w1" "BuildUpdateRefTransaction cs = Inr tx" "refs_of w' = refs_of (snd (U tx v3))"
    unfolding protected_lifecycle_def by (metis receive_lifecycle.select_convs(1) prod.exhaust)
  from lifecycle_Prepare_Inr [OF prepared] obtain v1 ts v2 where
    "Open (rp_ID (rs_Plugin R)) (rs_SessionID R) w1 = (Inr co, v1)" and tags: "admitted_tags R cs v1 = (Inr ts, v2)" and
    "Prepare (rs_Builder R) co
      \<lparr>rb_SessionID = rs_SessionID R, rb_Plugin = rs_Plugin R, rb_Commands = cs, rb_CanonicalTags = ts\<rparr> v2 = (Inr prepared, v3)" .
  with 2(1,2,5) tx same show ?thesis
    using admitted_tags_inspected [OF root tags] by (intro exI conjI) auto
qed

section \<open>A command that does nothing\<close>

text \<open>C38. When a push is prepared and one of its commands has neither an old nor a new object, the session is over without
  a call of the lifecycle: the database stays as the preparation left it, and what it withdrew is not given back.\<close>

theorem no_op_command_skips_finalization:
  assumes "session_opening input = Inr (features, rest)" "session_commands features rest = Inr cs" "\<exists>c \<in> set cs. no_op c"
    and "w_io w = []" "lc_Prepare L cs w = (Inr s, w1)"
    and run: "RunCoordinatedProcReceiveSession U L input w = (r, w')"
  shows "w_db w' = w_db w1 \<and> refs_of w' = refs_of w1 \<and> (\<exists>out. r = Inr out \<and> so_Error out \<noteq> None)"
proof -
  have "os_call w = (Inr (), w)" using assms(4) by (cases w) (simp add: os_call_def io_step_def)
  then have send: "send out x e k w = k (out @ x) w" for out x e k
    by (simp add: send_def attempt_def)
  have "\<exists>e. BuildUpdateRefTransaction cs = Inl e"
    using transaction_lines_body [of "[]" cs] assms(3)
    by (cases "transaction_lines [] cs"; cases "cs = []") (auto simp: BuildUpdateRefTransaction_def)
  then obtain e where e: "BuildUpdateRefTransaction cs = Inl e" ..
  from run have "report (greeting features) cs False (Some e) w1 = (r, w')"
    using assms(1,2,5) e by (simp add: RunCoordinatedProcReceiveSession_def send change_refs_def attempt_def greeting_def)
  then show ?thesis by (auto simp: quiet_def reported_def dest!: report_ends)
qed

section \<open>An update of refs\<close>

text \<open>\<open>git update-ref --stdin\<close> on the refs of the model\<close>

definition ref_line :: "string \<Rightarrow> receive_command option" where
  "ref_line l =
     (case strings_Split CHR '' '' l of
        [verb, ref, new, old] \<Rightarrow> if verb = ''update'' then Some \<lparr>rc_OldObjectID = old, rc_NewObjectID = new, rc_RefName = ref\<rparr> else None
      | [verb, ref, old] \<Rightarrow> if verb = ''delete'' then Some \<lparr>rc_OldObjectID = old, rc_NewObjectID = ''0'', rc_RefName = ref\<rparr> else None
      | _ \<Rightarrow> None)"

definition update_ref_stdin :: "string \<Rightarrow> ref_transaction" where
  "update_ref_stdin repo tx w =
     (let cs = List.map_filter ref_line (scan_lines tx) in
      if list_all (holds_old repo (refs_of w)) cs
      then (Inr True, w\<lparr>w_storage := (w_storage w)\<lparr>git_refs := fold (apply_command repo) cs (refs_of w)\<rparr>\<rparr>)
      else (Inr False, w))"

text \<open>The command that a line says: a deletion does not say the length of its identifiers.\<close>

definition said_command :: "receive_command \<Rightarrow> receive_command" where
  "said_command c = (if allZeroObjectID (rc_NewObjectID c) then c\<lparr>rc_NewObjectID := ''0''\<rparr> else c)"

lemma said_command_same: "holds_old repo refs (said_command c) = holds_old repo refs c" "apply_command repo (said_command c) = apply_command repo c"
  by (simp_all add: said_command_def holds_old_def apply_command_def [abs_def] allZeroObjectID_def only_zeros_def fun_eq_iff)

lemma ref_line_transaction_line:
  assumes "command_ok f c"
  shows "\<exists>l. transaction_line c = l @ [CHR 0x0A] \<and> CHR 0x0A \<notin> set l \<and> CHR 0x0D \<notin> set l \<and> ref_line l = Some (said_command c)"
proof -
  note v = assms [unfolded command_ok_def]
  have no: "CHR '' '' \<notin> set s" "CHR 0x0A \<notin> set s" "CHR 0x0D \<notin> set s"
    if "s \<in> {rc_OldObjectID c, rc_NewObjectID c, rc_RefName c}" for s
    using that v validReceiveObjectID_chars validReceiveRefName_chars by blast+
  show ?thesis
  proof (cases "allZeroObjectID (rc_NewObjectID c)")
    case True
    have "strings_Split CHR '' '' (''delete '' @ rc_RefName c @ '' '' @ rc_OldObjectID c) = [''delete'', rc_RefName c, rc_OldObjectID c]"
      using no strings_Split_append [of "CHR '' ''" "''delete''" "rc_RefName c @ '' '' @ rc_OldObjectID c"]
      by (simp add: strings_Split_append strings_Split_single)
    with True no show ?thesis
      by (intro exI [of _ "''delete '' @ rc_RefName c @ '' '' @ rc_OldObjectID c"])
        (simp add: transaction_line_def ref_line_def said_command_def)
  next
    case False
    have "strings_Split CHR '' '' (''update '' @ rc_RefName c @ '' '' @ rc_NewObjectID c @ '' '' @ rc_OldObjectID c) =
        [''update'', rc_RefName c, rc_NewObjectID c, rc_OldObjectID c]"
      using no strings_Split_append [of "CHR '' ''" "''update''" "rc_RefName c @ '' '' @ rc_NewObjectID c @ '' '' @ rc_OldObjectID c"]
      by (simp add: strings_Split_append strings_Split_single)
    with False no show ?thesis
      by (intro exI [of _ "''update '' @ rc_RefName c @ '' '' @ rc_NewObjectID c @ '' '' @ rc_OldObjectID c"])
        (simp add: transaction_line_def ref_line_def said_command_def)
  qed
qed

lemma said_transaction:
  assumes "\<forall>c \<in> set cs. command_ok f c" "BuildUpdateRefTransaction cs = Inr tx"
  shows "List.map_filter ref_line (scan_lines tx) = map said_command cs"
proof -
  define line where "line c = butlast (transaction_line c)" for c
  have line: "transaction_line c = line c @ [CHR 0x0A] \<and> CHR 0x0A \<notin> set (line c) \<and> ref_line (line c) = Some (said_command c)"
    if "c \<in> set cs" for c
    using ref_line_transaction_line [of f c] assms(1) that by (auto simp: line_def)
  have "tx = ''start'' @ [CHR 0x0A] @ concat (map transaction_line cs) @ ''prepare'' @ [CHR 0x0A] @ ''commit'' @ [CHR 0x0A]"
    using assms(2) by (auto simp: BuildUpdateRefTransaction_def dest!: transaction_lines_body split: sum.splits if_splits)
  also have "concat (map transaction_line cs) = concat (map (\<lambda>l. l @ [CHR 0x0A]) (map line cs))"
    using line by (simp add: map_idI cong: map_cong)
  finally have "tx = concat (map (\<lambda>l. l @ [CHR 0x0A]) (''start'' # map line cs @ [''prepare'', ''commit'']))"
    by simp
  then have "scan_lines tx = ''start'' # map line cs @ [''prepare'', ''commit'']"
    using scan_lines_concat [of "''start'' # map line cs @ [''prepare'', ''commit'']"] line by simp
  moreover have "ref_line ''start'' = None" "ref_line ''prepare'' = None" "ref_line ''commit'' = None" by code_simp+
  moreover have "List.map_filter ref_line (map line cs) = map said_command cs"
    using line by (induction cs) (simp_all add: List.map_filter_def)
  ultimately show ?thesis by (simp add: List.map_filter_def)
qed

lemma git_update_ref_stdin: "git_update_ref repo (update_ref_stdin repo)"
proof -
  have "list_all (holds_old repo refs) (map said_command cs) = list_all (holds_old repo refs) cs"
    "fold (apply_command repo) (map said_command cs) = fold (apply_command repo) cs" for refs cs
    by (simp_all add: list_all_iff said_command_same fold_map comp_def)
  then show ?thesis
    by (auto simp: git_update_ref_def update_ref_stdin_def said_transaction refs_of_def split: if_splits)
qed

section \<open>A push of a tag\<close>

definition push_builder :: builder where
  "push_builder = \<lparr>bld_Build = (\<lambda>c. fail ErrRejected), bld_Verify = (\<lambda>p d. return ()), bld_Remove = (\<lambda>p. return ())\<rparr>"

definition push_setting :: receive_setting where
  "push_setting =
     \<lparr>rs_Builder = push_builder, rs_Source = link_host,
      rs_Environment = \<lparr>re_ObjectDirectory = [], re_AlternateObjectDirectories = [], re_QuarantinePath = []\<rparr>,
      rs_RepositoryID = ''plugin-1'', rs_RepositoryPath = ''plugin-1'',
      rs_Plugin = \<lparr>rp_ID = ''plugin-1'', rp_Name = ''linter''\<rparr>, rs_SessionID = ''session-1''\<rparr>"

definition push_world :: world where
  "push_world = link_world\<lparr>w_db := empty_db\<lparr>
     plugins := [\<lparr>plg_ID = ''plugin-1'', plg_NamespaceID = ''n1'', plg_Slug = ''linter'', plg_Description = [], plg_Visibility = VisibilityPublic,
       plg_Status = PluginStatusDraft, plg_ArchivedFrom = None, plg_DefaultVersionTag = None, plg_CreatedAt = 1, plg_UpdatedAt = 1\<rparr>],
     repositories := [\<lparr>repo_ID = ''plugin-1'', repo_StorageKey = ''plugin-1'', repo_Status = RepositoryReady, repo_CreatedAt = 1, repo_UpdatedAt = 1\<rparr>]\<rparr>\<rparr>"

definition push_command :: receive_command where
  "push_command =
     \<lparr>rc_OldObjectID = replicate 40 CHR ''0'', rc_NewObjectID = replicate 40 CHR ''d'', rc_RefName = ''refs/tags/v1.0.0''\<rparr>"

lemma push_command_ok: "command_ok ObjectFormatSHA1 push_command" "said_command push_command = push_command"
  "command_line push_command \<noteq> []" "length (command_line push_command) < scanner_limit" "length (command_line push_command) \<le> 65515"
  "\<not> strings_ContainsAny (command_line push_command) [CHR 0x00, CHR 0x0D, CHR 0x0A]"
proof -
  show "command_ok ObjectFormatSHA1 push_command" "said_command push_command = push_command" by code_simp+
  show "command_line push_command \<noteq> []" "length (command_line push_command) < scanner_limit" "length (command_line push_command) \<le> 65515"
    by (simp_all add: command_line_def push_command_def scanner_limit_def)
  show "\<not> strings_ContainsAny (command_line push_command) [CHR 0x00, CHR 0x0D, CHR 0x0A]" by code_simp
qed

definition push_of :: "receive_command \<Rightarrow> string" where
  "push_of c = formatPktLine (''version=1'' @ [CHR 0x00] @ ''atomic'') @ ''0000'' @ formatPktLine (command_line c) @ ''0000''"

lemma push_of_request:
  assumes "command_ok ObjectFormatSHA1 c" "command_line c \<noteq> []" "length (command_line c) < scanner_limit" "length (command_line c) \<le> 65515"
    "\<not> strings_ContainsAny (command_line c) [CHR 0x00, CHR 0x0D, CHR 0x0A]"
  shows "session_opening (push_of c) = Inr ([''atomic''], formatPktLine (command_line c) @ ''0000'')"
    "session_commands [''atomic''] (formatPktLine (command_line c) @ ''0000'') = Inr [c]"
proof -
  have negotiation: "parseProcReceiveNegotiation (''version=1'' @ [CHR 0x00] @ ''atomic'') = Inr [''atomic'']" by code_simp
  show "session_opening (push_of c) = Inr ([''atomic''], formatPktLine (command_line c) @ ''0000'')"
    unfolding session_opening_def push_of_def
    by (simp add: readPktLine_formatPktLine readPktLine_flush [simplified] negotiation [simplified])
  have read: "read_command_text (formatPktLine (command_line c) @ ''0000'') = Inr (command_line c @ [CHR 0x0A], [])"
    using read_command_text_lines [of "[command_line c]" "[]"] assms by simp
  have parse: "ParseReceiveCommands (command_line c @ [CHR 0x0A]) ObjectFormatSHA1 = Inr [c]"
    using ParseReceiveCommands_lines [of "[c]" ObjectFormatSHA1] assms by simp
  show "session_commands [''atomic''] (formatPktLine (command_line c) @ ''0000'') = Inr [c]"
    using detectObjectFormat_commands [OF assms(1), of "[]"] by (simp add: session_commands_def read parse)
qed

lemmas push_request = push_of_request [OF push_command_ok(1,3-6)]

lemma push_update:
  "BuildUpdateRefTransaction [push_command] = Inr tx \<Longrightarrow> List.map_filter ref_line (scan_lines tx) = [push_command]"
  "\<exists>tx. BuildUpdateRefTransaction [push_command] = Inr tx"
proof -
  note push_command_ok(1,2)
  then show "BuildUpdateRefTransaction [push_command] = Inr tx \<Longrightarrow> List.map_filter ref_line (scan_lines tx) = [push_command]"
    using said_transaction [of "[push_command]" ObjectFormatSHA1 tx] by simp
  have "(case BuildUpdateRefTransaction [push_command] of Inl _ \<Rightarrow> False | Inr _ \<Rightarrow> True)" by code_simp
  then show "\<exists>tx. BuildUpdateRefTransaction [push_command] = Inr tx" by (auto split: sum.splits)
qed

lemma push_reads:
  "os_call push_world = (Inr (), push_world)" "exec id push_world = (Inr (), push_world)" "query q push_world = (Inr (q (w_db push_world)), push_world)"
  "take_row t push_world = (case t (w_db push_world) of None \<Rightarrow> (Inl ErrRecordNotFound, push_world) | Some r \<Rightarrow> (Inr r, push_world))"
  by (auto simp: push_world_def link_world_def demo_world_def os_call_def io_step_def exec_def query_def take_row_def statement_def split: option.splits)

lemma push_tables: "plugin_join (w_db push_world) = [(hd (plugins (w_db push_world)), hd (repositories (w_db push_world)))]"
  "versions (w_db push_world) = []" "receive_batches (w_db push_world) = []"
  by (simp_all add: plugin_join_def push_world_def empty_db_def)

lemma push_opened: "Open ''plugin-1'' ''session-1'' push_world = (Inr \<lparr>co_pluginID = ''plugin-1'', co_sessionID = ''session-1''\<rparr>, push_world)"
proof -
  have ready: "plg_ID (hd (plugins (w_db push_world))) = ''plugin-1''" "plg_Status (hd (plugins (w_db push_world))) = PluginStatusDraft"
    "repo_Status (hd (repositories (w_db push_world))) = RepositoryReady"
    by (simp_all add: push_world_def)
  then show ?thesis by (simp add: Open_def LockPlugin_def push_reads push_tables bindE_def attempt_def map_error_def return_def)
qed

lemma push_prepared:
  "lifecycle_Prepare push_setting [push_command] push_world = (Inr (\<lparr>co_pluginID = ''plugin-1'', co_sessionID = ''session-1''\<rparr>, no_batch), push_world)"
proof -
  have tag: "CanonicalTagFromRef ''refs/tags/v1.0.0'' = Some ''v1.0.0''" by code_simp
  have slug: "MatchString slugPattern ''linter''" by code_simp
  have ids: "allZeroObjectID (replicate 40 CHR ''0'')" "\<not> allZeroObjectID (replicate 40 CHR ''d'')" "validGitObjectID (replicate 40 CHR ''c'')"
    "validGitObjectID (replicate 40 CHR ''d'')" "strings_TrimSpace (replicate 40 CHR ''c'') = replicate 40 CHR ''c''" by code_simp+
  have io: "w_io push_world = []" by (simp add: push_world_def link_world_def demo_world_def)
  have peel: "PeelCommit link_host e repo (replicate 40 CHR ''d'') push_world = (Inr (replicate 40 CHR ''c''), push_world)" for e repo
    using ids by (simp add: PeelCommit_def link_host_def link_git_def Let_def bindE_def return_def)
  have "inspect_source link_host e repo raw (replicate 40 CHR ''c'') ''linter'' g push_world =
      (Inr \<lparr>ins_RawTagObjectID = raw, ins_CommitObjectID = replicate 40 CHR ''c'',
         ins_ManifestDigest = hex_EncodeToString (replicate 32 CHR ''d''), ins_ManifestSnapshot = ''{}''\<rparr>, push_world)" for e repo raw g
    using io by (simp add: inspect_source_def link_source link_manifest push_reads bindE_def map_error_def return_def) (simp add: link_host_def return_def)
  then have inspect: "inspectCommit link_host e repo (replicate 40 CHR ''d'') (replicate 40 CHR ''c'') ''linter'' push_world =
      (Inr \<lparr>ins_RawTagObjectID = replicate 40 CHR ''d'', ins_CommitObjectID = replicate 40 CHR ''c'',
         ins_ManifestDigest = hex_EncodeToString (replicate 32 CHR ''d''), ins_ManifestSnapshot = ''{}''\<rparr>, push_world)" for e repo
    using ids slug by (simp add: inspectCommit_def)
  show ?thesis
    using ids
    by (simp add: lifecycle_Prepare_def push_setting_def push_command_def push_opened closing_on_error_def attempt_def map_error_def bindE_def return_def
        tag classifyTag_def Let_def peel inspect_tag_def inspect Prepare_def loadSession_def push_reads push_tables first_row_def no_batch_def)
qed

definition pushed_world :: world where
  "pushed_world = push_world\<lparr>w_storage := (w_storage push_world)\<lparr>git_refs := apply_command ''plugin-1'' push_command (refs_of push_world)\<rparr>\<rparr>"

lemma push_run:
  "RunCoordinatedProcReceiveSession (update_ref_stdin ''plugin-1'') (protected_lifecycle push_setting) (push_of push_command) push_world =
     (Inr \<lparr>so_Output = greeting [''atomic''] @ writeProcReceiveResults [push_command] True, so_Error = None\<rparr>, pushed_world)"
proof -
  have send: "send out x e k w = k (out @ x) w" if "w_io w = []" for out x e k w
  proof -
    have "os_call w = (Inr (), w)" using that by (cases w) (simp add: os_call_def io_step_def)
    then show ?thesis by (simp add: send_def attempt_def)
  qed
  have io: "w_io push_world = []" "w_io pushed_world = []" by (simp_all add: pushed_world_def push_world_def link_world_def demo_world_def)
  obtain tx where tx: "BuildUpdateRefTransaction [push_command] = Inr tx" using push_update(2) ..
  have "allZeroObjectID (rc_OldObjectID push_command)" by code_simp
  moreover have "refs_of push_world = (\<lambda>_. None)" by (simp add: refs_of_def push_world_def link_world_def empty_storage_def)
  ultimately have updated: "update_ref_stdin ''plugin-1'' tx push_world = (Inr True, pushed_world)"
    by (simp add: update_ref_stdin_def push_update(1) [OF tx] pushed_world_def holds_old_def refs_of_def)
  have closed: "lifecycle_Finalize push_setting (\<lparr>co_pluginID = ''plugin-1'', co_sessionID = ''session-1''\<rparr>, no_batch) pushed_world = (Inr (), pushed_world)"
    by (simp add: lifecycle_Finalize_def closing_def no_batch_def attempt_def return_def bindE_def ignore_error_def Close_def exec_def statement_def
        pushed_world_def push_world_def link_world_def demo_world_def)
  show ?thesis
    by (simp add: RunCoordinatedProcReceiveSession_def push_request send io change_refs_def attempt_def protected_lifecycle_def push_prepared tx updated
        closed report_def greeting_def result_line_def writeProcReceiveResults_def ended_def return_def)
qed

lemma push_demo:
  "plain_root (rs_Source push_setting)" "git_leaves_refs (rs_Source push_setting)" "builder_leaves_refs (rs_Builder push_setting)"
proof -
  have "list_all plain_part link_root \<and> list_all (\<lambda>k. sh_fs link_host (take (Suc k) link_root) = Some DirN) [0..<length link_root]"
    by code_simp
  then show "plain_root (rs_Source push_setting)" by (simp add: plain_root_def list_all_iff push_setting_def)
  show "git_leaves_refs (rs_Source push_setting)" "builder_leaves_refs (rs_Builder push_setting)"
    by (auto simp: git_leaves_refs_def builder_leaves_refs_def push_setting_def push_builder_def link_host_def link_git_def Let_def intro: ref_frame)
qed

lemma pushed_refs: "refs_of pushed_world (''plugin-1'', ''refs/tags/v1.0.0'') = Some (replicate 40 CHR ''d'')" "refs_of pushed_world \<noteq> refs_of push_world"
proof -
  have "\<not> allZeroObjectID (replicate 40 CHR ''d'')" by code_simp
  then show new: "refs_of pushed_world (''plugin-1'', ''refs/tags/v1.0.0'') = Some (replicate 40 CHR ''d'')"
    by (simp add: refs_of_def pushed_world_def apply_command_def push_command_def)
  have "refs_of push_world = (\<lambda>_. None)" by (simp add: refs_of_def push_world_def link_world_def empty_storage_def)
  with new show "refs_of pushed_world \<noteq> refs_of push_world" by auto
qed

theorem push_reports_follow_the_refs_witness:
  "refs_of pushed_world = fold (apply_command ''plugin-1'') [push_command] (refs_of push_world) \<and>
   list_all (holds_old ''plugin-1'' (refs_of push_world)) [push_command] \<and>
   refs_of pushed_world (''plugin-1'', ''refs/tags/v1.0.0'') = Some (replicate 40 CHR ''d'')"
  using push_reports_follow_the_refs [OF git_update_ref_stdin leaves_refs_protected_lifecycle(1) [OF push_demo(2,3), THEN allI]
      leaves_refs_protected_lifecycle(2) [OF push_demo(2,3), THEN allI] push_run] pushed_refs push_request
  by auto

theorem pushed_tags_are_inspected_witness:
  "\<exists>v1 ts v2. admitted_tags push_setting [push_command] v1 = (Inr ts, v2) \<and>
     inspected_in_run push_setting [push_command] v1 ts v2 push_command ''v1.0.0''"
proof -
  have tag: "CanonicalTagFromRef (rc_RefName push_command) = Some ''v1.0.0''" "\<not> allZeroObjectID (rc_NewObjectID push_command)" by code_simp+
  from pushed_tags_are_inspected [OF push_demo push_run pushed_refs(2)]
  obtain features rest cs v1 ts v2 where request: "session_opening (push_of push_command) = Inr (features, rest)" "session_commands features rest = Inr cs"
    and inspected: "admitted_tags push_setting cs v1 = (Inr ts, v2)"
      "\<forall>c tag. c \<in> set cs \<longrightarrow> CanonicalTagFromRef (rc_RefName c) = Some tag \<longrightarrow> \<not> allZeroObjectID (rc_NewObjectID c) \<longrightarrow>
         inspected_in_run push_setting cs v1 ts v2 c tag"
    by (elim exE conjE)
  from request push_request have "cs = [push_command]" by simp
  with inspected(1) inspected(2) [rule_format, OF _ tag] show ?thesis by auto
qed

section \<open>A push that is left open\<close>

text \<open>Beside the tag, a branch that is neither there nor created: the preparation stays, and nothing is finalized.\<close>

definition empty_command :: receive_command where
  "empty_command =
     \<lparr>rc_OldObjectID = replicate 40 CHR ''0'', rc_NewObjectID = replicate 40 CHR ''0'', rc_RefName = ''refs/heads/none''\<rparr>"

lemma empty_command_ok: "command_ok ObjectFormatSHA1 empty_command" "no_op empty_command" "CanonicalTagFromRef (rc_RefName empty_command) = None"
  "command_line empty_command \<noteq> []" "length (command_line empty_command) < scanner_limit" "length (command_line empty_command) \<le> 65515"
  "\<not> strings_ContainsAny (command_line empty_command) [CHR 0x00, CHR 0x0D, CHR 0x0A]"
proof -
  show "command_ok ObjectFormatSHA1 empty_command" "no_op empty_command" "CanonicalTagFromRef (rc_RefName empty_command) = None" by code_simp+
  show "command_line empty_command \<noteq> []" "length (command_line empty_command) < scanner_limit" "length (command_line empty_command) \<le> 65515"
    by (simp_all add: command_line_def empty_command_def scanner_limit_def)
  show "\<not> strings_ContainsAny (command_line empty_command) [CHR 0x00, CHR 0x0D, CHR 0x0A]" by code_simp
qed

lemma empty_prepared:
  "lifecycle_Prepare push_setting [empty_command] push_world = (Inr (\<lparr>co_pluginID = ''plugin-1'', co_sessionID = ''session-1''\<rparr>, no_batch), push_world)"
  by (simp add: lifecycle_Prepare_def push_setting_def push_opened closing_on_error_def attempt_def map_error_def bindE_def return_def
      empty_command_ok Prepare_def loadSession_def push_reads push_tables first_row_def no_batch_def)

theorem no_op_command_skips_finalization_witness:
  "\<exists>out w'. RunCoordinatedProcReceiveSession (update_ref_stdin ''plugin-1'') (protected_lifecycle push_setting) (push_of empty_command) push_world =
       (Inr out, w') \<and> so_Error out \<noteq> None \<and> w_db w' = w_db push_world"
proof -
  obtain r w' where run: "RunCoordinatedProcReceiveSession (update_ref_stdin ''plugin-1'') (protected_lifecycle push_setting)
      (push_of empty_command) push_world = (r, w')" by (meson surj_pair)
  have io: "w_io push_world = []" by (simp add: push_world_def link_world_def demo_world_def)
  have prepared: "lc_Prepare (protected_lifecycle push_setting) [empty_command] push_world =
      (Inr (\<lparr>co_pluginID = ''plugin-1'', co_sessionID = ''session-1''\<rparr>, no_batch), push_world)"
    by (simp add: protected_lifecycle_def empty_prepared)
  have "\<exists>c \<in> set [empty_command]. no_op c" using empty_command_ok(2) by simp
  from no_op_command_skips_finalization [OF push_of_request [OF empty_command_ok(1,4-7)] this io prepared run] run show ?thesis by auto
qed

end
