(* ===== verification/Spec2Isabelle.thy ===== *)
theory Spec2Isabelle imports IdentityProps TeamProps Authentication ProtocolProps LockProps PluginProps PublicationProps MarketProps UserMarketplaceProps ReceiveSessionProps begin

text \<open>
  A verification development for the marketplace server, a Go program that hosts Claude plugin
  repositories over Git, publishes tagged versions of them and distributes them as marketplaces.

  \<^bold>\<open>The program and its model.\<close> The server keeps its state in a SQL database and in bare Git
  repositories on disk. Requests reach services, which check an authorization policy and run
  statements and transactions through data access objects. The model is a shallow embedding: a table
  is a list of records, the database \<open>db\<close> a record of tables, and every operation of the code is a
  program \<open>world \<Rightarrow> (err + 'a) \<times> world\<close> built from \<open>return\<close>, \<open>fail\<close>, \<open>bindE\<close>, \<open>attempt\<close> and the
  statements of \<open>World\<close>. A schedule of faults in the world makes any statement fail, another one any
  call of the file system or of git; theorems hold for all schedules. Clock, identifiers, Unicode
  case mapping, UUID syntax, and the cryptographic functions are parameters.

  \<^bold>\<open>Theories and the code they model\<close> (paths under \<open>src/\<close>).

  \<^item> \<open>Prelude\<close>: error values, tables as lists, pages, the collections \<open>prog_iff\<close> (outcomes of
    programs), \<open>read_only\<close> and \<open>stable_progs\<close> (frames).
  \<^item> \<open>GoStrings\<close>, \<open>GoBase64\<close>, \<open>Regex\<close>: the parts of Go's \<open>strings\<close>, \<open>unicode/utf8\<close>, \<open>strconv\<close>,
    \<open>encoding/base64\<close> and \<open>regexp\<close> the program uses. Patterns are matched by derivatives, proved equal
    to the language of the pattern.
  \<^item> \<open>AuthContracts\<close>, \<open>Credentials\<close>: \<open>pkg/auth\<close>: principals, scopes, API keys, password hashes.
  \<^item> \<open>IdentityModel\<close>, \<open>IdentityDao\<close>, \<open>TeamDao\<close>: \<open>mod/backend/domain/identity/model\<close> and \<open>dao\<close>: users,
    namespaces, groups, tokens, Teams and invitations, with bootstrap and every transaction.
  \<^item> \<open>Policy\<close>, \<open>PolicyFacts\<close>: \<open>mod/backend/domain/authorization\<close>: the decision, the reading of its
    facts, and its access rules as the inductive relation \<open>granted\<close>. They are those of \<open>policy.go\<close>; the
    documents also give \<open>marketplace.read\<close> to every role in a Team, which the code does not.
  \<^item> \<open>UserService\<close>, \<open>TeamService\<close>, \<open>TokenService\<close>: \<open>mod/backend/domain/identity/service\<close>.
  \<^item> \<open>PluginModel\<close>, \<open>DistributionModel\<close>, \<open>World\<close>: the rows of the Plugin and distribution domains, the
    database, the storage and the program combinators.
  \<^item> \<open>PluginDao\<close>, \<open>PluginService\<close>, \<open>PluginPublish\<close>, \<open>PluginLifecycle\<close>: \<open>mod/backend/domain/plugin\<close>:
    the aggregate, the lifecycle service, publication, and the abstract lifecycle they refine.
  \<^item> \<open>DistributionDao\<close>, \<open>MarketplaceKey\<close>, \<open>MarketplaceJson\<close>, \<open>GoUrl\<close>, \<open>PublicationService\<close>:
    \<open>mod/backend/domain/distribution\<close> and \<open>pkg/marketplacejson\<close>: the statements of publications, public
    keys, the document with its validation and JSON text, the part of \<open>net/url\<close> origins go through,
    publication with its compensation, rollback, and the resolution of what is served.
  \<^item> \<open>UserMarketplace\<close>: the marketplace of a user (\<open>user_marketplace_service.go\<close> and its repository), made of the
    greatest released versions of the personal namespace; the documents promise all Plugins the user can
    read, and only their default versions.
  \<^item> \<open>SourceTree\<close>, \<open>PluginSource\<close>: the inspection of the source of a tag (\<open>mod/git/plugin_source.go\<close>):
    paths, links, the directory that is written, and the manifest.
  \<^item> \<open>KeyedLocks\<close>: the per-Plugin locks of \<open>service.go\<close> and \<open>effect_lock.go\<close> as a transition system over
    the positions of goroutines.
  \<^item> \<open>GitStorage\<close>: repositories, receipts and projections on disk (\<open>mod/git/service.go\<close>).
  \<^item> \<open>ReceiveCommands\<close>, \<open>ReceiveProtocol\<close>: the wire formats of a push (\<open>mod/git/receive.go\<close>).
  \<^item> \<open>ReceiveSession\<close>: the session of a push around them: the admission of its commands, the protected
    lifecycle that prepares and resolves a batch, the change of the refs and the report to the client.
  \<^item> \<open>ReceiveDao\<close>, \<open>ReceiveCoordinator\<close>, \<open>ReceiveResolve\<close>: the two-phase coordination of a push that
    moves or deletes the tag of a published version (\<open>plugin/receive\<close>), and the collector.
  \<^item> \<open>Recovery\<close>: the maintenance after a crash (\<open>plugin/recovery\<close>).

  \<^bold>\<open>Interfaces.\<close> \<open>identity_invariant\<close> (\<open>ServiceContract\<close>), \<open>plugin_rows\<close> with \<open>plugin_store\<close> (\<open>PluginContract\<close>) and
  \<open>publication_frame\<close> (\<open>MarketContract\<close>) say what a property of the database has to satisfy to be kept
  by every statement a domain sends; each proves once that every operation and every step keeps it.
  \<open>plugin_rows\<close> does so for a given set of lifecycle moves, and shows which requests need which moves;
  \<open>plugin_store\<close> is the case of all of them.
  They are interpreted on the integrity of the identity tables (\<open>IdentitySystem\<close>), on that of the Plugin
  tables (\<open>PluginInvariant\<close>), across the three domains (\<open>ServerInvariant\<close>), on what publications have
  recorded (\<open>PublicationRuns\<close>), on the growth of the records and on the lifecycle (\<open>ServerProps\<close>), and on
  settled invitations and revoked tokens (\<open>Lifecycles\<close>, with the frame \<open>other_tables_frame\<close>). \<open>state_reader\<close> (\<open>Policy\<close>) is what the decision needs of the facts it
  reads.

  \<^bold>\<open>Properties.\<close> \<open>IdentityProps\<close>, \<open>TeamProps\<close> and \<open>Authentication\<close>: an active administrator and the owner
  of a Team always remain, failed operations change nothing, closed invitations and revoked tokens
  stay so, the policy is exactly \<open>granted\<close>, and a successful authentication is justified by the
  database. \<open>PluginProps\<close>: integrity of the Plugin tables, one repository per Plugin, deliverable
  default versions, permanent records, and the refinement of the lifecycle, where each request makes
  the move of its event and nothing else moves a Plugin. \<open>PublicationProps\<close>: archiving and
  restoring, immutability of available versions. \<open>MarketProps\<close>, over \<open>MarketInvariant\<close>, \<open>MarketServing\<close>,
  \<open>PublicationOnce\<close> and \<open>PublicationRuns\<close>: what is published is what is served, a rollback serves the named revision,
  a failure serves what was served, no version is published twice, the pointers of a marketplace
  agree in every run, and public keys are canonical. \<open>UserMarketplaceProps\<close>: the marketplace of a user
  is exact, and is only given to administrators. \<open>PluginSourceProps\<close>: a source that is inspected is
  within bounds, its links stay inside it, and its manifest is one of its files. \<open>LockProps\<close>: exclusion,
  exactness of the lock map, and release under every interleaving. \<open>ProtocolProps\<close>: round trips of
  commands and pkt-lines, the transaction of accepted commands, agreement of the three
  classifications of observed refs. \<open>ReceiveSessionProps\<close>: the report of a push follows the refs, every
  canonical tag of a push was inspected in its session before a ref changed, and a command that names
  no object leaves the preparation unresolved.

  \<^bold>\<open>Bounds and termination.\<close> Nearly every modelled loop is structural recursion over the list the code
  iterates or over the input it scans. The resolution of links terminates by the number of links
  that may be followed, 255 in Go and 40 in the kernel, then by the components left. Go's \<open>int\<close> is an
  integer with \<open>wrap64\<close> where a product can overflow, generations are \<open>64 word\<close>. The demonstration runs
  start from an empty database and its bootstrap.

  \<^bold>\<open>Not modelled.\<close> HTTP handlers and start-up wiring (third-party frameworks around the services),
  JWT signatures (a third-party library), the smart HTTP transport, processes and goroutines of a
  receive session, cancellation of contexts outside the locks, the validation of profiles
  (\<open>plugin_profile.go\<close>, a parameter of the inspection), the builders of projections (parameters of
  publication and of the receive coordinator) and the browsing of repositories. Operations run one at
  a time on the database, as the locks and transactions of the code make them; \<open>LockProps\<close> shows the
  exclusion inside one process.
\<close>

end
